(* ===== verification/Prelude.thy ===== *)
theory Prelude
  imports Complex_Main "HOL-Library.AList" "HOL-Library.List_Lexorder" "HOL-Library.Char_ord"
begin

text \<open>
  Shared vocabulary of the development.

  \<^item> \<open>prog\<close> is the effect type of every use case: a Python coroutine that reads and
    writes the server's stores and leaves either by an early \<open>return error\<close>
    (\<open>Inl\<close>) or with its value (\<open>Inr\<close>).  The state survives an early return, as
    the writes made before a Python \<open>return\<close> do.
  \<^item> \<open>moves R m\<close> says that every run of \<open>m\<close> relates the state before to the state
    after by \<open>R\<close>; with \<open>R\<close> an equality of projections it is a frame property, with
    \<open>R\<close> an implication it is an invariant, with \<open>R\<close> an order it is monotonicity.
  \<^item> the rest are the operations of Python's \<open>str\<close> and \<open>dict\<close> the sources call.
    Strings are sequences of Isabelle characters, read as the code points 0 to 255.
\<close>

named_theorems prog_simps \<open>equations for the outcome of a composed program\<close>
named_theorems run_simps \<open>symbolic execution of the elementary programs\<close>
named_theorems prog_defs \<open>the elementary programs\<close>
named_theorems moves_intros \<open>a program stays within a relation on states\<close>

type_synonym str = string
type_synonym ('s, 'e, 'a) prog = "'s \<Rightarrow> ('e + 'a) \<times> 's"

subsection \<open>Programs with early return\<close>

definition ok :: "'a \<Rightarrow> ('s, 'e, 'a) prog" where
  "ok x = (\<lambda>s. (Inr x, s))"

definition raise :: "'e \<Rightarrow> ('s, 'e, 'a) prog" where
  "raise e = (\<lambda>s. (Inl e, s))"

definition andthen :: "('s, 'e, 'a) prog \<Rightarrow> ('a \<Rightarrow> ('s, 'e, 'b) prog) \<Rightarrow> ('s, 'e, 'b) prog" where
  "andthen m f = (\<lambda>s. case m s of (Inl e, s') \<Rightarrow> (Inl e, s') | (Inr x, s') \<Rightarrow> f x s')"

definition peek :: "('s \<Rightarrow> 'a) \<Rightarrow> ('s, 'e, 'a) prog" where
  "peek f = (\<lambda>s. (Inr (f s), s))"

definition modify :: "('s \<Rightarrow> 's) \<Rightarrow> ('s, 'e, unit) prog" where
  "modify f = (\<lambda>s. (Inr (), f s))"

definition ensure :: "bool \<Rightarrow> 'e \<Rightarrow> ('s, 'e, unit) prog" where
  "ensure b e = (if b then ok () else raise e)"

definition lift :: "'e + 'a \<Rightarrow> ('s, 'e, 'a) prog" where
  "lift r = (\<lambda>s. (r, s))"

lemmas prog_elementary [prog_defs] = ok_def raise_def peek_def modify_def ensure_def lift_def

lemma andthen_Inr [prog_simps]:
  "andthen m f s = (Inr y, t) \<longleftrightarrow> (\<exists>x u. m s = (Inr x, u) \<and> f x u = (Inr y, t))"
  by (auto simp: andthen_def split: prod.splits sum.splits)

lemma andthen_Inl [prog_simps]:
  "andthen m f s = (Inl e, t) \<longleftrightarrow>
     m s = (Inl e, t) \<or> (\<exists>x u. m s = (Inr x, u) \<and> f x u = (Inl e, t))"
  by (auto simp: andthen_def split: prod.splits sum.splits)

lemma andthen_run [simp]:
  "m s = (Inr x, u) \<Longrightarrow> andthen m f s = f x u"
  "m s = (Inl e, u) \<Longrightarrow> andthen m f s = (Inl e, u)"
  by (simp_all add: andthen_def)

lemma ok_iff [prog_simps]: "ok x s = (r, t) \<longleftrightarrow> r = Inr x \<and> t = s"
  by (auto simp: ok_def)

lemma raise_iff [prog_simps]: "raise e s = (r, t) \<longleftrightarrow> r = Inl e \<and> t = s"
  by (auto simp: raise_def)

lemma peek_iff [prog_simps]: "peek f s = (r, t) \<longleftrightarrow> r = Inr (f s) \<and> t = s"
  by (auto simp: peek_def)

lemma modify_iff [prog_simps]: "modify f s = (r, t) \<longleftrightarrow> r = Inr () \<and> t = f s"
  by (auto simp: modify_def)

lemma ensure_iff [prog_simps]:
  "ensure b e s = (r, t) \<longleftrightarrow> r = (if b then Inr () else Inl e) \<and> t = s"
  by (auto simp: ensure_def ok_def raise_def)

lemma lift_iff [prog_simps]: "lift r' s = (r, t) \<longleftrightarrow> r' = r \<and> t = s"
  by (auto simp: lift_def)

lemma andthen_case_sum:
  "andthen m (\<lambda>x. case x of Inl e \<Rightarrow> f e | Inr y \<Rightarrow> g y) s = (r, t) \<longleftrightarrow>
     (\<exists>d. m s = (Inl d, t) \<and> r = Inl d) \<or> (\<exists>e u. m s = (Inr (Inl e), u) \<and> f e u = (r, t))
     \<or> (\<exists>y u. m s = (Inr (Inr y), u) \<and> g y u = (r, t))"
  by (auto simp: andthen_def split: prod.splits sum.splits)

lemma andthen_case_option:
  "andthen m (\<lambda>x. case x of None \<Rightarrow> f | Some y \<Rightarrow> g y) s = (r, t) \<longleftrightarrow>
     (\<exists>d. m s = (Inl d, t) \<and> r = Inl d) \<or> (\<exists>u. m s = (Inr None, u) \<and> f u = (r, t))
     \<or> (\<exists>y u. m s = (Inr (Some y), u) \<and> g y u = (r, t))"
  by (auto simp: andthen_def split: prod.splits sum.splits option.splits)

lemma andthen_assoc: "andthen (andthen m f) g = andthen m (\<lambda>x. andthen (f x) g)"
  by (auto simp: andthen_def fun_eq_iff split: prod.splits sum.splits)

lemma andthen_ok [simp]: "andthen (ok x) f = f x"
  by (simp add: andthen_def ok_def)

lemma andthen_raise [simp]: "andthen (raise e) f = raise e"
  by (simp add: andthen_def raise_def)

lemma andthen_elementary [run_simps]:
  "andthen (ensure b e) f s = (if b then f () s else (Inl e, s))"
  "andthen (peek h) k s = k (h s) s"
  "andthen (modify t) g s = g () (t s)"
  "andthen (lift r) m s = (case r of Inl d \<Rightarrow> (Inl d, s) | Inr x \<Rightarrow> m x s)"
  "ok y s = (Inr y, s)" "raise c s = (Inl c, s)"
  by (simp_all add: andthen_def prog_defs split: sum.splits)

text \<open>The same for a pure validator, whose result is an error or a value.\<close>

definition checked :: "'e + 'a \<Rightarrow> ('a \<Rightarrow> 'e + 'b) \<Rightarrow> 'e + 'b" where
  "checked r f = (case r of Inl e \<Rightarrow> Inl e | Inr x \<Rightarrow> f x)"

lemma checked_Inr [prog_simps]: "checked r f = Inr y \<longleftrightarrow> (\<exists>x. r = Inr x \<and> f x = Inr y)"
  by (cases r) (auto simp: checked_def)

lemma checked_run [simp]: "checked (Inl e) f = Inl e" "checked (Inr x) f = f x"
  by (simp_all add: checked_def)

subsection \<open>What a program does to the state\<close>

definition moves :: "('s \<Rightarrow> 's \<Rightarrow> bool) \<Rightarrow> ('s, 'e, 'a) prog \<Rightarrow> bool" where
  "moves R m \<longleftrightarrow> (\<forall>s. R s (snd (m s)))"

lemma movesD: "moves R m \<Longrightarrow> m s = (r, t) \<Longrightarrow> R s t"
  by (metis moves_def snd_conv)

lemma moves_andthen [moves_intros]:
  assumes "transp R" and "moves R m" and "\<And>x. moves R (f x)"
  shows "moves R (andthen m f)"
proof (unfold moves_def, rule allI)
  fix s
  obtain r u where run: "m s = (r, u)" by fastforce
  from assms(2) run have first: "R s u" by (rule movesD)
  show "R s (snd (andthen m f s))"
  proof (cases r)
    case (Inl e)
    with run first show ?thesis by simp
  next
    case (Inr x)
    from assms(3) have "R u (snd (f x u))" by (simp add: moves_def)
    with assms(1) first have "R s (snd (f x u))" by (rule transpD)
    with run Inr show ?thesis by simp
  qed
qed

lemma moves_found:
  assumes "transp R" and "moves R m" and "\<And>w x u. m w = (Inr x, u) \<Longrightarrow> R u (snd (f x u))"
  shows "moves R (andthen m f)"
proof (unfold moves_def, rule allI)
  fix w
  obtain res u where run: "m w = (res, u)" by fastforce
  with assms(2) have first: "R w u" by (rule movesD)
  with run assms(1,3) show "R w (snd (andthen m f w))"
    by (cases res) (auto elim: transpE)
qed

lemma moves_pure [moves_intros]:
  assumes "reflp R"
  shows "moves R (ok x)" "moves R (raise e)" "moves R (peek f)" "moves R (ensure b e)"
    "moves R (lift r)"
  using assms by (auto simp: moves_def prog_defs reflp_def)

lemma moves_modify: "(\<And>s. R s (f s)) \<Longrightarrow> moves R (modify f)"
  by (simp add: moves_def modify_def)

lemma moves_if [moves_intros]: "moves R m \<Longrightarrow> moves R n \<Longrightarrow> moves R (if b then m else n)"
  by simp

lemma moves_case_option [moves_intros]:
  "moves R m \<Longrightarrow> (\<And>x. moves R (f x)) \<Longrightarrow> moves R (case v of None \<Rightarrow> m | Some x \<Rightarrow> f x)"
  by (cases v) auto

lemma moves_case_sum [moves_intros]:
  "(\<And>x. moves R (f x)) \<Longrightarrow> (\<And>x. moves R (g x)) \<Longrightarrow>
   moves R (case v of Inl x \<Rightarrow> f x | Inr x \<Rightarrow> g x)"
  by (cases v) auto

lemma moves_case_prod [moves_intros]:
  "(\<And>x y. moves R (f x y)) \<Longrightarrow> moves R (case v of (x, y) \<Rightarrow> f x y)"
  by (cases v) auto

lemma moves_let [moves_intros]: "moves R (f v) \<Longrightarrow> moves R (let x = v in f x)"
  by simp

text \<open>The relation "this projection of the state is unchanged".\<close>

definition same :: "('s \<Rightarrow> 'x) \<Rightarrow> 's \<Rightarrow> 's \<Rightarrow> bool" where
  "same f s t \<longleftrightarrow> f t = f s"

lemma same_order [moves_intros]: "transp (same f)" "reflp (same f)"
  by (auto simp: same_def transp_def reflp_def)

text \<open>The relation "this property of the state is kept".\<close>

definition kept :: "('s \<Rightarrow> bool) \<Rightarrow> 's \<Rightarrow> 's \<Rightarrow> bool" where
  "kept P s t \<longleftrightarrow> (P s \<longrightarrow> P t)"

lemma kept_order [moves_intros]: "transp (kept P)" "reflp (kept P)"
  by (auto simp: kept_def transp_def reflp_def)

lemma moves_mono: "moves R m \<Longrightarrow> (\<And>s t. R s t \<Longrightarrow> Q s t) \<Longrightarrow> moves Q m"
  by (auto simp: moves_def)

subsection \<open>Python strings\<close>

definition is_space :: "char \<Rightarrow> bool" where
  "is_space c = (let n = (of_char c :: nat) in
     (9 \<le> n \<and> n \<le> 13) \<or> (28 \<le> n \<and> n \<le> 32) \<or> n = 133 \<or> n = 160)"

fun split_words :: "str \<Rightarrow> str \<Rightarrow> str list" where
  "split_words acc [] = (if acc = [] then [] else [rev acc])"
| "split_words acc (c # cs) =
     (if is_space c then (if acc = [] then split_words [] cs else rev acc # split_words [] cs)
      else split_words (c # acc) cs)"

definition py_split :: "str \<Rightarrow> str list" where
  "py_split s = split_words [] s"

definition py_strip :: "str \<Rightarrow> str" where
  "py_strip s = rev (dropWhile is_space (rev (dropWhile is_space s)))"

definition rstrip_slash :: "str \<Rightarrow> str" where
  "rstrip_slash s = rev (dropWhile (\<lambda>c. c = CHR 0x2F) (rev s))"

fun join_with :: "str \<Rightarrow> str list \<Rightarrow> str" where
  "join_with sep [] = []"
| "join_with sep [x] = x"
| "join_with sep (x # y # zs) = x @ sep @ join_with sep (y # zs)"

definition starts_with :: "str \<Rightarrow> str \<Rightarrow> bool" where
  "starts_with p s = (take (length p) s = p)"

fun contains_str :: "str \<Rightarrow> str \<Rightarrow> bool" where
  "contains_str p [] = (p = [])"
| "contains_str p (c # cs) = (starts_with p (c # cs) \<or> contains_str p cs)"

lemma starts_with_iff: "starts_with p s \<longleftrightarrow> (\<exists>b. s = p @ b)"
  unfolding starts_with_def by (metis append_eq_conv_conj append_take_drop_id)

lemma contains_str_iff: "contains_str p s \<longleftrightarrow> (\<exists>a b. s = a @ p @ b)"
proof (induction s)
  case (Cons c cs)
  have "(\<exists>a b. c # cs = a @ p @ b) \<longleftrightarrow>
      (\<exists>b. c # cs = p @ b) \<or> (\<exists>a b. cs = a @ p @ b)"
    by (metis append_Cons append_Nil list.exhaust list.inject)
  with Cons show ?case by (simp add: starts_with_iff)
qed auto

text \<open>
  Character classes and case mapping of \<open>str\<close> on code points 0 to 255.  The images of
  code points 181 and 255 under \<open>upper\<close> lie outside this range; the model leaves them
  alone (neither is a letter or digit of ASCII).  \<open>upper\<close> maps 223 to two letters.
\<close>

definition is_upper :: "char \<Rightarrow> bool" where
  "is_upper c = (let n = (of_char c :: nat) in
     (65 \<le> n \<and> n \<le> 90) \<or> (192 \<le> n \<and> n \<le> 214) \<or> (216 \<le> n \<and> n \<le> 222))"

definition is_lower :: "char \<Rightarrow> bool" where
  "is_lower c = (let n = (of_char c :: nat) in
     (97 \<le> n \<and> n \<le> 122) \<or> n = 170 \<or> n = 181 \<or> n = 186 \<or>
     (223 \<le> n \<and> n \<le> 246) \<or> (248 \<le> n \<and> n \<le> 255))"

definition is_digit :: "char \<Rightarrow> bool" where
  "is_digit c = (let n = (of_char c :: nat) in
     (48 \<le> n \<and> n \<le> 57) \<or> n = 178 \<or> n = 179 \<or> n = 185)"

definition is_alnum :: "char \<Rightarrow> bool" where
  "is_alnum c = (let n = (of_char c :: nat) in
     is_upper c \<or> is_lower c \<or> is_digit c \<or> (188 \<le> n \<and> n \<le> 190))"

definition is_ascii :: "char \<Rightarrow> bool" where
  "is_ascii c = ((of_char c :: nat) < 128)"

definition upper_char :: "char \<Rightarrow> str" where
  "upper_char c = (let n = (of_char c :: nat) in
     if (97 \<le> n \<and> n \<le> 122) \<or> (224 \<le> n \<and> n \<le> 246) \<or> (248 \<le> n \<and> n \<le> 254)
     then [char_of (n - 32)] else if n = 223 then ''SS'' else [c])"

definition lower_char :: "char \<Rightarrow> char" where
  "lower_char c = (let n = (of_char c :: nat) in if is_upper c then char_of (n + 32) else c)"

definition py_upper :: "str \<Rightarrow> str" where
  "py_upper s = concat (map upper_char s)"

definition py_lower :: "str \<Rightarrow> str" where
  "py_lower s = map lower_char s"

function str_of_nat :: "nat \<Rightarrow> str" where
  "str_of_nat n = (if n < 10 then [char_of (48 + n)]
     else str_of_nat (n div 10) @ [char_of (48 + n mod 10)])"
  by pat_completeness auto
termination by (relation "measure id") auto

declare str_of_nat.simps [simp del]

definition str_of_int :: "int \<Rightarrow> str" where
  "str_of_int i = (if i < 0 then CHR 0x2D # str_of_nat (nat (- i)) else str_of_nat (nat i))"

text \<open>\<open>sorted(set)\<close>: the elements in code-point order.\<close>

definition sorted_strs :: "str set \<Rightarrow> str list" where
  "sorted_strs S = sorted_list_of_set S"

fun split_on :: "char \<Rightarrow> str \<Rightarrow> str list" where
  "split_on c [] = [[]]"
| "split_on c (x # xs) =
     (case split_on c xs of
        [] \<Rightarrow> [[x]]
      | s # ss \<Rightarrow> if x = c then [] # s # ss else (x # s) # ss)"

text \<open>\<open>repr\<close> of a string of code points below 256.\<close>

definition hex_digit :: "nat \<Rightarrow> char" where
  "hex_digit n = ''0123456789abcdef'' ! n"

definition repr_char :: "char \<Rightarrow> char \<Rightarrow> str" where
  "repr_char q c =
     (let n = (of_char c :: nat) in
      if c = q \<or> n = 92 then [char_of (92 :: nat), c]
      else if n = 10 then [char_of (92 :: nat), CHR ''n'']
      else if n = 13 then [char_of (92 :: nat), CHR ''r'']
      else if n = 9 then [char_of (92 :: nat), CHR ''t'']
      else if n < 32 \<or> 127 \<le> n \<and> n \<le> 160 \<or> n = 173
      then [char_of (92 :: nat), CHR ''x'', hex_digit (n div 16), hex_digit (n mod 16)]
      else [c])"

definition py_repr :: "str \<Rightarrow> str" where
  "py_repr s =
     (let apostrophe = char_of (39 :: nat); quotes = char_of (34 :: nat);
          q = (if apostrophe \<in> set s \<and> quotes \<notin> set s then quotes else apostrophe)
      in [q] @ concat (map (repr_char q) s) @ [q])"

text \<open>\<open>$\<close> in a regular expression also matches before a final line feed.\<close>

definition without_final_newline :: "str \<Rightarrow> str" where
  "without_final_newline s = (if s \<noteq> [] \<and> (of_char (last s) :: nat) = 10 then butlast s else s)"

subsection \<open>Python dictionaries (insertion-ordered)\<close>

abbreviation dict_get :: "('k \<times> 'v) list \<Rightarrow> 'k \<Rightarrow> 'v option" where
  "dict_get d k \<equiv> map_of d k"

abbreviation dict_set :: "'k \<Rightarrow> 'v \<Rightarrow> ('k \<times> 'v) list \<Rightarrow> ('k \<times> 'v) list" where
  "dict_set k v d \<equiv> AList.update k v d"

abbreviation dict_pop :: "'k \<Rightarrow> ('k \<times> 'v) list \<Rightarrow> ('k \<times> 'v) list" where
  "dict_pop k d \<equiv> AList.delete k d"

definition dict_values :: "('k \<times> 'v) list \<Rightarrow> 'v list" where
  "dict_values d = map snd d"

fun dict_update :: "('k \<times> 'v) list \<Rightarrow> ('k \<times> 'v) list \<Rightarrow> ('k \<times> 'v) list" where
  "dict_update [] d = d"
| "dict_update ((k, v) # kvs) d = dict_update kvs (dict_set k v d)"

definition setdefault :: "'k \<Rightarrow> 'v \<Rightarrow> ('k \<times> 'v) list \<Rightarrow> ('k \<times> 'v) list" where
  "setdefault k v d = (if map_of d k = None then d @ [(k, v)] else d)"

fun setdefault_all :: "('k \<times> 'v) list \<Rightarrow> ('k \<times> 'v) list \<Rightarrow> ('k \<times> 'v) list" where
  "setdefault_all [] d = d"
| "setdefault_all ((k, v) # kvs) d = setdefault_all kvs (setdefault k v d)"

lemma dict_get_set [simp]: "dict_get (dict_set k v d) = (dict_get d)(k \<mapsto> v)"
  by (rule AList.update_conv')

lemma dict_update_get:
  "distinct (map fst kvs) \<Longrightarrow>
     map_of (dict_update kvs d) k = (case map_of kvs k of Some v \<Rightarrow> Some v | None \<Rightarrow> map_of d k)"
proof (induction kvs d rule: dict_update.induct)
  case (2 a v kvs d)
  then have "map_of kvs a = None" by (simp add: map_of_eq_None_iff)
  with 2 show ?case by (auto split: option.splits)
qed simp

lemma map_of_filter_keys: "map_of (filter (\<lambda>(k, _). P k) d) k = (if P k then map_of d k else None)"
  by (induction d) auto

lemma dict_get_pop [simp]: "dict_get (dict_pop k d) = (dict_get d)(k := None)"
  by (rule AList.delete_conv')

lemma setdefault_get [simp]:
  "map_of (setdefault k v d) j = (if map_of d j = None \<and> j = k then Some v else map_of d j)"
  by (auto simp: setdefault_def map_add_def split: option.splits)

lemma setdefault_all_keeps: "map_of d j = Some x \<Longrightarrow> map_of (setdefault_all kvs d) j = Some x"
  by (induction kvs d rule: setdefault_all.induct) auto

lemma setdefault_all_new:
  "map_of d j = None \<Longrightarrow> map_of (setdefault_all kvs d) j = map_of kvs j"
proof (induction kvs d rule: setdefault_all.induct)
  case (2 k v kvs d)
  then show ?case by (cases "j = k") (auto intro: setdefault_all_keeps)
qed simp

text \<open>\<open>dict.fromkeys\<close> on a sequence, and membership-tested appends: keep the first of each.\<close>

fun dedup_from :: "'a list \<Rightarrow> 'a list \<Rightarrow> 'a list" where
  "dedup_from seen [] = []"
| "dedup_from seen (x # xs) =
     (if x \<in> set seen then dedup_from seen xs else x # dedup_from (x # seen) xs)"

definition dedup :: "'a list \<Rightarrow> 'a list" where
  "dedup xs = dedup_from [] xs"

lemma set_dedup_from: "set (dedup_from seen xs) = set xs - set seen"
  by (induction seen xs rule: dedup_from.induct) auto

lemma set_dedup [simp]: "set (dedup xs) = set xs"
  by (simp add: dedup_def set_dedup_from)

lemma distinct_dedup_from: "distinct (dedup_from seen xs)"
  by (induction seen xs rule: dedup_from.induct) (auto simp: set_dedup_from)

lemma distinct_dedup [simp]: "distinct (dedup xs)"
  by (simp add: dedup_def distinct_dedup_from)

lemma dedup_from_distinct: "distinct xs \<Longrightarrow> set xs \<inter> set seen = {} \<Longrightarrow> dedup_from seen xs = xs"
  by (induction seen xs rule: dedup_from.induct) auto

lemma dedup_distinct [simp]: "distinct xs \<Longrightarrow> dedup xs = xs"
  by (simp add: dedup_def dedup_from_distinct)

subsection \<open>JSON values, as Python's \<open>json\<close> module decodes them\<close>

datatype json =
    JNull
  | JBool bool
  | JInt int
  | JFloat rat
  | JStr str
  | JList "json list"
  | JObj "(str \<times> json) list"

fun is_JObj :: "json \<Rightarrow> bool" where
  "is_JObj (JObj _) = True"
| "is_JObj _ = False"

fun json_str :: "json \<Rightarrow> str option" where
  "json_str (JStr s) = Some s"
| "json_str _ = None"

text \<open>\<open>dict.get\<close> on decoded JSON: an absent member and \<open>null\<close> are both \<open>None\<close>.\<close>

definition jget :: "(str \<times> json) list \<Rightarrow> str \<Rightarrow> json option" where
  "jget d k = (case map_of d k of Some JNull \<Rightarrow> None | r \<Rightarrow> r)"

text \<open>A claim read with an \<open>isinstance(value, str)\<close> test.\<close>

definition jget_str :: "(str \<times> json) list \<Rightarrow> str \<Rightarrow> str option" where
  "jget_str d k = (case map_of d k of Some (JStr s) \<Rightarrow> Some s | _ \<Rightarrow> None)"

lemma jget_str_iff: "jget_str d k = Some s \<longleftrightarrow> map_of d k = Some (JStr s)"
  by (auto simp: jget_str_def split: option.splits json.splits)

text \<open>Truth of a value of \<open>json\<close> in Python.\<close>

fun json_true :: "json \<Rightarrow> bool" where
  "json_true JNull = False"
| "json_true (JBool b) = b"
| "json_true (JInt i) = (i \<noteq> 0)"
| "json_true (JFloat q) = (q \<noteq> 0)"
| "json_true (JStr s) = (s \<noteq> [])"
| "json_true (JList vs) = (vs \<noteq> [])"
| "json_true (JObj d) = (d \<noteq> [])"

subsection \<open>Failures of a use case\<close>

text \<open>
  \<open>Refused error description\<close> is an error object of the use case (an OAuth error code and its
  text); \<open>Uncaught name\<close> is a Python exception that leaves the use case, which the HTTP layer
  answers with status 500.
\<close>

datatype failure = Refused str str | Uncaught str

fun refusal :: "failure \<Rightarrow> str" where
  "refusal (Refused e _) = e"
| "refusal (Uncaught _) = ''server_error''"

end
