(* ===== verification/PasswordPolicy.thy ===== *)
theory PasswordPolicy
  imports Prelude
begin

text \<open>
  The password policy of the login accounts (\<open>domain/password_policy.py\<close>): the policy
  record and its partial override, the strict construction of an override from a
  configuration table, the merge, and the validator with its run detectors.
  Messages keep the source's wording without accents.
\<close>

definition max_length_cap :: int where "max_length_cap = 1024"
definition max_history :: int where "max_history = 20"
definition sequence_min_run :: nat where "sequence_min_run = 4"

definition keyboard_rows :: "str list" where
  "keyboard_rows = [''qwertyuiop'', ''asdfghjkl'', ''zxcvbnm'', ''azertyuiop'', ''qsdfghjklm'', ''wxcvbn'']"

definition common_passwords :: "str list" where
  "common_passwords =
    [''123456'', ''123456789'', ''12345678'', ''1234567890'', ''password'', ''passw0rd'', ''qwerty'',
     ''azerty'', ''azertyuiop'', ''motdepasse'', ''admin'', ''login'', ''welcome'', ''iloveyou'',
     ''monkey'', ''dragon'', ''letmein'', ''princess'', ''football'', ''baseball'', ''sunshine'',
     ''shadow'', ''superman'', ''trustno1'', ''master'', ''hello'', ''freedom'', ''whatever'',
     ''starwars'', ''computer'', ''secret'', ''abc123'', ''abcd1234'', ''111111'', ''000000'',
     ''123123'', ''654321'', ''password1'', ''password123'', ''p@ssw0rd'', ''p@ssword'', ''admin123'',
     ''root'', ''toor'', ''changeme'', ''default'', ''guest'', ''test'', ''test123'', ''demo'',
     ''demo123'', ''summer'', ''winter'', ''spring'', ''autumn'', ''january'', ''february'',
     ''december'', ''qwertz'', ''qsdfgh'', ''wxcvbn'', ''1q2w3e4r'', ''1qaz2wsx'', ''zaq12wsx'',
     ''qazwsx'', ''asdfgh'', ''zxcvbn'', ''passer'', ''bonjour'', ''coucou'', ''soleil'', ''lune'',
     ''chocolat'', ''france'', ''paris'', ''merde'', ''connard'', ''famille'', ''telephone'',
     ''internet'', ''souris'', ''clavier'', ''ordinateur'', ''marseille'', ''lyon'', ''bienvenue'',
     ''azerty123'', ''motdepasse123'', ''informatique'', ''developpeur'', ''administrateur'',
     ''connexion'', ''inscription'']"

datatype policy_error =
    OutOfRange str int int int
  | MaxBelowMin int int
  | UnknownKeys "str list"
  | WrongType str str json

record password_policy =
  pp_min_length :: int
  pp_max_length :: int
  pp_min_uppercase :: int
  pp_min_lowercase :: int
  pp_min_digits :: int
  pp_min_special :: int
  pp_deny_common_passwords :: bool
  pp_forbid_email_containment :: bool
  pp_forbid_sequences :: bool
  pp_history_depth :: int

definition default_policy :: password_policy where
  "default_policy = \<lparr>pp_min_length = 12, pp_max_length = 128, pp_min_uppercase = 1,
     pp_min_lowercase = 1, pp_min_digits = 1, pp_min_special = 1,
     pp_deny_common_passwords = True, pp_forbid_email_containment = True,
     pp_forbid_sequences = True, pp_history_depth = 5\<rparr>"

record password_policy_patch =
  pt_min_length :: "int option"
  pt_max_length :: "int option"
  pt_min_uppercase :: "int option"
  pt_min_lowercase :: "int option"
  pt_min_digits :: "int option"
  pt_min_special :: "int option"
  pt_deny_common_passwords :: "bool option"
  pt_forbid_email_containment :: "bool option"
  pt_forbid_sequences :: "bool option"
  pt_history_depth :: "int option"

definition empty_patch :: password_policy_patch where
  "empty_patch = \<lparr>pt_min_length = None, pt_max_length = None, pt_min_uppercase = None,
     pt_min_lowercase = None, pt_min_digits = None, pt_min_special = None,
     pt_deny_common_passwords = None, pt_forbid_email_containment = None,
     pt_forbid_sequences = None, pt_history_depth = None\<rparr>"

subsection \<open>Construction: \<open>__post_init__\<close>, \<open>from_mapping\<close>, \<open>apply\<close>\<close>

definition require_range :: "str \<Rightarrow> int \<Rightarrow> int \<Rightarrow> int \<Rightarrow> policy_error option" where
  "require_range name v lo hi =
     (if lo \<le> v \<and> v \<le> hi then None else Some (OutOfRange name lo hi v))"

fun first_error :: "policy_error option list \<Rightarrow> policy_error option" where
  "first_error [] = None"
| "first_error (Some e # es) = Some e"
| "first_error (None # es) = first_error es"

definition post_init :: "password_policy \<Rightarrow> policy_error option" where
  "post_init p = first_error
    [require_range ''min_length'' (pp_min_length p) 1 max_length_cap,
     require_range ''max_length'' (pp_max_length p) 1 max_length_cap,
     (if pp_max_length p < pp_min_length p
      then Some (MaxBelowMin (pp_max_length p) (pp_min_length p)) else None),
     require_range ''min_uppercase'' (pp_min_uppercase p) 0 max_length_cap,
     require_range ''min_lowercase'' (pp_min_lowercase p) 0 max_length_cap,
     require_range ''min_digits'' (pp_min_digits p) 0 max_length_cap,
     require_range ''min_special'' (pp_min_special p) 0 max_length_cap,
     require_range ''history_depth'' (pp_history_depth p) 0 max_history]"

definition make_policy :: "password_policy \<Rightarrow> policy_error + password_policy" where
  "make_policy p = (case post_init p of Some e \<Rightarrow> Inl e | None \<Rightarrow> Inr p)"

definition bool_fields :: "str list" where
  "bool_fields = [''deny_common_passwords'', ''forbid_email_containment'', ''forbid_sequences'']"

definition known_fields :: "str list" where
  "known_fields = [''min_length'', ''max_length'', ''min_uppercase'', ''min_lowercase'',
     ''min_digits'', ''min_special'', ''deny_common_passwords'', ''forbid_email_containment'',
     ''forbid_sequences'', ''history_depth'']"

definition set_patch_int :: "str \<Rightarrow> int \<Rightarrow> password_policy_patch \<Rightarrow> password_policy_patch" where
  "set_patch_int name v t =
     (if name = ''min_length'' then t\<lparr>pt_min_length := Some v\<rparr>
      else if name = ''max_length'' then t\<lparr>pt_max_length := Some v\<rparr>
      else if name = ''min_uppercase'' then t\<lparr>pt_min_uppercase := Some v\<rparr>
      else if name = ''min_lowercase'' then t\<lparr>pt_min_lowercase := Some v\<rparr>
      else if name = ''min_digits'' then t\<lparr>pt_min_digits := Some v\<rparr>
      else if name = ''min_special'' then t\<lparr>pt_min_special := Some v\<rparr>
      else if name = ''history_depth'' then t\<lparr>pt_history_depth := Some v\<rparr>
      else t)"

definition set_patch_bool :: "str \<Rightarrow> bool \<Rightarrow> password_policy_patch \<Rightarrow> password_policy_patch" where
  "set_patch_bool name v t =
     (if name = ''deny_common_passwords'' then t\<lparr>pt_deny_common_passwords := Some v\<rparr>
      else if name = ''forbid_email_containment'' then t\<lparr>pt_forbid_email_containment := Some v\<rparr>
      else if name = ''forbid_sequences'' then t\<lparr>pt_forbid_sequences := Some v\<rparr>
      else t)"

fun read_patch_items ::
  "(str \<times> json) list \<Rightarrow> password_policy_patch \<Rightarrow> policy_error + password_policy_patch" where
  "read_patch_items [] t = Inr t"
| "read_patch_items ((name, v) # rest) t =
     (if name \<in> set bool_fields
      then (case v of JBool b \<Rightarrow> read_patch_items rest (set_patch_bool name b t)
            | _ \<Rightarrow> Inl (WrongType name ''bool'' v))
      else (case v of JInt i \<Rightarrow> read_patch_items rest (set_patch_int name i t)
            | _ \<Rightarrow> Inl (WrongType name ''int'' v)))"

definition patch_from_mapping :: "(str \<times> json) list \<Rightarrow> policy_error + password_policy_patch" where
  "patch_from_mapping raw =
     (let unknown = sorted_strs (set (map fst raw) - set known_fields) in
      if unknown \<noteq> [] then Inl (UnknownKeys unknown) else read_patch_items raw empty_patch)"

definition override :: "'a option \<Rightarrow> 'a \<Rightarrow> 'a" where
  "override v d = (case v of Some x \<Rightarrow> x | None \<Rightarrow> d)"

definition merge_patch :: "password_policy_patch \<Rightarrow> password_policy \<Rightarrow> password_policy" where
  "merge_patch t b = \<lparr>pp_min_length = override (pt_min_length t) (pp_min_length b),
     pp_max_length = override (pt_max_length t) (pp_max_length b),
     pp_min_uppercase = override (pt_min_uppercase t) (pp_min_uppercase b),
     pp_min_lowercase = override (pt_min_lowercase t) (pp_min_lowercase b),
     pp_min_digits = override (pt_min_digits t) (pp_min_digits b),
     pp_min_special = override (pt_min_special t) (pp_min_special b),
     pp_deny_common_passwords = override (pt_deny_common_passwords t) (pp_deny_common_passwords b),
     pp_forbid_email_containment = override (pt_forbid_email_containment t) (pp_forbid_email_containment b),
     pp_forbid_sequences = override (pt_forbid_sequences t) (pp_forbid_sequences b),
     pp_history_depth = override (pt_history_depth t) (pp_history_depth b)\<rparr>"

definition apply_patch ::
  "password_policy_patch \<Rightarrow> password_policy \<Rightarrow> policy_error + password_policy" where
  "apply_patch t b = make_policy (merge_patch t b)"

definition policy_from_mapping :: "(str \<times> json) list \<Rightarrow> policy_error + password_policy" where
  "policy_from_mapping raw =
     (case patch_from_mapping raw of Inl e \<Rightarrow> Inl e | Inr t \<Rightarrow> apply_patch t default_policy)"

subsection \<open>The validator\<close>

definition count_chars :: "(char \<Rightarrow> bool) \<Rightarrow> str \<Rightarrow> int" where
  "count_chars f pw = int (length (filter f pw))"

definition class_counts :: "str \<Rightarrow> (str \<times> int) list" where
  "class_counts pw =
    [(''majuscule'', count_chars is_upper pw), (''minuscule'', count_chars is_lower pw),
     (''chiffre'', count_chars is_digit pw),
     (''caractere special'', count_chars (\<lambda>c. \<not> is_alnum c) pw)]"

definition class_minimums :: "password_policy \<Rightarrow> (str \<times> int) list" where
  "class_minimums p =
    [(''majuscule'', pp_min_uppercase p), (''minuscule'', pp_min_lowercase p),
     (''chiffre'', pp_min_digits p), (''caractere special'', pp_min_special p)]"

definition class_requirements :: "password_policy \<Rightarrow> str list" where
  "class_requirements p =
     map (\<lambda>(label, m). str_of_int m @ '' '' @ label @ ''(s)'')
       (filter (\<lambda>(label, m). m \<noteq> 0) (class_minimums p))"

definition class_violations :: "password_policy \<Rightarrow> str \<Rightarrow> str list" where
  "class_violations p pw =
     map (\<lambda>(label, m). str_of_int m @ '' '' @ label @ ''(s) minimum (actuel : '' @
            str_of_int (the (dict_get (class_counts pw) label)) @ '')'')
       (filter (\<lambda>(label, m). the (dict_get (class_counts pw) label) < m) (class_minimums p))"

definition contains_email :: "str \<Rightarrow> str \<Rightarrow> bool" where
  "contains_email pw email =
     (if email = [] then False
      else let lowered = py_lower pw;
               mail = py_lower email;
               local_part = takeWhile (\<lambda>c. c \<noteq> CHR ''@'') mail;
               candidates = mail # (if 3 \<le> length local_part then [local_part] else [])
           in \<exists>c \<in> set candidates. contains_str c lowered)"

fun alnum_run_scan :: "nat \<Rightarrow> nat \<Rightarrow> str \<Rightarrow> bool" where
  "alnum_run_scan up down (p # c # rest) =
     (let step = (of_char c :: int) - of_char p;
          up' = (if is_alnum p \<and> is_alnum c \<and> step = 1 then up + 1 else 0);
          down' = (if is_alnum p \<and> is_alnum c \<and> step = -1 then down + 1 else 0)
      in if sequence_min_run - 1 \<le> max up' down' then True
         else alnum_run_scan up' down' (c # rest))"
| "alnum_run_scan up down _ = False"

definition has_alnum_run :: "str \<Rightarrow> bool" where
  "has_alnum_run v = alnum_run_scan 0 0 v"

definition row_windows :: "str \<Rightarrow> str list" where
  "row_windows row =
     map (\<lambda>i. take sequence_min_run (drop i row)) [0..<length row + 1 - sequence_min_run]"

definition has_row_run :: "str \<Rightarrow> str \<Rightarrow> bool" where
  "has_row_run v row =
     (\<exists>w \<in> set (row_windows row @ map rev (row_windows row)). contains_str w v)"

definition has_forbidden_run :: "str \<Rightarrow> bool" where
  "has_forbidden_run pw =
     (let lowered = py_lower pw in
      has_alnum_run lowered \<or> (\<exists>row \<in> set keyboard_rows. has_row_run lowered row))"

definition validate_password :: "password_policy \<Rightarrow> str \<Rightarrow> str \<Rightarrow> str list" where
  "validate_password p pw email =
     (if int (length pw) < pp_min_length p
      then [str_of_int (pp_min_length p) @ '' caracteres minimum (actuel : '' @
            str_of_nat (length pw) @ '')''] else []) @
     (if pp_max_length p < int (length pw)
      then [''pas plus de '' @ str_of_int (pp_max_length p) @ '' caracteres (actuel : '' @
            str_of_nat (length pw) @ '')''] else []) @
     class_violations p pw @
     (if pp_deny_common_passwords p \<and> py_strip (py_lower pw) \<in> set common_passwords
      then [''mot de passe trop courant (listes de fuites connues)''] else []) @
     (if pp_forbid_email_containment p \<and> contains_email pw email
      then [''mot de passe interdit : il contient l'adresse email''] else []) @
     (if pp_forbid_sequences p \<and> has_forbidden_run pw
      then [''suite de caracteres interdite (ex. 1234, abcd, azerty - 4+ consecutifs)''] else [])"

definition describe_policy :: "password_policy \<Rightarrow> str" where
  "describe_policy p =
     (let classes = class_requirements p in
      join_with '' ; '' ([str_of_int (pp_min_length p) @ '' caracteres minimum''] @
        (if classes \<noteq> [] then [''dont '' @ join_with '', '' classes] else [])))"

subsection \<open>The run detectors against their specification\<close>

text \<open>Four alphanumeric characters in a row whose code points move by \<open>d\<close>.\<close>

definition run_at :: "int \<Rightarrow> str \<Rightarrow> nat \<Rightarrow> bool" where
  "run_at d v i \<longleftrightarrow> i + 4 \<le> length v \<and>
     (\<forall>j < 3. is_alnum (v ! (i + j)) \<and> is_alnum (v ! (i + j + 1)) \<and>
        (of_char (v ! (i + j + 1)) :: int) - of_char (v ! (i + j)) = d)"

definition step_by :: "int \<Rightarrow> char \<Rightarrow> char \<Rightarrow> bool" where
  "step_by d p c \<longleftrightarrow> is_alnum p \<and> is_alnum c \<and> (of_char c :: int) - of_char p = d"

fun steps_from :: "int \<Rightarrow> nat \<Rightarrow> str \<Rightarrow> bool" where
  "steps_from d 0 v = True"
| "steps_from d (Suc k) (p # c # r) = (step_by d p c \<and> steps_from d k (c # r))"
| "steps_from d (Suc k) _ = False"

fun steps_occur :: "int \<Rightarrow> str \<Rightarrow> bool" where
  "steps_occur d [] = False"
| "steps_occur d (x # r) = (steps_from d 3 (x # r) \<or> steps_occur d r)"

lemma steps_from_mono: "steps_from d k v \<Longrightarrow> j \<le> k \<Longrightarrow> steps_from d j v"
proof (induction d k v arbitrary: j rule: steps_from.induct)
  case (2 d k p c r)
  then show ?case by (cases j) auto
qed auto

lemma scan_step:
  "alnum_run_scan up down (p # c # r) \<longleftrightarrow>
     (let up' = if step_by 1 p c then up + 1 else 0;
          down' = if step_by (-1) p c then down + 1 else 0
      in 3 \<le> max up' down' \<or> alnum_run_scan up' down' (c # r))"
  by (simp add: sequence_min_run_def step_by_def Let_def)

lemma steps_from_Cons:
  "n > 0 \<Longrightarrow> steps_from d n (p # c # r) \<longleftrightarrow> step_by d p c \<and> steps_from d (n - 1) (c # r)"
  by (cases n) auto

lemma steps_from_weaken:
  "steps_from d 2 v \<Longrightarrow> steps_from d (2 - k) v" "steps_from d 3 v \<Longrightarrow> steps_from d 2 v"
  by (auto elim: steps_from_mono)

declare alnum_run_scan.simps(1) [simp del]

lemma alnum_run_scan_steps:
  "up \<le> 2 \<Longrightarrow> down \<le> 2 \<Longrightarrow> alnum_run_scan up down v \<longleftrightarrow>
     steps_from 1 (3 - up) v \<or> steps_from (-1) (3 - down) v \<or> steps_occur 1 v \<or> steps_occur (-1) v"
proof (induction v arbitrary: up down)
  case Nil
  then show ?case by (auto simp: Suc_diff_le numeral_3_eq_3)
next
  case (Cons p v)
  show ?case
  proof (cases v)
    case Nil
    with Cons.prems show ?thesis by (auto simp: Suc_diff_le numeral_3_eq_3)
  next
    case v: (Cons c r)
    have occ: "steps_occur d (p # v) \<longleftrightarrow> (step_by d p c \<and> steps_from d 2 v) \<or> steps_occur d v" for d
      by (simp add: v steps_from_Cons)
    have lead: "steps_from d (3 - k) (p # v) \<longleftrightarrow> step_by d p c \<and> steps_from d (2 - k) v" if "k \<le> 2" for d k
      using that by (simp add: v steps_from_Cons)
    have found: "steps_from d 3 v \<Longrightarrow> steps_occur d v" for d
      by (simp add: v)
    have up: "alnum_run_scan a b v \<longleftrightarrow> steps_from 1 (3 - a) v \<or> steps_from (-1) (3 - b) v \<or>
        steps_occur 1 v \<or> steps_occur (-1) v" if "a \<le> 2" "b \<le> 2" for a b
      using Cons.IH that by blast
    consider (rise) "step_by 1 p c" "\<not> step_by (-1) p c" | (fall) "step_by (-1) p c" "\<not> step_by 1 p c"
      | (flat) "\<not> step_by 1 p c" "\<not> step_by (-1) p c"
      by (auto simp: step_by_def)
    then show ?thesis
    proof cases
      case rise
      show ?thesis
      proof (cases "up = 2")
        case True
        with rise show ?thesis by (simp add: v scan_step steps_from_Cons)
      next
        case False
        then have "alnum_run_scan up down (p # v) \<longleftrightarrow> alnum_run_scan (up + 1) 0 v"
          using rise Cons.prems by (simp add: v scan_step)
        with False rise show ?thesis using Cons.prems up[of "up + 1" 0] found
          by (simp only: occ lead) (auto intro: steps_from_weaken)
      qed
    next
      case fall
      show ?thesis
      proof (cases "down = 2")
        case True
        with fall show ?thesis by (simp add: v scan_step steps_from_Cons)
      next
        case False
        then have "alnum_run_scan up down (p # v) \<longleftrightarrow> alnum_run_scan 0 (down + 1) v"
          using fall Cons.prems by (simp add: v scan_step)
        with False fall show ?thesis using Cons.prems up[of 0 "down + 1"] found
          by (simp only: occ lead) (auto intro: steps_from_weaken)
      qed
    next
      case flat
      then have "alnum_run_scan up down (p # v) \<longleftrightarrow> alnum_run_scan 0 0 v"
        by (simp add: v scan_step)
      with flat show ?thesis using Cons.prems up[of 0 0] found
        by (simp only: occ lead) auto
    qed
  qed
qed

lemma steps_from_nth:
  "steps_from d (Suc k) v \<longleftrightarrow> Suc k < length v \<and> (\<forall>j < Suc k. step_by d (v ! j) (v ! (j + 1)))"
proof (induction k arbitrary: v)
  case 0
  then show ?case by (cases "(d, Suc 0, v)" rule: steps_from.cases) auto
next
  case (Suc k)
  then show ?case
  proof (cases v)
    case (Cons p w)
    then show ?thesis using Suc by (cases w) (auto simp: All_less_Suc2)
  qed simp
qed

lemma steps_occur_drop: "steps_occur d v \<longleftrightarrow> (\<exists>i. steps_from d 3 (drop i v))"
proof (induction v)
  case Nil
  then show ?case by (simp add: numeral_3_eq_3)
next
  case (Cons x v)
  have "(\<exists>i. steps_from d 3 (drop i (x # v))) \<longleftrightarrow>
      steps_from d 3 (x # v) \<or> (\<exists>i. steps_from d 3 (drop i v))"
    by (metis drop0 drop_Suc_Cons not0_implies_Suc)
  with Cons show ?case by simp
qed

lemma steps_at_run: "steps_from d 3 (drop i v) \<longleftrightarrow> run_at d v i"
  by (auto simp: numeral_3_eq_3 steps_from_nth run_at_def step_by_def)

lemma has_alnum_run_iff: "has_alnum_run v \<longleftrightarrow> (\<exists>i. run_at 1 v i \<or> run_at (-1) v i)"
proof -
  have lead: "steps_from d 3 v \<Longrightarrow> \<exists>i. run_at d v i" for d
    using steps_at_run[of d 0 v] by auto
  show ?thesis
    by (auto simp: has_alnum_run_def alnum_run_scan_steps steps_occur_drop steps_at_run dest: lead)
qed

lemma row_windows_iff: "w \<in> set (row_windows row) \<longleftrightarrow> length w = 4 \<and> (\<exists>a b. row = a @ w @ b)"
proof
  assume "w \<in> set (row_windows row)"
  then obtain i where "i < length row + 1 - 4" "w = take 4 (drop i row)"
    by (auto simp: row_windows_def sequence_min_run_def)
  then have "i + 4 \<le> length row" "w = take 4 (drop i row)" by auto
  then show "length w = 4 \<and> (\<exists>a b. row = a @ w @ b)"
    by (metis append_take_drop_id add.commute length_drop length_take le_diff_conv2 min.absorb2 add_leD1)
next
  assume "length w = 4 \<and> (\<exists>a b. row = a @ w @ b)"
  then obtain a b where "length w = 4" "row = a @ w @ b" by blast
  then show "w \<in> set (row_windows row)"
    unfolding row_windows_def sequence_min_run_def by (auto intro!: image_eqI[where x = "length a"])
qed

text \<open>A keyboard run of the specification: four neighbouring keys of a row, in either direction.\<close>

definition keyboard_run :: "str \<Rightarrow> str \<Rightarrow> bool" where
  "keyboard_run row w \<longleftrightarrow> length w = 4 \<and> (\<exists>a b. row = a @ w @ b \<or> row = a @ rev w @ b)"

lemma has_row_run_iff: "has_row_run v row \<longleftrightarrow> (\<exists>w a b. keyboard_run row w \<and> v = a @ w @ b)"
proof -
  have "w \<in> set (row_windows row @ map rev (row_windows row)) \<longleftrightarrow> keyboard_run row w" for w
  proof -
    have "w \<in> rev ` set (row_windows row) \<longleftrightarrow> rev w \<in> set (row_windows row)"
      by (metis image_iff rev_rev_ident)
    then show ?thesis by (auto simp: row_windows_iff keyboard_run_def)
  qed
  then have "has_row_run v row \<longleftrightarrow> (\<exists>w. keyboard_run row w \<and> contains_str w v)"
    unfolding has_row_run_def by blast
  then show ?thesis by (simp add: contains_str_iff)
qed

text \<open>C10. The password validator reports no violation exactly for the passwords that meet every
  requirement of the policy: length within the bounds, enough characters of each of the four
  classes, not in the denylist, not containing the address or its local part, and without four
  consecutive rising, falling or neighbouring-key characters; the window scan and the keyboard
  windows decide the runs of the specification.\<close>

theorem validate_password_ok_iff:
  "validate_password p pw email = [] \<longleftrightarrow>
     pp_min_length p \<le> int (length pw) \<and> int (length pw) \<le> pp_max_length p \<and>
     pp_min_uppercase p \<le> count_chars is_upper pw \<and> pp_min_lowercase p \<le> count_chars is_lower pw \<and>
     pp_min_digits p \<le> count_chars is_digit pw \<and>
     pp_min_special p \<le> count_chars (\<lambda>c. \<not> is_alnum c) pw \<and>
     \<not> (pp_deny_common_passwords p \<and> py_strip (py_lower pw) \<in> set common_passwords) \<and>
     \<not> (pp_forbid_email_containment p \<and> contains_email pw email) \<and>
     \<not> (pp_forbid_sequences p \<and>
          ((\<exists>i. run_at 1 (py_lower pw) i \<or> run_at (-1) (py_lower pw) i) \<or>
           (\<exists>row \<in> set keyboard_rows. \<exists>w a b. keyboard_run row w \<and> py_lower pw = a @ w @ b)))"
proof -
  have "class_violations p pw = [] \<longleftrightarrow>
     pp_min_uppercase p \<le> count_chars is_upper pw \<and> pp_min_lowercase p \<le> count_chars is_lower pw \<and>
     pp_min_digits p \<le> count_chars is_digit pw \<and>
     pp_min_special p \<le> count_chars (\<lambda>c. \<not> is_alnum c) pw"
    by (auto simp: class_violations_def class_minimums_def class_counts_def)
  then show ?thesis
    by (auto simp: validate_password_def has_forbidden_run_def Let_def has_alnum_run_iff has_row_run_iff)
qed

subsection \<open>Well-formed policies\<close>

definition policy_wf :: "password_policy \<Rightarrow> bool" where
  "policy_wf p \<longleftrightarrow> 1 \<le> pp_min_length p \<and> pp_min_length p \<le> pp_max_length p \<and> pp_max_length p \<le> 1024 \<and>
     (\<forall>v \<in> {pp_min_uppercase p, pp_min_lowercase p, pp_min_digits p, pp_min_special p}. 0 \<le> v \<and> v \<le> 1024) \<and>
     0 \<le> pp_history_depth p \<and> pp_history_depth p \<le> 20"

lemma first_error_None: "first_error es = None \<longleftrightarrow> (\<forall>e \<in> set es. e = None)"
  by (induction es rule: first_error.induct) auto

lemma post_init_iff: "post_init p = None \<longleftrightarrow> policy_wf p"
  by (auto simp: post_init_def first_error_None require_range_def policy_wf_def
      max_length_cap_def max_history_def)

lemma make_policy_iff: "make_policy p = Inr q \<longleftrightarrow> q = p \<and> policy_wf p"
  by (auto simp: make_policy_def post_init_iff[symmetric] split: option.splits)

lemma default_policy_wf: "policy_wf default_policy"
  by (simp add: policy_wf_def default_policy_def)

lemma merge_empty [simp]: "merge_patch empty_patch b = b"
  by (simp add: merge_patch_def empty_patch_def override_def)

lemma override_twice [simp]: "override v (override v d) = override v d"
  by (simp add: override_def split: option.splits)

lemma merge_idem: "merge_patch t (merge_patch t b) = merge_patch t b"
  by (simp add: merge_patch_def)

text \<open>Applying an override either raises or yields a policy whose bounds are all in range and
  whose fields are the override's where it has one and the base's elsewhere; applying it a second
  time changes nothing.\<close>

lemma apply_patch_wf:
  assumes "apply_patch t b = Inr p"
  shows "policy_wf p \<and> p = merge_patch t b \<and> apply_patch t p = Inr p"
  using assms by (auto simp: apply_patch_def make_policy_iff merge_idem)

theorem apply_patch_wf_witness:
  "policy_wf (default_policy\<lparr>pp_min_length := 16\<rparr>) \<and>
   apply_patch (empty_patch\<lparr>pt_min_length := Some 16\<rparr>) (default_policy\<lparr>pp_min_length := 16\<rparr>)
     = Inr (default_policy\<lparr>pp_min_length := 16\<rparr>)"
proof -
  have run: "apply_patch (empty_patch\<lparr>pt_min_length := Some 16\<rparr>) default_policy
      = Inr (default_policy\<lparr>pp_min_length := 16\<rparr>)"
    by code_simp
  show ?thesis using apply_patch_wf[OF run] by blast
qed

end
