(* ===== verification/Urls.thy ===== *)
theory Urls
  imports Prelude
begin

text \<open>
  Python's \<open>urllib.parse.urlsplit\<close> as the sources use it: scheme, authority, path, query and
  fragment of a URL, with the \<open>hostname\<close> and \<open>port\<close> of the authority.  \<open>None\<close> is the
  \<open>ValueError\<close> it raises on an authority with unbalanced or invalid brackets (the check of
  a bracketed host by the \<open>ipaddress\<close> module is the parameter \<open>ip_ok\<close>); a port that is not
  a number up to 65535 raises when \<open>port\<close> is read.
\<close>

record url_parts =
  u_scheme :: str
  u_netloc :: str
  u_path :: str
  u_query :: str
  u_fragment :: str

definition before :: "char set \<Rightarrow> str \<Rightarrow> str" where
  "before C s = takeWhile (\<lambda>c. c \<notin> C) s"

definition after :: "char set \<Rightarrow> str \<Rightarrow> str" where
  "after C s = drop 1 (dropWhile (\<lambda>c. c \<notin> C) s)"

definition is_ascii_alpha :: "char \<Rightarrow> bool" where
  "is_ascii_alpha c = (is_ascii c \<and> (is_upper c \<or> is_lower c))"

definition is_scheme_char :: "char \<Rightarrow> bool" where
  "is_scheme_char c = (is_ascii_alpha c \<or> (is_ascii c \<and> is_digit c) \<or>
     c \<in> {CHR ''+'', CHR ''-'', CHR ''.''})"

definition clean_url :: "str \<Rightarrow> str" where
  "clean_url s = filter (\<lambda>c. (of_char c :: nat) \<notin> {9, 10, 13})
     (dropWhile (\<lambda>c. (of_char c :: nat) \<le> 32) s)"

definition split_scheme :: "str \<Rightarrow> str \<times> str" where
  "split_scheme s =
     (let head = before {CHR '':''} s in
      if head \<noteq> [] \<and> CHR '':'' \<in> set s \<and> is_ascii_alpha (hd head) \<and> list_all is_scheme_char head
      then (py_lower head, after {CHR '':''} s) else ([], s))"

definition brackets_ok :: "(str \<Rightarrow> bool) \<Rightarrow> str \<Rightarrow> bool" where
  "brackets_ok ip_ok netloc =
     (if CHR ''['' \<in> set netloc \<and> CHR '']'' \<in> set netloc then ip_ok netloc
      else CHR ''['' \<notin> set netloc \<and> CHR '']'' \<notin> set netloc)"

definition urlsplit :: "(str \<Rightarrow> bool) \<Rightarrow> str \<Rightarrow> url_parts option" where
  "urlsplit ip_ok url =
     (let (scheme, rest) = split_scheme (clean_url url);
          ends = {CHR ''/'', CHR ''?'', CHR ''#''};
          slashed = starts_with ''//'' rest;
          netloc = (if slashed then before ends (drop 2 rest) else []);
          tail = (if slashed then drop (length netloc) (drop 2 rest) else rest);
          body = before {CHR ''#''} tail
      in if brackets_ok ip_ok netloc
         then Some \<lparr>u_scheme = scheme, u_netloc = netloc, u_path = before {CHR ''?''} body,
                u_query = after {CHR ''?''} body, u_fragment = after {CHR ''#''} tail\<rparr>
         else None)"

definition host_port :: "url_parts \<Rightarrow> str" where
  "host_port u = rev (before {CHR ''@''} (rev (u_netloc u)))"

definition split_host_port :: "url_parts \<Rightarrow> str \<times> str" where
  "split_host_port u =
     (let hp = host_port u in
      if CHR ''['' \<in> set hp
      then let inner = after {CHR ''[''} hp
           in (before {CHR '']''} inner, after {CHR '':''} (after {CHR '']''} inner))
      else (before {CHR '':''} hp, after {CHR '':''} hp))"

definition hostname :: "url_parts \<Rightarrow> str option" where
  "hostname u =
     (let h = fst (split_host_port u);
          name = before {CHR 0x25} h
      in if h = [] then None else Some (py_lower name @ drop (length name) h))"

definition digit_value :: "char \<Rightarrow> nat" where
  "digit_value c = of_char c - 48"

definition nat_of_digits :: "str \<Rightarrow> nat" where
  "nat_of_digits s = foldl (\<lambda>n c. 10 * n + digit_value c) 0 s"

definition port_of :: "url_parts \<Rightarrow> nat option option" where
  "port_of u =
     (let p = snd (split_host_port u) in
      if p = [] then Some None
      else if list_all (\<lambda>c. is_ascii c \<and> is_digit c) p \<and> nat_of_digits p \<le> 65535
      then Some (Some (nat_of_digits p)) else None)"

lemma urlsplit_example:
  "urlsplit (\<lambda>_. True) ''HTTPS://Host.example:8443/a/b?x=1#f'' = Some
     \<lparr>u_scheme = ''https'', u_netloc = ''Host.example:8443'', u_path = ''/a/b'',
      u_query = ''x=1'', u_fragment = ''f''\<rparr>"
  by code_simp

end
