(* ===== verification/Domain.thy ===== *)
theory Domain
  imports PasswordPolicy Urls
begin

text \<open>
  The entities of \<open>domain/\<close>: enumerations, the registered client, authorization codes,
  refresh tokens, device sessions, backchannel (CIBA) requests, pushed requests, consents,
  revoked tokens, replay entries, API and identity resources, with their methods.
  Instants are integers counting microseconds, the resolution of Python's \<open>datetime\<close>.
\<close>

type_synonym instant = int

definition seconds :: "int \<Rightarrow> int" where
  "seconds n = n * 1000000"

definition epoch_seconds :: "instant \<Rightarrow> int" where
  "epoch_seconds t = t div 1000000"

record client_certificate =
  cert_der :: "str option"
  cert_subject_dn :: str
  cert_is_self_signed :: bool

subsection \<open>Scopes\<close>

definition scope_openid :: str where "scope_openid = ''openid''"
definition scope_offline_access :: str where "scope_offline_access = ''offline_access''"
definition scope_openid20 :: str where "scope_openid20 = ''openid2''"

definition from_space_separated :: "str \<Rightarrow> str set" where
  "from_space_separated v = set (py_split v)"

subsection \<open>Enumerations\<close>

datatype response_mode = Query | Fragment | FormPost | Jwt

fun mode_value :: "response_mode \<Rightarrow> str" where
  "mode_value Query = ''query''"
| "mode_value Fragment = ''fragment''"
| "mode_value FormPost = ''form_post''"
| "mode_value Jwt = ''jwt''"

datatype client_type = Confidential | Public

datatype subject_type = SubPublic | SubPairwise | SubEphemeral

datatype auth_method =
    AuthNone | ClientSecretBasic | ClientSecretPost | ClientSecretJwt | PrivateKeyJwt
  | TlsClientAuth | SelfSignedTlsClientAuth

text \<open>\<open>domain/jwks.py\<close>: the signature algorithms.\<close>

datatype jwt_algorithm =
    RS256 | RS384 | RS512 | PS256 | PS384 | PS512 | ES256 | ES384 | ES512
  | HS256 | HS384 | HS512 | AlgNone

definition all_algorithms :: "jwt_algorithm list" where
  "all_algorithms = [RS256, RS384, RS512, PS256, PS384, PS512, ES256, ES384, ES512,
     HS256, HS384, HS512, AlgNone]"

fun alg_value :: "jwt_algorithm \<Rightarrow> str" where
  "alg_value RS256 = ''RS256''" | "alg_value RS384 = ''RS384''" | "alg_value RS512 = ''RS512''"
| "alg_value PS256 = ''PS256''" | "alg_value PS384 = ''PS384''" | "alg_value PS512 = ''PS512''"
| "alg_value ES256 = ''ES256''" | "alg_value ES384 = ''ES384''" | "alg_value ES512 = ''ES512''"
| "alg_value HS256 = ''HS256''" | "alg_value HS384 = ''HS384''" | "alg_value HS512 = ''HS512''"
| "alg_value AlgNone = ''none''"

definition algorithm_of :: "str \<Rightarrow> jwt_algorithm option" where
  "algorithm_of v = List.find (\<lambda>a. alg_value a = v) all_algorithms"

definition symmetric_algorithms :: "jwt_algorithm list" where
  "symmetric_algorithms = [HS256, HS384, HS512]"

definition dpop_signing_algorithms :: "str list" where
  "dpop_signing_algorithms = [''PS256'', ''PS384'', ''PS512'', ''ES256'', ''ES384'', ''ES512'']"

definition userinfo_signing_algorithms :: "str list" where
  "userinfo_signing_algorithms = [''PS256'', ''ES256'', ''RS256'']"

definition ciba_request_signing_algorithms :: "str list" where
  "ciba_request_signing_algorithms = [''PS256'', ''ES256'', ''RS256'']"

subsection \<open>The registered client\<close>

record client =
  cl_client_id :: str
  cl_redirect_uris :: "str set"
  cl_post_logout_redirect_uris :: "str set"
  cl_web_origins :: "str set"
  cl_scopes :: "str set"
  cl_client_type :: client_type
  cl_client_secret_hash :: str
  cl_registration_access_token_hash :: str
  cl_created_at :: instant
  cl_is_active :: bool
  cl_session_lifetime_seconds :: "int option"
  cl_access_token_lifetime_seconds :: "int option"
  cl_authorization_code_lifetime_seconds :: "int option"
  cl_refresh_token_lifetime_seconds :: "int option"
  cl_device_code_lifetime_seconds :: "int option"
  cl_device_code_interval_seconds :: "int option"
  cl_par_required :: bool
  cl_fapi_enabled :: bool
  cl_fapi2_enabled :: bool
  cl_federated :: bool
  cl_require_consent :: bool
  cl_require_dpop :: bool
  cl_token_endpoint_auth_method :: "auth_method option"
  cl_client_secret_ciphertext :: str
  cl_jwks_uri :: str
  cl_jwks :: "(str \<times> json) list list"
  cl_tls_client_auth_subject_dn :: str
  cl_tls_client_certificate_hash :: str
  cl_tls_bound_access_tokens :: bool
  cl_id_token_signed_response_alg :: str
  cl_id_token_encrypted_response_alg :: str
  cl_id_token_encrypted_response_enc :: str
  cl_authorization_signed_response_alg :: str
  cl_userinfo_signed_response_alg :: str
  cl_frontchannel_logout_uri :: str
  cl_frontchannel_logout_session_required :: bool
  cl_backchannel_logout_uri :: str
  cl_backchannel_logout_session_required :: bool
  cl_backchannel_token_delivery_mode :: str
  cl_backchannel_client_notification_endpoint :: str
  cl_backchannel_authentication_request_signing_alg :: str
  cl_backchannel_user_code_parameter :: bool
  cl_binding_message_max_length :: "int option"
  cl_password_policy :: password_policy_patch
  cl_subject_type :: subject_type
  cl_sector_identifier_uri :: str

text \<open>The defaults of the dataclass; \<open>created_at\<close> defaults to the construction time.\<close>

definition new_client :: "str \<Rightarrow> instant \<Rightarrow> client" where
  "new_client cid now = \<lparr>cl_client_id = cid, cl_redirect_uris = {}, cl_post_logout_redirect_uris = {},
     cl_web_origins = {}, cl_scopes = {scope_openid}, cl_client_type = Public,
     cl_client_secret_hash = '''', cl_registration_access_token_hash = '''', cl_created_at = now,
     cl_is_active = True, cl_session_lifetime_seconds = None,
     cl_access_token_lifetime_seconds = None, cl_authorization_code_lifetime_seconds = None,
     cl_refresh_token_lifetime_seconds = None, cl_device_code_lifetime_seconds = None,
     cl_device_code_interval_seconds = None, cl_par_required = False, cl_fapi_enabled = False,
     cl_fapi2_enabled = False, cl_federated = False, cl_require_consent = False,
     cl_require_dpop = False, cl_token_endpoint_auth_method = None,
     cl_client_secret_ciphertext = '''', cl_jwks_uri = '''', cl_jwks = [],
     cl_tls_client_auth_subject_dn = '''', cl_tls_client_certificate_hash = '''',
     cl_tls_bound_access_tokens = False, cl_id_token_signed_response_alg = '''',
     cl_id_token_encrypted_response_alg = '''', cl_id_token_encrypted_response_enc = '''',
     cl_authorization_signed_response_alg = '''', cl_userinfo_signed_response_alg = '''',
     cl_frontchannel_logout_uri = '''', cl_frontchannel_logout_session_required = False,
     cl_backchannel_logout_uri = '''', cl_backchannel_logout_session_required = False,
     cl_backchannel_token_delivery_mode = '''', cl_backchannel_client_notification_endpoint = '''',
     cl_backchannel_authentication_request_signing_alg = '''',
     cl_backchannel_user_code_parameter = False, cl_binding_message_max_length = None,
     cl_password_policy = empty_patch, cl_subject_type = SubPublic, cl_sector_identifier_uri = ''''\<rparr>"

text \<open>
  What the sources take from outside \<open>src/\<close> or from the standard library's cryptography and
  codecs, and the implementations of the ports that are thin layers over PyJWT, the
  \<open>cryptography\<close> package or the network.  Total functions; \<open>None\<close> is the exception or the
  refusal the code distinguishes.

  \<^item> \<open>sv_sha256_hex\<close>, \<open>sv_sha256_b64\<close>: hexadecimal and unpadded base64url SHA-256.
  \<^item> \<open>sv_sha2\<close>, \<open>sv_b64\<close>: the digest bytes of SHA-256, SHA-384 or SHA-512, unpadded base64url.
  \<^item> \<open>sv_hmac_b64\<close>: unpadded base64url HMAC-SHA256 of a message under a key.
  \<^item> \<open>sv_json_loads\<close>, \<open>sv_json_dumps\<close> (compact), \<open>sv_json_dumps_sorted\<close>: \<open>json\<close>.
  \<^item> \<open>sv_py_str\<close>: \<open>str(value)\<close> of a decoded JSON value that is not a string.
  \<^item> \<open>sv_ip_literal\<close>: the \<open>ipaddress\<close> test \<open>urlsplit\<close> makes on a bracketed host.
  \<^item> \<open>sv_b64_text\<close>: \<open>urlsafe_b64decode(..).decode("utf-8")\<close>.
  \<^item> \<open>sv_jwt_encode\<close>: \<open>pyjwt.encode\<close> with the key the token manager selects for an algorithm
    (the shared secret for HS*, none for \<open>none\<close>, the first active server key otherwise).
  \<^item> \<open>sv_unverified_header\<close>, \<open>sv_unverified_claims\<close>: PyJWT's unverified decoding.
  \<^item> \<open>sv_jwk_usable\<close>, \<open>sv_jws_verified\<close>: \<open>PyJWK\<close> construction, JWS verification with a JWK.
  \<^item> \<open>sv_verify_assertion\<close>, \<open>sv_issuer_of\<close>: the \<open>ClientAssertionVerifier\<close> port.
  \<^item> \<open>sv_decrypt\<close>: the \<open>SecretCipher\<close> port.
  \<^item> \<open>sv_encrypt_id_token\<close>: the \<open>IdTokenEncrypter\<close> port.
  \<^item> \<open>sv_server_token_claims\<close>: \<open>TokenManager._validate\<close> at an instant (signature with a
    published key, issuer, expiry unless allowed).
\<close>

record services =
  sv_sha256_hex :: "str \<Rightarrow> str"
  sv_sha256_b64 :: "str \<Rightarrow> str"
  sv_sha2 :: "nat \<Rightarrow> str \<Rightarrow> str"
  sv_b64 :: "str \<Rightarrow> str"
  sv_hmac_b64 :: "str \<Rightarrow> str \<Rightarrow> str"
  sv_json_loads :: "str \<Rightarrow> json option"
  sv_json_dumps :: "json \<Rightarrow> str"
  sv_json_dumps_sorted :: "json \<Rightarrow> str"
  sv_py_str :: "json \<Rightarrow> str"
  sv_ip_literal :: "str \<Rightarrow> bool"
  sv_b64_text :: "str \<Rightarrow> str option"
  sv_jwt_encode :: "jwt_algorithm \<Rightarrow> str \<Rightarrow> (str \<times> json) list \<Rightarrow> str"
  sv_unverified_header :: "str \<Rightarrow> (str \<times> json) list option"
  sv_unverified_claims :: "str \<Rightarrow> (str \<times> json) list option"
  sv_jwk_usable :: "(str \<times> json) list \<Rightarrow> str \<Rightarrow> bool"
  sv_jws_verified :: "str \<Rightarrow> (str \<times> json) list \<Rightarrow> str \<Rightarrow> bool"
  sv_verify_assertion :: "str \<Rightarrow> client \<Rightarrow> str list \<Rightarrow> bool \<Rightarrow> instant \<Rightarrow> (str \<times> json) list option"
  sv_issuer_of :: "str \<Rightarrow> str"
  sv_decrypt :: "str \<Rightarrow> str"
  sv_encrypt_id_token :: "str \<Rightarrow> client \<Rightarrow> str \<Rightarrow> str option"
  sv_server_token_claims :: "str \<Rightarrow> str \<Rightarrow> bool \<Rightarrow> instant \<Rightarrow> (str \<times> json) list option"

text \<open>\<open>str(value)\<close> of a decoded JSON value.\<close>

definition json_text :: "services \<Rightarrow> json \<Rightarrow> str" where
  "json_text X v = (case v of JStr s \<Rightarrow> s | _ \<Rightarrow> sv_py_str X v)"

definition der_certificate_hash :: "services \<Rightarrow> str \<Rightarrow> str" where
  "der_certificate_hash X der = sv_sha256_b64 X der"

definition effective_auth_method :: "client \<Rightarrow> auth_method" where
  "effective_auth_method c =
     (case cl_token_endpoint_auth_method c of
        Some m \<Rightarrow> m
      | None \<Rightarrow> (if cl_client_type c = Public then AuthNone else ClientSecretBasic))"

definition resolve_lifetime_seconds :: "int option \<Rightarrow> int \<Rightarrow> int" where
  "resolve_lifetime_seconds configured dflt =
     (case configured of Some n \<Rightarrow> (if 0 < n then n else dflt) | None \<Rightarrow> dflt)"

subsection \<open>Grants in progress\<close>

record authorization_code =
  ac_code :: str
  ac_client_id :: str
  ac_redirect_uri :: str
  ac_subject :: str
  ac_session_id :: str
  ac_subject_material :: str
  ac_scopes :: "str set"
  ac_code_challenge :: str
  ac_code_challenge_method :: str
  ac_nonce :: str
  ac_auth_time :: int
  ac_acr :: str
  ac_claims :: str
  ac_openid2_realm :: str
  ac_expires_at :: instant
  ac_is_consumed :: bool
  ac_access_token_hash :: str
  ac_access_token_expires_at :: "instant option"
  ac_refresh_token_hash :: str
  ac_dpop_jkt :: str
  ac_resource_uris :: "str list"
  ac_pre_authorized :: bool
  ac_tx_code_hash :: str
  ac_authorization_details :: str

record refresh_token =
  rt_token_hash :: str
  rt_client_id :: str
  rt_subject :: str
  rt_subject_material :: str
  rt_scopes :: "str set"
  rt_expires_at :: instant
  rt_is_consumed :: bool
  rt_dpop_jkt :: str
  rt_resource_uris :: "str list"
  rt_tls_cert_hash :: str

datatype decision = Pending | Approved | Denied

record device_authorization =
  da_device_code_hash :: str
  da_user_code :: str
  da_client_id :: str
  da_scopes :: "str set"
  da_subject :: str
  da_status :: decision
  da_expires_at :: instant
  da_interval :: int
  da_last_polled_at :: "instant option"

record backchannel_request =
  bc_auth_req_id_hash :: str
  bc_client_id :: str
  bc_scopes :: "str set"
  bc_subject :: str
  bc_status :: decision
  bc_delivery_mode :: str
  bc_client_notification_token :: str
  bc_client_notification_endpoint :: str
  bc_binding_message :: str
  bc_acr :: str
  bc_user_code :: str
  bc_interval :: int
  bc_last_polled_at :: "instant option"
  bc_expires_at :: instant
  bc_resource_uris :: "str list"

record pushed_authorization =
  pa_request_uri :: str
  pa_client_id :: str
  pa_params :: "(str \<times> str) list"
  pa_expires_at :: instant
  pa_is_consumed :: bool

record consent =
  co_subject :: str
  co_client_id :: str
  co_scopes :: "str set"
  co_granted_at :: instant
  co_authorization_details :: "str set"

definition covers :: "consent \<Rightarrow> str set \<Rightarrow> str set \<Rightarrow> bool" where
  "covers c scopes details \<longleftrightarrow> scopes \<subseteq> co_scopes c \<and> details \<subseteq> co_authorization_details c"

record revoked_token =
  rv_token_hash :: str
  rv_expires_at :: instant
  rv_revoked_at :: instant

definition token_hash :: "services \<Rightarrow> str \<Rightarrow> str" where
  "token_hash X t = sv_sha256_hex X t"

record dpop_replay =
  dr_jti_hash :: str
  dr_expires_at :: instant
  dr_seen_at :: instant

definition ciba_grant_type :: str where
  "ciba_grant_type = ''urn:openid:params:grant-type:ciba''"
definition pre_authorized_code_grant_type :: str where
  "pre_authorized_code_grant_type = ''urn:ietf:params:oauth:grant-type:pre-authorized_code''"
definition jwt_bearer_grant_type :: str where
  "jwt_bearer_grant_type = ''urn:ietf:params:oauth:grant-type:jwt-bearer''"
definition device_code_grant_type :: str where
  "device_code_grant_type = ''urn:ietf:params:oauth:grant-type:device_code''"
definition client_assertion_type_urn :: str where
  "client_assertion_type_urn = ''urn:ietf:params:oauth:client-assertion-type:jwt-bearer''"
definition pushed_request_uri_prefix :: str where
  "pushed_request_uri_prefix = ''urn:ietf:params:oauth:request_uri:''"

subsection \<open>User codes\<close>

definition user_code_alphabet :: str where
  "user_code_alphabet = ''ABCDEFGHJKLMNPQRSTUVWXYZ23456789''"

definition is_user_code_char :: "char \<Rightarrow> bool" where
  "is_user_code_char c = (let n = (of_char c :: nat) in (48 \<le> n \<and> n \<le> 57) \<or> (65 \<le> n \<and> n \<le> 90))"

definition normalize_user_code :: "str \<Rightarrow> str" where
  "normalize_user_code code = filter is_user_code_char (py_upper code)"

definition format_user_code :: "str \<Rightarrow> str" where
  "format_user_code code =
     (let compact = normalize_user_code code in take 4 compact @ ''-'' @ drop 4 compact)"

subsection \<open>Resources\<close>

record api_resource =
  ar_name :: str
  ar_display_name :: str
  ar_scopes :: "str set"
  ar_allowed_access_token_signing_algos :: "str list"
  ar_indicator :: str

record identity_resource =
  ir_name :: str
  ir_display_name :: str
  ir_user_claims :: "str set"
  ir_show_in_discovery_document :: bool

definition default_identity_resources :: "identity_resource list" where
  "default_identity_resources =
    [\<lparr>ir_name = ''openid'', ir_display_name = ''Votre identite'', ir_user_claims = {''sub''},
      ir_show_in_discovery_document = True\<rparr>,
     \<lparr>ir_name = ''profile'', ir_display_name = ''Votre profil'',
      ir_user_claims = {''name'', ''family_name'', ''given_name'', ''middle_name'', ''nickname'',
        ''preferred_username'', ''profile'', ''picture'', ''website'', ''gender'', ''birthdate'',
        ''zoneinfo'', ''locale'', ''updated_at'', ''roles''},
      ir_show_in_discovery_document = True\<rparr>,
     \<lparr>ir_name = ''email'', ir_display_name = ''Votre adresse e-mail'',
      ir_user_claims = {''email'', ''email_verified''}, ir_show_in_discovery_document = True\<rparr>,
     \<lparr>ir_name = ''address'', ir_display_name = ''Votre adresse postale'',
      ir_user_claims = {''address''}, ir_show_in_discovery_document = True\<rparr>,
     \<lparr>ir_name = ''phone'', ir_display_name = ''Votre numero de telephone'',
      ir_user_claims = {''phone_number'', ''phone_number_verified''},
      ir_show_in_discovery_document = True\<rparr>,
     \<lparr>ir_name = ''offline_access'', ir_display_name = ''Acces hors ligne (refresh token)'',
      ir_user_claims = {}, ir_show_in_discovery_document = True\<rparr>]"

text \<open>\<open>is_resource_uri\<close>; \<open>None\<close> is the uncaught \<open>ValueError\<close> of \<open>urlsplit\<close>.\<close>

definition is_resource_uri :: "services \<Rightarrow> str \<Rightarrow> bool option" where
  "is_resource_uri X v =
     (if v = [] then Some False
      else map_option (\<lambda>u. u_scheme u \<noteq> [] \<and> u_netloc u \<noteq> [] \<and> u_fragment u = [])
             (urlsplit (sv_ip_literal X) v))"

definition origin_of_uri :: "services \<Rightarrow> str \<Rightarrow> str option option" where
  "origin_of_uri X uri =
     (case urlsplit (sv_ip_literal X) uri of
        None \<Rightarrow> None
      | Some u \<Rightarrow>
         (if u_scheme u \<notin> {''http'', ''https''} \<or> u_netloc u = [] then Some None
          else let default_port = (if u_scheme u = ''http'' then 80 else 443);
                   host = (case hostname u of None \<Rightarrow> [] | Some h \<Rightarrow> h)
               in (case (hostname u, port_of u) of
                     (Some h, None) \<Rightarrow> None
                   | (Some h, Some (Some p)) \<Rightarrow>
                       Some (Some (u_scheme u @ ''://'' @
                         (if p \<noteq> default_port then h @ '':'' @ str_of_nat p else h)))
                   | _ \<Rightarrow> Some (Some (u_scheme u @ ''://'' @ host)))))"

text \<open>
  \<open>Client.cors_allowed_origins\<close>; \<open>None\<close> when a declared address makes \<open>urlsplit\<close> or
  \<open>port\<close> raise.
\<close>

definition cors_allowed_origins :: "services \<Rightarrow> client \<Rightarrow> str set option" where
  "cors_allowed_origins X c =
     (let origins = origin_of_uri X ` (cl_redirect_uris c \<union> cl_web_origins c)
      in if None \<in> origins then None
         else Some (\<Union>r\<in>origins. case r of Some (Some o') \<Rightarrow> {o'} | _ \<Rightarrow> {}))"

text \<open>
  \<open>Client.subject_sector\<close>: \<open>None\<close> when \<open>urlsplit\<close> raises.  \<open>hosts.pop()\<close> on a singleton
  returns its element.
\<close>

definition uri_host :: "services \<Rightarrow> str \<Rightarrow> str option" where
  "uri_host X uri = map_option (\<lambda>u. case hostname u of None \<Rightarrow> [] | Some h \<Rightarrow> h)
                      (urlsplit (sv_ip_literal X) uri)"

definition subject_sector :: "services \<Rightarrow> client \<Rightarrow> str option" where
  "subject_sector X c =
     (if cl_sector_identifier_uri c \<noteq> [] then uri_host X (cl_sector_identifier_uri c)
      else let found = uri_host X ` cl_redirect_uris c in
        if None \<in> found then None
        else let hosts = the ` found - {[]} in
          if card hosts = 1 then Some (the_elem hosts) else Some [])"

subsection \<open>OpenID 2.0 identifiers\<close>

record openid20_identifier =
  oi_subject :: str
  oi_identifier :: str
  oi_realm :: str
  oi_created_at :: instant

subsection \<open>Credential offers\<close>

record credential_offer =
  of_offer_id :: str
  of_configuration_ids :: "str list"
  of_subject :: str
  of_pre_authorized_code :: str
  of_client_id :: str
  of_tx_code_required :: bool
  of_created_at :: instant
  of_expires_at :: instant

definition offer_is_expired :: "credential_offer \<Rightarrow> instant \<Rightarrow> bool" where
  "offer_is_expired o' now \<longleftrightarrow> now > of_expires_at o'"

end
