(* ===== verification/Stores.thy ===== *)
theory Stores
  imports Domain
begin

text \<open>
  The in-memory repositories of \<open>infrastructure/persistence/memory/\<close>.  Each keeps a Python
  dictionary behind an \<open>asyncio.Lock\<close>: every operation is one atomic update of an
  insertion-ordered association list.

  The contracts the use cases rely on are locales: \<open>keyed_repo\<close> (insert, look up, delete),
  \<open>single_use_repo\<close> (a repository whose entries are consumed), \<open>decision_repo\<close> (the end
  user approves or denies an entry) and \<open>deny_list\<close> (membership with expiry).  Each is
  interpreted on the repositories that implement it.
\<close>

named_theorems repo_simps \<open>what a repository returns after an operation\<close>

subsection \<open>Dictionaries keyed by a field of their values\<close>

definition dict_ok :: "('k \<times> 'v) list \<Rightarrow> bool" where
  "dict_ok d \<longleftrightarrow> distinct (map fst d)"

lemma dict_ok_simps [simp]:
  "dict_ok []"
  "dict_ok d \<Longrightarrow> dict_ok (dict_set k v d)"
  "dict_ok d \<Longrightarrow> dict_ok (dict_pop k d)"
  by (simp_all add: dict_ok_def AList.distinct_update AList.distinct_delete)

lemma map_of_filter_values:
  assumes "dict_ok d"
  shows "map_of (filter (\<lambda>(k, v). P v) d) k =
    (case map_of d k of Some v \<Rightarrow> if P v then Some v else None | None \<Rightarrow> None)"
  using assms
proof (induction d)
  case (Cons kv d)
  obtain j v where kv: "kv = (j, v)" by fastforce
  from Cons.prems kv have "j \<notin> fst ` set d" and ok: "dict_ok d"
    by (auto simp: dict_ok_def)
  then have "map_of d j = None" by (simp add: map_of_eq_None_iff)
  with Cons.IH [OF ok] show ?case by (auto simp: kv split: option.splits)
qed simp

lemma dict_ok_filter: "dict_ok d \<Longrightarrow> dict_ok (filter P d)"
  by (auto simp: dict_ok_def distinct_map intro: inj_on_subset)

definition dict_mark :: "'k \<Rightarrow> ('v \<Rightarrow> 'v) \<Rightarrow> ('k \<times> 'v) list \<Rightarrow> ('k \<times> 'v) list" where
  "dict_mark k f d = (case dict_get d k of None \<Rightarrow> d | Some v \<Rightarrow> dict_set k (f v) d)"

lemma dict_mark_get [simp]:
  "dict_get (dict_mark k f d) j = (if j = k then map_option f (dict_get d k) else dict_get d j)"
  by (auto simp: dict_mark_def split: option.splits)

lemma dict_mark_ok [simp]: "dict_ok d \<Longrightarrow> dict_ok (dict_mark k f d)"
  by (simp add: dict_mark_def split: option.splits)

lemma dict_values_ran: "dict_ok d \<Longrightarrow> set (dict_values d) = ran (map_of d)"
  by (simp add: dict_values_def dict_ok_def ran_distinct)

subsection \<open>The contracts\<close>

locale keyed_repo =
  fixes key :: "'v \<Rightarrow> 'k"
    and invar :: "'s \<Rightarrow> bool"
    and find :: "'s \<Rightarrow> 'k \<Rightarrow> 'v option"
    and save :: "'v \<Rightarrow> 's \<Rightarrow> 's"
    and delete :: "'k \<Rightarrow> 's \<Rightarrow> 's"
  assumes find_save: "find (save v s) k = (if k = key v then Some v else find s k)"
    and find_delete: "find (delete k s) j = (if j = k then None else find s j)"
    and invar_save: "invar s \<Longrightarrow> invar (save v s)"
    and invar_delete: "invar s \<Longrightarrow> invar (delete k s)"
begin

definition well_keyed :: "'s \<Rightarrow> bool" where
  "well_keyed s \<longleftrightarrow> (\<forall>k v. find s k = Some v \<longrightarrow> key v = k)"

lemma well_keyed_save: "well_keyed s \<Longrightarrow> well_keyed (save v s)"
  by (auto simp: well_keyed_def find_save)

lemma well_keyed_delete: "well_keyed s \<Longrightarrow> well_keyed (delete k s)"
  by (auto simp: well_keyed_def find_delete split: if_splits)

lemma well_keyedD: "well_keyed s \<Longrightarrow> find s k = Some v \<Longrightarrow> key v = k"
  by (simp add: well_keyed_def)

lemma save_again: "find (save v (save v s)) = find (save v s)"
  by (auto simp: find_save fun_eq_iff)

lemma find_save_delete: "find (delete (key v) (save v s)) = find (delete (key v) s)"
  by (auto simp: find_save find_delete fun_eq_iff)

end

locale single_use_repo = keyed_repo key invar find save delete
  for key :: "'v \<Rightarrow> 'k" and invar :: "'s \<Rightarrow> bool"
    and find :: "'s \<Rightarrow> 'k \<Rightarrow> 'v option"
    and save :: "'v \<Rightarrow> 's \<Rightarrow> 's" and delete :: "'k \<Rightarrow> 's \<Rightarrow> 's" +
  fixes mark :: "'v \<Rightarrow> 'v"
    and used :: "'v \<Rightarrow> bool"
    and consume :: "'k \<Rightarrow> 's \<Rightarrow> 's"
  assumes find_consume:
      "find (consume k s) j = (if j = k then map_option mark (find s k) else find s j)"
    and used_mark: "used (mark v)"
    and key_mark: "key (mark v) = key v"
    and mark_used: "used v \<Longrightarrow> mark v = v"
    and invar_consume: "invar s \<Longrightarrow> invar (consume k s)"
begin

text \<open>An entry is spent once a consumed value is stored under its key.\<close>

definition spent :: "'s \<Rightarrow> 'k \<Rightarrow> bool" where
  "spent s k \<longleftrightarrow> (\<exists>v. find s k = Some v \<and> used v)"

lemma spent_consume: "spent (consume k s) j \<longleftrightarrow> spent s j \<or> (j = k \<and> find s k \<noteq> None)"
  by (auto simp: spent_def find_consume used_mark)

lemma spent_save: "spent s j \<Longrightarrow> j \<noteq> key v \<or> used v \<Longrightarrow> spent (save v s) j"
  by (auto simp: spent_def find_save)

lemma spent_delete: "spent s j \<Longrightarrow> j \<noteq> k \<Longrightarrow> spent (delete k s) j"
  by (auto simp: spent_def find_delete)

lemma consume_twice: "find (consume k (consume k s)) = find (consume k s)"
  by (auto simp: find_consume fun_eq_iff mark_used used_mark map_option_case split: option.splits)

lemma well_keyed_consume: "well_keyed s \<Longrightarrow> well_keyed (consume k s)"
  by (auto simp: well_keyed_def find_consume key_mark split: if_splits)

end

locale decision_repo = keyed_repo key invar find save delete
  for key :: "'v \<Rightarrow> 'k" and invar :: "'s \<Rightarrow> bool"
    and find :: "'s \<Rightarrow> 'k \<Rightarrow> 'v option"
    and save :: "'v \<Rightarrow> 's \<Rightarrow> 's" and delete :: "'k \<Rightarrow> 's \<Rightarrow> 's" +
  fixes status :: "'v \<Rightarrow> decision"
    and approve :: "'k \<Rightarrow> 'a \<Rightarrow> 's \<Rightarrow> 's"
    and deny :: "'k \<Rightarrow> 's \<Rightarrow> 's"
  assumes approve_status: "map_option status (find (approve k a s) j) =
      (if j = k then map_option (\<lambda>_. Approved) (find s k) else map_option status (find s j))"
    and deny_status: "map_option status (find (deny k s) j) =
      (if j = k then map_option (\<lambda>_. Denied) (find s k) else map_option status (find s j))"
    and approve_other: "j \<noteq> k \<Longrightarrow> find (approve k a s) j = find s j"
    and deny_other: "j \<noteq> k \<Longrightarrow> find (deny k s) j = find s j"
begin

lemma approve_present: "find (approve k a s) j = None \<longleftrightarrow> find s j = None"
  using approve_status [of k a s j] by (auto split: if_splits)

lemma deny_present: "find (deny k s) j = None \<longleftrightarrow> find s j = None"
  using deny_status [of k s j] by (auto split: if_splits)

lemma approved_is_approved: "find (approve k a s) k = Some v \<Longrightarrow> status v = Approved"
  using approve_status [of k a s k] by (auto simp: map_option_case split: option.splits)

lemma denied_is_denied: "find (deny k s) k = Some v \<Longrightarrow> status v = Denied"
  using deny_status [of k s k] by (auto simp: map_option_case split: option.splits)

end

locale deny_list =
  fixes key :: "'v \<Rightarrow> 'k"
    and expiry :: "'v \<Rightarrow> instant"
    and invar :: "'s \<Rightarrow> bool"
    and find :: "'s \<Rightarrow> 'k \<Rightarrow> 'v option"
    and save :: "'v \<Rightarrow> 's \<Rightarrow> 's"
    and member :: "'s \<Rightarrow> 'k \<Rightarrow> bool"
    and purge :: "instant \<Rightarrow> 's \<Rightarrow> 's"
  assumes dl_member: "member s k \<longleftrightarrow> find s k \<noteq> None"
    and dl_save: "find (save v s) k = (if k = key v then Some v else find s k)"
    and dl_purge: "invar s \<Longrightarrow> find (purge now s) k =
      (case find s k of Some v \<Rightarrow> if expiry v \<le> now then None else Some v | None \<Rightarrow> None)"
    and dl_invar_save: "invar s \<Longrightarrow> invar (save v s)"
    and dl_invar_purge: "invar s \<Longrightarrow> invar (purge now s)"
begin

text \<open>An entry guards its key until an instant: it is there and expires later.\<close>

definition guards :: "'s \<Rightarrow> 'k \<Rightarrow> instant \<Rightarrow> bool" where
  "guards s k t \<longleftrightarrow> (\<exists>v. find s k = Some v \<and> t < expiry v)"

lemma guards_member: "guards s k t \<Longrightarrow> member s k"
  by (auto simp: guards_def dl_member)

lemma save_member: "member (save v s) k \<longleftrightarrow> k = key v \<or> member s k"
  by (simp add: dl_member dl_save)

lemma save_guards: "guards s k t \<Longrightarrow> k = key v \<longrightarrow> t < expiry v \<Longrightarrow> guards (save v s) k t"
  by (auto simp: guards_def dl_save)

lemma purge_guards: "invar s \<Longrightarrow> guards s k t \<Longrightarrow> now \<le> t \<Longrightarrow> guards (purge now s) k t"
  by (auto simp: guards_def dl_purge)

lemma purge_drops:
  "invar s \<Longrightarrow> find s k = Some v \<Longrightarrow> expiry v \<le> now \<Longrightarrow> \<not> member (purge now s) k"
  by (simp add: dl_member dl_purge)

end

subsection \<open>Authorization codes, refresh tokens, pushed requests\<close>

definition codes_save :: "authorization_code \<Rightarrow> (str \<times> authorization_code) list \<Rightarrow> (str \<times> authorization_code) list" where
  "codes_save c d = dict_set (ac_code c) c d"
definition codes_find :: "(str \<times> authorization_code) list \<Rightarrow> str \<Rightarrow> authorization_code option" where
  "codes_find d code = dict_get d code"
definition codes_consume :: "str \<Rightarrow> (str \<times> authorization_code) list \<Rightarrow> (str \<times> authorization_code) list" where
  "codes_consume code d = dict_mark code (\<lambda>c. c\<lparr>ac_is_consumed := True\<rparr>) d"
definition codes_delete :: "str \<Rightarrow> (str \<times> authorization_code) list \<Rightarrow> (str \<times> authorization_code) list" where
  "codes_delete code d = dict_pop code d"

definition refresh_save :: "refresh_token \<Rightarrow> (str \<times> refresh_token) list \<Rightarrow> (str \<times> refresh_token) list" where
  "refresh_save t d = dict_set (rt_token_hash t) t d"
definition refresh_find :: "(str \<times> refresh_token) list \<Rightarrow> str \<Rightarrow> refresh_token option" where
  "refresh_find d h = dict_get d h"
definition refresh_consume :: "str \<Rightarrow> (str \<times> refresh_token) list \<Rightarrow> (str \<times> refresh_token) list" where
  "refresh_consume h d = dict_mark h (\<lambda>t. t\<lparr>rt_is_consumed := True\<rparr>) d"
definition refresh_delete :: "str \<Rightarrow> (str \<times> refresh_token) list \<Rightarrow> (str \<times> refresh_token) list" where
  "refresh_delete h d = dict_pop h d"

definition pushed_save :: "pushed_authorization \<Rightarrow> (str \<times> pushed_authorization) list \<Rightarrow> (str \<times> pushed_authorization) list" where
  "pushed_save p d = dict_set (pa_request_uri p) p d"
definition pushed_find :: "(str \<times> pushed_authorization) list \<Rightarrow> str \<Rightarrow> pushed_authorization option" where
  "pushed_find d u = dict_get d u"
definition pushed_consume :: "str \<Rightarrow> (str \<times> pushed_authorization) list \<Rightarrow> (str \<times> pushed_authorization) list" where
  "pushed_consume u d = dict_mark u (\<lambda>p. p\<lparr>pa_is_consumed := True\<rparr>) d"
definition pushed_delete :: "str \<Rightarrow> (str \<times> pushed_authorization) list \<Rightarrow> (str \<times> pushed_authorization) list" where
  "pushed_delete u d = dict_pop u d"

lemmas code_repo_defs = codes_save_def codes_find_def codes_consume_def codes_delete_def
lemmas refresh_repo_defs = refresh_save_def refresh_find_def refresh_consume_def refresh_delete_def
lemmas pushed_repo_defs = pushed_save_def pushed_find_def pushed_consume_def pushed_delete_def

interpretation codes: single_use_repo ac_code dict_ok codes_find codes_save codes_delete
  "\<lambda>c. c\<lparr>ac_is_consumed := True\<rparr>" ac_is_consumed codes_consume
  by unfold_locales (simp_all add: code_repo_defs)

interpretation refresh: single_use_repo rt_token_hash dict_ok refresh_find refresh_save
  refresh_delete "\<lambda>t. t\<lparr>rt_is_consumed := True\<rparr>" rt_is_consumed refresh_consume
  by unfold_locales (simp_all add: refresh_repo_defs)

interpretation pushed: single_use_repo pa_request_uri dict_ok pushed_find pushed_save
  pushed_delete "\<lambda>p. p\<lparr>pa_is_consumed := True\<rparr>" pa_is_consumed pushed_consume
  by unfold_locales (simp_all add: pushed_repo_defs)

lemmas [repo_simps] =
  codes.find_save codes.find_consume codes.find_delete
  refresh.find_save refresh.find_consume refresh.find_delete
  pushed.find_save pushed.find_consume pushed.find_delete

subsection \<open>Device sessions and backchannel requests\<close>

definition devices_save :: "device_authorization \<Rightarrow> (str \<times> device_authorization) list \<Rightarrow> (str \<times> device_authorization) list" where
  "devices_save v d = dict_set (da_device_code_hash v) v d"
definition devices_find :: "(str \<times> device_authorization) list \<Rightarrow> str \<Rightarrow> device_authorization option" where
  "devices_find d k = dict_get d k"
definition devices_delete :: "str \<Rightarrow> (str \<times> device_authorization) list \<Rightarrow> (str \<times> device_authorization) list" where
  "devices_delete k d = dict_pop k d"
definition devices_find_by_user_code :: "(str \<times> device_authorization) list \<Rightarrow> str \<Rightarrow> device_authorization option" where
  "devices_find_by_user_code d code = List.find (\<lambda>s. da_user_code s = code) (dict_values d)"
definition devices_approve :: "str \<Rightarrow> str \<Rightarrow> (str \<times> device_authorization) list \<Rightarrow> (str \<times> device_authorization) list" where
  "devices_approve h sub d = dict_mark h (\<lambda>s. s\<lparr>da_status := Approved, da_subject := sub\<rparr>) d"
definition devices_deny :: "str \<Rightarrow> (str \<times> device_authorization) list \<Rightarrow> (str \<times> device_authorization) list" where
  "devices_deny h d = dict_mark h (\<lambda>s. s\<lparr>da_status := Denied\<rparr>) d"

definition ciba_save :: "backchannel_request \<Rightarrow> (str \<times> backchannel_request) list \<Rightarrow> (str \<times> backchannel_request) list" where
  "ciba_save v d = dict_set (bc_auth_req_id_hash v) v d"
definition ciba_find :: "(str \<times> backchannel_request) list \<Rightarrow> str \<Rightarrow> backchannel_request option" where
  "ciba_find d k = dict_get d k"
definition ciba_delete :: "str \<Rightarrow> (str \<times> backchannel_request) list \<Rightarrow> (str \<times> backchannel_request) list" where
  "ciba_delete k d = dict_pop k d"
definition ciba_approve :: "str \<Rightarrow> (str \<times> backchannel_request) list \<Rightarrow> (str \<times> backchannel_request) list" where
  "ciba_approve h d = dict_mark h (\<lambda>r. r\<lparr>bc_status := Approved\<rparr>) d"
definition ciba_deny :: "str \<Rightarrow> (str \<times> backchannel_request) list \<Rightarrow> (str \<times> backchannel_request) list" where
  "ciba_deny h d = dict_mark h (\<lambda>r. r\<lparr>bc_status := Denied\<rparr>) d"

lemmas device_repo_defs = devices_save_def devices_find_def devices_delete_def
  devices_approve_def devices_deny_def
lemmas ciba_repo_defs = ciba_save_def ciba_find_def ciba_delete_def ciba_approve_def ciba_deny_def

interpretation devices: decision_repo da_device_code_hash dict_ok devices_find devices_save
  devices_delete da_status devices_approve devices_deny
  by unfold_locales (simp_all add: device_repo_defs option.map_comp comp_def)

interpretation ciba: decision_repo bc_auth_req_id_hash dict_ok ciba_find ciba_save ciba_delete
  bc_status "\<lambda>h (_ :: unit). ciba_approve h" ciba_deny
  by unfold_locales (simp_all add: ciba_repo_defs option.map_comp comp_def)

lemma devices_approve_find [repo_simps]:
  "devices_find (devices_approve h sub d) k = (if k = h
     then map_option (\<lambda>s. s\<lparr>da_status := Approved, da_subject := sub\<rparr>) (devices_find d h)
     else devices_find d k)"
  by (simp add: device_repo_defs)

lemma devices_deny_find [repo_simps]:
  "devices_find (devices_deny h d) k = (if k = h
     then map_option (\<lambda>s. s\<lparr>da_status := Denied\<rparr>) (devices_find d h) else devices_find d k)"
  by (simp add: device_repo_defs)

lemma ciba_approve_find [repo_simps]:
  "ciba_find (ciba_approve h d) k = (if k = h
     then map_option (\<lambda>r. r\<lparr>bc_status := Approved\<rparr>) (ciba_find d h) else ciba_find d k)"
  by (simp add: ciba_repo_defs)

lemma ciba_deny_find [repo_simps]:
  "ciba_find (ciba_deny h d) k = (if k = h
     then map_option (\<lambda>r. r\<lparr>bc_status := Denied\<rparr>) (ciba_find d h) else ciba_find d k)"
  by (simp add: ciba_repo_defs)

lemma devices_by_user_code_stored:
  assumes "devices_find_by_user_code d code = Some s" and "dict_ok d"
  shows "\<exists>k. devices_find d k = Some s \<and> da_user_code s = code"
proof -
  from assms(1) have "s \<in> set (dict_values d)" and code: "da_user_code s = code"
    by (auto simp: devices_find_by_user_code_def find_Some_iff)
  with assms(2) have "s \<in> ran (map_of d)" by (simp add: dict_values_ran)
  with code show ?thesis by (auto simp: ran_def devices_find_def)
qed

subsection \<open>Denylist of revoked tokens, DPoP proof identifiers\<close>

definition revoked_save :: "revoked_token \<Rightarrow> (str \<times> revoked_token) list \<Rightarrow> (str \<times> revoked_token) list" where
  "revoked_save v d = dict_set (rv_token_hash v) v d"
definition is_revoked :: "(str \<times> revoked_token) list \<Rightarrow> str \<Rightarrow> bool" where
  "is_revoked d h = (dict_get d h \<noteq> None)"
definition revoked_purge :: "instant \<Rightarrow> (str \<times> revoked_token) list \<Rightarrow> (str \<times> revoked_token) list" where
  "revoked_purge now d = filter (\<lambda>(k, v). \<not> rv_expires_at v \<le> now) d"

definition replays_save :: "dpop_replay \<Rightarrow> (str \<times> dpop_replay) list \<Rightarrow> (str \<times> dpop_replay) list" where
  "replays_save v d = dict_set (dr_jti_hash v) v d"
definition is_used :: "(str \<times> dpop_replay) list \<Rightarrow> str \<Rightarrow> bool" where
  "is_used d h = (dict_get d h \<noteq> None)"
definition replays_purge :: "instant \<Rightarrow> (str \<times> dpop_replay) list \<Rightarrow> (str \<times> dpop_replay) list" where
  "replays_purge now d = filter (\<lambda>(k, v). \<not> dr_expires_at v \<le> now) d"

lemma purge_lookup:
  "dict_ok d \<Longrightarrow> map_of (filter (\<lambda>(k, v). \<not> f v \<le> (now :: instant)) d) k =
     (case map_of d k of Some v \<Rightarrow> if f v \<le> now then None else Some v | None \<Rightarrow> None)"
  by (subst map_of_filter_values) (auto split: option.splits)

interpretation revoked: deny_list rv_token_hash rv_expires_at dict_ok map_of revoked_save
  is_revoked revoked_purge
  by unfold_locales
    (auto simp: revoked_save_def is_revoked_def revoked_purge_def purge_lookup dict_ok_filter
      cong: option.case_cong)

interpretation replays: deny_list dr_jti_hash dr_expires_at dict_ok map_of replays_save
  is_used replays_purge
  by unfold_locales
    (auto simp: replays_save_def is_used_def replays_purge_def purge_lookup dict_ok_filter
      cong: option.case_cong)

lemmas [repo_simps] = revoked.dl_save revoked.save_member replays.dl_save replays.save_member

subsection \<open>Consents\<close>

definition consents_save :: "consent \<Rightarrow> ((str \<times> str) \<times> consent) list \<Rightarrow> ((str \<times> str) \<times> consent) list" where
  "consents_save v d = dict_set ((co_subject v, co_client_id v)) v d"
definition consents_find :: "((str \<times> str) \<times> consent) list \<Rightarrow> (str \<times> str) \<Rightarrow> consent option" where
  "consents_find d k = dict_get d k"
definition consents_delete :: "(str \<times> str) \<Rightarrow> ((str \<times> str) \<times> consent) list \<Rightarrow> ((str \<times> str) \<times> consent) list" where
  "consents_delete k d = dict_pop k d"

interpretation consents: keyed_repo "\<lambda>v. (co_subject v, co_client_id v)" dict_ok consents_find consents_save consents_delete
  by unfold_locales (simp_all add: consents_save_def consents_find_def consents_delete_def)

subsection \<open>Clients, resources, credential offers\<close>

definition clients_save :: "client \<Rightarrow> (str \<times> client) list \<Rightarrow> (str \<times> client) list" where
  "clients_save v d = dict_set (cl_client_id v) v d"
definition clients_find :: "(str \<times> client) list \<Rightarrow> str \<Rightarrow> client option" where
  "clients_find d k = dict_get d k"
definition clients_delete :: "str \<Rightarrow> (str \<times> client) list \<Rightarrow> (str \<times> client) list" where
  "clients_delete k d = dict_pop k d"

interpretation clients: keyed_repo "\<lambda>v. cl_client_id v" dict_ok clients_find clients_save clients_delete
  by unfold_locales (simp_all add: clients_save_def clients_find_def clients_delete_def)

text \<open>
  \<open>is_cors_origin_allowed\<close>: \<open>any\<close> stops at the first client that allows the origin, so a
  later client whose addresses do not parse is not read; \<open>None\<close> is the escaping \<open>ValueError\<close>.
\<close>

fun origin_allowed_by :: "services \<Rightarrow> str \<Rightarrow> client list \<Rightarrow> bool option" where
  "origin_allowed_by X origin [] = Some False"
| "origin_allowed_by X origin (c # cs) =
     (if \<not> cl_is_active c then origin_allowed_by X origin cs
      else case cors_allowed_origins X c of
          None \<Rightarrow> None
        | Some origins \<Rightarrow> (if origin \<in> origins then Some True else origin_allowed_by X origin cs))"

definition is_cors_origin_allowed :: "services \<Rightarrow> str \<Rightarrow> (str \<times> client) list \<Rightarrow> bool option" where
  "is_cors_origin_allowed X origin d = origin_allowed_by X origin (dict_values d)"

definition api_save :: "api_resource \<Rightarrow> (str \<times> api_resource) list \<Rightarrow> (str \<times> api_resource) list" where
  "api_save v d = dict_set (ar_name v) v d"
definition api_find :: "(str \<times> api_resource) list \<Rightarrow> str \<Rightarrow> api_resource option" where
  "api_find d k = dict_get d k"
definition api_delete :: "str \<Rightarrow> (str \<times> api_resource) list \<Rightarrow> (str \<times> api_resource) list" where
  "api_delete k d = dict_pop k d"

interpretation api: keyed_repo "\<lambda>v. ar_name v" dict_ok api_find api_save api_delete
  by unfold_locales (simp_all add: api_save_def api_find_def api_delete_def)

definition identity_save :: "identity_resource \<Rightarrow> (str \<times> identity_resource) list \<Rightarrow> (str \<times> identity_resource) list" where
  "identity_save v d = dict_set (ir_name v) v d"
definition identity_find :: "(str \<times> identity_resource) list \<Rightarrow> str \<Rightarrow> identity_resource option" where
  "identity_find d k = dict_get d k"
definition identity_delete :: "str \<Rightarrow> (str \<times> identity_resource) list \<Rightarrow> (str \<times> identity_resource) list" where
  "identity_delete k d = dict_pop k d"

interpretation identity: keyed_repo "\<lambda>v. ir_name v" dict_ok identity_find identity_save identity_delete
  by unfold_locales (simp_all add: identity_save_def identity_find_def identity_delete_def)

definition offers_save :: "credential_offer \<Rightarrow> (str \<times> credential_offer) list \<Rightarrow> (str \<times> credential_offer) list" where
  "offers_save v d = dict_set (of_offer_id v) v d"
definition offers_find :: "(str \<times> credential_offer) list \<Rightarrow> str \<Rightarrow> credential_offer option" where
  "offers_find d k = dict_get d k"
definition offers_delete :: "str \<Rightarrow> (str \<times> credential_offer) list \<Rightarrow> (str \<times> credential_offer) list" where
  "offers_delete k d = dict_pop k d"

interpretation offers: keyed_repo "\<lambda>v. of_offer_id v" dict_ok offers_find offers_save offers_delete
  by unfold_locales (simp_all add: offers_save_def offers_find_def offers_delete_def)

lemmas [repo_simps] =
  devices.find_save devices.find_delete ciba.find_save ciba.find_delete
  consents.find_save consents.find_delete clients.find_save clients.find_delete
  api.find_save api.find_delete identity.find_save identity.find_delete
  offers.find_save offers.find_delete

subsection \<open>OpenID 2.0 identifiers: two dictionaries over the same entities\<close>

record openid20_store =
  os_by_account :: "((str \<times> str) \<times> openid20_identifier) list"
  os_by_identifier :: "(str \<times> openid20_identifier) list"

definition openid20_save :: "openid20_identifier \<Rightarrow> openid20_store \<Rightarrow> openid20_store" where
  "openid20_save v s = \<lparr>os_by_account = dict_set (oi_subject v, oi_realm v) v (os_by_account s),
     os_by_identifier = dict_set (oi_identifier v) v (os_by_identifier s)\<rparr>"
definition openid20_find :: "openid20_store \<Rightarrow> str \<Rightarrow> str \<Rightarrow> openid20_identifier option" where
  "openid20_find s subject realm = dict_get (os_by_account s) (subject, realm)"
definition openid20_find_by_identifier :: "openid20_store \<Rightarrow> str \<Rightarrow> openid20_identifier option" where
  "openid20_find_by_identifier s i = dict_get (os_by_identifier s) i"
definition openid20_find_all :: "openid20_store \<Rightarrow> openid20_identifier list" where
  "openid20_find_all s = dict_values (os_by_account s)"

subsection \<open>The server's state\<close>

text \<open>
  One record holds every repository.  \<open>datetime.now\<close>, \<open>token_urlsafe\<close> and \<open>uuid4\<close> read the
  next element of the streams \<open>w_clock\<close> and \<open>w_rand\<close>; \<open>secrets.choice\<close> takes the element of
  its argument at the next number of the stream \<open>w_pick\<close>.
\<close>

record world =
  w_clients :: "(str \<times> client) list"
  w_codes :: "(str \<times> authorization_code) list"
  w_refresh :: "(str \<times> refresh_token) list"
  w_revoked :: "(str \<times> revoked_token) list"
  w_devices :: "(str \<times> device_authorization) list"
  w_ciba :: "(str \<times> backchannel_request) list"
  w_pushed :: "(str \<times> pushed_authorization) list"
  w_consents :: "((str \<times> str) \<times> consent) list"
  w_replays :: "(str \<times> dpop_replay) list"
  w_api :: "(str \<times> api_resource) list"
  w_identity :: "(str \<times> identity_resource) list"
  w_offers :: "(str \<times> credential_offer) list"
  w_openid20 :: openid20_store
  w_users :: "(str \<times> (str \<times> json) list) list"
  w_clock :: "nat \<Rightarrow> instant"
  w_tick :: nat
  w_rand :: "nat \<Rightarrow> str"
  w_draw :: nat
  w_pick :: "nat \<Rightarrow> nat"

definition current :: "world \<Rightarrow> instant" where
  "current w = w_clock w (w_tick w)"

definition now_utc :: "(world, 'e, instant) prog" where
  "now_utc = (\<lambda>w. (Inr (current w), w\<lparr>w_tick := Suc (w_tick w)\<rparr>))"

definition fresh_token :: "(world, 'e, str) prog" where
  "fresh_token = (\<lambda>w. (Inr (w_rand w (w_draw w)), w\<lparr>w_draw := Suc (w_draw w)\<rparr>))"

definition choose_char :: "str \<Rightarrow> (world, 'e, char) prog" where
  "choose_char xs = (\<lambda>w. (Inr (xs ! (w_pick w (w_draw w) mod length xs)),
     w\<lparr>w_draw := Suc (w_draw w)\<rparr>))"

lemma now_utc_iff [prog_simps]:
  "now_utc w = (r, u) \<longleftrightarrow> r = Inr (current w) \<and> u = w\<lparr>w_tick := Suc (w_tick w)\<rparr>"
  by (auto simp: now_utc_def)

lemma fresh_token_iff [prog_simps]:
  "fresh_token w = (r, u) \<longleftrightarrow> r = Inr (w_rand w (w_draw w)) \<and> u = w\<lparr>w_draw := Suc (w_draw w)\<rparr>"
  by (auto simp: fresh_token_def)

lemma choose_char_iff [prog_simps]:
  "choose_char xs w = (r, u) \<longleftrightarrow>
     r = Inr (xs ! (w_pick w (w_draw w) mod length xs)) \<and> u = w\<lparr>w_draw := Suc (w_draw w)\<rparr>"
  by (auto simp: choose_char_def)

lemma andthen_world [run_simps]:
  "andthen now_utc f w = f (current w) (w\<lparr>w_tick := Suc (w_tick w)\<rparr>)"
  "andthen fresh_token g w = g (w_rand w (w_draw w)) (w\<lparr>w_draw := Suc (w_draw w)\<rparr>)"
  "andthen (choose_char xs) h w =
     h (xs ! (w_pick w (w_draw w) mod length xs)) (w\<lparr>w_draw := Suc (w_draw w)\<rparr>)"
  by (simp_all add: andthen_def now_utc_def fresh_token_def choose_char_def)

lemma moves_now: "(\<And>w. R w (w\<lparr>w_tick := Suc (w_tick w)\<rparr>)) \<Longrightarrow> moves R now_utc"
  by (simp add: moves_def now_utc_def)

lemma moves_fresh: "(\<And>w. R w (w\<lparr>w_draw := Suc (w_draw w)\<rparr>)) \<Longrightarrow> moves R fresh_token"
  by (simp add: moves_def fresh_token_def)

definition find_client :: "str \<Rightarrow> (world, 'e, client option) prog" where
  "find_client cid = peek (\<lambda>w. clients_find (w_clients w) cid)"

end
