(* ===== verification/Samples.thy ===== *)
theory Samples
  imports Stores
begin

text \<open>
  Concrete services and an empty server, on which the witnesses evaluate the properties.  The
  hash and signature functions are readable stand-ins: each wraps its argument.
\<close>

definition sample_services :: services where
  "sample_services = \<lparr>
     sv_sha256_hex = (\<lambda>s. ''hex.'' @ s),
     sv_sha256_b64 = (\<lambda>s. ''b64.'' @ s),
     sv_sha2 = (\<lambda>n s. s @ s),
     sv_b64 = (\<lambda>s. s),
     sv_hmac_b64 = (\<lambda>k m. k @ ''.'' @ m),
     sv_json_loads = (\<lambda>_. None),
     sv_json_dumps = (\<lambda>_. ''{}''),
     sv_json_dumps_sorted = (\<lambda>_. ''{}''),
     sv_py_str = (\<lambda>_. ''None''),
     sv_ip_literal = (\<lambda>_. True),
     sv_b64_text = (\<lambda>_. None),
     sv_jwt_encode = (\<lambda>alg secret claims. ''jwt''),
     sv_unverified_header = (\<lambda>_. None),
     sv_unverified_claims = (\<lambda>_. None),
     sv_jwk_usable = (\<lambda>_ _. True),
     sv_jws_verified = (\<lambda>_ _ _. True),
     sv_verify_assertion = (\<lambda>_ _ _ _ _. None),
     sv_issuer_of = (\<lambda>_. []),
     sv_decrypt = (\<lambda>s. s),
     sv_encrypt_id_token = (\<lambda>_ _ _. None),
     sv_server_token_claims = (\<lambda>_ _ _ _. None)\<rparr>"

definition sample_world :: world where
  "sample_world = \<lparr>w_clients = [], w_codes = [], w_refresh = [], w_revoked = [], w_devices = [],
     w_ciba = [], w_pushed = [], w_consents = [], w_replays = [], w_api = [], w_identity = [],
     w_offers = [], w_openid20 = \<lparr>os_by_account = [], os_by_identifier = []\<rparr>, w_users = [],
     w_clock = (\<lambda>n. int n), w_tick = 0,
     w_rand = (\<lambda>n. ''r'' @ str_of_nat n), w_draw = 0, w_pick = id\<rparr>"

lemma sampled_run:
  "map_sum (\<lambda>_. ()) f (fst r) = Inr y \<Longrightarrow> \<exists>x v. r = (Inr x, v) \<and> f x = y"
  by (cases r; cases "fst r") auto

end
