(* ===== verification/Registry.thy ===== *)
theory Registry
  imports Samples
begin

text \<open>
  \<open>application/scope_registry.py\<close> and \<open>application/resource_indicators.py\<close>: the scopes and
  resources the server knows, the audience of an access token, the \<open>resource\<close> parameter of
  RFC 8707.
\<close>

subsection \<open>The scope registry\<close>

record registry =
  rg_identity :: bool
  rg_api :: bool
  rg_extra_scopes :: "str set"

definition known_scope_names :: "registry \<Rightarrow> world \<Rightarrow> str set" where
  "known_scope_names g w =
     ir_name ` set default_identity_resources \<union> rg_extra_scopes g
     \<union> (if rg_identity g then ir_name ` set (dict_values (w_identity w)) else {})
     \<union> (if rg_api g then \<Union> (ar_scopes ` set (dict_values (w_api w))) else {})"

definition unknown_scopes :: "registry \<Rightarrow> world \<Rightarrow> str set \<Rightarrow> str list" where
  "unknown_scopes g w scopes = sorted_strs (scopes - known_scope_names g w)"

definition unknown_resources :: "registry \<Rightarrow> world \<Rightarrow> str list \<Rightarrow> str list" where
  "unknown_resources g w resources =
     (if \<not> rg_api g \<or> resources = [] then []
      else let known = {i \<in> ar_indicator ` set (dict_values (w_api w)). i \<noteq> []}
           in filter (\<lambda>uri. uri \<notin> known) resources)"

definition audiences_for :: "registry \<Rightarrow> world \<Rightarrow> str \<Rightarrow> str set \<Rightarrow> json" where
  "audiences_for g w client_id scopes =
     (if \<not> rg_api g then JStr client_id
      else let audiences = sort (map ar_name
                 (filter (\<lambda>r. ar_scopes r \<inter> scopes \<noteq> {}) (dict_values (w_api w))))
           in case audiences of
                [] \<Rightarrow> JStr client_id
              | [a] \<Rightarrow> JStr a
              | _ \<Rightarrow> JList (map JStr audiences))"

subsection \<open>The \<open>resource\<close> parameter\<close>

fun resource_text :: "services \<Rightarrow> json \<Rightarrow> str" where
  "resource_text X (JStr s) = py_strip s"
| "resource_text X v = sv_py_str X v"

definition resource_candidates :: "services \<Rightarrow> str \<Rightarrow> json list" where
  "resource_candidates X raw =
     (if starts_with ''['' raw then
        (case sv_json_loads X raw of
           None \<Rightarrow> [JStr raw]
         | Some (JList vs) \<Rightarrow> vs
         | Some v \<Rightarrow> [v])
      else [JStr raw])"

definition parse_resource_parameter :: "services \<Rightarrow> str \<Rightarrow> str list" where
  "parse_resource_parameter X v =
     (let raw = py_strip v
      in if raw = [] then []
         else dedup (filter (\<lambda>t. t \<noteq> []) (map (resource_text X) (resource_candidates X raw))))"

definition encode_resource_parameter :: "services \<Rightarrow> str list \<Rightarrow> str" where
  "encode_resource_parameter X values =
     (let ordered = dedup (map py_strip (filter (\<lambda>v. py_strip v \<noteq> []) values))
      in case ordered of
           [] \<Rightarrow> []
         | [v] \<Rightarrow> v
         | _ \<Rightarrow> sv_json_dumps X (JList (map JStr ordered)))"

fun resource_audience :: "str list \<Rightarrow> json" where
  "resource_audience [r] = JStr r"
| "resource_audience rs = JList (map JStr rs)"

subsection \<open>Lemmas\<close>

lemma sorted_strs_set: "finite S \<Longrightarrow> set (sorted_strs S) = S"
  by (simp add: sorted_strs_def)

lemma sorted_strs_empty [simp]: "finite S \<Longrightarrow> sorted_strs S = [] \<longleftrightarrow> S = {}"
  by (simp add: sorted_strs_def)

lemma unknown_scopes_none:
  "finite scopes \<Longrightarrow> unknown_scopes g w scopes = [] \<longleftrightarrow> scopes \<subseteq> known_scope_names g w"
  by (auto simp: unknown_scopes_def)

lemma finite_from_space_separated [simp]: "finite (from_space_separated v)"
  by (simp add: from_space_separated_def)

lemma last_dropWhile: "dropWhile P xs \<noteq> [] \<Longrightarrow> last (dropWhile P xs) = last xs"
  by (induction xs) auto

lemma strip_ends:
  assumes "py_strip v \<noteq> []"
  shows "\<not> is_space (hd (py_strip v)) \<and> \<not> is_space (last (py_strip v))"
proof -
  let ?l = "dropWhile is_space v"
  let ?r = "dropWhile is_space (rev ?l)"
  have r: "?r \<noteq> []" using assms by (simp add: py_strip_def)
  then have "\<not> is_space (hd ?r)" by (rule hd_dropWhile)
  moreover have nonempty: "?l \<noteq> []" using r by (metis dropWhile.simps(1) rev.simps(1))
  then have "\<not> is_space (hd ?l)" by (rule hd_dropWhile)
  moreover from this nonempty have "last ?r = hd ?l"
    using last_dropWhile [OF r] by (simp add: last_rev)
  ultimately show ?thesis by (simp add: py_strip_def hd_rev last_rev r)
qed

lemma strip_fixed: "v \<noteq> [] \<Longrightarrow> \<not> is_space (hd v) \<Longrightarrow> \<not> is_space (last v) \<Longrightarrow> py_strip v = v"
  using dropWhile_eq_self_iff [of is_space v] dropWhile_eq_self_iff [of is_space "rev v"]
  by (simp add: py_strip_def hd_rev)

lemma strip_idem [simp]: "py_strip (py_strip v) = py_strip v"
proof (cases "py_strip v = []")
  case True
  then show ?thesis by (simp only:) (simp add: py_strip_def)
next
  case False
  with strip_ends show ?thesis by (intro strip_fixed) auto
qed

lemma map_resource_text [simp]: "map (resource_text X) (map JStr vs) = map py_strip vs"
  by simp

lemma parse_resource_clean:
  "distinct (parse_resource_parameter X v) \<and> [] \<notin> set (parse_resource_parameter X v)"
  by (simp add: parse_resource_parameter_def Let_def)

subsection \<open>Properties\<close>

definition declared_resources :: "str list \<Rightarrow> str list" where
  "declared_resources values = dedup (filter (\<lambda>v. v \<noteq> []) (map py_strip values))"

text \<open>A repeated \<open>resource\<close> parameter survives its encoding: decoding what
  \<open>encode_resource_parameter\<close> builds gives the declared values stripped, without the empty
  ones and without repetition, in order, when \<open>json\<close> decodes what it encodes as a bracketed
  array and a value travelling alone does not itself look like a JSON array.\<close>

lemma resource_parameter_roundtrip:
  assumes "\<exists>body. sv_json_dumps X (JList (map JStr (declared_resources values))) = ''['' @ body @ '']''"
    and "sv_json_loads X (sv_json_dumps X (JList (map JStr (declared_resources values))))
       = Some (JList (map JStr (declared_resources values)))"
    and "\<And>v. v \<in> set values \<Longrightarrow> \<not> starts_with ''['' (py_strip v)"
  shows "parse_resource_parameter X (encode_resource_parameter X values) = declared_resources values"
proof -
  define ordered where "ordered = declared_resources values"
  note ordered_eq = ordered_def [unfolded declared_resources_def]
  have ordered': "ordered = dedup (map py_strip (filter (\<lambda>v. py_strip v \<noteq> []) values))"
    by (simp add: ordered_eq filter_map comp_def)
  have stripped: "map py_strip ordered = ordered"
    by (rule map_idI) (auto simp: ordered_eq)
  have clean: "distinct ordered" "filter (\<lambda>v. v \<noteq> []) ordered = ordered"
    by (auto simp: ordered_eq filter_id_conv)
  have plain: "v \<in> set ordered \<Longrightarrow> \<not> starts_with ''['' v" for v
    using assms(3) by (auto simp: ordered_eq)
  consider (none) "ordered = []" | (one) v where "ordered = [v]"
    | (many) u v ws where "ordered = u # v # ws"
    by (metis list.exhaust)
  then show ?thesis
  proof cases
    case none
    then show ?thesis
      by (simp add: encode_resource_parameter_def parse_resource_parameter_def
          flip: ordered' ordered_def) (simp add: py_strip_def)
  next
    case one
    have "v \<in> set ordered" using one by simp
    then have "v \<noteq> []" by (auto simp: ordered_eq)
    with one stripped plain show ?thesis
      by (simp add: encode_resource_parameter_def parse_resource_parameter_def
          resource_candidates_def flip: ordered' ordered_def)
  next
    case many
    obtain body where body: "sv_json_dumps X (JList (map JStr ordered)) = ''['' @ body @ '']''"
      using assms(1) by (auto simp flip: ordered_def)
    have "py_strip (''['' @ body @ '']'') = ''['' @ body @ '']''"
      by (rule strip_fixed) (simp_all add: is_space_def)
    with many body assms(2) stripped clean show ?thesis
      by (simp add: encode_resource_parameter_def parse_resource_parameter_def
          resource_candidates_def starts_with_def comp_def flip: ordered' ordered_def)
  qed
qed

definition sample_json :: services where
  "sample_json = sample_services\<lparr>
     sv_json_dumps := (\<lambda>v. ''[.https://a.,.https://b.]''),
     sv_json_loads := (\<lambda>s. if s = ''[.https://a.,.https://b.]''
        then Some (JList [JStr ''https://a'', JStr ''https://b'']) else None)\<rparr>"

lemma resource_parameter_roundtrip_witness:
  "parse_resource_parameter sample_json
     (encode_resource_parameter sample_json ['' https://a'', '''', ''https://b'', ''https://a ''])
   = [''https://a'', ''https://b'']"
proof -
  have d: "declared_resources ['' https://a'', '''', ''https://b'', ''https://a '']
      = [''https://a'', ''https://b'']"
    by code_simp
  have "parse_resource_parameter sample_json
     (encode_resource_parameter sample_json ['' https://a'', '''', ''https://b'', ''https://a ''])
   = declared_resources ['' https://a'', '''', ''https://b'', ''https://a '']"
    by (rule resource_parameter_roundtrip; (simp only: d)?)
      (auto simp: sample_json_def starts_with_def py_strip_def is_space_def)
  with d show ?thesis by simp
qed

fun audience_names :: "json \<Rightarrow> str set" where
  "audience_names (JStr s) = {s}"
| "audience_names (JList vs) = {s. JStr s \<in> set vs}"
| "audience_names _ = {}"

text \<open>The audience of an access token is exactly the set of API resources one of whose
  scopes was granted; without any it is the client itself.\<close>

lemma audiences_for_granted:
  "audience_names (audiences_for g w cid scopes) =
     (let granted = {ar_name r | r. r \<in> set (dict_values (w_api w)) \<and> ar_scopes r \<inter> scopes \<noteq> {}}
      in if rg_api g \<and> granted \<noteq> {} then granted else {cid})"
proof (cases "rg_api g")
  case True
  define names where "names = sort (map ar_name
      (filter (\<lambda>r. ar_scopes r \<inter> scopes \<noteq> {}) (dict_values (w_api w))))"
  have set_names: "set names =
      {ar_name r | r. r \<in> set (dict_values (w_api w)) \<and> ar_scopes r \<inter> scopes \<noteq> {}}"
    by (auto simp: names_def)
  consider (none) "names = []" | (one) a where "names = [a]" | (many) a b cs where "names = a # b # cs"
    by (metis list.exhaust)
  then show ?thesis
  proof cases
    case none
    with True set_names show ?thesis by (simp add: audiences_for_def flip: names_def set_names)
  next
    case one
    with True set_names show ?thesis by (simp add: audiences_for_def flip: names_def set_names)
  next
    case many
    with True set_names show ?thesis
      by (auto simp: audiences_for_def simp flip: names_def set_names)
  qed
qed (simp add: audiences_for_def)

end
