(* ===== verification/Dpop.thy ===== *)
theory Dpop
  imports Samples
begin

text \<open>
  DPoP (RFC 9449): the proof validator \<open>infrastructure/dpop.py\<close> with its anti-replay store,
  and the rules of the token endpoint, \<open>application/dpop.py\<close>.
\<close>

record dpop_proof =
  pf_jkt :: str
  pf_jti :: str
  pf_htm :: str
  pf_htu :: str
  pf_nonce :: str

definition iat_skew_seconds :: int where "iat_skew_seconds = 300"
definition max_lifetime_seconds :: int where "max_lifetime_seconds = 50 * 365 * 24 * 3600"

definition dpop_reject :: "str \<Rightarrow> failure" where
  "dpop_reject d = Refused ''invalid_dpop_proof'' d"

subsection \<open>Header and key\<close>

definition check_header :: "(str \<times> json) list \<Rightarrow> failure + str \<times> (str \<times> json) list" where
  "check_header header =
     (if map_of header ''typ'' \<noteq> Some (JStr ''dpop+jwt'')
      then Inl (dpop_reject ''En-tete typ doit valoir dpop+jwt'')
      else case jget_str header ''alg'' of
          None \<Rightarrow> Inl (dpop_reject ''En-tete alg absent ou algorithme non autorise pour une preuve DPoP'')
        | Some alg \<Rightarrow>
            if alg \<notin> set dpop_signing_algorithms
            then Inl (dpop_reject ''En-tete alg absent ou algorithme non autorise pour une preuve DPoP'')
            else case map_of header ''jwk'' of
                Some (JObj jwk) \<Rightarrow> Inr (alg, jwk)
              | _ \<Rightarrow> Inl (dpop_reject ''En-tete jwk absent ou non objet''))"

definition private_jwk_members :: "str list" where
  "private_jwk_members = [''d'', ''p'', ''q'', ''dp'', ''dq'', ''qi'', ''k'', ''oth'']"

definition es_curve :: "str \<Rightarrow> str option" where
  "es_curve alg = map_of [(''ES256'', ''P-256''), (''ES384'', ''P-384''), (''ES512'', ''P-521'')] alg"

text \<open>\<open>jwk_thumbprint\<close>: \<open>None\<close> is the \<open>ValueError\<close> or \<open>KeyError\<close> the caller catches.\<close>

definition thumbprint_members :: "(str \<times> json) list \<Rightarrow> str list option" where
  "thumbprint_members jwk =
     (case jget_str jwk ''kty'' of
        None \<Rightarrow> None
      | Some kty \<Rightarrow>
          if kty = ''RSA'' then Some [''e'', ''kty'', ''n'']
          else if kty = ''EC'' then Some [''crv'', ''kty'', ''x'', ''y'']
          else if kty = ''OKP'' then Some [''crv'', ''kty'', ''x'']
          else None)"

definition jwk_thumbprint :: "services \<Rightarrow> (str \<times> json) list \<Rightarrow> str option" where
  "jwk_thumbprint X jwk =
     (case thumbprint_members jwk of
        None \<Rightarrow> None
      | Some names \<Rightarrow>
          if list_all (\<lambda>n. map_of jwk n \<noteq> None) names
          then Some (sv_sha256_b64 X (sv_json_dumps_sorted X
                 (JObj (map (\<lambda>n. (n, the (map_of jwk n))) names))))
          else None)"

definition check_jwk :: "services \<Rightarrow> (str \<times> json) list \<Rightarrow> str \<Rightarrow> failure + str" where
  "check_jwk X jwk alg =
     (if list_ex (\<lambda>m. map_of jwk m \<noteq> None) private_jwk_members
      then Inl (dpop_reject ''La jwk de la preuve contient une cle privee ou symetrique'')
      else if map_of jwk ''kty'' = Some (JStr ''RSA'')
          \<and> \<not> (starts_with ''RS'' alg \<or> starts_with ''PS'' alg)
      then Inl (dpop_reject ''La jwk (RSA) ne correspond pas a l'algorithme alg'')
      else if map_of jwk ''kty'' = Some (JStr ''EC'') \<and> \<not> starts_with ''ES'' alg
      then Inl (dpop_reject ''La jwk (EC) ne correspond pas a l'algorithme alg'')
      else if es_curve alg \<noteq> None \<and> map_of jwk ''crv'' \<noteq> map_option JStr (es_curve alg)
      then Inl (dpop_reject (''Courbe crv inattendue pour '' @ alg))
      else case (if sv_jwk_usable X jwk alg then jwk_thumbprint X jwk else None) of
          None \<Rightarrow> Inl (dpop_reject ''La jwk de la preuve est invalide'')
        | Some jkt \<Rightarrow> Inr jkt)"

subsection \<open>The called address\<close>

definition strip_query_fragment :: "str \<Rightarrow> str" where
  "strip_query_fragment url =
     takeWhile (\<lambda>c. c \<noteq> CHR ''#'') (takeWhile (\<lambda>c. c \<noteq> CHR ''?'') url)"

text \<open>\<open>_normalize_htu\<close>; \<open>None\<close> is the \<open>ValueError\<close> of \<open>urlsplit\<close>.\<close>

definition normalize_htu :: "services \<Rightarrow> str \<Rightarrow> str option" where
  "normalize_htu X url =
     (case urlsplit (sv_ip_literal X) url of
        None \<Rightarrow> None
      | Some u \<Rightarrow>
          let h = (case hostname u of None \<Rightarrow> [] | Some h \<Rightarrow> h);
              host = (if CHR '':'' \<in> set h then ''['' @ h @ '']'' else h);
              port = (case port_of u of Some p \<Rightarrow> p | None \<Rightarrow> None);
              default_port = map_of [(''http'', 80 :: nat), (''https'', 443)] (u_scheme u);
              netloc = (case port of
                  None \<Rightarrow> host
                | Some p \<Rightarrow> if default_port = Some p then host else host @ '':'' @ str_of_nat p)
          in Some (u_scheme u @ ''://'' @ netloc @ (if u_path u = [] then ''/'' else u_path u)))"

subsection \<open>Time stamps\<close>

definition half_even :: "rat \<Rightarrow> int" where
  "half_even q = (let f = \<lfloor>q\<rfloor>; d = q - of_int f
     in if d < 1 / 2 \<or> (d = 1 / 2 \<and> even f) then f else f + 1)"

text \<open>
  \<open>datetime.fromtimestamp(seconds, tz=utc)\<close>: rounded to the microsecond; \<open>None\<close> outside the
  years 1 to 9999, where Python raises \<open>ValueError\<close> or \<open>OverflowError\<close>.
\<close>

definition from_timestamp :: "rat \<Rightarrow> instant option" where
  "from_timestamp q = (let us = half_even (q * 1000000)
     in if -62135596800000000 \<le> us \<and> us < 253402300800000000 then Some us else None)"

fun json_number :: "json \<Rightarrow> rat option" where
  "json_number (JInt i) = Some (of_int i)"
| "json_number (JFloat q) = Some q"
| "json_number _ = None"

definition check_exp :: "(str \<times> json) list \<Rightarrow> instant \<Rightarrow> failure + unit" where
  "check_exp claims now =
     (case jget claims ''exp'' of
        None \<Rightarrow> Inr ()
      | Some v \<Rightarrow>
         (case json_number v of
            None \<Rightarrow> Inl (dpop_reject ''Claim exp non numerique'')
          | Some q \<Rightarrow>
              if q > of_int (now + seconds max_lifetime_seconds) / 1000000
              then Inl (dpop_reject ''Claim exp demesuree (probablement en millisecondes)'')
              else case from_timestamp q of
                  None \<Rightarrow> Inl (Uncaught ''ValueError'')
                | Some t \<Rightarrow>
                    if t < now - seconds iat_skew_seconds
                    then Inl (dpop_reject ''Preuve DPoP expiree (claim exp)'')
                    else Inr ()))"

definition check_nbf :: "(str \<times> json) list \<Rightarrow> instant \<Rightarrow> failure + unit" where
  "check_nbf claims now =
     (case jget claims ''nbf'' of
        None \<Rightarrow> Inr ()
      | Some v \<Rightarrow>
         (case json_number v of
            None \<Rightarrow> Inl (dpop_reject ''Claim nbf non numerique'')
          | Some q \<Rightarrow>
             (case from_timestamp q of
                None \<Rightarrow> Inl (Uncaught ''ValueError'')
              | Some t \<Rightarrow>
                  if t > now + seconds iat_skew_seconds
                  then Inl (dpop_reject ''Claim nbf situee dans le futur'')
                  else Inr ())))"

definition check_timestamps :: "(str \<times> json) list \<Rightarrow> instant \<Rightarrow> failure + unit" where
  "check_timestamps claims now =
     (case Option.bind (jget claims ''iat'') json_number of
        None \<Rightarrow> Inl (dpop_reject ''Claim iat absente ou non numerique'')
      | Some q \<Rightarrow>
         (case from_timestamp q of
            None \<Rightarrow> Inl (Uncaught ''ValueError'')
          | Some t \<Rightarrow>
              if t > now + seconds iat_skew_seconds
              then Inl (dpop_reject ''Claim iat situee dans le futur'')
              else if t < now - seconds iat_skew_seconds
              then Inl (dpop_reject ''Claim iat trop ancienne (RFC 9449 par. 11.1)'')
              else case check_exp claims now of
                  Inl e \<Rightarrow> Inl e
                | Inr _ \<Rightarrow> check_nbf claims now))"

definition check_ath :: "(str \<times> json) list \<Rightarrow> str \<Rightarrow> failure + unit" where
  "check_ath claims ath =
     (if ath \<noteq> [] then
        (case jget_str claims ''ath'' of
           None \<Rightarrow> Inl (dpop_reject ''Claim ath absente (requis avec un access token)'')
         | Some p \<Rightarrow>
             if p = [] then Inl (dpop_reject ''Claim ath absente (requis avec un access token)'')
             else if p \<noteq> ath
             then Inl (dpop_reject ''Claim ath ne correspond pas a l'access token presente'')
             else Inr ())
      else if jget claims ''ath'' \<noteq> None
      then Inl (dpop_reject ''La preuve du token endpoint ne doit pas porter de claim ath'')
      else Inr ())"

subsection \<open>The payload\<close>

text \<open>The part of \<open>_check_payload\<close> before the clock is read: \<open>jti\<close>, \<open>htm\<close>, \<open>htu\<close>.\<close>

definition check_request :: "services \<Rightarrow> (str \<times> json) list \<Rightarrow> str \<Rightarrow> str \<Rightarrow> failure + str \<times> str" where
  "check_request X claims htu m =
     (case jget_str claims ''jti'' of
        None \<Rightarrow> Inl (dpop_reject ''Claim jti absente ou vide'')
      | Some jti \<Rightarrow>
          if jti = [] then Inl (dpop_reject ''Claim jti absente ou vide'')
          else if map_of claims ''htm'' \<noteq> Some (JStr m)
          then Inl (dpop_reject (''Claim htm inattendue (attendu '' @ m @ '')''))
          else case jget_str claims ''htu'' of
              None \<Rightarrow> Inl (dpop_reject ''Claim htu absente'')
            | Some u \<Rightarrow>
                if u = [] then Inl (dpop_reject ''Claim htu absente'')
                else case (normalize_htu X (strip_query_fragment u),
                           normalize_htu X (strip_query_fragment htu)) of
                    (Some a, Some b) \<Rightarrow>
                      if a = b then Inr (jti, strip_query_fragment u)
                      else Inl (dpop_reject ''Claim htu ne correspond pas a l'endpoint appele'')
                  | _ \<Rightarrow> Inl (Uncaught ''ValueError''))"

definition check_payload :: "services \<Rightarrow> (str \<times> json) list \<Rightarrow> str \<Rightarrow> str \<Rightarrow> str
    \<Rightarrow> (world, failure, str \<times> str) prog" where
  "check_payload X claims htu m ath =
     andthen (lift (check_request X claims htu m)) (\<lambda>r.
     andthen now_utc (\<lambda>now.
     andthen (lift (check_timestamps claims now)) (\<lambda>_.
     andthen (lift (check_ath claims ath)) (\<lambda>_. ok r))))"

definition proof_nonce :: "(str \<times> json) list \<Rightarrow> str" where
  "proof_nonce claims = (case jget_str claims ''nonce'' of Some n \<Rightarrow> n | None \<Rightarrow> [])"

subsection \<open>Validation\<close>

text \<open>Everything but the anti-replay store: what the proof itself must satisfy.\<close>

definition examine :: "services \<Rightarrow> str \<Rightarrow> str \<Rightarrow> str \<Rightarrow> str
    \<Rightarrow> (world, failure, dpop_proof) prog" where
  "examine X proof htu m ath =
     andthen (ensure (proof \<noteq> []) (dpop_reject ''En-tete DPoP vide ou preuve absente'')) (\<lambda>_.
     case (sv_unverified_header X proof, sv_unverified_claims X proof) of
       (Some header, Some claims) \<Rightarrow>
         andthen (lift (check_header header)) (\<lambda>(alg, jwk).
         andthen (lift (check_jwk X jwk alg)) (\<lambda>jkt.
         andthen (check_payload X claims htu m ath) (\<lambda>(jti, url).
         andthen (ensure (sv_jws_verified X proof jwk alg)
                    (dpop_reject ''Signature de la preuve DPoP invalide'')) (\<lambda>_.
         ok \<lparr>pf_jkt = jkt, pf_jti = jti, pf_htm = m, pf_htu = url, pf_nonce = proof_nonce claims\<rparr>))))
     | _ \<Rightarrow> raise (dpop_reject ''Preuve DPoP malformee (JWT invalide)''))"

definition jti_hash :: "services \<Rightarrow> str \<Rightarrow> str" where
  "jti_hash X jti = sv_sha256_hex X jti"

definition remember_jti :: "services \<Rightarrow> dpop_proof \<Rightarrow> (world, failure, dpop_proof) prog" where
  "remember_jti X p =
     andthen now_utc (\<lambda>now.
     andthen (peek (\<lambda>w. is_used (w_replays w) (jti_hash X (pf_jti p)))) (\<lambda>seen.
     andthen (ensure (\<not> seen)
       (dpop_reject ''Le jti de la preuve DPoP a deja ete presente (RFC 9449 par. 11)'')) (\<lambda>_.
     andthen now_utc (\<lambda>seen_at.
     andthen (modify (\<lambda>w. w\<lparr>w_replays := replays_save
        \<lparr>dr_jti_hash = jti_hash X (pf_jti p), dr_expires_at = now + seconds (2 * iat_skew_seconds),
         dr_seen_at = seen_at\<rparr> (w_replays w)\<rparr>)) (\<lambda>_.
     andthen now_utc (\<lambda>purged_at.
     andthen (modify (\<lambda>w. w\<lparr>w_replays := replays_purge purged_at (w_replays w)\<rparr>)) (\<lambda>_.
     ok p)))))))"

definition validate_proof :: "services \<Rightarrow> str \<Rightarrow> str \<Rightarrow> str \<Rightarrow> str
    \<Rightarrow> (world, failure, dpop_proof) prog" where
  "validate_proof X proof htu m ath = andthen (examine X proof htu m ath) (remember_jti X)"

subsection \<open>The rules of the token endpoint\<close>

record dpop_binding =
  db_jkt :: str
  db_bound :: bool

definition unbound :: dpop_binding where
  "unbound = \<lparr>db_jkt = [], db_bound = False\<rparr>"

definition missing_proof :: "client \<Rightarrow> str \<Rightarrow> (world, failure, dpop_binding) prog" where
  "missing_proof c bound_jkt =
     (if cl_require_dpop c
      then raise (Refused ''invalid_dpop_proof'' ''Ce client exige une preuve DPoP (RFC 9449 par. 5.2)'')
      else if bound_jkt \<noteq> []
      then raise (Refused ''invalid_dpop_proof''
             ''La demande est liee a une cle DPoP : preuve DPoP absente'')
      else ok unbound)"

definition evaluate_guard :: "services \<Rightarrow> client \<Rightarrow> str \<Rightarrow> str \<Rightarrow> str \<Rightarrow> str
    \<Rightarrow> (world, failure, dpop_binding) prog" where
  "evaluate_guard X c proof htu m bound_jkt =
     (if proof = [] then missing_proof c bound_jkt
      else andthen (validate_proof X proof htu m []) (\<lambda>p.
        if bound_jkt \<noteq> [] \<and> pf_jkt p \<noteq> bound_jkt
        then raise (Refused ''invalid_grant''
          ''La preuve DPoP ne correspond pas a la cle liee (dpop_jkt, RFC 9449 par. 10)'')
        else ok \<lparr>db_jkt = pf_jkt p, db_bound = True\<rparr>))"

subsection \<open>Lemmas\<close>

text \<open>Programs that only read the clock.\<close>

definition clocked :: "world \<Rightarrow> world \<Rightarrow> bool" where
  "clocked w v \<longleftrightarrow> (\<exists>n. v = w\<lparr>w_tick := w_tick w + n\<rparr>)"

lemma clocked_order [moves_intros]: "transp clocked" "reflp clocked"
proof -
  show "transp clocked"
    by (rule transpI) (force simp: clocked_def add.assoc)
  show "reflp clocked"
    by (rule reflpI) (auto simp: clocked_def intro: exI [of _ 0])
qed

lemma clocked_now [moves_intros]: "moves clocked now_utc"
  by (rule moves_now) (auto simp: clocked_def intro: exI [of _ 1])

lemma moves_case_list [moves_intros]:
  "moves R m \<Longrightarrow> (\<And>x y. moves R (f x y)) \<Longrightarrow> moves R (case v of [] \<Rightarrow> m | x # y \<Rightarrow> f x y)"
  by (cases v) auto

lemma examine_clocked: "moves clocked (examine X proof htu m ath)"
  unfolding examine_def check_payload_def by (intro moves_intros)

lemma evaluate_guard_unbound_means_no_proof:
  "evaluate_guard X c proof htu m j w = (Inr b, v) \<Longrightarrow> \<not> db_bound b \<Longrightarrow>
     proof = [] \<and> \<not> cl_require_dpop c \<and> j = [] \<and> b = unbound"
  by (auto simp: evaluate_guard_def missing_proof_def prog_simps split: if_splits)

lemma evaluate_guard_bound:
  "evaluate_guard X c proof htu m j w = (Inr b, v) \<Longrightarrow> j \<noteq> [] \<Longrightarrow> db_jkt b = j \<and> db_bound b"
  by (auto simp: evaluate_guard_def missing_proof_def prog_simps split: if_splits)

text \<open>What a proof that passes \<open>examine\<close> says, at the clock reading of the check.\<close>

definition issued_at :: "services \<Rightarrow> str \<Rightarrow> instant option" where
  "issued_at X proof =
     Option.bind (sv_unverified_claims X proof) (\<lambda>claims.
     Option.bind (jget claims ''iat'') (\<lambda>v. Option.bind (json_number v) from_timestamp))"

definition proof_jti :: "services \<Rightarrow> str \<Rightarrow> str option" where
  "proof_jti X proof = Option.bind (sv_unverified_claims X proof) (\<lambda>claims. jget_str claims ''jti'')"

lemma check_timestamps_iat:
  "check_timestamps claims t = Inr r \<Longrightarrow> sv_unverified_claims X proof = Some claims \<Longrightarrow>
     \<exists>u. issued_at X proof = Some u \<and> u \<le> t + seconds iat_skew_seconds
       \<and> t \<le> u + seconds iat_skew_seconds"
  by (auto simp: check_timestamps_def issued_at_def bind_eq_Some_conv
      split: option.splits if_splits)

lemma examine_accepts:
  assumes "examine X proof htu m ath w = (Inr p, v)"
  shows "v = w\<lparr>w_tick := Suc (w_tick w)\<rparr> \<and> proof_jti X proof = Some (pf_jti p)
    \<and> (\<exists>u. issued_at X proof = Some u \<and> u \<le> current w + seconds iat_skew_seconds
         \<and> current w \<le> u + seconds iat_skew_seconds)"
proof -
  have payload: "check_payload X claims htu m ath w = (Inr (jti, url), u) \<Longrightarrow>
      jget_str claims ''jti'' = Some jti \<and> u = w\<lparr>w_tick := Suc (w_tick w)\<rparr> \<and>
      (\<exists>r. check_timestamps claims (current w) = Inr r)" for claims jti url u
    by (auto simp: check_payload_def check_request_def prog_simps
        split: option.splits if_splits)
  from assms show ?thesis
    by (auto simp: examine_def prog_simps proof_jti_def dest!: payload check_timestamps_iat
        split: option.splits prod.splits if_splits)
qed

lemma remember_cases:
  assumes "remember_jti X p w = (r, v)"
  obtains (seen) "is_used (w_replays w) (jti_hash X (pf_jti p))" "\<exists>e. r = Inl e"
      "v = w\<lparr>w_tick := Suc (w_tick w)\<rparr>"
    | (new) e where "\<not> is_used (w_replays w) (jti_hash X (pf_jti p))" "r = Inr p"
      "dr_jti_hash e = jti_hash X (pf_jti p)"
      "dr_expires_at e = current w + seconds (2 * iat_skew_seconds)"
      "v = w\<lparr>w_tick := w_tick w + 3,
             w_replays := replays_purge (w_clock w (w_tick w + 2)) (replays_save e (w_replays w))\<rparr>"
proof (cases "is_used (w_replays w) (jti_hash X (pf_jti p))")
  case True
  with assms show ?thesis
    by (intro seen) (cases r; auto simp: remember_jti_def prog_simps)+
next
  case False
  with assms show ?thesis
    by (intro new [of "\<lparr>dr_jti_hash = jti_hash X (pf_jti p),
          dr_expires_at = current w + seconds (2 * iat_skew_seconds),
          dr_seen_at = w_clock w (Suc (w_tick w))\<rparr>"])
      (cases r; auto simp: remember_jti_def prog_simps current_def)+
qed

text \<open>
  The proof with hash \<open>h\<close> issued at \<open>u\<close> can no longer pass: its identifier is remembered for
  as long as its age is acceptable, or it is already too old.
\<close>

definition burnt :: "str \<Rightarrow> instant \<Rightarrow> world \<Rightarrow> bool" where
  "burnt h u w \<longleftrightarrow> dict_ok (w_replays w) \<and> strict_mono (w_clock w) \<and>
     (replays.guards (w_replays w) h (u + seconds iat_skew_seconds)
      \<or> u + seconds iat_skew_seconds < current w)"

lemma burnt_later:
  assumes "burnt h u w" and "w_replays v = w_replays w" and "w_clock v = w_clock w"
    and "w_tick w \<le> w_tick v"
  shows "burnt h u v"
proof -
  have "current w \<le> current v"
    using assms by (simp add: burnt_def current_def strict_mono_less_eq)
  with assms show ?thesis by (auto simp: burnt_def)
qed

lemma burnt_remember:
  assumes "burnt h u w" and "remember_jti X p w = (r, v)"
  shows "burnt h u v"
  using assms(2)
proof (cases rule: remember_cases)
  case seen
  with assms(1) show ?thesis by (auto intro: burnt_later)
next
  case (new e)
  let ?T = "u + seconds iat_skew_seconds" and ?now = "w_clock w (w_tick w + 2)"
  have mono: "strict_mono (w_clock w)" and ok: "dict_ok (w_replays w)"
    using assms(1) by (auto simp: burnt_def)
  have step: "current w < current v" "?now < current v"
    using mono new by (auto simp: current_def strict_mono_less)
  show ?thesis
  proof (cases "?T < current v")
    case True
    with new mono ok show ?thesis
      by (simp add: burnt_def replays.dl_invar_purge replays.dl_invar_save)
  next
    case False
    with assms(1) step have guard: "replays.guards (w_replays w) h ?T"
      by (auto simp: burnt_def)
    then have "h \<noteq> dr_jti_hash e"
      using new replays.guards_member by metis
    with guard have "replays.guards (replays_save e (w_replays w)) h ?T"
      by (simp add: replays.save_guards)
    then have "replays.guards (w_replays v) h ?T"
      using False step new ok by (simp add: replays.purge_guards replays.dl_invar_save)
    with new mono ok show ?thesis
      by (simp add: burnt_def replays.dl_invar_purge replays.dl_invar_save)
  qed
qed

lemma burnt_validate:
  assumes "burnt h u w" and "validate_proof X proof htu m ath w = (r, v)"
  shows "burnt h u v"
proof -
  obtain r1 w1 where run: "examine X proof htu m ath w = (r1, w1)" by fastforce
  with examine_clocked have "clocked w w1" by (rule movesD)
  with assms(1) have first: "burnt h u w1" by (auto simp: clocked_def intro: burnt_later)
  show ?thesis
  proof (cases r1)
    case (Inl e)
    with run assms(2) first show ?thesis by (simp add: validate_proof_def)
  next
    case (Inr p)
    with run assms(2) have "remember_jti X p w1 = (r, v)" by (simp add: validate_proof_def)
    with first show ?thesis by (rule burnt_remember)
  qed
qed

lemma burnt_refused:
  assumes "burnt (jti_hash X j) u w" and "issued_at X proof = Some u" and "proof_jti X proof = Some j"
  shows "\<exists>e. fst (validate_proof X proof htu m ath w) = Inl e"
proof -
  obtain r1 w1 where run: "examine X proof htu m ath w = (r1, w1)" by fastforce
  show ?thesis
  proof (cases r1)
    case (Inl e)
    with run show ?thesis by (simp add: validate_proof_def)
  next
    case (Inr p)
    with run assms(2,3) have pass: "pf_jti p = j" "current w \<le> u + seconds iat_skew_seconds"
      "w_replays w1 = w_replays w"
      by (auto dest!: examine_accepts)
    with assms(1) have "is_used (w_replays w1) (jti_hash X (pf_jti p))"
      by (auto simp: burnt_def dest: replays.guards_member)
    with run Inr show ?thesis
      by (simp add: validate_proof_def remember_jti_def now_utc_def andthen_def peek_def ensure_def
          raise_def)
  qed
qed

lemma validate_burns:
  assumes "validate_proof X proof htu m ath w = (Inr p, v)"
    and "strict_mono (w_clock w)" and "dict_ok (w_replays w)"
  obtains u where "issued_at X proof = Some u" "proof_jti X proof = Some (pf_jti p)"
    "burnt (jti_hash X (pf_jti p)) u v"
proof -
  from assms(1) obtain q w1 where run: "examine X proof htu m ath w = (Inr q, w1)"
    and mem: "remember_jti X q w1 = (Inr p, v)"
    by (auto simp: validate_proof_def prog_simps)
  from run obtain u where iat: "issued_at X proof = Some u"
    and le: "u \<le> current w + seconds iat_skew_seconds"
    and jti: "proof_jti X proof = Some (pf_jti q)" and w1: "w1 = w\<lparr>w_tick := Suc (w_tick w)\<rparr>"
    by (auto dest!: examine_accepts)
  from mem show ?thesis
  proof (cases rule: remember_cases)
    case (new e)
    let ?T = "u + seconds iat_skew_seconds"
    have "current w < current w1"
      using assms(2) by (simp add: w1 current_def strict_mono_less)
    with le new(4) have "?T < dr_expires_at e"
      by (simp add: seconds_def iat_skew_seconds_def)
    then have "replays.guards (replays_save e (w_replays w1)) (jti_hash X (pf_jti q)) ?T"
      using new by (simp add: replays.guards_def replays.dl_save)
    moreover have "w_clock w1 (w_tick w1 + 2) < current v"
      using assms(2) new by (simp add: w1 current_def strict_mono_less)
    ultimately have "?T < current v \<or> replays.guards (w_replays v) (jti_hash X (pf_jti q)) ?T"
      using new assms(3)
      by (cases "w_clock w1 (w_tick w1 + 2) \<le> ?T")
        (simp_all add: w1 replays.purge_guards replays.dl_invar_save)
    with new assms(2,3) iat jti that show ?thesis
      by (auto simp: burnt_def w1 replays.dl_invar_purge replays.dl_invar_save)
  qed auto
qed

subsection \<open>Properties\<close>

inductive dpop_later :: "services \<Rightarrow> world \<Rightarrow> world \<Rightarrow> bool" for X where
  start: "dpop_later X w w"
| check: "dpop_later X w v \<Longrightarrow> validate_proof X proof htu m ath v = (r, u) \<Longrightarrow> dpop_later X w u"
| elsewhere: "dpop_later X w v \<Longrightarrow> w_replays u = w_replays v \<Longrightarrow> w_clock u = w_clock v
    \<Longrightarrow> w_tick v \<le> w_tick u \<Longrightarrow> dpop_later X w u"

lemma burnt_dpop_later: "dpop_later X w v \<Longrightarrow> burnt h u w \<Longrightarrow> burnt h u v"
  by (induction rule: dpop_later.induct) (auto intro: burnt_validate burnt_later)


text \<open>A proof that is refused leaves the anti-replay store as it was: an invalid proof
  never burns an identifier.\<close>

lemma refused_proof_burns_nothing:
  "fst (validate_proof X proof htu m ath w) = Inl e \<Longrightarrow>
     w_replays (snd (validate_proof X proof htu m ath w)) = w_replays w"
proof -
  assume refused: "fst (validate_proof X proof htu m ath w) = Inl e"
  obtain r1 w1 where run: "examine X proof htu m ath w = (r1, w1)" by fastforce
  with examine_clocked have "clocked w w1" by (rule movesD)
  then have same: "w_replays w1 = w_replays w" by (auto simp: clocked_def)
  show ?thesis
  proof (cases r1)
    case (Inr p)
    obtain r v where mem: "remember_jti X p w1 = (r, v)" by fastforce
    from mem show ?thesis
      by (cases rule: remember_cases) (use run mem Inr refused same in \<open>auto simp: validate_proof_def\<close>)
  qed (use run same in \<open>simp add: validate_proof_def\<close>)
qed

lemma check_header_ok:
  "check_header header = Inr (alg, jwk) \<Longrightarrow>
     jget_str header ''alg'' = Some alg \<and> alg \<in> set dpop_signing_algorithms
     \<and> map_of header ''jwk'' = Some (JObj jwk)"
  by (auto simp: check_header_def split: if_splits option.splits json.splits)

lemma check_jwk_ok:
  "check_jwk X jwk alg = Inr jkt \<Longrightarrow>
     (\<forall>k \<in> set private_jwk_members. map_of jwk k = None) \<and> jwk_thumbprint X jwk = Some jkt"
  unfolding check_jwk_def list_ex_iff by (simp split: if_splits option.splits) blast?

lemma check_request_ok:
  "check_request X claims htu m = Inr (jti, url) \<Longrightarrow>
     jget_str claims ''jti'' = Some jti \<and> jget_str claims ''htm'' = Some m
     \<and> (\<exists>u. jget_str claims ''htu'' = Some u \<and> normalize_htu X (strip_query_fragment u)
             = normalize_htu X (strip_query_fragment htu))"
  by (auto simp: check_request_def jget_str_iff split: if_splits option.splits)

lemma examine_ok:
  assumes "examine X proof htu m ath w = (Inr p, v)"
  obtains header claims alg jwk url where
    "sv_unverified_header X proof = Some header" "sv_unverified_claims X proof = Some claims"
    "check_header header = Inr (alg, jwk)" "check_jwk X jwk alg = Inr (pf_jkt p)"
    "check_request X claims htu m = Inr (pf_jti p, url)" "sv_jws_verified X proof jwk alg"
  using assms
  by (auto simp: examine_def check_payload_def prog_simps split: option.splits if_splits)

text \<open>An accepted proof has been checked in full: it is signed by the public key it carries,
  with an asymmetric algorithm admitted for DPoP, for this method and this address, at an
  acceptable time, and its identifier had not been presented before.\<close>

lemma accepted_proof_sound:
  assumes "validate_proof X proof htu m ath w = (Inr p, v)"
  shows "\<exists>header claims alg jwk u t.
      sv_unverified_header X proof = Some header \<and> sv_unverified_claims X proof = Some claims
    \<and> jget_str header ''alg'' = Some alg \<and> alg \<in> set dpop_signing_algorithms
    \<and> map_of header ''jwk'' = Some (JObj jwk) \<and> (\<forall>k \<in> set private_jwk_members. map_of jwk k = None)
    \<and> jwk_thumbprint X jwk = Some (pf_jkt p) \<and> sv_jws_verified X proof jwk alg
    \<and> jget_str claims ''htm'' = Some m \<and> jget_str claims ''htu'' = Some u
    \<and> normalize_htu X (strip_query_fragment u) = normalize_htu X (strip_query_fragment htu)
    \<and> issued_at X proof = Some t \<and> \<bar>t - current w\<bar> \<le> seconds iat_skew_seconds
    \<and> jget_str claims ''jti'' = Some (pf_jti p)
    \<and> \<not> is_used (w_replays w) (jti_hash X (pf_jti p))"
proof -
  from assms obtain q w1 where run: "examine X proof htu m ath w = (Inr q, w1)"
    and mem: "remember_jti X q w1 = (Inr p, v)"
    by (auto simp: validate_proof_def prog_simps)
  from mem have fresh: "\<not> is_used (w_replays w1) (jti_hash X (pf_jti q))" and pq: "p = q"
    by (cases rule: remember_cases; simp)+
  from run obtain t where t: "issued_at X proof = Some t" "\<bar>t - current w\<bar> \<le> seconds iat_skew_seconds"
    and same: "w_replays w1 = w_replays w"
    by (auto dest!: examine_accepts)
  from run obtain header claims alg jwk url where ok: "sv_unverified_header X proof = Some header"
    "sv_unverified_claims X proof = Some claims" "check_header header = Inr (alg, jwk)"
    "check_jwk X jwk alg = Inr (pf_jkt q)" "check_request X claims htu m = Inr (pf_jti q, url)"
    "sv_jws_verified X proof jwk alg"
    by (rule examine_ok)
  from fresh same have unseen: "\<not> is_used (w_replays w) (jti_hash X (pf_jti q))" by simp
  from check_header_ok [OF ok(3)] check_jwk_ok [OF ok(4)] check_request_ok [OF ok(5)]
    ok(1,2,6) t unseen show ?thesis unfolding pq by blast
qed

subsection \<open>A proof on which the properties are evaluated\<close>

definition sample_proof_services :: services where
  "sample_proof_services = sample_services\<lparr>
     sv_unverified_header := (\<lambda>p. if p = ''proof'' then Some [(''typ'', JStr ''dpop+jwt''),
        (''alg'', JStr ''ES256''), (''jwk'', JObj [(''kty'', JStr ''EC''), (''crv'', JStr ''P-256''),
           (''x'', JStr ''1''), (''y'', JStr ''2'')])] else None),
     sv_unverified_claims := (\<lambda>p. if p = ''proof'' then Some [(''jti'', JStr ''j1''),
        (''htm'', JStr ''POST''), (''htu'', JStr ''https://op/token''), (''iat'', JInt 0)] else None)\<rparr>"

lemma sample_proof_accepted:
  "fst (validate_proof sample_proof_services ''proof'' ''https://op/token'' ''POST'' [] sample_world)
   = Inr \<lparr>pf_jkt = ''b64.{}'', pf_jti = ''j1'', pf_htm = ''POST'', pf_htu = ''https://op/token'',
          pf_nonce = []\<rparr>"
  by code_simp

lemma sample_clock: "strict_mono (w_clock sample_world)" "dict_ok (w_replays sample_world)"
  by (simp_all add: sample_world_def strict_mono_def)


lemma refused_proof_burns_nothing_witness:
  "w_replays (snd (validate_proof sample_proof_services [] ''https://op/token'' ''POST'' []
     sample_world)) = []"
  using refused_proof_burns_nothing [of sample_proof_services "[]" "''https://op/token''" "''POST''"
      "[]" sample_world]
  by (simp add: validate_proof_def examine_def ensure_def sample_world_def raise_def)

lemma accepted_proof_sound_witness:
  "\<exists>header. sv_unverified_header sample_proof_services ''proof'' = Some header
     \<and> (\<exists>alg. jget_str header ''alg'' = Some alg \<and> alg \<in> set dpop_signing_algorithms)"
proof -
  obtain p w1 where "validate_proof sample_proof_services ''proof'' ''https://op/token''
      ''POST'' [] sample_world = (Inr p, w1)"
    using sample_proof_accepted by (metis prod.collapse)
  from accepted_proof_sound [OF this] show ?thesis by blast
qed

end
