(* ===== verification/ClientAuth.thy ===== *)
theory ClientAuth
  imports Dpop
begin

text \<open>
  \<open>application/client_auth.py\<close>: authentication of a client by secret, signed assertion or TLS
  certificate, according to its registered method; \<open>application/tls_binding.py\<close>: the check
  that a certificate-bound access token is presented with its certificate.
\<close>

definition client_unknown_error :: str where
  "client_unknown_error = ''Client inconnu ou desactive''"
definition assertion_invalid_error :: str where
  "assertion_invalid_error = ''Assertion client invalide ou expiree''"

subsection \<open>Secrets and certificates\<close>

definition verify_client_secret :: "services \<Rightarrow> client \<Rightarrow> str \<Rightarrow> bool" where
  "verify_client_secret X c secret \<longleftrightarrow> sv_sha256_hex X secret = cl_client_secret_hash c"

definition authenticate_confidential_client :: "services \<Rightarrow> str \<Rightarrow> str \<Rightarrow> world \<Rightarrow> bool" where
  "authenticate_confidential_client X client_id secret w =
     (case clients_find (w_clients w) client_id of
        None \<Rightarrow> False
      | Some c \<Rightarrow> cl_is_active c \<and> cl_client_type c = Confidential \<and> verify_client_secret X c secret)"

definition verify_tls_client_certificate :: "services \<Rightarrow> client \<Rightarrow> client_certificate option \<Rightarrow> bool" where
  "verify_tls_client_certificate X c presented =
     (case presented of
        None \<Rightarrow> False
      | Some p \<Rightarrow>
          if effective_auth_method c = SelfSignedTlsClientAuth \<and> \<not> cert_is_self_signed p then False
          else if cl_tls_client_certificate_hash c \<noteq> [] then
            (case cert_der p of
               None \<Rightarrow> False
             | Some der \<Rightarrow> der_certificate_hash X der = cl_tls_client_certificate_hash c)
          else if cl_tls_client_auth_subject_dn c \<noteq> [] then
            cert_subject_dn p \<noteq> [] \<and> cert_subject_dn p = cl_tls_client_auth_subject_dn c
          else False)"

subsection \<open>Assertions\<close>

text \<open>
  What a request presents.  \<open>av_available\<close> says whether the use case was given an assertion
  verifier.  The functions return the detail of the refusal, \<open>None\<close> for success; PyJWT reads
  the clock.
\<close>

record credentials =
  av_available :: bool
  cr_secret :: str
  cr_assertion_type :: str
  cr_assertion :: str
  cr_audience :: "str list"
  cr_certificate :: "client_certificate option"

definition aud_is_string :: "(str \<times> json) list \<Rightarrow> bool" where
  "aud_is_string claims \<longleftrightarrow> jget_str claims ''aud'' \<noteq> None"

definition authenticate_assertion :: "services \<Rightarrow> client \<Rightarrow> credentials
    \<Rightarrow> (world, failure, str option) prog" where
  "authenticate_assertion X c cr =
     (if \<not> av_available cr \<or> cr_assertion_type cr \<noteq> client_assertion_type_urn \<or> cr_assertion cr = []
      then ok (Some assertion_invalid_error)
      else andthen now_utc (\<lambda>now.
        case sv_verify_assertion X (cr_assertion cr) c (cr_audience cr) True now of
          None \<Rightarrow> ok (Some assertion_invalid_error)
        | Some claims \<Rightarrow>
            if cl_fapi2_enabled c \<and> \<not> aud_is_string claims then ok (Some assertion_invalid_error)
            else ok None))"

definition authenticate_client :: "services \<Rightarrow> client \<Rightarrow> credentials
    \<Rightarrow> (world, failure, str option) prog" where
  "authenticate_client X c cr =
     (case effective_auth_method c of
        ClientSecretBasic \<Rightarrow>
          ok (if verify_client_secret X c (cr_secret cr) then None else Some ''Secret client invalide'')
      | ClientSecretPost \<Rightarrow>
          ok (if verify_client_secret X c (cr_secret cr) then None else Some ''Secret client invalide'')
      | ClientSecretJwt \<Rightarrow> authenticate_assertion X c cr
      | PrivateKeyJwt \<Rightarrow> authenticate_assertion X c cr
      | TlsClientAuth \<Rightarrow>
          ok (if verify_tls_client_certificate X c (cr_certificate cr) then None
              else Some ''Certificat client invalide'')
      | SelfSignedTlsClientAuth \<Rightarrow>
          ok (if verify_tls_client_certificate X c (cr_certificate cr) then None
              else Some ''Certificat client invalide'')
      | AuthNone \<Rightarrow> ok None)"

subsection \<open>Certificate-bound tokens\<close>

definition certificate_binding_error :: "services \<Rightarrow> (str \<times> json) list
    \<Rightarrow> client_certificate option \<Rightarrow> str" where
  "certificate_binding_error X claims cert =
     (case map_of claims ''cnf'' of
        Some (JObj cnf) \<Rightarrow>
          (case jget_str cnf ''x5t#S256'' of
             None \<Rightarrow> []
           | Some expected \<Rightarrow>
               if expected = [] then []
               else case Option.bind cert cert_der of
                   None \<Rightarrow> ''Access token lie au certificat client mTLS (RFC 8705 par. 3.3) : certificat non presente''
                 | Some der \<Rightarrow>
                     if der_certificate_hash X der \<noteq> expected
                     then ''Certificat client different de celui liant l'access token (RFC 8705 par. 3.3)''
                     else [])
      | _ \<Rightarrow> [])"

subsection \<open>Lemmas\<close>

text \<open>The proof of identity a client's method asks for, at an instant.\<close>

fun proves_identity :: "auth_method \<Rightarrow> services \<Rightarrow> client \<Rightarrow> credentials \<Rightarrow> instant \<Rightarrow> bool" where
  "proves_identity AuthNone X c cr t = True"
| "proves_identity ClientSecretBasic X c cr t = (sv_sha256_hex X (cr_secret cr) = cl_client_secret_hash c)"
| "proves_identity ClientSecretPost X c cr t = (sv_sha256_hex X (cr_secret cr) = cl_client_secret_hash c)"
| "proves_identity ClientSecretJwt X c cr t =
     (\<exists>claims. cr_assertion_type cr = client_assertion_type_urn
        \<and> sv_verify_assertion X (cr_assertion cr) c (cr_audience cr) True t = Some claims
        \<and> (cl_fapi2_enabled c \<longrightarrow> aud_is_string claims))"
| "proves_identity PrivateKeyJwt X c cr t =
     (\<exists>claims. cr_assertion_type cr = client_assertion_type_urn
        \<and> sv_verify_assertion X (cr_assertion cr) c (cr_audience cr) True t = Some claims
        \<and> (cl_fapi2_enabled c \<longrightarrow> aud_is_string claims))"
| "proves_identity TlsClientAuth X c cr t = verify_tls_client_certificate X c (cr_certificate cr)"
| "proves_identity SelfSignedTlsClientAuth X c cr t =
     verify_tls_client_certificate X c (cr_certificate cr)"

lemma authenticate_client_ok:
  "authenticate_client X c cr w = (Inr None, v) \<Longrightarrow>
     proves_identity (effective_auth_method c) X c cr (current w)"
  by (auto simp: authenticate_client_def authenticate_assertion_def verify_client_secret_def
      prog_simps split: auth_method.splits option.splits if_splits)

lemma authenticate_client_clocked [moves_intros]: "moves clocked (authenticate_client X c cr)"
  unfolding authenticate_client_def authenticate_assertion_def
  by (cases "effective_auth_method c") (auto intro!: moves_intros)

lemma authenticate_client_total: "\<exists>d. fst (authenticate_client X c cr w) = Inr d"
  by (auto simp: authenticate_client_def authenticate_assertion_def ok_def now_utc_def andthen_def
      split: auth_method.splits option.splits)

subsection \<open>Properties\<close>

text \<open>A certificate-bound access token passes the resource server's check exactly when the
  presented certificate has the hash the token is bound to.\<close>

lemma certificate_binding_enforced:
  assumes "map_of claims ''cnf'' = Some (JObj cnf)" and "jget_str cnf ''x5t#S256'' = Some h"
    and "h \<noteq> []"
  shows "certificate_binding_error X claims cert = [] \<longleftrightarrow>
    (\<exists>c der. cert = Some c \<and> cert_der c = Some der \<and> der_certificate_hash X der = h)"
  using assms by (auto simp: certificate_binding_error_def split: option.splits bind_splits)

lemma certificate_binding_enforced_witness:
  "certificate_binding_error sample_services [(''cnf'', JObj [(''x5t#S256'', JStr ''b64.DER'')])]
     (Some \<lparr>cert_der = Some ''DER'', cert_subject_dn = [], cert_is_self_signed = False\<rparr>) = []"
  by (subst certificate_binding_enforced)
    (auto simp: jget_str_def der_certificate_hash_def sample_services_def)

end
