(* ===== verification/Claims.thy ===== *)
theory Claims
  imports ClientAuth
begin

text \<open>
  The \<open>claims\<close> parameter (\<open>application/claims_request.py\<close>), authorization details
  (\<open>application/authorization_details.py\<close>), identity assurance
  (\<open>domain/identity_assurance.py\<close>, \<open>application/identity_assurance.py\<close>) and the claims
  provider over the user store (\<open>infrastructure/claims.py\<close>).
\<close>

subsection \<open>The \<open>claims\<close> parameter\<close>

record claims_request =
  cq_userinfo :: "str list"
  cq_id_token :: "str list"
  cq_raw_userinfo :: "(str \<times> json) list"
  cq_raw_id_token :: "(str \<times> json) list"

fun constraint_ok :: "json \<Rightarrow> bool" where
  "constraint_ok JNull = True"
| "constraint_ok (JObj _) = True"
| "constraint_ok _ = False"

text \<open>One member of the parameter: \<open>None\<close> when its form is invalid, no claims when absent.\<close>

definition claims_member :: "(str \<times> json) list \<Rightarrow> str \<Rightarrow> (str \<times> json) list option" where
  "claims_member parsed name =
     (case map_of parsed name of
        None \<Rightarrow> Some []
      | Some (JObj d) \<Rightarrow> (if list_all (\<lambda>(_, c). constraint_ok c) d then Some d else None)
      | Some _ \<Rightarrow> None)"

definition parse_claims_parameter :: "services \<Rightarrow> str \<Rightarrow> claims_request option" where
  "parse_claims_parameter X v =
     (case sv_json_loads X v of
        Some (JObj parsed) \<Rightarrow>
          (case (claims_member parsed ''userinfo'', claims_member parsed ''id_token'') of
             (Some u, Some i) \<Rightarrow> Some \<lparr>cq_userinfo = map fst u, cq_id_token = map fst i,
                cq_raw_userinfo = u, cq_raw_id_token = i\<rparr>
           | _ \<Rightarrow> None)
      | _ \<Rightarrow> None)"

definition requested_userinfo_payload :: "claims_request \<Rightarrow> (str \<times> json) list" where
  "requested_userinfo_payload r =
     (if cq_userinfo r = [] then []
      else [(''claims'', JObj [(''userinfo'', JList (map JStr (cq_userinfo r)))])])"

definition requested_userinfo_claims :: "services \<Rightarrow> json option \<Rightarrow> str set" where
  "requested_userinfo_claims X parameter =
     (case parameter of
        Some (JObj d) \<Rightarrow>
          (case map_of d ''userinfo'' of
             Some (JList names) \<Rightarrow>
               set (map (\<lambda>n. case n of JStr s \<Rightarrow> s | v \<Rightarrow> sv_py_str X v) names)
           | _ \<Rightarrow> {})
      | _ \<Rightarrow> {})"

definition allowed_scope_claims :: "bool \<Rightarrow> world \<Rightarrow> str \<Rightarrow> str set" where
  "allowed_scope_claims injected w scope =
     (let stored = dict_values (w_identity w);
          resources = (if injected \<and> stored \<noteq> [] then stored else default_identity_resources);
          names = set (py_split scope)
      in {''sub''} \<union> (\<Union>r \<in> set (filter (\<lambda>r. ir_name r \<in> names) resources). ir_user_claims r))"

subsection \<open>The user store\<close>

definition get_claims :: "world \<Rightarrow> str \<Rightarrow> (str \<times> json) list" where
  "get_claims w subject = (case dict_get (w_users w) subject of None \<Rightarrow> [] | Some c \<Rightarrow> c)"

definition resolve_requested_claims :: "bool \<Rightarrow> world \<Rightarrow> str list \<Rightarrow> str \<Rightarrow> (str \<times> json) list" where
  "resolve_requested_claims provider w names subject =
     (if names = [] \<or> \<not> provider \<or> subject = [] then []
      else filter (\<lambda>(n, _). n \<in> set names) (get_claims w subject))"

definition scope_claims_for_subject :: "bool \<Rightarrow> bool \<Rightarrow> world \<Rightarrow> str \<Rightarrow> str \<Rightarrow> (str \<times> json) list" where
  "scope_claims_for_subject provider injected w scope subject =
     (if \<not> provider \<or> subject = [] then []
      else filter (\<lambda>(n, _). n \<in> allowed_scope_claims injected w scope) (get_claims w subject))"

subsection \<open>Authorization details\<close>

definition supported_credential_configurations :: "str list" where
  "supported_credential_configurations = [''puridentityserver-sdjwt-vc'', ''puridentityserver-mso-mdoc'']"

text \<open>
  The parsers return \<open>Inl\<close> with the text of the \<open>AuthorizationDetailsError\<close> they raise;
  \<open>parse_detail\<close> returns \<open>Inr None\<close> for a detail of an unknown type, which is ignored.
\<close>

definition parse_detail :: "json \<Rightarrow> str + (str \<times> json) list option" where
  "parse_detail item =
     (case item of
        JObj d \<Rightarrow>
          (case jget_str d ''type'' of
             None \<Rightarrow> Inl ''type manquant ou invalide dans un detail d'autorisation (RFC 9396 par. 2)''
           | Some ty \<Rightarrow>
               if ty = [] then Inl ''type manquant ou invalide dans un detail d'autorisation (RFC 9396 par. 2)''
               else if ty \<noteq> ''openid_credential'' then Inr None
               else case jget_str d ''credential_configuration_id'' of
                   None \<Rightarrow> Inl ''credential_configuration_id requis pour un detail openid_credential (OpenID4VCI 1.0 par. 5.1.1)''
                 | Some config \<Rightarrow>
                     if config = [] then Inl ''credential_configuration_id requis pour un detail openid_credential (OpenID4VCI 1.0 par. 5.1.1)''
                     else if config \<notin> set supported_credential_configurations
                     then Inl (''credential_configuration_id inconnu : '' @ config)
                     else let base = [(''type'', JStr ''openid_credential''),
                                      (''credential_configuration_id'', JStr config)]
                       in case jget d ''claims'' of
                            None \<Rightarrow> Inr (Some base)
                          | Some (JObj c) \<Rightarrow> Inr (Some (base @ [(''claims'', JObj c)]))
                          | Some _ \<Rightarrow> Inl ''claims doit etre un objet JSON dans un detail openid_credential'')
      | _ \<Rightarrow> Inl ''chaque detail d'autorisation doit etre un objet JSON (RFC 9396 par. 2)'')"

fun parse_details :: "json list \<Rightarrow> str + (str \<times> json) list list" where
  "parse_details [] = Inr []"
| "parse_details (i # is) =
     (case parse_detail i of
        Inl e \<Rightarrow> Inl e
      | Inr d \<Rightarrow>
         (case parse_details is of
            Inl e \<Rightarrow> Inl e
          | Inr ds \<Rightarrow> Inr (case d of None \<Rightarrow> ds | Some x \<Rightarrow> x # ds)))"

definition parse_authorization_details :: "services \<Rightarrow> str \<Rightarrow> str + (str \<times> json) list list" where
  "parse_authorization_details X raw =
     (if raw = [] then Inr []
      else case sv_json_loads X raw of
          None \<Rightarrow> Inl ''authorization_details doit etre un tableau JSON valide (RFC 9396 par. 2)''
        | Some (JList items) \<Rightarrow> parse_details items
        | Some _ \<Rightarrow> Inl ''authorization_details doit etre un tableau JSON (RFC 9396 par. 2)'')"

definition encode_authorization_details :: "services \<Rightarrow> (str \<times> json) list list \<Rightarrow> str" where
  "encode_authorization_details X ds = sv_json_dumps_sorted X (JList (map JObj ds))"

definition authorization_detail_keys :: "services \<Rightarrow> (str \<times> json) list list \<Rightarrow> str set" where
  "authorization_detail_keys X ds = set (map (\<lambda>d. sv_json_dumps_sorted X (JObj d)) ds)"

text \<open>A detail without a configuration is a \<open>KeyError\<close>; the parser never produces one.\<close>

definition grant_detail :: "(str \<times> json) list \<Rightarrow> (str \<times> json) list" where
  "grant_detail d = dict_set ''credential_identifiers''
     (JList [case map_of d ''credential_configuration_id'' of Some v \<Rightarrow> v | None \<Rightarrow> JNull]) d"

definition grant_authorization_details :: "(str \<times> json) list list \<Rightarrow> (str \<times> json) list list" where
  "grant_authorization_details ds = map grant_detail ds"

definition has_authorization_details :: "json option \<Rightarrow> bool" where
  "has_authorization_details claim = (case claim of Some (JList ds) \<Rightarrow> ds \<noteq> [] | _ \<Rightarrow> False)"

fun find_configuration :: "str \<Rightarrow> json list \<Rightarrow> str option" where
  "find_configuration identifier [] = None"
| "find_configuration identifier (item # rest) =
     (case item of
        JObj d \<Rightarrow>
          (if map_of d ''type'' \<noteq> Some (JStr ''openid_credential'')
           then find_configuration identifier rest
           else case map_of d ''credential_identifiers'' of
               Some (JList ids) \<Rightarrow>
                 (if JStr identifier \<notin> set ids then find_configuration identifier rest
                  else case jget_str d ''credential_configuration_id'' of
                      Some config \<Rightarrow>
                        (if config \<noteq> [] then Some config else find_configuration identifier rest)
                    | None \<Rightarrow> find_configuration identifier rest)
             | _ \<Rightarrow> find_configuration identifier rest)
      | _ \<Rightarrow> find_configuration identifier rest)"

definition credential_configuration_for_identifier :: "json option \<Rightarrow> str \<Rightarrow> str option" where
  "credential_configuration_for_identifier claim identifier =
     (case claim of Some (JList ds) \<Rightarrow> find_configuration identifier ds | _ \<Rightarrow> None)"

subsection \<open>Verified claims (identity assurance)\<close>

record verified_claims =
  vc_trust_framework :: str
  vc_claims :: "(str \<times> json) list"
  vc_assurance_level :: str
  vc_verification_process :: str
  vc_time :: str
  vc_assurance_process :: "(str \<times> json) list"
  vc_evidence :: "(str \<times> json) list list"

definition evidence_types :: "str list" where
  "evidence_types = [''document'', ''electronic_record'', ''vouch'', ''electronic_signature'']"

definition verification_members :: "str list" where
  "verification_members = [''trust_framework'', ''assurance_level'', ''assurance_process'',
     ''time'', ''verification_process'', ''evidence'']"

definition member_if :: "bool \<Rightarrow> str \<Rightarrow> json \<Rightarrow> (str \<times> json) list" where
  "member_if b n v = (if b then [(n, v)] else [])"

definition verification_of :: "verified_claims \<Rightarrow> (str \<times> json) list" where
  "verification_of p =
     (''trust_framework'', JStr (vc_trust_framework p))
     # member_if (vc_assurance_level p \<noteq> []) ''assurance_level'' (JStr (vc_assurance_level p))
     @ member_if (vc_verification_process p \<noteq> []) ''verification_process''
         (JStr (vc_verification_process p))
     @ member_if (vc_time p \<noteq> []) ''time'' (JStr (vc_time p))
     @ member_if (vc_assurance_process p \<noteq> []) ''assurance_process'' (JObj (vc_assurance_process p))
     @ member_if (vc_evidence p \<noteq> []) ''evidence'' (JList (map JObj (vc_evidence p)))"

definition verified_claims_payload_of :: "verified_claims \<Rightarrow> (str \<times> json) list" where
  "verified_claims_payload_of p =
     [(''verification'', JObj (verification_of p)), (''claims'', JObj (vc_claims p))]"

text \<open>The parsers return \<open>None\<close> where they raise \<open>VerifiedClaimsError\<close>; every caller drops the
  text of the error.\<close>

definition optional_string :: "(str \<times> json) list \<Rightarrow> str \<Rightarrow> str option" where
  "optional_string d name =
     (case jget d name of None \<Rightarrow> Some [] | Some (JStr s) \<Rightarrow> Some s | Some _ \<Rightarrow> None)"

definition assurance_process_ok :: "(str \<times> json) list \<Rightarrow> bool" where
  "assurance_process_ok d \<longleftrightarrow>
     list_all (\<lambda>(k, _). k \<in> {''policy'', ''procedure'', ''assurance_details''}) d
     \<and> list_all (\<lambda>k. case jget d k of None \<Rightarrow> True | Some (JStr _) \<Rightarrow> True | _ \<Rightarrow> False)
          [''policy'', ''procedure'']
     \<and> (case jget d ''assurance_details'' of
          None \<Rightarrow> True | Some (JList (_ # _)) \<Rightarrow> True | Some _ \<Rightarrow> False)"

fun parse_assurance_process :: "json option \<Rightarrow> (str \<times> json) list option" where
  "parse_assurance_process None = Some []"
| "parse_assurance_process (Some (JObj d)) = (if assurance_process_ok d then Some d else None)"
| "parse_assurance_process (Some _) = None"

fun parse_evidence_items :: "json list \<Rightarrow> (str \<times> json) list list option" where
  "parse_evidence_items [] = Some []"
| "parse_evidence_items (JObj d # rest) =
     (case jget_str d ''type'' of
        Some ty \<Rightarrow> if ty \<in> set evidence_types
                   then map_option (\<lambda>es. d # es) (parse_evidence_items rest) else None
      | None \<Rightarrow> None)"
| "parse_evidence_items (_ # rest) = None"

definition parse_evidence :: "json option \<Rightarrow> (str \<times> json) list list option" where
  "parse_evidence raw =
     (case raw of
        None \<Rightarrow> Some []
      | Some (JList (i # is)) \<Rightarrow> parse_evidence_items (i # is)
      | Some _ \<Rightarrow> None)"

definition parse_verified_claims :: "json \<Rightarrow> verified_claims option" where
  "parse_verified_claims raw =
     (case raw of
        JObj payload \<Rightarrow>
          if \<not> list_all (\<lambda>(k, _). k \<in> {''verification'', ''claims''}) payload then None
          else (case (map_of payload ''verification'', map_of payload ''claims'') of
             (Some (JObj v), Some (JObj claims)) \<Rightarrow>
               if \<not> list_all (\<lambda>(k, _). k \<in> set verification_members) v then None
               else (case (jget_str v ''trust_framework'', optional_string v ''assurance_level'',
                          optional_string v ''verification_process'', optional_string v ''time'',
                          parse_assurance_process (jget v ''assurance_process''),
                          parse_evidence (jget v ''evidence'')) of
                  (Some framework, Some level, Some process, Some time, Some assurance, Some evidence) \<Rightarrow>
                    if framework = [] then None
                    else Some \<lparr>vc_trust_framework = framework, vc_claims = claims,
                       vc_assurance_level = level, vc_verification_process = process, vc_time = time,
                       vc_assurance_process = assurance, vc_evidence = evidence\<rparr>
                | _ \<Rightarrow> None)
           | _ \<Rightarrow> None)
      | _ \<Rightarrow> None)"

record verified_claims_request =
  vr_trust_framework :: str
  vr_trust_frameworks :: "str list"
  vr_assurance_level :: str
  vr_assurance_levels :: "str list"
  vr_claim_names :: "str list"
  vr_claim_values :: "(str \<times> str) list"
  vr_essential :: "str set"

definition accepts :: "str \<Rightarrow> str list \<Rightarrow> str \<Rightarrow> bool" where
  "accepts single multiple v =
     (if single = [] \<and> multiple = [] then True
      else if single \<noteq> [] then v = single else v \<in> set multiple)"

definition accepts_trust_framework :: "verified_claims_request \<Rightarrow> str \<Rightarrow> bool" where
  "accepts_trust_framework r f = accepts (vr_trust_framework r) (vr_trust_frameworks r) f"

definition accepts_assurance_level :: "verified_claims_request \<Rightarrow> str \<Rightarrow> bool" where
  "accepts_assurance_level r l = accepts (vr_assurance_level r) (vr_assurance_levels r) l"

text \<open>\<open>_constrainable\<close>: \<open>None\<close> when the constraint is neither null nor an object.\<close>

definition constrainable :: "services \<Rightarrow> json option \<Rightarrow> str \<Rightarrow> (str \<times> str list) option" where
  "constrainable X verification name =
     (case verification of
        Some (JObj v) \<Rightarrow>
          (case jget v name of
             None \<Rightarrow> Some ([], [])
           | Some (JObj c) \<Rightarrow>
               Some (case jget_str c ''value'' of Some s \<Rightarrow> s | None \<Rightarrow> [],
                     case map_of c ''values'' of
                       Some (JList vs) \<Rightarrow> map (\<lambda>n. case n of JStr s \<Rightarrow> s | v \<Rightarrow> sv_py_str X v) vs
                     | _ \<Rightarrow> [])
           | Some _ \<Rightarrow> None)
      | _ \<Rightarrow> Some ([], []))"

definition claim_demands :: "(str \<times> json) list \<Rightarrow> (str \<times> str) list" where
  "claim_demands claims = concat (map (\<lambda>(n, c).
     case c of JObj d \<Rightarrow> (case jget_str d ''value'' of Some s \<Rightarrow> [(n, s)] | None \<Rightarrow> []) | _ \<Rightarrow> []) claims)"

definition essential_names :: "(str \<times> json) list \<Rightarrow> str set" where
  "essential_names claims = set (map fst (filter (\<lambda>(n, c).
     case c of JObj d \<Rightarrow> map_of d ''essential'' = Some (JBool True) | _ \<Rightarrow> False) claims))"

definition parse_verified_claims_request :: "services \<Rightarrow> json \<Rightarrow> verified_claims_request option" where
  "parse_verified_claims_request X raw =
     (case raw of
        JNull \<Rightarrow> Some \<lparr>vr_trust_framework = [], vr_trust_frameworks = [], vr_assurance_level = [],
           vr_assurance_levels = [], vr_claim_names = [], vr_claim_values = [], vr_essential = {}\<rparr>
      | JObj payload \<Rightarrow>
          let v = map_of payload ''verification'';
              claims = (case map_of payload ''claims'' of Some (JObj c) \<Rightarrow> c | _ \<Rightarrow> [])
          in (case (constrainable X v ''trust_framework'', constrainable X v ''assurance_level'') of
                (Some (f, fs), Some (l, ls)) \<Rightarrow>
                  if list_all (\<lambda>(_, c). constraint_ok c) claims
                  then Some \<lparr>vr_trust_framework = f, vr_trust_frameworks = fs,
                     vr_assurance_level = l, vr_assurance_levels = ls,
                     vr_claim_names = map fst claims, vr_claim_values = claim_demands claims,
                     vr_essential = essential_names claims\<rparr>
                  else None
              | _ \<Rightarrow> None)
      | _ \<Rightarrow> None)"

definition verified_claims_member :: str where
  "verified_claims_member = ''verified_claims''"

definition selected_claims :: "verified_claims \<Rightarrow> verified_claims_request \<Rightarrow> (str \<times> json) list" where
  "selected_claims p r = concat (map (\<lambda>n.
     case map_of (vc_claims p) n of
       None \<Rightarrow> []
     | Some v \<Rightarrow> (case map_of (vr_claim_values r) n of
           Some d \<Rightarrow> (if JStr d \<noteq> v then [] else [(n, v)])
         | None \<Rightarrow> [(n, v)])) (vr_claim_names r))"

definition profile_of :: "(str \<times> json) list \<Rightarrow> verified_claims option" where
  "profile_of claims = Option.bind (jget claims verified_claims_member) parse_verified_claims"

definition resolve_verified_claims :: "bool \<Rightarrow> world \<Rightarrow> verified_claims_request \<Rightarrow> str
    \<Rightarrow> (str \<times> json) list option" where
  "resolve_verified_claims provider w r subject =
     (if \<not> provider \<or> subject = [] then None
      else case profile_of (get_claims w subject) of
          None \<Rightarrow> None
        | Some p \<Rightarrow>
            if \<not> accepts_trust_framework r (vc_trust_framework p) then None
            else if \<not> accepts_assurance_level r (vc_assurance_level p) then None
            else Some (dict_set ''claims'' (JObj (selected_claims p r)) (verified_claims_payload_of p)))"

definition verified_claims_request_in :: "services \<Rightarrow> (str \<times> json) list
    \<Rightarrow> verified_claims_request option" where
  "verified_claims_request_in X raw =
     Option.bind (map_of raw verified_claims_member) (parse_verified_claims_request X)"

definition verified_claims_request_from_payload :: "services \<Rightarrow> json option
    \<Rightarrow> verified_claims_request option" where
  "verified_claims_request_from_payload X payload =
     (case payload of
        Some (JObj d) \<Rightarrow> Option.bind (map_of d ''verified_claims_request'') (parse_verified_claims_request X)
      | _ \<Rightarrow> None)"

definition verified_claims_payload :: "claims_request option \<Rightarrow> (str \<times> json) list" where
  "verified_claims_payload r =
     (case Option.bind r (\<lambda>q. jget (cq_raw_userinfo q) verified_claims_member) of
        None \<Rightarrow> []
      | Some m \<Rightarrow> [(''verified_claims_request'', m)])"

subsection \<open>Lemmas\<close>

lemma parse_evidence_items_valid:
  "parse_evidence_items items = Some es \<Longrightarrow>
     items = map JObj es \<and> parse_evidence_items (map JObj es) = Some es"
proof (induction items arbitrary: es rule: parse_evidence_items.induct)
  case (2 d rest)
  then obtain ty fs where "jget_str d ''type'' = Some ty" "ty \<in> set evidence_types"
    and fs: "parse_evidence_items rest = Some fs" "es = d # fs"
    by (auto split: option.splits if_splits)
  with 2 show ?case by auto
qed auto

lemma parse_evidence_stable:
  "parse_evidence raw = Some es \<Longrightarrow>
     parse_evidence (if es = [] then None else Some (JList (map JObj es))) = Some es"
proof (cases es)
  case (Cons e rest)
  assume "parse_evidence raw = Some es"
  with Cons obtain items where "parse_evidence_items items = Some es"
    by (auto simp: parse_evidence_def split: option.splits json.splits list.splits)
  with Cons show ?thesis
    using parse_evidence_items_valid by (fastforce simp: parse_evidence_def)
qed (simp add: parse_evidence_def)

lemma parse_assurance_process_stable:
  "parse_assurance_process raw = Some d \<Longrightarrow>
     parse_assurance_process (if d = [] then None else Some (JObj d)) = Some d"
  by (cases raw rule: parse_assurance_process.cases) (auto split: if_splits)

lemma member_if_lookup:
  "map_of (member_if b n v @ rest) k = (if b \<and> k = n then Some v else map_of rest k)"
  "map_of (member_if b n v) k = (if b \<and> k = n then Some v else None)"
  by (simp_all add: member_if_def)

lemma member_if_all: "list_all P (member_if b n v) \<longleftrightarrow> (b \<longrightarrow> P (n, v))"
  by (simp add: member_if_def)

lemma verification_of_members:
  "list_all (\<lambda>(k, _). k \<in> set verification_members) (verification_of p)"
  by (simp add: verification_of_def verification_members_def member_if_all)

lemmas verification_of_get =
  verification_of_def member_if_lookup jget_str_def optional_string_def jget_def

lemma verification_of_lookup:
  "jget_str (verification_of p) ''trust_framework'' = Some (vc_trust_framework p)"
  "optional_string (verification_of p) ''assurance_level'' = Some (vc_assurance_level p)"
  "optional_string (verification_of p) ''verification_process'' = Some (vc_verification_process p)"
  "optional_string (verification_of p) ''time'' = Some (vc_time p)"
  "jget (verification_of p) ''assurance_process'' =
     (if vc_assurance_process p = [] then None else Some (JObj (vc_assurance_process p)))"
  "jget (verification_of p) ''evidence'' =
     (if vc_evidence p = [] then None else Some (JList (map JObj (vc_evidence p))))"
  by (simp_all add: verification_of_get del: map_of_append)

lemma parse_details_supported:
  "parse_details items = Inr ds \<Longrightarrow> d \<in> set ds \<Longrightarrow>
     \<exists>c. map_of d ''credential_configuration_id'' = Some (JStr c) \<and> c \<noteq> []
       \<and> c \<in> set supported_credential_configurations
       \<and> map_of d ''type'' = Some (JStr ''openid_credential'')"
proof (induction items arbitrary: ds)
  case (Cons i "is")
  then obtain r es where i: "parse_detail i = Inr r" and "is": "parse_details is = Inr es"
    and ds: "ds = (case r of None \<Rightarrow> es | Some x \<Rightarrow> x # es)"
    by (auto split: sum.splits)
  show ?case
  proof (cases "r = Some d")
    case True
    with i show ?thesis
      by (auto simp: parse_detail_def Let_def split: json.splits option.splits if_splits)
  next
    case False
    with ds Cons.prems(2) have "d \<in> set es" by (auto split: option.splits)
    with Cons.IH [OF "is"] show ?thesis .
  qed
qed simp

lemma parse_authorization_details_supported:
  "parse_authorization_details X raw = Inr ds \<Longrightarrow> d \<in> set ds \<Longrightarrow>
     \<exists>c. map_of d ''credential_configuration_id'' = Some (JStr c) \<and> c \<noteq> []
       \<and> c \<in> set supported_credential_configurations
       \<and> map_of d ''type'' = Some (JStr ''openid_credential'')"
  by (auto simp: parse_authorization_details_def dest: parse_details_supported
      split: if_splits option.splits json.splits)

lemma find_configuration_granted:
  assumes "\<And>d. d \<in> set ds \<Longrightarrow> \<exists>c. map_of d ''credential_configuration_id'' = Some (JStr c)
      \<and> c \<noteq> [] \<and> map_of d ''type'' = Some (JStr ''openid_credential'')"
  shows "find_configuration i (map JObj (map grant_detail ds)) =
    (if \<exists>d \<in> set ds. map_of d ''credential_configuration_id'' = Some (JStr i) then Some i else None)"
  using assms
proof (induction ds)
  case (Cons d ds)
  then obtain c where "map_of d ''credential_configuration_id'' = Some (JStr c)" "c \<noteq> []"
    "map_of d ''type'' = Some (JStr ''openid_credential'')"
    by force
  with Cons show ?case by (auto simp: grant_detail_def jget_str_def)
qed simp

subsection \<open>Properties\<close>

text \<open>The credentials an access token gives access to are those its authorization details
  named: looking an identifier up in the granted details of a parsed parameter finds exactly
  the configurations the parameter asked for, all of them supported.\<close>

lemma granted_details_resolve:
  assumes "parse_authorization_details X raw = Inr ds"
  shows "credential_configuration_for_identifier
      (Some (JList (map JObj (grant_authorization_details ds)))) i =
    (if i \<in> set supported_credential_configurations
        \<and> (\<exists>d \<in> set ds. map_of d ''credential_configuration_id'' = Some (JStr i))
     then Some i else None)"
proof -
  note supported = parse_authorization_details_supported [OF assms]
  have "find_configuration i (map JObj (map grant_detail ds)) =
    (if \<exists>d \<in> set ds. map_of d ''credential_configuration_id'' = Some (JStr i) then Some i else None)"
    by (rule find_configuration_granted) (use supported in blast)
  moreover have "(\<exists>d \<in> set ds. map_of d ''credential_configuration_id'' = Some (JStr i)) \<Longrightarrow>
      i \<in> set supported_credential_configurations"
    using supported by fastforce
  ultimately show ?thesis
    by (auto simp: credential_configuration_for_identifier_def grant_authorization_details_def)
qed

text \<open>A stored profile that is accepted is served in a form that is accepted again, with
  the same content.\<close>

lemma verified_claims_roundtrip:
  assumes "parse_verified_claims raw = Some p"
  shows "parse_verified_claims (JObj (verified_claims_payload_of p)) = Some p"
proof -
  from assms obtain v where framework: "vc_trust_framework p \<noteq> []"
    and assurance: "parse_assurance_process (jget v ''assurance_process'') = Some (vc_assurance_process p)"
    and evidence: "parse_evidence (jget v ''evidence'') = Some (vc_evidence p)"
    by (auto simp: parse_verified_claims_def split: json.splits option.splits if_splits)
  note stable = parse_assurance_process_stable [OF assurance] parse_evidence_stable [OF evidence]
  have sides: "list_all (\<lambda>(k, _). k \<in> {''verification'', ''claims''}) (verified_claims_payload_of p)"
    "map_of (verified_claims_payload_of p) ''verification'' = Some (JObj (verification_of p))"
    "map_of (verified_claims_payload_of p) ''claims'' = Some (JObj (vc_claims p))"
    by (simp_all add: verified_claims_payload_of_def)
  show ?thesis
    unfolding parse_verified_claims_def json.case sides option.case prod.case verification_of_lookup
      stable
    using framework sides(1) by (simp add: verification_of_members)
qed

text \<open>What identity assurance serves satisfies the request: the trust framework and the
  assurance level are accepted, and every served claim is a requested one, with the value of
  the stored profile and the value demanded if one was.\<close>

lemma resolved_claims_satisfy_request:
  assumes "resolve_verified_claims provider w r subject = Some m"
  shows "\<exists>p served. profile_of (get_claims w subject) = Some p
    \<and> accepts_trust_framework r (vc_trust_framework p)
    \<and> accepts_assurance_level r (vc_assurance_level p)
    \<and> map_of m ''claims'' = Some (JObj served)
    \<and> (\<forall>(n, v) \<in> set served. n \<in> set (vr_claim_names r) \<and> map_of (vc_claims p) n = Some v
         \<and> (\<forall>d. map_of (vr_claim_values r) n = Some d \<longrightarrow> v = JStr d))"
proof -
  from assms obtain p where p: "profile_of (get_claims w subject) = Some p"
    "accepts_trust_framework r (vc_trust_framework p)"
    "accepts_assurance_level r (vc_assurance_level p)"
    and m: "m = dict_set ''claims'' (JObj (selected_claims p r)) (verified_claims_payload_of p)"
    by (auto simp: resolve_verified_claims_def split: if_splits option.splits)
  have "\<forall>(n, v) \<in> set (selected_claims p r). n \<in> set (vr_claim_names r)
      \<and> map_of (vc_claims p) n = Some v
      \<and> (\<forall>d. map_of (vr_claim_values r) n = Some d \<longrightarrow> v = JStr d)"
    by (auto simp: selected_claims_def split: option.splits if_splits)
  with p m show ?thesis by simp
qed

subsection \<open>Witnesses\<close>

definition sample_detail :: "(str \<times> json) list" where
  "sample_detail = [(''type'', JStr ''openid_credential''),
     (''credential_configuration_id'', JStr ''puridentityserver-mso-mdoc'')]"

lemma granted_details_resolve_witness:
  "credential_configuration_for_identifier
     (Some (JList (map JObj (grant_authorization_details [sample_detail])))) ''puridentityserver-mso-mdoc''
   = Some ''puridentityserver-mso-mdoc''"
  by (subst granted_details_resolve [where X = "sample_services\<lparr>sv_json_loads :=
        (\<lambda>_. Some (JList [JObj sample_detail, JObj [(''type'', JStr ''other'')]]))\<rparr>" and raw = "''x''"])
    (simp_all add: parse_authorization_details_def parse_detail_def sample_detail_def jget_str_def
      jget_def supported_credential_configurations_def)

definition sample_profile :: verified_claims where
  "sample_profile = \<lparr>vc_trust_framework = ''eidas'', vc_claims = [(''name'', JStr ''Ada''),
      (''age'', JInt 36)], vc_assurance_level = ''high'', vc_verification_process = [], vc_time = [],
     vc_assurance_process = [], vc_evidence = [[(''type'', JStr ''document'')]]\<rparr>"

definition sample_profile_json :: json where
  "sample_profile_json = JObj [(''verification'', JObj [(''trust_framework'', JStr ''eidas''),
      (''assurance_level'', JStr ''high''), (''evidence'', JList [JObj [(''type'', JStr ''document'')]])]),
     (''claims'', JObj [(''name'', JStr ''Ada''), (''age'', JInt 36)])]"

lemma sample_profile_parsed: "parse_verified_claims sample_profile_json = Some sample_profile"
  by code_simp

lemma verified_claims_roundtrip_witness:
  "parse_verified_claims (JObj (verified_claims_payload_of sample_profile)) = Some sample_profile"
  by (rule verified_claims_roundtrip [OF sample_profile_parsed])

definition sample_verified_request :: verified_claims_request where
  "sample_verified_request = \<lparr>vr_trust_framework = ''eidas'', vr_trust_frameworks = [],
     vr_assurance_level = [], vr_assurance_levels = [], vr_claim_names = [''name'', ''age'', ''email''],
     vr_claim_values = [(''age'', ''36'')], vr_essential = {}\<rparr>"

definition sample_profile_world :: world where
  "sample_profile_world = sample_world\<lparr>w_users :=
     [(''u'', [(''verified_claims'', sample_profile_json)])]\<rparr>"

lemma sample_verified_resolved:
  "map_option (\<lambda>m. map_of m ''claims'')
     (resolve_verified_claims True sample_profile_world sample_verified_request ''u'')
   = Some (Some (JObj [(''name'', JStr ''Ada'')]))"
  by code_simp

lemma resolved_claims_satisfy_request_witness:
  "\<exists>p. profile_of (get_claims sample_profile_world ''u'') = Some p
     \<and> accepts_trust_framework sample_verified_request (vc_trust_framework p)"
proof -
  obtain m where "resolve_verified_claims True sample_profile_world sample_verified_request ''u'' = Some m"
    using sample_verified_resolved by blast
  from resolved_claims_satisfy_request [OF this] show ?thesis by blast
qed

end
