(* ===== verification/Tokens.thy ===== *)
theory Tokens
  imports Claims Registry
begin

text \<open>
  What goes into a signed token: subject identifiers (\<open>domain/subjects.py\<close>), the signature
  and encryption material of an \<open>id_token\<close> (\<open>application/id_token_material.py\<close>,
  \<open>application/id_token_encryption.py\<close>), OpenID 2.0 identifiers
  (\<open>application/openid20_migration.py\<close>) and the payloads \<open>infrastructure/tokens.py\<close> builds.
\<close>

subsection \<open>Subject identifiers\<close>

definition derive_subject :: "services \<Rightarrow> str \<Rightarrow> str \<Rightarrow> str list \<Rightarrow> str" where
  "derive_subject X seed domain parts =
     sv_hmac_b64 X seed (join_with [CHR 0x00] (domain # parts))"

definition pairwise_subject :: "services \<Rightarrow> str \<Rightarrow> str \<Rightarrow> str \<Rightarrow> str" where
  "pairwise_subject X seed sector subject = derive_subject X seed ''pairwise'' [sector, subject]"

definition ephemeral_subject :: "services \<Rightarrow> str \<Rightarrow> str \<Rightarrow> str \<Rightarrow> str" where
  "ephemeral_subject X seed subject material = derive_subject X seed ''ephemeral'' [subject, material]"

text \<open>\<open>None\<close> is the \<open>ValueError\<close> of \<open>urlsplit\<close> on the client's addresses.\<close>

definition display_subject :: "services \<Rightarrow> client \<Rightarrow> str \<Rightarrow> str \<Rightarrow> str \<Rightarrow> str option" where
  "display_subject X c subject material seed =
     (if subject = [] then Some subject
      else case cl_subject_type c of
          SubPairwise \<Rightarrow>
            (case subject_sector X c of
               None \<Rightarrow> None
             | Some sector \<Rightarrow>
                 if sector = [] \<or> seed = [] then Some subject
                 else Some (pairwise_subject X seed sector subject))
        | SubEphemeral \<Rightarrow>
            (if seed = [] then Some subject else Some (ephemeral_subject X seed subject material))
        | SubPublic \<Rightarrow> Some subject)"

definition access_token_subject_claims :: "client \<Rightarrow> str \<Rightarrow> str \<Rightarrow> (str \<times> json) list" where
  "access_token_subject_claims c subject material =
     (if subject = [] then []
      else (''client_id'', JStr (cl_client_id c))
           # member_if (cl_subject_type c = SubEphemeral \<and> material \<noteq> [])
               ''subject_material'' (JStr material))"

subsection \<open>Signature and encryption material\<close>

text \<open>\<open>cipher\<close> says whether a secret cipher was injected.\<close>

definition resolve_id_token_material :: "services \<Rightarrow> client \<Rightarrow> jwt_algorithm \<Rightarrow> bool
    \<Rightarrow> (jwt_algorithm \<times> str) option" where
  "resolve_id_token_material X c default_alg cipher =
     (if cl_id_token_signed_response_alg c = [] then Some (default_alg, [])
      else case algorithm_of (cl_id_token_signed_response_alg c) of
          None \<Rightarrow> Some (default_alg, [])
        | Some alg \<Rightarrow>
            if alg \<notin> set symmetric_algorithms then Some (alg, [])
            else if \<not> cipher \<or> cl_client_secret_ciphertext c = [] then None
            else Some (alg, sv_decrypt X (cl_client_secret_ciphertext c)))"

definition key_management_algorithms :: "str list" where
  "key_management_algorithms = [''RSA-OAEP'', ''RSA-OAEP-256'', ''A128KW'', ''A256KW'', ''dir'']"
definition asymmetric_encryption_algorithms :: "str list" where
  "asymmetric_encryption_algorithms = [''RSA-OAEP'', ''RSA-OAEP-256'']"
definition encryption_methods :: "str list" where
  "encryption_methods = [''A128CBC-HS256'', ''A192CBC-HS384'', ''A256CBC-HS512'', ''A128GCM'',
     ''A192GCM'', ''A256GCM'']"

definition resolve_encryption_method :: "str \<Rightarrow> str option" where
  "resolve_encryption_method configured =
     (if configured = [] then Some ''A128CBC-HS256''
      else if configured \<in> set encryption_methods then Some configured else None)"

definition resolve_id_token_encryption :: "services \<Rightarrow> client \<Rightarrow> bool \<Rightarrow> (str \<times> str \<times> str) option" where
  "resolve_id_token_encryption X c cipher =
     (let configured = cl_id_token_encrypted_response_alg c in
      if configured = [] \<or> configured \<notin> set key_management_algorithms then None
      else case resolve_encryption_method (cl_id_token_encrypted_response_enc c) of
          None \<Rightarrow> None
        | Some m \<Rightarrow>
            if configured \<in> set asymmetric_encryption_algorithms then Some (configured, m, [])
            else if \<not> cipher \<or> cl_client_secret_ciphertext c = [] then None
            else Some (configured, m, sv_decrypt X (cl_client_secret_ciphertext c)))"

text \<open>\<open>None\<close> is \<open>JWEUnavailableError\<close>.\<close>

definition encrypt_id_token_for_client :: "services \<Rightarrow> bool \<Rightarrow> bool \<Rightarrow> client \<Rightarrow> str \<Rightarrow> str option" where
  "encrypt_id_token_for_client X cipher encrypter c id_token =
     (if cl_id_token_encrypted_response_alg c = [] then Some id_token
      else if \<not> encrypter then None
      else case resolve_id_token_encryption X c cipher of
          None \<Rightarrow> None
        | Some (_, _, secret) \<Rightarrow> sv_encrypt_id_token X id_token c secret)"

subsection \<open>OpenID 2.0 migration\<close>

definition openid20_identifier_for :: "bool \<Rightarrow> world \<Rightarrow> str \<Rightarrow> str \<Rightarrow> str" where
  "openid20_identifier_for enabled w subject realm =
     (if \<not> enabled then []
      else case openid20_find (w_openid20 w) subject realm of
          None \<Rightarrow> []
        | Some a \<Rightarrow> oi_identifier a)"

definition openid20_link :: "bool \<Rightarrow> str \<Rightarrow> str \<Rightarrow> str
    \<Rightarrow> (world, failure, openid20_identifier) prog" where
  "openid20_link enabled subject identifier realm =
     andthen now_utc (\<lambda>t.
     let a = \<lparr>oi_subject = subject, oi_identifier = identifier, oi_realm = realm, oi_created_at = t\<rparr>
     in if \<not> enabled then ok a
        else andthen (modify (\<lambda>w. w\<lparr>w_openid20 := openid20_save a (w_openid20 w)\<rparr>)) (\<lambda>_. ok a))"

definition openid20_lookup_identifier :: "bool \<Rightarrow> world \<Rightarrow> str \<Rightarrow> openid20_identifier option" where
  "openid20_lookup_identifier enabled w identifier =
     (if \<not> enabled then None else openid20_find_by_identifier (w_openid20 w) identifier)"

definition openid20_all_identifiers :: "bool \<Rightarrow> world \<Rightarrow> openid20_identifier list" where
  "openid20_all_identifiers enabled w = (if \<not> enabled then [] else openid20_find_all (w_openid20 w))"

subsection \<open>Token payloads\<close>

record id_token_claims =
  ic_nonce :: str
  ic_session_id :: str
  ic_at_hash :: str
  ic_c_hash :: str
  ic_s_hash :: str
  ic_auth_time :: int

definition no_conditional_claims :: id_token_claims where
  "no_conditional_claims = \<lparr>ic_nonce = [], ic_session_id = [], ic_at_hash = [], ic_c_hash = [],
     ic_s_hash = [], ic_auth_time = 0\<rparr>"

text \<open>\<open>_sign\<close>: an HS* algorithm without a shared secret is an uncaught \<open>ValueError\<close>.\<close>

definition sign_payload :: "services \<Rightarrow> jwt_algorithm \<Rightarrow> str \<Rightarrow> (str \<times> json) list
    \<Rightarrow> (world, failure, str) prog" where
  "sign_payload X alg secret payload =
     (if alg \<in> set symmetric_algorithms \<and> secret = [] then raise (Uncaught ''ValueError'')
      else ok (sv_jwt_encode X alg secret payload))"

definition id_token_payload :: "str \<Rightarrow> str \<Rightarrow> str \<Rightarrow> int \<Rightarrow> int \<Rightarrow> id_token_claims
    \<Rightarrow> (str \<times> json) list \<Rightarrow> (str \<times> json) list" where
  "id_token_payload issuer subject audience expires_at iat conditional additional =
     setdefault_all additional
       ([(''iss'', JStr issuer), (''sub'', JStr subject), (''aud'', JStr audience),
         (''exp'', JInt expires_at), (''iat'', JInt iat)]
        @ member_if (ic_nonce conditional \<noteq> []) ''nonce'' (JStr (ic_nonce conditional))
        @ member_if (ic_session_id conditional \<noteq> []) ''sid'' (JStr (ic_session_id conditional))
        @ member_if (ic_at_hash conditional \<noteq> []) ''at_hash'' (JStr (ic_at_hash conditional))
        @ member_if (ic_c_hash conditional \<noteq> []) ''c_hash'' (JStr (ic_c_hash conditional))
        @ member_if (ic_s_hash conditional \<noteq> []) ''s_hash'' (JStr (ic_s_hash conditional))
        @ member_if (ic_auth_time conditional \<noteq> 0) ''auth_time'' (JInt (ic_auth_time conditional)))"

definition create_id_token :: "services \<Rightarrow> jwt_algorithm \<Rightarrow> str \<Rightarrow> str \<Rightarrow> str \<Rightarrow> int \<Rightarrow> int
    \<Rightarrow> id_token_claims \<Rightarrow> str \<Rightarrow> (str \<times> json) list \<Rightarrow> (world, failure, str) prog" where
  "create_id_token X alg issuer subject audience expires_at iat conditional secret additional =
     sign_payload X alg secret
       (id_token_payload issuer subject audience expires_at iat conditional additional)"

definition scope_string :: "str set \<Rightarrow> str" where
  "scope_string scopes = join_with '' '' (sorted_strs scopes)"

definition access_token_payload :: "str \<Rightarrow> str \<Rightarrow> json \<Rightarrow> int \<Rightarrow> int \<Rightarrow> str \<Rightarrow> str set
    \<Rightarrow> (str \<times> json) list \<Rightarrow> (str \<times> json) list" where
  "access_token_payload issuer subject audience expires_at iat jti scopes additional =
     setdefault_all additional
       [(''iss'', JStr issuer), (''sub'', JStr subject), (''aud'', audience),
        (''exp'', JInt expires_at), (''iat'', JInt iat), (''jti'', JStr jti),
        (''scope'', JStr (scope_string scopes))]"

definition create_access_token :: "services \<Rightarrow> jwt_algorithm \<Rightarrow> str \<Rightarrow> str \<Rightarrow> json \<Rightarrow> int \<Rightarrow> int
    \<Rightarrow> str set \<Rightarrow> (str \<times> json) list \<Rightarrow> (world, failure, str) prog" where
  "create_access_token X alg issuer subject audience expires_at iat scopes additional =
     andthen fresh_token (\<lambda>jti.
     sign_payload X alg []
       (access_token_payload issuer subject audience expires_at iat jti scopes additional))"

definition logout_token_payload :: "str \<Rightarrow> str \<Rightarrow> str \<Rightarrow> str \<Rightarrow> int \<Rightarrow> int \<Rightarrow> str
    \<Rightarrow> (str \<times> json) list" where
  "logout_token_payload issuer subject audience sid expires_at iat jwt_id =
     [(''iss'', JStr issuer), (''aud'', JStr audience), (''sub'', JStr subject),
      (''iat'', JInt iat), (''exp'', JInt expires_at), (''jti'', JStr jwt_id),
      (''events'', JObj [(''http://schemas.openid.net/event/backchannel-logout'', JObj [])])]
     @ member_if (sid \<noteq> []) ''sid'' (JStr sid)"

definition create_logout_token :: "services \<Rightarrow> str \<Rightarrow> str \<Rightarrow> str \<Rightarrow> str \<Rightarrow> int \<Rightarrow> int \<Rightarrow> str
    \<Rightarrow> (world, failure, str) prog" where
  "create_logout_token X issuer subject audience sid expires_at iat jwt_id =
     sign_payload X RS256 []
       (logout_token_payload issuer subject audience sid expires_at iat jwt_id)"

definition create_userinfo_jwt :: "services \<Rightarrow> str \<Rightarrow> str \<Rightarrow> jwt_algorithm \<Rightarrow> (str \<times> json) list
    \<Rightarrow> (world, failure, str) prog" where
  "create_userinfo_jwt X issuer audience alg claims =
     andthen now_utc (\<lambda>t.
     sign_payload X alg []
       (setdefault_all claims
          [(''iss'', JStr issuer), (''aud'', JStr audience), (''iat'', JInt (epoch_seconds t))]))"

subsection \<open>Lemmas\<close>

lemma scope_string_inj_sources: "finite scopes \<Longrightarrow> set (sorted_strs scopes) = scopes"
  by (rule sorted_strs_set)

lemma access_token_payload_standard:
  "map_of (access_token_payload issuer subject audience until iat jti scopes additional) ''iss'' = Some (JStr issuer)"
  "map_of (access_token_payload issuer subject audience until iat jti scopes additional) ''sub'' = Some (JStr subject)"
  "map_of (access_token_payload issuer subject audience until iat jti scopes additional) ''aud'' = Some audience"
  "map_of (access_token_payload issuer subject audience until iat jti scopes additional) ''exp'' = Some (JInt until)"
  "map_of (access_token_payload issuer subject audience until iat jti scopes additional) ''iat'' = Some (JInt iat)"
  "map_of (access_token_payload issuer subject audience until iat jti scopes additional) ''scope'' =
     Some (JStr (scope_string scopes))"
  unfolding access_token_payload_def by (rule setdefault_all_keeps, simp)+

lemma access_token_payload_additional:
  "k \<notin> {''iss'', ''sub'', ''aud'', ''exp'', ''iat'', ''jti'', ''scope''} \<Longrightarrow>
     map_of (access_token_payload issuer subject audience until iat jti scopes additional) k = map_of additional k"
  unfolding access_token_payload_def by (rule setdefault_all_new) auto

lemma setdefault_all_lookup:
  "map_of (setdefault_all kvs d) k = (case map_of d k of Some v \<Rightarrow> Some v | None \<Rightarrow> map_of kvs k)"
  by (auto simp: setdefault_all_keeps setdefault_all_new split: option.splits)

lemma cut_unique:
  "a @ x # r = a' @ x # r' \<Longrightarrow> x \<notin> set a \<Longrightarrow> x \<notin> set a' \<Longrightarrow> a = a' \<and> r = r'"
proof (induction a arbitrary: a')
  case Nil
  then show ?case by (cases a') auto
next
  case (Cons c cs)
  then show ?case by (cases a') auto
qed

lemma openid20_find_save:
  "openid20_find (openid20_save v s) subject realm =
     (if subject = oi_subject v \<and> realm = oi_realm v then Some v else openid20_find s subject realm)"
  by (simp add: openid20_find_def openid20_save_def)

lemma openid20_find_by_identifier_save:
  "openid20_find_by_identifier (openid20_save v s) i =
     (if i = oi_identifier v then Some v else openid20_find_by_identifier s i)"
  by (simp add: openid20_find_by_identifier_def openid20_save_def)

subsection \<open>Properties\<close>

text \<open>Claims added to an \<open>id_token\<close> (profile claims, \<open>acr\<close>, verified claims) never replace
  the standard ones: issuer, subject, audience, times, nonce, session and hashes come from the
  server's arguments, everything else from the added claims.\<close>

lemma id_token_claims_protected:
  "map_of (id_token_payload issuer subject audience until iat conditional additional) k =
     (case map_of (id_token_payload issuer subject audience until iat conditional []) k of
        Some v \<Rightarrow> Some v
      | None \<Rightarrow> map_of additional k)"
  by (simp add: id_token_payload_def setdefault_all_lookup split: option.splits)

text \<open>The subject a client of one sector sees identifies the user and the sector: with a
  collision-free HMAC, equal pairwise subjects come from the same sector and the same user,
  and a pairwise subject is never an ephemeral one (the parts of the message cannot be
  reassembled, NUL does not occur in a host name).\<close>

lemma pairwise_subject_separates:
  assumes "inj (sv_hmac_b64 X seed)" and "CHR 0x00 \<notin> set sector" and "CHR 0x00 \<notin> set sector'"
  shows "(pairwise_subject X seed sector subject = pairwise_subject X seed sector' subject'
      \<longleftrightarrow> sector = sector' \<and> subject = subject')
    \<and> pairwise_subject X seed sector subject \<noteq> ephemeral_subject X seed subject' material"
proof -
  have "sector @ CHR 0x00 # subject = sector' @ CHR 0x00 # subject' \<longleftrightarrow>
      sector = sector' \<and> subject = subject'"
    using cut_unique [OF _ assms(2,3)] by auto
  then show ?thesis
    by (simp add: pairwise_subject_def ephemeral_subject_def derive_subject_def
        inj_eq [OF assms(1)])
qed

lemma pairwise_subject_separates_witness:
  "pairwise_subject sample_services ''seed'' ''rp.example'' ''u''
     \<noteq> pairwise_subject sample_services ''seed'' ''other.example'' ''u''"
  by (subst conjunct1 [OF pairwise_subject_separates]) (simp_all add: sample_services_def inj_def)

text \<open>Linking an OpenID 2.0 identifier makes the server return it for this account and
  realm, and as the account of this identifier.\<close>

lemma openid20_link_then_find:
  "openid20_identifier_for True (snd (openid20_link True subject identifier realm w)) subject realm
     = identifier
   \<and> map_option oi_subject (openid20_lookup_identifier True
        (snd (openid20_link True subject identifier realm w)) identifier) = Some subject"
  by (simp add: openid20_link_def openid20_identifier_for_def openid20_lookup_identifier_def
      openid20_find_save openid20_find_by_identifier_save now_utc_def andthen_def modify_def ok_def
      Let_def)

text \<open>Replacing the identifier of an account and realm does not withdraw the previous one:
  the index by identifier still answers it with the replaced association.\<close>

lemma openid20_replaced_identifier_remains:
  assumes "identifier' \<noteq> identifier"
  shows "let w1 = snd (openid20_link True subject identifier realm w);
             w2 = snd (openid20_link True subject identifier' realm w1)
    in openid20_identifier_for True w2 subject realm = identifier'
     \<and> map_option oi_subject (openid20_lookup_identifier True w2 identifier) = Some subject"
  using assms
  by (simp add: openid20_link_def openid20_identifier_for_def openid20_lookup_identifier_def
      openid20_find_save openid20_find_by_identifier_save now_utc_def andthen_def modify_def ok_def
      Let_def)

lemma openid20_replaced_identifier_remains_witness:
  "let w1 = snd (openid20_link True ''u'' ''https://old'' [] sample_world);
       w2 = snd (openid20_link True ''u'' ''https://new'' [] w1)
   in openid20_identifier_for True w2 ''u'' [] = ''https://new''
    \<and> map_option oi_subject (openid20_lookup_identifier True w2 ''https://old'') = Some ''u''"
  by (rule openid20_replaced_identifier_remains) simp

end
