(* ===== verification/TokenRules.thy ===== *)
theory TokenRules
  imports Tokens
begin

text \<open>
  \<open>application/token.py\<close>, the rules every grant shares: client authentication, DPoP, scopes,
  resources, and the issuing of tokens.  \<open>token_config\<close> holds the use case's configuration and
  says which optional dependencies it was given; the grants themselves are in \<open>TokenGrants\<close>.
\<close>

subsection \<open>Configuration, request and response\<close>

text \<open>
  \<open>tk_openid20\<close> is the \<open>enabled\<close> flag of the injected migration use case;
  \<open>tk_identity_assurance\<close> says whether the injected one has a claims provider.
\<close>

record token_config =
  tk_issuer :: str
  tk_signing_algorithm :: jwt_algorithm
  tk_access_token_ttl :: int
  tk_refresh_token_ttl :: int
  tk_token_endpoint :: str
  tk_secret_cipher :: bool
  tk_id_token_encrypter :: bool
  tk_subject_seed :: str
  tk_device_codes :: bool
  tk_backchannel :: bool
  tk_registry :: "registry option"
  tk_assertions :: bool
  tk_claims_provider :: bool
  tk_revoked_tokens :: bool
  tk_dpop :: bool
  tk_openid20 :: "bool option"
  tk_identity_assurance :: "bool option"

record token_request =
  tr_grant_type :: str
  tr_code :: str
  tr_redirect_uri :: str
  tr_client_id :: str
  tr_client_secret :: str
  tr_code_verifier :: str
  tr_refresh_token :: str
  tr_device_code :: str
  tr_auth_req_id :: str
  tr_pre_authorized_code :: str
  tr_tx_code :: str
  tr_scope :: str
  tr_resource :: str
  tr_client_assertion_type :: str
  tr_client_assertion :: str
  tr_assertion :: str
  tr_tls_certificate :: "client_certificate option"
  tr_dpop_proof :: str

record token_response =
  ts_access_token :: str
  ts_id_token :: str
  ts_token_type :: str
  ts_expires_in :: int
  ts_scope :: str
  ts_refresh_token :: str
  ts_authorization_details :: "(str \<times> json) list list"

record id_token_context =
  ix_nonce :: str
  ix_session_id :: str
  ix_auth_time :: int
  ix_acr :: str
  ix_claims :: str
  ix_openid2_realm :: str

definition empty_context :: id_token_context where
  "empty_context = \<lparr>ix_nonce = [], ix_session_id = [], ix_auth_time = 0, ix_acr = [],
     ix_claims = [], ix_openid2_realm = []\<rparr>"

subsection \<open>Client authentication\<close>

definition token_endpoint :: "token_config \<Rightarrow> str" where
  "token_endpoint C = (if tk_token_endpoint C \<noteq> [] then tk_token_endpoint C
     else rstrip_slash (tk_issuer C) @ ''/token'')"

definition assertion_audiences :: "token_config \<Rightarrow> client \<Rightarrow> str list" where
  "assertion_audiences C c =
     (if cl_fapi2_enabled c
      then (let issuer = rstrip_slash (tk_issuer C) in if issuer \<noteq> [] then [issuer] else [])
      else [rstrip_slash (tk_issuer C), token_endpoint C])"

definition presented :: "token_config \<Rightarrow> client \<Rightarrow> token_request \<Rightarrow> credentials" where
  "presented C c r = \<lparr>av_available = tk_assertions C, cr_secret = tr_client_secret r,
     cr_assertion_type = tr_client_assertion_type r, cr_assertion = tr_client_assertion r,
     cr_audience = assertion_audiences C c, cr_certificate = tr_tls_certificate r\<rparr>"

definition presented_der :: "token_request \<Rightarrow> str option" where
  "presented_der r = Option.bind (tr_tls_certificate r) cert_der"

definition token_authenticate :: "services \<Rightarrow> token_config \<Rightarrow> client \<Rightarrow> token_request
    \<Rightarrow> (world, failure, unit) prog" where
  "token_authenticate X C c r =
     andthen (ensure (\<not> (cl_tls_bound_access_tokens c \<and> presented_der r = None))
       (Refused ''invalid_client'' ''Certificat client mTLS requis (RFC 8705 par. 3.1, tls_client_certificate_bound_access_tokens)'')) (\<lambda>_.
     andthen (authenticate_client X c (presented C c r)) (\<lambda>detail.
     case detail of
       None \<Rightarrow> ok ()
     | Some d \<Rightarrow> raise (Refused ''invalid_client'' d)))"

definition active_client :: "str \<Rightarrow> (world, failure, client) prog" where
  "active_client cid =
     andthen (find_client cid) (\<lambda>found.
     case found of
       None \<Rightarrow> raise (Refused ''invalid_client'' client_unknown_error)
     | Some c \<Rightarrow>
         if cl_is_active c then ok c else raise (Refused ''invalid_client'' client_unknown_error))"

definition tls_certificate_bound_hash :: "services \<Rightarrow> client \<Rightarrow> token_request \<Rightarrow> str" where
  "tls_certificate_bound_hash X c r =
     (if \<not> cl_tls_bound_access_tokens c
         \<and> cl_token_endpoint_auth_method c \<notin> {Some TlsClientAuth, Some SelfSignedTlsClientAuth}
      then []
      else case presented_der r of
          None \<Rightarrow> []
        | Some der \<Rightarrow> der_certificate_hash X der)"

subsection \<open>DPoP, scopes and resources\<close>

definition evaluate_dpop :: "services \<Rightarrow> token_config \<Rightarrow> client \<Rightarrow> token_request \<Rightarrow> str
    \<Rightarrow> (world, failure, dpop_binding) prog" where
  "evaluate_dpop X C c r bound_jkt =
     (if \<not> tk_dpop C then
        (if cl_require_dpop c \<and> tr_dpop_proof r = []
         then raise (Refused ''invalid_request'' ''Ce client exige une preuve DPoP (RFC 9449 par. 5.2)'')
         else ok unbound)
      else evaluate_guard X c (tr_dpop_proof r) (token_endpoint C) ''POST'' bound_jkt)"

definition bound_key :: "dpop_binding \<Rightarrow> str" where
  "bound_key b = (if db_bound b then db_jkt b else [])"

definition effective_scope :: "token_config \<Rightarrow> client \<Rightarrow> str \<Rightarrow> str set
    \<Rightarrow> (world, failure, str set) prog" where
  "effective_scope C c requested dflt =
     (let wanted = from_space_separated requested;
          scopes = (if requested \<noteq> [] then wanted else dflt)
      in if requested \<noteq> [] \<and> \<not> wanted \<subseteq> cl_scopes c
         then raise (Refused ''invalid_scope'' ''Portee jamais enregistree pour le client'')
         else case tk_registry C of
             None \<Rightarrow> ok scopes
           | Some g \<Rightarrow>
               andthen (peek (\<lambda>w. unknown_scopes g w scopes)) (\<lambda>unknown.
               if unknown \<noteq> []
               then raise (Refused ''invalid_scope'' (''Scope(s) non enregistre(s) : '' @ join_with '', '' unknown))
               else ok scopes))"

definition effective_resources :: "services \<Rightarrow> token_config \<Rightarrow> token_request \<Rightarrow> str list
    \<Rightarrow> (world, failure, str list) prog" where
  "effective_resources X C r bound =
     (let resources = parse_resource_parameter X (tr_resource r)
      in if resources = [] then ok bound
         else if bound \<noteq> [] then
           (let outside = filter (\<lambda>u. u \<notin> set bound) resources
            in if outside \<noteq> []
               then raise (Refused ''invalid_target''
                 (''resource hors des ressources liees au grant (RFC 8707 par. 4) : '' @ join_with '', '' outside))
               else ok resources)
         else if list_ex (\<lambda>u. is_resource_uri X u = None) resources then raise (Uncaught ''ValueError'')
         else
           (let malformed = filter (\<lambda>u. is_resource_uri X u = Some False) resources
            in if malformed \<noteq> []
               then raise (Refused ''invalid_target''
                 (''resource doit etre une URI absolue sans fragment (RFC 8707 par. 2.1) : '' @ join_with '', '' malformed))
               else case tk_registry C of
                   None \<Rightarrow> ok resources
                 | Some g \<Rightarrow>
                     andthen (peek (\<lambda>w. unknown_resources g w resources)) (\<lambda>unknown.
                     if unknown \<noteq> []
                     then raise (Refused ''invalid_target''
                       (''Resource non enregistree (RFC 8707 par. 2.2) : '' @ join_with '', '' unknown))
                     else ok resources)))"

subsection \<open>Issuing tokens\<close>

definition resolve_audience :: "token_config \<Rightarrow> client \<Rightarrow> str set \<Rightarrow> str list
    \<Rightarrow> (world, failure, json) prog" where
  "resolve_audience C c scopes resources =
     (if resources \<noteq> [] then ok (resource_audience resources)
      else case tk_registry C of
          None \<Rightarrow> ok (JStr (cl_client_id c))
        | Some g \<Rightarrow> peek (\<lambda>w. audiences_for g w (cl_client_id c) scopes))"

definition confirmation :: "str \<Rightarrow> str \<Rightarrow> (str \<times> json) list" where
  "confirmation dpop_jkt tls_hash =
     member_if (dpop_jkt \<noteq> []) ''jkt'' (JStr dpop_jkt)
     @ member_if (tls_hash \<noteq> []) ''x5t#S256'' (JStr tls_hash)"

definition userinfo_demand :: "claims_request option \<Rightarrow> (str \<times> json) list" where
  "userinfo_demand q =
     (let payload = (case q of None \<Rightarrow> [] | Some r \<Rightarrow> requested_userinfo_payload r);
          ekyc = verified_claims_payload q
      in if ekyc = [] then payload
         else case map_of payload ''claims'' of
             Some (JObj d) \<Rightarrow> dict_set ''claims'' (JObj (dict_update ekyc d)) payload
           | Some _ \<Rightarrow> payload
           | None \<Rightarrow> payload @ [(''claims'', JObj ekyc)])"

definition access_token_additional_claims :: "claims_request option \<Rightarrow> str \<Rightarrow> str
    \<Rightarrow> (str \<times> json) list \<Rightarrow> (str \<times> json) list list \<Rightarrow> (str \<times> json) list" where
  "access_token_additional_claims q dpop_jkt tls_hash subject_claims details =
     (let cnf = confirmation dpop_jkt tls_hash;
          a1 = userinfo_demand q;
          a2 = (if cnf \<noteq> [] then dict_set ''cnf'' (JObj cnf) a1 else a1);
          a3 = dict_update subject_claims a2
      in if details \<noteq> [] then dict_set ''authorization_details'' (JList (map JObj details)) a3
         else a3)"

definition access_token_lifetime :: "token_config \<Rightarrow> client \<Rightarrow> int" where
  "access_token_lifetime C c =
     resolve_lifetime_seconds (cl_access_token_lifetime_seconds c) (tk_access_token_ttl C)"

text \<open>Everything an access token is made of; the grants fix it, \<open>issue_access_token\<close> signs it.\<close>

record grant =
  gr_subject :: str
  gr_scopes :: "str set"
  gr_now :: instant
  gr_dpop_jkt :: str
  gr_resources :: "str list"
  gr_tls_hash :: str
  gr_material :: str
  gr_details :: "(str \<times> json) list list"

definition sign_access_token :: "services \<Rightarrow> token_config \<Rightarrow> client \<Rightarrow> grant
    \<Rightarrow> claims_request option \<Rightarrow> (world, failure, str) prog" where
  "sign_access_token X C c g q =
     andthen (resolve_audience C c (gr_scopes g) (gr_resources g)) (\<lambda>audience.
     create_access_token X (tk_signing_algorithm C) (tk_issuer C) (gr_subject g) audience
       (epoch_seconds (gr_now g + seconds (access_token_lifetime C c))) (epoch_seconds (gr_now g))
       (gr_scopes g)
       (access_token_additional_claims q (gr_dpop_jkt g) (gr_tls_hash g)
          (access_token_subject_claims c (gr_subject g) (gr_material g)) (gr_details g)))"

definition issue_access_token :: "services \<Rightarrow> token_config \<Rightarrow> client \<Rightarrow> grant
    \<Rightarrow> (world, failure, str \<times> int) prog" where
  "issue_access_token X C c g =
     andthen (sign_access_token X C c g None) (\<lambda>t. ok (t, access_token_lifetime C c))"

definition issue_refresh_token :: "services \<Rightarrow> token_config \<Rightarrow> client \<Rightarrow> grant
    \<Rightarrow> (world, failure, str) prog" where
  "issue_refresh_token X C c g =
     andthen fresh_token (\<lambda>value.
     andthen (modify (\<lambda>w. w\<lparr>w_refresh := refresh_save
       \<lparr>rt_token_hash = token_hash X value, rt_client_id = cl_client_id c,
        rt_subject = gr_subject g, rt_subject_material = gr_material g, rt_scopes = gr_scopes g,
        rt_expires_at = gr_now g + seconds (resolve_lifetime_seconds
           (cl_refresh_token_lifetime_seconds c) (tk_refresh_token_ttl C)),
        rt_is_consumed = False,
        rt_dpop_jkt = (if cl_client_type c = Confidential then [] else gr_dpop_jkt g),
        rt_resource_uris = gr_resources g, rt_tls_cert_hash = gr_tls_hash g\<rparr> (w_refresh w)\<rparr>)) (\<lambda>_.
     ok value))"

definition token_verified_claims :: "services \<Rightarrow> token_config \<Rightarrow> world \<Rightarrow> claims_request \<Rightarrow> str
    \<Rightarrow> (str \<times> json) list option" where
  "token_verified_claims X C w q subject =
     (case tk_identity_assurance C of
        None \<Rightarrow> None
      | Some provider \<Rightarrow>
          Option.bind (verified_claims_request_in X (cq_raw_id_token q))
            (\<lambda>r. resolve_verified_claims provider w r subject))"

definition token_openid20_identifier :: "token_config \<Rightarrow> world \<Rightarrow> str set \<Rightarrow> str \<Rightarrow> str \<Rightarrow> str" where
  "token_openid20_identifier C w scopes subject realm =
     (case tk_openid20 C of
        Some True \<Rightarrow>
          if scope_openid20 \<notin> scopes then [] else openid20_identifier_for True w subject realm
      | _ \<Rightarrow> [])"

definition id_token_additional :: "services \<Rightarrow> token_config \<Rightarrow> world \<Rightarrow> grant \<Rightarrow> id_token_context
    \<Rightarrow> claims_request option \<Rightarrow> (str \<times> json) list" where
  "id_token_additional X C w g ctx q =
     (let a1 = member_if (ix_acr ctx \<noteq> []) ''acr'' (JStr (ix_acr ctx));
          a2 = (case q of
              None \<Rightarrow> a1
            | Some r \<Rightarrow>
                let resolved = dict_pop verified_claims_member
                      (dict_update (resolve_requested_claims (tk_claims_provider C) w
                         (cq_id_token r) (gr_subject g)) a1)
                in case token_verified_claims X C w r (gr_subject g) of
                     None \<Rightarrow> resolved
                   | Some v \<Rightarrow> dict_set verified_claims_member (JObj v) resolved);
          openid20 = token_openid20_identifier C w (gr_scopes g) (gr_subject g) (ix_openid2_realm ctx)
      in if openid20 \<noteq> [] then dict_set ''openid2_id'' (JStr openid20) a2 else a2)"

definition issue_id_token :: "services \<Rightarrow> token_config \<Rightarrow> client \<Rightarrow> grant \<Rightarrow> id_token_context
    \<Rightarrow> claims_request option \<Rightarrow> (world, failure, str) prog" where
  "issue_id_token X C c g ctx q =
     (case resolve_id_token_material X c (tk_signing_algorithm C) (tk_secret_cipher C) of
        None \<Rightarrow> raise (Refused ''invalid_client'' ''Secret du client indisponible pour la signature HS*'')
      | Some (alg, secret) \<Rightarrow>
          andthen (peek (\<lambda>w. id_token_additional X C w g ctx q)) (\<lambda>additional.
          case display_subject X c (gr_subject g) (gr_material g) (tk_subject_seed C) of
            None \<Rightarrow> raise (Uncaught ''ValueError'')
          | Some sub \<Rightarrow>
              andthen (create_id_token X alg (tk_issuer C) sub (cl_client_id c)
                 (epoch_seconds (gr_now g + seconds (access_token_lifetime C c)))
                 (epoch_seconds (gr_now g))
                 (no_conditional_claims\<lparr>ic_nonce := ix_nonce ctx, ic_session_id := ix_session_id ctx,
                    ic_auth_time := ix_auth_time ctx\<rparr>)
                 secret additional) (\<lambda>signed.
              case encrypt_id_token_for_client X (tk_secret_cipher C) (tk_id_token_encrypter C) c signed of
                None \<Rightarrow> raise (Refused ''invalid_client'' ''Materiel de chiffrement d'id_token indisponible'')
              | Some t \<Rightarrow> ok t)))"

definition issue_tokens :: "services \<Rightarrow> token_config \<Rightarrow> client \<Rightarrow> grant \<Rightarrow> id_token_context
    \<Rightarrow> (world, failure, str \<times> str \<times> int) prog" where
  "issue_tokens X C c g ctx =
     (if scope_openid \<notin> gr_scopes g
      then andthen (issue_access_token X C c g) (\<lambda>(t, ttl). ok ([], t, ttl))
      else
        let q = (if ix_claims ctx \<noteq> [] then parse_claims_parameter X (ix_claims ctx) else None)
        in andthen (issue_id_token X C c g ctx q) (\<lambda>id_token.
           andthen (sign_access_token X C c g q) (\<lambda>access_token.
           ok (id_token, access_token, access_token_lifetime C c))))"

definition token_success :: "str \<Rightarrow> str \<Rightarrow> int \<Rightarrow> str set \<Rightarrow> str \<Rightarrow> dpop_binding
    \<Rightarrow> (str \<times> json) list list \<Rightarrow> token_response" where
  "token_success id_token access_token ttl scopes refresh b details =
     \<lparr>ts_access_token = access_token, ts_id_token = id_token,
      ts_token_type = (if db_bound b then ''DPoP'' else ''Bearer''), ts_expires_in = ttl,
      ts_scope = scope_string scopes, ts_refresh_token = refresh,
      ts_authorization_details = details\<rparr>"

end
