(* ===== verification/TokenGrants.thy ===== *)
theory TokenGrants
  imports TokenRules
begin

text \<open>
  \<open>application/token.py\<close>, the grants of the token endpoint: authorization code, refresh token,
  client credentials, jwt-bearer, device code, CIBA and pre-authorized code.
\<close>

definition refuse :: "str \<Rightarrow> str \<Rightarrow> (world, failure, 'a) prog" where
  "refuse e d = raise (Refused e d)"

lemma refuse_iff [prog_simps]: "refuse e d w = (r, v) \<longleftrightarrow> r = Inl (Refused e d) \<and> v = w"
  by (auto simp: refuse_def raise_def)

lemma refuse_run [run_simps]: "refuse e d w = (Inl (Refused e d), w)"
  by (simp add: refuse_def raise_def)

lemma moves_refuse [moves_intros]: "reflp R \<Longrightarrow> moves R (refuse e d)"
  by (simp add: refuse_def moves_pure)

subsection \<open>Authorization code\<close>

text \<open>\<open>_verify_pkce\<close>; a verifier outside ASCII is an uncaught \<open>UnicodeEncodeError\<close>.\<close>

definition verify_pkce :: "services \<Rightarrow> authorization_code \<Rightarrow> str \<Rightarrow> failure + bool" where
  "verify_pkce X ac verifier =
     (if verifier = [] then Inr False
      else if py_upper (ac_code_challenge_method ac) = ''S256'' then
        (if list_all is_ascii verifier then Inr (sv_sha256_b64 X verifier = ac_code_challenge ac)
         else Inl (Uncaught ''UnicodeEncodeError''))
      else Inr (verifier = ac_code_challenge ac))"

definition validate_code_exchange :: "services \<Rightarrow> token_config \<Rightarrow> authorization_code \<Rightarrow> token_request
    \<Rightarrow> (world, failure, client) prog" where
  "validate_code_exchange X C ac r =
     andthen (active_client (tr_client_id r)) (\<lambda>c.
     andthen (ensure (ac_redirect_uri ac = tr_redirect_uri r)
       (Refused ''invalid_grant'' ''redirect_uri ne correspond pas'')) (\<lambda>_.
     andthen (token_authenticate X C c r) (\<lambda>_.
     andthen (ensure (ac_client_id ac = cl_client_id c)
       (Refused ''invalid_grant'' ''Code d'autorisation emis pour un autre client'')) (\<lambda>_.
     andthen (ensure (\<not> (cl_client_type c = Public \<and> ac_code_challenge ac = []))
       (Refused ''invalid_grant'' ''Les clients publics doivent utiliser PKCE'')) (\<lambda>_.
     if ac_code_challenge ac = [] then ok c
     else andthen (lift (verify_pkce X ac (tr_code_verifier r))) (\<lambda>verified.
       if verified then ok c
       else refuse ''invalid_grant'' ''Echec de la verification PKCE''))))))"

definition revoke_issued_tokens :: "token_config \<Rightarrow> authorization_code \<Rightarrow> (world, failure, unit) prog" where
  "revoke_issued_tokens C ac =
     andthen
       (if ac_access_token_hash ac \<noteq> [] \<and> tk_revoked_tokens C
        then andthen now_utc (\<lambda>t. modify (\<lambda>w. w\<lparr>w_revoked := revoked_save
          \<lparr>rv_token_hash = ac_access_token_hash ac,
           rv_expires_at = (case ac_access_token_expires_at ac of Some e \<Rightarrow> e | None \<Rightarrow> ac_expires_at ac),
           rv_revoked_at = t\<rparr> (w_revoked w)\<rparr>))
        else ok ()) (\<lambda>_.
     if ac_refresh_token_hash ac \<noteq> []
     then modify (\<lambda>w. w\<lparr>w_refresh := refresh_consume (ac_refresh_token_hash ac) (w_refresh w)\<rparr>)
     else ok ())"

definition record_issued_tokens :: "services \<Rightarrow> authorization_code \<Rightarrow> str \<Rightarrow> int \<Rightarrow> str \<Rightarrow> instant
    \<Rightarrow> (world, failure, unit) prog" where
  "record_issued_tokens X ac access_token ttl refresh now =
     modify (\<lambda>w. w\<lparr>w_codes := codes_save (ac\<lparr>ac_is_consumed := True,
        ac_access_token_hash := token_hash X access_token,
        ac_access_token_expires_at := Some (now + seconds ttl),
        ac_refresh_token_hash := (if refresh \<noteq> [] then token_hash X refresh else [])\<rparr>)
        (w_codes w)\<rparr>)"

definition find_code :: "str \<Rightarrow> (world, failure, authorization_code option) prog" where
  "find_code code = peek (\<lambda>w. codes_find (w_codes w) code)"

definition consume_code :: "str \<Rightarrow> (world, failure, unit) prog" where
  "consume_code code = modify (\<lambda>w. w\<lparr>w_codes := codes_consume code (w_codes w)\<rparr>)"

text \<open>The refresh token of a grant, issued when \<open>offline_access\<close> was granted.\<close>

definition offline_refresh_token :: "services \<Rightarrow> token_config \<Rightarrow> client \<Rightarrow> grant
    \<Rightarrow> (world, failure, str) prog" where
  "offline_refresh_token X C c g =
     (if scope_offline_access \<in> gr_scopes g then issue_refresh_token X C c g else ok [])"

definition granted_details :: "services \<Rightarrow> authorization_code \<Rightarrow> (str \<times> json) list list" where
  "granted_details X ac = grant_authorization_details
     (case parse_authorization_details X (ac_authorization_details ac) of Inl _ \<Rightarrow> [] | Inr ds \<Rightarrow> ds)"

definition code_grant :: "services \<Rightarrow> client \<Rightarrow> token_request \<Rightarrow> authorization_code \<Rightarrow> instant
    \<Rightarrow> dpop_binding \<Rightarrow> str list \<Rightarrow> grant" where
  "code_grant X c r ac now b resources = \<lparr>gr_subject = ac_subject ac, gr_scopes = ac_scopes ac,
     gr_now = now, gr_dpop_jkt = bound_key b, gr_resources = resources,
     gr_tls_hash = tls_certificate_bound_hash X c r, gr_material = ac_subject_material ac,
     gr_details = granted_details X ac\<rparr>"

definition code_context :: "authorization_code \<Rightarrow> id_token_context" where
  "code_context ac = \<lparr>ix_nonce = ac_nonce ac, ix_session_id = ac_session_id ac,
     ix_auth_time = ac_auth_time ac, ix_acr = ac_acr ac, ix_claims = ac_claims ac,
     ix_openid2_realm = ac_openid2_realm ac\<rparr>"

definition redeem_code :: "services \<Rightarrow> token_config \<Rightarrow> token_request \<Rightarrow> authorization_code
    \<Rightarrow> client \<Rightarrow> grant \<Rightarrow> dpop_binding \<Rightarrow> (world, failure, token_response) prog" where
  "redeem_code X C r ac c g b =
     andthen (consume_code (ac_code ac)) (\<lambda>_.
     andthen (offline_refresh_token X C c g) (\<lambda>refresh.
     andthen (issue_tokens X C c g (code_context ac)) (\<lambda>(id_token, access_token, ttl).
     andthen (record_issued_tokens X ac access_token ttl refresh (gr_now g)) (\<lambda>_.
     ok (token_success id_token access_token ttl (gr_scopes g) refresh b (gr_details g))))))"

definition exchange_code :: "services \<Rightarrow> token_config \<Rightarrow> token_request
    \<Rightarrow> (world, failure, token_response) prog" where
  "exchange_code X C r =
     andthen (find_code (tr_code r)) (\<lambda>found.
     case found of
       None \<Rightarrow> refuse ''invalid_grant'' ''Code d'autorisation invalide ou deja consomme''
     | Some ac \<Rightarrow>
         if ac_is_consumed ac
         then andthen (revoke_issued_tokens C ac) (\<lambda>_.
              refuse ''invalid_grant'' ''Code d'autorisation invalide ou deja consomme'')
         else
           andthen now_utc (\<lambda>now.
           andthen (ensure (\<not> ac_expires_at ac < now)
             (Refused ''invalid_grant'' ''Code d'autorisation expire'')) (\<lambda>_.
           andthen (validate_code_exchange X C ac r) (\<lambda>c.
           andthen (evaluate_dpop X C c r (ac_dpop_jkt ac)) (\<lambda>b.
           andthen (effective_resources X C r (ac_resource_uris ac)) (\<lambda>resources.
           redeem_code X C r ac c (code_grant X c r ac now b resources) b))))))"

subsection \<open>Refresh token\<close>

definition resolve_refresh_grant :: "services \<Rightarrow> token_request
    \<Rightarrow> (world, failure, refresh_token \<times> str set) prog" where
  "resolve_refresh_grant X r =
     andthen (peek (\<lambda>w. refresh_find (w_refresh w) (token_hash X (tr_refresh_token r)))) (\<lambda>found.
     case found of
       None \<Rightarrow> refuse ''invalid_grant'' ''Refresh token invalide ou d'un autre client''
     | Some st \<Rightarrow>
         andthen (ensure (rt_client_id st = tr_client_id r)
           (Refused ''invalid_grant'' ''Refresh token invalide ou d'un autre client'')) (\<lambda>_.
         andthen (ensure (\<not> rt_is_consumed st)
           (Refused ''invalid_grant'' ''Refresh token deja utilise (rotation)'')) (\<lambda>_.
         andthen now_utc (\<lambda>now.
         andthen (ensure (\<not> rt_expires_at st < now)
           (Refused ''invalid_grant'' ''Refresh token expire'')) (\<lambda>_.
         if tr_scope r = [] then ok (st, rt_scopes st)
         else let requested = from_space_separated (tr_scope r)
           in if requested \<subseteq> rt_scopes st then ok (st, requested)
              else refuse ''invalid_scope'' ''Portee demandee jamais accordee au jeton'')))))"

definition refresh_dpop_jkt :: "client \<Rightarrow> refresh_token \<Rightarrow> dpop_binding \<Rightarrow> str" where
  "refresh_dpop_jkt c st b =
     (if rt_dpop_jkt st \<noteq> [] then rt_dpop_jkt st
      else if cl_client_type c = Confidential then []
      else bound_key b)"

definition refresh_grant :: "services \<Rightarrow> client \<Rightarrow> token_request \<Rightarrow> refresh_token \<Rightarrow> str set
    \<Rightarrow> instant \<Rightarrow> dpop_binding \<Rightarrow> str list \<Rightarrow> grant" where
  "refresh_grant X c r st scopes now b resources = \<lparr>gr_subject = rt_subject st, gr_scopes = scopes,
     gr_now = now, gr_dpop_jkt = bound_key b, gr_resources = resources,
     gr_tls_hash = tls_certificate_bound_hash X c r, gr_material = rt_subject_material st,
     gr_details = []\<rparr>"

definition rotate_refresh_token :: "services \<Rightarrow> token_config \<Rightarrow> client \<Rightarrow> refresh_token \<Rightarrow> grant
    \<Rightarrow> dpop_binding \<Rightarrow> (world, failure, str) prog" where
  "rotate_refresh_token X C c st g b =
     (if cl_fapi2_enabled c then ok []
      else andthen (modify (\<lambda>w. w\<lparr>w_refresh := refresh_consume (rt_token_hash st) (w_refresh w)\<rparr>)) (\<lambda>_.
        issue_refresh_token X C c (g\<lparr>gr_dpop_jkt := refresh_dpop_jkt c st b\<rparr>)))"

definition refresh_tokens :: "services \<Rightarrow> token_config \<Rightarrow> token_request
    \<Rightarrow> (world, failure, token_response) prog" where
  "refresh_tokens X C r =
     andthen (ensure (tr_refresh_token r \<noteq> [])
       (Refused ''invalid_grant'' ''Parametre refresh_token manquant'')) (\<lambda>_.
     andthen (active_client (tr_client_id r)) (\<lambda>c.
     andthen (token_authenticate X C c r) (\<lambda>_.
     andthen (resolve_refresh_grant X r) (\<lambda>(st, scopes).
     andthen (ensure (\<not> (rt_tls_cert_hash st \<noteq> []
           \<and> tls_certificate_bound_hash X c r \<noteq> rt_tls_cert_hash st))
       (Refused ''invalid_grant'' ''Refresh token lie au certificat client mTLS (RFC 8705 par. 3.3) : certificat absent ou different de celui d'emission'')) (\<lambda>_.
     andthen now_utc (\<lambda>now.
     andthen (evaluate_dpop X C c r (rt_dpop_jkt st)) (\<lambda>b.
     andthen (effective_resources X C r (rt_resource_uris st)) (\<lambda>resources.
     let g = refresh_grant X c r st scopes now b resources in
     andthen (rotate_refresh_token X C c st g b) (\<lambda>refresh.
     andthen (issue_tokens X C c g empty_context) (\<lambda>(id_token, access_token, ttl).
     ok (token_success id_token access_token ttl scopes refresh b [])))))))))))"

subsection \<open>Client credentials and jwt-bearer\<close>

definition bare_grant :: "services \<Rightarrow> client \<Rightarrow> token_request \<Rightarrow> str \<Rightarrow> str set \<Rightarrow> instant
    \<Rightarrow> dpop_binding \<Rightarrow> str list \<Rightarrow> grant" where
  "bare_grant X c r subject scopes now b resources = \<lparr>gr_subject = subject, gr_scopes = scopes,
     gr_now = now, gr_dpop_jkt = bound_key b, gr_resources = resources,
     gr_tls_hash = tls_certificate_bound_hash X c r, gr_material = [], gr_details = []\<rparr>"

definition bare_token :: "services \<Rightarrow> token_config \<Rightarrow> token_request \<Rightarrow> client \<Rightarrow> str
    \<Rightarrow> (world, failure, token_response) prog" where
  "bare_token X C r c subject =
     andthen (effective_scope C c (tr_scope r) (cl_scopes c)) (\<lambda>scopes.
     andthen (evaluate_dpop X C c r []) (\<lambda>b.
     andthen (effective_resources X C r []) (\<lambda>resources.
     andthen now_utc (\<lambda>now.
     andthen (issue_access_token X C c (bare_grant X c r subject scopes now b resources)) (\<lambda>(t, ttl).
     ok (token_success [] t ttl scopes [] b []))))))"

definition client_credentials :: "services \<Rightarrow> token_config \<Rightarrow> token_request
    \<Rightarrow> (world, failure, token_response) prog" where
  "client_credentials X C r =
     andthen (active_client (tr_client_id r)) (\<lambda>c.
     andthen (ensure (cl_client_type c = Confidential)
       (Refused ''invalid_client'' ''Le grant client_credentials exige un client confidentiel'')) (\<lambda>_.
     andthen (token_authenticate X C c r) (\<lambda>_.
     bare_token X C r c (cl_client_id c))))"

text \<open>\<open>_unverified_assertion_claims\<close>: three dot-separated parts, the middle one an encoded object.\<close>

definition pad_base64 :: "str \<Rightarrow> str" where
  "pad_base64 s = s @ replicate ((4 - length s mod 4) mod 4) (CHR ''='')"

definition unverified_assertion_claims :: "services \<Rightarrow> str \<Rightarrow> (str \<times> json) list option" where
  "unverified_assertion_claims X assertion =
     (let header = takeWhile (\<lambda>c. c \<noteq> CHR ''.'') assertion;
          rest = drop (Suc (length header)) assertion;
          payload = takeWhile (\<lambda>c. c \<noteq> CHR ''.'') rest
      in if count_list assertion (CHR ''.'') \<noteq> 2 then None
         else case Option.bind (sv_b64_text X (pad_base64 payload)) (sv_json_loads X) of
             Some (JObj d) \<Rightarrow> Some d
           | _ \<Rightarrow> None)"

text \<open>
  \<open>request.client_id or preliminary.get("iss")\<close>, then the test that it is a non-empty string.
  A verified assertion without \<open>sub\<close> would be a \<open>KeyError\<close>; the verifier refuses those.
\<close>

definition jwt_bearer_subject :: "services \<Rightarrow> token_config \<Rightarrow> token_request
    \<Rightarrow> (world, failure, client \<times> str) prog" where
  "jwt_bearer_subject X C r =
     andthen (ensure (tk_assertions C) (Refused ''unsupported_grant_type'' [])) (\<lambda>_.
     andthen (ensure (tr_assertion r \<noteq> [])
       (Refused ''invalid_grant'' ''Parametre assertion manquant'')) (\<lambda>_.
     case unverified_assertion_claims X (tr_assertion r) of
       None \<Rightarrow> refuse ''invalid_grant'' ''Assertion jwt-bearer malformee''
     | Some preliminary \<Rightarrow>
         let client_id = (if tr_client_id r \<noteq> [] then tr_client_id r
               else case jget_str preliminary ''iss'' of Some i \<Rightarrow> i | None \<Rightarrow> [])
         in if client_id = [] then refuse ''invalid_grant'' ''Assertion sans emetteur (iss)''
            else
              andthen (active_client client_id) (\<lambda>c.
              andthen now_utc (\<lambda>now.
              case sv_verify_assertion X (tr_assertion r) c [token_endpoint C] False now of
                None \<Rightarrow> refuse ''invalid_grant'' ''Assertion jwt-bearer invalide''
              | Some verified \<Rightarrow>
                  (case map_of verified ''sub'' of
                     None \<Rightarrow> raise (Uncaught ''KeyError'')
                   | Some (JStr sub) \<Rightarrow> ok (c, sub)
                   | Some _ \<Rightarrow> refuse ''invalid_grant'' ''Assertion jwt-bearer sans sujet (sub)'')))))"

definition jwt_bearer :: "services \<Rightarrow> token_config \<Rightarrow> token_request
    \<Rightarrow> (world, failure, token_response) prog" where
  "jwt_bearer X C r = andthen (jwt_bearer_subject X C r) (\<lambda>(c, subject). bare_token X C r c subject)"

subsection \<open>Polled grants: device code and CIBA\<close>

text \<open>The answer to a poll of an undecided session, with the session to store.\<close>

definition poll_device :: "device_authorization \<Rightarrow> instant \<Rightarrow> failure \<times> device_authorization" where
  "poll_device s now =
     (case da_last_polled_at s of
        Some t \<Rightarrow>
          if now - t < seconds (da_interval s)
          then (Refused ''slow_down'' ''Polling trop rapide : augmentez l'intervalle'',
                s\<lparr>da_interval := da_interval s + 5, da_last_polled_at := Some now\<rparr>)
          else (Refused ''authorization_pending'' ''En attente de l'autorisation de l'utilisateur'',
                s\<lparr>da_last_polled_at := Some now\<rparr>)
      | None \<Rightarrow>
          (Refused ''authorization_pending'' ''En attente de l'autorisation de l'utilisateur'',
           s\<lparr>da_last_polled_at := Some now\<rparr>))"

definition poll_ciba :: "backchannel_request \<Rightarrow> instant \<Rightarrow> failure \<times> backchannel_request" where
  "poll_ciba s now =
     (case bc_last_polled_at s of
        Some t \<Rightarrow>
          if now - t < seconds (bc_interval s)
          then (Refused ''slow_down'' ''Polling trop rapide : augmentez l'intervalle'',
                s\<lparr>bc_interval := bc_interval s + 5, bc_last_polled_at := Some now\<rparr>)
          else (Refused ''authorization_pending'' ''En attente de l'utilisateur'',
                s\<lparr>bc_last_polled_at := Some now\<rparr>)
      | None \<Rightarrow>
          (Refused ''authorization_pending'' ''En attente de l'utilisateur'',
           s\<lparr>bc_last_polled_at := Some now\<rparr>))"

definition load_device_session :: "services \<Rightarrow> token_request
    \<Rightarrow> (world, failure, device_authorization) prog" where
  "load_device_session X r =
     andthen (peek (\<lambda>w. devices_find (w_devices w) (token_hash X (tr_device_code r)))) (\<lambda>found.
     case found of
       None \<Rightarrow> refuse ''invalid_grant'' ''Device code invalide ou d'un autre client''
     | Some st \<Rightarrow>
         andthen (ensure (da_client_id st = tr_client_id r)
           (Refused ''invalid_grant'' ''Device code invalide ou d'un autre client'')) (\<lambda>_.
         andthen now_utc (\<lambda>now.
         if da_expires_at st < now
         then andthen (modify (\<lambda>w. w\<lparr>w_devices := devices_delete (da_device_code_hash st) (w_devices w)\<rparr>)) (\<lambda>_.
              refuse ''expired_token'' ''Device code expire'')
         else if da_status st = Denied
         then refuse ''access_denied'' ''Appareil refuse par l'utilisateur''
         else ok st)))"

definition device_pending_response :: "device_authorization \<Rightarrow> instant
    \<Rightarrow> (world, failure, token_response) prog" where
  "device_pending_response st now =
     andthen (modify (\<lambda>w. w\<lparr>w_devices := devices_save (snd (poll_device st now)) (w_devices w)\<rparr>)) (\<lambda>_.
     raise (fst (poll_device st now)))"

text \<open>A grant whose session is deleted, then redeemed.\<close>

definition redeem_grant :: "services \<Rightarrow> token_config \<Rightarrow> client \<Rightarrow> grant \<Rightarrow> id_token_context
    \<Rightarrow> dpop_binding \<Rightarrow> (world, failure, token_response) prog" where
  "redeem_grant X C c g ctx b =
     andthen (offline_refresh_token X C c g) (\<lambda>refresh.
     andthen (issue_tokens X C c g ctx) (\<lambda>(id_token, access_token, ttl).
     ok (token_success id_token access_token ttl (gr_scopes g) refresh b [])))"

definition device_grant :: "device_authorization \<Rightarrow> instant \<Rightarrow> dpop_binding \<Rightarrow> str list \<Rightarrow> str \<Rightarrow> grant" where
  "device_grant st now b resources tls_hash = \<lparr>gr_subject = da_subject st, gr_scopes = da_scopes st,
     gr_now = now, gr_dpop_jkt = bound_key b, gr_resources = resources, gr_tls_hash = tls_hash,
     gr_material = da_device_code_hash st, gr_details = []\<rparr>"

definition device_approved_flow :: "services \<Rightarrow> token_config \<Rightarrow> client \<Rightarrow> device_authorization
    \<Rightarrow> instant \<Rightarrow> dpop_binding \<Rightarrow> str list \<Rightarrow> str \<Rightarrow> (world, failure, token_response) prog" where
  "device_approved_flow X C c st now b resources tls_hash =
     andthen (modify (\<lambda>w. w\<lparr>w_devices := devices_delete (da_device_code_hash st) (w_devices w)\<rparr>)) (\<lambda>_.
     redeem_grant X C c (device_grant st now b resources tls_hash) empty_context b)"

definition device_code :: "services \<Rightarrow> token_config \<Rightarrow> token_request
    \<Rightarrow> (world, failure, token_response) prog" where
  "device_code X C r =
     andthen (ensure (tk_device_codes C) (Refused ''unsupported_grant_type'' [])) (\<lambda>_.
     andthen (ensure (tr_device_code r \<noteq> [])
       (Refused ''invalid_grant'' ''Parametre device_code manquant'')) (\<lambda>_.
     andthen (active_client (tr_client_id r)) (\<lambda>c.
     andthen (token_authenticate X C c r) (\<lambda>_.
     andthen (evaluate_dpop X C c r []) (\<lambda>b.
     andthen (load_device_session X r) (\<lambda>st.
     andthen (effective_resources X C r []) (\<lambda>resources.
     andthen now_utc (\<lambda>now.
     if da_status st = Approved
     then device_approved_flow X C c st now b resources (tls_certificate_bound_hash X c r)
     else device_pending_response st now))))))))"

definition load_ciba_session :: "services \<Rightarrow> token_request
    \<Rightarrow> (world, failure, backchannel_request) prog" where
  "load_ciba_session X r =
     andthen (peek (\<lambda>w. ciba_find (w_ciba w) (token_hash X (tr_auth_req_id r)))) (\<lambda>found.
     case found of
       None \<Rightarrow> refuse ''invalid_grant'' ''auth_req_id invalide ou d'un autre client''
     | Some st \<Rightarrow>
         andthen (ensure (bc_client_id st = tr_client_id r)
           (Refused ''invalid_grant'' ''auth_req_id invalide ou d'un autre client'')) (\<lambda>_.
         andthen now_utc (\<lambda>now.
         if bc_expires_at st < now
         then andthen (modify (\<lambda>w. w\<lparr>w_ciba := ciba_delete (bc_auth_req_id_hash st) (w_ciba w)\<rparr>)) (\<lambda>_.
              refuse ''expired_token'' ''auth_req_id expire'')
         else if bc_delivery_mode st = ''push''
         then refuse ''unauthorized_client'' ''Client enregistre en mode push : resultat non delivre sur /token (CIBA par. 11)''
         else if bc_status st = Denied
         then refuse ''access_denied'' ''Demande refusee par l'utilisateur''
         else ok st)))"

definition ciba_pending_response :: "backchannel_request \<Rightarrow> instant
    \<Rightarrow> (world, failure, token_response) prog" where
  "ciba_pending_response st now =
     andthen (modify (\<lambda>w. w\<lparr>w_ciba := ciba_save (snd (poll_ciba st now)) (w_ciba w)\<rparr>)) (\<lambda>_.
     raise (fst (poll_ciba st now)))"

definition ciba_grant :: "backchannel_request \<Rightarrow> instant \<Rightarrow> dpop_binding \<Rightarrow> str list \<Rightarrow> str \<Rightarrow> grant" where
  "ciba_grant st now b resources tls_hash = \<lparr>gr_subject = bc_subject st, gr_scopes = bc_scopes st,
     gr_now = now, gr_dpop_jkt = bound_key b, gr_resources = resources, gr_tls_hash = tls_hash,
     gr_material = bc_auth_req_id_hash st, gr_details = []\<rparr>"

definition ciba_approved_flow :: "services \<Rightarrow> token_config \<Rightarrow> client \<Rightarrow> backchannel_request
    \<Rightarrow> instant \<Rightarrow> dpop_binding \<Rightarrow> str list \<Rightarrow> str \<Rightarrow> (world, failure, token_response) prog" where
  "ciba_approved_flow X C c st now b resources tls_hash =
     andthen (modify (\<lambda>w. w\<lparr>w_ciba := ciba_delete (bc_auth_req_id_hash st) (w_ciba w)\<rparr>)) (\<lambda>_.
     redeem_grant X C c (ciba_grant st now b resources tls_hash)
       (empty_context\<lparr>ix_acr := bc_acr st\<rparr>) b)"

definition ciba_token :: "services \<Rightarrow> token_config \<Rightarrow> token_request
    \<Rightarrow> (world, failure, token_response) prog" where
  "ciba_token X C r =
     andthen (ensure (tk_backchannel C) (Refused ''unsupported_grant_type'' [])) (\<lambda>_.
     andthen (ensure (tr_auth_req_id r \<noteq> [])
       (Refused ''invalid_grant'' ''Parametre auth_req_id manquant'')) (\<lambda>_.
     andthen (active_client (tr_client_id r)) (\<lambda>c.
     andthen (token_authenticate X C c r) (\<lambda>_.
     andthen (evaluate_dpop X C c r []) (\<lambda>b.
     andthen (load_ciba_session X r) (\<lambda>st.
     andthen (effective_resources X C r (bc_resource_uris st)) (\<lambda>resources.
     andthen now_utc (\<lambda>now.
     if bc_status st = Approved
     then ciba_approved_flow X C c st now b resources (tls_certificate_bound_hash X c r)
     else ciba_pending_response st now))))))))"

text \<open>Tokens of an approved request in push mode, and the signed notification carrying them.\<close>

definition issue_ciba_push_tokens :: "services \<Rightarrow> token_config \<Rightarrow> backchannel_request
    \<Rightarrow> (world, failure, token_response) prog" where
  "issue_ciba_push_tokens X C st =
     andthen (ensure (tk_backchannel C) (Refused ''unsupported_grant_type'' [])) (\<lambda>_.
     andthen (find_client (bc_client_id st)) (\<lambda>found.
     case found of
       None \<Rightarrow> refuse ''invalid_client'' ''Client inconnu''
     | Some c \<Rightarrow>
         andthen now_utc (\<lambda>now.
         ciba_approved_flow X C c st now unbound (bc_resource_uris st) [])))"

definition push_notification_claims :: "str \<Rightarrow> instant \<Rightarrow> str \<Rightarrow> token_response option
    \<Rightarrow> (str \<times> json) list" where
  "push_notification_claims auth_req_id now jti ts =
     [(''auth_req_id'', JStr auth_req_id), (''exp'', JInt (epoch_seconds (now + seconds 300))),
      (''jti'', JStr jti)]
     @ (case ts of
          None \<Rightarrow> []
        | Some t \<Rightarrow> [(''id_token'', JStr (ts_id_token t)), (''access_token'', JStr (ts_access_token t)),
            (''token_type'', JStr (ts_token_type t)), (''expires_in'', JInt (ts_expires_in t)),
            (''refresh_token'', JStr (ts_refresh_token t))])"

definition sign_push_notification :: "services \<Rightarrow> token_config \<Rightarrow> backchannel_request \<Rightarrow> str
    \<Rightarrow> token_response option \<Rightarrow> (world, failure, str) prog" where
  "sign_push_notification X C st auth_req_id ts =
     andthen now_utc (\<lambda>now.
     andthen fresh_token (\<lambda>jti.
     create_userinfo_jwt X (tk_issuer C) (bc_client_id st) (tk_signing_algorithm C)
       (push_notification_claims auth_req_id now jti ts)))"

text \<open>
  \<open>create_ciba_push_notification\<close>: without a response the tokens are issued first, a
  \<open>TokenError\<close> of the issuing being dropped.
\<close>

definition create_ciba_push_notification :: "services \<Rightarrow> token_config \<Rightarrow> backchannel_request \<Rightarrow> str
    \<Rightarrow> token_response option \<Rightarrow> (world, failure, str) prog" where
  "create_ciba_push_notification X C st auth_req_id given =
     (case given of
        Some ts \<Rightarrow> sign_push_notification X C st auth_req_id (Some ts)
      | None \<Rightarrow> (\<lambda>w. case issue_ciba_push_tokens X C st w of
            (Inr ts, v) \<Rightarrow> sign_push_notification X C st auth_req_id (Some ts) v
          | (Inl (Refused _ _), v) \<Rightarrow> sign_push_notification X C st auth_req_id None v
          | (Inl (Uncaught e), v) \<Rightarrow> (Inl (Uncaught e), v)))"

subsection \<open>Pre-authorized code\<close>

definition resolve_pre_authorized_code :: "token_config \<Rightarrow> str \<Rightarrow> instant
    \<Rightarrow> (world, failure, authorization_code) prog" where
  "resolve_pre_authorized_code C code now =
     andthen (find_code code) (\<lambda>found.
     case found of
       None \<Rightarrow> refuse ''invalid_grant'' ''Code pre-autorise invalide''
     | Some ac \<Rightarrow>
         if \<not> ac_pre_authorized ac then refuse ''invalid_grant'' ''Code pre-autorise invalide''
         else if ac_is_consumed ac
         then andthen (revoke_issued_tokens C ac) (\<lambda>_.
              refuse ''invalid_grant'' ''Code pre-autorise deja consomme'')
         else if ac_expires_at ac < now then refuse ''invalid_grant'' ''Code pre-autorise expire''
         else ok ac)"

definition pre_authorized_code :: "services \<Rightarrow> token_config \<Rightarrow> token_request
    \<Rightarrow> (world, failure, token_response) prog" where
  "pre_authorized_code X C r =
     andthen now_utc (\<lambda>now.
     andthen (resolve_pre_authorized_code C (tr_pre_authorized_code r) now) (\<lambda>ac.
     andthen (find_client (tr_client_id r)) (\<lambda>found.
     case found of
       None \<Rightarrow> refuse ''invalid_client'' ''Client inconnu ou inactif''
     | Some c \<Rightarrow>
         andthen (ensure (cl_is_active c) (Refused ''invalid_client'' ''Client inconnu ou inactif'')) (\<lambda>_.
         andthen (token_authenticate X C c r) (\<lambda>_.
         andthen (ensure (\<not> (ac_client_id ac \<noteq> [] \<and> ac_client_id ac \<noteq> cl_client_id c))
           (Refused ''invalid_grant'' ''Code emis pour un autre client'')) (\<lambda>_.
         andthen (ensure (\<not> (ac_tx_code_hash ac \<noteq> []
             \<and> (tr_tx_code r = [] \<or> sv_sha256_hex X (tr_tx_code r) \<noteq> ac_tx_code_hash ac)))
           (Refused ''invalid_grant'' ''tx_code invalide'')) (\<lambda>_.
         andthen (evaluate_dpop X C c r (ac_dpop_jkt ac)) (\<lambda>b.
         andthen (effective_resources X C r (ac_resource_uris ac)) (\<lambda>resources.
         andthen (consume_code (ac_code ac)) (\<lambda>_.
         let g = (code_grant X c r ac now b resources)\<lparr>gr_details := []\<rparr> in
         andthen (issue_access_token X C c g) (\<lambda>(t, ttl).
         ok (token_success [] t ttl (ac_scopes ac) [] b []))))))))))))"

subsection \<open>The endpoint\<close>

definition deduce_client_id :: "services \<Rightarrow> token_config \<Rightarrow> token_request \<Rightarrow> token_request" where
  "deduce_client_id X C r =
     (if tr_client_id r \<noteq> [] \<or> tr_client_assertion r = [] \<or> \<not> tk_assertions C then r
      else let issuer = sv_issuer_of X (tr_client_assertion r)
           in if issuer \<noteq> [] then r\<lparr>tr_client_id := issuer\<rparr> else r)"

definition execute_token :: "services \<Rightarrow> token_config \<Rightarrow> token_request
    \<Rightarrow> (world, failure, token_response) prog" where
  "execute_token X C request =
     (let r = deduce_client_id X C request; g = tr_grant_type r in
      if g = ''authorization_code'' then exchange_code X C r
      else if g = ''refresh_token'' then refresh_tokens X C r
      else if g = ''client_credentials'' then client_credentials X C r
      else if g = jwt_bearer_grant_type then jwt_bearer X C r
      else if g = device_code_grant_type then device_code X C r
      else if g = ciba_grant_type then ciba_token X C r
      else if g = pre_authorized_code_grant_type then pre_authorized_code X C r
      else refuse ''unsupported_grant_type'' [])"

end
