(* ===== verification/TokenFrame.thy ===== *)
theory TokenFrame
  imports TokenGrants
begin

text \<open>
  What the token endpoint does to the server's state.  A relation on states is lenient when it
  tolerates what every request may do (read the clock, draw random values, remember a DPoP
  identifier); the rules below lift such a relation through the grants, so that a frame or an
  invariant of the endpoint needs only its own writes to be checked.
\<close>

definition lenient :: "(world \<Rightarrow> world \<Rightarrow> bool) \<Rightarrow> bool" where
  "lenient R \<longleftrightarrow> reflp R \<and> transp R \<and> (\<forall>w n. R w (w\<lparr>w_tick := w_tick w + n\<rparr>))
     \<and> (\<forall>w. R w (w\<lparr>w_draw := Suc (w_draw w)\<rparr>)) \<and> (\<forall>w d. R w (w\<lparr>w_replays := d\<rparr>))"

lemma lenient_order [moves_intros]: "lenient R \<Longrightarrow> reflp R" "lenient R \<Longrightarrow> transp R"
  by (auto simp: lenient_def)

lemma lenient_same:
  assumes "\<And>w n. f (w\<lparr>w_tick := n\<rparr>) = f w" and "\<And>w n. f (w\<lparr>w_draw := n\<rparr>) = f w"
    and "\<And>w d. f (w\<lparr>w_replays := d\<rparr>) = f w"
  shows "lenient (same f)"
  using assms by (simp add: lenient_def same_order) (simp add: same_def)

lemma lenient_kept:
  assumes "\<And>w n. P w \<Longrightarrow> P (w\<lparr>w_tick := w_tick w + n\<rparr>)"
    and "\<And>w. P w \<Longrightarrow> P (w\<lparr>w_draw := Suc (w_draw w)\<rparr>)"
    and "\<And>w d. P w \<Longrightarrow> P (w\<lparr>w_replays := d\<rparr>)"
  shows "lenient (kept P)"
  using assms by (simp add: lenient_def kept_order) (simp add: kept_def)

text \<open>The clock stream is fixed and its position only advances.\<close>

definition later_clock :: "world \<Rightarrow> world \<Rightarrow> bool" where
  "later_clock w v \<longleftrightarrow> w_clock v = w_clock w \<and> w_tick w \<le> w_tick v"

lemma lenient_later: "lenient later_clock"
  by (auto simp: lenient_def later_clock_def reflp_def transp_def)

lemma lenient_clocked: "lenient R \<Longrightarrow> moves clocked m \<Longrightarrow> moves R m"
  by (erule moves_mono) (auto simp: clocked_def lenient_def)

lemma lenient_now [moves_intros]: "lenient R \<Longrightarrow> moves R now_utc"
  by (erule lenient_clocked) (rule clocked_now)

lemma lenient_fresh [moves_intros]: "lenient R \<Longrightarrow> moves R fresh_token"
  by (rule moves_fresh) (simp add: lenient_def)

lemma lenient_remember [moves_intros]: "lenient R \<Longrightarrow> moves R (remember_jti X p)"
  unfolding remember_jti_def
  by (intro moves_intros moves_modify) (auto simp: lenient_def)

lemma lenient_validate [moves_intros]: "lenient R \<Longrightarrow> moves R (validate_proof X proof htu m ath)"
  unfolding validate_proof_def
  by (intro moves_intros lenient_clocked [OF _ examine_clocked])

lemma lenient_guard [moves_intros]: "lenient R \<Longrightarrow> moves R (evaluate_guard X c proof htu m j)"
  unfolding evaluate_guard_def missing_proof_def by (intro moves_intros)

lemma lenient_dpop [moves_intros]: "lenient R \<Longrightarrow> moves R (evaluate_dpop X C c r j)"
  unfolding evaluate_dpop_def by (intro moves_intros)

lemma lenient_authenticate [moves_intros]: "lenient R \<Longrightarrow> moves R (token_authenticate X C c r)"
  unfolding token_authenticate_def
  by (intro moves_intros lenient_clocked [OF _ authenticate_client_clocked])

lemma lenient_active [moves_intros]: "lenient R \<Longrightarrow> moves R (active_client cid)"
  unfolding active_client_def find_client_def by (intro moves_intros)

lemma lenient_scope [moves_intros]: "lenient R \<Longrightarrow> moves R (effective_scope C c s d)"
  unfolding effective_scope_def by (intro moves_intros)

lemma lenient_resources [moves_intros]: "lenient R \<Longrightarrow> moves R (effective_resources X C r b)"
  unfolding effective_resources_def by (intro moves_intros)

lemma lenient_sign_access [moves_intros]: "lenient R \<Longrightarrow> moves R (sign_access_token X C c g q)"
  unfolding sign_access_token_def resolve_audience_def create_access_token_def sign_payload_def
  by (intro moves_intros)

lemma lenient_issue_access [moves_intros]: "lenient R \<Longrightarrow> moves R (issue_access_token X C c g)"
  unfolding issue_access_token_def by (intro moves_intros)

lemma lenient_issue_id [moves_intros]: "lenient R \<Longrightarrow> moves R (issue_id_token X C c g ctx q)"
  unfolding issue_id_token_def create_id_token_def sign_payload_def by (intro moves_intros)

lemma lenient_issue_tokens [moves_intros]: "lenient R \<Longrightarrow> moves R (issue_tokens X C c g ctx)"
  unfolding issue_tokens_def by (intro moves_intros)

lemma lenient_validate_code [moves_intros]:
  "lenient R \<Longrightarrow> moves R (validate_code_exchange X C ac r)"
  unfolding validate_code_exchange_def by (intro moves_intros)

lemma lenient_find_code [moves_intros]: "lenient R \<Longrightarrow> moves R (find_code k)"
  unfolding find_code_def by (intro moves_intros)

lemma lenient_resolve_refresh [moves_intros]: "lenient R \<Longrightarrow> moves R (resolve_refresh_grant X r)"
  unfolding resolve_refresh_grant_def by (intro moves_intros)

lemma lenient_bare_token [moves_intros]: "lenient R \<Longrightarrow> moves R (bare_token X C r c s)"
  unfolding bare_token_def by (intro moves_intros)

lemma lenient_client_credentials [moves_intros]: "lenient R \<Longrightarrow> moves R (client_credentials X C r)"
  unfolding client_credentials_def by (intro moves_intros)

lemma moves_case_json [moves_intros]:
  "moves R a \<Longrightarrow> (\<And>x. moves R (b x)) \<Longrightarrow> (\<And>x. moves R (c x)) \<Longrightarrow> (\<And>x. moves R (d x)) \<Longrightarrow>
   (\<And>x. moves R (e x)) \<Longrightarrow> (\<And>x. moves R (f x)) \<Longrightarrow> (\<And>x. moves R (g x)) \<Longrightarrow>
   moves R (case v of JNull \<Rightarrow> a | JBool x \<Rightarrow> b x | JInt x \<Rightarrow> c x | JFloat x \<Rightarrow> d x
     | JStr x \<Rightarrow> e x | JList x \<Rightarrow> f x | JObj x \<Rightarrow> g x)"
  by (cases v) auto

lemma lenient_jwt_bearer [moves_intros]: "lenient R \<Longrightarrow> moves R (jwt_bearer X C r)"
  unfolding jwt_bearer_def jwt_bearer_subject_def by (intro moves_intros)

subsection \<open>Relations every request of the endpoint respects\<close>

text \<open>What holds of every grant holds of every request and of every sequence of requests.\<close>

inductive token_later :: "services \<Rightarrow> token_config \<Rightarrow> world \<Rightarrow> world \<Rightarrow> bool" for X C where
  here: "token_later X C w w"
| request: "token_later X C w v \<Longrightarrow> execute_token X C r v = (res, u) \<Longrightarrow> token_later X C w u"

inductive_cases token_laterE: "token_later X C w v"

locale endpoint_moves =
  fixes X :: services and C :: token_config and R :: "world \<Rightarrow> world \<Rightarrow> bool"
  assumes grant_order: "transp R" "reflp R"
    and grant_code: "moves R (exchange_code X C r)"
    and grant_refresh: "moves R (refresh_tokens X C r)"
    and grant_client: "moves R (client_credentials X C r)"
    and grant_assertion: "moves R (jwt_bearer X C r)"
    and grant_device: "moves R (device_code X C r)"
    and grant_ciba: "moves R (ciba_token X C r)"
    and grant_pre_authorized: "moves R (pre_authorized_code X C r)"
begin

lemma execute_token_moves: "moves R (execute_token X C r)"
  unfolding execute_token_def
  by (intro moves_intros grant_order grant_code grant_refresh grant_client grant_assertion
      grant_device grant_ciba grant_pre_authorized)

lemma token_later_moves: "token_later X C w v \<Longrightarrow> R w v"
proof (induction rule: token_later.induct)
  case (here w)
  show ?case using grant_order(2) by (simp add: reflp_def)
next
  case (request w v r res u)
  have "R v u" using execute_token_moves request(2) by (rule movesD)
  with grant_order(1) request(3) show ?case by (rule transpD)
qed

end

text \<open>A lenient relation respected by the endpoint's own writes is respected by every grant.\<close>

locale endpoint_relation =
  fixes X :: services and C :: token_config and R :: "world \<Rightarrow> world \<Rightarrow> bool"
  assumes rel_lenient: "lenient R"
    and rel_issue_refresh: "moves R (issue_refresh_token X C c g)"
    and rel_consume_refresh: "R w (w\<lparr>w_refresh := refresh_consume h (w_refresh w)\<rparr>)"
    and rel_consume_code: "R w (w\<lparr>w_codes := codes_consume k (w_codes w)\<rparr>)"
    and rel_save_code: "ac_is_consumed ac \<Longrightarrow> R w (w\<lparr>w_codes := codes_save ac (w_codes w)\<rparr>)"
    and rel_revoke: "R w (w\<lparr>w_revoked := revoked_save e (w_revoked w)\<rparr>)"
    and rel_device_save: "R w (w\<lparr>w_devices := devices_save d (w_devices w)\<rparr>)"
    and rel_device_delete: "R w (w\<lparr>w_devices := devices_delete h (w_devices w)\<rparr>)"
    and rel_ciba_save: "R w (w\<lparr>w_ciba := ciba_save b (w_ciba w)\<rparr>)"
    and rel_ciba_delete: "R w (w\<lparr>w_ciba := ciba_delete h (w_ciba w)\<rparr>)"
begin

lemmas rel_intros = rel_lenient rel_issue_refresh moves_modify rel_consume_refresh
  rel_consume_code rel_revoke rel_device_save rel_device_delete rel_ciba_save rel_ciba_delete

lemma offline_moves: "moves R (offline_refresh_token X C c g)"
  unfolding offline_refresh_token_def by (intro moves_intros rel_intros)

lemma revoke_issued_moves: "moves R (revoke_issued_tokens C ac)"
  unfolding revoke_issued_tokens_def by (intro moves_intros rel_intros)

lemma redeem_code_moves: "moves R (redeem_code X C r ac c g b)"
  unfolding redeem_code_def consume_code_def record_issued_tokens_def
  by (intro moves_intros rel_intros offline_moves rel_save_code) simp

lemma exchange_code_moves: "moves R (exchange_code X C r)"
  unfolding exchange_code_def
  by (intro moves_intros rel_intros revoke_issued_moves redeem_code_moves)

lemma refresh_tokens_moves: "moves R (refresh_tokens X C r)"
  unfolding refresh_tokens_def rotate_refresh_token_def by (intro moves_intros rel_intros)

lemma redeem_grant_moves: "moves R (redeem_grant X C c g ctx b)"
  unfolding redeem_grant_def by (intro moves_intros rel_intros offline_moves)

lemma device_code_moves: "moves R (device_code X C r)"
  unfolding device_code_def device_approved_flow_def device_pending_response_def
    load_device_session_def
  by (intro moves_intros rel_intros redeem_grant_moves)

lemma ciba_approved_moves: "moves R (ciba_approved_flow X C c st now b resources h)"
  unfolding ciba_approved_flow_def by (intro moves_intros rel_intros redeem_grant_moves)

lemma ciba_token_moves: "moves R (ciba_token X C r)"
  unfolding ciba_token_def ciba_pending_response_def load_ciba_session_def
  by (intro moves_intros rel_intros ciba_approved_moves)

lemma ciba_push_moves: "moves R (issue_ciba_push_tokens X C st)"
  unfolding issue_ciba_push_tokens_def find_client_def
  by (intro moves_intros rel_intros ciba_approved_moves)

lemma pre_authorized_moves: "moves R (pre_authorized_code X C r)"
  unfolding pre_authorized_code_def resolve_pre_authorized_code_def consume_code_def find_client_def
  by (intro moves_intros rel_intros revoke_issued_moves)

end

sublocale endpoint_relation \<subseteq> endpoint_moves
  by unfold_locales
    (intro rel_lenient lenient_order lenient_client_credentials lenient_jwt_bearer
      exchange_code_moves refresh_tokens_moves device_code_moves ciba_token_moves
      pre_authorized_moves)+

subsection \<open>Interpretations\<close>

text \<open>The registry, the consents and the user store are never written by the endpoint.\<close>

definition registries :: "world \<Rightarrow> (str \<times> client) list \<times> ((str \<times> str) \<times> consent) list
    \<times> (str \<times> api_resource) list \<times> (str \<times> identity_resource) list \<times> (nat \<Rightarrow> instant) \<times> (nat \<Rightarrow> str)" where
  "registries w = (w_clients w, w_consents w, w_api w, w_identity w, w_clock w, w_rand w)"

lemma issue_refresh_same:
  assumes "lenient (same f)" and "\<And>w d. f (w\<lparr>w_refresh := d\<rparr>) = f w"
  shows "moves (same f) (issue_refresh_token X C c g)"
  unfolding issue_refresh_token_def
  using assms by (intro moves_intros moves_modify) (simp_all add: same_def)

interpretation readonly: endpoint_relation X C "same registries" for X C
proof -
  have l: "lenient (same registries)" by (rule lenient_same) (simp_all add: registries_def)
  show "endpoint_relation X C (same registries)"
    by unfold_locales (simp_all add: l issue_refresh_same registries_def same_def)
qed

text \<open>A spent code stays spent.\<close>

interpretation spent_code: endpoint_relation X C "kept (\<lambda>w. codes.spent (w_codes w) k)" for X C k
proof -
  let ?R = "kept (\<lambda>w. codes.spent (w_codes w) k)"
  have l: "lenient ?R" by (rule lenient_kept) simp_all
  have "moves ?R (issue_refresh_token X C c g)" for c g
    by (rule moves_mono [OF issue_refresh_same [of w_codes]])
      (auto simp: same_def kept_def intro: lenient_same)
  then show "endpoint_relation X C ?R"
    by unfold_locales
      (auto simp: l kept_def codes.spent_consume intro: codes.spent_save)
qed

text \<open>
  A spent refresh token stays spent as long as no random value still to be drawn has its hash.
\<close>

definition undrawn :: "services \<Rightarrow> str \<Rightarrow> world \<Rightarrow> bool" where
  "undrawn X h w \<longleftrightarrow> (\<forall>n \<ge> w_draw w. token_hash X (w_rand w n) \<noteq> h)"

definition spent_for_good :: "services \<Rightarrow> str \<Rightarrow> world \<Rightarrow> bool" where
  "spent_for_good X h w \<longleftrightarrow> refresh.spent (w_refresh w) h \<and> undrawn X h w"

lemma issue_refresh_spent: "moves (kept (spent_for_good X h)) (issue_refresh_token X C c g)"
  by (auto simp: moves_def kept_def issue_refresh_token_def fresh_token_def andthen_def modify_def
      ok_def spent_for_good_def undrawn_def intro!: refresh.spent_save)

interpretation spent_refresh: endpoint_relation X C "kept (spent_for_good X h)" for X C h
proof -
  have l: "lenient (kept (spent_for_good X h))"
    by (rule lenient_kept) (auto simp: spent_for_good_def undrawn_def)
  show "endpoint_relation X C (kept (spent_for_good X h))"
    by unfold_locales
      (auto simp: l issue_refresh_spent kept_def spent_for_good_def undrawn_def refresh.spent_consume)
qed

text \<open>A stored refresh token stays stored, an entry of the denylist stays on it.\<close>

interpretation stored_refresh: endpoint_relation X C "kept (\<lambda>w. refresh_find (w_refresh w) h \<noteq> None)"
  for X C h
proof -
  let ?R = "kept (\<lambda>w. refresh_find (w_refresh w) h \<noteq> None)"
  have l: "lenient ?R" by (rule lenient_kept) simp_all
  have "moves ?R (issue_refresh_token X C c g)" for c g
    by (auto simp: moves_def kept_def issue_refresh_token_def fresh_token_def andthen_def modify_def
        ok_def refresh.find_save)
  with l show "endpoint_relation X C ?R"
    by unfold_locales (auto simp: kept_def refresh.find_consume)
qed

interpretation denied: endpoint_relation X C "kept (\<lambda>w. is_revoked (w_revoked w) h)" for X C h
proof -
  let ?R = "kept (\<lambda>w. is_revoked (w_revoked w) h)"
  have l: "lenient ?R" by (rule lenient_kept) simp_all
  have "moves ?R (issue_refresh_token X C c g)" for c g
    by (rule moves_mono [OF issue_refresh_same [of w_revoked]])
      (auto simp: same_def kept_def intro: lenient_same)
  then show "endpoint_relation X C ?R"
    by unfold_locales (auto simp: l kept_def revoked.save_member)
qed

end
