(* ===== verification/SampleServer.thy ===== *)
theory SampleServer
  imports TokenGrants
begin

text \<open>A registered client, a configured token endpoint and a server holding one code, one
  refresh token and one device session, on which the properties of the endpoint are evaluated.\<close>

definition sample_config :: token_config where
  "sample_config = \<lparr>tk_issuer = ''https://op'', tk_signing_algorithm = RS256,
     tk_access_token_ttl = 3600, tk_refresh_token_ttl = 7200, tk_token_endpoint = [],
     tk_secret_cipher = False, tk_id_token_encrypter = False, tk_subject_seed = [],
     tk_device_codes = True, tk_backchannel = True, tk_registry = None, tk_assertions = False,
     tk_claims_provider = False, tk_revoked_tokens = True, tk_dpop = True, tk_openid20 = None,
     tk_identity_assurance = None\<rparr>"

definition sample_client :: client where
  "sample_client = (new_client ''rp'' 0)\<lparr>cl_redirect_uris := {''https://rp/cb''},
     cl_scopes := {''openid'', ''offline_access''}\<rparr>"

definition sample_code :: authorization_code where
  "sample_code = \<lparr>ac_code = ''c'', ac_client_id = ''rp'', ac_redirect_uri = ''https://rp/cb'',
     ac_subject = ''u'', ac_session_id = [], ac_subject_material = [],
     ac_scopes = {''openid'', ''offline_access''}, ac_code_challenge = ''b64.v'',
     ac_code_challenge_method = ''S256'', ac_nonce = ''n'', ac_auth_time = 0, ac_acr = [],
     ac_claims = [], ac_openid2_realm = [], ac_expires_at = 1000, ac_is_consumed = False,
     ac_access_token_hash = [], ac_access_token_expires_at = None, ac_refresh_token_hash = [],
     ac_dpop_jkt = [], ac_resource_uris = [], ac_pre_authorized = False, ac_tx_code_hash = [],
     ac_authorization_details = []\<rparr>"

definition sample_request :: token_request where
  "sample_request = \<lparr>tr_grant_type = ''authorization_code'', tr_code = ''c'',
     tr_redirect_uri = ''https://rp/cb'', tr_client_id = ''rp'', tr_client_secret = [],
     tr_code_verifier = ''v'', tr_refresh_token = [], tr_device_code = [], tr_auth_req_id = [],
     tr_pre_authorized_code = [], tr_tx_code = [], tr_scope = [], tr_resource = [],
     tr_client_assertion_type = [], tr_client_assertion = [], tr_assertion = [],
     tr_tls_certificate = None, tr_dpop_proof = []\<rparr>"

definition sample_refresh :: refresh_token where
  "sample_refresh = \<lparr>rt_token_hash = ''hex.old'', rt_client_id = ''rp'', rt_subject = ''u'',
     rt_subject_material = [], rt_scopes = {''openid'', ''email''}, rt_expires_at = 1000,
     rt_is_consumed = False, rt_dpop_jkt = [], rt_resource_uris = [], rt_tls_cert_hash = []\<rparr>"

definition sample_device :: device_authorization where
  "sample_device = \<lparr>da_device_code_hash = ''hex.dc'', da_user_code = ''ABCDEFGH'',
     da_client_id = ''rp'', da_scopes = {''openid''}, da_subject = ''u'', da_status = Approved,
     da_expires_at = 1000, da_interval = 5, da_last_polled_at = None\<rparr>"

definition sample_ciba :: backchannel_request where
  "sample_ciba = \<lparr>bc_auth_req_id_hash = ''hex.ar'', bc_client_id = ''rp'', bc_scopes = {''openid''},
     bc_subject = ''u'', bc_status = Pending, bc_delivery_mode = ''poll'',
     bc_client_notification_token = [], bc_client_notification_endpoint = [],
     bc_binding_message = [], bc_acr = [], bc_user_code = [], bc_interval = 5,
     bc_last_polled_at = None, bc_expires_at = 1000, bc_resource_uris = []\<rparr>"

definition sample_server :: world where
  "sample_server = sample_world\<lparr>w_clients := [(''rp'', sample_client)],
     w_codes := [(''c'', sample_code)], w_refresh := [(''hex.old'', sample_refresh)],
     w_devices := [(''hex.dc'', sample_device)], w_ciba := [(''hex.ar'', sample_ciba)]\<rparr>"

lemma sample_exchange:
  "map_sum (\<lambda>_. ()) ts_refresh_token
     (fst (exchange_code sample_services sample_config sample_request sample_server)) = Inr ''r0''"
  by code_simp

lemma sample_exchange_run:
  obtains ts v where "exchange_code sample_services sample_config sample_request sample_server = (Inr ts, v)"
    "ts_refresh_token ts = ''r0''"
  using sample_exchange
  by (cases "exchange_code sample_services sample_config sample_request sample_server";
      cases "fst (exchange_code sample_services sample_config sample_request sample_server)") auto

lemma sample_server_keyed: "codes.well_keyed (w_codes sample_server)"
  by (auto simp: codes.well_keyed_def sample_server_def sample_code_def codes_find_def
      split: if_splits)

lemma sample_hash_nonempty: "sv_sha256_hex sample_services s \<noteq> []"
  by (simp add: sample_services_def)

definition sample_refresh_request :: token_request where
  "sample_refresh_request = sample_request\<lparr>tr_grant_type := ''refresh_token'',
     tr_refresh_token := ''old''\<rparr>"

lemma sample_refresh_ok:
  "map_sum (\<lambda>_. ()) ts_refresh_token
     (fst (refresh_tokens sample_services sample_config sample_refresh_request sample_server)) = Inr ''r0''"
  by code_simp

lemma sample_refresh_run:
  obtains ts v where
    "refresh_tokens sample_services sample_config sample_refresh_request sample_server = (Inr ts, v)"
    "ts_refresh_token ts = ''r0''"
  using sample_refresh_ok
  by (cases "refresh_tokens sample_services sample_config sample_refresh_request sample_server";
      cases "fst (refresh_tokens sample_services sample_config sample_refresh_request sample_server)") auto

lemma sample_refresh_found:
  "clients_find (w_clients sample_server) (tr_client_id sample_refresh_request) = Some sample_client"
  "refresh_find (w_refresh sample_server)
     (token_hash sample_services (tr_refresh_token sample_refresh_request)) = Some sample_refresh"
  by (simp_all add: clients_find_def refresh_find_def sample_server_def sample_refresh_request_def
      sample_request_def token_hash_def sample_services_def)

end
