(* ===== verification/CodeGrant.thy ===== *)
theory CodeGrant
  imports TokenFrame SampleServer
begin

text \<open>
  Properties of the authorization code grant: what a successful exchange has checked, single
  use, revocation of the issued tokens when a code is replayed, binding of the access token to
  the proved key and the presented certificate.
\<close>

subsection \<open>Lemmas\<close>

lemma active_client_ok:
  "active_client cid w = (Inr c, v) \<longleftrightarrow> clients_find (w_clients w) cid = Some c \<and> cl_is_active c \<and> v = w"
  by (auto simp: active_client_def find_client_def prog_simps split: option.splits)

lemma token_authenticate_ok:
  "token_authenticate X C c r w = (Inr u, v) \<Longrightarrow>
     proves_identity (effective_auth_method c) X c (presented C c r) (current w)
     \<and> (cl_tls_bound_access_tokens c \<longrightarrow> presented_der r \<noteq> None)"
  by (auto simp: token_authenticate_def prog_simps dest: authenticate_client_ok
      split: option.splits if_splits)

text \<open>What the checks before the code is consumed have established.\<close>

definition code_checked :: "services \<Rightarrow> token_config \<Rightarrow> authorization_code \<Rightarrow> token_request
    \<Rightarrow> client \<Rightarrow> world \<Rightarrow> bool" where
  "code_checked X C ac r c w \<longleftrightarrow>
     clients_find (w_clients w) (tr_client_id r) = Some c \<and> cl_is_active c
     \<and> ac_redirect_uri ac = tr_redirect_uri r \<and> ac_client_id ac = cl_client_id c
     \<and> (\<exists>t. proves_identity (effective_auth_method c) X c (presented C c r) t)
     \<and> (cl_client_type c = Public \<longrightarrow> ac_code_challenge ac \<noteq> [])
     \<and> (ac_code_challenge ac \<noteq> [] \<longrightarrow> verify_pkce X ac (tr_code_verifier r) = Inr True)"

lemma validate_code_run:
  "validate_code_exchange X C ac r w = (Inr c, v) \<Longrightarrow>
     clients_find (w_clients w) (tr_client_id r) = Some c \<and> cl_is_active c
     \<and> ac_redirect_uri ac = tr_redirect_uri r \<and> token_authenticate X C c r w = (Inr (), v)
     \<and> ac_client_id ac = cl_client_id c \<and> \<not> (cl_client_type c = Public \<and> ac_code_challenge ac = [])
     \<and> (ac_code_challenge ac \<noteq> [] \<longrightarrow> verify_pkce X ac (tr_code_verifier r) = Inr True)"
  unfolding validate_code_exchange_def andthen_Inr active_client_ok ensure_iff
  by (elim exE conjE) (simp add: prog_simps split: if_splits)

lemma validate_code_ok:
  assumes "validate_code_exchange X C ac r w = (Inr c, v)"
  shows "code_checked X C ac r c w"
proof -
  note run = validate_code_run [OF assms]
  then have "proves_identity (effective_auth_method c) X c (presented C c r) (current w)"
    using token_authenticate_ok by blast
  with run show ?thesis unfolding code_checked_def by blast
qed

lemma exchange_code_ok:
  assumes "exchange_code X C r w = (Inr ts, v)"
  obtains ac c b resources w1 w2 w3 w4 where
    "codes_find (w_codes w) (tr_code r) = Some ac" "\<not> ac_is_consumed ac" "current w \<le> ac_expires_at ac"
    "w1 = w\<lparr>w_tick := Suc (w_tick w)\<rparr>"
    "validate_code_exchange X C ac r w1 = (Inr c, w2)"
    "evaluate_dpop X C c r (ac_dpop_jkt ac) w2 = (Inr b, w3)"
    "effective_resources X C r (ac_resource_uris ac) w3 = (Inr resources, w4)"
    "redeem_code X C r ac c (code_grant X c r ac (current w) b resources) b w4 = (Inr ts, v)"
proof -
  from assms obtain ac where ac: "codes_find (w_codes w) (tr_code r) = Some ac" "\<not> ac_is_consumed ac"
    by (auto simp: exchange_code_def find_code_def prog_simps split: option.splits if_splits)
  with assms obtain c w2 b w3 resources w4 where "\<not> ac_expires_at ac < current w"
    "validate_code_exchange X C ac r (w\<lparr>w_tick := Suc (w_tick w)\<rparr>) = (Inr c, w2)"
    "evaluate_dpop X C c r (ac_dpop_jkt ac) w2 = (Inr b, w3)"
    "effective_resources X C r (ac_resource_uris ac) w3 = (Inr resources, w4)"
    "redeem_code X C r ac c (code_grant X c r ac (current w) b resources) b w4 = (Inr ts, v)"
    by (auto simp: exchange_code_def find_code_def prog_simps run_simps split: if_splits)
  with ac show ?thesis by (intro that) (simp_all add: not_less)
qed

lemma redeem_code_ok:
  assumes "redeem_code X C r ac c g b w = (Inr ts, v)"
  obtains refresh id_token access ttl w1 w2 where
    "offline_refresh_token X C c g (w\<lparr>w_codes := codes_consume (ac_code ac) (w_codes w)\<rparr>) = (Inr refresh, w1)"
    "issue_tokens X C c g (code_context ac) w1 = (Inr (id_token, access, ttl), w2)"
    "record_issued_tokens X ac access ttl refresh (gr_now g) w2 = (Inr (), v)"
    "ts = token_success id_token access ttl (gr_scopes g) refresh b (gr_details g)"
  using assms
  by (auto simp: redeem_code_def consume_code_def prog_simps intro: that)

lemma same_codes:
  "lenient (same w_codes)"
  "moves (same w_codes) (validate_code_exchange X C ac r)"
  "moves (same w_codes) (evaluate_dpop X C c r j)"
  "moves (same w_codes) (effective_resources X C r rs)"
  "moves (same w_codes) (offline_refresh_token X C c g)"
  "moves (same w_codes) (issue_tokens X C c g ctx)"
  "moves (same w_codes) now_utc"
proof -
  show l: "lenient (same w_codes)" by (rule lenient_same) simp_all
  show "moves (same w_codes) (offline_refresh_token X C c g)"
    unfolding offline_refresh_token_def
    by (intro moves_intros l issue_refresh_same) simp
qed (intro moves_intros lenient_same; simp)+

lemma same_codes_run:
  "validate_code_exchange X C ac r w = (a, v) \<Longrightarrow> w_codes v = w_codes w"
  "evaluate_dpop X C c r j w = (b, v) \<Longrightarrow> w_codes v = w_codes w"
  "effective_resources X C r rs w = (d, v) \<Longrightarrow> w_codes v = w_codes w"
  by (auto dest: same_codes(2-4) [THEN movesD] simp: same_def)

lemma record_run:
  "record_issued_tokens X ac access ttl refresh now w = (res, v) \<Longrightarrow>
     w_codes v = codes_save (ac\<lparr>ac_is_consumed := True, ac_access_token_hash := token_hash X access,
        ac_access_token_expires_at := Some (now + seconds ttl),
        ac_refresh_token_hash := (if refresh \<noteq> [] then token_hash X refresh else [])\<rparr>) (w_codes w)"
  by (auto simp: record_issued_tokens_def prog_simps)

text \<open>The entry a successful exchange leaves for its code.\<close>

lemma redeem_code_entry:
  assumes "redeem_code X C r ac c g b w = (Inr ts, v)"
  shows "\<exists>e. codes_find (w_codes v) (ac_code ac) = Some e \<and> ac_is_consumed e
    \<and> ac_access_token_hash e = token_hash X (ts_access_token ts)
    \<and> ac_refresh_token_hash e =
        (if ts_refresh_token ts \<noteq> [] then token_hash X (ts_refresh_token ts) else [])"
proof -
  from assms obtain refresh id_token access ttl w2 where
    rec: "record_issued_tokens X ac access ttl refresh (gr_now g) w2 = (Inr (), v)"
    and ts: "ts = token_success id_token access ttl (gr_scopes g) refresh b (gr_details g)"
    by (rule redeem_code_ok)
  from record_run [OF rec] show ?thesis
    by (simp add: codes.find_save ts token_success_def)
qed

lemma exchange_code_before:
  assumes "validate_code_exchange X C ac r (w\<lparr>w_tick := n\<rparr>) = (Inr c, w2)"
    and "evaluate_dpop X C c r j w2 = (Inr b, w3)"
    and "effective_resources X C r rs w3 = (Inr resources, w4)"
  shows "w_codes w4 = w_codes w"
  using movesD [OF same_codes(2) assms(1)] movesD [OF same_codes(3) assms(2)]
    movesD [OF same_codes(4) assms(3)]
  by (simp add: same_def)

lemma exchange_code_entry:
  assumes "exchange_code X C r w = (Inr ts, v)" and "codes.well_keyed (w_codes w)"
  shows "\<exists>e. codes_find (w_codes v) (tr_code r) = Some e \<and> ac_is_consumed e
    \<and> ac_access_token_hash e = token_hash X (ts_access_token ts)
    \<and> ac_refresh_token_hash e =
        (if ts_refresh_token ts \<noteq> [] then token_hash X (ts_refresh_token ts) else [])"
proof -
  from assms(1) obtain ac c b resources w4 where ac: "codes_find (w_codes w) (tr_code r) = Some ac"
    and redeem: "redeem_code X C r ac c (code_grant X c r ac (current w) b resources) b w4 = (Inr ts, v)"
    by (rule exchange_code_ok)
  from ac assms(2) have "ac_code ac = tr_code r" by (simp add: codes.well_keyedD)
  with redeem_code_entry [OF redeem] show ?thesis by simp
qed

text \<open>
  An exchange touches no other code, and none that is spent; neither does a pre-authorized
  redemption.
\<close>

definition entry_kept :: "str \<Rightarrow> world \<Rightarrow> world \<Rightarrow> bool" where
  "entry_kept k w v \<longleftrightarrow> codes.well_keyed (w_codes w) \<and> codes.spent (w_codes w) k \<longrightarrow>
     codes.well_keyed (w_codes v) \<and> codes_find (w_codes v) k = codes_find (w_codes w) k"

lemma entry_kept_order: "transp (entry_kept k)" "reflp (entry_kept k)"
  by (auto simp: entry_kept_def transp_def reflp_def codes.spent_def)

lemma entry_kept_lenient: "lenient (entry_kept k)"
  using entry_kept_order by (auto simp: lenient_def entry_kept_def)

lemma same_codes_entry: "moves (same w_codes) m \<Longrightarrow> moves (entry_kept k) m"
  by (erule moves_mono) (auto simp: same_def entry_kept_def)

lemma consume_other_entry: "moves (entry_kept k) (consume_code j)"
  unfolding consume_code_def
  by (rule moves_modify)
    (auto simp: entry_kept_def codes.find_consume codes.well_keyed_consume codes.spent_def)

lemma redeem_other_entry:
  assumes "ac_code ac \<noteq> k"
  shows "moves (entry_kept k) (redeem_code X C r ac c g b)"
proof -
  have "moves (entry_kept k) (record_issued_tokens X ac a ttl rt now)" for a ttl rt now
    unfolding record_issued_tokens_def
    using assms by (intro moves_modify) (auto simp: entry_kept_def codes.find_save codes.well_keyed_save)
  with assms show ?thesis
    unfolding redeem_code_def
    by (intro moves_intros entry_kept_order same_codes_entry [OF same_codes(5)]
        same_codes_entry [OF same_codes(6)] consume_other_entry)
qed

lemma revoke_same_codes: "moves (same w_codes) (revoke_issued_tokens C ac)"
  unfolding revoke_issued_tokens_def
  by (intro moves_intros same_codes moves_modify) (simp_all add: same_def)

lemma exchange_code_other_entry: "moves (entry_kept k) (exchange_code X C r)"
proof (unfold moves_def, rule allI)
  fix w
  show "entry_kept k w (snd (exchange_code X C r w))"
  proof (cases "codes_find (w_codes w) (tr_code r)")
    case None
    then show ?thesis
      by (simp add: exchange_code_def find_code_def peek_def andthen_def refuse_def raise_def entry_kept_def)
  next
    case (Some ac)
    note same = same_codes(2-7) [THEN same_codes_entry] revoke_same_codes [THEN same_codes_entry]
    show ?thesis
    proof (cases "ac_is_consumed ac \<or> ac_code ac \<noteq> k")
      case True
      then have "moves (entry_kept k)
          (if ac_is_consumed ac then andthen (revoke_issued_tokens C ac)
              (\<lambda>_. refuse ''invalid_grant'' ''Code d'autorisation invalide ou deja consomme'')
           else andthen now_utc (\<lambda>now. andthen (ensure (\<not> ac_expires_at ac < now)
             (Refused ''invalid_grant'' ''Code d'autorisation expire'')) (\<lambda>_.
             andthen (validate_code_exchange X C ac r) (\<lambda>c.
             andthen (evaluate_dpop X C c r (ac_dpop_jkt ac)) (\<lambda>b.
             andthen (effective_resources X C r (ac_resource_uris ac)) (\<lambda>resources.
             redeem_code X C r ac c (code_grant X c r ac now b resources) b))))))"
        by (cases "ac_is_consumed ac")
          (auto intro!: moves_intros entry_kept_order same redeem_other_entry)
      with Some show ?thesis
        by (simp add: moves_def exchange_code_def find_code_def peek_def andthen_def)
    next
      case False
      then have "\<not> (codes.well_keyed (w_codes w) \<and> codes.spent (w_codes w) k)"
        using Some by (auto simp: codes.spent_def dest: codes.well_keyedD)
      then show ?thesis by (auto simp: entry_kept_def)
    qed
  qed
qed

interpretation code_entry: endpoint_moves X C "entry_kept k" for X C k
proof -
  note l = same_codes(1)
  have issue: "moves (same w_codes) (issue_refresh_token X C c g)" for c g
    by (rule issue_refresh_same [OF l]) simp
  have redeem: "moves (same w_codes) (redeem_grant X C c g ctx b)" for c g ctx b
    unfolding redeem_grant_def by (intro moves_intros l same_codes)
  have same: "moves (same w_codes) (refresh_tokens X C r)"
    "moves (same w_codes) (client_credentials X C r)" "moves (same w_codes) (jwt_bearer X C r)"
    "moves (same w_codes) (device_code X C r)" "moves (same w_codes) (ciba_token X C r)" for r
    unfolding refresh_tokens_def rotate_refresh_token_def
      device_code_def device_approved_flow_def device_pending_response_def load_device_session_def
      ciba_token_def ciba_approved_flow_def ciba_pending_response_def load_ciba_session_def
    by (intro moves_intros l issue redeem moves_modify; simp add: same_def)+
  have pre: "moves (entry_kept k) (pre_authorized_code X C r)" for r
    unfolding pre_authorized_code_def resolve_pre_authorized_code_def find_client_def
    by (intro moves_intros entry_kept_lenient consume_other_entry
        revoke_same_codes [THEN same_codes_entry])
  show "endpoint_moves X C (entry_kept k)"
    by unfold_locales
      (intro entry_kept_order exchange_code_other_entry pre same [THEN same_codes_entry])+
qed

lemma exchange_keeps_keys:
  assumes "exchange_code X C r w = (Inr ts, v)" and "codes.well_keyed (w_codes w)"
  shows "codes.well_keyed (w_codes v)"
proof -
  from assms(1) obtain ac c b resources w2 w3 w4 where
    checked: "validate_code_exchange X C ac r (w\<lparr>w_tick := Suc (w_tick w)\<rparr>) = (Inr c, w2)"
      "evaluate_dpop X C c r (ac_dpop_jkt ac) w2 = (Inr b, w3)"
      "effective_resources X C r (ac_resource_uris ac) w3 = (Inr resources, w4)"
    and redeem: "redeem_code X C r ac c (code_grant X c r ac (current w) b resources) b w4 = (Inr ts, v)"
    by (rule exchange_code_ok) blast
  from redeem obtain refresh id_token access ttl w5 w6 where
    run: "offline_refresh_token X C c (code_grant X c r ac (current w) b resources)
        (w4\<lparr>w_codes := codes_consume (ac_code ac) (w_codes w4)\<rparr>) = (Inr refresh, w5)"
      "issue_tokens X C c (code_grant X c r ac (current w) b resources) (code_context ac) w5
        = (Inr (id_token, access, ttl), w6)"
      "record_issued_tokens X ac access ttl refresh
        (gr_now (code_grant X c r ac (current w) b resources)) w6 = (Inr (), v)"
    by (rule redeem_code_ok)
  have "w_codes w6 = codes_consume (ac_code ac) (w_codes w)"
    using movesD [OF same_codes(5) run(1)] movesD [OF same_codes(6) run(2)]
      exchange_code_before [OF checked]
    by (simp add: same_def)
  with record_run [OF run(3)] assms(2) show ?thesis
    by (simp add: codes.well_keyed_save codes.well_keyed_consume)
qed

lemma replay_run:
  assumes "codes_find (w_codes w) (tr_code r) = Some e" and "ac_is_consumed e"
  shows "exchange_code X C r w =
    (Inl (Refused ''invalid_grant'' ''Code d'autorisation invalide ou deja consomme''),
     snd (revoke_issued_tokens C e w))"
proof -
  have "fst (revoke_issued_tokens C e w) = Inr ()"
    by (simp add: revoke_issued_tokens_def andthen_def now_utc_def modify_def ok_def)
  then obtain u where "revoke_issued_tokens C e w = (Inr (), u)" by (metis prod.collapse)
  with assms show ?thesis by (simp add: exchange_code_def find_code_def run_simps)
qed

lemma revoke_issued_run:
  assumes "ac_access_token_hash e \<noteq> []" and "tk_revoked_tokens C"
  shows "is_revoked (w_revoked (snd (revoke_issued_tokens C e w))) (ac_access_token_hash e)"
    and "ac_refresh_token_hash e \<noteq> [] \<Longrightarrow> refresh_find (w_refresh w) (ac_refresh_token_hash e) \<noteq> None \<Longrightarrow>
      refresh.spent (w_refresh (snd (revoke_issued_tokens C e w))) (ac_refresh_token_hash e)"
  using assms
  by (auto simp: revoke_issued_tokens_def andthen_def now_utc_def modify_def ok_def
      revoked.save_member refresh.spent_consume)

lemma exchange_code_steps:
  assumes "exchange_code X C r w = (Inr ts, v)"
  obtains ac c b resources refresh id_token access ttl w1 w2 w3 w4 w5 where
    "codes_find (w_codes w) (tr_code r) = Some ac"
    "validate_code_exchange X C ac r (w\<lparr>w_tick := Suc (w_tick w)\<rparr>) = (Inr c, w1)"
    "evaluate_dpop X C c r (ac_dpop_jkt ac) w1 = (Inr b, w2)"
    "offline_refresh_token X C c (code_grant X c r ac (current w) b resources) w3 = (Inr refresh, w4)"
    "issue_tokens X C c (code_grant X c r ac (current w) b resources) (code_context ac) w4
      = (Inr (id_token, access, ttl), w5)"
    "w_refresh v = w_refresh w5" "w_clients v = w_clients w5"
    "ts = token_success id_token access ttl (ac_scopes ac) refresh b (granted_details X ac)"
proof -
  from assms obtain ac c b resources w1 w2 w4 where pre:
    "codes_find (w_codes w) (tr_code r) = Some ac"
    "validate_code_exchange X C ac r (w\<lparr>w_tick := Suc (w_tick w)\<rparr>) = (Inr c, w1)"
    "evaluate_dpop X C c r (ac_dpop_jkt ac) w1 = (Inr b, w2)"
    and redeem: "redeem_code X C r ac c (code_grant X c r ac (current w) b resources) b w4 = (Inr ts, v)"
    by (rule exchange_code_ok) blast
  from redeem obtain refresh id_token access ttl w5 w6 where
    run: "offline_refresh_token X C c (code_grant X c r ac (current w) b resources)
        (w4\<lparr>w_codes := codes_consume (ac_code ac) (w_codes w4)\<rparr>) = (Inr refresh, w5)"
      "issue_tokens X C c (code_grant X c r ac (current w) b resources) (code_context ac) w5
        = (Inr (id_token, access, ttl), w6)"
    and rec: "record_issued_tokens X ac access ttl refresh
        (gr_now (code_grant X c r ac (current w) b resources)) w6 = (Inr (), v)"
    and ts: "ts = token_success id_token access ttl
        (gr_scopes (code_grant X c r ac (current w) b resources)) refresh b
        (gr_details (code_grant X c r ac (current w) b resources))"
    by (rule redeem_code_ok)
  have "w_refresh v = w_refresh w6" "w_clients v = w_clients w6"
    using rec by (auto simp: record_issued_tokens_def prog_simps)
  with pre run ts show ?thesis by (intro that) (auto simp: code_grant_def)
qed

lemma issue_refresh_stores:
  "issue_refresh_token X C c g w = (Inr t, v) \<Longrightarrow>
     \<exists>rt. refresh_find (w_refresh v) (token_hash X t) = Some rt \<and> rt_client_id rt = cl_client_id c
       \<and> rt_subject rt = gr_subject g \<and> rt_scopes rt = gr_scopes g
       \<and> rt_resource_uris rt = gr_resources g \<and> rt_tls_cert_hash rt = gr_tls_hash g
       \<and> rt_dpop_jkt rt = (if cl_client_type c = Confidential then [] else gr_dpop_jkt g)
       \<and> \<not> rt_is_consumed rt"
  by (auto simp: issue_refresh_token_def prog_simps run_simps refresh.find_save)

lemma exchange_stores_refresh:
  assumes "exchange_code X C r w = (Inr ts, v)" and "ts_refresh_token ts \<noteq> []"
  shows "refresh_find (w_refresh v) (token_hash X (ts_refresh_token ts)) \<noteq> None"
  using assms(1)
proof (rule exchange_code_steps)
  fix ac c b resources refresh id_token access ttl w3 w4 w5
  let ?g = "code_grant X c r ac (current w) b resources"
  assume off: "offline_refresh_token X C c ?g w3 = (Inr refresh, w4)"
    and iss: "issue_tokens X C c ?g (code_context ac) w4 = (Inr (id_token, access, ttl), w5)"
    and v: "w_refresh v = w_refresh w5"
    and ts: "ts = token_success id_token access ttl (ac_scopes ac) refresh b (granted_details X ac)"
  have "moves (same w_refresh) (issue_tokens X C c ?g (code_context ac))"
    by (intro moves_intros lenient_same) simp_all
  from movesD [OF this iss] have same: "w_refresh v = w_refresh w4" by (simp add: same_def v)
  from off assms(2) ts have "issue_refresh_token X C c ?g w3 = (Inr refresh, w4)"
    by (auto simp: offline_refresh_token_def token_success_def run_simps split: if_splits)
  from issue_refresh_stores [OF this] same ts show ?thesis by (auto simp: token_success_def)
qed

text \<open>The payload of a signed access token.\<close>

lemma confirmation_member:
  "map_of (access_token_additional_claims q jkt h (access_token_subject_claims c s m) ds) ''cnf'' =
     (if confirmation jkt h = [] then None else Some (JObj (confirmation jkt h)))"
proof -
  have demand: "map_of (userinfo_demand q) ''cnf'' = None"
    by (auto simp: userinfo_demand_def requested_userinfo_payload_def Let_def
        split: option.splits json.splits)
  have subject: "map_of (dict_update (access_token_subject_claims c s m) d) ''cnf'' = map_of d ''cnf''" for d
    by (simp add: access_token_subject_claims_def member_if_def)
  show ?thesis by (simp add: access_token_additional_claims_def Let_def demand subject)
qed

definition access_token_of :: "services \<Rightarrow> token_config \<Rightarrow> grant \<Rightarrow> str \<Rightarrow> (str \<times> json) list \<Rightarrow> bool" where
  "access_token_of X C g t payload \<longleftrightarrow>
     t = sv_jwt_encode X (tk_signing_algorithm C) [] payload
     \<and> map_of payload ''iss'' = Some (JStr (tk_issuer C))
     \<and> map_of payload ''sub'' = Some (JStr (gr_subject g))
     \<and> map_of payload ''scope'' = Some (JStr (scope_string (gr_scopes g)))
     \<and> map_of payload ''cnf'' = (if confirmation (gr_dpop_jkt g) (gr_tls_hash g) = [] then None
          else Some (JObj (confirmation (gr_dpop_jkt g) (gr_tls_hash g))))"

lemma sign_access_token_ok:
  "sign_access_token X C c g q w = (Inr t, v) \<Longrightarrow> \<exists>payload. access_token_of X C g t payload"
  unfolding sign_access_token_def create_access_token_def sign_payload_def access_token_of_def andthen_Inr
  by (elim exE conjE)
    (auto simp: prog_simps access_token_payload_standard access_token_payload_additional
      confirmation_member split: if_splits)

lemma issue_tokens_ok:
  "issue_tokens X C c g ctx w = (Inr (i, t, ttl), v) \<Longrightarrow> \<exists>payload. access_token_of X C g t payload"
  unfolding issue_tokens_def issue_access_token_def
  by (auto simp: prog_simps Let_def dest: sign_access_token_ok split: if_splits)

lemma evaluate_dpop_bound:
  "evaluate_dpop X C c r j w = (Inr b, v) \<Longrightarrow> tk_dpop C \<Longrightarrow> j \<noteq> [] \<Longrightarrow> db_bound b \<and> db_jkt b = j"
  by (simp add: evaluate_dpop_def evaluate_guard_bound)

subsection \<open>Properties\<close>

text \<open>C1. A successful exchange has checked everything RFC 6749 asks for: the code was known,
  unused and unexpired; the client is registered, active, authenticated with its own method and
  the client the code was issued to; the redirection address is the one of the authorization
  request; PKCE holds when a challenge was given, and a public client gave one.\<close>

theorem code_exchange_sound:
  assumes "exchange_code X C r w = (Inr ts, v)"
  shows "\<exists>ac c. codes_find (w_codes w) (tr_code r) = Some ac \<and> \<not> ac_is_consumed ac
    \<and> current w \<le> ac_expires_at ac \<and> code_checked X C ac r c w
    \<and> ts_scope ts = scope_string (ac_scopes ac)"
proof -
  from assms obtain ac c b resources w1 w2 w4 where
    ac: "codes_find (w_codes w) (tr_code r) = Some ac" "\<not> ac_is_consumed ac"
      "current w \<le> ac_expires_at ac"
    and w1: "w1 = w\<lparr>w_tick := Suc (w_tick w)\<rparr>"
    and checked: "validate_code_exchange X C ac r w1 = (Inr c, w2)"
    and redeem: "redeem_code X C r ac c (code_grant X c r ac (current w) b resources) b w4 = (Inr ts, v)"
    by (rule exchange_code_ok)
  have "code_checked X C ac r c w"
    using validate_code_ok [OF checked] by (simp add: code_checked_def w1)
  moreover have "ts_scope ts = scope_string (ac_scopes ac)"
    using redeem by (rule redeem_code_ok) (simp add: token_success_def code_grant_def)
  ultimately show ?thesis using ac by blast
qed

lemma code_exchange_sound_witness:
  "\<exists>ac c. codes_find (w_codes sample_server) (tr_code sample_request) = Some ac \<and> \<not> ac_is_consumed ac
    \<and> current sample_server \<le> ac_expires_at ac
    \<and> code_checked sample_services sample_config ac sample_request c sample_server"
proof -
  obtain ts v where "exchange_code sample_services sample_config sample_request sample_server = (Inr ts, v)"
    by (rule sample_exchange_run)
  from code_exchange_sound [OF this] show ?thesis by blast
qed

text \<open>C2. An authorization code is redeemed at most once: after a successful exchange, whatever
  requests the token endpoint serves, every further exchange of the code is refused with
  \<open>invalid_grant\<close>.\<close>

theorem authorization_code_single_use:
  assumes "exchange_code X C r w = (Inr ts, v)" and "codes.well_keyed (w_codes w)"
    and "token_later X C v u" and "tr_code r' = tr_code r"
  shows "\<exists>d. fst (exchange_code X C r' u) = Inl (Refused ''invalid_grant'' d)"
proof -
  from exchange_code_entry [OF assms(1,2)] have "codes.spent (w_codes v) (tr_code r)"
    by (auto simp: codes.spent_def)
  with spent_code.token_later_moves [OF assms(3)] have "codes.spent (w_codes u) (tr_code r)"
    by (simp add: kept_def)
  then obtain e where "codes_find (w_codes u) (tr_code r') = Some e" "ac_is_consumed e"
    using assms(4) by (auto simp: codes.spent_def)
  from replay_run [OF this] show ?thesis by simp
qed

lemma authorization_code_single_use_witness:
  "\<exists>d v. fst (exchange_code sample_services sample_config sample_request v)
     = Inl (Refused ''invalid_grant'' d)"
proof -
  obtain ts v where "exchange_code sample_services sample_config sample_request sample_server = (Inr ts, v)"
    by (rule sample_exchange_run)
  from authorization_code_single_use [OF this sample_server_keyed token_later.here refl]
  show ?thesis by blast
qed

text \<open>C3. Replaying a redeemed code at any later time revokes what the redemption issued: the
  access token is put on the denylist and the refresh token is consumed.\<close>

theorem replayed_code_revokes:
  assumes "exchange_code X C r w = (Inr ts, v)" and "codes.well_keyed (w_codes w)"
    and "token_later X C v u" and "tr_code r' = tr_code r"
    and "tk_revoked_tokens C" and "\<And>s. sv_sha256_hex X s \<noteq> []"
  shows "is_revoked (w_revoked (snd (exchange_code X C r' u))) (token_hash X (ts_access_token ts))
    \<and> (ts_refresh_token ts \<noteq> [] \<longrightarrow>
        refresh.spent (w_refresh (snd (exchange_code X C r' u))) (token_hash X (ts_refresh_token ts)))"
proof -
  from exchange_code_entry [OF assms(1,2)] obtain e where
    e: "codes_find (w_codes v) (tr_code r) = Some e" "ac_is_consumed e"
    and hashes: "ac_access_token_hash e = token_hash X (ts_access_token ts)"
      "ac_refresh_token_hash e =
        (if ts_refresh_token ts \<noteq> [] then token_hash X (ts_refresh_token ts) else [])"
    by blast
  have "codes.well_keyed (w_codes v)"
    using assms(1,2) by (rule exchange_keeps_keys)
  with e code_entry.token_later_moves [OF assms(3)] have later: "codes_find (w_codes u) (tr_code r) = Some e"
    by (auto simp: entry_kept_def codes.spent_def)
  have stored: "refresh_find (w_refresh v) h \<noteq> None \<Longrightarrow> refresh_find (w_refresh u) h \<noteq> None" for h
    using stored_refresh.token_later_moves [OF assms(3)] by (simp add: kept_def)
  have "ac_access_token_hash e \<noteq> []" using assms(6) hashes by (simp add: token_hash_def)
  note revoked = revoke_issued_run [OF this assms(5), of u]
  show ?thesis
    using revoked stored hashes assms(6) exchange_stores_refresh [OF assms(1)]
    unfolding replay_run [OF later [folded assms(4)] e(2)]
    by (auto simp: token_hash_def)
qed

lemma replayed_code_revokes_witness:
  "\<exists>v. refresh.spent (w_refresh (snd (exchange_code sample_services sample_config sample_request v)))
     ''hex.r0''"
proof -
  obtain ts v where run: "exchange_code sample_services sample_config sample_request sample_server = (Inr ts, v)"
    and ts: "ts_refresh_token ts = ''r0''"
    by (rule sample_exchange_run)
  have "tk_revoked_tokens sample_config" by (simp add: sample_config_def)
  from replayed_code_revokes [OF run sample_server_keyed token_later.here refl this sample_hash_nonempty]
  show ?thesis using ts by (auto simp: token_hash_def sample_services_def)
qed

text \<open>The access token a code exchange returns carries what was granted and proved: the
  user and scopes of the code, and in \<open>cnf\<close> the hash of the presented certificate and the
  thumbprint of the proved key; a code bound to a key yields only DPoP tokens bound to it.\<close>

lemma code_token_confirms:
  assumes "exchange_code X C r w = (Inr ts, v)" and "codes_find (w_codes w) (tr_code r) = Some ac"
    and "clients_find (w_clients w) (tr_client_id r) = Some c"
  shows "\<exists>payload jkt. ts_access_token ts = sv_jwt_encode X (tk_signing_algorithm C) [] payload
    \<and> map_of payload ''sub'' = Some (JStr (ac_subject ac))
    \<and> map_of payload ''scope'' = Some (JStr (scope_string (ac_scopes ac)))
    \<and> map_of payload ''cnf'' =
        (if confirmation jkt (tls_certificate_bound_hash X c r) = [] then None
         else Some (JObj (confirmation jkt (tls_certificate_bound_hash X c r))))
    \<and> (tk_dpop C \<and> ac_dpop_jkt ac \<noteq> [] \<longrightarrow> jkt = ac_dpop_jkt ac \<and> ts_token_type ts = ''DPoP'')"
  using assms(1)
proof (rule exchange_code_steps)
  fix ac' c' b resources refresh id_token access ttl w1 w2 w4 w5
  let ?g = "code_grant X c' r ac' (current w) b resources"
  assume ac: "codes_find (w_codes w) (tr_code r) = Some ac'"
    and val: "validate_code_exchange X C ac' r (w\<lparr>w_tick := Suc (w_tick w)\<rparr>) = (Inr c', w1)"
    and dpop: "evaluate_dpop X C c' r (ac_dpop_jkt ac') w1 = (Inr b, w2)"
    and iss: "issue_tokens X C c' ?g (code_context ac') w4 = (Inr (id_token, access, ttl), w5)"
    and ts: "ts = token_success id_token access ttl (ac_scopes ac') refresh b (granted_details X ac')"
  have same: "ac' = ac" "c' = c"
    using ac assms(2,3) validate_code_run [OF val] by auto
  from issue_tokens_ok [OF iss] obtain payload where "access_token_of X C ?g access payload" ..
  then show ?thesis
    using evaluate_dpop_bound [OF dpop] ts
    by (intro exI [of _ payload] exI [of _ "bound_key b"])
      (auto simp: access_token_of_def code_grant_def same token_success_def bound_key_def)
qed

lemma code_token_confirms_witness:
  "\<exists>ts v payload. exchange_code sample_services sample_config sample_request sample_server = (Inr ts, v)
    \<and> ts_access_token ts = sv_jwt_encode sample_services RS256 [] payload
    \<and> map_of payload ''sub'' = Some (JStr ''u'')"
proof -
  obtain ts v where run: "exchange_code sample_services sample_config sample_request sample_server = (Inr ts, v)"
    by (rule sample_exchange_run)
  have "codes_find (w_codes sample_server) (tr_code sample_request) = Some sample_code"
    "clients_find (w_clients sample_server) (tr_client_id sample_request) = Some sample_client"
    by (simp_all add: codes_find_def clients_find_def sample_server_def sample_request_def)
  from code_token_confirms [OF run this] run show ?thesis
    by (auto simp: sample_config_def sample_code_def)
qed

text \<open>A code is only spent by a request that passes: when the client, the redirection
  address, PKCE, the DPoP proof or the resources are refused, the stored codes are unchanged
  and a correct request can still redeem the code.\<close>

lemma refused_exchange_keeps_code:
  assumes "codes_find (w_codes w) (tr_code r) = Some ac" and "\<not> ac_is_consumed ac"
    and "exchange_code X C r w = (Inl e, v)"
    and "\<nexists>c b resources w1 w2 w3.
        validate_code_exchange X C ac r (w\<lparr>w_tick := Suc (w_tick w)\<rparr>) = (Inr c, w1)
      \<and> evaluate_dpop X C c r (ac_dpop_jkt ac) w1 = (Inr b, w2)
      \<and> effective_resources X C r (ac_resource_uris ac) w2 = (Inr resources, w3)"
  shows "w_codes v = w_codes w"
proof -
  let ?w = "w\<lparr>w_tick := Suc (w_tick w)\<rparr>"
  from assms(1-3) consider (expired) "v = ?w"
    | (checks) "andthen (validate_code_exchange X C ac r) (\<lambda>c.
        andthen (evaluate_dpop X C c r (ac_dpop_jkt ac)) (\<lambda>b.
        andthen (effective_resources X C r (ac_resource_uris ac)) (\<lambda>resources.
        redeem_code X C r ac c (code_grant X c r ac (current w) b resources) b))) ?w = (Inl e, v)"
    by (auto simp: exchange_code_def find_code_def run_simps split: if_splits)
  then show ?thesis
  proof cases
    case checks
    then consider (client) "validate_code_exchange X C ac r ?w = (Inl e, v)"
      | (dpop) c w1 where "validate_code_exchange X C ac r ?w = (Inr c, w1)"
          "evaluate_dpop X C c r (ac_dpop_jkt ac) w1 = (Inl e, v)"
      | (resources) c b w1 w2 where "validate_code_exchange X C ac r ?w = (Inr c, w1)"
          "evaluate_dpop X C c r (ac_dpop_jkt ac) w1 = (Inr b, w2)"
          "effective_resources X C r (ac_resource_uris ac) w2 = (Inl e, v)"
      using assms(4) unfolding andthen_Inl by blast
    then show ?thesis
      by cases (auto dest!: same_codes_run)
  qed simp
qed

definition sample_refused :: token_request where
  "sample_refused = sample_request\<lparr>tr_redirect_uri := ''https://evil/cb''\<rparr>"

lemma sample_refused_run:
  "validate_code_exchange sample_services sample_config sample_code sample_refused
     (sample_server\<lparr>w_tick := Suc (w_tick sample_server)\<rparr>)
   = (Inl (Refused ''invalid_grant'' ''redirect_uri ne correspond pas''), 
      sample_server\<lparr>w_tick := Suc (w_tick sample_server)\<rparr>)"
  by (simp add: validate_code_exchange_def active_client_def find_client_def run_simps
      sample_refused_def sample_request_def sample_code_def sample_server_def clients_find_def
      sample_client_def new_client_def)

lemma refused_exchange_keeps_code_witness:
  "w_codes (snd (exchange_code sample_services sample_config sample_refused sample_server))
     = w_codes sample_server"
proof -
  have found: "codes_find (w_codes sample_server) (tr_code sample_refused) = Some sample_code"
      "\<not> ac_is_consumed sample_code"
    by (simp_all add: codes_find_def sample_server_def sample_request_def sample_refused_def sample_code_def)
  have run: "exchange_code sample_services sample_config sample_refused sample_server
      = (Inl (Refused ''invalid_grant'' ''redirect_uri ne correspond pas''),
         sample_server\<lparr>w_tick := Suc (w_tick sample_server)\<rparr>)"
    using found sample_refused_run
    by (simp add: exchange_code_def find_code_def run_simps)
      (simp add: sample_code_def current_def sample_server_def sample_world_def)
  show ?thesis
    using refused_exchange_keeps_code [OF found run]
    by (simp add: sample_refused_run) (simp add: run)
qed

end
