(* ===== verification/RefreshGrant.thy ===== *)
theory RefreshGrant
  imports CodeGrant
begin

text \<open>
  Properties of the refresh token grant: what a successful refresh has checked, rotation, reuse
  of a rotated token.
\<close>

subsection \<open>Lemmas\<close>

lemma resolve_refresh_ok:
  "resolve_refresh_grant X r w = (Inr (st, scopes), v) \<Longrightarrow>
     refresh_find (w_refresh w) (token_hash X (tr_refresh_token r)) = Some st
     \<and> rt_client_id st = tr_client_id r \<and> \<not> rt_is_consumed st \<and> current w \<le> rt_expires_at st
     \<and> scopes = (if tr_scope r = [] then rt_scopes st else from_space_separated (tr_scope r))
     \<and> scopes \<subseteq> rt_scopes st \<and> v = w\<lparr>w_tick := Suc (w_tick w)\<rparr>"
  unfolding resolve_refresh_grant_def andthen_Inr
  by (elim exE conjE) (auto simp: prog_simps run_simps Let_def split: option.splits if_splits)

lemma refresh_tokens_ok:
  assumes "refresh_tokens X C r w = (Inr ts, v)"
  obtains c st scopes b resources refresh id_token access ttl w1 w2 w3 w4 w5 w6 where
    "clients_find (w_clients w) (tr_client_id r) = Some c" "cl_is_active c"
    "token_authenticate X C c r w = (Inr (), w1)"
    "resolve_refresh_grant X r w1 = (Inr (st, scopes), w2)"
    "rt_tls_cert_hash st = [] \<or> tls_certificate_bound_hash X c r = rt_tls_cert_hash st"
    "evaluate_dpop X C c r (rt_dpop_jkt st) (w2\<lparr>w_tick := Suc (w_tick w2)\<rparr>) = (Inr b, w3)"
    "effective_resources X C r (rt_resource_uris st) w3 = (Inr resources, w4)"
    "rotate_refresh_token X C c st (refresh_grant X c r st scopes (current w2) b resources) b w4
       = (Inr refresh, w5)"
    "issue_tokens X C c (refresh_grant X c r st scopes (current w2) b resources) empty_context w5
       = (Inr (id_token, access, ttl), w6)"
    "v = w6" "ts = token_success id_token access ttl scopes refresh b []"
  using assms unfolding refresh_tokens_def andthen_Inr active_client_ok ensure_iff now_utc_iff
  by (elim exE conjE) (auto simp: prog_simps Let_def intro: that split: if_splits prod.splits)

lemma before_rotation:
  assumes "token_authenticate X C c r w = (Inr (), w1)"
    and "resolve_refresh_grant X r w1 = (Inr (st, scopes), w2)"
    and "evaluate_dpop X C c r j (w2\<lparr>w_tick := n\<rparr>) = (Inr b, w3)"
    and "effective_resources X C r rs w3 = (Inr resources, w4)"
  shows "w_refresh w1 = w_refresh w" and "w_refresh w4 = w_refresh w" and "undrawn X h w \<Longrightarrow> undrawn X h w4"
proof -
  have l: "lenient (same w_refresh)" "lenient (kept (undrawn X h))"
    by (rule lenient_same lenient_kept; auto simp: undrawn_def)+
  have m: "moves R (token_authenticate X C c r)" "moves R (resolve_refresh_grant X r)"
      "moves R (evaluate_dpop X C c r j)" "moves R (effective_resources X C r rs)" if "lenient R" for R
    by (intro moves_intros that)+
  show "w_refresh w1 = w_refresh w"
    using m(1) [OF l(1), THEN movesD, OF assms(1)] by (simp add: same_def)
  then show "w_refresh w4 = w_refresh w"
    using m(2) [OF l(1), THEN movesD, OF assms(2)] m(3) [OF l(1), THEN movesD, OF assms(3)]
      m(4) [OF l(1), THEN movesD, OF assms(4)]
    by (simp add: same_def)
  have "undrawn X h (w2\<lparr>w_tick := n\<rparr>) = undrawn X h w2" by (simp add: undrawn_def)
  then show "undrawn X h w \<Longrightarrow> undrawn X h w4"
    using m(1) [OF l(2), THEN movesD, OF assms(1)] m(2) [OF l(2), THEN movesD, OF assms(2)]
      m(3) [OF l(2), THEN movesD, OF assms(3)] m(4) [OF l(2), THEN movesD, OF assms(4)]
    by (simp add: kept_def)
qed

lemma issue_tokens_keeps_refresh:
  "issue_tokens X C c g ctx w = (res, v) \<Longrightarrow> w_refresh v = w_refresh w"
  "issue_tokens X C c g ctx w = (res, v) \<Longrightarrow> undrawn X h w \<Longrightarrow> undrawn X h v"
proof -
  have m: "moves R (issue_tokens X C c g ctx)" if "lenient R" for R
    by (intro moves_intros that)
  have l: "lenient (same w_refresh)" "lenient (kept (undrawn X h))"
    by (rule lenient_same lenient_kept; auto simp: undrawn_def)+
  show "issue_tokens X C c g ctx w = (res, v) \<Longrightarrow> w_refresh v = w_refresh w"
    using m [OF l(1), THEN movesD] by (auto simp: same_def)
  show "issue_tokens X C c g ctx w = (res, v) \<Longrightarrow> undrawn X h w \<Longrightarrow> undrawn X h v"
    using m [OF l(2), THEN movesD] by (auto simp: kept_def)
qed

lemma rotate_spends:
  assumes "rotate_refresh_token X C c st g b w = (Inr t, v)" and "\<not> cl_fapi2_enabled c"
    and "refresh_find (w_refresh w) (rt_token_hash st) \<noteq> None" and "undrawn X (rt_token_hash st) w"
  shows "spent_for_good X (rt_token_hash st) v"
proof -
  let ?w = "w\<lparr>w_refresh := refresh_consume (rt_token_hash st) (w_refresh w)\<rparr>"
  have "issue_refresh_token X C c (g\<lparr>gr_dpop_jkt := refresh_dpop_jkt c st b\<rparr>) ?w = (Inr t, v)"
    using assms(1,2) by (simp add: rotate_refresh_token_def run_simps)
  from movesD [OF issue_refresh_spent this] assms(3,4) show ?thesis
    by (simp add: kept_def spent_for_good_def refresh.spent_consume undrawn_def)
qed

lemma spent_refresh_refused:
  assumes "refresh.spent (w_refresh w) (token_hash X (tr_refresh_token r))"
  shows "\<exists>e. fst (refresh_tokens X C r w) = Inl e"
proof (rule ccontr)
  assume "\<nexists>e. fst (refresh_tokens X C r w) = Inl e"
  then obtain ts v where "refresh_tokens X C r w = (Inr ts, v)"
    by (metis prod.collapse sum.exhaust)
  then show False
  proof (rule refresh_tokens_ok)
    fix c st scopes b resources w1 w2 w3 w4
    assume run: "token_authenticate X C c r w = (Inr (), w1)"
      "resolve_refresh_grant X r w1 = (Inr (st, scopes), w2)"
      "evaluate_dpop X C c r (rt_dpop_jkt st) (w2\<lparr>w_tick := Suc (w_tick w2)\<rparr>) = (Inr b, w3)"
      "effective_resources X C r (rt_resource_uris st) w3 = (Inr resources, w4)"
    from before_rotation(1) [OF this] resolve_refresh_ok [OF run(2)] assms show False
      by (auto simp: refresh.spent_def)
  qed
qed

subsection \<open>Properties\<close>



text \<open>A successful refresh rotates the token: the presented one is consumed and the
  response carries a new one, stored unused for the same client and user with the granted
  scopes and never more; a client of the FAPI 2 profile keeps its token and gets no other.\<close>

lemma refresh_rotates:
  assumes "refresh_tokens X C r w = (Inr ts, v)"
    and "clients_find (w_clients w) (tr_client_id r) = Some c"
    and "refresh_find (w_refresh w) (token_hash X (tr_refresh_token r)) = Some st"
  shows "if cl_fapi2_enabled c then ts_refresh_token ts = [] \<and> w_refresh v = w_refresh w
    else \<exists>rt. refresh_find (w_refresh v) (token_hash X (ts_refresh_token ts)) = Some rt
      \<and> rt_client_id rt = cl_client_id c \<and> rt_subject rt = rt_subject st
      \<and> rt_scopes rt \<subseteq> rt_scopes st \<and> ts_scope ts = scope_string (rt_scopes rt)
      \<and> \<not> rt_is_consumed rt"
  using assms(1)
proof (rule refresh_tokens_ok)
  fix c' st' scopes b resources refresh id_token access ttl w1 w2 w3 w4 w5 w6
  let ?g = "refresh_grant X c' r st' scopes (current w2) b resources"
  assume c: "clients_find (w_clients w) (tr_client_id r) = Some c'"
    and run: "token_authenticate X C c' r w = (Inr (), w1)"
      "resolve_refresh_grant X r w1 = (Inr (st', scopes), w2)"
      "evaluate_dpop X C c' r (rt_dpop_jkt st') (w2\<lparr>w_tick := Suc (w_tick w2)\<rparr>) = (Inr b, w3)"
      "effective_resources X C r (rt_resource_uris st') w3 = (Inr resources, w4)"
    and rot: "rotate_refresh_token X C c' st' ?g b w4 = (Inr refresh, w5)"
    and iss: "issue_tokens X C c' ?g empty_context w5 = (Inr (id_token, access, ttl), w6)"
    and ts: "v = w6" "ts = token_success id_token access ttl scopes refresh b []"
  note before = before_rotation [OF run] resolve_refresh_ok [OF run(2)]
  have same: "c' = c" "st' = st" using c before assms(2,3) by auto
  note after = issue_tokens_keeps_refresh(1) [OF iss]
  show ?thesis
  proof (cases "cl_fapi2_enabled c")
    case True
    with rot after before ts same show ?thesis
      by (simp add: rotate_refresh_token_def run_simps token_success_def)
  next
    case False
    then have "issue_refresh_token X C c (?g\<lparr>gr_dpop_jkt := refresh_dpop_jkt c st b\<rparr>)
        (w4\<lparr>w_refresh := refresh_consume (rt_token_hash st) (w_refresh w4)\<rparr>) = (Inr refresh, w5)"
      using rot same by (simp add: rotate_refresh_token_def run_simps)
    from issue_refresh_stores [OF this] False after before ts same show ?thesis
      by (auto simp: token_success_def refresh_grant_def)
  qed
qed

lemma refresh_rotates_witness:
  "\<exists>(v :: world) rt. refresh_find (w_refresh v) ''hex.r0'' = Some rt \<and> rt_subject rt = ''u''
     \<and> rt_scopes rt \<subseteq> {''openid'', ''email''}"
proof -
  obtain ts v where run:
    "refresh_tokens sample_services sample_config sample_refresh_request sample_server = (Inr ts, v)"
    and ts: "ts_refresh_token ts = ''r0''"
    by (rule sample_refresh_run)
  from refresh_rotates [OF run sample_refresh_found] ts
  have "\<exists>rt. refresh_find (w_refresh v) ''hex.r0'' = Some rt \<and> rt_subject rt = ''u''
     \<and> rt_scopes rt \<subseteq> {''openid'', ''email''}"
    by (auto simp: sample_client_def new_client_def sample_refresh_def token_hash_def
        sample_services_def)
  then show ?thesis by blast
qed

text \<open>A rotated refresh token is dead: once it has been exchanged it is refused by every
  later refresh, whatever the token endpoint serves in between, as long as no new random value
  has its hash.\<close>

lemma rotated_refresh_refused:
  assumes "refresh_tokens X C r w = (Inr ts, v)"
    and "clients_find (w_clients w) (tr_client_id r) = Some c" and "\<not> cl_fapi2_enabled c"
    and "refresh.well_keyed (w_refresh w)" and "undrawn X (token_hash X (tr_refresh_token r)) w"
    and "token_later X C v u" and "tr_refresh_token r' = tr_refresh_token r"
  shows "\<exists>e. fst (refresh_tokens X C r' u) = Inl e"
proof -
  let ?h = "token_hash X (tr_refresh_token r)"
  have "spent_for_good X ?h v"
    using assms(1)
  proof (rule refresh_tokens_ok)
    fix c' st scopes b resources refresh id_token access ttl w1 w2 w3 w4 w5 w6
    let ?g = "refresh_grant X c' r st scopes (current w2) b resources"
    assume c: "clients_find (w_clients w) (tr_client_id r) = Some c'"
      and run: "token_authenticate X C c' r w = (Inr (), w1)"
        "resolve_refresh_grant X r w1 = (Inr (st, scopes), w2)"
        "evaluate_dpop X C c' r (rt_dpop_jkt st) (w2\<lparr>w_tick := Suc (w_tick w2)\<rparr>) = (Inr b, w3)"
        "effective_resources X C r (rt_resource_uris st) w3 = (Inr resources, w4)"
      and rot: "rotate_refresh_token X C c' st ?g b w4 = (Inr refresh, w5)"
      and iss: "issue_tokens X C c' ?g empty_context w5 = (Inr (id_token, access, ttl), w6)"
      and v: "v = w6"
    note before = before_rotation [OF run] resolve_refresh_ok [OF run(2)]
    have "refresh_find (w_refresh w) ?h = Some st" using before by auto
    moreover from this assms(4) have "rt_token_hash st = ?h" by (simp add: refresh.well_keyedD)
    ultimately have "spent_for_good X ?h w5"
      using rotate_spends [OF rot] c assms(2,3,5) before by auto
    then show ?thesis
      using issue_tokens_keeps_refresh [OF iss] v by (simp add: spent_for_good_def)
  qed
  with spent_refresh.token_later_moves [OF assms(6)] have "refresh.spent (w_refresh u) ?h"
    by (simp add: kept_def spent_for_good_def)
  then show ?thesis using assms(7) by (intro spent_refresh_refused) simp
qed

lemma rotated_refresh_refused_witness:
  "\<exists>v e. fst (refresh_tokens sample_services sample_config sample_refresh_request v) = Inl e"
proof -
  obtain ts v where
    "refresh_tokens sample_services sample_config sample_refresh_request sample_server = (Inr ts, v)"
    by (rule sample_refresh_run)
  moreover have "\<not> cl_fapi2_enabled sample_client" "refresh.well_keyed (w_refresh sample_server)"
    by (auto simp: sample_client_def new_client_def refresh.well_keyed_def sample_server_def
        sample_refresh_def refresh_find_def split: if_splits)
  moreover have "undrawn sample_services
      (token_hash sample_services (tr_refresh_token sample_refresh_request)) sample_server"
    by (simp add: undrawn_def token_hash_def sample_services_def sample_server_def
        sample_world_def sample_refresh_request_def)
  ultimately show ?thesis
    using rotated_refresh_refused [OF _ sample_refresh_found(1) _ _ _ token_later.here refl] by blast
qed

end
