(* ===== verification/PolledGrants.thy ===== *)
theory PolledGrants
  imports CodeGrant
begin

text \<open>
  Properties of the two grants a client polls for: the device code (RFC 8628) and the
  backchannel request (CIBA).  The answer to a poll of an undecided session is a contract both
  implement.
\<close>

subsection \<open>Throttled polling\<close>

fun polls :: "('s \<Rightarrow> instant \<Rightarrow> failure \<times> 's) \<Rightarrow> 's \<Rightarrow> instant list \<Rightarrow> failure list \<times> 's" where
  "polls poll s [] = ([], s)"
| "polls poll s (t # ts) =
     (let (answer, s') = poll s t; (answers, u) = polls poll s' ts in (answer # answers, u))"

fun asks_slow_down :: "failure \<Rightarrow> bool" where
  "asks_slow_down (Refused e d) = (e = ''slow_down'')"
| "asks_slow_down (Uncaught e) = False"

text \<open>Instants at least \<open>n\<close> seconds apart, the first after \<open>prev\<close> if there was one.\<close>

fun paced :: "int \<Rightarrow> instant option \<Rightarrow> instant list \<Rightarrow> bool" where
  "paced n prev [] = True"
| "paced n prev (t # ts) =
     ((case prev of None \<Rightarrow> True | Some l \<Rightarrow> l + seconds n \<le> t) \<and> paced n (Some t) ts)"

locale throttled_poll =
  fixes poll :: "'s \<Rightarrow> instant \<Rightarrow> failure \<times> 's"
    and interval :: "'s \<Rightarrow> int" and last_poll :: "'s \<Rightarrow> instant option"
  assumes poll_last: "last_poll (snd (poll s now)) = Some now"
    and poll_interval: "interval (snd (poll s now)) =
      (if asks_slow_down (fst (poll s now)) then interval s + 5 else interval s)"
    and poll_slow: "asks_slow_down (fst (poll s now)) \<longleftrightarrow>
      (\<exists>t. last_poll s = Some t \<and> now - t < seconds (interval s))"
begin

lemma polls_interval:
  "interval (snd (polls poll s ts)) =
     interval s + 5 * int (length (filter asks_slow_down (fst (polls poll s ts))))"
  by (induction ts arbitrary: s) (simp_all add: split_beta poll_interval)

lemma paced_never_slowed:
  "paced (interval s) (last_poll s) ts \<Longrightarrow> \<not> list_ex asks_slow_down (fst (polls poll s ts))"
proof (induction ts arbitrary: s)
  case (Cons t ts)
  then have calm: "\<not> asks_slow_down (fst (poll s t))"
    by (auto simp: poll_slow split: option.splits)
  then have "interval (snd (poll s t)) = interval s" by (simp add: poll_interval)
  with Cons.prems have "paced (interval (snd (poll s t))) (last_poll (snd (poll s t))) ts"
    by (simp add: poll_last)
  from Cons.IH [OF this] calm show ?case by (simp add: split_beta)
qed simp

end

interpretation device_poll: throttled_poll poll_device da_interval da_last_polled_at
  by unfold_locales (auto simp: poll_device_def split: option.splits)

interpretation ciba_poll: throttled_poll poll_ciba bc_interval bc_last_polled_at
  by unfold_locales (auto simp: poll_ciba_def split: option.splits)

subsection \<open>Lemmas on the device grant\<close>

lemma load_device_ok:
  "load_device_session X r w = (Inr st, v) \<Longrightarrow>
     devices_find (w_devices w) (token_hash X (tr_device_code r)) = Some st
     \<and> da_client_id st = tr_client_id r \<and> current w \<le> da_expires_at st \<and> da_status st \<noteq> Denied
     \<and> v = w\<lparr>w_tick := Suc (w_tick w)\<rparr>"
  unfolding load_device_session_def andthen_Inr
  by (elim exE conjE) (auto simp: prog_simps run_simps split: option.splits if_splits)

lemma load_ciba_ok:
  "load_ciba_session X r w = (Inr st, v) \<Longrightarrow>
     ciba_find (w_ciba w) (token_hash X (tr_auth_req_id r)) = Some st
     \<and> bc_client_id st = tr_client_id r \<and> current w \<le> bc_expires_at st \<and> bc_status st \<noteq> Denied
     \<and> bc_delivery_mode st \<noteq> ''push'' \<and> v = w\<lparr>w_tick := Suc (w_tick w)\<rparr>"
  unfolding load_ciba_session_def andthen_Inr
  by (elim exE conjE) (auto simp: prog_simps run_simps split: option.splits if_splits)

lemma device_code_ok:
  assumes "device_code X C r w = (Inr ts, v)"
  obtains c b st resources w1 w2 w3 w4 where
    "clients_find (w_clients w) (tr_client_id r) = Some c" "cl_is_active c"
    "token_authenticate X C c r w = (Inr (), w1)" "evaluate_dpop X C c r [] w1 = (Inr b, w2)"
    "load_device_session X r w2 = (Inr st, w3)"
    "effective_resources X C r [] w3 = (Inr resources, w4)" "da_status st = Approved"
    "device_approved_flow X C c st (current w4) b resources (tls_certificate_bound_hash X c r)
       (w4\<lparr>w_tick := Suc (w_tick w4)\<rparr>) = (Inr ts, v)"
  using assms unfolding device_code_def andthen_Inr active_client_ok ensure_iff now_utc_iff
  by (elim exE conjE) (auto simp: prog_simps device_pending_response_def intro: that split: if_splits)

lemma ciba_token_ok:
  assumes "ciba_token X C r w = (Inr ts, v)"
  obtains c b st resources w1 w2 w3 w4 where
    "clients_find (w_clients w) (tr_client_id r) = Some c" "cl_is_active c"
    "token_authenticate X C c r w = (Inr (), w1)" "evaluate_dpop X C c r [] w1 = (Inr b, w2)"
    "load_ciba_session X r w2 = (Inr st, w3)"
    "effective_resources X C r (bc_resource_uris st) w3 = (Inr resources, w4)" "bc_status st = Approved"
    "ciba_approved_flow X C c st (current w4) b resources (tls_certificate_bound_hash X c r)
       (w4\<lparr>w_tick := Suc (w_tick w4)\<rparr>) = (Inr ts, v)"
  using assms unfolding ciba_token_def andthen_Inr active_client_ok ensure_iff now_utc_iff
  by (elim exE conjE) (auto simp: prog_simps ciba_pending_response_def intro: that split: if_splits)

subsection \<open>A redeemed session is gone\<close>

definition no_device :: "str \<Rightarrow> world \<Rightarrow> bool" where
  "no_device h w \<longleftrightarrow> devices.well_keyed (w_devices w) \<and> devices_find (w_devices w) h = None"

definition no_ciba :: "str \<Rightarrow> world \<Rightarrow> bool" where
  "no_ciba h w \<longleftrightarrow> ciba.well_keyed (w_ciba w) \<and> ciba_find (w_ciba w) h = None"

lemma no_session_lenient: "lenient (kept (no_device h))" "lenient (kept (no_ciba h))"
  by (rule lenient_kept; simp add: no_device_def no_ciba_def)+

lemma same_devices_kept: "moves (same w_devices) m \<Longrightarrow> moves (kept (no_device h)) m"
  by (erule moves_mono) (simp add: same_def kept_def no_device_def)

lemma same_ciba_kept: "moves (same w_ciba) m \<Longrightarrow> moves (kept (no_ciba h)) m"
  by (erule moves_mono) (simp add: same_def kept_def no_ciba_def)

lemma same_sessions:
  assumes "\<And>w n. f (w\<lparr>w_tick := n\<rparr>) = f w" and "\<And>w n. f (w\<lparr>w_draw := n\<rparr>) = f w"
    and "\<And>w d. f (w\<lparr>w_replays := d\<rparr>) = f w" and "\<And>w d. f (w\<lparr>w_refresh := d\<rparr>) = f w"
    and "\<And>w d. f (w\<lparr>w_codes := d\<rparr>) = f w" and "\<And>w d. f (w\<lparr>w_revoked := d\<rparr>) = f w"
  shows "lenient (same f)" "moves (same f) (issue_refresh_token X C c g)"
    "moves (same f) (exchange_code X C r)"
    "moves (same f) (refresh_tokens X C r)" "moves (same f) (pre_authorized_code X C r)"
    "moves (same f) (client_credentials X C r)" "moves (same f) (jwt_bearer X C r)"
    "moves (same f) (redeem_grant X C c g ctx b)"
proof -
  show l: "lenient (same f)" by (rule lenient_same) (simp_all add: assms)
  have w: "same f w (w\<lparr>w_refresh := d\<rparr>)" "same f w (w\<lparr>w_codes := e\<rparr>)" "same f w (w\<lparr>w_revoked := i\<rparr>)"
    for w d e i using assms by (simp_all add: same_def)
  show i: "moves (same f) (issue_refresh_token X C c g)" for c g
    using l assms(4) by (rule issue_refresh_same)
  show "moves (same f) (redeem_grant X C c g ctx b)"
    unfolding redeem_grant_def offline_refresh_token_def by (intro moves_intros l i)
  show "moves (same f) (exchange_code X C r)"
    unfolding exchange_code_def redeem_code_def consume_code_def record_issued_tokens_def
      revoke_issued_tokens_def offline_refresh_token_def
    by (intro moves_intros moves_modify l i w)
  show "moves (same f) (refresh_tokens X C r)"
    unfolding refresh_tokens_def rotate_refresh_token_def by (intro moves_intros moves_modify l i w)
  show "moves (same f) (pre_authorized_code X C r)"
    unfolding pre_authorized_code_def resolve_pre_authorized_code_def consume_code_def
      find_client_def revoke_issued_tokens_def
    by (intro moves_intros moves_modify l i w)
qed (intro moves_intros lenient_same; simp add: assms)+

lemma device_pending_moves:
  "\<lbrakk> \<exists>k. devices_find (w_devices w) k = Some st; da_status st \<noteq> Approved \<rbrakk> \<Longrightarrow>
     kept (no_device h) w (snd (device_pending_response st now w))"
  by (auto simp: kept_def no_device_def device_pending_response_def run_simps devices.find_save
      poll_device_def devices.well_keyed_save dest: devices.well_keyedD split: option.splits)

text \<open>A read-only program followed by an answer that may rely on what was just read.\<close>

lemma kept_after_same:
  assumes "moves (same f) m" and "\<And>w x. f w = f u \<Longrightarrow> kept P w (snd (g x w))"
    and "\<And>w v. f w = f v \<Longrightarrow> P w = P v"
  shows "kept P u (snd (andthen m g u))"
proof -
  obtain res v where run: "m u = (res, v)" by fastforce
  with assms(1) have same: "f v = f u" by (auto simp: same_def dest: movesD)
  with run assms(2) [of v] assms(3) [OF same] show ?thesis
    by (cases res) (auto simp: kept_def)
qed

lemma device_answer_kept:
  assumes "\<exists>k. devices_find (w_devices u) k = Some st"
  shows "kept (no_device h) u (snd (andthen (effective_resources X C r []) (\<lambda>resources.
     andthen now_utc (\<lambda>now.
     if da_status st = Approved then device_approved_flow X C c st now b resources t
     else device_pending_response st now)) u))"
proof (rule kept_after_same [of w_devices])
  show "moves (same w_devices) (effective_resources X C r [])"
    by (intro moves_intros lenient_same) simp_all
next
  fix w :: world and resources
  assume w: "w_devices w = w_devices u"
  let ?w = "w\<lparr>w_tick := Suc (w_tick w)\<rparr>"
  have "moves (kept (no_device h)) (redeem_grant X C c g ctx b)" for g ctx
    by (rule same_devices_kept, rule same_sessions) simp_all
  then have "moves (kept (no_device h)) (device_approved_flow X C c st now b resources t)" for now
    unfolding device_approved_flow_def
    by (intro moves_intros moves_modify)
      (auto simp: kept_def no_device_def devices.well_keyed_delete devices.find_delete)
  then have "kept (no_device h) ?w (snd (device_approved_flow X C c st (current w) b resources t ?w))"
    by (simp add: moves_def)
  moreover have "da_status st \<noteq> Approved \<Longrightarrow>
      kept (no_device h) ?w (snd (device_pending_response st (current w) ?w))"
    using assms w by (intro device_pending_moves) simp_all
  ultimately show "kept (no_device h) w (snd (andthen now_utc (\<lambda>now.
     if da_status st = Approved then device_approved_flow X C c st now b resources t
     else device_pending_response st now) w))"
    by (auto simp: run_simps kept_def no_device_def)
qed (simp add: no_device_def)

lemma device_code_kept: "moves (kept (no_device h)) (device_code X C r)"
proof -
  note l = no_session_lenient(1) [of h]
  have load: "moves (kept (no_device h)) (load_device_session X r)"
    unfolding load_device_session_def
    by (intro moves_intros l moves_modify)
      (auto simp: kept_def no_device_def devices.well_keyed_delete devices.find_delete)
  show ?thesis
    unfolding device_code_def
    by (intro moves_found [where m = "load_device_session X r"] moves_intros l load
        device_answer_kept)
      (drule load_device_ok; auto)
qed

interpretation absent_device: endpoint_moves X C "kept (no_device h)" for X C h
proof -
  have "moves (same w_devices) (ciba_token X C r)" for X C r
    unfolding ciba_token_def ciba_approved_flow_def ciba_pending_response_def load_ciba_session_def
    by (intro moves_intros same_sessions moves_modify; simp add: same_def)
  then show "endpoint_moves X C (kept (no_device h))"
    by unfold_locales
      (intro kept_order device_code_kept same_devices_kept same_sessions; simp)+
qed

lemma device_code_deletes:
  assumes "device_code X C r w = (Inr ts, v)" and "devices.well_keyed (w_devices w)"
  shows "no_device (token_hash X (tr_device_code r)) v"
  using assms(1)
proof (rule device_code_ok)
  fix c b st resources w1 w2 w3 w4
  assume run: "token_authenticate X C c r w = (Inr (), w1)" "evaluate_dpop X C c r [] w1 = (Inr b, w2)"
    "load_device_session X r w2 = (Inr st, w3)" "effective_resources X C r [] w3 = (Inr resources, w4)"
    and flow: "device_approved_flow X C c st (current w4) b resources (tls_certificate_bound_hash X c r)
       (w4\<lparr>w_tick := Suc (w_tick w4)\<rparr>) = (Inr ts, v)"
  let ?d = "devices_delete (da_device_code_hash st) (w_devices w4)"
  have m: "moves (same w_devices) (token_authenticate X C c r)"
    "moves (same w_devices) (evaluate_dpop X C c r [])"
    "moves (same w_devices) (effective_resources X C r [])"
    by (intro moves_intros lenient_same; simp)+
  have before: "w_devices w4 = w_devices w" "w_devices w2 = w_devices w"
    using m [THEN movesD] run load_device_ok [OF run(3)] by (auto simp: same_def)
  have redeem: "moves (same w_devices) (redeem_grant X C c g ctx b)" for g ctx
    by (rule same_sessions) simp_all
  from flow have "w_devices v = ?d"
    by (auto simp: device_approved_flow_def run_simps same_def dest!: redeem [THEN movesD])
  with before load_device_ok [OF run(3)] assms(2) show ?thesis
    by (auto simp: no_device_def devices.well_keyed_delete devices.find_delete
        dest: devices.well_keyedD)
qed

text \<open>The same for the backchannel requests.\<close>

lemma ciba_pending_moves:
  "\<lbrakk> \<exists>k. ciba_find (w_ciba w) k = Some st \<rbrakk> \<Longrightarrow>
     kept (no_ciba h) w (snd (ciba_pending_response st now w))"
  by (auto simp: kept_def no_ciba_def ciba_pending_response_def run_simps ciba.find_save
      poll_ciba_def ciba.well_keyed_save dest: ciba.well_keyedD split: option.splits)

lemma ciba_redeem_same: "moves (same w_ciba) (redeem_grant X C c g ctx b)"
  by (rule same_sessions) simp_all

lemma ciba_answer_kept:
  assumes "\<exists>k. ciba_find (w_ciba u) k = Some st"
  shows "kept (no_ciba h) u (snd (andthen (effective_resources X C r rs) (\<lambda>resources.
     andthen now_utc (\<lambda>now.
     if bc_status st = Approved then ciba_approved_flow X C c st now b resources t
     else ciba_pending_response st now)) u))"
proof (rule kept_after_same [of w_ciba])
  show "moves (same w_ciba) (effective_resources X C r rs)"
    by (intro moves_intros lenient_same) simp_all
next
  fix w :: world and resources
  assume w: "w_ciba w = w_ciba u"
  let ?w = "w\<lparr>w_tick := Suc (w_tick w)\<rparr>"
  have "moves (kept (no_ciba h)) (ciba_approved_flow X C c st now b resources t)" for now
    unfolding ciba_approved_flow_def
    by (intro moves_intros moves_modify ciba_redeem_same [THEN same_ciba_kept])
      (auto simp: kept_def no_ciba_def ciba.well_keyed_delete ciba.find_delete)
  then have "kept (no_ciba h) ?w (snd (ciba_approved_flow X C c st (current w) b resources t ?w))"
    by (simp add: moves_def)
  moreover have "kept (no_ciba h) ?w (snd (ciba_pending_response st (current w) ?w))"
    using assms w by (intro ciba_pending_moves) simp
  ultimately show "kept (no_ciba h) w (snd (andthen now_utc (\<lambda>now.
     if bc_status st = Approved then ciba_approved_flow X C c st now b resources t
     else ciba_pending_response st now) w))"
    by (auto simp: run_simps kept_def no_ciba_def)
qed (simp add: no_ciba_def)

lemma ciba_token_kept: "moves (kept (no_ciba h)) (ciba_token X C r)"
proof -
  note l = no_session_lenient(2) [of h]
  have load: "moves (kept (no_ciba h)) (load_ciba_session X r)"
    unfolding load_ciba_session_def
    by (intro moves_intros l moves_modify)
      (auto simp: kept_def no_ciba_def ciba.well_keyed_delete ciba.find_delete)
  show ?thesis
    unfolding ciba_token_def
    by (intro moves_found [where m = "load_ciba_session X r"] moves_intros l load ciba_answer_kept)
      (drule load_ciba_ok; auto)
qed

interpretation absent_ciba: endpoint_moves X C "kept (no_ciba h)" for X C h
proof -
  have "moves (same w_ciba) (device_code X C r)" for X C r
    unfolding device_code_def device_approved_flow_def device_pending_response_def
      load_device_session_def
    by (intro moves_intros same_sessions moves_modify; simp add: same_def)
  then show "endpoint_moves X C (kept (no_ciba h))"
    by unfold_locales
      (intro kept_order ciba_token_kept same_ciba_kept same_sessions; simp)+
qed

lemma ciba_token_deletes:
  assumes "ciba_token X C r w = (Inr ts, v)" and "ciba.well_keyed (w_ciba w)"
  shows "no_ciba (token_hash X (tr_auth_req_id r)) v"
  using assms(1)
proof (rule ciba_token_ok)
  fix c b st resources w1 w2 w3 w4
  assume run: "token_authenticate X C c r w = (Inr (), w1)" "evaluate_dpop X C c r [] w1 = (Inr b, w2)"
    "load_ciba_session X r w2 = (Inr st, w3)"
    "effective_resources X C r (bc_resource_uris st) w3 = (Inr resources, w4)"
    and flow: "ciba_approved_flow X C c st (current w4) b resources (tls_certificate_bound_hash X c r)
       (w4\<lparr>w_tick := Suc (w_tick w4)\<rparr>) = (Inr ts, v)"
  have m: "moves (same w_ciba) (token_authenticate X C c r)"
    "moves (same w_ciba) (evaluate_dpop X C c r [])"
    "moves (same w_ciba) (effective_resources X C r (bc_resource_uris st))"
    by (intro moves_intros lenient_same; simp)+
  have before: "w_ciba w4 = w_ciba w" "w_ciba w2 = w_ciba w"
    using m [THEN movesD] run load_ciba_ok [OF run(3)] by (auto simp: same_def)
  from flow have "w_ciba v = ciba_delete (bc_auth_req_id_hash st) (w_ciba w4)"
    by (auto simp: ciba_approved_flow_def run_simps same_def dest!: ciba_redeem_same [THEN movesD])
  with before load_ciba_ok [OF run(3)] assms(2) show ?thesis
    by (auto simp: no_ciba_def ciba.well_keyed_delete ciba.find_delete dest: ciba.well_keyedD)
qed

text \<open>Without a session nothing is granted.\<close>

lemma no_device_refused:
  assumes "no_device (token_hash X (tr_device_code r)) w"
  shows "\<exists>e. fst (device_code X C r w) = Inl e"
proof (rule ccontr)
  assume "\<nexists>e. fst (device_code X C r w) = Inl e"
  then obtain ts v where "device_code X C r w = (Inr ts, v)"
    by (metis prod.collapse sum.exhaust)
  then show False
  proof (rule device_code_ok)
    fix c b st w1 w2 w3
    assume run: "token_authenticate X C c r w = (Inr (), w1)"
      "evaluate_dpop X C c r [] w1 = (Inr b, w2)" "load_device_session X r w2 = (Inr st, w3)"
    have m: "moves (same w_devices) (token_authenticate X C c r)"
      "moves (same w_devices) (evaluate_dpop X C c r [])"
      by (intro moves_intros lenient_same; simp)+
    from m [THEN movesD] run have "w_devices w2 = w_devices w" by (auto simp: same_def)
    with load_device_ok [OF run(3)] assms show False by (simp add: no_device_def)
  qed
qed

lemma no_ciba_refused:
  assumes "no_ciba (token_hash X (tr_auth_req_id r)) w"
  shows "\<exists>e. fst (ciba_token X C r w) = Inl e"
proof (rule ccontr)
  assume "\<nexists>e. fst (ciba_token X C r w) = Inl e"
  then obtain ts v where "ciba_token X C r w = (Inr ts, v)"
    by (metis prod.collapse sum.exhaust)
  then show False
  proof (rule ciba_token_ok)
    fix c b st w1 w2 w3
    assume run: "token_authenticate X C c r w = (Inr (), w1)"
      "evaluate_dpop X C c r [] w1 = (Inr b, w2)" "load_ciba_session X r w2 = (Inr st, w3)"
    have m: "moves (same w_ciba) (token_authenticate X C c r)"
      "moves (same w_ciba) (evaluate_dpop X C c r [])"
      by (intro moves_intros lenient_same; simp)+
    from m [THEN movesD] run have "w_ciba w2 = w_ciba w" by (auto simp: same_def)
    with load_ciba_ok [OF run(3)] assms show False by (simp add: no_ciba_def)
  qed
qed

subsection \<open>Properties\<close>

text \<open>C13. Polling is throttled alike for devices and backchannel requests: each
  \<open>slow_down\<close> answer lengthens the interval by exactly five seconds, no other answer changes
  it, and a client that waits the announced interval between its polls is never slowed down.\<close>

theorem polling_throttled:
  "da_interval (snd (polls poll_device s ts)) =
     da_interval s + 5 * int (length (filter asks_slow_down (fst (polls poll_device s ts))))
   \<and> (paced (da_interval s) (da_last_polled_at s) ts \<longrightarrow>
        \<not> list_ex asks_slow_down (fst (polls poll_device s ts)))
   \<and> bc_interval (snd (polls poll_ciba q ts)) =
     bc_interval q + 5 * int (length (filter asks_slow_down (fst (polls poll_ciba q ts))))
   \<and> (paced (bc_interval q) (bc_last_polled_at q) ts \<longrightarrow>
        \<not> list_ex asks_slow_down (fst (polls poll_ciba q ts)))"
  using device_poll.polls_interval device_poll.paced_never_slowed ciba_poll.polls_interval
    ciba_poll.paced_never_slowed
  by blast

lemma polling_throttled_witness:
  "\<not> list_ex asks_slow_down (fst (polls poll_device sample_device [0, 5000000, 12000000]))
   \<and> \<not> list_ex asks_slow_down (fst (polls poll_ciba sample_ciba [0, 5000000, 12000000]))"
  using polling_throttled [of sample_device "[0, 5000000, 12000000]" sample_ciba]
  by (simp add: sample_device_def sample_ciba_def seconds_def)

text \<open>A device gets tokens only for a session of its own that the user approved and that has
  not expired; they are the approving user's and for the scopes of the session.\<close>

lemma device_grant_sound:
  assumes "device_code X C r w = (Inr ts, v)"
  shows "\<exists>c st n. clients_find (w_clients w) (tr_client_id r) = Some c \<and> cl_is_active c
    \<and> proves_identity (effective_auth_method c) X c (presented C c r) (current w)
    \<and> devices_find (w_devices w) (token_hash X (tr_device_code r)) = Some st
    \<and> da_client_id st = tr_client_id r \<and> da_status st = Approved
    \<and> w_tick w \<le> n \<and> w_clock w n \<le> da_expires_at st
    \<and> ts_scope ts = scope_string (da_scopes st)
    \<and> (\<exists>payload. ts_access_token ts = sv_jwt_encode X (tk_signing_algorithm C) [] payload
        \<and> map_of payload ''sub'' = Some (JStr (da_subject st)))"
  using assms
proof (rule device_code_ok)
  fix c b st resources w1 w2 w3 w4
  let ?g = "device_grant st (current w4) b resources (tls_certificate_bound_hash X c r)"
  assume c: "clients_find (w_clients w) (tr_client_id r) = Some c" "cl_is_active c"
    and run: "token_authenticate X C c r w = (Inr (), w1)" "evaluate_dpop X C c r [] w1 = (Inr b, w2)"
    "load_device_session X r w2 = (Inr st, w3)" and approved: "da_status st = Approved"
    and flow: "device_approved_flow X C c st (current w4) b resources (tls_certificate_bound_hash X c r)
       (w4\<lparr>w_tick := Suc (w_tick w4)\<rparr>) = (Inr ts, v)"
  have l: "lenient (same w_devices)" "lenient later_clock"
    by (rule lenient_same lenient_later; simp)+
  have m: "moves R (token_authenticate X C c r)" "moves R (evaluate_dpop X C c r [])"
    if "lenient R" for R by (intro moves_intros that)+
  have "w_devices w2 = w_devices w"
    using m [OF l(1), THEN movesD] run by (auto simp: same_def)
  moreover have "later_clock w w2"
    by (rule transpD [OF lenient_order(2) [OF l(2)]])
      (rule m(1) [OF l(2), THEN movesD, OF run(1)], rule m(2) [OF l(2), THEN movesD, OF run(2)])
  moreover from flow obtain refresh id_token access ttl v1 v2 where
      iss: "issue_tokens X C c ?g empty_context v1 = (Inr (id_token, access, ttl), v2)"
      and ts: "ts = token_success id_token access ttl (gr_scopes ?g) refresh b []"
    by (auto simp: device_approved_flow_def redeem_grant_def prog_simps run_simps)
  moreover from issue_tokens_ok [OF iss] obtain payload where "access_token_of X C ?g access payload" ..
  ultimately show ?thesis
    using c approved token_authenticate_ok [OF run(1)] load_device_ok [OF run(3)]
    by (intro exI [of _ c] exI [of _ st] exI [of _ "w_tick w2"])
      (auto simp: token_success_def device_grant_def access_token_of_def later_clock_def current_def)
qed

text \<open>An approved device session is redeemed at most once: after a successful request with a
  device code no later request with this code succeeds, whatever the token endpoint serves.\<close>

lemma device_code_redeemed_once:
  assumes "device_code X C r w = (Inr ts, v)" and "devices.well_keyed (w_devices w)"
    and "token_later X C v u" and "tr_device_code r' = tr_device_code r"
  shows "\<exists>e. fst (device_code X C r' u) = Inl e"
  using device_code_deletes [OF assms(1,2)] absent_device.token_later_moves [OF assms(3)] assms(4)
  by (intro no_device_refused) (simp add: kept_def)

text \<open>An approved backchannel request is redeemed at most once.\<close>

lemma ciba_request_redeemed_once:
  assumes "ciba_token X C r w = (Inr ts, v)" and "ciba.well_keyed (w_ciba w)"
    and "token_later X C v u" and "tr_auth_req_id r' = tr_auth_req_id r"
  shows "\<exists>e. fst (ciba_token X C r' u) = Inl e"
  using ciba_token_deletes [OF assms(1,2)] absent_ciba.token_later_moves [OF assms(3)] assms(4)
  by (intro no_ciba_refused) (simp add: kept_def)

subsection \<open>Witnesses\<close>

definition sample_device_request :: token_request where
  "sample_device_request = sample_request\<lparr>tr_grant_type := device_code_grant_type,
     tr_device_code := ''dc''\<rparr>"

definition sample_ciba_request :: token_request where
  "sample_ciba_request = sample_request\<lparr>tr_grant_type := ciba_grant_type, tr_auth_req_id := ''ar''\<rparr>"

definition sample_approved :: world where
  "sample_approved = sample_server\<lparr>w_ciba := ciba_approve ''hex.ar'' (w_ciba sample_server)\<rparr>"

lemma sample_polled_ok:
  "map_sum (\<lambda>_. ()) ts_scope
     (fst (device_code sample_services sample_config sample_device_request sample_approved)) = Inr ''openid''"
  "map_sum (\<lambda>_. ()) ts_scope
     (fst (ciba_token sample_services sample_config sample_ciba_request sample_approved)) = Inr ''openid''"
  by code_simp+

lemma sample_device_run:
  obtains ts v where
    "device_code sample_services sample_config sample_device_request sample_approved = (Inr ts, v)"
  using sample_polled_ok(1)
  by (cases "device_code sample_services sample_config sample_device_request sample_approved";
      cases "fst (device_code sample_services sample_config sample_device_request sample_approved)") auto

lemma sample_ciba_run:
  obtains ts v where
    "ciba_token sample_services sample_config sample_ciba_request sample_approved = (Inr ts, v)"
  using sample_polled_ok(2)
  by (cases "ciba_token sample_services sample_config sample_ciba_request sample_approved";
      cases "fst (ciba_token sample_services sample_config sample_ciba_request sample_approved)") auto

lemma device_grant_sound_witness:
  "\<exists>st. devices_find (w_devices sample_approved) (token_hash sample_services ''dc'') = Some st
     \<and> da_status st = Approved \<and> da_client_id st = ''rp''"
proof -
  obtain ts v where
    "device_code sample_services sample_config sample_device_request sample_approved = (Inr ts, v)"
    by (rule sample_device_run)
  from device_grant_sound [OF this] show ?thesis
    by (auto simp: sample_device_request_def sample_request_def)
qed

lemma device_code_redeemed_once_witness:
  "\<exists>v e. fst (device_code sample_services sample_config sample_device_request v) = Inl e"
proof -
  obtain ts v where
    "device_code sample_services sample_config sample_device_request sample_approved = (Inr ts, v)"
    by (rule sample_device_run)
  moreover have "devices.well_keyed (w_devices sample_approved)"
    by (auto simp: devices.well_keyed_def sample_approved_def sample_server_def devices_find_def
        sample_device_def split: if_splits)
  ultimately show ?thesis
    using device_code_redeemed_once [OF _ _ token_later.here refl] by blast
qed

lemma ciba_request_redeemed_once_witness:
  "\<exists>v e. fst (ciba_token sample_services sample_config sample_ciba_request v) = Inl e"
proof -
  obtain ts v where
    "ciba_token sample_services sample_config sample_ciba_request sample_approved = (Inr ts, v)"
    by (rule sample_ciba_run)
  moreover have "ciba.well_keyed (w_ciba sample_approved)"
    by (auto simp: ciba.well_keyed_def sample_approved_def sample_server_def ciba_approve_def
        ciba_find_def sample_ciba_def split: if_splits)
  ultimately show ?thesis
    using ciba_request_redeemed_once [OF _ _ token_later.here refl] by blast
qed

end
