(* ===== verification/EndpointGuard.thy ===== *)
theory EndpointGuard
  imports RefreshGrant PolledGrants
begin

text \<open>
  Guarantees common to the grants of the token endpoint: the client is known, active and
  authenticated, and a client that requires DPoP never gets a bearer token.
\<close>

subsection \<open>Lemmas\<close>

definition guarded :: "services \<Rightarrow> token_config \<Rightarrow> token_request \<Rightarrow> world \<Rightarrow> token_response \<Rightarrow> bool" where
  "guarded X C r w ts \<longleftrightarrow>
     (\<exists>c t. clients_find (w_clients w) (tr_client_id r) = Some c \<and> cl_is_active c
        \<and> proves_identity (effective_auth_method c) X c (presented C c r) t
        \<and> (cl_tls_bound_access_tokens c \<longrightarrow> presented_der r \<noteq> None)
        \<and> (tk_dpop C \<and> (cl_require_dpop c \<or> tr_dpop_proof r \<noteq> []) \<longrightarrow> ts_token_type ts = ''DPoP''))"

lemma guardedI:
  assumes "clients_find (w_clients w) (tr_client_id r) = Some c" and "cl_is_active c"
    and "token_authenticate X C c r w1 = (Inr (), w2)"
    and "evaluate_dpop X C c r j w3 = (Inr b, w4)"
    and "ts_token_type ts = (if db_bound b then ''DPoP'' else ''Bearer'')"
  shows "guarded X C r w ts"
proof -
  have "tk_dpop C \<Longrightarrow> \<not> db_bound b \<Longrightarrow> tr_dpop_proof r = [] \<and> \<not> cl_require_dpop c"
    using assms(4) by (auto simp: evaluate_dpop_def dest: evaluate_guard_unbound_means_no_proof)
  with assms token_authenticate_ok [OF assms(3)] show ?thesis unfolding guarded_def by auto
qed

lemma bare_token_ok:
  "bare_token X C r c s w = (Inr ts, v) \<Longrightarrow>
     \<exists>b w1 w2. evaluate_dpop X C c r [] w1 = (Inr b, w2)
       \<and> ts_token_type ts = (if db_bound b then ''DPoP'' else ''Bearer'')"
  unfolding bare_token_def andthen_Inr
  by (elim exE conjE) (auto simp: prog_simps token_success_def split: prod.splits)

lemma client_credentials_ok:
  "client_credentials X C r w = (Inr ts, v) \<Longrightarrow>
     \<exists>c w1. clients_find (w_clients w) (tr_client_id r) = Some c \<and> cl_is_active c
       \<and> cl_client_type c = Confidential \<and> token_authenticate X C c r w = (Inr (), w1)
       \<and> bare_token X C r c (cl_client_id c) w1 = (Inr ts, v)"
  unfolding client_credentials_def andthen_Inr active_client_ok ensure_iff
  by (elim exE conjE) (auto split: if_splits)

lemma client_credentials_guarded: "client_credentials X C r w = (Inr ts, v) \<Longrightarrow> guarded X C r w ts"
  by (auto dest!: client_credentials_ok bare_token_ok intro: guardedI)

lemma exchange_code_guarded: "exchange_code X C r w = (Inr ts, v) \<Longrightarrow> guarded X C r w ts"
proof (erule exchange_code_steps)
  fix ac c b refresh id_token access ttl w1 w2
  assume val: "validate_code_exchange X C ac r (w\<lparr>w_tick := Suc (w_tick w)\<rparr>) = (Inr c, w1)"
    and "evaluate_dpop X C c r (ac_dpop_jkt ac) w1 = (Inr b, w2)"
    and "ts = token_success id_token access ttl (ac_scopes ac) refresh b (granted_details X ac)"
  with validate_code_run [OF val] show ?thesis
    by (intro guardedI [of w r c]) (auto simp: token_success_def)
qed

lemma refresh_tokens_guarded: "refresh_tokens X C r w = (Inr ts, v) \<Longrightarrow> guarded X C r w ts"
  by (erule refresh_tokens_ok) (erule (3) guardedI; simp add: token_success_def)

lemma redeem_grant_type:
  "redeem_grant X C c g ctx b w = (Inr ts, v) \<Longrightarrow>
     ts_token_type ts = (if db_bound b then ''DPoP'' else ''Bearer'')"
  by (auto simp: redeem_grant_def prog_simps token_success_def split: prod.splits)

lemma device_code_guarded: "device_code X C r w = (Inr ts, v) \<Longrightarrow> guarded X C r w ts"
  by (erule device_code_ok) (erule (3) guardedI;
    auto simp: device_approved_flow_def run_simps dest: redeem_grant_type)

lemma ciba_token_guarded: "ciba_token X C r w = (Inr ts, v) \<Longrightarrow> guarded X C r w ts"
  by (erule ciba_token_ok) (erule (3) guardedI;
    auto simp: ciba_approved_flow_def run_simps dest: redeem_grant_type)

lemma resolve_pre_authorized_ok:
  "resolve_pre_authorized_code C k now w = (Inr ac, v) \<Longrightarrow>
     codes_find (w_codes w) k = Some ac \<and> ac_pre_authorized ac \<and> \<not> ac_is_consumed ac
     \<and> now \<le> ac_expires_at ac \<and> v = w"
  by (auto simp: resolve_pre_authorized_code_def find_code_def prog_simps split: option.splits if_splits)

lemma pre_authorized_ok:
  assumes "pre_authorized_code X C r w = (Inr ts, v)"
  obtains ac c b w2 w3 resources w4 t ttl where
    "codes_find (w_codes w) (tr_pre_authorized_code r) = Some ac" "ac_pre_authorized ac"
    "\<not> ac_is_consumed ac" "current w \<le> ac_expires_at ac"
    "clients_find (w_clients w) (tr_client_id r) = Some c" "cl_is_active c"
    "token_authenticate X C c r (w\<lparr>w_tick := Suc (w_tick w)\<rparr>) = (Inr (), w2)"
    "evaluate_dpop X C c r (ac_dpop_jkt ac) w2 = (Inr b, w3)"
    "ac_client_id ac = [] \<or> ac_client_id ac = cl_client_id c"
    "ac_tx_code_hash ac = [] \<or> (tr_tx_code r \<noteq> [] \<and> sv_sha256_hex X (tr_tx_code r) = ac_tx_code_hash ac)"
    "ts_token_type ts = (if db_bound b then ''DPoP'' else ''Bearer'')"
    "ts_scope ts = scope_string (ac_scopes ac)"
    "effective_resources X C r (ac_resource_uris ac) w3 = (Inr resources, w4)"
    "issue_access_token X C c ((code_grant X c r ac (current w) b resources)\<lparr>gr_details := []\<rparr>)
       (w4\<lparr>w_codes := codes_consume (ac_code ac) (w_codes w4)\<rparr>) = (Inr (t, ttl), v)"
    "ts = token_success [] t ttl (ac_scopes ac) [] b []"
proof -
  from assms obtain ac u where resolve: "resolve_pre_authorized_code C (tr_pre_authorized_code r)
      (current w) (w\<lparr>w_tick := Suc (w_tick w)\<rparr>) = (Inr ac, u)"
    unfolding pre_authorized_code_def andthen_world andthen_Inr by blast
  note ac = resolve_pre_authorized_ok [OF this]
  with assms resolve obtain c where c: "clients_find (w_clients w) (tr_client_id r) = Some c" "cl_is_active c"
    by (auto simp: pre_authorized_code_def run_simps find_client_def split: option.splits if_splits)
  from assms show ?thesis
    unfolding pre_authorized_code_def using resolve ac c
    by (simp add: run_simps find_client_def)
      (auto simp: prog_simps token_success_def Let_def consume_code_def split: if_splits intro!: that)
qed

lemma pre_authorized_guarded: "pre_authorized_code X C r w = (Inr ts, v) \<Longrightarrow> guarded X C r w ts"
  by (erule pre_authorized_ok) (erule (3) guardedI)

subsection \<open>Properties\<close>



text \<open>A pre-authorized code is honoured only if it was issued as one, is unused and
  unexpired, for the client it names if any and with its transaction code if it has one; an
  ordinary authorization code never passes.\<close>

lemma pre_authorized_sound:
  assumes "pre_authorized_code X C r w = (Inr ts, v)"
  shows "\<exists>ac c. codes_find (w_codes w) (tr_pre_authorized_code r) = Some ac \<and> ac_pre_authorized ac
    \<and> \<not> ac_is_consumed ac \<and> current w \<le> ac_expires_at ac
    \<and> clients_find (w_clients w) (tr_client_id r) = Some c
    \<and> (ac_client_id ac = [] \<or> ac_client_id ac = cl_client_id c)
    \<and> (ac_tx_code_hash ac \<noteq> [] \<longrightarrow> tr_tx_code r \<noteq> [] \<and> sv_sha256_hex X (tr_tx_code r) = ac_tx_code_hash ac)
    \<and> ts_scope ts = scope_string (ac_scopes ac)"
  using assms by (rule pre_authorized_ok) blast

definition sample_offer :: world where
  "sample_offer = sample_server\<lparr>w_codes := [(''p'', sample_code\<lparr>ac_code := ''p'', ac_pre_authorized := True,
     ac_tx_code_hash := ''hex.1234''\<rparr>)]\<rparr>"

definition sample_offer_request :: token_request where
  "sample_offer_request = sample_request\<lparr>tr_pre_authorized_code := ''p'', tr_tx_code := ''1234''\<rparr>"

lemma sample_offer_ok:
  "map_sum (\<lambda>_. ()) ts_token_type
     (fst (pre_authorized_code sample_services sample_config sample_offer_request sample_offer))
   = Inr ''Bearer''"
  by code_simp

lemma pre_authorized_sound_witness:
  "\<exists>ts v. pre_authorized_code sample_services sample_config sample_offer_request sample_offer = (Inr ts, v)
     \<and> ts_scope ts = scope_string {''openid'', ''offline_access''}"
proof -
  obtain ts v where run:
    "pre_authorized_code sample_services sample_config sample_offer_request sample_offer = (Inr ts, v)"
    using sample_offer_ok
    by (cases "pre_authorized_code sample_services sample_config sample_offer_request sample_offer";
        cases "fst (pre_authorized_code sample_services sample_config sample_offer_request sample_offer)")
      auto
  from pre_authorized_sound [OF this] run show ?thesis
    by (auto simp: sample_offer_def sample_offer_request_def codes_find_def sample_code_def)
qed

end
