(* ===== verification/ResourceAccess.thy ===== *)
theory ResourceAccess
  imports Tokens
begin

text \<open>
  What accepts an access token: \<open>application/introspect.py\<close>, \<open>application/userinfo.py\<close>,
  \<open>application/protected_resource.py\<close>; and \<open>application/revocation.py\<close>, which withdraws one.
\<close>

subsection \<open>Validation of a token of this server\<close>

definition validate_access_token :: "services \<Rightarrow> str \<Rightarrow> str
    \<Rightarrow> (world, 'e, (str \<times> json) list option) prog" where
  "validate_access_token X token issuer =
     andthen now_utc (\<lambda>t. ok (sv_server_token_claims X token issuer False t))"

definition py_text :: "services \<Rightarrow> json \<Rightarrow> str" where
  "py_text X v = (case v of JStr s \<Rightarrow> s | _ \<Rightarrow> sv_py_str X v)"

definition py_text_of :: "services \<Rightarrow> (str \<times> json) list \<Rightarrow> str \<Rightarrow> str" where
  "py_text_of X claims name = (case map_of claims name of None \<Rightarrow> [] | Some v \<Rightarrow> py_text X v)"

definition access_token_hash :: "services \<Rightarrow> str \<Rightarrow> str" where
  "access_token_hash X token = sv_sha256_b64 X token"

subsection \<open>Revocation\<close>

text \<open>
  \<open>int(exp)\<close> of a number truncates towards zero; a JSON boolean is a Python number.  The result
  is \<open>Inl\<close> for the escaping \<open>ValueError\<close> of a date out of range.
\<close>

fun exp_seconds :: "json \<Rightarrow> int option" where
  "exp_seconds (JInt i) = Some i"
| "exp_seconds (JFloat q) = Some (if q < 0 then \<lceil>q\<rceil> else \<lfloor>q\<rfloor>)"
| "exp_seconds (JBool b) = Some (if b then 1 else 0)"
| "exp_seconds _ = None"

definition token_expiry :: "(str \<times> json) list \<Rightarrow> failure + instant option" where
  "token_expiry claims =
     (case Option.bind (map_of claims ''exp'') exp_seconds of
        None \<Rightarrow> Inr None
      | Some e \<Rightarrow>
         (case from_timestamp (of_int e) of
            None \<Rightarrow> Inl (Uncaught ''ValueError'')
          | Some t \<Rightarrow> Inr (Some t)))"

record token_query =
  tq_token :: str
  tq_client_id :: str
  tq_client_secret :: str

definition purge_revoked :: "(world, failure, unit) prog" where
  "purge_revoked = andthen now_utc (\<lambda>t. modify (\<lambda>w. w\<lparr>w_revoked := revoked_purge t (w_revoked w)\<rparr>))"

definition revoke_token :: "services \<Rightarrow> str \<Rightarrow> token_query \<Rightarrow> (world, failure, unit) prog" where
  "revoke_token X issuer q =
     andthen (ensure (tq_token q \<noteq> [])
       (Refused ''invalid_request'' ''Parametre 'token' manquant ou vide'')) (\<lambda>_.
     andthen (peek (authenticate_confidential_client X (tq_client_id q) (tq_client_secret q))) (\<lambda>known.
     andthen (ensure known
       (Refused ''invalid_client'' ''Client de revocation inconnu, desactive ou secret invalide'')) (\<lambda>_.
     andthen purge_revoked (\<lambda>_.
     andthen (validate_access_token X (tq_token q) issuer) (\<lambda>found.
     case found of
       None \<Rightarrow> ok ()
     | Some claims \<Rightarrow>
         andthen (lift (token_expiry claims)) (\<lambda>expiry.
         case expiry of
           None \<Rightarrow> ok ()
         | Some expires_at \<Rightarrow>
             andthen now_utc (\<lambda>now.
             if expires_at \<le> now then ok ()
             else andthen now_utc (\<lambda>seen.
               modify (\<lambda>w. w\<lparr>w_revoked := revoked_save \<lparr>rv_token_hash = token_hash X (tq_token q),
                 rv_expires_at = expires_at, rv_revoked_at = seen\<rparr> (w_revoked w)\<rparr>)))))))))"

subsection \<open>Introspection\<close>

definition confirmed_key :: "(str \<times> json) list \<Rightarrow> str" where
  "confirmed_key claims =
     (case map_of claims ''cnf'' of
        Some (JObj cnf) \<Rightarrow> (case jget_str cnf ''jkt'' of Some k \<Rightarrow> k | None \<Rightarrow> [])
      | _ \<Rightarrow> [])"

definition introspected_names :: "str list" where
  "introspected_names = [''iss'', ''sub'', ''aud'', ''exp'', ''iat'', ''scope'']"

definition introspection_extras :: "(str \<times> json) list \<Rightarrow> (str \<times> json) list" where
  "introspection_extras claims =
     (case map_of claims ''aud'' of Some (JStr a) \<Rightarrow> [(''client_id'', JStr a)] | _ \<Rightarrow> [])
     @ (case map_of claims ''preferred_username'' of
          Some v \<Rightarrow> [(''username'', v)]
        | None \<Rightarrow> (case map_of claims ''sub'' of Some v \<Rightarrow> [(''username'', v)] | None \<Rightarrow> []))
     @ (case map_of claims ''cnf'' of Some (JObj cnf) \<Rightarrow> [(''cnf'', JObj cnf)] | _ \<Rightarrow> [])
     @ [(''token_type'', JStr (if confirmed_key claims \<noteq> [] then ''DPoP'' else ''Bearer''))]"

definition select_claims :: "(str \<times> json) list \<Rightarrow> (str \<times> json) list" where
  "select_claims claims =
     map (\<lambda>n. (n, the (map_of claims n))) (filter (\<lambda>n. map_of claims n \<noteq> None) introspected_names)
     @ introspection_extras claims"

text \<open>\<open>IntrospectResponse\<close>: the claims when the token is active, \<open>None\<close> otherwise.\<close>

definition introspect_token :: "services \<Rightarrow> str \<Rightarrow> token_query
    \<Rightarrow> (world, failure, (str \<times> json) list option) prog" where
  "introspect_token X issuer q =
     andthen (ensure (tq_token q \<noteq> [])
       (Refused ''invalid_request'' ''Parametre 'token' manquant ou vide'')) (\<lambda>_.
     andthen (peek (authenticate_confidential_client X (tq_client_id q) (tq_client_secret q))) (\<lambda>known.
     andthen (ensure known
       (Refused ''invalid_client'' ''Client d'introspection inconnu, desactive ou secret invalide'')) (\<lambda>_.
     andthen (validate_access_token X (tq_token q) issuer) (\<lambda>found.
     case found of
       None \<Rightarrow> ok None
     | Some claims \<Rightarrow>
         andthen (peek (\<lambda>w. is_revoked (w_revoked w) (token_hash X (tq_token q)))) (\<lambda>revoked.
         ok (if revoked then None else Some (select_claims claims)))))))"

subsection \<open>Presentation of a token to a resource\<close>

text \<open>
  An error of RFC 6750 carries a challenge for the \<open>WWW-Authenticate\<close> header; an escaping
  exception is \<open>AccessCrash\<close>.
\<close>

datatype access_failure = AccessError str str str | AccessCrash str

record token_presentation =
  tp_access_token :: str
  tp_auth_scheme :: str
  tp_dpop_proof :: str
  tp_htu :: str
  tp_htm :: str
  tp_tls_certificate :: "client_certificate option"

definition dpop_challenge_invalid :: str where
  "dpop_challenge_invalid = ''DPoP error=\"invalid_token\"''"

definition proof_challenge :: str where
  "proof_challenge = ''DPoP error=\"invalid_dpop_proof\"''"

text \<open>The two use cases word the same check with the paragraph of RFC 9449 they refer to.\<close>

definition validate_dpop_binding :: "services \<Rightarrow> bool \<Rightarrow> str \<Rightarrow> token_presentation
    \<Rightarrow> (str \<times> json) list \<Rightarrow> (world, access_failure, unit) prog" where
  "validate_dpop_binding X dpop paragraph q claims =
     (if confirmed_key claims = [] then ok ()
      else if tp_auth_scheme q \<noteq> ''dpop'' then
        raise (AccessError ''invalid_token''
          (''Jeton lie a une cle DPoP : scheme 'DPoP' exige (RFC 9449 par. '' @ paragraph @ '')'')
          dpop_challenge_invalid)
      else if \<not> dpop then
        raise (AccessError ''invalid_token'' ''Validation DPoP indisponible : jeton lie refuse''
          dpop_challenge_invalid)
      else if tp_dpop_proof q = [] then
        raise (AccessError ''invalid_token'' ''Preuve DPoP requise pour ce jeton (RFC 9449 par. 7.1)''
          dpop_challenge_invalid)
      else (\<lambda>w. case validate_proof X (tp_dpop_proof q) (tp_htu q) (tp_htm q)
                    (access_token_hash X (tp_access_token q)) w of
           (Inl (Refused e d), v) \<Rightarrow> (Inl (AccessError ''invalid_dpop_proof'' d proof_challenge), v)
         | (Inl (Uncaught e), v) \<Rightarrow> (Inl (AccessCrash e), v)
         | (Inr p, v) \<Rightarrow>
             if pf_jkt p \<noteq> confirmed_key claims
             then (Inl (AccessError ''invalid_dpop_proof''
               (''Preuve DPoP sans la cle liee au jeton (RFC 9449 par. '' @ paragraph @ '')'')
               proof_challenge), v)
             else (Inr (), v)))"

text \<open>The checks common to UserInfo and to the protected resource.\<close>

definition accept_token :: "services \<Rightarrow> str \<Rightarrow> bool \<Rightarrow> str \<Rightarrow> token_presentation
    \<Rightarrow> (world, access_failure, (str \<times> json) list) prog" where
  "accept_token X issuer dpop paragraph q =
     andthen (validate_access_token X (tp_access_token q) issuer) (\<lambda>found.
     case found of
       None \<Rightarrow> raise (AccessError ''invalid_token''
         ''Access token invalide, expire ou de l'emetteur inattendu'' [])
     | Some claims \<Rightarrow>
         andthen (peek (\<lambda>w. is_revoked (w_revoked w) (token_hash X (tp_access_token q)))) (\<lambda>revoked.
         andthen (ensure (\<not> revoked) (AccessError ''invalid_token'' ''Access token revoque'' [])) (\<lambda>_.
         let certificate_error = certificate_binding_error X claims (tp_tls_certificate q) in
         andthen (ensure (certificate_error = []) (AccessError ''invalid_token'' certificate_error [])) (\<lambda>_.
         andthen (validate_dpop_binding X dpop paragraph q claims) (\<lambda>_. ok claims)))))"

text \<open>\<open>application/protected_resource.py\<close>\<close>

definition protected_resource :: "services \<Rightarrow> str \<Rightarrow> bool \<Rightarrow> token_presentation
    \<Rightarrow> (world, access_failure, str \<times> str) prog" where
  "protected_resource X issuer dpop q =
     andthen (accept_token X issuer dpop ''7.1'' q) (\<lambda>claims.
     ok (py_text_of X claims ''sub'', py_text_of X claims ''scope''))"

subsection \<open>UserInfo\<close>

text \<open>The configuration and the optional collaborators the use case was given.\<close>

record userinfo_config =
  ui_issuer :: str
  ui_subject_seed :: str
  ui_identity_resources :: bool
  ui_dpop :: bool
  ui_clients :: bool
  ui_identity_assurance :: "bool option"

record userinfo_response =
  ur_claims :: "(str \<times> json) list"
  ur_signed_jwt :: str

definition userinfo_signing_alg :: "client \<Rightarrow> str" where
  "userinfo_signing_alg c =
     (if cl_userinfo_signed_response_alg c \<notin> set userinfo_signing_algorithms then []
      else cl_userinfo_signed_response_alg c)"

definition emitting_client :: "userinfo_config \<Rightarrow> (str \<times> json) list \<Rightarrow> world \<Rightarrow> client option" where
  "emitting_client U claims w =
     (case jget_str claims ''client_id'' of
        None \<Rightarrow> None
      | Some cid \<Rightarrow> (if cid = [] \<or> \<not> ui_clients U then None else clients_find (w_clients w) cid))"

definition displayed_sub :: "services \<Rightarrow> userinfo_config \<Rightarrow> client option \<Rightarrow> str
    \<Rightarrow> (str \<times> json) list \<Rightarrow> str option" where
  "displayed_sub X U found subject claims =
     (case found of
        None \<Rightarrow> Some subject
      | Some c \<Rightarrow> display_subject X c subject
          (case jget_str claims ''subject_material'' of Some m \<Rightarrow> m | None \<Rightarrow> []) (ui_subject_seed U))"

definition userinfo_verified_claims :: "services \<Rightarrow> userinfo_config \<Rightarrow> world \<Rightarrow> (str \<times> json) list
    \<Rightarrow> str \<Rightarrow> (str \<times> json) list option" where
  "userinfo_verified_claims X U w claims subject =
     (case ui_identity_assurance U of
        None \<Rightarrow> None
      | Some provider \<Rightarrow>
         (case verified_claims_request_from_payload X (map_of claims ''claims'') of
            None \<Rightarrow> None
          | Some r \<Rightarrow> resolve_verified_claims provider w r subject))"

definition rendered_claims :: "services \<Rightarrow> userinfo_config \<Rightarrow> world \<Rightarrow> (str \<times> json) list
    \<Rightarrow> str \<Rightarrow> (str \<times> json) list" where
  "rendered_claims X U w claims subject =
     (let allowed = allowed_scope_claims (ui_identity_resources U) w (py_text_of X claims ''scope'')
            \<union> requested_userinfo_claims X (map_of claims ''claims'');
          plain = dict_pop verified_claims_member
            (filter (\<lambda>(n, _). n \<in> allowed) (get_claims w subject))
      in case userinfo_verified_claims X U w claims subject of
           None \<Rightarrow> plain
         | Some v \<Rightarrow> dict_set verified_claims_member (JObj v) plain)"

definition sign_userinfo :: "services \<Rightarrow> userinfo_config \<Rightarrow> client option \<Rightarrow> (str \<times> json) list
    \<Rightarrow> (world, access_failure, userinfo_response) prog" where
  "sign_userinfo X U found body =
     (case Option.bind found (\<lambda>c. map_option (Pair c) (algorithm_of (userinfo_signing_alg c))) of
        None \<Rightarrow> ok \<lparr>ur_claims = body, ur_signed_jwt = []\<rparr>
      | Some (c, alg) \<Rightarrow>
          (\<lambda>w. case create_userinfo_jwt X (ui_issuer U) (cl_client_id c) alg body w of
             (Inl (Refused e d), v) \<Rightarrow> (Inl (AccessError e d []), v)
           | (Inl (Uncaught e), v) \<Rightarrow> (Inl (AccessCrash e), v)
           | (Inr t, v) \<Rightarrow> (Inr \<lparr>ur_claims = body, ur_signed_jwt = t\<rparr>, v)))"

definition userinfo :: "services \<Rightarrow> userinfo_config \<Rightarrow> token_presentation
    \<Rightarrow> (world, access_failure, userinfo_response) prog" where
  "userinfo X U q =
     andthen (accept_token X (ui_issuer U) (ui_dpop U) ''7.2'' q) (\<lambda>claims.
     case jget claims ''sub'' of
       None \<Rightarrow> raise (AccessError ''invalid_token'' ''Claim 'sub' manquante'' [])
     | Some sub \<Rightarrow>
         let subject = py_text X sub in
         andthen (peek (\<lambda>w. (emitting_client U claims w, rendered_claims X U w claims subject)))
           (\<lambda>(found, rendered).
         case displayed_sub X U found subject claims of
           None \<Rightarrow> raise (AccessCrash ''ValueError'')
         | Some shown \<Rightarrow>
             sign_userinfo X U found (dict_update rendered [(''sub'', JStr shown)])))"

end
