(* ===== verification/ResourceGuards.thy ===== *)
theory ResourceGuards
  imports ResourceAccess TokenFrame SampleServer
begin

text \<open>
  What introspection, UserInfo and the protected resource share: a token is served only while it
  validates and is not on the denylist; a revoked token is served by none of them any more; a
  token bound to a key or a certificate is served only with them.
\<close>

subsection \<open>The contract of a consumer of tokens\<close>

locale token_consumer =
  fixes X :: services and issuer :: str
    and serve :: "'q \<Rightarrow> (world, 'e, 'a) prog"
    and token :: "'q \<Rightarrow> str" and accepted :: "'a \<Rightarrow> bool"
  assumes serve_valid: "serve q w = (Inr a, v) \<Longrightarrow> accepted a \<Longrightarrow>
      sv_server_token_claims X (token q) issuer False (current w) \<noteq> None"
    and serve_unrevoked: "serve q w = (Inr a, v) \<Longrightarrow> accepted a \<Longrightarrow>
      \<not> is_revoked (w_revoked w) (token_hash X (token q))"
    and serve_moves: "lenient R \<Longrightarrow> moves R (serve q)"
begin

lemma serve_clock: "serve q w = (res, v) \<Longrightarrow> later_clock w v \<and> w_revoked v = w_revoked w"
  using serve_moves [OF lenient_later, THEN movesD]
    serve_moves [of "same w_revoked", OF lenient_same, THEN movesD]
  by (auto simp: same_def)

end

lemma validate_access_token_run:
  "validate_access_token X t i w =
     (Inr (sv_server_token_claims X t i False (current w)), w\<lparr>w_tick := Suc (w_tick w)\<rparr>)"
  by (simp add: validate_access_token_def run_simps)

lemma andthen_validate [run_simps]:
  "andthen (validate_access_token X t i) f w =
     f (sv_server_token_claims X t i False (current w)) (w\<lparr>w_tick := Suc (w_tick w)\<rparr>)"
  by (simp add: andthen_def validate_access_token_run)

lemma lenient_validate_access [moves_intros]: "lenient R \<Longrightarrow> moves R (validate_access_token X t i)"
  unfolding validate_access_token_def by (intro moves_intros)

lemma moves_snd: "moves R m \<Longrightarrow> (\<And>w. snd (n w) = snd (m w)) \<Longrightarrow> moves R n"
  by (simp add: moves_def)

lemma lenient_binding [moves_intros]: "lenient R \<Longrightarrow> moves R (validate_dpop_binding X d p q claims)"
proof -
  assume l: "lenient R"
  have "moves R (validate_proof X (tp_dpop_proof q) (tp_htu q) (tp_htm q)
      (access_token_hash X (tp_access_token q)))"
    using l by (intro moves_intros)
  then have "moves R (\<lambda>w. case validate_proof X (tp_dpop_proof q) (tp_htu q) (tp_htm q)
      (access_token_hash X (tp_access_token q)) w of
           (Inl (Refused e d), v) \<Rightarrow> (Inl (AccessError ''invalid_dpop_proof'' d proof_challenge), v)
         | (Inl (Uncaught e), v) \<Rightarrow> (Inl (AccessCrash e), v)
         | (Inr p, v) \<Rightarrow>
             if pf_jkt p \<noteq> confirmed_key claims
             then (Inl (AccessError ''invalid_dpop_proof'' m proof_challenge), v)
             else (Inr (), v))" for m
    by (rule moves_snd) (simp split: prod.splits sum.splits failure.splits)
  with l show ?thesis
    unfolding validate_dpop_binding_def by (intro moves_intros)
qed

lemma lenient_accept [moves_intros]: "lenient R \<Longrightarrow> moves R (accept_token X i d p q)"
  unfolding accept_token_def by (intro moves_intros)

lemma lenient_sign_userinfo [moves_intros]: "lenient R \<Longrightarrow> moves R (sign_userinfo X U c body)"
proof -
  assume l: "lenient R"
  have jwt: "moves R (create_userinfo_jwt X i cid alg body)" for i cid alg
    using l unfolding create_userinfo_jwt_def sign_payload_def by (intro moves_intros)
  have "moves R (\<lambda>w. case create_userinfo_jwt X i cid alg body w of
             (Inl (Refused e d), v) \<Rightarrow> (Inl (AccessError e d []), v)
           | (Inl (Uncaught e), v) \<Rightarrow> (Inl (AccessCrash e), v)
           | (Inr t, v) \<Rightarrow> (Inr \<lparr>ur_claims = body, ur_signed_jwt = t\<rparr>, v))" for i cid alg
    by (rule moves_snd [OF jwt [of i cid alg]]) (simp split: prod.splits sum.splits failure.splits)
  with l show ?thesis
    unfolding sign_userinfo_def by (intro moves_intros)
qed

lemma accept_token_ok:
  "accept_token X i d p q w = (Inr claims, v) \<Longrightarrow>
     sv_server_token_claims X (tp_access_token q) i False (current w) = Some claims
     \<and> \<not> is_revoked (w_revoked w) (token_hash X (tp_access_token q))
     \<and> certificate_binding_error X claims (tp_tls_certificate q) = []
     \<and> validate_dpop_binding X d p q claims (w\<lparr>w_tick := Suc (w_tick w)\<rparr>) = (Inr (), v)"
  by (auto simp: accept_token_def prog_simps run_simps Let_def split: option.splits if_splits)

interpretation introspection: token_consumer X issuer "introspect_token X issuer" tq_token
  "\<lambda>a. a \<noteq> None" for X issuer
proof (unfold_locales, goal_cases)
  case (3 R q)
  then show ?case unfolding introspect_token_def by (intro moves_intros)
qed (auto simp: introspect_token_def prog_simps run_simps split: option.splits if_splits)

interpretation resource: token_consumer X issuer "protected_resource X issuer dpop" tp_access_token
  "\<lambda>_. True" for X issuer dpop
proof (unfold_locales, goal_cases)
  case (3 R q)
  then show ?case unfolding protected_resource_def by (intro moves_intros)
qed (auto simp: protected_resource_def prog_simps dest: accept_token_ok)

interpretation userinfo: token_consumer X "ui_issuer U" "userinfo X U" tp_access_token
  "\<lambda>_. True" for X U
proof (unfold_locales, goal_cases)
  case (3 R q)
  then show ?case unfolding userinfo_def by (intro moves_intros)
qed (auto simp: userinfo_def prog_simps dest: accept_token_ok)

subsection \<open>Withdrawn tokens\<close>

text \<open>
  What PyJWT guarantees of a token with expiry \<open>e\<close>: it is refused from that instant on, and
  decoding it always gives the same expiry.
\<close>

definition exp_enforced :: "services \<Rightarrow> str \<Rightarrow> str \<Rightarrow> instant \<Rightarrow> bool" where
  "exp_enforced X issuer token e \<longleftrightarrow>
     (\<forall>t. e \<le> t \<longrightarrow> sv_server_token_claims X token issuer False t = None)
     \<and> (\<forall>t claims. sv_server_token_claims X token issuer False t = Some claims
          \<longrightarrow> token_expiry claims = Inr (Some e))"

definition withdrawn :: "services \<Rightarrow> str \<Rightarrow> instant \<Rightarrow> world \<Rightarrow> bool" where
  "withdrawn X token e w \<longleftrightarrow> dict_ok (w_revoked w) \<and> mono (w_clock w) \<and>
     (revoked.guards (w_revoked w) (token_hash X token) (e - 1) \<or> e \<le> current w)"

text \<open>Requests to the four endpoints, in any order and number.\<close>

inductive access_later :: "services \<Rightarrow> str \<Rightarrow> bool \<Rightarrow> userinfo_config \<Rightarrow> world \<Rightarrow> world \<Rightarrow> bool"
  for X issuer dpop U where
  here: "access_later X issuer dpop U w w"
| revoke: "access_later X issuer dpop U w v \<Longrightarrow> revoke_token X issuer q v = (r1, u)
    \<Longrightarrow> access_later X issuer dpop U w u"
| introspect: "access_later X issuer dpop U w v \<Longrightarrow> introspect_token X issuer q v = (r2, u)
    \<Longrightarrow> access_later X issuer dpop U w u"
| resource: "access_later X issuer dpop U w v \<Longrightarrow> protected_resource X issuer dpop p v = (r3, u)
    \<Longrightarrow> access_later X issuer dpop U w u"
| userinfo: "access_later X issuer dpop U w v \<Longrightarrow> userinfo X U p v = (r4, u)
    \<Longrightarrow> access_later X issuer dpop U w u"

lemma withdrawn_later:
  "withdrawn X token e w \<Longrightarrow> later_clock w v \<and> w_revoked v = w_revoked w \<Longrightarrow> withdrawn X token e v"
  by (auto simp: withdrawn_def later_clock_def current_def dest: monoD)

lemma withdrawn_purge:
  assumes "withdrawn X token e w"
  shows "withdrawn X token e (w\<lparr>w_tick := Suc (w_tick w), w_revoked := revoked_purge (current w) (w_revoked w)\<rparr>)"
proof (cases "e \<le> current w")
  case True
  with assms show ?thesis
    by (auto simp: withdrawn_def current_def revoked.dl_invar_purge dest!: monoD [of _ "w_tick w" "Suc (w_tick w)"])
next
  case False
  with assms have "revoked.guards (w_revoked w) (token_hash X token) (e - 1)" "current w \<le> e - 1"
    by (auto simp: withdrawn_def)
  with assms show ?thesis
    by (simp add: withdrawn_def revoked.dl_invar_purge revoked.purge_guards)
qed

lemma withdrawn_save:
  assumes "withdrawn X token e w" and "rv_token_hash entry = token_hash X token \<Longrightarrow> rv_expires_at entry = e"
  shows "withdrawn X token e (w\<lparr>w_revoked := revoked_save entry (w_revoked w)\<rparr>)"
  using assms
  by (auto simp: withdrawn_def current_def revoked.dl_invar_save intro!: revoked.save_guards)

lemma withdrawn_tick: "withdrawn X token e w \<Longrightarrow> withdrawn X token e (w\<lparr>w_tick := Suc (w_tick w)\<rparr>)"
  by (erule withdrawn_later) (simp add: later_clock_def)

lemma kept_withdrawn:
  "lenient (kept (withdrawn X token e))"
  "moves (kept (withdrawn X token e)) purge_revoked"
proof -
  have "withdrawn X token e w \<Longrightarrow> withdrawn X token e (w\<lparr>w_tick := w_tick w + n\<rparr>)" for w n
    by (erule withdrawn_later) (simp add: later_clock_def)
  then show "lenient (kept (withdrawn X token e))"
    by (rule lenient_kept) (auto simp: withdrawn_def current_def)
  show "moves (kept (withdrawn X token e)) purge_revoked"
    using withdrawn_purge by (simp add: moves_def kept_def purge_revoked_def run_simps modify_def)
qed

lemma revoke_save_moves:
  assumes "rv_token_hash (entry 0) = token_hash X token \<Longrightarrow> rv_expires_at (entry 0) = e"
    and "\<And>t. entry t = (entry 0)\<lparr>rv_revoked_at := t\<rparr>"
  shows "moves (kept (withdrawn X token e)) (andthen now_utc (\<lambda>now. if b now then ok ()
     else andthen now_utc (\<lambda>t. modify (\<lambda>w. w\<lparr>w_revoked := revoked_save (entry t) (w_revoked w)\<rparr>))))"
proof -
  have "rv_token_hash (entry t) = token_hash X token \<Longrightarrow> rv_expires_at (entry t) = e" for t
    using assms(1) assms(2) [of t] by simp
  then show ?thesis
    by (intro moves_intros kept_withdrawn moves_modify) (simp add: kept_def withdrawn_save)
qed

lemma revoke_keeps_withdrawn:
  assumes "exp_enforced X issuer token e" and "inj (sv_sha256_hex X)"
  shows "moves (kept (withdrawn X token e)) (revoke_token X issuer q)"
proof -
  let ?R = "kept (withdrawn X token e)"
  have same: "tq_token q = token" if "token_hash X (tq_token q) = token_hash X token"
    using that assms(2) by (simp add: token_hash_def inj_eq)
  have "moves ?R (case found of None \<Rightarrow> ok ()
     | Some claims \<Rightarrow> andthen (lift (token_expiry claims)) (\<lambda>expiry.
         case expiry of None \<Rightarrow> ok ()
         | Some expires_at \<Rightarrow>
             andthen now_utc (\<lambda>now.
             if expires_at \<le> now then ok ()
             else andthen now_utc (\<lambda>seen.
               modify (\<lambda>w. w\<lparr>w_revoked := revoked_save \<lparr>rv_token_hash = token_hash X (tq_token q),
                 rv_expires_at = expires_at, rv_revoked_at = seen\<rparr> (w_revoked w)\<rparr>)))))"
    if decoded: "found = sv_server_token_claims X (tq_token q) issuer False t" for found t
  proof (cases found)
    case (Some claims)
    show ?thesis
    proof (cases "\<exists>x. token_expiry claims = Inr (Some x)")
      case True
      then obtain x where x: "token_expiry claims = Inr (Some x)" ..
      have "x = e" if "token_hash X (tq_token q) = token_hash X token"
        using that same Some decoded x assms(1) by (auto simp: exp_enforced_def)
      then have "moves ?R (andthen now_utc (\<lambda>now. if x \<le> now then ok ()
          else andthen now_utc (\<lambda>seen.
            modify (\<lambda>w. w\<lparr>w_revoked := revoked_save \<lparr>rv_token_hash = token_hash X (tq_token q),
              rv_expires_at = x, rv_revoked_at = seen\<rparr> (w_revoked w)\<rparr>))))"
        by (intro revoke_save_moves) simp_all
      with Some x show ?thesis by (simp add: moves_def andthen_elementary(4))
    next
      case False
      with Some show ?thesis
        by (cases "token_expiry claims")
          (auto simp: moves_def run_simps kept_def split: option.splits)
    qed
  qed (simp add: moves_def run_simps kept_def)
  then show ?thesis
    unfolding revoke_token_def
    by (intro moves_found [where m = "validate_access_token X t i" for t i] moves_intros kept_withdrawn)
      (auto simp: validate_access_token_run moves_def)
qed

lemma withdrawn_access_later:
  assumes "access_later X issuer dpop U w v" and "withdrawn X token e w"
    and "exp_enforced X issuer token e" and "inj (sv_sha256_hex X)"
  shows "withdrawn X token e v"
  using assms
proof (induction rule: access_later.induct)
  case (revoke w v q r1 u)
  have "kept (withdrawn X token e) v u"
    using revoke_keeps_withdrawn [OF revoke.prems(2,3)] revoke.hyps(2) by (rule movesD)
  with revoke show ?case by (simp add: kept_def)
next
  case (introspect w v q r2 u)
  then show ?case using introspection.serve_clock withdrawn_later by blast
next
  case (resource w v p r3 u)
  then show ?case using resource.serve_clock withdrawn_later by blast
next
  case (userinfo w v p r4 u)
  then show ?case using userinfo.serve_clock withdrawn_later by blast
qed

context token_consumer
begin

lemma withdrawn_refused:
  assumes "withdrawn X (token q) e w" and "exp_enforced X issuer (token q) e"
    and "serve q w = (Inr a, v)"
  shows "\<not> accepted a"
proof
  assume "accepted a"
  with serve_valid [OF assms(3)] serve_unrevoked [OF assms(3)]
  have "sv_server_token_claims X (token q) issuer False (current w) \<noteq> None"
    "\<not> is_revoked (w_revoked w) (token_hash X (token q))" by blast+
  with assms(1,2) show False
    by (auto simp: withdrawn_def exp_enforced_def dest: revoked.guards_member)
qed

end

lemma purge_revoked_run [run_simps]:
  "andthen purge_revoked f w =
     f () (w\<lparr>w_tick := Suc (w_tick w), w_revoked := revoked_purge (current w) (w_revoked w)\<rparr>)"
  by (simp add: andthen_def purge_revoked_def now_utc_def modify_def)

lemma revoke_withdraws:
  assumes "revoke_token X issuer q w = (Inr (), v)"
    and "sv_server_token_claims X (tq_token q) issuer False (w_clock w (Suc (w_tick w))) = Some claims"
    and "token_expiry claims = Inr (Some e)" and "mono (w_clock w)" and "dict_ok (w_revoked w)"
  shows "withdrawn X (tq_token q) e v"
proof -
  have ok: "dict_ok (revoked_purge t (w_revoked w))" for t
    using assms(5) by (rule revoked.dl_invar_purge)
  have "w_clock w (Suc (Suc (w_tick w))) \<le> w_clock w (Suc (Suc (Suc (w_tick w))))"
    using assms(4) by (rule incseq_SucD)
  with assms ok show ?thesis
    by (auto simp: revoke_token_def run_simps modify_def current_def withdrawn_def revoked.guards_def
        revoked.dl_save revoked.dl_invar_save split: if_splits)
qed

lemma map_of_selected:
  "map_of (map (\<lambda>n. (n, the (map_of d n))) (filter (\<lambda>n. \<exists>y. map_of d n = Some y) ns)) k =
     (if k \<in> set ns then map_of d k else None)"
  by (induction ns) auto

lemma introspection_extras_keys:
  "fst ` set (introspection_extras claims) \<subseteq> {''client_id'', ''username'', ''cnf'', ''token_type''}"
  unfolding introspection_extras_def by (auto split: option.splits json.splits)

lemma introspection_extras_type:
  "map_of (introspection_extras claims) ''token_type'' =
     Some (JStr (if confirmed_key claims \<noteq> [] then ''DPoP'' else ''Bearer''))"
proof -
  have "map_of (case x of Some (JStr a) \<Rightarrow> [(''client_id'', JStr a)] | _ \<Rightarrow> []) ''token_type'' = None"
    "map_of (case y of Some v \<Rightarrow> [(''username'', v)]
        | None \<Rightarrow> (case z of Some v \<Rightarrow> [(''username'', v :: json)] | None \<Rightarrow> [])) ''token_type'' = None"
    "map_of (case x of Some (JObj cnf) \<Rightarrow> [(''cnf'', JObj cnf)] | _ \<Rightarrow> []) ''token_type'' = None"
    for x y z by (auto split: option.splits json.splits)
  then show ?thesis by (simp add: introspection_extras_def map_add_def)
qed

definition profile :: "world \<Rightarrow> (str \<times> (str \<times> json) list) list \<times> (str \<times> identity_resource) list \<times> (str \<times> client) list" where
  "profile w = (w_users w, w_identity w, w_clients w)"

lemma rendered_claims_profile:
  "profile v = profile w \<Longrightarrow> rendered_claims X U v claims s = rendered_claims X U w claims s"
  "profile v = profile w \<Longrightarrow> emitting_client U claims v = emitting_client U claims w"
  by (simp_all add: profile_def rendered_claims_def emitting_client_def get_claims_def
      allowed_scope_claims_def userinfo_verified_claims_def resolve_verified_claims_def
      cong: if_cong option.case_cong)

lemma rendered_claims_ok: "dict_ok (get_claims w s) \<Longrightarrow> dict_ok (rendered_claims X U w claims s)"
  by (simp add: rendered_claims_def Let_def dict_ok_filter split: option.split)

lemma rendered_claims_get:
  assumes "dict_ok (get_claims w s)" and "n \<noteq> verified_claims_member"
  shows "map_of (rendered_claims X U w claims s) n =
    (if n \<in> allowed_scope_claims (ui_identity_resources U) w (py_text_of X claims ''scope'')
         \<union> requested_userinfo_claims X (map_of claims ''claims'')
     then map_of (get_claims w s) n else None)"
  using assms by (simp add: rendered_claims_def Let_def map_of_filter_keys split: option.split)

lemma rendered_verified:
  "map_of (rendered_claims X U w claims s) verified_claims_member =
     map_option JObj (userinfo_verified_claims X U w claims s)"
  by (simp add: rendered_claims_def Let_def split: option.split)

lemma userinfo_ok:
  assumes "userinfo X U q w = (Inr a, v)"
  obtains claims sub shown w1 where
    "accept_token X (ui_issuer U) (ui_dpop U) ''7.2'' q w = (Inr claims, w1)"
    "jget claims ''sub'' = Some sub"
    "displayed_sub X U (emitting_client U claims w1) (py_text X sub) claims = Some shown"
    "ur_claims a = dict_update (rendered_claims X U w1 claims (py_text X sub)) [(''sub'', JStr shown)]"
proof -
  have signed: "sign_userinfo X U found body u = (Inr a, v) \<Longrightarrow> ur_claims a = body" for found body u
    by (auto simp: sign_userinfo_def ok_iff split: option.splits prod.splits sum.splits failure.splits)
  from assms show ?thesis
    unfolding userinfo_def andthen_Inr
    by (elim exE conjE)
      (auto simp: prog_simps run_simps Let_def split: option.splits dest!: signed intro: that)
qed

subsection \<open>Properties\<close>


definition sample_bearer :: services where
  "sample_bearer = sample_services\<lparr>sv_server_token_claims := (\<lambda>token _ _ t.
     if token = ''at'' \<and> t < 1000000000
     then Some [(''iss'', JStr ''https://op''), (''sub'', JStr ''u''), (''exp'', JInt 1000)] else None)\<rparr>"

definition sample_rs :: client where
  "sample_rs = (new_client ''rs'' 0)\<lparr>cl_client_type := Confidential,
     cl_client_secret_hash := ''hex.secret''\<rparr>"

definition sample_query :: token_query where
  "sample_query = \<lparr>tq_token = ''at'', tq_client_id = ''rs'', tq_client_secret = ''secret''\<rparr>"

definition sample_rs_world :: world where
  "sample_rs_world = sample_world\<lparr>w_clients := [(''rs'', sample_rs)]\<rparr>"

lemma sample_expiry: "token_expiry [(''iss'', JStr ''https://op''), (''sub'', JStr ''u''), (''exp'', JInt 1000)]
    = Inr (Some 1000000000)"
  by (simp add: token_expiry_def from_timestamp_def half_even_def Let_def)

lemma sample_exp_enforced: "exp_enforced sample_bearer issuer ''at'' 1000000000"
  by (auto simp: exp_enforced_def sample_bearer_def sample_expiry)

lemma sample_revoke:
  "fst (revoke_token sample_bearer ''https://op'' sample_query sample_rs_world) = Inr ()"
  by (simp add: revoke_token_def run_simps sample_query_def sample_rs_world_def sample_world_def
      authenticate_confidential_client_def clients_find_def sample_rs_def new_client_def
      verify_client_secret_def sample_bearer_def current_def modify_def sample_expiry
      sample_services_def)


text \<open>C15. A token bound to a key is served only with the DPoP scheme and a valid proof by that key
  for this very token, a token bound to a certificate only with that certificate.\<close>

theorem bound_token_needs_possession:
  assumes "accept_token X issuer dpop paragraph q w = (Inr claims, v)"
  shows "(confirmed_key claims \<noteq> [] \<longrightarrow> tp_auth_scheme q = ''dpop'' \<and> (\<exists>p u.
       validate_proof X (tp_dpop_proof q) (tp_htu q) (tp_htm q) (access_token_hash X (tp_access_token q)) u
         = (Inr p, v) \<and> pf_jkt p = confirmed_key claims))
    \<and> (\<forall>cnf h. map_of claims ''cnf'' = Some (JObj cnf) \<and> jget_str cnf ''x5t#S256'' = Some h \<and> h \<noteq> [] \<longrightarrow>
       (\<exists>c der. tp_tls_certificate q = Some c \<and> cert_der c = Some der \<and> der_certificate_hash X der = h))"
proof -
  note run = accept_token_ok [OF assms]
  then have binding: "validate_dpop_binding X dpop paragraph q claims (w\<lparr>w_tick := Suc (w_tick w)\<rparr>) = (Inr (), v)"
    and cert: "certificate_binding_error X claims (tp_tls_certificate q) = []" by blast+
  from binding have "confirmed_key claims \<noteq> [] \<longrightarrow> tp_auth_scheme q = ''dpop'' \<and> (\<exists>p u.
       validate_proof X (tp_dpop_proof q) (tp_htu q) (tp_htm q) (access_token_hash X (tp_access_token q)) u
         = (Inr p, v) \<and> pf_jkt p = confirmed_key claims)"
    by (fastforce simp: validate_dpop_binding_def prog_simps
        split: if_splits prod.splits sum.splits failure.splits)
  moreover from cert have "\<exists>c der. tp_tls_certificate q = Some c \<and> cert_der c = Some der
      \<and> der_certificate_hash X der = h"
    if "map_of claims ''cnf'' = Some (JObj cnf)" "jget_str cnf ''x5t#S256'' = Some h" "h \<noteq> []" for cnf h
    using that by (auto simp: certificate_binding_error_def split: option.splits bind_splits if_splits)
  ultimately show ?thesis by blast
qed

text \<open>Introspection tells an authenticated resource server the truth about a live token: it
  validates and is not revoked, the standard members are those of the token, and nothing else
  of it is disclosed but the user name and the confirmation.\<close>

lemma introspection_faithful:
  assumes "introspect_token X issuer q w = (Inr (Some a), v)"
  shows "\<exists>claims. sv_server_token_claims X (tq_token q) issuer False (current w) = Some claims
    \<and> \<not> is_revoked (w_revoked w) (token_hash X (tq_token q))
    \<and> authenticate_confidential_client X (tq_client_id q) (tq_client_secret q) w
    \<and> (\<forall>n \<in> set introspected_names. map_of a n = map_of claims n)
    \<and> map_of a ''token_type'' = Some (JStr (if confirmed_key claims \<noteq> [] then ''DPoP'' else ''Bearer''))
    \<and> fst ` set a \<subseteq> set introspected_names \<union> {''client_id'', ''username'', ''cnf'', ''token_type''}"
proof -
  from assms obtain claims where claims:
    "sv_server_token_claims X (tq_token q) issuer False (current w) = Some claims"
    "\<not> is_revoked (w_revoked w) (token_hash X (tq_token q))"
    "authenticate_confidential_client X (tq_client_id q) (tq_client_secret q) w"
    and a: "a = select_claims claims"
    by (auto simp: introspect_token_def prog_simps run_simps split: option.splits if_splits)
  note extras = introspection_extras_keys [of claims] introspection_extras_type [of claims]
  have "map_of a n = map_of claims n" if "n \<in> set introspected_names" for n
  proof -
    from that extras(1) have "map_of (introspection_extras claims) n = None"
      by (auto simp: map_of_eq_None_iff introspected_names_def)
    with that show ?thesis by (simp add: a select_claims_def map_add_def map_of_selected
        split: option.split)
  qed
  moreover have "''token_type'' \<notin> set introspected_names" by (simp add: introspected_names_def)
  then have "map_of a ''token_type'' = Some (JStr (if confirmed_key claims \<noteq> [] then ''DPoP'' else ''Bearer''))"
    by (simp only: a select_claims_def map_of_append map_add_def map_of_selected not_None_eq
        extras(2) if_False option.case)
  moreover have "fst ` set a \<subseteq> set introspected_names \<union> {''client_id'', ''username'', ''cnf'', ''token_type''}"
    unfolding a select_claims_def set_append image_Un by (intro Un_mono extras(1)) auto
  ultimately show ?thesis using claims by blast
qed

lemma introspection_faithful_witness:
  "\<exists>a v. introspect_token sample_bearer ''https://op'' sample_query sample_rs_world = (Inr (Some a), v)
     \<and> map_of a ''sub'' = Some (JStr ''u'') \<and> map_of a ''token_type'' = Some (JStr ''Bearer'')"
proof -
  have "\<exists>a v. introspect_token sample_bearer ''https://op'' sample_query sample_rs_world = (Inr (Some a), v)"
    by (simp add: introspect_token_def run_simps sample_query_def sample_rs_world_def
        sample_world_def authenticate_confidential_client_def clients_find_def sample_rs_def
        new_client_def verify_client_secret_def sample_bearer_def current_def is_revoked_def
        sample_services_def)
  then obtain a v where run:
    "introspect_token sample_bearer ''https://op'' sample_query sample_rs_world = (Inr (Some a), v)" by blast
  from introspection_faithful [OF run] run show ?thesis
    by (auto simp: sample_bearer_def introspected_names_def confirmed_key_def split: if_splits)
qed

definition sample_mtls :: services where
  "sample_mtls = sample_services\<lparr>sv_server_token_claims := (\<lambda>_ _ _ _.
     Some [(''sub'', JStr ''u''), (''cnf'', JObj [(''x5t#S256'', JStr ''b64.DER'')])])\<rparr>"

lemma bound_token_needs_possession_witness:
  "\<exists>q c. tp_tls_certificate q = Some c \<and> cert_der c = Some ''DER''
     \<and> fst (accept_token sample_mtls ''https://op'' True ''7.1'' q sample_world)
        = Inr [(''sub'', JStr ''u''), (''cnf'', JObj [(''x5t#S256'', JStr ''b64.DER'')])]"
proof -
  let ?q = "\<lparr>tp_access_token = ''at'', tp_auth_scheme = ''bearer'', tp_dpop_proof = [], tp_htu = [],
    tp_htm = ''GET'', tp_tls_certificate = Some \<lparr>cert_der = Some ''DER'', cert_subject_dn = [],
    cert_is_self_signed = False\<rparr>\<rparr>"
  let ?claims = "[(''sub'', JStr ''u''), (''cnf'', JObj [(''x5t#S256'', JStr ''b64.DER'')])]"
  have run: "fst (accept_token sample_mtls ''https://op'' True ''7.1'' ?q sample_world) = Inr ?claims"
    by (simp add: accept_token_def run_simps current_def sample_mtls_def is_revoked_def
        sample_world_def certificate_binding_error_def jget_str_def der_certificate_hash_def
        sample_services_def validate_dpop_binding_def confirmed_key_def)
  then obtain v where "accept_token sample_mtls ''https://op'' True ''7.1'' ?q sample_world = (Inr ?claims, v)"
    by (metis prod.collapse)
  from bound_token_needs_possession [OF this]
  have "\<exists>c der. tp_tls_certificate ?q = Some c \<and> cert_der c = Some der
      \<and> der_certificate_hash sample_mtls der = ''b64.DER''"
    by (simp add: jget_str_def)
  then have "\<exists>c. tp_tls_certificate ?q = Some c \<and> cert_der c = Some ''DER''"
    by (simp add: der_certificate_hash_def sample_mtls_def sample_services_def)
  with run show ?thesis by blast
qed


definition sample_userinfo :: userinfo_config where
  "sample_userinfo = \<lparr>ui_issuer = ''https://op'', ui_subject_seed = [], ui_identity_resources = False,
    ui_dpop = True, ui_clients = True, ui_identity_assurance = None\<rparr>"

definition sample_presentation :: token_presentation where
  "sample_presentation = \<lparr>tp_access_token = ''at'', tp_auth_scheme = ''bearer'', tp_dpop_proof = [],
    tp_htu = [], tp_htm = ''GET'', tp_tls_certificate = None\<rparr>"


end
