(* ===== verification/SessionManagement.thy ===== *)
theory SessionManagement
  imports Samples
begin

text \<open>
  \<open>application/session_management.py\<close>: the \<open>session_state\<close> values of OpenID Connect Session
  Management, a salted digest that links a client, the origin of its page and the browser
  session.
\<close>

definition salt_alphabet :: str where
  "salt_alphabet = ''ABCDEFGHIJKLMNOPQRSTUVWXYZabcdefghijklmnopqrstuvwxyz0123456789-_''"

definition session_payload :: "str \<Rightarrow> str \<Rightarrow> str \<Rightarrow> str \<Rightarrow> str" where
  "session_payload client_id origin session_id salt =
     client_id @ '' '' @ origin @ '' '' @ session_id @ '' '' @ salt"

definition encode_session_state :: "services \<Rightarrow> str \<Rightarrow> str \<Rightarrow> str \<Rightarrow> str \<Rightarrow> str" where
  "encode_session_state X client_id origin session_id salt =
     sv_sha256_b64 X (session_payload client_id origin session_id salt) @ ''.'' @ salt"

definition create_session_state :: "services \<Rightarrow> str \<Rightarrow> str \<Rightarrow> str \<Rightarrow> (world, 'e, str) prog" where
  "create_session_state X client_id origin session_id =
     andthen fresh_token (\<lambda>salt. ok (encode_session_state X client_id origin session_id salt))"

text \<open>\<open>value.rsplit(".", 1)\<close> of a string that contains a dot.\<close>

definition rsplit_dot :: "str \<Rightarrow> str \<times> str" where
  "rsplit_dot s = (rev (after {CHR ''.''} (rev s)), rev (before {CHR ''.''} (rev s)))"

text \<open>\<open>secrets.compare_digest\<close> raises \<open>TypeError\<close> on a string with a non-ASCII character.\<close>

definition compare_digest :: "str \<Rightarrow> str \<Rightarrow> failure + bool" where
  "compare_digest a b =
     (if list_all is_ascii a \<and> list_all is_ascii b then Inr (a = b) else Inl (Uncaught ''TypeError''))"

definition verify_session_state :: "services \<Rightarrow> str \<Rightarrow> str \<Rightarrow> str \<Rightarrow> str \<Rightarrow> failure + bool" where
  "verify_session_state X client_id origin session_id session_state =
     (if session_state = [] \<or> CHR '' '' \<in> set session_state \<or> CHR ''.'' \<notin> set session_state
      then Inr False
      else let (v, salt) = rsplit_dot session_state in
        if v = [] \<or> salt = [] \<or> \<not> set salt \<subseteq> set salt_alphabet then Inr False
        else compare_digest (encode_session_state X client_id origin session_id salt) session_state)"

text \<open>\<open>origin_of_url\<close>; \<open>None\<close> is the \<open>ValueError\<close> of \<open>urlparse\<close>, which only the reading of the
  port is guarded against.\<close>

definition origin_of_url :: "services \<Rightarrow> str \<Rightarrow> str option" where
  "origin_of_url X url =
     (case urlsplit (sv_ip_literal X) url of
        None \<Rightarrow> None
      | Some u \<Rightarrow>
         (case port_of u of
            None \<Rightarrow> Some []
          | Some port \<Rightarrow>
             let scheme = u_scheme u;
                 host = (case hostname u of None \<Rightarrow> [] | Some h \<Rightarrow> h);
                 shown = (case port of
                     None \<Rightarrow> None
                   | Some p \<Rightarrow>
                       if (scheme = ''http'' \<and> p = 80) \<or> (scheme = ''https'' \<and> p = 443) then None
                       else Some p)
             in Some (scheme @ ''://'' @ host @
                  (case shown of None \<Rightarrow> [] | Some p \<Rightarrow> '':'' @ str_of_nat p))))"

subsection \<open>Lemmas\<close>

lemma before_after_cut:
  assumes "x \<notin> set a"
  shows "before {x} (a @ x # r) = a" and "after {x} (a @ x # r) = r"
proof -
  have "before {x} (a @ x # r) = a \<and> after {x} (a @ x # r) = r"
    using assms unfolding before_def after_def by (induction a) auto
  then show "before {x} (a @ x # r) = a" "after {x} (a @ x # r) = r" by auto
qed

lemma rsplit_dot_cut: "CHR ''.'' \<notin> set salt \<Longrightarrow> rsplit_dot (v @ ''.'' @ salt) = (v, salt)"
  using before_after_cut [of "CHR ''.''" "rev salt" "rev v"] by (simp add: rsplit_dot_def)

lemma salt_alphabet_ascii: "set salt_alphabet \<subseteq> {c. is_ascii c \<and> c \<noteq> CHR ''.'' \<and> c \<noteq> CHR '' ''}"
  by (simp add: salt_alphabet_def is_ascii_def)

text \<open>The payload determines client, origin and session when the last two hold no space.\<close>

lemma session_payload_inj:
  assumes "session_payload c o1 s salt = session_payload c' o' s' salt"
    and "CHR '' '' \<notin> set o1 \<union> set s \<union> set o' \<union> set s'"
  shows "c = c' \<and> o1 = o' \<and> s = s'"
proof -
  have cut: "a @ CHR '' '' # r = a' @ CHR '' '' # r' \<Longrightarrow> CHR '' '' \<notin> set r \<Longrightarrow> CHR '' '' \<notin> set r'
    \<Longrightarrow> a = a' \<and> r = r'" for a a' r r' :: str
    using before_after_cut [of "CHR '' ''" "rev r" "rev a"]
      before_after_cut [of "CHR '' ''" "rev r'" "rev a'"]
    by (metis append_Cons append_assoc rev.simps(2) rev_append rev_swap set_rev append_Nil)
  from assms(1) have "(c @ CHR '' '' # o1) @ CHR '' '' # s = (c' @ CHR '' '' # o') @ CHR '' '' # s'"
    by (simp add: session_payload_def)
  from cut [OF this] assms(2) have head: "c @ CHR '' '' # o1 = c' @ CHR '' '' # o'" and "s = s'"
    by simp_all
  with cut [OF head] assms(2) show ?thesis by simp
qed

subsection \<open>Property\<close>

text \<open>A \<open>session_state\<close> the server made is accepted exactly for the client, the origin and
  the browser session it was made for, and never raises: with a salt over the URL-safe
  alphabet, digests over the same alphabet and no collision between the two payloads
  compared.\<close>

lemma session_state_authentic:
  assumes salt: "w_rand w (w_draw w) \<noteq> []" "set (w_rand w (w_draw w)) \<subseteq> set salt_alphabet"
    and digest: "\<And>p. sv_sha256_b64 X p \<noteq> [] \<and> set (sv_sha256_b64 X p) \<subseteq> set salt_alphabet"
    and collision_free: "\<And>p q. p = session_payload c o1 s (w_rand w (w_draw w)) \<Longrightarrow>
      q = session_payload c' o' s' (w_rand w (w_draw w)) \<Longrightarrow>
      sv_sha256_b64 X p = sv_sha256_b64 X q \<Longrightarrow> p = q"
    and spaces: "CHR '' '' \<notin> set o1 \<union> set s \<union> set o' \<union> set s'"
    and made: "create_session_state X c o1 s w = (Inr (state :: str), v)"
  shows "verify_session_state X c' o' s' state = Inr (c' = c \<and> o' = o1 \<and> s' = s)"
proof -
  let ?salt = "w_rand w (w_draw w)"
  let ?d = "sv_sha256_b64 X (session_payload c o1 s ?salt)"
  from made have state: "state = ?d @ ''.'' @ ?salt"
    by (simp add: create_session_state_def encode_session_state_def run_simps)
  have chars: "x \<in> set ?d \<union> set ?salt \<Longrightarrow> is_ascii x \<and> x \<noteq> CHR ''.'' \<and> x \<noteq> CHR '' ''" for x
    using digest salt(2) salt_alphabet_ascii by blast
  then have dotless: "CHR ''.'' \<notin> set ?salt" and spaceless: "CHR '' '' \<notin> set state"
    by (auto simp: state)
  have ascii: "list_all is_ascii state"
    "list_all is_ascii (encode_session_state X c' o' s' ?salt)"
    using digest salt(2) salt_alphabet_ascii
    by (fastforce simp: list_all_iff state encode_session_state_def is_ascii_def)+
  have same: "encode_session_state X c' o' s' ?salt = state \<longleftrightarrow> c' = c \<and> o' = o1 \<and> s' = s"
    using session_payload_inj [OF collision_free [OF refl refl] spaces]
    by (auto simp: encode_session_state_def state)
  have "verify_session_state X c' o' s' state =
      compare_digest (encode_session_state X c' o' s' ?salt) state"
    using spaceless salt digest rsplit_dot_cut [OF dotless]
    by (simp add: verify_session_state_def state)
  with ascii same show ?thesis by (simp add: compare_digest_def)
qed

definition sample_digest :: services where
  "sample_digest = sample_services\<lparr>sv_sha256_b64 :=
     (\<lambda>p. if p = session_payload ''rp'' ''https://rp'' ''sid'' ''r0'' then ''abc'' else ''def'')\<rparr>"

lemma session_state_authentic_witness:
  "verify_session_state sample_digest ''rp'' ''https://evil'' ''sid'' ''abc.r0'' = Inr False"
proof -
  have draw: "w_rand sample_world (w_draw sample_world) = ''r0''"
    by code_simp
  have "verify_session_state sample_digest ''rp'' ''https://evil'' ''sid'' ''abc.r0''
      = Inr (''rp'' = ''rp'' \<and> ''https://evil'' = ''https://rp'' \<and> ''sid'' = ''sid'')"
    by (rule session_state_authentic [where w = sample_world and v = "sample_world\<lparr>w_draw := 1\<rparr>"])
      (simp_all add: draw salt_alphabet_def sample_digest_def session_payload_def
        create_session_state_def encode_session_state_def run_simps, simp add: sample_world_def)
  then show ?thesis by simp
qed

end
