(* ===== verification/DeviceEndpoint.thy ===== *)
theory DeviceEndpoint
  imports ClientAuth Registry
begin

text \<open>
  \<open>application/device_authorize.py\<close>: the device authorization endpoint, which opens a session
  and draws its two codes, and the verification page on which the user approves or denies it.
\<close>

subsection \<open>The use case\<close>

record device_config =
  dv_issuer :: str
  dv_base_url :: str
  dv_ttl_seconds :: int
  dv_interval_seconds :: int
  dv_registry :: "registry option"

record device_request =
  dq_client_id :: str
  dq_client_secret :: str
  dq_scope :: str

record device_result =
  ds_device_code :: str
  ds_user_code :: str
  ds_verification_uri :: str
  ds_verification_uri_complete :: str
  ds_expires_in :: int
  ds_interval :: int

fun draw_chars :: "nat \<Rightarrow> str \<Rightarrow> (world, 'e, str) prog" where
  "draw_chars 0 xs = ok []"
| "draw_chars (Suc n) xs =
     andthen (choose_char xs) (\<lambda>c. andthen (draw_chars n xs) (\<lambda>cs. ok (c # cs)))"

definition generate_user_code :: "(world, failure, str) prog" where
  "generate_user_code = draw_chars 8 user_code_alphabet"

definition resolve_base_url :: "device_config \<Rightarrow> str" where
  "resolve_base_url C = rstrip_slash (if dv_base_url C \<noteq> [] then dv_base_url C else dv_issuer C)"

definition device_scopes :: "device_config \<Rightarrow> client \<Rightarrow> str \<Rightarrow> (world, failure, str set) prog" where
  "device_scopes C c scope =
     (let requested = from_space_separated scope;
          scopes = (if scope \<noteq> [] then requested else cl_scopes c)
      in if scope \<noteq> [] \<and> requested - cl_scopes c \<noteq> {}
         then raise (Refused ''invalid_scope'' ''Portee jamais enregistree pour le client'')
         else case dv_registry C of
             None \<Rightarrow> ok scopes
           | Some g \<Rightarrow>
               andthen (peek (\<lambda>w. unknown_scopes g w scopes)) (\<lambda>unknown.
               if unknown \<noteq> []
               then raise (Refused ''invalid_scope'' (''Scope(s) non enregistre(s) : '' @ join_with '', '' unknown))
               else ok scopes))"

definition device_authorize :: "services \<Rightarrow> device_config \<Rightarrow> device_request
    \<Rightarrow> (world, failure, device_result) prog" where
  "device_authorize X C q =
     andthen (find_client (dq_client_id q)) (\<lambda>found.
     case found of
       None \<Rightarrow> raise (Refused ''invalid_client'' client_unknown_error)
     | Some c \<Rightarrow>
     andthen (ensure (cl_is_active c) (Refused ''invalid_client'' client_unknown_error)) (\<lambda>_.
     andthen (ensure (\<not> (cl_client_type c = Confidential \<and> \<not> verify_client_secret X c (dq_client_secret q)))
       (Refused ''invalid_client'' ''Secret client invalide'')) (\<lambda>_.
     andthen (device_scopes C c (dq_scope q)) (\<lambda>scopes.
     andthen fresh_token (\<lambda>code.
     andthen generate_user_code (\<lambda>user_code.
     andthen now_utc (\<lambda>now.
     let ttl = resolve_lifetime_seconds (cl_device_code_lifetime_seconds c) (dv_ttl_seconds C);
         interval = resolve_lifetime_seconds (cl_device_code_interval_seconds c) (dv_interval_seconds C);
         formatted = format_user_code user_code;
         verification_uri = resolve_base_url C @ ''/device''
     in andthen (modify (\<lambda>w. w\<lparr>w_devices := devices_save
          \<lparr>da_device_code_hash = token_hash X code, da_user_code = user_code,
           da_client_id = cl_client_id c, da_scopes = scopes, da_subject = [], da_status = Pending,
           da_expires_at = now + seconds ttl, da_interval = interval, da_last_polled_at = None\<rparr>
          (w_devices w)\<rparr>)) (\<lambda>_.
        ok \<lparr>ds_device_code = code, ds_user_code = formatted,
            ds_verification_uri = verification_uri,
            ds_verification_uri_complete = verification_uri @ ''?user_code='' @ formatted,
            ds_expires_in = ttl, ds_interval = interval\<rparr>))))))))"

text \<open>\<open>DeviceDecision\<close>: accepted or not, with the message shown.\<close>

type_synonym device_decision = "bool \<times> str"

definition device_decide :: "str \<Rightarrow> decision \<Rightarrow> str \<Rightarrow> (world, failure, device_decision) prog" where
  "device_decide typed status subject =
     (let code = normalize_user_code typed in
      if code = [] then ok (False, ''Saisissez le code affiche sur votre appareil.'')
      else andthen (peek (\<lambda>w. devices_find_by_user_code (w_devices w) code)) (\<lambda>found.
      case found of
        None \<Rightarrow> ok (False, ''Code inconnu : verifiez la saisie.'')
      | Some stored \<Rightarrow>
      andthen now_utc (\<lambda>now.
      if da_expires_at stored < now then
        andthen (modify (\<lambda>w. w\<lparr>w_devices := devices_delete (da_device_code_hash stored) (w_devices w)\<rparr>))
          (\<lambda>_. ok (False, ''Ce code a expire : relancez la demande sur l'appareil.''))
      else if da_status stored = Approved then ok (False, ''Cet appareil est deja autorise.'')
      else if da_status stored = Denied then ok (False, ''Cet appareil a deja ete refuse.'')
      else
        andthen (if status = Approved
          then modify (\<lambda>w. w\<lparr>w_devices := devices_approve (da_device_code_hash stored) subject (w_devices w)\<rparr>)
          else modify (\<lambda>w. w\<lparr>w_devices := devices_deny (da_device_code_hash stored) (w_devices w)\<rparr>))
        (\<lambda>_. ok (True, ''Appareil '' @ (if status = Approved then ''autorise'' else ''refuse'')
               @ '' : vous pouvez retourner a l'appareil.'')))))"

definition device_approve :: "str \<Rightarrow> str \<Rightarrow> (world, failure, device_decision) prog" where
  "device_approve typed subject = device_decide typed Approved subject"

definition device_deny :: "str \<Rightarrow> (world, failure, device_decision) prog" where
  "device_deny typed = device_decide typed Denied []"

subsection \<open>User codes\<close>

definition is_user_code :: "str \<Rightarrow> bool" where
  "is_user_code code \<longleftrightarrow> length code = 8 \<and> set code \<subseteq> set user_code_alphabet"

lemma draw_chars_run:
  "draw_chars n xs w = (Inr (map (\<lambda>i. xs ! (w_pick w (w_draw w + i) mod length xs)) [0..<n]),
     w\<lparr>w_draw := w_draw w + n\<rparr>)"
proof (induction n arbitrary: w)
  case 0
  then show ?case by (simp add: ok_def)
next
  case (Suc n)
  have "[0..<Suc n] = 0 # map Suc [0..<n]" by (simp add: upt_conv_Cons map_Suc_upt)
  then show ?case
    using Suc [of "w\<lparr>w_draw := Suc (w_draw w)\<rparr>"] by (simp add: run_simps comp_def)
qed

lemma generate_user_code_spec:
  assumes "generate_user_code w = (Inr code, v)"
  shows "is_user_code code \<and> v = w\<lparr>w_draw := w_draw w + 8\<rparr>"
proof -
  have "length user_code_alphabet = 32" by (simp add: user_code_alphabet_def)
  then have "user_code_alphabet ! (k mod length user_code_alphabet) \<in> set user_code_alphabet" for k
    by (intro nth_mem) simp
  with assms show ?thesis by (auto simp: generate_user_code_def draw_chars_run is_user_code_def)
qed

lemma user_code_char: "c \<in> set user_code_alphabet \<Longrightarrow> is_user_code_char c \<and> upper_char c = [c]"
  by (auto simp: user_code_alphabet_def is_user_code_char_def upper_char_def)

lemma normalize_plain: "set code \<subseteq> set user_code_alphabet \<Longrightarrow> normalize_user_code code = code"
proof (induction code)
  case (Cons c code)
  then have "normalize_user_code code = code" and "is_user_code_char c \<and> upper_char c = [c]"
    using user_code_char by auto
  then show ?case by (simp add: normalize_user_code_def py_upper_def)
qed (simp add: normalize_user_code_def py_upper_def)

lemma normalize_append: "normalize_user_code (a @ b) = normalize_user_code a @ normalize_user_code b"
  by (simp add: normalize_user_code_def py_upper_def)

lemma normalize_format: "is_user_code code \<Longrightarrow> normalize_user_code (format_user_code code) = code"
proof -
  assume "is_user_code code"
  then have chars: "set code \<subseteq> set user_code_alphabet" by (simp add: is_user_code_def)
  then have halves: "normalize_user_code (take 4 code) = take 4 code"
    "normalize_user_code (drop 4 code) = drop 4 code"
    by (meson normalize_plain set_take_subset set_drop_subset subset_trans)+
  have hyphen: "normalize_user_code (CHR ''-'' # s) = normalize_user_code s" for s
    by (simp add: normalize_user_code_def py_upper_def upper_char_def is_user_code_char_def)
  show ?thesis
    unfolding format_user_code_def Let_def normalize_plain [OF chars] normalize_append append_Cons
      append_Nil hyphen halves
    by (rule append_take_drop_id)
qed

subsection \<open>Sessions and their codes\<close>

lemma find_updated_value:
  assumes "P v" and "\<And>x. x \<in> set (dict_values d) \<Longrightarrow> \<not> P x"
  shows "List.find P (dict_values (dict_set k v d)) = Some v"
proof -
  have "set (dict_values (dict_set k v d)) \<subseteq> insert v (set (dict_values d))"
    unfolding dict_values_def by (induction d) auto
  moreover have "v \<in> set (dict_values (dict_set k v d))"
    unfolding dict_values_def by (induction d) auto
  ultimately show ?thesis
    using assms by (cases "List.find P (dict_values (dict_set k v d))")
      (auto simp: find_None_iff, metis assms(2) find_Some_iff insert_iff nth_mem subsetD)
qed

lemma device_scopes_run:
  "device_scopes C c scope w = (r, v) \<Longrightarrow> v = w \<and>
     (\<forall>scopes. r = Inr scopes \<longrightarrow> scopes \<subseteq> cl_scopes c
        \<and> (scope \<noteq> [] \<longrightarrow> scopes = from_space_separated scope))"
  by (auto simp: device_scopes_def Let_def run_simps split: option.splits if_splits)

lemma device_authorize_ok:
  assumes "device_authorize X C q w = (Inr d, v)"
  obtains c scopes user_code u where
    "clients_find (w_clients w) (dq_client_id q) = Some c" "cl_is_active c"
    "cl_client_type c = Confidential \<longrightarrow> verify_client_secret X c (dq_client_secret q)"
    "scopes \<subseteq> cl_scopes c" "is_user_code user_code" "ds_user_code d = format_user_code user_code"
    "u = \<lparr>da_device_code_hash = token_hash X (ds_device_code d), da_user_code = user_code,
       da_client_id = cl_client_id c, da_scopes = scopes, da_subject = [], da_status = Pending,
       da_expires_at = current w + seconds (ds_expires_in d), da_interval = ds_interval d,
       da_last_polled_at = None\<rparr>"
    "ds_device_code d = w_rand w (w_draw w)"
    "v = w\<lparr>w_draw := w_draw w + 9, w_tick := Suc (w_tick w), w_devices := devices_save u (w_devices w)\<rparr>"
proof -
  from assms obtain c scopes user_code u1 u2 where run:
    "clients_find (w_clients w) (dq_client_id q) = Some c" "cl_is_active c"
    "cl_client_type c = Confidential \<longrightarrow> verify_client_secret X c (dq_client_secret q)"
    "device_scopes C c (dq_scope q) w = (Inr scopes, u1)"
    "generate_user_code (u1\<lparr>w_draw := Suc (w_draw u1)\<rparr>) = (Inr user_code, u2)"
    and rest: "ds_device_code d = w_rand u1 (w_draw u1)" "ds_user_code d = format_user_code user_code"
    "v = u2\<lparr>w_tick := Suc (w_tick u2), w_devices := devices_save
       \<lparr>da_device_code_hash = token_hash X (ds_device_code d), da_user_code = user_code,
        da_client_id = cl_client_id c, da_scopes = scopes, da_subject = [], da_status = Pending,
        da_expires_at = current u2 + seconds (ds_expires_in d), da_interval = ds_interval d,
        da_last_polled_at = None\<rparr> (w_devices u2)\<rparr>"
    by (auto simp: device_authorize_def find_client_def prog_simps run_simps Let_def
        split: option.splits if_splits)
  from device_scopes_run [OF run(4)] have "u1 = w" "scopes \<subseteq> cl_scopes c" by auto
  moreover from generate_user_code_spec [OF run(5)] have "is_user_code user_code"
    "u2 = u1\<lparr>w_draw := w_draw u1 + 9\<rparr>" by auto
  ultimately show ?thesis using run rest that by (simp add: current_def)
qed

definition decided_as :: "decision \<Rightarrow> str \<Rightarrow> device_authorization \<Rightarrow> device_authorization" where
  "decided_as status subject s = (if status = Approved
     then s\<lparr>da_status := Approved, da_subject := subject\<rparr> else s\<lparr>da_status := Denied\<rparr>)"

lemma device_decide_found:
  assumes "normalize_user_code typed \<noteq> []"
    and "devices_find_by_user_code (w_devices w) (normalize_user_code typed) = Some s"
  shows "\<exists>message v. device_decide typed status subject w =
      (Inr (current w \<le> da_expires_at s \<and> da_status s = Pending, message), v)
    \<and> devices_find (w_devices v) h =
        (if h \<noteq> da_device_code_hash s \<or> current w \<le> da_expires_at s \<and> da_status s \<noteq> Pending
         then devices_find (w_devices w) h
         else if da_expires_at s < current w then None
         else map_option (decided_as status subject) (devices_find (w_devices w) h))"
  using assms
  by (cases "da_expires_at s < current w"; cases "da_status s")
    (simp_all add: device_decide_def Let_def run_simps modify_def repo_simps decided_as_def
      not_le [symmetric] cong: option.map_cong)

subsection \<open>Properties\<close>

text \<open>C9. The verification page: a decision is accepted exactly when a session carries the typed
  code, has not expired and is still pending; then this session alone becomes approved, for
  the user who decided, or denied.  An expired session is deleted, and every other session,
  decided ones included, stays as it was.\<close>

theorem device_decision_effect:
  assumes "device_decide typed status subject w = (Inr (accepted, message), v)"
    and "devices.well_keyed (w_devices w)" and "dict_ok (w_devices w)"
  shows "let code = normalize_user_code typed;
      found = (if code = [] then None else devices_find_by_user_code (w_devices w) code)
    in (accepted \<longleftrightarrow> (\<exists>s. found = Some s \<and> current w \<le> da_expires_at s \<and> da_status s = Pending))
     \<and> devices_find (w_devices v) h =
        (case found of
           None \<Rightarrow> devices_find (w_devices w) h
         | Some s \<Rightarrow>
             if devices_find (w_devices w) h \<noteq> Some s then devices_find (w_devices w) h
             else if da_expires_at s < current w then None
             else if da_status s \<noteq> Pending then Some s
             else if status = Approved then Some (s\<lparr>da_status := Approved, da_subject := subject\<rparr>)
             else Some (s\<lparr>da_status := Denied\<rparr>))"
proof (cases "normalize_user_code typed = [] \<or>
    devices_find_by_user_code (w_devices w) (normalize_user_code typed) = None")
  case True
  with assms(1) show ?thesis by (auto simp: device_decide_def Let_def prog_simps run_simps)
next
  case False
  then obtain s where found: "devices_find_by_user_code (w_devices w) (normalize_user_code typed) = Some s"
    and code: "normalize_user_code typed \<noteq> []" by auto
  from devices_by_user_code_stored [OF found assms(3)] obtain k
    where "devices_find (w_devices w) k = Some s" by auto
  with devices.well_keyedD [OF assms(2)] have at:
    "devices_find (w_devices w) j = Some s \<longleftrightarrow> j = da_device_code_hash s" for j by metis
  then have here: "devices_find (w_devices w) (da_device_code_hash s) = Some s" by simp
  have "accepted \<longleftrightarrow> current w \<le> da_expires_at s \<and> da_status s = Pending"
    and "devices_find (w_devices v) h =
        (if h \<noteq> da_device_code_hash s \<or> current w \<le> da_expires_at s \<and> da_status s \<noteq> Pending
         then devices_find (w_devices w) h
         else if da_expires_at s < current w then None
         else map_option (decided_as status subject) (devices_find (w_devices w) h))"
    using device_decide_found [OF code found, of status subject h] assms(1) by auto
  moreover have "h \<noteq> da_device_code_hash s \<Longrightarrow> devices_find (w_devices w) h \<noteq> Some s"
    using at by blast
  ultimately show ?thesis
    using code found here by (cases "h = da_device_code_hash s") (simp_all add: Let_def decided_as_def)
qed

text \<open>The session opened for an application, as the user finds it.\<close>

definition sample_pending :: device_authorization where
  "sample_pending = \<lparr>da_device_code_hash = ''h'', da_user_code = ''ABCDEFGH'',
     da_client_id = ''rp'', da_scopes = {}, da_subject = [], da_status = Pending,
     da_expires_at = 1000, da_interval = 5, da_last_polled_at = None\<rparr>"

definition sample_pending_world :: world where
  "sample_pending_world = sample_world\<lparr>w_devices := [(''h'', sample_pending)]\<rparr>"

lemma sample_decision:
  "fst (device_decide ''abcd-efgh'' Approved ''u2'' sample_pending_world)
     = Inr (True, ''Appareil autorise : vous pouvez retourner a l'appareil.'')"
  by code_simp

lemma device_decision_effect_witness:
  "devices_find (w_devices (snd (device_decide ''abcd-efgh'' Approved ''u2'' sample_pending_world))) ''h''
     = Some (sample_pending\<lparr>da_status := Approved, da_subject := ''u2''\<rparr>)"
proof -
  have code: "normalize_user_code ''abcd-efgh'' = ''ABCDEFGH''" by code_simp
  have run: "device_decide ''abcd-efgh'' Approved ''u2'' sample_pending_world =
      (Inr (True, ''Appareil autorise : vous pouvez retourner a l'appareil.''),
       snd (device_decide ''abcd-efgh'' Approved ''u2'' sample_pending_world))"
    using sample_decision by (metis prod.collapse)
  have "devices.well_keyed (w_devices sample_pending_world)" "dict_ok (w_devices sample_pending_world)"
    by (auto simp: devices.well_keyed_def sample_pending_world_def sample_pending_def
        devices_find_def dict_ok_def split: if_splits)
  from device_decision_effect [OF run this, of "''h''"] show ?thesis
    by (simp add: code devices_find_by_user_code_def devices_find_def dict_values_def Let_def
        sample_pending_world_def sample_pending_def current_def sample_world_def)
qed

text \<open>The code shown on a device leads the user to that device's session: when its user code
  is not in use already, typing it in any case and with any separators before it expires
  approves the session whose device code the device holds, for that user, with the
  registered client and within its registered scopes.\<close>

lemma device_code_approved:
  assumes opened: "device_authorize X C q w = (Inr d, v)"
    and unused: "\<And>s. s \<in> set (dict_values (w_devices w)) \<Longrightarrow>
      da_user_code s \<noteq> normalize_user_code (ds_user_code d)"
    and typed: "normalize_user_code typed = normalize_user_code (ds_user_code d)"
    and in_time: "current v \<le> current w + seconds (ds_expires_in d)"
  shows "\<exists>message u s. device_approve typed subject v = (Inr (True, message), u)
     \<and> devices_find (w_devices u) (token_hash X (ds_device_code d)) = Some s
     \<and> da_status s = Approved \<and> da_subject s = subject \<and> da_client_id s = cl_client_id
         (the (clients_find (w_clients w) (dq_client_id q)))
     \<and> da_scopes s \<subseteq> cl_scopes (the (clients_find (w_clients w) (dq_client_id q)))"
proof -
  from device_authorize_ok [OF opened] obtain c scopes code s where
    c: "clients_find (w_clients w) (dq_client_id q) = Some c" "scopes \<subseteq> cl_scopes c"
    and code: "is_user_code code" "ds_user_code d = format_user_code code"
    and s: "s = \<lparr>da_device_code_hash = token_hash X (ds_device_code d), da_user_code = code,
       da_client_id = cl_client_id c, da_scopes = scopes, da_subject = [], da_status = Pending,
       da_expires_at = current w + seconds (ds_expires_in d), da_interval = ds_interval d,
       da_last_polled_at = None\<rparr>"
    and v: "v = w\<lparr>w_draw := w_draw w + 9, w_tick := Suc (w_tick w), w_devices := devices_save s (w_devices w)\<rparr>"
    by metis
  have shown: "normalize_user_code typed = code" using normalize_format code typed by simp
  then have "code \<noteq> []" using code(1) by (auto simp: is_user_code_def)
  moreover have "devices_find_by_user_code (w_devices v) code = Some s"
    unfolding devices_find_by_user_code_def v devices_save_def
    using unused typed shown by (simp add: find_updated_value s)
  ultimately obtain message u where "device_decide typed Approved subject v = (Inr (True, message), u)"
    and "devices_find (w_devices u) (token_hash X (ds_device_code d)) =
      map_option (decided_as Approved subject) (devices_find (w_devices v) (token_hash X (ds_device_code d)))"
    using device_decide_found [of typed v s Approved subject "token_hash X (ds_device_code d)"]
      in_time shown by (auto simp: s)
  with c s show ?thesis by (auto simp: device_approve_def v devices.find_save decided_as_def)
qed

definition sample_device_config :: device_config where
  "sample_device_config = \<lparr>dv_issuer = ''https://op/'', dv_base_url = [], dv_ttl_seconds = 900,
     dv_interval_seconds = 5, dv_registry = None\<rparr>"

definition sample_device_request :: device_request where
  "sample_device_request = \<lparr>dq_client_id = ''rp'', dq_client_secret = [], dq_scope = ''openid''\<rparr>"

definition sample_device_world :: world where
  "sample_device_world = sample_world\<lparr>w_clients := [(''rp'', new_client ''rp'' 0)]\<rparr>"

lemma sample_user_code:
  "w_pick w = id \<Longrightarrow> w_draw w = 1 \<Longrightarrow>
     generate_user_code w = (Inr ''BCDEFGHJ'', w\<lparr>w_draw := 9\<rparr>)"
  by (simp add: generate_user_code_def draw_chars_run upt_rec user_code_alphabet_def)

lemma sample_user_code_shown: "format_user_code ''BCDEFGHJ'' = ''BCDE-FGHJ''"
  by code_simp

lemma sample_device_opened:
  "\<exists>d v. device_authorize sample_services sample_device_config sample_device_request
      sample_device_world = (Inr d, v)
    \<and> ds_device_code d = ''r0'' \<and> ds_user_code d = ''BCDE-FGHJ'' \<and> ds_expires_in d = 900"
proof -
  have draw: "w_rand sample_device_world (w_draw sample_device_world) = ''r0''" by code_simp
  have words: "from_space_separated ''openid'' = {''openid''}" by code_simp
  have scopes: "device_scopes sample_device_config (new_client ''rp'' 0) ''openid'' sample_device_world
      = (Inr {''openid''}, sample_device_world)"
    by (simp add: device_scopes_def words run_simps sample_device_config_def new_client_def
        scope_openid_def)
  have client: "clients_find (w_clients sample_device_world) ''rp'' = Some (new_client ''rp'' 0)"
    by (simp add: sample_device_world_def clients_find_def)
  have defaults: "cl_is_active (new_client ''rp'' 0)" "cl_client_type (new_client ''rp'' 0) = Public"
    "cl_device_code_lifetime_seconds (new_client ''rp'' 0) = None"
    "dv_ttl_seconds sample_device_config = 900" "resolve_lifetime_seconds None 900 = 900"
    by (simp_all add: new_client_def sample_device_config_def resolve_lifetime_seconds_def)
  have drawn: "generate_user_code (sample_device_world\<lparr>w_draw := Suc (w_draw sample_device_world)\<rparr>)
      = (Inr ''BCDEFGHJ'', sample_device_world\<lparr>w_draw := 9\<rparr>)"
    by (subst sample_user_code) (simp_all add: sample_device_world_def sample_world_def)
  show ?thesis
    using draw
    by (simp add: device_authorize_def Let_def sample_device_request_def find_client_def run_simps client
        andthen_run(1) [where m = "device_scopes sample_device_config (new_client ''rp'' 0) ''openid''"
          and s = sample_device_world, OF scopes] defaults sample_user_code_shown
        andthen_run(1) [where m = generate_user_code and
          s = "sample_device_world\<lparr>w_draw := Suc (w_draw sample_device_world)\<rparr>", OF drawn])
qed

lemma device_code_approved_witness:
  "\<exists>d v message u s. device_authorize sample_services sample_device_config sample_device_request
      sample_device_world = (Inr d, v)
   \<and> device_approve ''bcdefghj'' ''u'' v = (Inr (True, message), u)
   \<and> devices_find (w_devices u) ''hex.r0'' = Some s \<and> da_status s = Approved \<and> da_subject s = ''u''"
proof -
  obtain d v where run: "device_authorize sample_services sample_device_config sample_device_request
      sample_device_world = (Inr d, v)" and d: "ds_device_code d = ''r0''"
    "ds_user_code d = ''BCDE-FGHJ''" "ds_expires_in d = 900"
    using sample_device_opened by blast
  have codes: "normalize_user_code ''bcdefghj'' = normalize_user_code ''BCDE-FGHJ''" by code_simp
  have empty: "dict_values (w_devices sample_device_world) = []"
    by (simp add: sample_device_world_def sample_world_def dict_values_def)
  have "w_tick v = 1" "w_clock v = int"
    by (rule device_authorize_ok [OF run], simp add: sample_device_world_def sample_world_def)+
  then have "current v \<le> current sample_device_world + seconds 900"
    by (simp add: current_def sample_device_world_def sample_world_def seconds_def)
  then have "\<exists>message u s. device_approve ''bcdefghj'' ''u'' v = (Inr (True, message), u)
     \<and> devices_find (w_devices u) (token_hash sample_services (ds_device_code d)) = Some s
     \<and> da_status s = Approved \<and> da_subject s = ''u'' \<and> da_client_id s = cl_client_id
         (the (clients_find (w_clients sample_device_world) (dq_client_id sample_device_request)))
     \<and> da_scopes s \<subseteq> cl_scopes
         (the (clients_find (w_clients sample_device_world) (dq_client_id sample_device_request)))"
    by (intro device_code_approved [OF run]) (simp_all add: empty codes d)
  then have "\<exists>message u s. device_approve ''bcdefghj'' ''u'' v = (Inr (True, message), u)
     \<and> devices_find (w_devices u) ''hex.r0'' = Some s \<and> da_status s = Approved \<and> da_subject s = ''u''"
    unfolding d token_hash_def by (elim exE conjE, intro exI conjI) (simp_all add: sample_services_def)
  with run show ?thesis by blast
qed

end
