(* ===== verification/Logout.thy ===== *)
theory Logout
  imports Tokens ClientAuth
begin

text \<open>
  \<open>application/logout.py\<close>: RP-initiated logout, the front-channel addresses of the logout page
  and the back-channel notifications.
\<close>

subsection \<open>The use case\<close>

record logout_config =
  lo_issuer :: str
  lo_logout_token_ttl_seconds :: int
  lo_subject_seed :: str
  lo_notifier :: bool

record logout_request =
  lq_id_token_hint :: str
  lq_post_logout_redirect_uri :: str
  lq_state :: str
  lq_session_id :: str

record logout_result =
  lr_post_logout_redirect_uri :: str
  lr_state :: str
  lr_subject :: str
  lr_client_id :: str
  lr_session_id :: str

text \<open>\<open>validate_id_token\<close> of the token manager, and \<open>str(value)\<close> of the claim \<open>sub\<close>
  (\<open>null\<close> is Python's \<open>None\<close>).\<close>

definition validate_id_token :: "services \<Rightarrow> str \<Rightarrow> str \<Rightarrow> bool
    \<Rightarrow> (world, 'e, (str \<times> json) list option) prog" where
  "validate_id_token X token issuer allow_expired =
     andthen now_utc (\<lambda>t. ok (sv_server_token_claims X token issuer allow_expired t))"

definition claimed_subject :: "services \<Rightarrow> (str \<times> json) list \<Rightarrow> str" where
  "claimed_subject X claims =
     (case jget claims ''sub'' of None \<Rightarrow> [] | Some (JStr s) \<Rightarrow> s | Some v \<Rightarrow> sv_py_str X v)"

definition claimed_audience :: "(str \<times> json) list \<Rightarrow> str" where
  "claimed_audience claims = (case jget_str claims ''aud'' of Some a \<Rightarrow> a | None \<Rightarrow> [])"

definition resolve_hint :: "services \<Rightarrow> logout_config \<Rightarrow> str
    \<Rightarrow> (world, failure, client option \<times> str) prog" where
  "resolve_hint X C hint =
     (if hint = [] then ok (None, [])
      else andthen (validate_id_token X hint (lo_issuer C) False) (\<lambda>claims.
      case claims of
        None \<Rightarrow> raise (Refused ''invalid_request'' ''id_token_hint invalide'')
      | Some d \<Rightarrow>
          andthen (find_client (claimed_audience d)) (\<lambda>found.
          case found of
            None \<Rightarrow> raise (Refused ''invalid_request'' ''id_token_hint d'un client inconnu ou inactif'')
          | Some c \<Rightarrow>
              andthen (ensure (cl_is_active c)
                (Refused ''invalid_request'' ''id_token_hint d'un client inconnu ou inactif'')) (\<lambda>_.
              ok (Some c, claimed_subject X d)))))"

definition all_clients :: "world \<Rightarrow> client list" where
  "all_clients w = dict_values (w_clients w)"

definition client_for_post_logout_uri :: "str \<Rightarrow> world \<Rightarrow> client option" where
  "client_for_post_logout_uri uri w =
     List.find (\<lambda>c. cl_is_active c \<and> uri \<in> cl_post_logout_redirect_uris c) (all_clients w)"

definition logout :: "services \<Rightarrow> logout_config \<Rightarrow> logout_request
    \<Rightarrow> (world, failure, logout_result) prog" where
  "logout X C q =
     andthen (resolve_hint X C (lq_id_token_hint q)) (\<lambda>(hinted, subject).
     andthen (peek (\<lambda>w.
       if lq_post_logout_redirect_uri q \<noteq> [] \<and> hinted = None
       then client_for_post_logout_uri (lq_post_logout_redirect_uri q) w else hinted)) (\<lambda>c.
     andthen (ensure (lq_post_logout_redirect_uri q = [] \<or>
         (\<exists>d\<in>set_option c. lq_post_logout_redirect_uri q \<in> cl_post_logout_redirect_uris d))
       (Refused ''invalid_request'' ''post_logout_redirect_uri non enregistree'')) (\<lambda>_.
     ok \<lparr>lr_post_logout_redirect_uri = lq_post_logout_redirect_uri q, lr_state = lq_state q,
         lr_subject = subject, lr_client_id = (case c of Some d \<Rightarrow> cl_client_id d | None \<Rightarrow> []),
         lr_session_id = lq_session_id q\<rparr>)))"

definition frontchannel_uri :: "str \<Rightarrow> client \<Rightarrow> str" where
  "frontchannel_uri session_id c =
     (let uri = cl_frontchannel_logout_uri c in
      if cl_frontchannel_logout_session_required c
      then uri @ (if CHR ''?'' \<in> set uri then ''&'' else ''?'') @ ''sid='' @ session_id
      else uri)"

definition frontchannel_uris :: "str \<Rightarrow> world \<Rightarrow> str list" where
  "frontchannel_uris session_id w =
     map (frontchannel_uri session_id)
       (filter (\<lambda>c. cl_is_active c \<and> cl_frontchannel_logout_uri c \<noteq> []) (all_clients w))"

text \<open>
  The notifications sent, address and token, with the exception that interrupted the loop if
  any; the notifier itself reports nothing.
\<close>

type_synonym broadcast = "(str \<times> str) list \<times> failure option"

fun notify_clients :: "services \<Rightarrow> logout_config \<Rightarrow> str \<Rightarrow> str \<Rightarrow> int \<Rightarrow> client list
    \<Rightarrow> (world, failure, broadcast) prog" where
  "notify_clients X C subject session_id iat [] = ok ([], None)"
| "notify_clients X C subject session_id iat (c # cs) =
     (case display_subject X c subject session_id (lo_subject_seed C) of
        None \<Rightarrow> ok ([], Some (Uncaught ''ValueError''))
      | Some sub \<Rightarrow>
          andthen fresh_token (\<lambda>jti.
          andthen (create_logout_token X (lo_issuer C) sub (cl_client_id c) session_id
            (iat + lo_logout_token_ttl_seconds C) iat jti) (\<lambda>token.
          andthen (notify_clients X C subject session_id iat cs) (\<lambda>(sent, err).
          ok ((cl_backchannel_logout_uri c, token) # sent, err)))))"

definition backchannel_targets :: "world \<Rightarrow> client list" where
  "backchannel_targets w =
     filter (\<lambda>c. cl_is_active c \<and> cl_backchannel_logout_uri c \<noteq> []) (all_clients w)"

definition broadcast_backchannel_logout :: "services \<Rightarrow> logout_config \<Rightarrow> str \<Rightarrow> str
    \<Rightarrow> (world, failure, broadcast) prog" where
  "broadcast_backchannel_logout X C subject session_id =
     (if \<not> lo_notifier C \<or> subject = [] then ok ([], None)
      else andthen (peek backchannel_targets) (\<lambda>targets.
        if targets = [] then ok ([], None)
        else andthen now_utc (\<lambda>now.
          notify_clients X C subject session_id (epoch_seconds now) targets)))"

subsection \<open>Lemmas\<close>

lemma find_client_iff: "find_client cid w = (r, v) \<longleftrightarrow> r = Inr (clients_find (w_clients w) cid) \<and> v = w"
  by (simp add: find_client_def peek_iff)

lemma resolve_hint_ok:
  "resolve_hint X C hint w = (Inr (c, subject), v) \<Longrightarrow> w_clients v = w_clients w \<and>
     (if hint = [] then c = None \<and> subject = []
      else \<exists>claims d. sv_server_token_claims X hint (lo_issuer C) False (current w) = Some claims
        \<and> c = Some d \<and> clients_find (w_clients w) (claimed_audience claims) = Some d
        \<and> cl_is_active d \<and> subject = claimed_subject X claims)"
  by (auto simp: resolve_hint_def validate_id_token_def find_client_iff prog_simps run_simps
      split: if_splits option.splits)

lemma client_for_post_logout_uri_found:
  "client_for_post_logout_uri uri w = Some c \<Longrightarrow>
     c \<in> set (all_clients w) \<and> cl_is_active c \<and> uri \<in> cl_post_logout_redirect_uris c"
  by (auto simp: client_for_post_logout_uri_def find_Some_iff)

lemma found_client_listed: "clients_find (w_clients w) k = Some c \<Longrightarrow> c \<in> set (all_clients w)"
  by (force simp: clients_find_def all_clients_def dict_values_def dest: map_of_SomeD)

lemma create_logout_token_run:
  "create_logout_token X issuer sub aud sid expires iat jti w =
     (Inr (sv_jwt_encode X RS256 [] (logout_token_payload issuer sub aud sid expires iat jti)), w)"
  by (simp add: create_logout_token_def sign_payload_def symmetric_algorithms_def ok_def)

definition notification :: "services \<Rightarrow> logout_config \<Rightarrow> str \<Rightarrow> str \<Rightarrow> int \<Rightarrow> client \<Rightarrow> str \<Rightarrow> str \<times> str" where
  "notification X C subject session_id iat c jti =
     (cl_backchannel_logout_uri c,
      sv_jwt_encode X RS256 [] (logout_token_payload (lo_issuer C)
        (the (display_subject X c subject session_id (lo_subject_seed C))) (cl_client_id c)
        session_id (iat + lo_logout_token_ttl_seconds C) iat jti))"

lemma notify_clients_run:
  "\<forall>c\<in>set cs. display_subject X c subject session_id (lo_subject_seed C) \<noteq> None \<Longrightarrow>
   notify_clients X C subject session_id iat cs w =
     (Inr (map2 (notification X C subject session_id iat) cs
        (map (\<lambda>i. w_rand w (w_draw w + i)) [0..<length cs]), None),
      w\<lparr>w_draw := w_draw w + length cs\<rparr>)"
proof (induction cs arbitrary: w)
  case Nil
  then show ?case by (simp add: ok_def)
next
  case (Cons c cs)
  let ?u = "w\<lparr>w_draw := Suc (w_draw w)\<rparr>"
  from Cons.prems have "\<forall>c\<in>set cs. display_subject X c subject session_id (lo_subject_seed C) \<noteq> None"
    by simp
  note rest = Cons.IH [OF this, of ?u]
  from Cons.prems show ?case
    by (auto simp: andthen_def fresh_token_def ok_def create_logout_token_run rest map_upt_Suc
        notification_def simp del: upt_Suc)
qed

subsection \<open>Properties\<close>

text \<open>C17. The logout endpoint is no open redirector: it answers with an address to return to only
  if an active client registered it, and with an \<open>id_token_hint\<close> only if the hint is a token
  of this issuer, valid now, whose audience is that client; the subject reported is the
  hint's.  Without hint no subject is reported.\<close>

theorem logout_returns_registered:
  assumes run: "logout X C q w = (Inr r, v)"
  shows "lr_post_logout_redirect_uri r = lq_post_logout_redirect_uri q
    \<and> (lq_post_logout_redirect_uri q \<noteq> [] \<longrightarrow>
        (\<exists>c\<in>set (all_clients w). cl_is_active c
          \<and> lq_post_logout_redirect_uri q \<in> cl_post_logout_redirect_uris c
          \<and> lr_client_id r = cl_client_id c))
    \<and> (if lq_id_token_hint q = [] then lr_subject r = []
       else \<exists>claims c. sv_server_token_claims X (lq_id_token_hint q) (lo_issuer C) False (current w)
            = Some claims
          \<and> clients_find (w_clients w) (claimed_audience claims) = Some c \<and> cl_is_active c
          \<and> lr_client_id r = cl_client_id c \<and> lr_subject r = claimed_subject X claims)"
proof -
  from run obtain hinted subject u where hint: "resolve_hint X C (lq_id_token_hint q) w = (Inr (hinted, subject), u)"
    and rest: "lr_post_logout_redirect_uri r = lq_post_logout_redirect_uri q" "lr_subject r = subject"
    and chosen: "\<exists>c. c = (if lq_post_logout_redirect_uri q \<noteq> [] \<and> hinted = None
       then client_for_post_logout_uri (lq_post_logout_redirect_uri q) u else hinted)
      \<and> (lq_post_logout_redirect_uri q = [] \<or>
         (\<exists>d\<in>set_option c. lq_post_logout_redirect_uri q \<in> cl_post_logout_redirect_uris d))
      \<and> lr_client_id r = (case c of Some d \<Rightarrow> cl_client_id d | None \<Rightarrow> [])"
    by (auto simp: logout_def prog_simps split: if_splits)
  note hinted = resolve_hint_ok [OF hint]
  then have same: "all_clients u = all_clients w" by (simp add: all_clients_def)
  show ?thesis
  proof (cases "lq_id_token_hint q = []")
    case True
    with hinted have "hinted = None" "subject = []" by auto
    moreover from chosen this have "lq_post_logout_redirect_uri q \<noteq> [] \<Longrightarrow>
        \<exists>c. client_for_post_logout_uri (lq_post_logout_redirect_uri q) u = Some c
          \<and> lr_client_id r = cl_client_id c"
      by auto
    ultimately show ?thesis
      using True rest same by (fastforce dest!: client_for_post_logout_uri_found)
  next
    case False
    with hinted rest chosen show ?thesis by (auto dest: found_client_listed split: if_splits)
  qed
qed

definition sample_logout_config :: logout_config where
  "sample_logout_config = \<lparr>lo_issuer = ''https://op'', lo_logout_token_ttl_seconds = 60,
     lo_subject_seed = [], lo_notifier = True\<rparr>"

definition sample_logout_client :: client where
  "sample_logout_client = (new_client ''rp'' 0)\<lparr>cl_post_logout_redirect_uris := {''https://rp/bye''},
     cl_backchannel_logout_uri := ''https://rp/bcl''\<rparr>"

definition sample_logout_world :: world where
  "sample_logout_world = sample_world\<lparr>w_clients := [(''rp'', sample_logout_client)]\<rparr>"

lemma sample_logout_run:
  "logout sample_services sample_logout_config
     \<lparr>lq_id_token_hint = [], lq_post_logout_redirect_uri = ''https://rp/bye'', lq_state = ''s'',
      lq_session_id = ''sid''\<rparr> sample_logout_world
   = (Inr \<lparr>lr_post_logout_redirect_uri = ''https://rp/bye'', lr_state = ''s'', lr_subject = [],
       lr_client_id = ''rp'', lr_session_id = ''sid''\<rparr>, sample_logout_world)"
  by (simp add: logout_def resolve_hint_def client_for_post_logout_uri_def all_clients_def
      dict_values_def run_simps sample_logout_world_def sample_logout_client_def new_client_def)

lemma logout_returns_registered_witness:
  "\<exists>c\<in>set (all_clients sample_logout_world).
     cl_is_active c \<and> ''https://rp/bye'' \<in> cl_post_logout_redirect_uris c \<and> cl_client_id c = ''rp''"
  using logout_returns_registered [OF sample_logout_run] by auto



end
