(* ===== verification/ConsentRule.thy ===== *)
theory ConsentRule
  imports Claims
begin

text \<open>
  \<open>application/consent.py\<close>: whether an authorization request needs the user's confirmation, and
  the recording of what was granted.  The abstract specification is a ledger: per user and
  client, the union of everything ever granted.  The repository refines it.
\<close>

subsection \<open>The use case\<close>

definition parse_detail_keys :: "services \<Rightarrow> str \<Rightarrow> str set" where
  "parse_detail_keys X s =
     (if s = [] then {}
      else case parse_authorization_details X s of
          Inl _ \<Rightarrow> {}
        | Inr details \<Rightarrow> authorization_detail_keys X details)"

definition consent_is_required :: "services \<Rightarrow> client \<Rightarrow> str \<Rightarrow> str set \<Rightarrow> str \<Rightarrow> bool
    \<Rightarrow> (world, failure, bool) prog" where
  "consent_is_required X c subject scopes details force =
     (if \<not> cl_require_consent c then ok False
      else if cl_fapi_enabled c \<or> cl_fapi2_enabled c then ok True
      else if force then ok True
      else andthen (peek (\<lambda>w. consents_find (w_consents w) (subject, cl_client_id c))) (\<lambda>stored.
        case stored of
          None \<Rightarrow> ok True
        | Some s \<Rightarrow> ok (\<not> covers s scopes (parse_detail_keys X details))))"

definition consent_grant :: "services \<Rightarrow> str \<Rightarrow> str \<Rightarrow> str set \<Rightarrow> str
    \<Rightarrow> (world, failure, unit) prog" where
  "consent_grant X subject client_id scopes details =
     andthen (peek (\<lambda>w. consents_find (w_consents w) (subject, client_id))) (\<lambda>existing.
     andthen now_utc (\<lambda>now.
     modify (\<lambda>w. w\<lparr>w_consents := consents_save
       \<lparr>co_subject = subject, co_client_id = client_id,
        co_scopes = scopes \<union> (case existing of Some e \<Rightarrow> co_scopes e | None \<Rightarrow> {}),
        co_granted_at = now,
        co_authorization_details = parse_detail_keys X details
          \<union> (case existing of Some e \<Rightarrow> co_authorization_details e | None \<Rightarrow> {})\<rparr>
       (w_consents w)\<rparr>)))"

subsection \<open>The ledger\<close>

text \<open>A grant: user, client, scopes, canonical keys of the authorization details.\<close>

type_synonym grant_entry = "str \<times> str \<times> str set \<times> str"

definition entries_of :: "str \<times> str \<Rightarrow> grant_entry list \<Rightarrow> (str set \<times> str) list" where
  "entries_of k gs = [(s, d). (u, c, s, d) \<leftarrow> gs, (u, c) = k]"

definition ledger :: "services \<Rightarrow> grant_entry list \<Rightarrow> str \<times> str \<Rightarrow> (str set \<times> str set) option" where
  "ledger X gs k =
     (let es = entries_of k gs in
      if es = [] then None
      else Some (\<Union>(s, d)\<in>set es. s, \<Union>(s, d)\<in>set es. parse_detail_keys X d))"

definition ledger_requires :: "services \<Rightarrow> grant_entry list \<Rightarrow> client \<Rightarrow> str \<Rightarrow> str set \<Rightarrow> str \<Rightarrow> bool \<Rightarrow> bool" where
  "ledger_requires X gs c subject scopes details force \<longleftrightarrow>
     cl_require_consent c \<and>
     (cl_fapi_enabled c \<or> cl_fapi2_enabled c \<or> force \<or>
      (case ledger X gs (subject, cl_client_id c) of
         None \<Rightarrow> True
       | Some (s, d) \<Rightarrow> \<not> (scopes \<subseteq> s \<and> parse_detail_keys X details \<subseteq> d)))"

fun consent_grants :: "services \<Rightarrow> grant_entry list \<Rightarrow> (world, failure, unit) prog" where
  "consent_grants X [] = ok ()"
| "consent_grants X ((u, c, s, d) # gs) =
     andthen (consent_grant X u c s d) (\<lambda>_. consent_grants X gs)"

definition consented :: "world \<Rightarrow> str \<times> str \<Rightarrow> (str set \<times> str set) option" where
  "consented w k = map_option (\<lambda>c. (co_scopes c, co_authorization_details c))
     (consents_find (w_consents w) k)"

lemma consent_grant_consented:
  "consented (snd (consent_grant X u c s d w)) k =
     (if k = (u, c)
      then (case consented w k of
          None \<Rightarrow> Some (s, parse_detail_keys X d)
        | Some (s', d') \<Rightarrow> Some (s \<union> s', parse_detail_keys X d \<union> d'))
      else consented w k)"
  by (auto simp: consent_grant_def consented_def run_simps modify_def repo_simps
      split: option.splits)

lemma consent_grant_run: "consent_grant X u c s d w = (Inr (), snd (consent_grant X u c s d w))"
  by (simp add: consent_grant_def run_simps modify_def)

lemma consent_grants_run: "consent_grants X gs w = (Inr (), snd (consent_grants X gs w))"
proof (induction gs arbitrary: w)
  case (Cons g gs)
  then show ?case
    by (cases g) (simp add: andthen_run(1) [OF consent_grant_run])
qed (simp add: ok_def)

lemma ledger_snoc:
  "ledger X (gs @ [(u, c, s, d)]) k =
     (if k = (u, c)
      then (case ledger X gs k of
          None \<Rightarrow> Some (s, parse_detail_keys X d)
        | Some (s', d') \<Rightarrow> Some (s \<union> s', parse_detail_keys X d \<union> d'))
      else ledger X gs k)"
  by (auto simp: ledger_def entries_of_def Let_def)

lemma consent_grants_snoc:
  "snd (consent_grants X (gs @ [(u, c, s, d)]) w) =
     snd (consent_grant X u c s d (snd (consent_grants X gs w)))"
proof (induction gs arbitrary: w)
  case Nil
  then show ?case by (simp add: ok_def andthen_run(1) [OF consent_grant_run])
next
  case (Cons g gs)
  then show ?case by (cases g) (simp add: andthen_run(1) [OF consent_grant_run])
qed

lemma consent_store_refines:
  assumes "w_consents w = []"
  shows "consented (snd (consent_grants X gs w)) = ledger X gs"
proof (induction gs rule: rev_induct)
  case Nil
  then show ?case
    by (simp add: fun_eq_iff ok_def consented_def ledger_def entries_of_def consents_find_def assms)
next
  case (snoc g gs)
  obtain u c s d where "g = (u, c, s, d)" by (cases g)
  with snoc show ?case
    by (simp add: fun_eq_iff consent_grants_snoc consent_grant_consented ledger_snoc)
qed

subsection \<open>Property\<close>

text \<open>C8. Consent follows the ledger: after any sequence of grants, by any users to any clients,
  the confirmation page is required exactly when the client asks for consent and is a FAPI
  client, or \<open>prompt=consent\<close> forces it, or the scopes and details requested are not all in
  the union of what this user granted this client.  So consent is remembered, only grows, and
  is never shared between users or clients.\<close>

theorem consent_refines_ledger:
  assumes "w_consents w = []"
  shows "fst (consent_is_required X c subject scopes details force (snd (consent_grants X gs w)))
    = Inr (ledger_requires X gs c subject scopes details force)"
  using fun_cong [OF consent_store_refines [OF assms, of X gs], of "(subject, cl_client_id c)"]
  by (cases "ledger X gs (subject, cl_client_id c)")
    (auto simp: consent_is_required_def ledger_requires_def consented_def covers_def run_simps
      split: option.splits)

lemma consent_refines_ledger_witness:
  "fst (consent_is_required sample_services ((new_client ''rp'' 0)\<lparr>cl_require_consent := True\<rparr>) ''u''
      {''openid''} [] False
      (snd (consent_grants sample_services
        [(''u'', ''rp'', {''email''}, []), (''u'', ''rp'', {''openid''}, []), (''v'', ''rp'', {}, [])]
        sample_world))) = Inr False"
  by (subst consent_refines_ledger)
    (simp_all add: sample_world_def ledger_requires_def ledger_def entries_of_def new_client_def
      parse_detail_keys_def)

end
