(* ===== verification/AuthorizeCheck.thy ===== *)
theory AuthorizeCheck
  imports ConsentRule SessionManagement TokenRules
begin

text \<open>
  \<open>application/authorize.py\<close>, first half: the authorization request, its errors, and
  \<open>validate_authorization_request\<close>, which the authorization endpoint and the pushed
  authorization endpoint share.
\<close>

subsection \<open>Requests and errors\<close>

record authorize_request =
  aq_response_type :: str
  aq_client_id :: str
  aq_redirect_uri :: str
  aq_scope :: str
  aq_subject :: str
  aq_state :: str
  aq_nonce :: str
  aq_code_challenge :: str
  aq_code_challenge_method :: str
  aq_response_mode :: str
  aq_prompt :: str
  aq_max_age :: int
  aq_session_id :: str
  aq_auth_time :: int
  aq_acr_values :: str
  aq_claims :: str
  aq_openid2_realm :: str
  aq_dpop_jkt :: str
  aq_resource :: str
  aq_authorization_details :: str

record authorize_error =
  ae_error :: str
  ae_description :: str
  ae_redirect_uri :: str
  ae_state :: str
  ae_mode :: response_mode
  ae_redirectable :: bool
  ae_client_id :: str

text \<open>\<open>Rejected\<close> is an \<open>AuthorizeError\<close> returned, \<open>Crashed\<close> an exception that escapes.\<close>

datatype authorize_failure = Rejected authorize_error | Crashed str

record validated_authorization =
  va_client :: client
  va_response_types :: "str set"
  va_has_tokens :: bool
  va_wants_code :: bool
  va_wants_id_token :: bool
  va_wants_token :: bool
  va_response_mode :: response_mode

definition authorize_error_of :: "str \<Rightarrow> authorize_request \<Rightarrow> str \<Rightarrow> response_mode \<Rightarrow> bool \<Rightarrow> authorize_error" where
  "authorize_error_of e r description mode redirectable =
     \<lparr>ae_error = e, ae_description = description, ae_redirect_uri = aq_redirect_uri r,
      ae_state = aq_state r, ae_mode = mode, ae_redirectable = redirectable,
      ae_client_id = aq_client_id r\<rparr>"

definition reject :: "str \<Rightarrow> authorize_request \<Rightarrow> str \<Rightarrow> response_mode \<Rightarrow> (world, authorize_failure, 'a) prog" where
  "reject e r description mode = raise (Rejected (authorize_error_of e r description mode True))"

definition reject_unsafe :: "str \<Rightarrow> authorize_request \<Rightarrow> response_mode \<Rightarrow> (world, authorize_failure, 'a) prog" where
  "reject_unsafe e r mode = raise (Rejected (authorize_error_of e r [] mode False))"

text \<open>\<open>if condition: return error\<close>.\<close>

definition reject_if :: "bool \<Rightarrow> str \<Rightarrow> authorize_request \<Rightarrow> str \<Rightarrow> response_mode
    \<Rightarrow> (world, authorize_failure, unit) prog" where
  "reject_if b e r description mode = (if b then reject e r description mode else ok ())"

subsection \<open>Response modes\<close>

definition resolve_response_mode :: "str \<Rightarrow> bool \<Rightarrow> response_mode option" where
  "resolve_response_mode requested has_tokens =
     (if requested = mode_value Jwt then Some Jwt
      else if requested = mode_value FormPost then Some FormPost
      else if requested = mode_value Fragment then Some Fragment
      else if requested = mode_value Query then (if has_tokens then None else Some Query)
      else Some (if has_tokens then Fragment else Query))"

definition error_response_mode :: "str \<Rightarrow> bool \<Rightarrow> response_mode" where
  "error_response_mode requested has_tokens =
     (case resolve_response_mode (if requested = mode_value Jwt then [] else requested) has_tokens of
        Some m \<Rightarrow> m
      | None \<Rightarrow> Fragment)"

definition jarm_signing_algorithms :: "str list" where
  "jarm_signing_algorithms = [''PS256'', ''ES256'', ''RS256'']"

definition jarm_signing_alg :: "client \<Rightarrow> str \<Rightarrow> str" where
  "jarm_signing_alg c requested_mode =
     (if requested_mode \<noteq> mode_value Jwt then []
      else if cl_authorization_signed_response_alg c \<notin> set jarm_signing_algorithms then []
      else cl_authorization_signed_response_alg c)"

subsection \<open>Parameters\<close>

text \<open>
  \<open>int(text)\<close>: white space around (only that of ASCII when the text is ASCII), a sign, decimal
  digits with single underscores between them, at most 4300 digits.
\<close>

definition is_decimal :: "char \<Rightarrow> bool" where
  "is_decimal c = (let n = (of_char c :: nat) in 48 \<le> n \<and> n \<le> 57)"

definition int_space :: "str \<Rightarrow> char \<Rightarrow> bool" where
  "int_space s c = (let n = (of_char c :: nat) in
     if list_all is_ascii s then (9 \<le> n \<and> n \<le> 13) \<or> n = 32 else is_space c)"

fun digit_group :: "bool \<Rightarrow> str \<Rightarrow> bool" where
  "digit_group after_digit [] = after_digit"
| "digit_group after_digit (c # cs) =
     (if is_decimal c then digit_group True cs
      else after_digit \<and> c = CHR ''_'' \<and> digit_group False cs)"

definition parse_digits :: "str \<Rightarrow> nat option" where
  "parse_digits s =
     (let ds = filter is_decimal s in
      if digit_group False s \<and> length ds \<le> 4300 then Some (nat_of_digits ds) else None)"

definition py_int :: "str \<Rightarrow> int option" where
  "py_int s =
     (let t = rev (dropWhile (int_space s) (rev (dropWhile (int_space s) s)))
      in case t of
           [] \<Rightarrow> None
         | c # cs \<Rightarrow>
             if c = CHR ''-'' then map_option (\<lambda>n. - int n) (parse_digits cs)
             else if c = CHR ''+'' then map_option int (parse_digits cs)
             else map_option int (parse_digits t))"

definition parse_max_age :: "str \<Rightarrow> int" where
  "parse_max_age v =
     (if v = [] then -1
      else case py_int v of
          None \<Rightarrow> -2
        | Some n \<Rightarrow> if 0 \<le> n then n else -2)"

definition supported_acr_values :: "str list" where
  "supported_acr_values = [''puridentityserver:pwd'', ''urn:openid:eap:loa1'']"

definition first_acr_value :: "str \<Rightarrow> str" where
  "first_acr_value acr_values = (case py_split acr_values of [] \<Rightarrow> [] | v # _ \<Rightarrow> v)"

definition first_supported_acr :: "str \<Rightarrow> str" where
  "first_supported_acr acr_values =
     (case List.find (\<lambda>v. v \<in> set supported_acr_values) (py_split acr_values) of
        None \<Rightarrow> [] | Some v \<Rightarrow> v)"

definition is_b64url_char :: "char \<Rightarrow> bool" where
  "is_b64url_char c = (let n = (of_char c :: nat) in
     (65 \<le> n \<and> n \<le> 90) \<or> (97 \<le> n \<and> n \<le> 122) \<or> (48 \<le> n \<and> n \<le> 57) \<or> n = 95 \<or> n = 45)"

definition is_jkt :: "str \<Rightarrow> bool" where
  "is_jkt s \<longleftrightarrow> length s = 43 \<and> list_all is_b64url_char s"

subsection \<open>The checks\<close>

definition resource_error :: "services \<Rightarrow> registry option \<Rightarrow> authorize_request \<Rightarrow> response_mode
    \<Rightarrow> (world, authorize_failure, unit) prog" where
  "resource_error X registry r mode =
     (let resources = parse_resource_parameter X (aq_resource r) in
      if resources = [] then ok ()
      else if list_ex (\<lambda>u. is_resource_uri X u = None) resources then raise (Crashed ''ValueError'')
      else
        (let malformed = filter (\<lambda>u. is_resource_uri X u = Some False) resources in
         andthen (reject_if (malformed \<noteq> []) ''invalid_target'' r
           (''resource doit etre une URI absolue sans fragment (RFC 8707 par. 2.1) : '' @ join_with '', '' malformed) mode) (\<lambda>_.
         case registry of
           None \<Rightarrow> ok ()
         | Some g \<Rightarrow>
             andthen (peek (\<lambda>w. unknown_resources g w resources)) (\<lambda>unknown.
             reject_if (unknown \<noteq> []) ''invalid_target'' r
               (''Resource non enregistree (RFC 8707 par. 2.2) : '' @ join_with '', '' unknown) mode))))"

definition details_error :: "services \<Rightarrow> authorize_request \<Rightarrow> response_mode
    \<Rightarrow> (world, authorize_failure, unit) prog" where
  "details_error X r mode =
     (if aq_authorization_details r = [] then ok ()
      else case parse_authorization_details X (aq_authorization_details r) of
          Inl text \<Rightarrow> reject ''invalid_authorization_details'' r text mode
        | Inr _ \<Rightarrow> ok ())"

definition parameter_error :: "services \<Rightarrow> registry option \<Rightarrow> authorize_request \<Rightarrow> response_mode
    \<Rightarrow> (world, authorize_failure, unit) prog" where
  "parameter_error X registry r mode =
     andthen (reject_if (aq_max_age r < -1) ''invalid_request'' r
       ''max_age doit etre un entier positif (OIDC Core 1.0 par. 3.1.2.1)'' mode) (\<lambda>_.
     andthen (reject_if (aq_claims r \<noteq> [] \<and> parse_claims_parameter X (aq_claims r) = None) ''invalid_request'' r
       ''claims doit etre un objet JSON valide (OIDC Core 1.0 par. 5.5.1)'' mode) (\<lambda>_.
     andthen (reject_if (aq_dpop_jkt r \<noteq> [] \<and> \<not> is_jkt (aq_dpop_jkt r)) ''invalid_request'' r
       ''dpop_jkt doit etre une empreinte RFC 7638 (43 caracteres base64url)'' mode) (\<lambda>_.
     andthen (reject_if (aq_code_challenge r \<noteq> [] \<and> aq_code_challenge_method r \<notin> {''S256'', ''plain''}) ''invalid_request'' r
       ''code_challenge_method doit etre 'S256' ou 'plain' (RFC 7636 par. 4.3)'' mode) (\<lambda>_.
     andthen (details_error X r mode) (\<lambda>_.
     andthen (reject_if (aq_scope r = [] \<and> aq_authorization_details r = []) ''invalid_scope'' r
       ''scope ou authorization_details requis (OID4VCI 1.0 par. 5.1.1)'' mode) (\<lambda>_.
     resource_error X registry r mode))))))"

definition openid20_realm_error :: "authorize_request \<Rightarrow> client \<Rightarrow> str set \<Rightarrow> response_mode
    \<Rightarrow> (world, authorize_failure, unit) prog" where
  "openid20_realm_error r c scopes mode =
     reject_if (scope_openid20 \<in> scopes \<and> aq_openid2_realm r \<noteq> []
         \<and> (\<forall>uri\<in>cl_redirect_uris c. \<not> starts_with (aq_openid2_realm r) uri))
       ''invalid_request'' r
       ''openid2_realm ne correspond a aucune URI de redirection enregistree (spec de migration OpenID 2.0 par. 3, OpenID 2.0 par. 9.2)'' mode"

definition client_request_error :: "authorize_request \<Rightarrow> client \<Rightarrow> str set \<Rightarrow> response_mode
    \<Rightarrow> (world, authorize_failure, unit) prog" where
  "client_request_error r c scopes mode =
     (if aq_redirect_uri r \<notin> cl_redirect_uris c then reject_unsafe ''invalid_redirect_uri'' r mode
      else openid20_realm_error r c scopes mode)"

definition fapi_profile_error :: "authorize_request \<Rightarrow> str set \<Rightarrow> response_mode
    \<Rightarrow> (world, authorize_failure, unit) prog" where
  "fapi_profile_error r types mode =
     andthen (reject_if (types \<noteq> {''code'', ''id_token''}) ''unsupported_response_type'' r
       ''FAPI1-Advanced n'admet que le flow hybride 'code id_token' (FAPI1-ADV-5.2.2-2)'' mode) (\<lambda>_.
     reject_if (aq_code_challenge r \<noteq> [] \<and> aq_code_challenge_method r \<noteq> ''S256'') ''invalid_request'' r
       ''code_challenge_method doit etre 'S256' pour un client FAPI1 (FAPI1-ADV-5.2.2-18)'' mode)"

definition fapi2_profile_error :: "authorize_request \<Rightarrow> str set \<Rightarrow> response_mode
    \<Rightarrow> (world, authorize_failure, unit) prog" where
  "fapi2_profile_error r types mode =
     andthen (reject_if (types \<noteq> {''code''}) ''unsupported_response_type'' r
       ''FAPI2 n'admet que le flow 'code' (FAPI2-SP-5.3.2.2-2)'' mode) (\<lambda>_.
     reject_if (aq_code_challenge r \<noteq> [] \<and> aq_code_challenge_method r \<noteq> ''S256'') ''invalid_request'' r
       ''code_challenge_method doit etre 'S256' pour un client FAPI2 (FAPI2-SP-5.3.2.2-5)'' mode)"

definition client_profile_error :: "authorize_request \<Rightarrow> client \<Rightarrow> str set \<Rightarrow> response_mode
    \<Rightarrow> (world, authorize_failure, unit) prog" where
  "client_profile_error r c types mode =
     (if cl_fapi_enabled c then fapi_profile_error r types mode
      else if cl_fapi2_enabled c then fapi2_profile_error r types mode
      else ok ())"

definition unknown_scope_error :: "registry option \<Rightarrow> str set \<Rightarrow> authorize_request \<Rightarrow> response_mode
    \<Rightarrow> (world, authorize_failure, unit) prog" where
  "unknown_scope_error registry scopes r mode =
     (case registry of
        None \<Rightarrow> ok ()
      | Some g \<Rightarrow>
          andthen (peek (\<lambda>w. unknown_scopes g w scopes)) (\<lambda>unknown.
          reject_if (unknown \<noteq> []) ''invalid_scope'' r
            (''Scope(s) non enregistre(s) : '' @ join_with '', '' unknown) mode))"

definition scope_profile_error :: "registry option \<Rightarrow> str set \<Rightarrow> authorize_request \<Rightarrow> response_mode \<Rightarrow> bool
    \<Rightarrow> (world, authorize_failure, unit) prog" where
  "scope_profile_error registry scopes r mode wants_id_token =
     andthen (reject_if (wants_id_token \<and> scope_openid \<notin> scopes) ''invalid_scope'' r
       ''Le scope 'openid' est requis'' mode) (\<lambda>_.
     unknown_scope_error registry scopes r mode)"

definition valid_response_types :: "str set set" where
  "valid_response_types = {{''code''}, {''id_token''}, {''token''}, {''id_token'', ''token''},
     {''code'', ''id_token''}, {''code'', ''token''}, {''code'', ''id_token'', ''token''}}"

definition response_types_of :: "authorize_request \<Rightarrow> str set" where
  "response_types_of r = set (py_split (aq_response_type r))"

definition has_tokens_of :: "str set \<Rightarrow> bool" where
  "has_tokens_of types \<longleftrightarrow> types \<inter> {''id_token'', ''token''} \<noteq> {}"

text \<open>The checks made once the client is known and active.\<close>

definition check_client_request :: "services \<Rightarrow> registry option \<Rightarrow> authorize_request \<Rightarrow> client
    \<Rightarrow> response_mode \<Rightarrow> (world, authorize_failure, unit) prog" where
  "check_client_request X registry r c mode =
     (let types = response_types_of r;
          scopes = from_space_separated (aq_scope r) in
      andthen (client_request_error r c scopes mode) (\<lambda>_.
      andthen (reject_if (aq_response_mode r = mode_value Jwt \<and> jarm_signing_alg c (aq_response_mode r) = [])
        ''unsupported_response_mode'' r
        ''response_mode=jwt exige un authorization_signed_response_alg publie par l'emetteur (JARM Final 1.0 par. 4)''
        (error_response_mode (aq_response_mode r) (has_tokens_of types))) (\<lambda>_.
      andthen (client_profile_error r c types mode) (\<lambda>_.
      andthen (parameter_error X registry r mode) (\<lambda>_.
      andthen (scope_profile_error registry scopes r mode (''id_token'' \<in> types)) (\<lambda>_.
      reject_if (''id_token'' \<in> types \<and> aq_nonce r = []) ''invalid_request'' r
        ''nonce requis (OIDC Core 1.0 par. 3.2.2.10)'' mode))))))"

definition validate_authorization_request :: "services \<Rightarrow> registry option \<Rightarrow> authorize_request
    \<Rightarrow> (world, authorize_failure, validated_authorization) prog" where
  "validate_authorization_request X registry r =
     (let types = response_types_of r;
          has_tokens = has_tokens_of types;
          error_mode = error_response_mode (aq_response_mode r) has_tokens in
      andthen (reject_if (types \<notin> valid_response_types) ''unsupported_response_type'' r [] error_mode) (\<lambda>_.
      case resolve_response_mode (aq_response_mode r) has_tokens of
        None \<Rightarrow> reject ''invalid_request'' r
          '''query' est interdit quand des jetons sont retournes (OIDC Core 1.0 par. 3.1.2.1)'' error_mode
      | Some mode \<Rightarrow>
          andthen (find_client (aq_client_id r)) (\<lambda>found.
          case found of
            None \<Rightarrow> reject_unsafe ''invalid_client'' r mode
          | Some c \<Rightarrow>
              andthen (if cl_is_active c then ok () else reject_unsafe ''invalid_client'' r mode) (\<lambda>_.
              andthen (check_client_request X registry r c mode) (\<lambda>_.
              ok \<lparr>va_client = c, va_response_types = types, va_has_tokens = has_tokens,
                  va_wants_code = (''code'' \<in> types), va_wants_id_token = (''id_token'' \<in> types),
                  va_wants_token = (''token'' \<in> types), va_response_mode = mode\<rparr>)))))"

end
