(* ===== verification/RequestObject.thy ===== *)
theory RequestObject
  imports AuthorizeCheck SampleServer
begin

text \<open>
  \<open>application/request_object.py\<close>: the request objects (JAR) of \<open>/authorize\<close> and \<open>/par\<close>, by value
  or by reference, plain, signed, encrypted, with the profiles of FAPI and of federated clients;
  \<open>infrastructure/signed_request_object.py\<close>: their signature, time bounds and anti-replay.
\<close>

subsection \<open>Prerequisites\<close>

text \<open>Another error type, the same run.\<close>

definition map_error :: "('e \<Rightarrow> 'f) \<Rightarrow> ('s, 'e, 'a) prog \<Rightarrow> ('s, 'f, 'a) prog" where
  "map_error h m = (\<lambda>s. (case fst (m s) of Inl e \<Rightarrow> Inl (h e) | Inr x \<Rightarrow> Inr x, snd (m s)))"

lemma map_error_Inr [prog_simps]: "map_error h m s = (Inr x, t) \<longleftrightarrow> m s = (Inr x, t)"
  by (cases "m s") (auto simp: map_error_def split: sum.splits)

lemma map_error_Inl [prog_simps]:
  "map_error h m s = (Inl e, t) \<longleftrightarrow> (\<exists>d. m s = (Inl d, t) \<and> e = h d)"
  by (cases "m s") (auto simp: map_error_def split: sum.splits)

lemma moves_map_error [moves_intros]: "moves R m \<Longrightarrow> moves R (map_error h m)"
  by (simp add: moves_def map_error_def)

text \<open>\<open>dict.get(name, "")\<close>.\<close>

definition param :: "(str \<times> str) list \<Rightarrow> str \<Rightarrow> str" where
  "param ps k = (case dict_get ps k of Some v \<Rightarrow> v | None \<Rightarrow> [])"

subsection \<open>Ports\<close>

text \<open>
  \<open>js_fetch\<close>: the \<open>RequestObjectFetcher\<close> port; \<open>js_decrypt\<close>: the \<open>RequestObjectDecrypter\<close> port, a
  plaintext or a reason; \<open>js_has_key\<close>: \<open>resolve_signing_key\<close> finds a key of the client for the
  token; \<open>js_decode\<close>: \<open>pyjwt.decode\<close> with that key, an algorithm, the audience, the issuer and the
  required claims, at an instant, with the exceptions the code distinguishes; \<open>js_segment\<close>:
  \<open>json.loads(base64.urlsafe_b64decode(text))\<close>, \<open>None\<close> for a \<open>ValueError\<close>; \<open>js_json_text\<close>:
  \<open>json.dumps(value, ensure_ascii=False, separators=(",", ":"))\<close>.
\<close>

datatype jwt_refusal =
    MissingRequiredClaim str
  | ExpiredSignature
  | ImmatureSignature
  | InvalidIssuer
  | InvalidAudience
  | OtherJwtError

record jar_services =
  js_fetch :: "str \<Rightarrow> str option"
  js_decrypt :: "str \<Rightarrow> str \<Rightarrow> str \<Rightarrow> str \<Rightarrow> str option \<times> str"
  js_has_key :: "str \<Rightarrow> client \<Rightarrow> bool"
  js_decode :: "str \<Rightarrow> client \<Rightarrow> str \<Rightarrow> str \<Rightarrow> str list \<Rightarrow> instant \<Rightarrow> jwt_refusal + (str \<times> json) list"
  js_segment :: "str \<Rightarrow> json option"
  js_json_text :: "json \<Rightarrow> str"

subsection \<open>Signed request objects\<close>

text \<open>
  A refusal is a value, \<open>Inl\<close> its reason (\<open>SignedRequestObjectResult\<close>); the error of the program
  is the name of an exception that escapes.
\<close>

definition max_request_object_lifetime_seconds :: int where
  "max_request_object_lifetime_seconds = 3600"

text \<open>\<open>int\<close> of a float truncates.\<close>

definition timestamp_of :: "(str \<times> json) list \<Rightarrow> str \<Rightarrow> str + int" where
  "timestamp_of claims name =
     (case map_of claims name of
        None \<Rightarrow> Inl ''KeyError''
      | Some (JInt i) \<Rightarrow> Inr i
      | Some (JFloat q) \<Rightarrow> Inr (if 0 \<le> q then \<lfloor>q\<rfloor> else \<lceil>q\<rceil>)
      | Some (JStr s) \<Rightarrow> (case py_int s of Some i \<Rightarrow> Inr i | None \<Rightarrow> Inl ''ValueError'')
      | Some _ \<Rightarrow> Inl ''TypeError'')"

definition refusal_reason :: "client \<Rightarrow> jwt_refusal \<Rightarrow> str" where
  "refusal_reason c e =
     (case e of
        MissingRequiredClaim text \<Rightarrow> ''claim requis absent : '' @ text
      | ExpiredSignature \<Rightarrow> ''request object expire (claim exp)''
      | ImmatureSignature \<Rightarrow> ''request object pas encore valide (claim nbf)''
      | InvalidIssuer \<Rightarrow> ''claim iss different du client '' @ py_repr (cl_client_id c)
      | InvalidAudience \<Rightarrow> ''claim aud different de l'issuer''
      | OtherJwtError \<Rightarrow> ''signature du request object invalide'')"

definition temporal_bounds :: "(str \<times> json) list \<Rightarrow> str list \<Rightarrow> (world, str, str option) prog" where
  "temporal_bounds claims required =
     (if ''nbf'' \<notin> set required then ok None
      else case (timestamp_of claims ''exp'', timestamp_of claims ''nbf'') of
          (Inr e, Inr n) \<Rightarrow>
            if e - n > max_request_object_lifetime_seconds
            then ok (Some ''duree de vie (exp - nbf) superieure a 60 minutes (FAPI-CIBA-ID1 par. 5.2.2)'')
            else
              andthen now_utc (\<lambda>t.
              let now = epoch_seconds t in
              ok (if e > now + max_request_object_lifetime_seconds
                  then Some ''claim exp plus de 60 minutes dans le futur (FAPI1-ADV-5.2.2-13)''
                  else if n < now - max_request_object_lifetime_seconds
                  then Some ''claim nbf plus de 60 minutes dans le passe (FAPI1-ADV-5.2.2-17)''
                  else None))
        | (e, n) \<Rightarrow>
            if e = Inl ''KeyError'' \<or> isl n \<and> \<not> isl e \<and> n = Inl ''KeyError'' then raise ''KeyError''
            else ok (Some ''claims exp/nbf invalides (entiers attendus)''))"

definition remember_object_jti :: "services \<Rightarrow> (str \<times> json) list \<Rightarrow> str \<Rightarrow> (world, str, str option) prog" where
  "remember_object_jti X claims namespace =
     (case jget_str claims ''jti'' of
        None \<Rightarrow> ok (Some ''claim jti absent ou vide'')
      | Some jti \<Rightarrow>
          if jti = [] then ok (Some ''claim jti absent ou vide'')
          else
            let digest = jti_hash X (namespace @ jti) in
            andthen (peek (\<lambda>w. is_used (w_replays w) digest)) (\<lambda>seen.
            if seen then ok (Some ''claim jti deja presente (anti-replay)'')
            else case timestamp_of claims ''exp'' of
                Inl e \<Rightarrow> raise e
              | Inr i \<Rightarrow>
                  case from_timestamp (of_int i) of
                    None \<Rightarrow> raise ''ValueError''
                  | Some t \<Rightarrow>
                      andthen now_utc (\<lambda>seen_at.
                      andthen (modify (\<lambda>w. w\<lparr>w_replays := replays_save
                        \<lparr>dr_jti_hash = digest, dr_expires_at = t, dr_seen_at = seen_at\<rparr> (w_replays w)\<rparr>)) (\<lambda>_.
                      andthen now_utc (\<lambda>purged_at.
                      andthen (modify (\<lambda>w. w\<lparr>w_replays := replays_purge purged_at (w_replays w)\<rparr>)) (\<lambda>_.
                      ok None))))))"

definition verify_signed_object :: "services \<Rightarrow> jar_services \<Rightarrow> str \<Rightarrow> client \<Rightarrow> str \<Rightarrow> str list
    \<Rightarrow> str list \<Rightarrow> bool \<Rightarrow> str \<Rightarrow> (world, str, str + (str \<times> json) list) prog" where
  "verify_signed_object X J token c issuer allowed required enforce_jti namespace =
     (case sv_unverified_header X token of
        None \<Rightarrow> ok (Inl ''JWT attendu (en-tete illisible)'')
      | Some header \<Rightarrow>
          let algorithm = (case map_of header ''alg'' of None \<Rightarrow> [] | Some v \<Rightarrow> json_text X v) in
          if algorithm \<notin> set allowed
          then ok (Inl (''algorithme de signature non admis : '' @ py_repr algorithm))
          else if \<not> js_has_key J token c
          then ok (Inl ''aucune cle du client ne correspond a l'en-tete du jeton'')
          else
            andthen now_utc (\<lambda>t.
            case js_decode J token c algorithm issuer required t of
              Inl e \<Rightarrow> ok (Inl (refusal_reason c e))
            | Inr claims \<Rightarrow>
                andthen (temporal_bounds claims required) (\<lambda>late.
                case late of
                  Some reason \<Rightarrow> ok (Inl reason)
                | None \<Rightarrow>
                    if \<not> enforce_jti then ok (Inr claims)
                    else
                      andthen (remember_object_jti X claims namespace) (\<lambda>replayed.
                      ok (case replayed of Some reason \<Rightarrow> Inl reason | None \<Rightarrow> Inr claims)))))"

subsection \<open>Configuration, errors, reading of documents\<close>

definition request_object_signing_algorithms :: "str list" where
  "request_object_signing_algorithms = [''none'']"
definition standard_signed_request_object_algorithms :: "str list" where
  "standard_signed_request_object_algorithms = [''RS256'']"
definition standard_signed_required_claims :: "str list" where
  "standard_signed_required_claims = [''iss'', ''aud'']"
definition request_object_encryption_algorithms :: "str list" where
  "request_object_encryption_algorithms = [''RSA-OAEP'', ''RSA-OAEP-256'']"
definition request_object_encryption_methods :: "str list" where
  "request_object_encryption_methods = [''A128CBC-HS256'', ''A256CBC-HS512'', ''A128GCM'', ''A256GCM'']"
definition fapi_request_object_signing_algorithms :: "str list" where
  "fapi_request_object_signing_algorithms = [''PS256'', ''ES256'']"
definition fapi_required_claims :: "str list" where
  "fapi_required_claims = [''iss'', ''aud'', ''exp'', ''nbf'', ''scope'', ''nonce'', ''redirect_uri'']"
definition federated_signed_required_claims :: "str list" where
  "federated_signed_required_claims = [''iss'', ''aud'', ''exp'', ''jti'']"
definition federated_jti_namespace :: str where
  "federated_jti_namespace = ''federation:''"

definition embedded_names :: "str list" where
  "embedded_names = [''request'', ''request_uri'']"
definition fapi_transport_keys :: "str list" where
  "fapi_transport_keys = [''client_id'', ''client_secret'', ''client_assertion'', ''client_assertion_type'']"

text \<open>The flags say which optional dependencies the resolver was given.\<close>

record jar_config =
  jc_signing_algorithms :: "str list"
  jc_issuer :: str
  jc_encryption_algorithms :: "str list"
  jc_encryption_methods :: "str list"
  jc_clients :: bool
  jc_signed :: bool
  jc_decryption :: bool

record jar_error =
  je_error :: str
  je_description :: str
  je_state :: str

datatype jar_failure = JarRefused jar_error | JarCrashed str

definition jar_error_of :: "str \<Rightarrow> str \<Rightarrow> jar_error" where
  "jar_error_of e text = \<lparr>je_error = e, je_description = text, je_state = []\<rparr>"

definition invalid_object :: "str \<Rightarrow> jar_error" where
  "invalid_object text = jar_error_of ''invalid_request_object'' text"

definition malformed :: "str \<Rightarrow> jar_error" where
  "malformed reason = invalid_object (''request object invalide : '' @ reason)"

definition is_pushed_request_uri :: "str \<Rightarrow> bool" where
  "is_pushed_request_uri reference \<longleftrightarrow> starts_with pushed_request_uri_prefix reference"

definition decode_segment :: "jar_services \<Rightarrow> str \<Rightarrow> (str \<times> json) list option" where
  "decode_segment J segment =
     (case js_segment J (pad_base64 segment) of
        Some (JObj d) \<Rightarrow> Some d
      | _ \<Rightarrow> None)"

definition unverified_claim :: "jar_services \<Rightarrow> str \<Rightarrow> str \<Rightarrow> str" where
  "unverified_claim J document name =
     (let segments = split_on (CHR ''.'') document in
      if length segments \<notin> {2, 3} then []
      else case decode_segment J (segments ! 1) of
          None \<Rightarrow> []
        | Some payload \<Rightarrow> (case jget_str payload name of Some s \<Rightarrow> s | None \<Rightarrow> []))"

definition unverified_issuer :: "jar_services \<Rightarrow> str \<Rightarrow> str" where
  "unverified_issuer J document = unverified_claim J document ''iss''"
definition unverified_redirect_uri :: "jar_services \<Rightarrow> str \<Rightarrow> str" where
  "unverified_redirect_uri J document = unverified_claim J document ''redirect_uri''"

definition with_state :: "jar_services \<Rightarrow> str \<Rightarrow> jar_error \<Rightarrow> jar_error" where
  "with_state J document e =
     (let state = unverified_claim J document ''state'' in
      if state = [] \<or> state = je_state e then e
      else \<lparr>je_error = je_error e, je_description = je_description e, je_state = state\<rparr>)"

definition header_algorithm :: "services \<Rightarrow> jar_services \<Rightarrow> str \<Rightarrow> str" where
  "header_algorithm X J document =
     (let segments = split_on (CHR ''.'') document in
      if length segments \<notin> {2, 3} then []
      else case decode_segment J (segments ! 0) of
          None \<Rightarrow> []
        | Some header \<Rightarrow> (case map_of header ''alg'' of None \<Rightarrow> ''none'' | Some v \<Rightarrow> json_text X v))"

definition jwe_header :: "jar_services \<Rightarrow> str \<Rightarrow> str option \<times> str option \<times> str" where
  "jwe_header J document =
     (case decode_segment J (hd (split_on (CHR ''.'') document)) of
        None \<Rightarrow> (None, None, [])
      | Some header \<Rightarrow> (jget_str header ''alg'', jget_str header ''enc'',
          case jget_str header ''kid'' of Some k \<Rightarrow> k | None \<Rightarrow> []))"

definition stringify :: "jar_services \<Rightarrow> json \<Rightarrow> str" where
  "stringify J v = (case v of JStr s \<Rightarrow> s | _ \<Rightarrow> js_json_text J v)"

definition stringify_claims :: "jar_services \<Rightarrow> (str \<times> json) list \<Rightarrow> (str \<times> str) list" where
  "stringify_claims J claims = map (\<lambda>(k, v). (k, stringify J v)) claims"

definition object_claims :: "services \<Rightarrow> jar_services \<Rightarrow> str \<Rightarrow> str list \<Rightarrow> jar_error + (str \<times> str) list" where
  "object_claims X J document allowed =
     (let segments = split_on (CHR ''.'') document in
      if length segments \<notin> {2, 3}
      then Inl (malformed ''JWT compact attendu (trois segments separes par un point)'')
      else if length segments = 3 \<and> segments ! 2 \<noteq> []
      then Inl (malformed ''alg=none ne porte aucune signature (JWA RFC 7519 par. 6)'')
      else case (decode_segment J (segments ! 0), decode_segment J (segments ! 1)) of
          (Some header, Some payload) \<Rightarrow>
            (case map_of header ''alg'' of
               None \<Rightarrow> if ''none'' \<in> set allowed then Inr (stringify_claims J payload)
                  else Inl (invalid_object (''algorithme de request object non supporte : '' @ py_repr ''none''))
             | Some (JStr a) \<Rightarrow> if a \<in> set allowed then Inr (stringify_claims J payload)
                  else Inl (invalid_object (''algorithme de request object non supporte : '' @ py_repr a))
             | Some v \<Rightarrow> Inl (invalid_object (''algorithme de request object non supporte : '' @ sv_py_str X v)))
        | _ \<Rightarrow> Inl (malformed ''en-tete ou claims illisibles (base64url JSON attendu)''))"

definition merge_params :: "(str \<times> str) list \<Rightarrow> (str \<times> str) list \<Rightarrow> (str \<times> str) list" where
  "merge_params params claims =
     dict_update (filter (\<lambda>(k, _). k \<notin> set embedded_names) claims)
       (filter (\<lambda>(k, _). k \<notin> set embedded_names) params)"

definition merge_fapi :: "jar_services \<Rightarrow> (str \<times> str) list \<Rightarrow> (str \<times> json) list \<Rightarrow> (str \<times> str) list" where
  "merge_fapi J params claims =
     dict_update (filter (\<lambda>(k, _). k \<notin> set embedded_names) (stringify_claims J claims))
       (filter (\<lambda>(k, _). k \<in> set fapi_transport_keys) params)"

subsection \<open>The resolver\<close>

definition find_object_client :: "jar_config \<Rightarrow> str \<Rightarrow> (world, 'e, client option) prog" where
  "find_object_client K client_id =
     (if client_id = [] \<or> \<not> jc_clients K then ok None else find_client client_id)"

definition object_document :: "jar_services \<Rightarrow> (str \<times> str) list \<Rightarrow> jar_error + str" where
  "object_document J params =
     (let by_value = param params ''request''; reference = param params ''request_uri'' in
      if by_value \<noteq> [] \<and> reference \<noteq> []
      then Inl (jar_error_of ''invalid_request'' ''request et request_uri sont mutuellement exclusifs (RFC 9101 par. 4)'')
      else if by_value \<noteq> [] then Inr by_value
      else if reference = [] \<or> is_pushed_request_uri reference then Inr []
      else case js_fetch J reference of
          Some (d # ds) \<Rightarrow> Inr (d # ds)
        | _ \<Rightarrow> Inl (jar_error_of ''invalid_request_uri'' ''request_uri injoignable ou refusee (RFC 9101 par. 5.2)''))"

definition client_id_mismatch :: "jar_services \<Rightarrow> (str \<times> str) list \<Rightarrow> str \<Rightarrow> bool" where
  "client_id_mismatch J params document =
     (let transport = param params ''client_id'';
          named = unverified_claim J document ''client_id'';
          embedded = (if named \<noteq> [] then named else unverified_issuer J document)
      in transport \<noteq> [] \<and> embedded \<noteq> [] \<and> embedded \<noteq> transport)"

definition decrypt_object :: "jar_services \<Rightarrow> jar_config \<Rightarrow> str \<Rightarrow> jar_error + str" where
  "decrypt_object J K document =
     (if length (split_on (CHR ''.'') document) \<noteq> 5 then Inr document
      else if \<not> jc_decryption K \<or> jc_encryption_algorithms K = [] \<or> jc_encryption_methods K = []
      then Inl (malformed ''chiffrement des request objects non supporte'')
      else case jwe_header J document of
          (None, _, _) \<Rightarrow> Inl (malformed ''en-tete JWE illisible (base64url JSON attendu)'')
        | (Some alg, enc, kid) \<Rightarrow>
            if alg \<notin> set (jc_encryption_algorithms K)
            then Inl (invalid_object (''algorithme de chiffrement non publie : '' @ py_repr alg))
            else case enc of
                None \<Rightarrow> Inl (malformed ''en-tete JWE sans algorithme de chiffrement du contenu (enc)'')
              | Some m \<Rightarrow>
                  if m \<notin> set (jc_encryption_methods K)
                  then Inl (invalid_object (''methode de chiffrement non publiee : '' @ py_repr m))
                  else case js_decrypt J document alg m kid of
                      (Some (c # cs), _) \<Rightarrow> Inr (c # cs)
                    | (_, reason) \<Rightarrow> Inl (malformed (''dechiffrement impossible : '' @ reason)))"

text \<open>The refusal comes with the document its \<open>state\<close> is read from.\<close>

definition prepare_object :: "jar_services \<Rightarrow> jar_config \<Rightarrow> (str \<times> str) list \<Rightarrow> str
    \<Rightarrow> str \<times> jar_error + str" where
  "prepare_object J K params document =
     (case decrypt_object J K document of
        Inl e \<Rightarrow> Inl ([], e)
      | Inr d \<Rightarrow>
          if client_id_mismatch J params d
          then Inl (d, jar_error_of ''invalid_request''
            ''client_id de la requete different de celui du request object (OIDC Core 1.0 par. 6.1)'')
          else Inr d)"

definition resolve_standard :: "services \<Rightarrow> jar_services \<Rightarrow> jar_config \<Rightarrow> str \<Rightarrow> client option \<Rightarrow> str
    \<Rightarrow> (world, jar_failure, (str \<times> str) list) prog" where
  "resolve_standard X J K document found session_scope =
     (let algorithm = header_algorithm X J document in
      if algorithm = [] \<or> algorithm \<in> set (jc_signing_algorithms K)
      then (case object_claims X J document (jc_signing_algorithms K) of
              Inl e \<Rightarrow> raise (JarRefused e) | Inr claims \<Rightarrow> ok claims)
      else if algorithm \<notin> set standard_signed_request_object_algorithms
      then raise (JarRefused (invalid_object
        (''algorithme de request object non supporte : '' @ py_repr algorithm)))
      else case found of
          None \<Rightarrow> raise (JarRefused (malformed
            ''client inconnu : la signature du request object n'est pas verifiable''))
        | Some c \<Rightarrow>
            if \<not> jc_signed K \<or> jc_issuer K = []
            then raise (JarRefused (jar_error_of ''invalid_request''
              ''verification du request object signe non configuree''))
            else
              let federated = cl_federated c;
                  code = (if federated then ''invalid_request'' else ''invalid_request_object'') in
              andthen (map_error JarCrashed (verify_signed_object X J document c (jc_issuer K)
                standard_signed_request_object_algorithms
                (if federated then federated_signed_required_claims else standard_signed_required_claims)
                federated
                (federated_jti_namespace @ (if session_scope \<noteq> [] then session_scope else ''-'')))) (\<lambda>result.
              case result of
                Inl reason \<Rightarrow> raise (JarRefused (jar_error_of code reason))
              | Inr claims \<Rightarrow>
                  if federated \<and> map_of claims ''sub'' \<noteq> None
                  then raise (JarRefused (jar_error_of code
                    ''claim 'sub' interdit dans un request object de client federe (OpenID Federation 1.1 par. 12.1.1.1)''))
                  else ok (stringify_claims J claims)))"

definition resolve_fapi :: "services \<Rightarrow> jar_services \<Rightarrow> jar_config \<Rightarrow> (str \<times> str) list \<Rightarrow> str \<Rightarrow> client
    \<Rightarrow> (world, jar_failure, (str \<times> str) list) prog" where
  "resolve_fapi X J K params document c =
     (if \<not> jc_signed K \<or> \<not> jc_clients K \<or> jc_issuer K = []
      then raise (JarRefused (jar_error_of ''invalid_request''
        ''verification du request object FAPI non configuree''))
      else
        andthen (map_error JarCrashed (verify_signed_object X J document c (jc_issuer K)
          fapi_request_object_signing_algorithms fapi_required_claims False ''ciba:'')) (\<lambda>result.
        case result of
          Inl reason \<Rightarrow> raise (JarRefused (invalid_object reason))
        | Inr claims \<Rightarrow>
            (case filter (\<lambda>k. map_of claims k \<noteq> None) embedded_names of
               forbidden # _ \<Rightarrow> raise (JarRefused (invalid_object (''claim '' @ py_repr forbidden @
                 '' interdit dans un request object (RFC 9101 par. 4, PAR-2.1)'')))
             | [] \<Rightarrow> ok (merge_fapi J params claims))))"

definition without_request_object :: "jar_services \<Rightarrow> (str \<times> str) list \<Rightarrow> client option
    \<Rightarrow> (world, jar_failure, (str \<times> str) list) prog" where
  "without_request_object J params found =
     (case found of
        Some c \<Rightarrow>
          if cl_fapi_enabled c
          then raise (JarRefused (with_state J [] (jar_error_of ''invalid_request''
            ''request object obligatoire pour un client FAPI1 (FAPI1-ADV-5.2.2-1)'')))
          else ok params
      | None \<Rightarrow> ok params)"

fun stated :: "jar_services \<Rightarrow> str \<Rightarrow> jar_failure \<Rightarrow> jar_failure" where
  "stated J document (JarRefused e) = JarRefused (with_state J document e)"
| "stated J document (JarCrashed x) = JarCrashed x"

definition resolve_document :: "services \<Rightarrow> jar_services \<Rightarrow> jar_config \<Rightarrow> (str \<times> str) list \<Rightarrow> str
    \<Rightarrow> client option \<Rightarrow> str \<Rightarrow> (world, jar_failure, (str \<times> str) list) prog" where
  "resolve_document X J K params document found session_scope =
     map_error (stated J document)
       (case found of
          Some c \<Rightarrow>
            if cl_fapi_enabled c then resolve_fapi X J K params document c
            else andthen (resolve_standard X J K document found session_scope) (\<lambda>claims.
                   ok (merge_params params claims))
        | None \<Rightarrow>
            andthen (resolve_standard X J K document None session_scope) (\<lambda>claims.
            ok (merge_params params claims)))"

definition resolve_object :: "services \<Rightarrow> jar_services \<Rightarrow> jar_config \<Rightarrow> (str \<times> str) list \<Rightarrow> str
    \<Rightarrow> (world, jar_failure, (str \<times> str) list) prog" where
  "resolve_object X J K params session_scope =
     (case object_document J params of
        Inl e \<Rightarrow> raise (JarRefused (with_state J (param params ''request'') e))
      | Inr raw \<Rightarrow>
          (case (if raw = [] then Inr [] else prepare_object J K params raw) of
             Inl (d, e) \<Rightarrow>
               raise (JarRefused (with_state J (if d \<noteq> [] then d else param params ''request'') e))
           | Inr document \<Rightarrow>
               andthen (find_object_client K (param params ''client_id'')) (\<lambda>named.
               if document = [] then without_request_object J params named
               else
                 andthen (if named = None then find_object_client K (unverified_issuer J document)
                          else ok named) (\<lambda>found.
                 resolve_document X J K params document found session_scope))))"

subsection \<open>Lemmas\<close>

lemma map_of_stringify: "map_of (stringify_claims J claims) k = map_option (stringify J) (map_of claims k)"
  by (induction claims) (auto simp: stringify_claims_def)

lemma fst_stringify: "map fst (stringify_claims J claims) = map fst claims"
  by (simp add: stringify_claims_def comp_def case_prod_beta)

lemma merge_fapi_get:
  assumes "distinct (map fst claims)"
  shows "map_of (merge_fapi J params claims) k =
    (if k \<in> set embedded_names \<or> map_of claims k = None
     then if k \<in> set fapi_transport_keys then map_of params k else None
     else map_option (stringify J) (map_of claims k))"
proof -
  have "distinct (map fst (filter (\<lambda>(k, _). k \<notin> set embedded_names) (stringify_claims J claims)))"
    using assms by (intro distinct_map_filter) (simp add: fst_stringify)
  then show ?thesis
    by (auto simp: merge_fapi_def dict_update_get map_of_filter_keys [where P = "\<lambda>k. k \<notin> set embedded_names"]
        map_of_filter_keys [where P = "\<lambda>k. k \<in> set fapi_transport_keys"] map_of_stringify
        split: option.splits)
qed

text \<open>The window of sixty minutes, at the instant the bounds are checked.\<close>

definition within_hour :: "(str \<times> json) list \<Rightarrow> instant \<Rightarrow> bool" where
  "within_hour claims t \<longleftrightarrow> (\<exists>e n. timestamp_of claims ''exp'' = Inr e \<and> timestamp_of claims ''nbf'' = Inr n
     \<and> e - n \<le> 3600 \<and> e \<le> epoch_seconds t + 3600 \<and> epoch_seconds t - 3600 \<le> n)"

lemma temporal_bounds_ok:
  "temporal_bounds claims required w = (Inr None, v) \<Longrightarrow> ''nbf'' \<in> set required \<Longrightarrow>
     within_hour claims (current w)"
  by (auto simp: temporal_bounds_def within_hour_def max_request_object_lifetime_seconds_def
      andthen_Inr now_utc_iff ok_iff raise_iff Let_def split: sum.splits if_splits)

lemma verify_signed_ok:
  assumes "verify_signed_object X J token c issuer allowed required enforce_jti namespace w = (Inr (Inr claims), v)"
  obtains alg u where "alg \<in> set allowed" "js_has_key J token c"
    "js_decode J token c alg issuer required (current w) = Inr claims"
    "u = w\<lparr>w_tick := Suc (w_tick w)\<rparr>" "''nbf'' \<in> set required \<Longrightarrow> within_hour claims (current u)"
    "\<not> enforce_jti \<Longrightarrow> w_replays v = w_replays w"
proof -
  let ?u = "w\<lparr>w_tick := Suc (w_tick w)\<rparr>"
  from assms obtain header where header: "sv_unverified_header X token = Some header"
    by (auto simp: verify_signed_object_def ok_iff split: option.splits)
  define alg where "alg = (case map_of header ''alg'' of None \<Rightarrow> [] | Some v \<Rightarrow> json_text X v)"
  from assms have allowed: "alg \<in> set allowed" "js_has_key J token c"
    unfolding verify_signed_object_def header option.case Let_def alg_def [symmetric]
    by (auto simp: ok_iff split: if_splits)
  from assms obtain claims' where decoded: "js_decode J token c alg issuer required (current w) = Inr claims'"
    and rest: "andthen (temporal_bounds claims' required) (\<lambda>late.
                case late of
                  Some reason \<Rightarrow> ok (Inl reason)
                | None \<Rightarrow>
                    if \<not> enforce_jti then ok (Inr claims')
                    else
                      andthen (remember_object_jti X claims' namespace) (\<lambda>replayed.
                      ok (case replayed of Some reason \<Rightarrow> Inl reason | None \<Rightarrow> Inr claims'))) ?u
       = (Inr (Inr claims), v)"
    using allowed unfolding verify_signed_object_def header option.case Let_def alg_def [symmetric]
    by (auto simp: andthen_world ok_iff split: sum.splits)
  from rest obtain late t where late: "temporal_bounds claims' required ?u = (Inr late, t)"
    and cont: "(case late of Some reason \<Rightarrow> ok (Inl reason)
        | None \<Rightarrow> if \<not> enforce_jti then ok (Inr claims')
            else andthen (remember_object_jti X claims' namespace) (\<lambda>replayed.
                   ok (case replayed of Some reason \<Rightarrow> Inl reason | None \<Rightarrow> Inr claims'))) t
       = (Inr (Inr claims), v :: world)"
    unfolding andthen_Inr by blast
  from cont have none: "late = None" and same: "claims' = claims"
    by (auto simp: andthen_Inr ok_iff split: option.splits if_splits)
  have "w_replays t = w_replays w"
    using late by (auto simp: temporal_bounds_def andthen_Inr now_utc_iff ok_iff raise_iff Let_def
        split: if_splits sum.splits)
  then have "\<not> enforce_jti \<Longrightarrow> w_replays v = w_replays w"
    using cont none by (simp add: ok_iff)
  moreover have "''nbf'' \<in> set required \<Longrightarrow> within_hour claims (current ?u)"
    using late none same by (simp add: temporal_bounds_ok)
  ultimately show ?thesis
    using allowed decoded same by (intro that [of alg ?u]) simp_all
qed


definition sample_jar_services :: jar_services where
  "sample_jar_services = \<lparr>js_fetch = (\<lambda>_. None), js_decrypt = (\<lambda>_ _ _ _. (None, [])),
     js_has_key = (\<lambda>_ _. True),
     js_decode = (\<lambda>_ c _ issuer _ _. Inr [(''iss'', JStr (cl_client_id c)), (''aud'', JStr issuer),
        (''exp'', JInt 100), (''nbf'', JInt 0), (''scope'', JStr ''openid''), (''nonce'', JStr ''n''),
        (''redirect_uri'', JStr ''https://rp/cb'')]),
     js_segment = (\<lambda>_. None), js_json_text = (\<lambda>_. ''{}'')\<rparr>"

definition sample_jar_config :: jar_config where
  "sample_jar_config = \<lparr>jc_signing_algorithms = request_object_signing_algorithms,
     jc_issuer = ''https://op'', jc_encryption_algorithms = request_object_encryption_algorithms,
     jc_encryption_methods = request_object_encryption_methods, jc_clients = True,
     jc_signed = True, jc_decryption = False\<rparr>"

definition sample_signed_services :: services where
  "sample_signed_services = sample_services\<lparr>sv_unverified_header := \<lambda>_. Some [(''alg'', JStr ''PS256'')]\<rparr>"

definition sample_fapi_world :: world where
  "sample_fapi_world = sample_server\<lparr>w_clients := [(''rp'', sample_client\<lparr>cl_fapi_enabled := True\<rparr>)]\<rparr>"

definition sample_object_params :: "(str \<times> str) list" where
  "sample_object_params = [(''client_id'', ''rp''), (''request'', ''jwt''), (''state'', ''loose'')]"


end
