(* ===== verification/AuthorizeIssue.thy ===== *)
theory AuthorizeIssue
  imports AuthorizeCheck
begin

text \<open>
  \<open>application/authorize.py\<close>, second half: \<open>AuthorizeUseCase\<close>, which issues the code and the
  tokens of the front channel and builds the answer; \<open>application/jarm.py\<close> and
  \<open>infrastructure/jarm.py\<close>, the signed envelope of that answer.
\<close>

record authorize_config =
  az_code_ttl_seconds :: int
  az_access_token_ttl_seconds :: int
  az_signing_algorithm :: jwt_algorithm
  az_issuer :: str
  az_secret_cipher :: bool
  az_id_token_encrypter :: bool
  az_subject_seed :: str
  az_registry :: "registry option"
  az_session_management :: bool
  az_claims_provider :: bool
  az_identity_resources :: bool
  az_jarm :: "(str \<times> int) option"
  az_openid20 :: "bool option"
  az_identity_assurance :: "bool option"

text \<open>\<open>az_jarm\<close>: issuer and lifetime of the injected envelope signer, if any.\<close>

record authorize_redirect =
  ad_redirect_uri :: str
  ad_code :: str
  ad_state :: str
  ad_mode :: response_mode
  ad_id_token :: str
  ad_access_token :: str
  ad_expires_in :: int
  ad_form_params :: "(str \<times> str) list"

fun crash_name :: "failure \<Rightarrow> str" where
  "crash_name (Uncaught n) = n"
| "crash_name (Refused e _) = e"

definition rethrow :: "(world, failure, 'a) prog \<Rightarrow> (world, authorize_failure, 'a) prog" where
  "rethrow m = (\<lambda>w. case m w of (Inl f, v) \<Rightarrow> (Inl (Crashed (crash_name f)), v) | (Inr x, v) \<Rightarrow> (Inr x, v))"

subsection \<open>The code\<close>

definition code_of_request :: "services \<Rightarrow> authorize_config \<Rightarrow> authorize_request \<Rightarrow> str set \<Rightarrow> client
    \<Rightarrow> instant \<Rightarrow> str \<Rightarrow> authorization_code" where
  "code_of_request X C r scopes c now value =
     \<lparr>ac_code = value, ac_client_id = aq_client_id r, ac_redirect_uri = aq_redirect_uri r,
      ac_subject = aq_subject r, ac_session_id = aq_session_id r,
      ac_subject_material = (if aq_session_id r \<noteq> [] then aq_session_id r else value),
      ac_scopes = scopes, ac_code_challenge = aq_code_challenge r,
      ac_code_challenge_method = aq_code_challenge_method r, ac_nonce = aq_nonce r,
      ac_auth_time = aq_auth_time r, ac_acr = first_supported_acr (aq_acr_values r),
      ac_claims = aq_claims r, ac_openid2_realm = aq_openid2_realm r,
      ac_expires_at = now + seconds (resolve_lifetime_seconds
         (cl_authorization_code_lifetime_seconds c) (az_code_ttl_seconds C)),
      ac_is_consumed = False, ac_access_token_hash = [], ac_access_token_expires_at = None,
      ac_refresh_token_hash = [], ac_dpop_jkt = aq_dpop_jkt r,
      ac_resource_uris = parse_resource_parameter X (aq_resource r), ac_pre_authorized = False,
      ac_tx_code_hash = [], ac_authorization_details = aq_authorization_details r\<rparr>"

definition issue_code :: "services \<Rightarrow> authorize_config \<Rightarrow> authorize_request \<Rightarrow> str set \<Rightarrow> client
    \<Rightarrow> (world, authorize_failure, str) prog" where
  "issue_code X C r scopes c =
     andthen now_utc (\<lambda>now.
     andthen fresh_token (\<lambda>value.
     andthen (modify (\<lambda>w. w\<lparr>w_codes :=
       codes_save (code_of_request X C r scopes c now value) (w_codes w)\<rparr>)) (\<lambda>_.
     ok value)))"

subsection \<open>The tokens of the front channel\<close>

definition hash_bits :: "jwt_algorithm \<Rightarrow> nat" where
  "hash_bits alg = nat_of_digits (drop (length (alg_value alg) - 3) (alg_value alg))"

definition hash_artefact :: "services \<Rightarrow> str \<Rightarrow> jwt_algorithm \<Rightarrow> authorize_failure + str" where
  "hash_artefact X value alg =
     (if alg = AlgNone then Inr []
      else if \<not> list_all is_ascii value then Inl (Crashed ''UnicodeEncodeError'')
      else let digest = sv_sha2 X (hash_bits alg) value
           in Inr (sv_b64 X (take (length digest div 2) digest)))"

definition optional_hash :: "services \<Rightarrow> str \<Rightarrow> jwt_algorithm \<Rightarrow> authorize_failure + str" where
  "optional_hash X value alg = (if value \<noteq> [] then hash_artefact X value alg else Inr [])"

definition merged_userinfo_payload :: "claims_request option \<Rightarrow> (str \<times> json) list \<Rightarrow> (str \<times> json) list" where
  "merged_userinfo_payload q subject_claims = dict_update subject_claims (userinfo_demand q)"

definition merge_authorization_details :: "services \<Rightarrow> (str \<times> json) list \<Rightarrow> str \<Rightarrow> (str \<times> json) list" where
  "merge_authorization_details X base raw =
     (if raw = [] then base
      else case parse_authorization_details X raw of
          Inr (d # ds) \<Rightarrow> dict_set ''authorization_details''
             (JList (map JObj (grant_authorization_details (d # ds)))) base
        | _ \<Rightarrow> base)"

definition front_audience :: "services \<Rightarrow> authorize_config \<Rightarrow> client \<Rightarrow> str set \<Rightarrow> str \<Rightarrow> world \<Rightarrow> json" where
  "front_audience X C c scopes resource w =
     (let resources = parse_resource_parameter X resource in
      if resources \<noteq> [] then resource_audience resources
      else case az_registry C of
          None \<Rightarrow> JStr (cl_client_id c)
        | Some g \<Rightarrow> audiences_for g w (cl_client_id c) scopes)"

definition front_verified_claims :: "services \<Rightarrow> authorize_config \<Rightarrow> world \<Rightarrow> claims_request \<Rightarrow> str
    \<Rightarrow> (str \<times> json) list option" where
  "front_verified_claims X C w q subject =
     (case az_identity_assurance C of
        None \<Rightarrow> None
      | Some provider \<Rightarrow>
          Option.bind (verified_claims_request_in X (cq_raw_id_token q))
            (\<lambda>vr. resolve_verified_claims provider w vr subject))"

definition front_openid20_identifier :: "authorize_config \<Rightarrow> world \<Rightarrow> authorize_request \<Rightarrow> str" where
  "front_openid20_identifier C w r =
     (case az_openid20 C of
        Some True \<Rightarrow>
          if scope_openid20 \<notin> from_space_separated (aq_scope r) then []
          else openid20_identifier_for True w (aq_subject r) (aq_openid2_realm r)
      | _ \<Rightarrow> [])"

definition front_additional_claims :: "services \<Rightarrow> authorize_config \<Rightarrow> world \<Rightarrow> authorize_request
    \<Rightarrow> str \<Rightarrow> bool \<Rightarrow> claims_request option \<Rightarrow> (str \<times> json) list" where
  "front_additional_claims X C w r code wants_token q =
     (let acr = first_supported_acr (aq_acr_values r);
          a1 = member_if (acr \<noteq> []) ''acr'' (JStr acr);
          a2 = (case q of
              None \<Rightarrow> a1
            | Some cq \<Rightarrow>
                let resolved = dict_pop verified_claims_member
                      (dict_update (resolve_requested_claims (az_claims_provider C) w
                         (cq_id_token cq) (aq_subject r)) a1)
                in case front_verified_claims X C w cq (aq_subject r) of
                     None \<Rightarrow> resolved
                   | Some v \<Rightarrow> dict_set verified_claims_member (JObj v) resolved);
          a3 = (if code = [] \<and> \<not> wants_token
                then dict_update (scope_claims_for_subject (az_claims_provider C)
                   (az_identity_resources C) w (aq_scope r) (aq_subject r)) a2
                else a2);
          openid20 = front_openid20_identifier C w r
      in if openid20 \<noteq> [] then dict_set ''openid2_id'' (JStr openid20) a3 else a3)"

text \<open>The instants and the derivation material the two tokens of one answer share.\<close>

record front_context =
  fx_now :: instant
  fx_ttl :: int
  fx_material :: str
  fx_claims :: "claims_request option"

definition front_access_token :: "services \<Rightarrow> authorize_config \<Rightarrow> authorize_request \<Rightarrow> str set \<Rightarrow> client
    \<Rightarrow> front_context \<Rightarrow> (world, authorize_failure, str \<times> str) prog" where
  "front_access_token X C r scopes c fx =
     andthen (peek (front_audience X C c scopes (aq_resource r))) (\<lambda>audience.
     andthen (rethrow (create_access_token X (az_signing_algorithm C) (az_issuer C) (aq_subject r)
       audience (epoch_seconds (fx_now fx + seconds (fx_ttl fx))) (epoch_seconds (fx_now fx)) scopes
       (merge_authorization_details X
          (merged_userinfo_payload (fx_claims fx)
             (access_token_subject_claims c (aq_subject r) (fx_material fx)))
          (aq_authorization_details r)))) (\<lambda>token.
     andthen (lift (hash_artefact X token (az_signing_algorithm C))) (\<lambda>at_hash.
     ok (token, at_hash))))"

definition front_id_token :: "services \<Rightarrow> authorize_config \<Rightarrow> authorize_request \<Rightarrow> client \<Rightarrow> str
    \<Rightarrow> bool \<Rightarrow> front_context \<Rightarrow> str \<Rightarrow> (world, authorize_failure, str) prog" where
  "front_id_token X C r c code wants_token fx at_hash =
     (case resolve_id_token_material X c (az_signing_algorithm C) (az_secret_cipher C) of
        None \<Rightarrow> reject ''invalid_client'' r ''Secret du client indisponible pour la signature HS*'' Query
      | Some (alg, secret) \<Rightarrow>
          (case display_subject X c (aq_subject r) (fx_material fx) (az_subject_seed C) of
             None \<Rightarrow> raise (Crashed ''ValueError'')
           | Some sub \<Rightarrow>
               andthen (lift (optional_hash X code alg)) (\<lambda>c_hash.
               andthen (lift (optional_hash X (aq_state r) alg)) (\<lambda>s_hash.
               andthen (peek (\<lambda>w. front_additional_claims X C w r code wants_token (fx_claims fx))) (\<lambda>additional.
               andthen (rethrow (create_id_token X alg (az_issuer C) sub (cl_client_id c)
                 (epoch_seconds (fx_now fx + seconds (fx_ttl fx))) (epoch_seconds (fx_now fx))
                 \<lparr>ic_nonce = aq_nonce r, ic_session_id = aq_session_id r, ic_at_hash = at_hash,
                  ic_c_hash = c_hash, ic_s_hash = s_hash, ic_auth_time = aq_auth_time r\<rparr>
                 secret additional)) (\<lambda>signed.
               case encrypt_id_token_for_client X (az_secret_cipher C) (az_id_token_encrypter C) c signed of
                 None \<Rightarrow> reject ''invalid_client'' r ''Materiel de chiffrement d'id_token indisponible'' Query
               | Some t \<Rightarrow> ok t))))))"

definition issue_front_tokens :: "services \<Rightarrow> authorize_config \<Rightarrow> authorize_request \<Rightarrow> str set \<Rightarrow> client
    \<Rightarrow> str \<Rightarrow> bool \<Rightarrow> bool \<Rightarrow> (world, authorize_failure, str \<times> str \<times> int) prog" where
  "issue_front_tokens X C r scopes c code wants_id_token wants_token =
     andthen now_utc (\<lambda>now.
     let fx = \<lparr>fx_now = now,
           fx_ttl = resolve_lifetime_seconds (cl_access_token_lifetime_seconds c)
             (az_access_token_ttl_seconds C),
           fx_material = (if aq_session_id r \<noteq> [] then aq_session_id r else code),
           fx_claims = (if aq_claims r \<noteq> [] then parse_claims_parameter X (aq_claims r) else None)\<rparr>
     in andthen (if wants_token then front_access_token X C r scopes c fx else ok ([], [])) (\<lambda>(access_token, at_hash).
        andthen (if wants_id_token then front_id_token X C r c code wants_token fx at_hash else ok []) (\<lambda>id_token.
        ok (id_token, access_token, fx_ttl fx))))"

subsection \<open>The answer\<close>

definition success_params :: "authorize_config \<Rightarrow> str \<Rightarrow> str \<Rightarrow> str \<Rightarrow> int \<Rightarrow> str set \<Rightarrow> str \<Rightarrow> str
    \<Rightarrow> (str \<times> str) list" where
  "success_params C code id_token access_token expires_in scopes state session_state =
     (if code \<noteq> [] then [(''code'', code)] else [])
     @ (if access_token \<noteq> []
        then [(''access_token'', access_token), (''token_type'', ''Bearer''),
              (''expires_in'', str_of_int expires_in), (''scope'', scope_string scopes)]
        else [])
     @ (if id_token \<noteq> [] then [(''id_token'', id_token)] else [])
     @ (if session_state \<noteq> [] then [(''session_state'', session_state)] else [])
     @ (if state \<noteq> [] then [(''state'', state)] else [])
     @ (if az_issuer C \<noteq> [] then [(''iss'', az_issuer C)] else [])"

definition resolve_session_state :: "services \<Rightarrow> authorize_config \<Rightarrow> authorize_request
    \<Rightarrow> (world, authorize_failure, str) prog" where
  "resolve_session_state X C r =
     (if \<not> az_session_management C \<or> aq_session_id r = [] then ok []
      else case origin_of_url X (aq_redirect_uri r) of
          None \<Rightarrow> raise (Crashed ''ValueError'')
        | Some origin \<Rightarrow> create_session_state X (aq_client_id r) origin (aq_session_id r))"

definition build_redirect_uri :: "str \<Rightarrow> response_mode \<Rightarrow> str list \<Rightarrow> str" where
  "build_redirect_uri redirect_uri mode params =
     rstrip_slash redirect_uri
     @ (if mode = Fragment then ''#'' else if CHR ''?'' \<in> set redirect_uri then ''&'' else ''?'')
     @ join_with ''&'' params"

definition encoded_params :: "(str \<times> str) list \<Rightarrow> str list" where
  "encoded_params params = map (\<lambda>(n, v). n @ ''='' @ v) params"

text \<open>\<open>JarmSigner.sign\<close>: \<open>None\<close> is its \<open>ValueError\<close>.\<close>

definition jarm_claims :: "str \<Rightarrow> int \<Rightarrow> str \<Rightarrow> instant \<Rightarrow> str \<Rightarrow> (str \<times> str) list \<Rightarrow> (str \<times> json) list" where
  "jarm_claims issuer lifetime audience now jti params =
     dict_update (map (\<lambda>(n, v). (n, JStr v)) params)
       [(''iss'', JStr issuer), (''aud'', JStr audience), (''exp'', JInt (epoch_seconds now + lifetime)),
        (''iat'', JInt (epoch_seconds now)), (''jti'', JStr jti)]"

definition sign_envelope :: "services \<Rightarrow> str \<times> int \<Rightarrow> client \<Rightarrow> (str \<times> str) list
    \<Rightarrow> (world, 'e, str option) prog" where
  "sign_envelope X signer c params =
     (case algorithm_of (jarm_signing_alg c (mode_value Jwt)) of
        None \<Rightarrow> ok None
      | Some alg \<Rightarrow>
          andthen now_utc (\<lambda>now.
          andthen fresh_token (\<lambda>jti.
          ok (Some (sv_jwt_encode X alg []
            (jarm_claims (fst signer) (snd signer) (cl_client_id c) now jti params))))))"

definition envelope_param :: "str \<Rightarrow> str" where
  "envelope_param envelope = ''response='' @ envelope"

definition clear_redirect :: "authorize_request \<Rightarrow> validated_authorization \<Rightarrow> (str \<times> str) list \<Rightarrow> str" where
  "clear_redirect r va params =
     build_redirect_uri (aq_redirect_uri r)
       (if va_response_mode va = Jwt then (if va_has_tokens va then Fragment else Query)
        else va_response_mode va)
       (encoded_params params)"

definition response_redirect_uri :: "services \<Rightarrow> authorize_config \<Rightarrow> authorize_request
    \<Rightarrow> validated_authorization \<Rightarrow> (str \<times> str) list \<Rightarrow> (world, authorize_failure, str) prog" where
  "response_redirect_uri X C r va params =
     (if va_response_mode va = FormPost then ok (aq_redirect_uri r)
      else case (va_response_mode va, az_jarm C) of
          (Jwt, Some signer) \<Rightarrow>
            andthen (sign_envelope X signer (va_client va) params) (\<lambda>envelope.
            case envelope of
              Some (e # es) \<Rightarrow> ok (build_redirect_uri (aq_redirect_uri r) Jwt [envelope_param (e # es)])
            | _ \<Rightarrow> ok (clear_redirect r va params))
        | _ \<Rightarrow> ok (clear_redirect r va params))"

text \<open>\<open>execute\<close> once the request is validated.\<close>

definition answer_validated :: "services \<Rightarrow> authorize_config \<Rightarrow> authorize_request
    \<Rightarrow> validated_authorization \<Rightarrow> (world, authorize_failure, authorize_redirect) prog" where
  "answer_validated X C r va =
     (let scopes = from_space_separated (aq_scope r) in
     andthen (if va_wants_code va then issue_code X C r scopes (va_client va) else ok []) (\<lambda>code.
     andthen (if va_wants_id_token va \<or> va_wants_token va
       then issue_front_tokens X C r scopes (va_client va) code (va_wants_id_token va) (va_wants_token va)
       else ok ([], [], 0)) (\<lambda>(id_token, access_token, expires_in).
     andthen (resolve_session_state X C r) (\<lambda>session_state.
     let params = success_params C code id_token access_token expires_in
           (if va_wants_token va then scopes else {}) (aq_state r) session_state in
     andthen (response_redirect_uri X C r va params) (\<lambda>uri.
     ok \<lparr>ad_redirect_uri = uri, ad_code = code, ad_state = aq_state r,
         ad_mode = va_response_mode va, ad_id_token = id_token, ad_access_token = access_token,
         ad_expires_in = expires_in,
         ad_form_params = (if va_response_mode va = FormPost then params else [])\<rparr>)))))"

definition authorize :: "services \<Rightarrow> authorize_config \<Rightarrow> authorize_request
    \<Rightarrow> (world, authorize_failure, authorize_redirect) prog" where
  "authorize X C r =
     andthen (validate_authorization_request X (az_registry C) r) (answer_validated X C r)"

end
