(* ===== verification/AuthorizeRules.thy ===== *)
theory AuthorizeRules
  imports AuthorizeIssue CodeGrant
begin

text \<open>
  What the authorization endpoint guarantees: the validated request, where errors are sent, the
  answer of the front channel, and the code it hands to the token endpoint.
\<close>

subsection \<open>Running the checks\<close>

lemma reject_iff [prog_simps]:
  "reject e r d m w = (res, v) \<longleftrightarrow> res = Inl (Rejected (authorize_error_of e r d m True)) \<and> v = w"
  "reject_unsafe e r m w = (res, v) \<longleftrightarrow> res = Inl (Rejected (authorize_error_of e r [] m False)) \<and> v = w"
  by (simp_all add: reject_def reject_unsafe_def raise_iff)

lemma reject_if_iff [prog_simps]:
  "reject_if b e r d m w = (res, v) \<longleftrightarrow>
     res = (if b then Inl (Rejected (authorize_error_of e r d m True)) else Inr ()) \<and> v = w"
  by (auto simp: reject_if_def reject_iff ok_iff)

lemma andthen_reject [run_simps]:
  "andthen (reject_if b e r d m) f w =
     (if b then (Inl (Rejected (authorize_error_of e r d m True)), w) else f () w)"
  "andthen (reject_unsafe e r m) g w = (Inl (Rejected (authorize_error_of e r [] m False)), w)"
  "reject e r d m w = (Inl (Rejected (authorize_error_of e r d m True)), w)"
  by (simp_all add: reject_if_def reject_def reject_unsafe_def raise_def ok_def andthen_def)

text \<open>The checks read the stores and write nothing.\<close>

definition same_world :: "world \<Rightarrow> world \<Rightarrow> bool" where
  "same_world w v \<longleftrightarrow> v = w"

lemma same_world_order [moves_intros]: "transp same_world" "reflp same_world"
  by (auto simp: same_world_def transp_def reflp_def)

lemma moves_reject [moves_intros]:
  "reflp R \<Longrightarrow> moves R (reject e r d m)" "reflp R \<Longrightarrow> moves R (reject_unsafe e r m)"
  "reflp R \<Longrightarrow> moves R (reject_if b e r d m)"
  by (auto simp: reject_def reject_unsafe_def reject_if_def intro: moves_intros)

lemma check_moves:
  assumes order: "transp R" "reflp R"
  shows "moves R (check_client_request X g r c m)"
  unfolding check_client_request_def client_request_error_def openid20_realm_error_def
    client_profile_error_def fapi_profile_error_def fapi2_profile_error_def parameter_error_def
    details_error_def resource_error_def scope_profile_error_def unknown_scope_error_def
  by (intro order moves_intros)

lemma validate_moves:
  assumes order: "transp R" "reflp R"
  shows "moves R (validate_authorization_request X g r)"
  unfolding validate_authorization_request_def find_client_def
  by (intro order check_moves moves_intros)

lemma same_run: "moves same_world m \<Longrightarrow> m w = (res, v) \<Longrightarrow> v = w"
  by (drule movesD) (simp_all add: same_world_def)

lemma validate_same: "validate_authorization_request X g r w = (res, v) \<Longrightarrow> v = w"
  by (rule same_run [OF validate_moves [OF same_world_order]])

lemma check_same: "check_client_request X g r c m w = (res, v) \<Longrightarrow> v = w"
  by (rule same_run [OF check_moves [OF same_world_order]])

subsection \<open>What a validated request satisfies\<close>

text \<open>The address is registered, the profile of the client holds, the parameters are well formed.\<close>

definition profile_ok :: "client \<Rightarrow> authorize_request \<Rightarrow> bool" where
  "profile_ok c r \<longleftrightarrow>
     (cl_fapi_enabled c \<longrightarrow> response_types_of r = {''code'', ''id_token''})
     \<and> (cl_fapi2_enabled c \<and> \<not> cl_fapi_enabled c \<longrightarrow> response_types_of r = {''code''})
     \<and> (cl_fapi_enabled c \<or> cl_fapi2_enabled c \<longrightarrow> aq_code_challenge r \<noteq> []
          \<longrightarrow> aq_code_challenge_method r = ''S256'')"

definition parameters_ok :: "services \<Rightarrow> authorize_request \<Rightarrow> bool" where
  "parameters_ok X r \<longleftrightarrow>
     -1 \<le> aq_max_age r
     \<and> (aq_claims r \<noteq> [] \<longrightarrow> parse_claims_parameter X (aq_claims r) \<noteq> None)
     \<and> (aq_dpop_jkt r \<noteq> [] \<longrightarrow> is_jkt (aq_dpop_jkt r))
     \<and> (aq_code_challenge r \<noteq> [] \<longrightarrow> aq_code_challenge_method r \<in> {''S256'', ''plain''})
     \<and> (aq_authorization_details r \<noteq> [] \<longrightarrow>
          (\<exists>ds. parse_authorization_details X (aq_authorization_details r) = Inr ds))
     \<and> (aq_scope r \<noteq> [] \<or> aq_authorization_details r \<noteq> [])
     \<and> (\<forall>u\<in>set (parse_resource_parameter X (aq_resource r)). is_resource_uri X u = Some True)"

definition registered_ok :: "registry option \<Rightarrow> services \<Rightarrow> authorize_request \<Rightarrow> world \<Rightarrow> bool" where
  "registered_ok g X r w \<longleftrightarrow>
     (\<forall>h\<in>set_option g. from_space_separated (aq_scope r) \<subseteq> known_scope_names h w
        \<and> unknown_resources h w (parse_resource_parameter X (aq_resource r)) = [])"

lemma fapi_ok:
  "client_profile_error r c (response_types_of r) m w = (Inr (), v) \<Longrightarrow> profile_ok c r"
  by (auto simp: client_profile_error_def fapi_profile_error_def fapi2_profile_error_def profile_ok_def
      prog_simps split: if_splits)

lemma details_ok:
  "details_error X r m w = (Inr (), v) \<Longrightarrow> v = w \<and> (aq_authorization_details r \<noteq> [] \<longrightarrow>
     (\<exists>ds. parse_authorization_details X (aq_authorization_details r) = Inr ds))"
  by (auto simp: details_error_def prog_simps split: if_splits sum.splits)

lemma unknown_resources_nil: "unknown_resources h w [] = []"
  by (simp add: unknown_resources_def)

lemma some_true: "\<exists>y. b = Some y \<Longrightarrow> b \<noteq> Some False \<Longrightarrow> b = Some True"
  by auto

lemma resource_ok:
  "resource_error X g r m w = (Inr (), v) \<Longrightarrow>
     (\<forall>u\<in>set (parse_resource_parameter X (aq_resource r)). is_resource_uri X u = Some True)
     \<and> (\<forall>h\<in>set_option g. unknown_resources h w (parse_resource_parameter X (aq_resource r)) = [])"
  by (auto simp: resource_error_def Let_def prog_simps unknown_resources_nil list_ex_iff
      filter_empty_conv intro: some_true split: if_splits option.splits)

lemma parameter_ok:
  assumes "parameter_error X g r m w = (Inr (), v)"
  shows "parameters_ok X r
    \<and> (\<forall>h\<in>set_option g. unknown_resources h w (parse_resource_parameter X (aq_resource r)) = [])"
proof -
  from assms obtain u where checks: "\<not> aq_max_age r < -1"
    "\<not> (aq_claims r \<noteq> [] \<and> parse_claims_parameter X (aq_claims r) = None)"
    "\<not> (aq_dpop_jkt r \<noteq> [] \<and> \<not> is_jkt (aq_dpop_jkt r))"
    "\<not> (aq_code_challenge r \<noteq> [] \<and> aq_code_challenge_method r \<notin> {''S256'', ''plain''})"
    "\<not> (aq_scope r = [] \<and> aq_authorization_details r = [])"
    and runs: "details_error X r m w = (Inr (), u)" "resource_error X g r m u = (Inr (), v)"
    unfolding parameter_error_def andthen_Inr reject_if_iff by (auto split: if_splits)
  with details_ok [OF runs(1)] resource_ok [OF runs(2)] show ?thesis
    unfolding parameters_ok_def by auto
qed

lemma scope_ok:
  "scope_profile_error g (from_space_separated s) r m idt w = (Inr (), v) \<Longrightarrow>
     (idt \<longrightarrow> scope_openid \<in> from_space_separated s)
     \<and> (\<forall>h\<in>set_option g. from_space_separated s \<subseteq> known_scope_names h w)"
  by (auto simp: scope_profile_error_def unknown_scope_error_def prog_simps unknown_scopes_none
      split: if_splits option.splits)

lemma profile_same: "client_profile_error r c ts m w = (res, v) \<Longrightarrow> v = w"
  unfolding client_profile_error_def fapi_profile_error_def fapi2_profile_error_def
  by (erule same_run [rotated]) (intro same_world_order moves_intros)

lemma parameter_same: "parameter_error X g r m w = (res, v) \<Longrightarrow> v = w"
  unfolding parameter_error_def details_error_def resource_error_def
  by (erule same_run [rotated]) (intro same_world_order moves_intros)

lemma check_ok:
  assumes "check_client_request X g r c m w = (Inr (), v)"
  shows "aq_redirect_uri r \<in> cl_redirect_uris c \<and> profile_ok c r \<and> parameters_ok X r
    \<and> registered_ok g X r w
    \<and> (aq_response_mode r = mode_value Jwt \<longrightarrow> jarm_signing_alg c (mode_value Jwt) \<noteq> [])
    \<and> (''id_token'' \<in> response_types_of r \<longrightarrow>
         scope_openid \<in> from_space_separated (aq_scope r) \<and> aq_nonce r \<noteq> [])"
proof -
  from assms obtain v1 v2 v3 v4 where
    uri: "client_request_error r c (from_space_separated (aq_scope r)) m w = (Inr (), v1)"
    and jarm: "\<not> (aq_response_mode r = mode_value Jwt \<and> jarm_signing_alg c (aq_response_mode r) = [])"
    and profile: "client_profile_error r c (response_types_of r) m v1 = (Inr (), v2)"
    and params: "parameter_error X g r m v2 = (Inr (), v3)"
    and scopes: "scope_profile_error g (from_space_separated (aq_scope r)) r m
       (''id_token'' \<in> response_types_of r) v3 = (Inr (), v4)"
    and nonce: "\<not> (''id_token'' \<in> response_types_of r \<and> aq_nonce r = [])"
    unfolding check_client_request_def Let_def andthen_Inr reject_if_iff
    by (auto split: if_splits)
  from uri have "aq_redirect_uri r \<in> cl_redirect_uris c" "v1 = w"
    by (auto simp: client_request_error_def openid20_realm_error_def prog_simps split: if_splits)
  moreover have "v2 = v1" "v3 = v2" using profile_same [OF profile] parameter_same [OF params] .
  ultimately show ?thesis
    using jarm fapi_ok [OF profile] parameter_ok [OF params] scope_ok [OF scopes] nonce
    by (auto simp: registered_ok_def)
qed

lemma validate_ok:
  assumes "validate_authorization_request X g r w = (Inr va, v)"
  obtains c m where "v = w" "clients_find (w_clients w) (aq_client_id r) = Some c" "cl_is_active c"
    "check_client_request X g r c m w = (Inr (), w)"
    "resolve_response_mode (aq_response_mode r) (has_tokens_of (response_types_of r)) = Some m"
    "response_types_of r \<in> valid_response_types"
    "va = \<lparr>va_client = c, va_response_types = response_types_of r,
       va_has_tokens = has_tokens_of (response_types_of r),
       va_wants_code = (''code'' \<in> response_types_of r),
       va_wants_id_token = (''id_token'' \<in> response_types_of r),
       va_wants_token = (''token'' \<in> response_types_of r), va_response_mode = m\<rparr>"
proof -
  have "v = w" using validate_same [OF assms] .
  moreover have types: "response_types_of r \<in> valid_response_types"
    using assms by (rule contrapos_pp)
      (simp add: validate_authorization_request_def Let_def andthen_reject)
  moreover from assms types obtain m
    where mode: "resolve_response_mode (aq_response_mode r) (has_tokens_of (response_types_of r)) = Some m"
    by (cases "resolve_response_mode (aq_response_mode r) (has_tokens_of (response_types_of r))")
      (simp_all add: validate_authorization_request_def Let_def andthen_reject)
  moreover have "clients_find (w_clients w) (aq_client_id r) \<noteq> None"
    using assms types mode by (rule_tac notI)
      (simp add: validate_authorization_request_def Let_def andthen_reject find_client_def
        andthen_elementary(2) reject_iff)
  then obtain c where c: "clients_find (w_clients w) (aq_client_id r) = Some c" by auto
  moreover have active: "cl_is_active c"
    using assms types mode c by (rule_tac ccontr)
      (simp add: validate_authorization_request_def Let_def andthen_reject find_client_def
        andthen_elementary(2))
  moreover from assms types mode c active obtain u where
    u: "check_client_request X g r c m w = (Inr (), u)"
    and "va = \<lparr>va_client = c, va_response_types = response_types_of r,
       va_has_tokens = has_tokens_of (response_types_of r),
       va_wants_code = (''code'' \<in> response_types_of r),
       va_wants_id_token = (''id_token'' \<in> response_types_of r),
       va_wants_token = (''token'' \<in> response_types_of r), va_response_mode = m\<rparr>"
    by (simp add: validate_authorization_request_def Let_def andthen_reject find_client_def
        andthen_elementary(2) andthen_Inr ok_iff)
  moreover from u have "u = w" by (rule check_same)
  ultimately show ?thesis using that by blast
qed

lemma resolved_query: "resolve_response_mode requested has_tokens = Some Query \<Longrightarrow> \<not> has_tokens"
  by (auto simp: resolve_response_mode_def split: if_splits)

lemma code_only: "T \<in> valid_response_types \<Longrightarrow> \<not> has_tokens_of T \<Longrightarrow> T = {''code''}"
  by (simp add: valid_response_types_def has_tokens_of_def) (elim disjE; simp)

lemma resolved_jwt: "resolve_response_mode requested has_tokens = Some Jwt \<longleftrightarrow> requested = mode_value Jwt"
  by (auto simp: resolve_response_mode_def)

subsection \<open>Properties of the validation\<close>

text \<open>C6. A request that passes validation comes from a known, active client, names an address
  this client registered, one of the seven response types, and well formed parameters; tokens
  are never answered in the query, a signed answer only for a client with a signing algorithm;
  an \<open>id_token\<close> needs the scope \<open>openid\<close> and a nonce; every scope and resource is registered;
  the FAPI profiles admit their flow and PKCE method only.  Validation writes nothing.\<close>

theorem validated_request_sound:
  assumes "validate_authorization_request X g r w = (Inr va, v)"
  shows "v = w \<and> clients_find (w_clients w) (aq_client_id r) = Some (va_client va)
    \<and> cl_is_active (va_client va) \<and> aq_redirect_uri r \<in> cl_redirect_uris (va_client va)
    \<and> va_response_types va = set (py_split (aq_response_type r))
    \<and> va_response_types va \<in> valid_response_types
    \<and> (va_response_mode va = Query \<longrightarrow> va_response_types va = {''code''})
    \<and> (va_response_mode va = Jwt \<longrightarrow> jarm_signing_alg (va_client va) ''jwt'' \<noteq> [])
    \<and> (''id_token'' \<in> va_response_types va \<longrightarrow>
         ''openid'' \<in> from_space_separated (aq_scope r) \<and> aq_nonce r \<noteq> [])
    \<and> profile_ok (va_client va) r \<and> parameters_ok X r \<and> registered_ok g X r w"
proof -
  from assms obtain c m where "v = w" "clients_find (w_clients w) (aq_client_id r) = Some c"
    "cl_is_active c" and check: "check_client_request X g r c m w = (Inr (), w)"
    and mode: "resolve_response_mode (aq_response_mode r) (has_tokens_of (response_types_of r)) = Some m"
    and types: "response_types_of r \<in> valid_response_types"
    and va: "va_client va = c" "va_response_types va = response_types_of r" "va_response_mode va = m"
    by (rule validate_ok) simp
  moreover have "m = Query \<Longrightarrow> response_types_of r = {''code''}"
    using mode types code_only resolved_query by blast
  moreover have "m = Jwt \<Longrightarrow> aq_response_mode r = mode_value Jwt"
    using mode by (simp add: resolved_jwt)
  ultimately show ?thesis
    using check_ok [OF check] by (auto simp: response_types_of_def scope_openid_def)
qed

subsection \<open>Where errors are sent\<close>

text \<open>Every error a program returns satisfies a predicate.\<close>

definition rejects :: "(authorize_error \<Rightarrow> bool) \<Rightarrow> (world, authorize_failure, 'a) prog \<Rightarrow> bool" where
  "rejects P m \<longleftrightarrow> (\<forall>w e v. m w = (Inl (Rejected e), v) \<longrightarrow> P e)"

named_theorems rejects_intros \<open>the errors of a composed program\<close>

lemma rejectsD: "rejects P m \<Longrightarrow> m w = (Inl (Rejected e), v) \<Longrightarrow> P e"
  by (auto simp: rejects_def)

lemma rejects_andthen [rejects_intros]:
  "rejects P m \<Longrightarrow> (\<And>x. rejects P (f x)) \<Longrightarrow> rejects P (andthen m f)"
  unfolding rejects_def andthen_Inl by blast

lemma rejects_pure [rejects_intros]:
  "rejects P (ok x)" "rejects P (peek f)" "rejects P now_utc" "rejects P fresh_token"
  "rejects P (modify h)" "rejects P (raise (Crashed n))" "rejects P (rethrow m')"
  by (auto simp: rejects_def ok_def peek_def now_utc_def fresh_token_def modify_def raise_def
      rethrow_def split: prod.splits sum.splits)

lemma rejects_reject [rejects_intros]:
  "P (authorize_error_of e r d m True) \<Longrightarrow> rejects P (reject e r d m)"
  "P (authorize_error_of e r d m True) \<Longrightarrow> rejects P (reject_if b e r d m)"
  "P (authorize_error_of e r [] m False) \<Longrightarrow> rejects P (reject_unsafe e r m)"
  by (auto simp: rejects_def reject_iff reject_if_iff split: if_splits)

lemma rejects_cases [rejects_intros]:
  "rejects P m \<Longrightarrow> rejects P n \<Longrightarrow> rejects P (if b then m else n)"
  "rejects P m \<Longrightarrow> (\<And>x. rejects P (f x)) \<Longrightarrow> rejects P (case v of None \<Rightarrow> m | Some x \<Rightarrow> f x)"
  "(\<And>x. rejects P (g x)) \<Longrightarrow> (\<And>x. rejects P (f x)) \<Longrightarrow> rejects P (case s of Inl x \<Rightarrow> g x | Inr x \<Rightarrow> f x)"
  "(\<And>x y. rejects P (h x y)) \<Longrightarrow> rejects P (case p of (x, y) \<Rightarrow> h x y)"
  "rejects P (k a) \<Longrightarrow> rejects P (let x = a in k x)"
  by (auto split: option.splits sum.splits prod.splits)

text \<open>An error sent back to the address and with the state of the request.\<close>

definition returned :: "authorize_request \<Rightarrow> authorize_error \<Rightarrow> bool" where
  "returned r e \<longleftrightarrow> ae_redirectable e \<and> ae_redirect_uri e = aq_redirect_uri r
     \<and> ae_state e = aq_state r \<and> ae_client_id e = aq_client_id r"

lemma returned_reject: "returned r (authorize_error_of e r d m True)"
  by (simp add: returned_def authorize_error_of_def)

lemma lift_hash_rejects [rejects_intros]:
  "rejects P (lift (hash_artefact X v a))" "rejects P (lift (optional_hash X v a))"
  by (auto simp: rejects_def lift_def hash_artefact_def optional_hash_def Let_def split: if_splits)

lemma issue_rejects:
  "rejects (returned r) (issue_front_tokens X C r scopes c code i t)"
  "rejects (returned r) (issue_code X C r scopes c)"
  "rejects (returned r) (resolve_session_state X C r)"
  unfolding issue_front_tokens_def front_access_token_def front_id_token_def issue_code_def
    resolve_session_state_def create_session_state_def
  by (intro rejects_intros returned_reject)+

lemma response_rejects: "rejects P (response_redirect_uri X C r va params)"
  unfolding response_redirect_uri_def sign_envelope_def
  by (auto intro!: rejects_intros split: response_mode.split option.split list.split)

lemma answer_rejects: "rejects (returned r) (answer_validated X C r va)"
  unfolding answer_validated_def by (intro rejects_intros issue_rejects response_rejects)

lemma checks_rejects:
  assumes "aq_redirect_uri r \<in> cl_redirect_uris c"
  shows "rejects (returned r) (check_client_request X g r c m)"
proof -
  have uri: "client_request_error r c scopes m = openid20_realm_error r c scopes m" for scopes
    using assms by (simp add: client_request_error_def)
  show ?thesis
    unfolding check_client_request_def uri openid20_realm_error_def client_profile_error_def
      fapi_profile_error_def fapi2_profile_error_def parameter_error_def details_error_def
      resource_error_def scope_profile_error_def unknown_scope_error_def
    by (intro rejects_intros returned_reject)
qed

definition unsupported_request :: "authorize_request \<Rightarrow> bool" where
  "unsupported_request r \<longleftrightarrow> response_types_of r \<notin> valid_response_types
     \<or> resolve_response_mode (aq_response_mode r) (has_tokens_of (response_types_of r)) = None"

definition registered_address :: "authorize_request \<Rightarrow> world \<Rightarrow> bool" where
  "registered_address r w \<longleftrightarrow> (\<exists>c. clients_find (w_clients w) (aq_client_id r) = Some c
     \<and> cl_is_active c \<and> aq_redirect_uri r \<in> cl_redirect_uris c)"

lemma unsupported_run:
  "unsupported_request r \<Longrightarrow> \<exists>e. returned r e \<and> validate_authorization_request X g r w = (Inl (Rejected e), w)"
  by (auto simp: unsupported_request_def validate_authorization_request_def Let_def andthen_reject
      intro: returned_reject)

lemma supported_request:
  assumes "\<not> unsupported_request r"
  obtains m where "response_types_of r \<in> valid_response_types"
    "resolve_response_mode (aq_response_mode r) (has_tokens_of (response_types_of r)) = Some m"
  using assms unfolding unsupported_request_def by blast

lemma validate_run:
  assumes "response_types_of r \<in> valid_response_types"
    and "resolve_response_mode (aq_response_mode r) (has_tokens_of (response_types_of r)) = Some m"
  shows "validate_authorization_request X g r w =
      (case clients_find (w_clients w) (aq_client_id r) of
         None \<Rightarrow> reject_unsafe ''invalid_client'' r m
       | Some c \<Rightarrow> andthen (if cl_is_active c then ok () else reject_unsafe ''invalid_client'' r m) (\<lambda>_.
           andthen (check_client_request X g r c m) (\<lambda>_. ok \<lparr>va_client = c, va_response_types = response_types_of r,
             va_has_tokens = has_tokens_of (response_types_of r),
             va_wants_code = (''code'' \<in> response_types_of r),
             va_wants_id_token = (''id_token'' \<in> response_types_of r),
             va_wants_token = (''token'' \<in> response_types_of r), va_response_mode = m\<rparr>))) w"
  using assms
  by (simp add: validate_authorization_request_def Let_def andthen_reject find_client_def
      andthen_elementary(2))

lemma unregistered_run:
  assumes "\<not> unsupported_request r" "\<not> registered_address r w"
  shows "\<exists>e. \<not> ae_redirectable e \<and> ae_redirect_uri e = aq_redirect_uri r \<and> ae_state e = aq_state r
    \<and> validate_authorization_request X g r w = (Inl (Rejected e), w)"
proof -
  obtain m where types: "response_types_of r \<in> valid_response_types"
    and mode: "resolve_response_mode (aq_response_mode r) (has_tokens_of (response_types_of r)) = Some m"
    using assms(1) by (rule supported_request)
  note run = validate_run [OF types mode]
  have unsafe: "\<not> ae_redirectable (authorize_error_of e r [] m False)
      \<and> ae_redirect_uri (authorize_error_of e r [] m False) = aq_redirect_uri r
      \<and> ae_state (authorize_error_of e r [] m False) = aq_state r" for e
    by (simp add: authorize_error_of_def)
  show ?thesis
  proof (cases "clients_find (w_clients w) (aq_client_id r)")
    case None
    then show ?thesis unfolding run using unsafe by (auto simp: reject_iff)
  next
    case (Some c)
    show ?thesis
    proof (cases "cl_is_active c")
      case False
      then show ?thesis unfolding run Some using unsafe by (auto simp: andthen_reject(2))
    next
      case True
      with Some assms(2) have "aq_redirect_uri r \<notin> cl_redirect_uris c"
        by (auto simp: registered_address_def)
      then have "check_client_request X g r c m w =
          (Inl (Rejected (authorize_error_of ''invalid_redirect_uri'' r [] m False)), w)"
        by (simp add: check_client_request_def Let_def client_request_error_def andthen_reject(2))
      note step = andthen_run(2) [where m = "check_client_request X g r c m", OF this]
      show ?thesis
        unfolding run Some
        by (intro exI [of _ "authorize_error_of ''invalid_redirect_uri'' r [] m False"])
          (simp add: step True authorize_error_of_def)
    qed
  qed
qed

lemma registered_run:
  assumes "\<not> unsupported_request r" "registered_address r w"
    and "validate_authorization_request X g r w = (Inl (Rejected e), v)"
  shows "returned r e"
proof -
  obtain m where types: "response_types_of r \<in> valid_response_types"
    and mode: "resolve_response_mode (aq_response_mode r) (has_tokens_of (response_types_of r)) = Some m"
    using assms(1) by (rule supported_request)
  from assms(2) obtain c where c: "clients_find (w_clients w) (aq_client_id r) = Some c"
    "cl_is_active c" "aq_redirect_uri r \<in> cl_redirect_uris c"
    unfolding registered_address_def by blast
  have active: "(if cl_is_active c then ok () else n) = ok ()" for n :: "(world, authorize_failure, unit) prog"
    using c(2) by simp
  show ?thesis
    using assms(3) unfolding validate_run [OF types mode] c(1) option.case active andthen_ok
    by (rule rejects_andthen [OF checks_rejects [OF c(3)] rejects_pure(1), THEN rejectsD])
qed

text \<open>C7. Where an error of the authorization endpoint goes: it carries the address and the state
  of the request, and may be redirected there exactly when an active client registered the
  address, or when the response type or the combination of response mode and type is refused.
  The last two are checked before the client is looked up, so that such a request redirects to
  any address.\<close>

theorem error_redirection:
  assumes run: "authorize X C r w = (Inl (Rejected e), v)"
  shows "ae_redirect_uri e = aq_redirect_uri r \<and> ae_state e = aq_state r
    \<and> (ae_redirectable e \<longleftrightarrow> unsupported_request r \<or> registered_address r w)"
proof (cases "validate_authorization_request X (az_registry C) r w")
  case (Pair res u)
  show ?thesis
  proof (cases res)
    case (Inr va)
    with Pair have checked: "validate_authorization_request X (az_registry C) r w = (Inr va, u)" by simp
    then have "\<not> unsupported_request r" using unsupported_run [of r X "az_registry C" w] by auto
    moreover from checked this have "registered_address r w"
      using unregistered_run [of r w X "az_registry C"] by auto
    moreover have "answer_validated X C r va u = (Inl (Rejected e), v)"
      using run checked by (simp add: authorize_def)
    then have "returned r e"
      by (rule rejectsD [OF answer_rejects])
    ultimately show ?thesis by (simp add: returned_def)
  next
    case (Inl f)
    from run Pair Inl have "validate_authorization_request X (az_registry C) r w = (Inl (Rejected e), u)"
      by (auto simp: authorize_def)
    then show ?thesis
      using unsupported_run [of r X "az_registry C" w] unregistered_run [of r w X "az_registry C"]
        registered_run [of r w X "az_registry C" e u]
      by (cases "unsupported_request r"; cases "registered_address r w") (auto simp: returned_def)
  qed
qed

end
