(* ===== verification/Par.thy ===== *)
theory Par
  imports RequestObject AuthorizeRules
begin

text \<open>
  \<open>application/par.py\<close>: pushed authorization requests.  \<open>push\<close> authenticates the client, validates
  the request and stores it under a fresh reference; \<open>resolve\<close> rebuilds the request at
  \<open>/authorize\<close>; \<open>complete\<close> consumes the reference.
\<close>

subsection \<open>Configuration, results, errors\<close>

text \<open>\<open>pu_dpop\<close>, \<open>pu_assertions\<close>, \<open>pu_resolver\<close>, \<open>pu_registry\<close>: the optional dependencies.\<close>

record par_config =
  pu_ttl_seconds :: int
  pu_par_endpoint :: str
  pu_issuer :: str
  pu_token_endpoint :: str
  pu_registry :: "registry option"
  pu_dpop :: bool
  pu_assertions :: bool
  pu_resolver :: "jar_config option"

record push_result =
  pr_request_uri :: str
  pr_expires_in :: int

record push_error =
  pe_error :: str
  pe_description :: str
  pe_status :: int
  pe_redirect_uri :: str
  pe_state :: str
  pe_mode :: response_mode

datatype push_failure = PushRefused push_error | PushCrashed str

definition push_error_of :: "str \<Rightarrow> str \<Rightarrow> int \<Rightarrow> push_error" where
  "push_error_of e text status = \<lparr>pe_error = e, pe_description = text, pe_status = status,
     pe_redirect_uri = [], pe_state = [], pe_mode = Query\<rparr>"

definition refuse_push :: "str \<Rightarrow> str \<Rightarrow> int \<Rightarrow> (world, push_failure, 'a) prog" where
  "refuse_push e text status = raise (PushRefused (push_error_of e text status))"

text \<open>\<open>params.get(name, default)\<close>.\<close>

definition param_or :: "(str \<times> str) list \<Rightarrow> str \<Rightarrow> str \<Rightarrow> str" where
  "param_or ps k fallback = (case dict_get ps k of Some v \<Rightarrow> v | None \<Rightarrow> fallback)"

definition fapi_pkce_error :: "(str \<times> str) list \<Rightarrow> bool \<Rightarrow> push_error option" where
  "fapi_pkce_error ps fapi2 =
     (let profile = (if fapi2 then ''FAPI2'' else ''FAPI1'');
          requirement = (if fapi2 then ''FAPI2-SP-5.3.2.2-5'' else ''FAPI1-ADV-5.2.2-18'') in
      if param ps ''code_challenge'' = []
      then Some (push_error_of ''invalid_request'' (''PKCE (code_challenge) requis pour un client ''
        @ profile @ '' via PAR ('' @ requirement @ '')'') 400)
      else if param_or ps ''code_challenge_method'' ''S256'' \<noteq> ''S256''
      then Some (push_error_of ''invalid_request'' (''code_challenge_method doit etre 'S256' pour un client ''
        @ profile @ '' ('' @ requirement @ '')'') 400)
      else None)"

definition validated_push_error :: "authorize_error \<Rightarrow> push_error" where
  "validated_push_error a =
     (let redirect = ae_error a = ''invalid_redirect_uri'';
          e = (if redirect then ''invalid_request'' else ae_error a);
          text = (if redirect \<and> ae_description a = []
                  then ''redirect_uri non enregistree pour ce client (RFC 6749 par. 4.1.2.1)''
                  else ae_description a)
      in push_error_of e text (if e = ''invalid_client'' then 401 else 400))"

definition invalid_pushed_error :: "pushed_authorization \<Rightarrow> str \<Rightarrow> str \<Rightarrow> push_error" where
  "invalid_pushed_error p e text =
     (let requested = param (pa_params p) ''response_mode'' in
      \<lparr>pe_error = e, pe_description = text, pe_status = 400,
       pe_redirect_uri = param (pa_params p) ''redirect_uri'',
       pe_state = param (pa_params p) ''state'',
       pe_mode = (if requested = mode_value Fragment then Fragment
          else if requested = mode_value FormPost then FormPost else Query)\<rparr>)"

subsection \<open>Authentication of the client\<close>

definition push_audiences :: "par_config \<Rightarrow> client \<Rightarrow> str list" where
  "push_audiences C c =
     (if cl_fapi2_enabled c
      then (let issuer = rstrip_slash (pu_issuer C) in if issuer \<noteq> [] then [issuer] else [])
      else dedup (map rstrip_slash
        (filter (\<lambda>v. v \<noteq> []) [pu_issuer C, pu_token_endpoint C, pu_par_endpoint C])))"

definition push_credentials :: "par_config \<Rightarrow> client \<Rightarrow> (str \<times> str) list \<Rightarrow> credentials" where
  "push_credentials C c ps = \<lparr>av_available = pu_assertions C, cr_secret = param ps ''client_secret'',
     cr_assertion_type = param ps ''client_assertion_type'', cr_assertion = param ps ''client_assertion'',
     cr_audience = push_audiences C c, cr_certificate = None\<rparr>"

fun push_crash :: "failure \<Rightarrow> push_failure" where
  "push_crash (Refused e text) = PushRefused (push_error_of e text 400)"
| "push_crash (Uncaught x) = PushCrashed x"

definition push_client_id :: "services \<Rightarrow> par_config \<Rightarrow> (str \<times> str) list \<Rightarrow> str" where
  "push_client_id X C ps =
     (let client_id = param ps ''client_id''; assertion = param ps ''client_assertion'' in
      if client_id = [] \<and> assertion \<noteq> [] \<and> pu_assertions C then sv_issuer_of X assertion
      else client_id)"

definition authenticate_push :: "services \<Rightarrow> par_config \<Rightarrow> (str \<times> str) list
    \<Rightarrow> (world, push_failure, client) prog" where
  "authenticate_push X C ps =
     (let client_id = push_client_id X C ps in
      andthen (if client_id = [] then ok None else find_client client_id) (\<lambda>found.
      case found of
        None \<Rightarrow> refuse_push ''invalid_client'' ''Client inconnu ou desactive'' 401
      | Some c \<Rightarrow>
          if \<not> cl_is_active c
          then refuse_push ''invalid_client'' ''Client inconnu ou desactive'' 401
          else if param ps ''client_secret'' \<noteq> [] \<and> cl_client_type c \<noteq> Confidential
          then refuse_push ''invalid_client''
            ''client_secret fourni mais le client n'est pas confidentiel'' 401
          else
            andthen (map_error push_crash (authenticate_client X c (push_credentials C c ps))) (\<lambda>detail.
            case detail of
              Some text \<Rightarrow> refuse_push ''invalid_client'' text 401
            | None \<Rightarrow> ok c)))"

subsection \<open>Pushing\<close>

definition check_push_proof :: "services \<Rightarrow> par_config \<Rightarrow> (str \<times> str) list \<Rightarrow> str
    \<Rightarrow> (world, push_failure, dpop_proof option) prog" where
  "check_push_proof X C ps proof =
     (if proof = [] then ok None
      else if \<not> pu_dpop C
      then refuse_push ''invalid_dpop_proof'' ''Validation DPoP indisponible : preuve refusee'' 400
      else
        andthen (map_error push_crash (validate_proof X proof (pu_par_endpoint C) ''POST'' [])) (\<lambda>p.
        let declared = param ps ''dpop_jkt'' in
        if declared \<noteq> [] \<and> declared \<noteq> pf_jkt p
        then refuse_push ''invalid_dpop_proof''
          ''dpop_jkt ne correspond pas a la preuve DPoP (RFC 9449 par. 10.1)'' 400
        else ok (Some p)))"

text \<open>The request the parameters stand for, at the push and at \<open>/authorize\<close>.\<close>

definition pushed_request :: "(str \<times> str) list \<Rightarrow> str \<Rightarrow> authorize_request" where
  "pushed_request ps client_id = \<lparr>
     aq_response_type = param ps ''response_type'', aq_client_id = client_id,
     aq_redirect_uri = param ps ''redirect_uri'', aq_scope = param ps ''scope'', aq_subject = [],
     aq_state = param ps ''state'', aq_nonce = param ps ''nonce'',
     aq_code_challenge = param ps ''code_challenge'',
     aq_code_challenge_method = param_or ps ''code_challenge_method'' ''S256'',
     aq_response_mode = param ps ''response_mode'', aq_prompt = param ps ''prompt'',
     aq_max_age = parse_max_age (param ps ''max_age''), aq_session_id = [], aq_auth_time = 0,
     aq_acr_values = param ps ''acr_values'', aq_claims = param ps ''claims'',
     aq_openid2_realm = param ps ''openid2_realm'', aq_dpop_jkt = param ps ''dpop_jkt'',
     aq_resource = param ps ''resource'', aq_authorization_details = param ps ''authorization_details''\<rparr>"

fun push_refusal :: "authorize_failure \<Rightarrow> push_failure" where
  "push_refusal (Rejected e) = PushRefused (validated_push_error e)"
| "push_refusal (Crashed x) = PushCrashed x"

fun object_refusal :: "jar_failure \<Rightarrow> push_failure" where
  "object_refusal (JarRefused e) = PushRefused (push_error_of (je_error e) (je_description e) 400)"
| "object_refusal (JarCrashed x) = PushCrashed x"

definition store_pushed :: "par_config \<Rightarrow> str \<Rightarrow> (str \<times> str) list
    \<Rightarrow> (world, push_failure, push_result) prog" where
  "store_pushed C client_id ps =
     andthen fresh_token (\<lambda>reference.
     let request_uri = pushed_request_uri_prefix @ reference in
     andthen now_utc (\<lambda>now.
     andthen (modify (\<lambda>w. w\<lparr>w_pushed := pushed_save
       \<lparr>pa_request_uri = request_uri, pa_client_id = client_id,
        pa_params = filter (\<lambda>(k, _). k \<noteq> ''client_secret'') ps,
        pa_expires_at = now + seconds (pu_ttl_seconds C), pa_is_consumed = False\<rparr> (w_pushed w)\<rparr>)) (\<lambda>_.
     ok \<lparr>pr_request_uri = request_uri, pr_expires_in = pu_ttl_seconds C\<rparr>)))"

text \<open>The push once the client is known: PKCE for FAPI, the DPoP key, validation, storage.\<close>

definition push_for :: "services \<Rightarrow> par_config \<Rightarrow> client \<Rightarrow> (str \<times> str) list \<Rightarrow> str
    \<Rightarrow> (world, push_failure, push_result) prog" where
  "push_for X C c ps proof =
     (case (if cl_fapi_enabled c \<or> cl_fapi2_enabled c then fapi_pkce_error ps (cl_fapi2_enabled c) else None) of
        Some e \<Rightarrow> raise (PushRefused e)
      | None \<Rightarrow>
          andthen (check_push_proof X C ps proof) (\<lambda>p.
          let bound = (case p of Some q \<Rightarrow> if dict_get ps ''dpop_jkt'' = None
                then dict_set ''dpop_jkt'' (pf_jkt q) ps else ps | None \<Rightarrow> ps) in
          andthen (map_error push_refusal (validate_authorization_request X (pu_registry C)
            (pushed_request bound (cl_client_id c)))) (\<lambda>_.
          store_pushed C (cl_client_id c) bound)))"

definition push :: "services \<Rightarrow> jar_services \<Rightarrow> par_config \<Rightarrow> (str \<times> str) list \<Rightarrow> str
    \<Rightarrow> (world, push_failure, push_result) prog" where
  "push X J C params proof =
     (if param params ''request_uri'' \<noteq> []
      then refuse_push ''invalid_request''
        ''request_uri ne doit pas etre inclus dans la requete de push (RFC 9126 par. 2)'' 400
      else
        andthen (case pu_resolver C of
            None \<Rightarrow> ok params
          | Some K \<Rightarrow> map_error object_refusal (resolve_object X J K params [])) (\<lambda>ps.
        andthen (authenticate_push X C ps) (\<lambda>c.
        push_for X C c (dict_set ''client_id'' (cl_client_id c) ps) proof)))"

subsection \<open>Resolving and completing\<close>

definition resolve_pushed :: "str \<Rightarrow> str \<Rightarrow> (world, push_failure, authorize_request) prog" where
  "resolve_pushed request_uri client_id =
     andthen (peek (\<lambda>w. pushed_find (w_pushed w) request_uri)) (\<lambda>found.
     case found of
       None \<Rightarrow> refuse_push ''invalid_request_uri'' ''request_uri inconnu ou expire'' 400
     | Some p \<Rightarrow>
         andthen now_utc (\<lambda>now.
         if pa_expires_at p \<le> now
         then andthen (modify (\<lambda>w. w\<lparr>w_pushed := pushed_delete request_uri (w_pushed w)\<rparr>)) (\<lambda>_.
           raise (PushRefused (invalid_pushed_error p ''invalid_request_uri'' ''request_uri expire'')))
         else if pa_is_consumed p
         then andthen (modify (\<lambda>w. w\<lparr>w_pushed := pushed_delete request_uri (w_pushed w)\<rparr>)) (\<lambda>_.
           raise (PushRefused (invalid_pushed_error p ''invalid_request_uri'' ''request_uri deja utilise'')))
         else if pa_client_id p \<noteq> client_id
         then raise (PushRefused (invalid_pushed_error p ''invalid_request''
           ''client_id ne correspond pas a la requete poussee''))
         else ok (pushed_request (pa_params p) (param_or (pa_params p) ''client_id'' client_id))))"

definition complete_pushed :: "str \<Rightarrow> (world, 'e, unit) prog" where
  "complete_pushed request_uri =
     andthen (peek (\<lambda>w. pushed_find (w_pushed w) request_uri)) (\<lambda>found.
     if found = None then ok ()
     else modify (\<lambda>w. w\<lparr>w_pushed := pushed_consume request_uri (w_pushed w)\<rparr>))"

subsection \<open>What the endpoint does to the state\<close>

inductive par_later :: "services \<Rightarrow> jar_services \<Rightarrow> par_config \<Rightarrow> world \<Rightarrow> world \<Rightarrow> bool" for X J C where
  here: "par_later X J C w w"
| pushed: "par_later X J C w v \<Longrightarrow> push X J C ps proof v = (pushed_res, u) \<Longrightarrow> par_later X J C w u"
| resolved: "par_later X J C w v \<Longrightarrow> resolve_pushed uri cid v = (resolved_res, u) \<Longrightarrow> par_later X J C w u"
| completed: "par_later X J C w v \<Longrightarrow> complete_pushed uri v = (done_res :: push_failure + unit, u) \<Longrightarrow>
     par_later X J C w u"

locale par_relation =
  fixes C :: par_config and R :: "world \<Rightarrow> world \<Rightarrow> bool"
  assumes par_lenient: "lenient R"
    and par_store: "moves R (store_pushed C cid ps)"
    and par_delete: "R w (w\<lparr>w_pushed := pushed_delete k (w_pushed w)\<rparr>)"
    and par_consume: "R w (w\<lparr>w_pushed := pushed_consume k (w_pushed w)\<rparr>)"
begin

lemmas par_intros = par_lenient lenient_order [OF par_lenient] lenient_now [OF par_lenient]
  lenient_fresh [OF par_lenient] moves_modify par_delete par_consume

lemma par_order: "transp R" "reflp R"
  using par_lenient by (auto intro: lenient_order)

lemma replays_moves: "R w (w\<lparr>w_replays := d\<rparr>)"
  using par_lenient by (simp add: lenient_def)

lemma verify_moves: "moves R (verify_signed_object X J token c issuer allowed required enforce_jti ns)"
  unfolding verify_signed_object_def temporal_bounds_def remember_object_jti_def
  by (intro par_intros replays_moves moves_intros moves_case_json)

lemma resolve_standard_moves: "moves R (resolve_standard X J K d found scope)"
  unfolding resolve_standard_def by (intro par_order verify_moves moves_intros)

lemma resolve_fapi_moves: "moves R (resolve_fapi X J K params d c)"
  unfolding resolve_fapi_def by (intro par_order verify_moves moves_intros moves_case_list)

lemma resolve_document_moves: "moves R (resolve_document X J K params d found scope)"
  unfolding resolve_document_def
  by (intro par_order resolve_standard_moves resolve_fapi_moves moves_intros)

lemma resolve_object_moves: "moves R (resolve_object X J K params scope)"
  unfolding resolve_object_def without_request_object_def find_object_client_def find_client_def
  by (intro par_order resolve_document_moves moves_intros)

lemma authenticate_push_moves: "moves R (authenticate_push X C ps)"
  unfolding authenticate_push_def refuse_push_def find_client_def
  by (intro par_order moves_intros lenient_clocked [OF par_lenient authenticate_client_clocked])

lemma check_push_proof_moves: "moves R (check_push_proof X C ps dp)"
  unfolding check_push_proof_def refuse_push_def
  by (intro par_order moves_intros lenient_validate [OF par_lenient])

lemma push_for_moves: "moves R (push_for X C c ps dp)"
  unfolding push_for_def
  by (intro par_order check_push_proof_moves validate_moves par_store moves_intros)

lemma push_moves: "moves R (push X J C params dp)"
  unfolding push_def refuse_push_def
  by (intro par_order authenticate_push_moves push_for_moves resolve_object_moves moves_intros)

lemma resolve_pushed_moves: "moves R (resolve_pushed uri cid)"
  unfolding resolve_pushed_def refuse_push_def by (intro par_intros moves_intros)

lemma complete_pushed_moves: "moves R (complete_pushed uri)"
  unfolding complete_pushed_def by (intro par_intros moves_intros)

lemma par_later_moves: "par_later X J C w v \<Longrightarrow> R w v"
proof (induction rule: par_later.induct)
  case (here w)
  show ?case using par_order(2) by (simp add: reflp_def)
next
  case (pushed w v ps dp res u)
  from par_order(1) pushed(3) movesD [OF push_moves pushed(2)] show ?case by (rule transpD)
next
  case (resolved w v uri cid res u)
  from par_order(1) resolved(3) movesD [OF resolve_pushed_moves resolved(2)] show ?case by (rule transpD)
next
  case (completed w v uri res u)
  from par_order(1) completed(3) movesD [OF complete_pushed_moves completed(2)] show ?case by (rule transpD)
qed

end

text \<open>
  The entry of a reference is one of \<open>S\<close> or consumed, and no random value still to be drawn gives
  the reference again.
\<close>

definition reference_holds :: "pushed_authorization set \<Rightarrow> str \<Rightarrow> world \<Rightarrow> bool" where
  "reference_holds S uri w \<longleftrightarrow>
     (\<forall>e. pushed_find (w_pushed w) uri = Some e \<longrightarrow> e \<in> S \<or> pa_is_consumed e)
     \<and> (\<forall>n \<ge> w_draw w. pushed_request_uri_prefix @ w_rand w n \<noteq> uri)"

lemma store_run:
  "store_pushed C cid ps w = (Inr \<lparr>pr_request_uri = pushed_request_uri_prefix @ w_rand w (w_draw w),
       pr_expires_in = pu_ttl_seconds C\<rparr>,
     w\<lparr>w_draw := Suc (w_draw w), w_tick := Suc (w_tick w), w_pushed := pushed_save
       \<lparr>pa_request_uri = pushed_request_uri_prefix @ w_rand w (w_draw w), pa_client_id = cid,
        pa_params = filter (\<lambda>(k, _). k \<noteq> ''client_secret'') ps,
        pa_expires_at = current w + seconds (pu_ttl_seconds C), pa_is_consumed = False\<rparr> (w_pushed w)\<rparr>)"
  by (simp add: store_pushed_def Let_def run_simps current_def)

interpretation reference: par_relation C "kept (reference_holds S uri)" for C S uri
proof -
  let ?R = "kept (reference_holds S uri)"
  have l: "lenient ?R" by (rule lenient_kept) (auto simp: reference_holds_def)
  show "par_relation C ?R"
    by unfold_locales
      (auto simp: l kept_def reference_holds_def pushed.find_delete pushed.find_consume moves_def
        store_run pushed.find_save map_option_case split: if_splits option.splits)
qed

text \<open>Nothing of the endpoint writes the registries.\<close>

interpretation readonly_par: par_relation C "same registries" for C
proof -
  have l: "lenient (same registries)" by (rule lenient_same) (simp_all add: registries_def)
  show "par_relation C (same registries)"
    by unfold_locales (auto simp: l same_def registries_def moves_def store_run)
qed

lemma authenticate_push_ok:
  assumes "authenticate_push X C ps w = (Inr c, v)"
  shows "clients_find (w_clients w) (push_client_id X C ps) = Some c \<and> cl_is_active c
    \<and> proves_identity (effective_auth_method c) X c (push_credentials C c ps) (current w)
    \<and> (param ps ''client_secret'' \<noteq> [] \<longrightarrow> cl_client_type c = Confidential)"
  using assms
  by (auto simp: authenticate_push_def refuse_push_def find_client_def Let_def prog_simps
      intro: authenticate_client_ok split: if_splits option.splits)

lemma push_for_ok:
  assumes "push_for X C c ps dp w = (Inr r, v)"
  obtains p bound va u where "check_push_proof X C ps dp w = (Inr p, u)"
    "bound = (case p of Some q \<Rightarrow> if dict_get ps ''dpop_jkt'' = None
       then dict_set ''dpop_jkt'' (pf_jkt q) ps else ps | None \<Rightarrow> ps)"
    "validate_authorization_request X (pu_registry C) (pushed_request bound (cl_client_id c)) u = (Inr va, u)"
    "store_pushed C (cl_client_id c) bound u = (Inr r, v)"
    "cl_fapi_enabled c \<or> cl_fapi2_enabled c \<Longrightarrow> fapi_pkce_error ps (cl_fapi2_enabled c) = None"
proof -
  have pkce: "(if cl_fapi_enabled c \<or> cl_fapi2_enabled c
      then fapi_pkce_error ps (cl_fapi2_enabled c) else None) = None"
    using assms by (auto simp: push_for_def raise_iff split: option.splits)
  define pick where "pick p = (case p of Some q \<Rightarrow> if dict_get ps ''dpop_jkt'' = None
      then dict_set ''dpop_jkt'' (pf_jkt q) ps else ps | None \<Rightarrow> ps)" for p :: "dpop_proof option"
  from assms obtain p u va t where run: "check_push_proof X C ps dp w = (Inr p, u)"
    "validate_authorization_request X (pu_registry C) (pushed_request (pick p) (cl_client_id c)) u
       = (Inr va, t)" "store_pushed C (cl_client_id c) (pick p) t = (Inr r, v)"
    unfolding push_for_def pkce option.case andthen_Inr map_error_Inr Let_def pick_def [symmetric]
    by blast
  moreover have "t = u" using run(2) by (rule validate_same)
  moreover have "cl_fapi_enabled c \<or> cl_fapi2_enabled c \<Longrightarrow> fapi_pkce_error ps (cl_fapi2_enabled c) = None"
    using pkce by simp
  ultimately show ?thesis using that [of p u "pick p" va] by (simp add: pick_def)
qed

lemma push_ok:
  assumes "push X J C params dp w = (Inr r, v)"
  obtains ps c w1 w2 where "param params ''request_uri'' = []"
    "(case pu_resolver C of None \<Rightarrow> ok params
      | Some K \<Rightarrow> map_error object_refusal (resolve_object X J K params [])) w = (Inr ps, w1)"
    "authenticate_push X C ps w1 = (Inr c, w2)"
    "push_for X C c (dict_set ''client_id'' (cl_client_id c) ps) dp w2 = (Inr r, v)"
  using assms by (auto simp: push_def refuse_push_def raise_iff andthen_Inr split: if_splits)

lemma param_set: "param (dict_set k v ps) j = (if j = k then v else param ps j)"
  by (simp add: param_def)

lemma push_proof_key:
  assumes "check_push_proof X C ps dp w = (Inr p, u)"
  shows "(dp = [] \<longleftrightarrow> p = None) \<and> (\<forall>q. p = Some q \<longrightarrow>
    (param ps ''dpop_jkt'' \<noteq> [] \<longrightarrow> param ps ''dpop_jkt'' = pf_jkt q)
    \<and> validate_proof X dp (pu_par_endpoint C) ''POST'' [] w = (Inr q, u))"
  using assms by (auto simp: check_push_proof_def refuse_push_def Let_def prog_simps split: if_splits)

lemma stored_request:
  "pushed_request (filter (\<lambda>(k, _). k \<noteq> ''client_secret'') ps) cid = pushed_request ps cid"
  by (simp add: pushed_request_def param_def param_or_def map_of_filter_keys [where P = "\<lambda>k. k \<noteq> ''client_secret''"])

subsection \<open>Properties\<close>


lemma resolve_pushed_iff:
  "resolve_pushed uri cid w = (Inr q, v) \<longleftrightarrow> v = w\<lparr>w_tick := Suc (w_tick w)\<rparr>
     \<and> (\<exists>p. pushed_find (w_pushed w) uri = Some p \<and> current w < pa_expires_at p \<and> \<not> pa_is_consumed p
        \<and> pa_client_id p = cid \<and> q = pushed_request (pa_params p) (param_or (pa_params p) ''client_id'' cid))"
  by (auto simp: resolve_pushed_def refuse_push_def run_simps prog_simps split: option.splits if_splits)

text \<open>A pushed request comes back as it was validated: before it expires the reference resolves to
  the request the push validated, and after any further pushes, visits and completions it
  resolves, if it does, to that request still, only for the client that pushed it and only
  before its expiry.  The reference is not drawn a second time.\<close>

lemma pushed_request_roundtrip:
  assumes pushed: "push X J C params dp w = (Inr r, v)"
    and fresh: "\<forall>n \<ge> w_draw v. pushed_request_uri_prefix @ w_rand v n \<noteq> pr_request_uri r"
    and later: "par_later X J C v u"
  shows "\<exists>q va t expiry. validate_authorization_request X (pu_registry C) q t = (Inr va, t)
    \<and> w_clients t = w_clients v
    \<and> expiry = w_clock v (w_tick v - 1) + seconds (pu_ttl_seconds C)
    \<and> (current v < expiry \<longrightarrow> (\<exists>z. resolve_pushed (pr_request_uri r) (aq_client_id q) v = (Inr q, z)))
    \<and> (\<forall>cid q' z. resolve_pushed (pr_request_uri r) cid u = (Inr q', z) \<longrightarrow>
         q' = q \<and> cid = aq_client_id q \<and> current u < expiry)"
proof -
  from pushed obtain ps c w2 where
    stored: "push_for X C c (dict_set ''client_id'' (cl_client_id c) ps) dp w2 = (Inr r, v)"
    by (rule push_ok)
  then show ?thesis
  proof (rule push_for_ok)
    fix p bound va t
    assume bound: "bound = (case p of
        Some q \<Rightarrow> if dict_get (dict_set ''client_id'' (cl_client_id c) ps) ''dpop_jkt'' = None
          then dict_set ''dpop_jkt'' (pf_jkt q) (dict_set ''client_id'' (cl_client_id c) ps)
          else dict_set ''client_id'' (cl_client_id c) ps
      | None \<Rightarrow> dict_set ''client_id'' (cl_client_id c) ps)"
      and valid: "validate_authorization_request X (pu_registry C)
        (pushed_request bound (cl_client_id c)) t = (Inr va, t)"
      and store: "store_pushed C (cl_client_id c) bound t = (Inr r, v)"
    let ?q = "pushed_request bound (cl_client_id c)"
    define e where "e = \<lparr>pa_request_uri = pr_request_uri r, pa_client_id = cl_client_id c,
         pa_params = filter (\<lambda>(k, _). k \<noteq> ''client_secret'') bound,
         pa_expires_at = current t + seconds (pu_ttl_seconds C), pa_is_consumed = False\<rparr>"
    have entry: "pushed_find (w_pushed v) (pr_request_uri r) = Some e"
      and kept: "w_clients v = w_clients t" "w_clock v (w_tick v - 1) = current t"
      using store by (auto simp: store_run pushed.find_save e_def current_def)
    have named: "param_or (pa_params e) ''client_id'' cid = cl_client_id c" for cid
      by (simp add: e_def param_or_def map_of_filter_keys [where P = "\<lambda>k. k \<noteq> ''client_secret''"] bound
          split: option.splits)
    have request: "pushed_request (pa_params e) (param_or (pa_params e) ''client_id'' cid) = ?q" for cid
      unfolding named by (simp add: e_def stored_request)
    have "reference_holds {e} (pr_request_uri r) v"
      using entry fresh by (simp add: reference_holds_def)
    with reference.par_later_moves [OF later] have "reference_holds {e} (pr_request_uri r) u"
      unfolding kept_def by blast
    then have only: "pushed_find (w_pushed u) (pr_request_uri r) = Some f \<Longrightarrow> \<not> pa_is_consumed f \<Longrightarrow> f = e" for f
      by (auto simp: reference_holds_def)
    have fields: "pa_expires_at e = current t + seconds (pu_ttl_seconds C)" "\<not> pa_is_consumed e"
      "pa_client_id e = cl_client_id c" "aq_client_id ?q = cl_client_id c"
      by (simp_all add: e_def pushed_request_def)
    show ?thesis
      using valid kept entry only fields
      by (intro exI [of _ ?q] exI [of _ va] exI [of _ t]) (auto simp: resolve_pushed_iff request)
  qed
qed

text \<open>C21. A completed reference is dead: whatever is pushed, resolved or completed afterwards, every
  visit to \<open>/authorize\<close> with it is refused, as long as no random value still to be drawn gives it
  again.\<close>

theorem completed_request_dead:
  assumes completed: "complete_pushed uri w = (res :: push_failure + unit, v)"
    and fresh: "\<forall>n \<ge> w_draw w. pushed_request_uri_prefix @ w_rand w n \<noteq> uri"
    and later: "par_later X J C v u"
  shows "\<exists>e z. resolve_pushed uri cid u = (Inl (PushRefused e), z) \<and> pe_error e = ''invalid_request_uri''"
proof -
  have "reference_holds {} uri v"
    using completed fresh
    by (auto simp: complete_pushed_def reference_holds_def run_simps pushed.find_consume ok_iff modify_iff
        split: if_splits)
  with reference.par_later_moves [OF later] have "reference_holds {} uri u"
    unfolding kept_def by blast
  then show ?thesis
    by (auto simp: reference_holds_def resolve_pushed_def refuse_push_def run_simps push_error_of_def
        invalid_pushed_error_def Let_def split: option.splits)
qed

subsection \<open>Witnesses\<close>

definition sample_par_config :: par_config where
  "sample_par_config = \<lparr>pu_ttl_seconds = 90, pu_par_endpoint = ''https://op/par'',
     pu_issuer = ''https://op'', pu_token_endpoint = ''https://op/token'', pu_registry = None,
     pu_dpop = True, pu_assertions = False, pu_resolver = None\<rparr>"

definition sample_params :: "(str \<times> str) list" where
  "sample_params = [(''client_id'', ''rp''), (''response_type'', ''code''),
     (''redirect_uri'', ''https://rp/cb''), (''scope'', ''openid''), (''state'', ''st'')]"

lemma str_of_nat_nonempty: "str_of_nat n \<noteq> []"
  by (subst str_of_nat.simps) simp

lemma str_of_nat_zero: "str_of_nat n = ''0'' \<Longrightarrow> n = 0"
proof (cases "n < 10")
  case True
  assume "str_of_nat n = ''0''"
  with True have "(of_char (char_of (48 + n) :: char) :: nat) = of_char (CHR ''0'')"
    by (simp add: str_of_nat.simps [of n])
  with True show ?thesis by simp
next
  case False
  assume "str_of_nat n = ''0''"
  with False str_of_nat_nonempty [of "n div 10"] show ?thesis
    by (simp add: str_of_nat.simps [of n] append_eq_Cons_conv)
qed

definition sample_pushed_request :: authorize_request where
  "sample_pushed_request = \<lparr>aq_response_type = ''code'', aq_client_id = ''rp'',
     aq_redirect_uri = ''https://rp/cb'', aq_scope = ''openid'', aq_subject = [], aq_state = ''st'',
     aq_nonce = [], aq_code_challenge = [], aq_code_challenge_method = ''S256'', aq_response_mode = [],
     aq_prompt = [], aq_max_age = -1, aq_session_id = [], aq_auth_time = 0, aq_acr_values = [],
     aq_claims = [], aq_openid2_realm = [], aq_dpop_jkt = [], aq_resource = [],
     aq_authorization_details = []\<rparr>"

lemma sample_parameters:
  "pushed_request sample_params ''rp'' = sample_pushed_request"
  "dict_set ''client_id'' ''rp'' sample_params = sample_params"
  "param sample_params ''request_uri'' = []"
  by (simp_all add: pushed_request_def sample_params_def param_def param_or_def parse_max_age_def
      sample_pushed_request_def)

lemma sample_authenticated:
  "authenticate_push sample_services sample_par_config sample_params sample_server
     = (Inr sample_client, sample_server)"
proof -
  have client: "clients_find (w_clients sample_server) ''rp'' = Some sample_client"
    "cl_is_active sample_client" "effective_auth_method sample_client = AuthNone"
    by (simp_all add: clients_find_def sample_server_def sample_client_def new_client_def
        effective_auth_method_def)
  have params: "push_client_id sample_services sample_par_config sample_params = ''rp''"
    "param sample_params ''client_secret'' = []"
    by (simp_all add: push_client_id_def param_def sample_params_def)
  have auth: "map_error push_crash (authenticate_client sample_services sample_client
      (push_credentials sample_par_config sample_client sample_params)) sample_server = (Inr None, sample_server)"
    by (simp add: authenticate_client_def client map_error_def ok_def)
  show ?thesis
    by (simp add: authenticate_push_def params find_client_def run_simps client
        andthen_run(1) [where m = "map_error push_crash (authenticate_client sample_services sample_client
      (push_credentials sample_par_config sample_client sample_params))" and s = sample_server, OF auth])
qed

lemma sample_validated:
  "\<exists>va. validate_authorization_request sample_services None sample_pushed_request sample_server
     = (Inr va, sample_server)"
proof -
  have ran: "map_sum (\<lambda>_. ()) (\<lambda>_. ()) (fst (validate_authorization_request sample_services None
      sample_pushed_request sample_server)) = Inr ()"
    by code_simp
  show ?thesis using sampled_run [OF ran] validate_same by blast
qed

lemma sample_push_run:
  obtains r v where "push sample_services sample_jar_services sample_par_config sample_params [] sample_server
     = (Inr r, v)" "pr_request_uri r = pushed_request_uri_prefix @ ''r0''" "w_rand v = w_rand sample_world"
    "w_draw v = 1" "current v < w_clock v (w_tick v - 1) + seconds 90"
proof -
  obtain va where valid: "validate_authorization_request sample_services None sample_pushed_request sample_server
     = (Inr va, sample_server)"
    using sample_validated by blast
  then have checked: "map_error push_refusal (validate_authorization_request sample_services None
      sample_pushed_request) sample_server = (Inr va, sample_server)"
    by (simp add: map_error_Inr)
  have client: "cl_client_id sample_client = ''rp''" "\<not> cl_fapi_enabled sample_client"
    "\<not> cl_fapi2_enabled sample_client"
    by (simp_all add: sample_client_def new_client_def)
  have config: "pu_registry sample_par_config = None" "pu_resolver sample_par_config = None"
    "pu_ttl_seconds sample_par_config = 90"
    by (simp_all add: sample_par_config_def)
  have world: "w_rand sample_server = w_rand sample_world" "w_draw sample_server = 0"
    "w_tick sample_server = 0" "w_clock sample_server = int"
    by (simp_all add: sample_server_def sample_world_def)
  have first: "w_rand sample_world 0 = ''r0''" by code_simp
  let ?v = "snd (store_pushed sample_par_config ''rp'' sample_params sample_server)"
  have "push sample_services sample_jar_services sample_par_config sample_params [] sample_server
      = store_pushed sample_par_config ''rp'' sample_params sample_server"
    by (simp add: push_def push_for_def sample_parameters config client check_push_proof_def run_simps
        andthen_run(1) [where m = "authenticate_push sample_services sample_par_config sample_params"
          and s = sample_server, OF sample_authenticated]
        andthen_run(1) [where m = "map_error push_refusal (validate_authorization_request sample_services
          None sample_pushed_request)" and s = sample_server, OF checked])
  then show ?thesis
    by (intro that [of "\<lparr>pr_request_uri = pushed_request_uri_prefix @ ''r0'', pr_expires_in = 90\<rparr>" ?v]) (simp_all add: store_run config world first current_def seconds_def)
qed

lemma sample_reference_fresh:
  "\<forall>n \<ge> 1. pushed_request_uri_prefix @ w_rand sample_world n \<noteq> pushed_request_uri_prefix @ ''r0''"
proof (intro allI impI)
  fix n :: nat
  assume "1 \<le> n"
  then show "pushed_request_uri_prefix @ w_rand sample_world n \<noteq> pushed_request_uri_prefix @ ''r0''"
    using str_of_nat_zero [of n] by (auto simp: sample_world_def)
qed


lemma pushed_request_roundtrip_witness:
  "\<exists>r v q z. push sample_services sample_jar_services sample_par_config sample_params [] sample_server = (Inr r, v)
   \<and> resolve_pushed (pr_request_uri r) (aq_client_id q) v = (Inr q, z)"
proof (rule sample_push_run)
  fix r v
  assume run: "push sample_services sample_jar_services sample_par_config sample_params [] sample_server = (Inr r, v)"
    and uri: "pr_request_uri r = pushed_request_uri_prefix @ ''r0''"
    and v: "w_rand v = w_rand sample_world" "w_draw v = 1" "current v < w_clock v (w_tick v - 1) + seconds 90"
  have "\<forall>n \<ge> w_draw v. pushed_request_uri_prefix @ w_rand v n \<noteq> pr_request_uri r"
    unfolding uri v by (rule sample_reference_fresh)
  from pushed_request_roundtrip [OF run this par_later.here] v(3) run show ?thesis
    by (auto simp: sample_par_config_def)
qed

lemma completed_request_dead_witness:
  "\<exists>r v u e z. push sample_services sample_jar_services sample_par_config sample_params [] sample_server = (Inr r, v)
   \<and> complete_pushed (pr_request_uri r) v = (Inr () :: push_failure + unit, u)
   \<and> resolve_pushed (pr_request_uri r) ''rp'' u = (Inl (PushRefused e), z) \<and> pe_error e = ''invalid_request_uri''"
proof (rule sample_push_run)
  fix r v
  assume run: "push sample_services sample_jar_services sample_par_config sample_params [] sample_server = (Inr r, v)"
    and uri: "pr_request_uri r = pushed_request_uri_prefix @ ''r0''"
    and v: "w_rand v = w_rand sample_world" "w_draw v = 1"
  have fresh: "\<forall>n \<ge> w_draw v. pushed_request_uri_prefix @ w_rand v n \<noteq> pr_request_uri r"
    unfolding uri v by (rule sample_reference_fresh)
  obtain u where done_run: "complete_pushed (pr_request_uri r) v = (Inr () :: push_failure + unit, u)"
    by (cases "pushed_find (w_pushed v) (pr_request_uri r)")
      (auto simp: complete_pushed_def run_simps modify_def)
  from completed_request_dead [OF done_run fresh par_later.here, of "''rp''"]
  obtain e z where "resolve_pushed (pr_request_uri r) ''rp'' u = (Inl (PushRefused e), z)"
    "pe_error e = ''invalid_request_uri''" by blast
  with run done_run show ?thesis by blast
qed

end
