(* ===== verification/AuthorizeFlow.thy ===== *)
theory AuthorizeFlow
  imports AuthorizeRules
begin

text \<open>
  The code flow across its two endpoints: the code the authorization endpoint stores carries the
  request, the token endpoint redeems it only on the request's terms; and the answer of the
  front channel.
\<close>

subsection \<open>The code as it is stored\<close>

definition code_matches :: "services \<Rightarrow> authorize_request \<Rightarrow> authorization_code \<Rightarrow> bool" where
  "code_matches X r ac \<longleftrightarrow> ac_client_id ac = aq_client_id r \<and> ac_redirect_uri ac = aq_redirect_uri r
     \<and> ac_subject ac = aq_subject r \<and> ac_scopes ac = from_space_separated (aq_scope r)
     \<and> ac_code_challenge ac = aq_code_challenge r
     \<and> ac_code_challenge_method ac = aq_code_challenge_method r \<and> ac_nonce ac = aq_nonce r
     \<and> ac_dpop_jkt ac = aq_dpop_jkt r \<and> ac_claims ac = aq_claims r
     \<and> ac_resource_uris ac = parse_resource_parameter X (aq_resource r)
     \<and> ac_authorization_details ac = aq_authorization_details r
     \<and> \<not> ac_is_consumed ac \<and> \<not> ac_pre_authorized ac"

lemma issue_code_run:
  "issue_code X C r scopes c w = (Inr (w_rand w (w_draw w)), w\<lparr>w_tick := Suc (w_tick w),
     w_draw := Suc (w_draw w), w_codes := codes_save
       (code_of_request X C r scopes c (current w) (w_rand w (w_draw w))) (w_codes w)\<rparr>)"
  by (simp add: issue_code_def run_simps)

lemma code_of_request_matches:
  "code_matches X r (code_of_request X C r (from_space_separated (aq_scope r)) c now value)"
  "ac_code (code_of_request X C r scopes c now value) = value"
  "ac_expires_at (code_of_request X C r scopes c now value) = now + seconds (resolve_lifetime_seconds
     (cl_authorization_code_lifetime_seconds c) (az_code_ttl_seconds C))"
  by (simp_all add: code_matches_def code_of_request_def)

lemma moves_rethrow [moves_intros]: "moves R m \<Longrightarrow> moves R (rethrow m)"
  by (auto simp: moves_def rethrow_def split: prod.splits sum.splits) (metis snd_conv)+

lemma front_tokens_moves:
  assumes l: "lenient R"
  shows "moves R (issue_front_tokens X C r scopes c code i t)"
  unfolding issue_front_tokens_def front_access_token_def front_id_token_def create_access_token_def
    create_id_token_def sign_payload_def
  by (intro lenient_order [OF l] lenient_now [OF l] lenient_fresh [OF l] moves_intros)

lemma answer_moves:
  assumes l: "lenient R"
  shows "moves R (resolve_session_state X C r)" "moves R (response_redirect_uri X C r va params)"
  unfolding resolve_session_state_def create_session_state_def response_redirect_uri_def sign_envelope_def
  by (auto intro!: lenient_order [OF l] lenient_now [OF l] lenient_fresh [OF l] moves_intros
      split: response_mode.split option.split list.split)

lemma answer_ok:
  assumes "answer_validated X C r va w = (Inr d, v)"
  obtains w1 w2 w3 expires params where
    "if va_wants_code va
     then issue_code X C r (from_space_separated (aq_scope r)) (va_client va) w = (Inr (ad_code d), w1)
     else ad_code d = [] \<and> w1 = w"
    "if va_wants_id_token va \<or> va_wants_token va
     then issue_front_tokens X C r (from_space_separated (aq_scope r)) (va_client va) (ad_code d)
        (va_wants_id_token va) (va_wants_token va) w1 = (Inr (ad_id_token d, ad_access_token d, expires), w2)
     else ad_id_token d = [] \<and> ad_access_token d = [] \<and> w2 = w1"
    "same w_codes w2 w3" "response_redirect_uri X C r va params w3 = (Inr (ad_redirect_uri d), v)"
    "ad_mode d = va_response_mode va"
proof -
  let ?code = "if va_wants_code va
    then issue_code X C r (from_space_separated (aq_scope r)) (va_client va) else ok []"
  let ?tokens = "\<lambda>code. if va_wants_id_token va \<or> va_wants_token va
    then issue_front_tokens X C r (from_space_separated (aq_scope r)) (va_client va) code
      (va_wants_id_token va) (va_wants_token va) else ok ([], [], 0)"
  from assms obtain code w1 idt act expires w2 ss w3 params uri where
    run: "?code w = (Inr code, w1)" "?tokens code w1 = (Inr (idt, act, expires), w2)"
      "resolve_session_state X C r w2 = (Inr ss, w3)"
      "response_redirect_uri X C r va params w3 = (Inr uri, v)"
    and d: "ad_redirect_uri d = uri" "ad_code d = code" "ad_mode d = va_response_mode va"
      "ad_id_token d = idt" "ad_access_token d = act"
    unfolding answer_validated_def Let_def andthen_Inr
    by (auto simp: andthen_Inr ok_iff)
  have "same w_codes w2 w3"
    using answer_moves(1) [OF lenient_same [of w_codes], THEN movesD, OF _ _ _ run(3)] by simp
  with run d show ?thesis
    by (intro that [of w1 expires w2 w3 params]) (auto simp: ok_iff split: if_splits)
qed

lemma answer_codes:
  assumes "answer_validated X C r va w = (Inr d, v)" and "va_wants_code va"
  shows "\<exists>w1. issue_code X C r (from_space_separated (aq_scope r)) (va_client va) w = (Inr (ad_code d), w1)
    \<and> w_codes v = w_codes w1"
  using assms(1)
proof (rule answer_ok)
  fix w1 w2 w3 expires params
  assume code: "if va_wants_code va
     then issue_code X C r (from_space_separated (aq_scope r)) (va_client va) w = (Inr (ad_code d), w1)
     else ad_code d = [] \<and> w1 = w"
    and tokens: "if va_wants_id_token va \<or> va_wants_token va
     then issue_front_tokens X C r (from_space_separated (aq_scope r)) (va_client va) (ad_code d)
        (va_wants_id_token va) (va_wants_token va) w1 = (Inr (ad_id_token d, ad_access_token d, expires), w2)
     else ad_id_token d = [] \<and> ad_access_token d = [] \<and> w2 = w1"
    and rest: "same w_codes w2 w3" "response_redirect_uri X C r va params w3 = (Inr (ad_redirect_uri d), v)"
  have l: "lenient (same w_codes)" by (rule lenient_same) simp_all
  have "w_codes w2 = w_codes w1"
    using tokens front_tokens_moves [OF l, THEN movesD] by (auto simp: same_def split: if_splits)
  with rest code assms(2) answer_moves(2) [OF l, THEN movesD, OF rest(2)] show ?thesis
    by (auto simp: same_def)
qed

lemma authorize_ok:
  assumes "authorize X C r w = (Inr d, v)"
  obtains va where "validate_authorization_request X (az_registry C) r w = (Inr va, w)"
    "answer_validated X C r va w = (Inr d, v)"
  using assms validate_same unfolding authorize_def andthen_Inr by blast

lemma authorize_stores_code:
  assumes "authorize X C r w = (Inr d, v)" and "''code'' \<in> response_types_of r"
  obtains ac c where "codes_find (w_codes v) (ad_code d) = Some ac" "code_matches X r ac"
    "clients_find (w_clients w) (aq_client_id r) = Some c" "cl_is_active c"
    "ac_expires_at ac = current w + seconds (resolve_lifetime_seconds
       (cl_authorization_code_lifetime_seconds c) (az_code_ttl_seconds C))"
proof -
  obtain va where checked: "validate_authorization_request X (az_registry C) r w = (Inr va, w)"
    and answer: "answer_validated X C r va w = (Inr d, v)"
    using assms(1) by (rule authorize_ok)
  from checked obtain c where c: "clients_find (w_clients w) (aq_client_id r) = Some c"
    "cl_is_active c" "va_client va = c" "va_wants_code va"
    by (rule validate_ok) (simp add: assms(2))
  from answer_codes [OF answer c(4)] c(3) obtain w1 where
    code: "issue_code X C r (from_space_separated (aq_scope r)) c w = (Inr (ad_code d), w1)"
    and kept: "w_codes v = w_codes w1" by auto
  then have "w_codes v = codes_save (code_of_request X C r (from_space_separated (aq_scope r)) c
      (current w) (ad_code d)) (w_codes w)"
    by (auto simp: issue_code_run)
  with c(1,2) show ?thesis
    by (intro that [of "code_of_request X C r (from_space_separated (aq_scope r)) c (current w) (ad_code d)"])
      (simp_all add: code_of_request_matches codes.find_save)
qed

text \<open>Until it is redeemed the entry of a code is the one the authorization endpoint stored.\<close>

definition code_or_spent :: "str \<Rightarrow> authorization_code \<Rightarrow> world \<Rightarrow> bool" where
  "code_or_spent k ac w \<longleftrightarrow> (\<exists>e. codes_find (w_codes w) k = Some e \<and> (e = ac \<or> ac_is_consumed e))"

interpretation code_stored: endpoint_relation X C "kept (code_or_spent k ac)" for X C k ac
proof -
  let ?R = "kept (code_or_spent k ac)"
  have l: "lenient ?R" by (rule lenient_kept) (simp_all add: code_or_spent_def)
  have "moves ?R (issue_refresh_token X C c g)" for c g
    by (rule moves_mono [OF issue_refresh_same [of w_codes]])
      (auto simp: same_def kept_def code_or_spent_def intro: lenient_same)
  then show "endpoint_relation X C ?R"
    by unfold_locales (auto simp: l kept_def code_or_spent_def repo_simps)
qed

subsection \<open>Properties\<close>


subsection \<open>The answer of the front channel\<close>

lemma rethrow_ok: "rethrow m w = (Inr x, v) \<longleftrightarrow> m w = (Inr x, v)"
  by (auto simp: rethrow_def split: prod.splits sum.splits)

lemma response_uri_ok:
  assumes "response_redirect_uri X C r va params w = (Inr uri, v :: world)"
  shows "if va_response_mode va = FormPost then uri = aq_redirect_uri r
    else \<exists>mode ps. uri = build_redirect_uri (aq_redirect_uri r) mode ps
      \<and> (mode = Fragment \<or> (\<exists>e. ps = [envelope_param e])
          \<or> va_response_mode va \<noteq> Fragment \<and> (va_response_mode va = Jwt \<longrightarrow> \<not> va_has_tokens va))"
proof -
  have clear: "\<exists>mode ps. clear_redirect r va params = build_redirect_uri (aq_redirect_uri r) mode ps
      \<and> (mode = Fragment \<or> (\<exists>e. ps = [envelope_param e])
          \<or> va_response_mode va \<noteq> Fragment \<and> (va_response_mode va = Jwt \<longrightarrow> \<not> va_has_tokens va))"
    unfolding clear_redirect_def by (cases "va_response_mode va") auto
  show ?thesis
  proof (cases "\<exists>signer. va_response_mode va = Jwt \<and> az_jarm C = Some signer")
    case True
    then obtain signer where m: "va_response_mode va = Jwt" "az_jarm C = Some signer" by auto
    from assms obtain envelope u where "(case envelope of
          Some (e # es) \<Rightarrow> ok (build_redirect_uri (aq_redirect_uri r) Jwt [envelope_param (e # es)])
        | _ \<Rightarrow> ok (clear_redirect r va params)) u = (Inr uri :: authorize_failure + str, v)"
      by (auto simp: response_redirect_uri_def m andthen_Inr)
    then show ?thesis using clear m
      by (auto simp: ok_iff split: option.splits list.splits)
  next
    case False
    with assms clear show ?thesis
      by (auto simp: response_redirect_uri_def ok_iff split: if_splits response_mode.splits option.splits)
  qed
qed

lemma front_tokens_ok:
  assumes "issue_front_tokens X C r scopes c code i t w = (Inr (idt, act, ttl), v)"
  obtains fx at_hash u1 u2 u3 where "u1 = w\<lparr>w_tick := Suc (w_tick w)\<rparr>"
    "fx_material fx = (if aq_session_id r \<noteq> [] then aq_session_id r else code)"
    "fx_now fx = current w" "ttl = fx_ttl fx"
    "if t then front_access_token X C r scopes c fx u1 = (Inr (act, at_hash), u2)
     else act = [] \<and> at_hash = [] \<and> u2 = u1"
    "if i then front_id_token X C r c code t fx at_hash u2 = (Inr idt, u3) else idt = []"
proof -
  define fx where "fx = \<lparr>fx_now = current w,
           fx_ttl = resolve_lifetime_seconds (cl_access_token_lifetime_seconds c)
             (az_access_token_ttl_seconds C),
           fx_material = (if aq_session_id r \<noteq> [] then aq_session_id r else code),
           fx_claims = (if aq_claims r \<noteq> [] then parse_claims_parameter X (aq_claims r) else None)\<rparr>"
  from assms obtain at_hash u2 where
    "(if t then front_access_token X C r scopes c fx else ok ([], [])) (w\<lparr>w_tick := Suc (w_tick w)\<rparr>)
       = (Inr (act, at_hash), u2)"
    "(if i then front_id_token X C r c code t fx at_hash else ok []) u2 = (Inr idt, v)"
    "ttl = fx_ttl fx"
    unfolding issue_front_tokens_def Let_def andthen_world(1) fx_def [symmetric] andthen_Inr
    by (auto simp: andthen_Inr ok_iff)
  then show ?thesis
    by (intro that [of "w\<lparr>w_tick := Suc (w_tick w)\<rparr>" fx at_hash u2 v])
      (auto simp: fx_def ok_iff split: if_splits)
qed

lemma front_access_hash:
  "front_access_token X C r scopes c fx w = (Inr (act, at_hash), v) \<Longrightarrow>
     hash_artefact X act (az_signing_algorithm C) = Inr at_hash"
  by (auto simp: front_access_token_def andthen_Inr ok_iff lift_iff)

text \<open>The members of the \<open>id_token\<close> that bind the other artefacts of the answer.\<close>

definition binds :: "services \<Rightarrow> authorize_config \<Rightarrow> authorize_request \<Rightarrow> client \<Rightarrow> str \<Rightarrow> str
    \<Rightarrow> (str \<times> json) list \<Rightarrow> bool" where
  "binds X C r c code at_hash claims \<longleftrightarrow>
     map_of claims ''iss'' = Some (JStr (az_issuer C))
     \<and> map_of claims ''aud'' = Some (JStr (cl_client_id c))
     \<and> (aq_nonce r \<noteq> [] \<longrightarrow> map_of claims ''nonce'' = Some (JStr (aq_nonce r)))
     \<and> (at_hash \<noteq> [] \<longrightarrow> map_of claims ''at_hash'' = Some (JStr at_hash))
     \<and> (\<exists>alg secret c_hash s_hash.
          resolve_id_token_material X c (az_signing_algorithm C) (az_secret_cipher C) = Some (alg, secret)
          \<and> optional_hash X code alg = Inr c_hash
          \<and> (c_hash \<noteq> [] \<longrightarrow> map_of claims ''c_hash'' = Some (JStr c_hash))
          \<and> optional_hash X (aq_state r) alg = Inr s_hash
          \<and> (s_hash \<noteq> [] \<longrightarrow> map_of claims ''s_hash'' = Some (JStr s_hash)))"

lemma id_token_members:
  fixes issuer sub aud until iat cond additional
  defines "claims \<equiv> id_token_payload issuer sub aud until iat cond additional"
  shows "map_of claims ''iss'' = Some (JStr issuer)" "map_of claims ''aud'' = Some (JStr aud)"
    "ic_nonce cond \<noteq> [] \<longrightarrow> map_of claims ''nonce'' = Some (JStr (ic_nonce cond))"
    "ic_at_hash cond \<noteq> [] \<longrightarrow> map_of claims ''at_hash'' = Some (JStr (ic_at_hash cond))"
    "ic_c_hash cond \<noteq> [] \<longrightarrow> map_of claims ''c_hash'' = Some (JStr (ic_c_hash cond))"
    "ic_s_hash cond \<noteq> [] \<longrightarrow> map_of claims ''s_hash'' = Some (JStr (ic_s_hash cond))"
  unfolding claims_def id_token_payload_def setdefault_all_lookup
  by (simp_all add: member_if_def map_add_def split: option.splits)

lemma front_id_token_binds:
  assumes "front_id_token X C r c code t fx at_hash w = (Inr idt, v)"
    and "cl_id_token_encrypted_response_alg c = []"
  shows "\<exists>alg secret claims. idt = sv_jwt_encode X alg secret claims \<and> binds X C r c code at_hash claims
    \<and> resolve_id_token_material X c (az_signing_algorithm C) (az_secret_cipher C) = Some (alg, secret)"
proof -
  obtain alg secret sub where material:
    "resolve_id_token_material X c (az_signing_algorithm C) (az_secret_cipher C) = Some (alg, secret)"
    and sub: "display_subject X c (aq_subject r) (fx_material fx) (az_subject_seed C) = Some sub"
    using assms(1) unfolding front_id_token_def
    by (auto simp: reject_iff raise_iff split: option.splits)
  from assms(1) obtain c_hash s_hash additional where
    hashes: "optional_hash X code alg = Inr c_hash" "optional_hash X (aq_state r) alg = Inr s_hash"
    and idt: "idt = sv_jwt_encode X alg secret (id_token_payload (az_issuer C) sub (cl_client_id c)
       (epoch_seconds (fx_now fx + seconds (fx_ttl fx))) (epoch_seconds (fx_now fx))
       \<lparr>ic_nonce = aq_nonce r, ic_session_id = aq_session_id r, ic_at_hash = at_hash,
        ic_c_hash = c_hash, ic_s_hash = s_hash, ic_auth_time = aq_auth_time r\<rparr> additional)"
    unfolding front_id_token_def material option.case prod.case sub
    by (auto simp: andthen_Inr lift_iff peek_iff rethrow_ok create_id_token_def sign_payload_def
        encrypt_id_token_for_client_def assms(2) ok_iff raise_iff split: if_splits)
  note members = id_token_members [where issuer = "az_issuer C" and sub = sub and aud = "cl_client_id c"
    and cond = "\<lparr>ic_nonce = aq_nonce r, ic_session_id = aq_session_id r, ic_at_hash = at_hash,
        ic_c_hash = c_hash, ic_s_hash = s_hash, ic_auth_time = aq_auth_time r\<rparr>", simplified]
  show ?thesis
  proof (intro exI conjI)
    show "idt = sv_jwt_encode X alg secret (id_token_payload (az_issuer C) sub (cl_client_id c)
       (epoch_seconds (fx_now fx + seconds (fx_ttl fx))) (epoch_seconds (fx_now fx))
       \<lparr>ic_nonce = aq_nonce r, ic_session_id = aq_session_id r, ic_at_hash = at_hash,
        ic_c_hash = c_hash, ic_s_hash = s_hash, ic_auth_time = aq_auth_time r\<rparr> additional)"
      by (rule idt)
    show "binds X C r c code at_hash (id_token_payload (az_issuer C) sub (cl_client_id c)
       (epoch_seconds (fx_now fx + seconds (fx_ttl fx))) (epoch_seconds (fx_now fx))
       \<lparr>ic_nonce = aq_nonce r, ic_session_id = aq_session_id r, ic_at_hash = at_hash,
        ic_c_hash = c_hash, ic_s_hash = s_hash, ic_auth_time = aq_auth_time r\<rparr> additional)"
      unfolding binds_def by (intro exI conjI) (rule members material hashes)+
  qed (rule material)
qed

text \<open>The answer of the front channel: it goes to the registered address of the request, holds
  a code, an \<open>id_token\<close> and an access token only if the response type names them, and carries
  tokens in clear only in the fragment or in a posted form, otherwise inside the one signed
  parameter \<open>response\<close>.\<close>

lemma front_channel_answer:
  assumes "authorize X C r w = (Inr d, v)"
  shows "registered_address r w
    \<and> (''code'' \<notin> response_types_of r \<longrightarrow> ad_code d = [])
    \<and> (''id_token'' \<notin> response_types_of r \<and> ''token'' \<notin> response_types_of r \<longrightarrow>
         ad_id_token d = [] \<and> ad_access_token d = [])
    \<and> (if ad_mode d = FormPost then ad_redirect_uri d = aq_redirect_uri r
       else \<exists>mode ps. ad_redirect_uri d = build_redirect_uri (aq_redirect_uri r) mode ps
         \<and> (mode = Fragment \<or> (\<exists>e. ps = [envelope_param e])
             \<or> ad_id_token d = [] \<and> ad_access_token d = []))"
proof -
  obtain va where checked: "validate_authorization_request X (az_registry C) r w = (Inr va, w)"
    and answer: "answer_validated X C r va w = (Inr d, v)"
    using assms by (rule authorize_ok)
  from checked show ?thesis
  proof (rule validate_ok)
    fix c m
    assume c: "clients_find (w_clients w) (aq_client_id r) = Some c" "cl_is_active c"
      and check: "check_client_request X (az_registry C) r c m w = (Inr (), w)"
      and mode: "resolve_response_mode (aq_response_mode r) (has_tokens_of (response_types_of r)) = Some m"
      and types: "response_types_of r \<in> valid_response_types"
      and va: "va = \<lparr>va_client = c, va_response_types = response_types_of r,
         va_has_tokens = has_tokens_of (response_types_of r),
         va_wants_code = (''code'' \<in> response_types_of r),
         va_wants_id_token = (''id_token'' \<in> response_types_of r),
         va_wants_token = (''token'' \<in> response_types_of r), va_response_mode = m\<rparr>"
    have address: "registered_address r w"
      using c check_ok [OF check] unfolding registered_address_def by blast
    have clear: "m \<noteq> Fragment \<and> (m = Jwt \<longrightarrow> \<not> has_tokens_of (response_types_of r)) \<and> m \<noteq> FormPost
        \<Longrightarrow> \<not> has_tokens_of (response_types_of r)"
      using mode by (cases m) (auto dest: resolved_query)
    from answer show ?thesis
    proof (rule answer_ok)
      fix w1 w2 w3 expires params
      assume code: "if va_wants_code va
         then issue_code X C r (from_space_separated (aq_scope r)) (va_client va) w = (Inr (ad_code d), w1)
         else ad_code d = [] \<and> w1 = w"
        and tokens: "if va_wants_id_token va \<or> va_wants_token va
         then issue_front_tokens X C r (from_space_separated (aq_scope r)) (va_client va) (ad_code d)
            (va_wants_id_token va) (va_wants_token va) w1 = (Inr (ad_id_token d, ad_access_token d, expires), w2)
         else ad_id_token d = [] \<and> ad_access_token d = [] \<and> w2 = w1"
        and uri: "response_redirect_uri X C r va params w3 = (Inr (ad_redirect_uri d), v)"
        and mode': "ad_mode d = va_response_mode va"
      have none: "\<not> has_tokens_of (response_types_of r) \<Longrightarrow> ad_id_token d = [] \<and> ad_access_token d = []"
        using tokens by (simp add: va has_tokens_of_def)
      from response_uri_ok [OF uri] have "if m = FormPost then ad_redirect_uri d = aq_redirect_uri r
       else \<exists>mode ps. ad_redirect_uri d = build_redirect_uri (aq_redirect_uri r) mode ps
         \<and> (mode = Fragment \<or> (\<exists>e. ps = [envelope_param e])
             \<or> ad_id_token d = [] \<and> ad_access_token d = [])"
        unfolding va using clear none by (auto split: if_splits)
      with address code tokens mode' show ?thesis
        by (simp add: va has_tokens_of_def split: if_splits)
    qed
  qed
qed

text \<open>The \<open>id_token\<close> of the front channel binds the rest of the answer: issuer, audience,
  nonce, the hash of the code (\<open>c_hash\<close>) and of the state (\<open>s_hash\<close>) for the signature
  algorithm of the \<open>id_token\<close>, and the hash of the access token (\<open>at_hash\<close>), for the server's
  signature algorithm.\<close>

lemma front_id_token_binds_answer:
  assumes "authorize X C r w = (Inr d, v)" and "''id_token'' \<in> response_types_of r"
    and "clients_find (w_clients w) (aq_client_id r) = Some c"
    and "cl_id_token_encrypted_response_alg c = []"
  shows "\<exists>alg secret claims at_hash. ad_id_token d = sv_jwt_encode X alg secret claims
    \<and> resolve_id_token_material X c (az_signing_algorithm C) (az_secret_cipher C) = Some (alg, secret)
    \<and> binds X C r c (ad_code d) at_hash claims
    \<and> (''token'' \<in> response_types_of r \<longrightarrow>
         hash_artefact X (ad_access_token d) (az_signing_algorithm C) = Inr at_hash)"
proof -
  obtain va where checked: "validate_authorization_request X (az_registry C) r w = (Inr va, w)"
    and answer: "answer_validated X C r va w = (Inr d, v)"
    using assms(1) by (rule authorize_ok)
  have va: "va_client va = c" "va_wants_id_token va" "va_wants_token va \<longleftrightarrow> ''token'' \<in> response_types_of r"
    using checked by (rule validate_ok, simp add: assms)+
  from answer show ?thesis
  proof (rule answer_ok)
    fix w1 w2 w3 expires params
    assume "if va_wants_id_token va \<or> va_wants_token va
       then issue_front_tokens X C r (from_space_separated (aq_scope r)) (va_client va) (ad_code d)
          (va_wants_id_token va) (va_wants_token va) w1 = (Inr (ad_id_token d, ad_access_token d, expires), w2)
       else ad_id_token d = [] \<and> ad_access_token d = [] \<and> w2 = w1"
    then have "issue_front_tokens X C r (from_space_separated (aq_scope r)) c (ad_code d) True
        (''token'' \<in> response_types_of r) w1 = (Inr (ad_id_token d, ad_access_token d, expires), w2)"
      by (simp add: va)
    then show ?thesis
    proof (rule front_tokens_ok)
      fix fx at_hash u1 u2 u3
      assume access: "if ''token'' \<in> response_types_of r
         then front_access_token X C r (from_space_separated (aq_scope r)) c fx u1
            = (Inr (ad_access_token d, at_hash), u2)
         else ad_access_token d = [] \<and> at_hash = [] \<and> u2 = u1"
        and "if True then front_id_token X C r c (ad_code d) (''token'' \<in> response_types_of r) fx
            at_hash u2 = (Inr (ad_id_token d), u3) else ad_id_token d = []"
      then have "front_id_token X C r c (ad_code d) (''token'' \<in> response_types_of r) fx at_hash u2
          = (Inr (ad_id_token d), u3)" by simp
      from front_id_token_binds [OF this assms(4)] obtain alg secret claims where
        "ad_id_token d = sv_jwt_encode X alg secret claims"
        "resolve_id_token_material X c (az_signing_algorithm C) (az_secret_cipher C) = Some (alg, secret)"
        "binds X C r c (ad_code d) at_hash claims" by blast
      moreover have "''token'' \<in> response_types_of r \<longrightarrow>
          hash_artefact X (ad_access_token d) (az_signing_algorithm C) = Inr at_hash"
        using access front_access_hash by auto
      ultimately show ?thesis by blast
    qed
  qed
qed

subsection \<open>Witnesses\<close>

definition sample_authorize_config :: authorize_config where
  "sample_authorize_config = \<lparr>az_code_ttl_seconds = 600, az_access_token_ttl_seconds = 3600,
     az_signing_algorithm = RS256, az_issuer = ''https://op'', az_secret_cipher = False,
     az_id_token_encrypter = False, az_subject_seed = [], az_registry = None,
     az_session_management = False, az_claims_provider = False, az_identity_resources = False,
     az_jarm = None, az_openid20 = None, az_identity_assurance = None\<rparr>"

definition sample_authorize_request :: authorize_request where
  "sample_authorize_request = \<lparr>aq_response_type = ''code'', aq_client_id = ''rp'',
     aq_redirect_uri = ''https://rp/cb'', aq_scope = ''openid'', aq_subject = ''u'',
     aq_state = ''st'', aq_nonce = ''n'', aq_code_challenge = ''b64.v'',
     aq_code_challenge_method = ''S256'', aq_response_mode = [], aq_prompt = [], aq_max_age = -1,
     aq_session_id = [], aq_auth_time = 0, aq_acr_values = [], aq_claims = [],
     aq_openid2_realm = [], aq_dpop_jkt = [], aq_resource = [], aq_authorization_details = []\<rparr>"

definition sample_hybrid_request :: authorize_request where
  "sample_hybrid_request = sample_authorize_request\<lparr>aq_response_type := ''code id_token''\<rparr>"

lemma sample_authorized:
  "map_sum (\<lambda>_. ()) ad_code
     (fst (authorize sample_services sample_authorize_config sample_authorize_request sample_server))
   = Inr ''r0''"
  by code_simp

lemma sample_hybrid:
  "map_sum (\<lambda>_. ()) (\<lambda>d. (ad_code d, ad_mode d))
     (fst (authorize sample_services sample_authorize_config sample_hybrid_request sample_server))
   = Inr (''r0'', Fragment)"
  by code_simp

lemma validated_request_sound_witness:
  "\<exists>va. validate_authorization_request sample_services None sample_authorize_request sample_server
     = (Inr va, sample_server)
   \<and> cl_is_active (va_client va) \<and> va_response_types va = {''code''}"
proof -
  have ran: "map_sum (\<lambda>_. ()) (\<lambda>_. ()) (fst (validate_authorization_request sample_services None
      sample_authorize_request sample_server)) = Inr ()"
    by code_simp
  obtain va v where run: "validate_authorization_request sample_services None
      sample_authorize_request sample_server = (Inr va, v)"
    using sampled_run [OF ran] by blast
  have types: "set (py_split (aq_response_type sample_authorize_request)) = {''code''}" by code_simp
  show ?thesis
    using validated_request_sound [OF run] run unfolding types by blast
qed

text \<open>An address nobody registered, with a response type nobody supports.\<close>

definition sample_stray_request :: authorize_request where
  "sample_stray_request = sample_authorize_request\<lparr>aq_response_type := ''none'',
     aq_client_id := ''nobody'', aq_redirect_uri := ''https://evil''\<rparr>"

lemma error_redirection_witness:
  "\<exists>e v. authorize sample_services sample_authorize_config sample_stray_request sample_server
     = (Inl (Rejected e), v)
   \<and> ae_redirectable e \<and> ae_redirect_uri e = ''https://evil''"
proof -
  have "(case fst (authorize sample_services sample_authorize_config sample_stray_request sample_server)
      of Inl (Rejected e) \<Rightarrow> True | _ \<Rightarrow> False)"
    by code_simp
  then obtain e v where run: "authorize sample_services sample_authorize_config sample_stray_request
      sample_server = (Inl (Rejected e), v)"
    by (cases "authorize sample_services sample_authorize_config sample_stray_request sample_server")
      (auto split: sum.splits authorize_failure.splits)
  have "unsupported_request sample_stray_request" by code_simp
  with error_redirection [OF run] have "ae_redirectable e \<and> ae_redirect_uri e = ''https://evil''"
    by (simp add: sample_stray_request_def)
  with run show ?thesis by blast
qed


lemma front_channel_answer_witness:
  "\<exists>d v. authorize sample_services sample_authorize_config sample_hybrid_request sample_server = (Inr d, v)
   \<and> (\<exists>mode ps. ad_redirect_uri d = build_redirect_uri ''https://rp/cb'' mode ps
        \<and> (mode = Fragment \<or> (\<exists>e. ps = [envelope_param e]) \<or> ad_id_token d = [] \<and> ad_access_token d = []))"
proof -
  obtain d v where run: "authorize sample_services sample_authorize_config sample_hybrid_request
      sample_server = (Inr d, v)" and d: "ad_mode d = Fragment"
    using sampled_run [OF sample_hybrid] by blast
  have "aq_redirect_uri sample_hybrid_request = ''https://rp/cb''" by code_simp
  with front_channel_answer [OF run] d run show ?thesis by auto
qed

lemma front_id_token_binds_answer_witness:
  "\<exists>d v claims. authorize sample_services sample_authorize_config sample_hybrid_request sample_server
     = (Inr d, v)
   \<and> map_of claims ''nonce'' = Some (JStr ''n'')
   \<and> ad_id_token d = sv_jwt_encode sample_services (fst (the (resolve_id_token_material sample_services
        sample_client RS256 False))) (snd (the (resolve_id_token_material sample_services sample_client
        RS256 False))) claims"
proof -
  obtain d v where run: "authorize sample_services sample_authorize_config sample_hybrid_request
      sample_server = (Inr d, v)"
    using sampled_run [OF sample_hybrid] by blast
  have idt: "''id_token'' \<in> response_types_of sample_hybrid_request" by code_simp
  have c: "clients_find (w_clients sample_server) (aq_client_id sample_hybrid_request) = Some sample_client"
    by (simp add: clients_find_def sample_server_def sample_hybrid_request_def sample_authorize_request_def)
  have plain: "cl_id_token_encrypted_response_alg sample_client = []"
    by (simp add: sample_client_def new_client_def)
  have fields: "aq_nonce sample_hybrid_request = ''n''" "az_signing_algorithm sample_authorize_config = RS256"
    "az_secret_cipher sample_authorize_config = False"
    by (simp_all add: sample_hybrid_request_def sample_authorize_request_def sample_authorize_config_def)
  from front_id_token_binds_answer [OF run idt c plain] run show ?thesis
    by (fastforce simp: binds_def fields)
qed

end
