(* ===== verification/AuthorizeHttp.thy ===== *)
theory AuthorizeHttp
  imports Par AuthorizeFlow
begin

text \<open>
  \<open>interfaces/api/authorize.py\<close> and \<open>interfaces/api/authorize_error.py\<close>: the routes of
  \<open>/authorize\<close> around the use case.  The request is resolved (pushed reference, request object,
  query), refused without redirection when its address is not trusted, sent to login or
  registration, bound to the user, sent to the consent page, executed.
\<close>

subsection \<open>What the browser is sent, what it sent\<close>

text \<open>
  A response before its rendering as HTML or as a status line: a redirection, a form posted to an
  address, a page, the login and registration forms with the address to come back to, the
  consent page with its parameters and its rendered screen.
\<close>

datatype page =
    Redirected str
  | Posted str "(str \<times> str) list"
  | ErrorPage str str
  | MissingPage "str list"
  | LoginPage str
  | SignupPage str
  | ConsentPage "(str \<times> str) list"
  | LoginThenConsent "(str \<times> str) list"
  | ConsentScreen authorize_request str
  | BadRequest str

text \<open>
  The session the cookie stands for (\<open>session_sid\<close>, \<open>session_auth_time\<close>, \<open>session_reauth\<close> over the
  session signer), the user, the path and the query the request was made with, the
  \<open>register\<close> marker.
\<close>

record http_request =
  hr_user :: "str option"
  hr_sid :: str
  hr_auth_time :: int
  hr_reauth :: str
  hr_path :: str
  hr_query :: str

text \<open>
  \<open>hc_par\<close>, \<open>hc_clients\<close>, \<open>hc_consent\<close>, \<open>hc_jarm\<close>, \<open>hc_trust\<close>: the optional dependencies;
  \<open>ht_trust\<close>: the redirection addresses a trust chain gives an entity, \<open>None\<close> for a failure;
  \<open>ht_fold\<close>: \<open>unicodedata.normalize("NFKD", text)\<close> without the combining characters.
\<close>

record http_config =
  hc_par :: "par_config option"
  hc_clients :: bool
  hc_consent :: bool
  hc_resolver :: jar_config
  hc_par_required :: bool
  hc_require_login :: bool
  hc_base_url :: str
  hc_jarm :: "(str \<times> int) option"
  hc_issuer :: str
  hc_trust :: bool

record http_services =
  ht_trust :: "str \<Rightarrow> str list option"
  ht_fold :: "str \<Rightarrow> str"

text \<open>A refusal becomes a value, an escaping exception stays an error.\<close>

definition attempt :: "('e \<Rightarrow> 'x + 'd) \<Rightarrow> ('s, 'e, 'a) prog \<Rightarrow> ('s, 'x, 'd + 'a) prog" where
  "attempt h m = (\<lambda>s. case m s of
       (Inl e, t) \<Rightarrow> (case h e of Inl x \<Rightarrow> (Inl x, t) | Inr d \<Rightarrow> (Inr (Inl d), t))
     | (Inr a, t) \<Rightarrow> (Inr (Inr a), t))"

fun authorize_attempt :: "authorize_failure \<Rightarrow> str + authorize_error" where
  "authorize_attempt (Rejected e) = Inr e"
| "authorize_attempt (Crashed x) = Inl x"

fun object_attempt :: "jar_failure \<Rightarrow> str + jar_error" where
  "object_attempt (JarRefused e) = Inr e"
| "object_attempt (JarCrashed x) = Inl x"

fun push_attempt :: "push_failure \<Rightarrow> str + push_error" where
  "push_attempt (PushRefused e) = Inr e"
| "push_attempt (PushCrashed x) = Inl x"

definition checked_request :: "services \<Rightarrow> authorize_request
    \<Rightarrow> (world, str, authorize_error + validated_authorization) prog" where
  "checked_request X r = attempt authorize_attempt (validate_authorization_request X None r)"

subsection \<open>Errors and their transport\<close>

definition described_char :: "char \<Rightarrow> bool" where
  "described_char c = (let n = (of_char c :: nat) in
     32 \<le> n \<and> n \<le> 33 \<or> 35 \<le> n \<and> n \<le> 91 \<or> 93 \<le> n \<and> n \<le> 126)"

definition ascii_error_description :: "http_services \<Rightarrow> str \<Rightarrow> str" where
  "ascii_error_description T s = filter described_char (ht_fold T s)"

text \<open>\<open>quote(text, safe="")\<close> of an ASCII text.\<close>

definition upper_hex :: "nat \<Rightarrow> char" where
  "upper_hex n = ''0123456789ABCDEF'' ! n"

definition quote_char :: "char \<Rightarrow> str" where
  "quote_char c =
     (if is_alnum c \<and> is_ascii c \<or> c \<in> set ''_.-~'' then [c]
      else let n = (of_char c :: nat) in [CHR ''%'', upper_hex (n div 16), upper_hex (n mod 16)])"

definition quote_ascii :: "str \<Rightarrow> str" where
  "quote_ascii s = concat (map quote_char s)"

definition jarm_error_params :: "http_services \<Rightarrow> authorize_error \<Rightarrow> (str \<times> str) list" where
  "jarm_error_params T e = [(''error'', ae_error e)]
     @ (if ae_description e \<noteq> [] then [(''error_description'', ascii_error_description T (ae_description e))] else [])
     @ (if ae_state e \<noteq> [] then [(''state'', ae_state e)] else [])"

definition form_post_error_params :: "http_services \<Rightarrow> authorize_error \<Rightarrow> str \<Rightarrow> (str \<times> str) list" where
  "form_post_error_params T e issuer = jarm_error_params T e
     @ (if issuer \<noteq> [] then [(''iss'', issuer)] else [])"

definition clear_error_params :: "http_services \<Rightarrow> authorize_error \<Rightarrow> str \<Rightarrow> str" where
  "clear_error_params T e issuer = join_with ''&''
     ([''error='' @ ae_error e]
      @ (if ae_description e \<noteq> []
         then [''error_description='' @ quote_ascii (ascii_error_description T (ae_description e))] else [])
      @ (if ae_state e \<noteq> [] then [''state='' @ ae_state e] else [])
      @ (if issuer \<noteq> [] then [''iss='' @ issuer] else []))"

definition query_separator :: "str \<Rightarrow> str" where
  "query_separator uri = (if CHR ''?'' \<in> set uri then ''&'' else ''?'')"

definition clear_error :: "http_services \<Rightarrow> authorize_error \<Rightarrow> str \<Rightarrow> page" where
  "clear_error T e issuer = Redirected (ae_redirect_uri e
     @ (if ae_mode e = Fragment then ''#'' else query_separator (ae_redirect_uri e))
     @ clear_error_params T e issuer)"

definition sign_by_client_id :: "services \<Rightarrow> str \<times> int \<Rightarrow> str \<Rightarrow> (str \<times> str) list
    \<Rightarrow> (world, str, str option) prog" where
  "sign_by_client_id X signer client_id params =
     andthen (find_client client_id) (\<lambda>found.
     case found of
       None \<Rightarrow> ok None
     | Some c \<Rightarrow>
         if jarm_signing_alg c (mode_value Jwt) = [] then ok None
         else
           andthen (sign_envelope X signer c params) (\<lambda>envelope.
           case envelope of None \<Rightarrow> raise ''ValueError'' | Some e \<Rightarrow> ok (Some e)))"

definition error_redirect :: "services \<Rightarrow> http_services \<Rightarrow> (str \<times> int) option \<Rightarrow> str \<Rightarrow> authorize_error
    \<Rightarrow> (world, str, page) prog" where
  "error_redirect X T jarm issuer e =
     (if ae_mode e = FormPost
      then ok (Posted (ae_redirect_uri e) (form_post_error_params T e issuer))
      else
        andthen (if ae_mode e = Jwt
           then (case jarm of
               None \<Rightarrow> ok None
             | Some signer \<Rightarrow> sign_by_client_id X signer (ae_client_id e) (jarm_error_params T e))
           else ok None) (\<lambda>envelope.
        case envelope of
          Some (c # cs) \<Rightarrow> ok (Redirected (ae_redirect_uri e @ query_separator (ae_redirect_uri e)
            @ envelope_param (c # cs)))
        | _ \<Rightarrow> ok (clear_error T e issuer)))"

definition default_description :: "str \<Rightarrow> str" where
  "default_description e =
     (if e = ''invalid_redirect_uri'' then ''La redirection demandee n'est pas enregistree''
      else if e = ''invalid_client'' then ''Identifiant de client invalide ou inconnu''
      else ''La demande d'autorisation a ete refusee.'')"

definition error_page :: "http_services \<Rightarrow> authorize_error \<Rightarrow> page" where
  "error_page T e = ErrorPage (ae_error e) (ascii_error_description T
     (if ae_description e \<noteq> [] then ae_description e else default_description (ae_error e)))"

definition error_response :: "services \<Rightarrow> http_services \<Rightarrow> (str \<times> int) option \<Rightarrow> str \<Rightarrow> authorize_error
    \<Rightarrow> (world, str, page) prog" where
  "error_response X T jarm issuer e =
     (if \<not> ae_redirectable e then ok (error_page T e) else error_redirect X T jarm issuer e)"

definition authorization_response :: "authorize_redirect \<Rightarrow> page" where
  "authorization_response d =
     (if ad_mode d = FormPost then Posted (ad_redirect_uri d) (ad_form_params d)
      else Redirected (ad_redirect_uri d))"

definition requested_error_mode :: "client \<Rightarrow> str \<Rightarrow> bool \<Rightarrow> response_mode" where
  "requested_error_mode c requested has_tokens =
     (if requested = mode_value FormPost then FormPost
      else if jarm_signing_alg c requested \<noteq> [] then Jwt
      else if requested = mode_value Fragment \<or> has_tokens then Fragment
      else Query)"

definition names_tokens :: "(str \<times> str) list \<Rightarrow> bool" where
  "names_tokens ps = has_tokens_of (set (py_split (param ps ''response_type'')))"

definition safe_error :: "str \<Rightarrow> str \<Rightarrow> str \<Rightarrow> str \<Rightarrow> response_mode \<Rightarrow> str \<Rightarrow> authorize_error" where
  "safe_error e text uri state mode client_id = \<lparr>ae_error = e, ae_description = text,
     ae_redirect_uri = uri, ae_state = state, ae_mode = mode, ae_redirectable = True,
     ae_client_id = client_id\<rparr>"

subsection \<open>Refused request objects\<close>

definition is_entity_identifier :: "str \<Rightarrow> bool" where
  "is_entity_identifier s \<longleftrightarrow> starts_with ''https://'' s \<and> CHR ''?'' \<notin> set s \<and> CHR ''#'' \<notin> set s"

definition trusted_addresses :: "http_services \<Rightarrow> http_config \<Rightarrow> str \<Rightarrow> str list option" where
  "trusted_addresses T H entity =
     (if \<not> hc_trust H then None
      else case ht_trust T entity of
          Some (u # us) \<Rightarrow> Some (u # us)
        | _ \<Rightarrow> None)"

definition error_addresses :: "jar_services \<Rightarrow> http_services \<Rightarrow> http_config \<Rightarrow> (str \<times> str) list
    \<Rightarrow> client option \<Rightarrow> str \<Rightarrow> str set" where
  "error_addresses J T H ps found client_id =
     (case found of
        Some c \<Rightarrow>
          if cl_federated c \<or> is_entity_identifier (cl_client_id c) \<or> py_strip (param ps ''redirect_uri'') \<noteq> []
          then cl_redirect_uris c else {}
      | None \<Rightarrow>
          (case trusted_addresses T H client_id of
             Some us \<Rightarrow> set us
           | None \<Rightarrow>
               (case trusted_addresses T H (unverified_issuer J (param ps ''request'')) of
                  Some us \<Rightarrow> set us | None \<Rightarrow> {})))"

definition pick_error_address :: "jar_services \<Rightarrow> (str \<times> str) list \<Rightarrow> str set \<Rightarrow> str" where
  "pick_error_address J ps allowed =
     (let stated = py_strip (param ps ''redirect_uri'');
          candidate = (if stated \<noteq> [] then stated
            else unverified_redirect_uri J (param ps ''request''))
      in if candidate \<in> allowed then candidate else [])"

definition federated_error_mode :: "(str \<times> str) list \<Rightarrow> response_mode" where
  "federated_error_mode ps =
     (if param ps ''response_mode'' = mode_value FormPost then FormPost
      else if names_tokens ps then Fragment else Query)"

definition object_error_response :: "services \<Rightarrow> jar_services \<Rightarrow> http_services \<Rightarrow> http_config
    \<Rightarrow> (str \<times> str) list \<Rightarrow> jar_error \<Rightarrow> (world, str, page) prog" where
  "object_error_response X J T H ps e =
     (let refusal = ok (ErrorPage (je_error e) (je_description e));
          client_id = param ps ''client_id'';
          state = (if je_state e \<noteq> [] then je_state e else param ps ''state'') in
      if \<not> hc_clients H then refusal
      else
        andthen (find_client client_id) (\<lambda>found.
        if found = None \<and> \<not> is_entity_identifier client_id then refusal
        else
          let uri = pick_error_address J ps (error_addresses J T H ps found client_id) in
          if uri = [] then refusal
          else error_redirect X T (hc_jarm H) (hc_issuer H)
            (case found of
               None \<Rightarrow> safe_error (je_error e) (je_description e) uri state (federated_error_mode ps) client_id
             | Some c \<Rightarrow> safe_error (je_error e) (je_description e) uri state
                 (requested_error_mode c (param ps ''response_mode'') (names_tokens ps)) (cl_client_id c))))"

subsection \<open>The entry of \<open>/authorize\<close>\<close>

definition required_parameters :: "(str \<times> str) list \<Rightarrow> str list" where
  "required_parameters ps =
     filter (\<lambda>n. param ps n = []) [''response_type'', ''client_id'', ''redirect_uri'']
     @ (if param ps ''scope'' = [] \<and> param ps ''authorization_details'' = [] then [''scope''] else [])"

text \<open>The refusal by form post of a request without response type, when its address is registered.\<close>

definition form_post_missing :: "http_config \<Rightarrow> (str \<times> str) list \<Rightarrow> str list \<Rightarrow> world \<Rightarrow> authorize_error option" where
  "form_post_missing H ps missing w =
     (if set missing \<noteq> {''response_type''} \<or> param ps ''response_mode'' \<noteq> mode_value FormPost
        \<or> \<not> hc_clients H then None
      else case clients_find (w_clients w) (param ps ''client_id'') of
          None \<Rightarrow> None
        | Some c \<Rightarrow>
            if cl_is_active c \<and> param ps ''redirect_uri'' \<in> cl_redirect_uris c
            then Some (safe_error ''invalid_request''
              ''Parametre requis manquant : response_type (RFC 6749 par. 3.1.1)''
              (param ps ''redirect_uri'') (param ps ''state'') FormPost (cl_client_id c))
            else None)"

definition par_exigence :: str where
  "par_exigence = ''Ce client exige l'utilisation de Pushed Authorization Request (RFC 9126 par. 6.1)''"

definition requires_par :: "http_config \<Rightarrow> client \<Rightarrow> bool" where
  "requires_par H c \<longleftrightarrow> cl_par_required c \<or> cl_fapi2_enabled c \<or> hc_par_required H"

definition enforce_par :: "services \<Rightarrow> http_services \<Rightarrow> http_config \<Rightarrow> (str \<times> str) list
    \<Rightarrow> (world, str, page option) prog" where
  "enforce_par X T H ps =
     (if \<not> hc_clients H then ok None
      else
        andthen (find_client (param ps ''client_id'')) (\<lambda>found.
        case found of
          None \<Rightarrow> ok None
        | Some c \<Rightarrow>
            if \<not> requires_par H c then ok None
            else
              let uri = param ps ''redirect_uri'' in
              if uri \<noteq> [] \<and> uri \<in> cl_redirect_uris c
              then andthen (error_redirect X T (hc_jarm H) (hc_issuer H)
                (safe_error ''invalid_request'' par_exigence uri (param ps ''state'')
                  (requested_error_mode c (param ps ''response_mode'') (names_tokens ps))
                  (cl_client_id c))) (\<lambda>p. ok (Some p))
              else ok (Some (ErrorPage ''invalid_request'' par_exigence))))"

definition direct_request :: "services \<Rightarrow> jar_services \<Rightarrow> http_services \<Rightarrow> http_config
    \<Rightarrow> (str \<times> str) list \<Rightarrow> str \<Rightarrow> (world, str, page + authorize_request) prog" where
  "direct_request X J T H params session_scope =
     andthen (attempt object_attempt (resolve_object X J (hc_resolver H) params session_scope)) (\<lambda>resolved.
     case resolved of
       Inl e \<Rightarrow> andthen (object_error_response X J T H params e) (\<lambda>p. ok (Inl p))
     | Inr ps \<Rightarrow>
         let missing = required_parameters ps in
         if missing \<noteq> []
         then
           andthen (peek (form_post_missing H ps missing)) (\<lambda>refused.
           case refused of
             Some e \<Rightarrow> andthen (error_redirect X T None (hc_issuer H) e) (\<lambda>p. ok (Inl p))
           | None \<Rightarrow> ok (Inl (MissingPage missing)))
         else
           andthen (enforce_par X T H ps) (\<lambda>enforced.
           case enforced of
             Some p \<Rightarrow> ok (Inl p)
           | None \<Rightarrow> ok (Inr (pushed_request ps (param ps ''client_id'')))))"

definition pushed_error_response :: "services \<Rightarrow> http_services \<Rightarrow> http_config \<Rightarrow> push_error
    \<Rightarrow> (world, str, page) prog" where
  "pushed_error_response X T H e =
     (if pe_redirect_uri e = [] then ok (ErrorPage (pe_error e) (pe_description e))
      else error_redirect X T None (hc_issuer H)
        (safe_error (pe_error e) (pe_description e) (pe_redirect_uri e) (pe_state e) (pe_mode e) []))"

definition resolve_reference :: "services \<Rightarrow> http_services \<Rightarrow> http_config \<Rightarrow> str \<Rightarrow> str
    \<Rightarrow> (world, str, page + authorize_request) prog" where
  "resolve_reference X T H client_id request_uri =
     (case hc_par H of
        None \<Rightarrow> andthen (pushed_error_response X T H (push_error_of ''invalid_request''
            ''Pushed Authorization Request desactive'' 400)) (\<lambda>p. ok (Inl p))
      | Some _ \<Rightarrow>
          andthen (attempt push_attempt (resolve_pushed request_uri client_id)) (\<lambda>resolved.
          case resolved of
            Inl e \<Rightarrow> andthen (pushed_error_response X T H e) (\<lambda>p. ok (Inl p))
          | Inr r \<Rightarrow> ok (Inr r)))"

definition is_reference :: "(str \<times> str) list \<Rightarrow> bool" where
  "is_reference ps \<longleftrightarrow> param ps ''request_uri'' \<noteq> [] \<and> is_pushed_request_uri (param ps ''request_uri'')"

definition authorize_entry :: "services \<Rightarrow> jar_services \<Rightarrow> http_services \<Rightarrow> http_config
    \<Rightarrow> (str \<times> str) list \<Rightarrow> str \<Rightarrow> (world, str, page + authorize_request) prog" where
  "authorize_entry X J T H ps session_scope =
     (if is_reference ps
      then resolve_reference X T H (param ps ''client_id'') (param ps ''request_uri'')
      else direct_request X J T H ps session_scope)"

subsection \<open>Errors that may not be redirected\<close>

definition federated_error :: "services \<Rightarrow> jar_services \<Rightarrow> http_services \<Rightarrow> http_config
    \<Rightarrow> authorize_request \<Rightarrow> authorize_error \<Rightarrow> (world, str, page option) prog" where
  "federated_error X J T H r e =
     (if \<not> is_entity_identifier (aq_client_id r)
        \<or> ae_error e \<notin> {''invalid_client'', ''invalid_request''} then ok None
      else
        let allowed = (case trusted_addresses T H (aq_client_id r) of Some us \<Rightarrow> set us | None \<Rightarrow> {});
            uri = pick_error_address J [(''redirect_uri'', aq_redirect_uri r)] allowed in
        if uri = [] then ok None
        else andthen (error_redirect X T None []
          (safe_error (ae_error e) (ae_description e) uri
            (if ae_state e \<noteq> [] then ae_state e else aq_state r) (ae_mode e) (aq_client_id r)))
          (\<lambda>p. ok (Some p)))"

definition non_redirectable_error :: "services \<Rightarrow> jar_services \<Rightarrow> http_services \<Rightarrow> http_config
    \<Rightarrow> authorize_request \<Rightarrow> (world, str, page option) prog" where
  "non_redirectable_error X J T H r =
     (if \<not> hc_clients H then ok None
      else
        andthen (checked_request X r) (\<lambda>checked.
        case checked of
          Inl e \<Rightarrow>
            if ae_redirectable e then ok None
            else
              andthen (federated_error X J T H r e) (\<lambda>federated.
              case federated of
                Some p \<Rightarrow> ok (Some p)
              | None \<Rightarrow> ok (Some (error_page T e)))
        | Inr _ \<Rightarrow> ok None))"

subsection \<open>Login and registration\<close>

definition asks :: "str \<Rightarrow> authorize_request \<Rightarrow> bool" where
  "asks word r \<longleftrightarrow> word \<in> set (py_split (aq_prompt r))"

definition authorize_url :: "http_config \<Rightarrow> http_request \<Rightarrow> str" where
  "authorize_url H q = rstrip_slash (hc_base_url H) @ hr_path q
     @ (if hr_query q \<noteq> [] then ''?'' @ hr_query q else [])"

definition reauth_context :: "services \<Rightarrow> str \<Rightarrow> str" where
  "reauth_context X url = take 32 (sv_sha256_hex X url)"

definition answers_this :: "services \<Rightarrow> http_config \<Rightarrow> http_request \<Rightarrow> bool" where
  "answers_this X H q \<longleftrightarrow> hr_reauth q = reauth_context X (authorize_url H q)"

definition max_age_unmet :: "services \<Rightarrow> http_config \<Rightarrow> http_request \<Rightarrow> authorize_request
    \<Rightarrow> (world, str, bool) prog" where
  "max_age_unmet X H q r =
     (if aq_max_age r = 0 then ok (\<not> answers_this X H q)
      else if aq_max_age r < 0 then ok False
      else if hr_auth_time q = 0 then ok True
      else andthen now_utc (\<lambda>t.
        ok (epoch_seconds t - hr_auth_time q > aq_max_age r \<and> \<not> answers_this X H q)))"

definition reauthentication_required :: "services \<Rightarrow> http_config \<Rightarrow> http_request \<Rightarrow> authorize_request
    \<Rightarrow> (world, str, bool) prog" where
  "reauthentication_required X H q r =
     (if asks ''login'' r \<and> \<not> answers_this X H q then ok True else max_age_unmet X H q r)"

definition unsupported_acr :: "authorize_request \<Rightarrow> bool" where
  "unsupported_acr r \<longleftrightarrow> (let acr = first_acr_value (aq_acr_values r) in
     acr \<noteq> [] \<and> acr \<notin> set supported_acr_values)"

definition authentication_description :: "str \<Rightarrow> str" where
  "authentication_description code =
     (if code = ''unmet_authentication_requirements''
      then ''Exigences d'authentification non satisfaites (max_age/acr_values, RFC 9470 par. 2)''
      else ''Authentification requise (prompt=none)'')"

text \<open>An error of the login, sent the way the validated request asks for.\<close>

definition refuse_request :: "services \<Rightarrow> http_services \<Rightarrow> http_config \<Rightarrow> authorize_request \<Rightarrow> str \<Rightarrow> str
    \<Rightarrow> (world, str, page) prog" where
  "refuse_request X T H r code text =
     andthen (if hc_clients H then andthen (checked_request X r) (\<lambda>v. ok (Some v)) else ok None) (\<lambda>checked.
     error_response X T (hc_jarm H) (hc_issuer H)
       (case checked of
          Some (Inl e) \<Rightarrow> e
        | Some (Inr va) \<Rightarrow> safe_error code text (aq_redirect_uri r) (aq_state r) (va_response_mode va) (aq_client_id r)
        | None \<Rightarrow> safe_error code text (aq_redirect_uri r) (aq_state r) Query (aq_client_id r)))"

definition login_or_error :: "services \<Rightarrow> http_services \<Rightarrow> http_config \<Rightarrow> http_request \<Rightarrow> authorize_request
    \<Rightarrow> str \<Rightarrow> (world, str, page) prog" where
  "login_or_error X T H q r code =
     (if asks ''none'' r then refuse_request X T H r code (authentication_description code)
      else ok (LoginPage (authorize_url H q)))"

definition registration_gate :: "services \<Rightarrow> http_services \<Rightarrow> http_config \<Rightarrow> http_request
    \<Rightarrow> authorize_request \<Rightarrow> str \<Rightarrow> (world, str, page option) prog" where
  "registration_gate X T H q r marker =
     (if asks ''none'' r
      then andthen (login_or_error X T H q r ''login_required'') (\<lambda>p. ok (Some p))
      else if marker = ''cancelled''
      then andthen (refuse_request X T H r ''access_denied''
        ''Inscription annulee par l'utilisateur (prompt=create)'') (\<lambda>p. ok (Some p))
      else if marker = ''refused''
      then andthen (refuse_request X T H r ''access_denied''
        ''Creation du compte refusee (prompt=create)'') (\<lambda>p. ok (Some p))
      else if hr_user q \<noteq> None \<and> answers_this X H q then ok None
      else ok (Some (SignupPage (authorize_url H q))))"

definition authentication_gate :: "services \<Rightarrow> http_services \<Rightarrow> http_config \<Rightarrow> http_request
    \<Rightarrow> authorize_request \<Rightarrow> str \<Rightarrow> (world, str, page option) prog" where
  "authentication_gate X T H q r marker =
     (if asks ''create'' r then registration_gate X T H q r marker
      else if hr_user q \<noteq> None \<and> asks ''none'' r \<and> unsupported_acr r
      then andthen (login_or_error X T H q r ''unmet_authentication_requirements'') (\<lambda>p. ok (Some p))
      else
        andthen (if hr_user q \<noteq> None then reauthentication_required X H q r else ok False) (\<lambda>again.
        if again
        then if asks ''none'' r
          then andthen (max_age_unmet X H q r) (\<lambda>unmet.
            andthen (login_or_error X T H q r
              (if unmet then ''unmet_authentication_requirements'' else ''login_required''))
              (\<lambda>p. ok (Some p)))
          else ok (Some (LoginPage (authorize_url H q)))
        else if hr_user q = None \<and> (hc_require_login H \<or> asks ''login'' r)
        then andthen (login_or_error X T H q r ''login_required'') (\<lambda>p. ok (Some p))
        else ok None))"

subsection \<open>The handler\<close>

text \<open>
  \<open>_with_authenticated_subject\<close> builds a new request, field by field: \<open>resource\<close> and
  \<open>authorization_details\<close> are not among the fields copied.
\<close>

definition with_subject :: "http_request \<Rightarrow> str \<Rightarrow> authorize_request \<Rightarrow> authorize_request" where
  "with_subject q user r = r\<lparr>aq_subject := user, aq_session_id := hr_sid q, aq_auth_time := hr_auth_time q,
     aq_resource := [], aq_authorization_details := []\<rparr>"

definition consent_params :: "authorize_request \<Rightarrow> str \<Rightarrow> (str \<times> str) list" where
  "consent_params r reference =
     [(''response_type'', aq_response_type r), (''client_id'', aq_client_id r),
      (''redirect_uri'', aq_redirect_uri r), (''scope'', aq_scope r), (''state'', aq_state r),
      (''nonce'', aq_nonce r), (''code_challenge'', aq_code_challenge r),
      (''code_challenge_method'', aq_code_challenge_method r), (''response_mode'', aq_response_mode r),
      (''prompt'', aq_prompt r), (''acr_values'', aq_acr_values r), (''claims'', aq_claims r),
      (''dpop_jkt'', aq_dpop_jkt r)]
     @ (if reference \<noteq> [] then [(''pushed_reference'', reference)] else [])"

fun crash_text :: "failure \<Rightarrow> str" where
  "crash_text (Refused e text) = e"
| "crash_text (Uncaught x) = x"

definition consent_redirect :: "services \<Rightarrow> http_config \<Rightarrow> authorize_request \<Rightarrow> str
    \<Rightarrow> (world, str, page option) prog" where
  "consent_redirect X H r reference =
     (if \<not> hc_consent H \<or> \<not> hc_clients H then ok None
      else
        andthen (find_client (aq_client_id r)) (\<lambda>found.
        case found of
          None \<Rightarrow> ok None
        | Some c \<Rightarrow>
            andthen (map_error crash_text (consent_is_required X c (aq_subject r)
              (from_space_separated (aq_scope r)) [] (asks ''consent'' r))) (\<lambda>required.
            ok (if required then Some (ConsentPage (consent_params r reference)) else None))))"

definition success_redirect :: "http_config \<Rightarrow> authorize_redirect \<Rightarrow> str \<Rightarrow> (world, str, page) prog" where
  "success_redirect H d reference =
     andthen (if hc_par H \<noteq> None \<and> reference \<noteq> [] then complete_pushed reference else ok ()) (\<lambda>_.
     ok (authorization_response d))"

text \<open>The execution of a request and the transport of its result.\<close>

definition execute_request :: "services \<Rightarrow> http_services \<Rightarrow> http_config \<Rightarrow> authorize_config
    \<Rightarrow> authorize_request \<Rightarrow> str \<Rightarrow> (world, str, page) prog" where
  "execute_request X T H A r reference =
     andthen (attempt authorize_attempt (authorize X A r)) (\<lambda>result.
     case result of
       Inr d \<Rightarrow> success_redirect H d reference
     | Inl e \<Rightarrow> error_response X T (hc_jarm H) (hc_issuer H) e)"

definition handle_request :: "services \<Rightarrow> jar_services \<Rightarrow> http_services \<Rightarrow> http_config \<Rightarrow> authorize_config
    \<Rightarrow> http_request \<Rightarrow> authorize_request \<Rightarrow> str \<Rightarrow> str \<Rightarrow> (world, str, page) prog" where
  "handle_request X J T H A q r marker reference =
     andthen (non_redirectable_error X J T H r) (\<lambda>refused.
     case refused of
       Some p \<Rightarrow> ok p
     | None \<Rightarrow>
         andthen (authentication_gate X T H q r marker) (\<lambda>gate.
         case gate of
           Some p \<Rightarrow> ok p
         | None \<Rightarrow>
             let bound = (case hr_user q of Some user \<Rightarrow> with_subject q user r | None \<Rightarrow> r) in
             andthen (consent_redirect X H bound reference) (\<lambda>consent.
             case consent of
               Some p \<Rightarrow> ok p
             | None \<Rightarrow> execute_request X T H A bound reference)))"

definition handle_authorize :: "services \<Rightarrow> jar_services \<Rightarrow> http_services \<Rightarrow> http_config \<Rightarrow> authorize_config
    \<Rightarrow> http_request \<Rightarrow> (str \<times> str) list \<Rightarrow> (world, str, page) prog" where
  "handle_authorize X J T H A q ps =
     andthen (authorize_entry X J T H ps (hr_sid q)) (\<lambda>entry.
     case entry of
       Inl p \<Rightarrow> ok p
     | Inr r \<Rightarrow> handle_request X J T H A q r (param ps ''register'')
         (if is_reference ps then param ps ''request_uri'' else []))"

subsection \<open>The consent page\<close>

text \<open>
  \<open>interfaces/api/consent.py\<close>.  The request is read again from the parameters of the page: the
  query of \<open>GET\<close>, the form of \<open>POST\<close>, which does not read \<open>prompt\<close>; \<open>max_age\<close>, \<open>resource\<close>, the
  realm of OpenID 2.0 and the session are not among them.
\<close>

definition consent_request :: "bool \<Rightarrow> (str \<times> str) list \<Rightarrow> authorize_request" where
  "consent_request reads_prompt ps = \<lparr>
     aq_response_type = param ps ''response_type'', aq_client_id = param ps ''client_id'',
     aq_redirect_uri = param ps ''redirect_uri'', aq_scope = param ps ''scope'', aq_subject = [],
     aq_state = param ps ''state'', aq_nonce = param ps ''nonce'',
     aq_code_challenge = param ps ''code_challenge'',
     aq_code_challenge_method = param_or ps ''code_challenge_method'' ''S256'',
     aq_response_mode = param ps ''response_mode'',
     aq_prompt = (if reads_prompt then param ps ''prompt'' else []),
     aq_max_age = -1, aq_session_id = [], aq_auth_time = 0, aq_acr_values = param ps ''acr_values'',
     aq_claims = param ps ''claims'', aq_openid2_realm = [], aq_dpop_jkt = param ps ''dpop_jkt'',
     aq_resource = [], aq_authorization_details = param ps ''authorization_details''\<rparr>"

definition validated_consent :: "services \<Rightarrow> http_services \<Rightarrow> http_config \<Rightarrow> authorize_request
    \<Rightarrow> (validated_authorization \<Rightarrow> (world, str, page) prog) \<Rightarrow> (world, str, page) prog" where
  "validated_consent X T H r continue =
     (if aq_redirect_uri r = [] then ok (BadRequest ''redirect_uri requis'')
      else
        andthen (checked_request X r) (\<lambda>checked.
        case checked of
          Inl e \<Rightarrow> error_response X T (hc_jarm H) (hc_issuer H) e
        | Inr va \<Rightarrow> continue va))"

definition show_consent :: "services \<Rightarrow> http_services \<Rightarrow> http_config \<Rightarrow> authorize_config
    \<Rightarrow> authorize_request \<Rightarrow> str \<Rightarrow> str \<Rightarrow> (world, str, page) prog" where
  "show_consent X T H A r user reference =
     validated_consent X T H r (\<lambda>va.
       let bound = r\<lparr>aq_subject := user\<rparr> in
       andthen (map_error crash_text (consent_is_required X (va_client va) user
         (from_space_separated (aq_scope r)) (aq_authorization_details r) (asks ''consent'' r))) (\<lambda>required.
       if required then ok (ConsentScreen bound reference)
       else execute_request X T H A bound reference))"

definition consent_prompt :: "services \<Rightarrow> http_services \<Rightarrow> http_config \<Rightarrow> authorize_config
    \<Rightarrow> str option \<Rightarrow> (str \<times> str) list \<Rightarrow> (world, str, page) prog" where
  "consent_prompt X T H A user ps =
     (let r = consent_request True ps; reference = param ps ''pushed_reference'' in
      case user of
        None \<Rightarrow> ok (LoginThenConsent (consent_params r reference))
      | Some u \<Rightarrow> show_consent X T H A r u reference)"

definition consent_decision :: "services \<Rightarrow> http_services \<Rightarrow> http_config \<Rightarrow> authorize_config
    \<Rightarrow> str option \<Rightarrow> (str \<times> str) list \<Rightarrow> (world, str, page) prog" where
  "consent_decision X T H A user ps =
     (let r = consent_request False ps; reference = param ps ''pushed_reference'' in
      case user of
        None \<Rightarrow> ok (LoginThenConsent (consent_params r reference))
      | Some u \<Rightarrow>
          validated_consent X T H r (\<lambda>va.
            if param_or ps ''action'' ''authorize'' = ''deny''
            then error_response X T (hc_jarm H) (hc_issuer H)
              (safe_error ''access_denied'' ''L'utilisateur a refuse l'acces'' (aq_redirect_uri r)
                (aq_state r) (va_response_mode va) (aq_client_id r))
            else
              andthen (map_error crash_text (consent_grant X u (aq_client_id r)
                (from_space_separated (aq_scope r)) (aq_authorization_details r))) (\<lambda>_.
              execute_request X T H A (r\<lparr>aq_subject := u\<rparr>) reference)))"

end
