(* ===== verification/AuthorizeGate.thy ===== *)
theory AuthorizeGate
  imports AuthorizeHttp
begin

text \<open>
  What stands between a visit to \<open>/authorize\<close> or \<open>/consent\<close> and a code: the pushed reference,
  the login and registration gates, the consent.
\<close>

subsection \<open>What the routes do to the state\<close>

lemma moves_attempt [moves_intros]: "moves R m \<Longrightarrow> moves R (attempt h m)"
  by (auto simp: moves_def attempt_def split: prod.splits sum.splits) (metis snd_conv)+

lemma attempt_Inr [prog_simps]:
  "attempt h m s = (Inr x, t) \<longleftrightarrow> (\<exists>a. m s = (Inr a, t) \<and> x = Inr a)
     \<or> (\<exists>e d. m s = (Inl e, t) \<and> h e = Inr d \<and> x = Inl d)"
  by (auto simp: attempt_def split: prod.splits sum.splits)

lemma checked_moves:
  assumes order: "transp R" "reflp R"
  shows "moves R (checked_request X r)"
  unfolding checked_request_def by (intro moves_attempt validate_moves order)

lemma checked_same: "checked_request X r w = (res, v) \<Longrightarrow> v = w"
  by (rule same_run [OF checked_moves [OF same_world_order]])

text \<open>Each route adds to the codes those of one request only.\<close>

definition issued_only :: "services \<Rightarrow> authorize_request \<Rightarrow> world \<Rightarrow> world \<Rightarrow> bool" where
  "issued_only X r w v \<longleftrightarrow> (\<forall>k ac. codes_find (w_codes v) k = Some ac \<longrightarrow>
     codes_find (w_codes w) k = Some ac \<or> code_matches X r ac)"

lemma issued_lenient: "lenient (issued_only X r)"
  by (auto simp: lenient_def issued_only_def reflp_def transp_def)

lemma issue_code_issued:
  "moves (issued_only X r) (issue_code X A r (from_space_separated (aq_scope r)) c)"
  by (simp add: moves_def issue_code_run issued_only_def codes.find_save code_of_request_matches)

lemma authorize_issued: "moves (issued_only X r) (authorize X A r)"
  unfolding authorize_def answer_validated_def Let_def
  by (intro lenient_order [OF issued_lenient] validate_moves issue_code_issued
      front_tokens_moves [OF issued_lenient] answer_moves [OF issued_lenient] moves_intros)

locale page_relation =
  fixes R :: "world \<Rightarrow> world \<Rightarrow> bool"
  assumes page_lenient: "lenient R"
begin

lemmas page_order = page_lenient lenient_order(2) [OF page_lenient] lenient_order(1) [OF page_lenient]

lemma sign_moves: "moves R (sign_by_client_id X signer cid params)"
  unfolding sign_by_client_id_def sign_envelope_def find_client_def
  by (intro page_order lenient_now [OF page_lenient] moves_intros)

lemma error_redirect_moves: "moves R (error_redirect X T jarm issuer e)"
  unfolding error_redirect_def by (intro page_order sign_moves moves_intros moves_case_list)

lemma error_response_moves: "moves R (error_response X T jarm issuer e)"
  unfolding error_response_def by (intro page_order error_redirect_moves moves_intros)

lemma refuse_moves: "moves R (refuse_request X T H r code txt)"
  unfolding refuse_request_def
  by (intro page_order error_response_moves checked_moves moves_intros)

lemma login_moves: "moves R (login_or_error X T H q r code)"
  unfolding login_or_error_def by (intro page_order refuse_moves moves_intros)

lemma max_age_moves: "moves R (max_age_unmet X H q r)"
  unfolding max_age_unmet_def by (intro page_order lenient_now [OF page_lenient] moves_intros)

lemma gate_moves: "moves R (authentication_gate X T H q r marker)"
  unfolding authentication_gate_def registration_gate_def reauthentication_required_def
  by (intro page_order max_age_moves login_moves refuse_moves moves_intros)

lemma refused_moves: "moves R (non_redirectable_error X J T H r)"
  unfolding non_redirectable_error_def federated_error_def
  by (intro page_order checked_moves error_redirect_moves moves_intros)

lemma consent_moves: "moves R (consent_redirect X H r reference)"
  unfolding consent_redirect_def consent_is_required_def find_client_def
  by (intro page_order moves_intros)

lemma object_error_moves: "moves R (object_error_response X J T H ps e)"
  unfolding object_error_response_def find_client_def
  by (intro page_order error_redirect_moves moves_intros)

lemma enforce_moves: "moves R (enforce_par X T H ps)"
  unfolding enforce_par_def find_client_def by (intro page_order error_redirect_moves moves_intros)

end

locale entry_relation = page_relation R + par_relation C R for C R
begin

lemma entry_moves: "moves R (authorize_entry X J T H ps scope)"
  unfolding authorize_entry_def resolve_reference_def direct_request_def pushed_error_response_def
  by (intro page_order resolve_object_moves resolve_pushed_moves object_error_moves enforce_moves
      error_redirect_moves moves_intros)

end

interpretation issuing: entry_relation C "issued_only X r" for C X r
  by unfold_locales (auto simp: issued_lenient issued_only_def moves_def store_run)

lemma execute_issued: "moves (issued_only X r) (execute_request X T H A r reference)"
  unfolding execute_request_def success_redirect_def
  by (intro issuing.page_order authorize_issued issuing.complete_pushed_moves
      issuing.error_response_moves moves_intros)

subsection \<open>The gates\<close>

text \<open>A code that a run has stored, followed back through its steps.\<close>

definition new_code :: "str \<Rightarrow> authorization_code \<Rightarrow> world \<Rightarrow> world \<Rightarrow> bool" where
  "new_code k ac w v \<longleftrightarrow> codes_find (w_codes v) k = Some ac \<and> codes_find (w_codes w) k \<noteq> Some ac"

lemma new_code_matches: "new_code k ac w v \<Longrightarrow> issued_only X r w v \<Longrightarrow> code_matches X r ac"
  by (auto simp: new_code_def issued_only_def)

lemma nothing_issued:
  assumes "new_code k ac w v" and issued: "\<And>r. issued_only X r w v"
  shows False
proof -
  have "code_matches X r ac" for r
    using assms(1) issued by (rule new_code_matches)
  from this [of "r\<lparr>aq_subject := []\<rparr>" for r] this [of "r\<lparr>aq_subject := ''x''\<rparr>" for r] show False
    by (simp add: code_matches_def)
qed

lemma new_code_step:
  assumes new: "new_code k ac w v" and run: "andthen m f w = (res, v)"
    and m: "\<And>s. moves (issued_only X s) m"
  obtains a u where "m w = (Inr a, u)" "f a u = (res, v)" "new_code k ac u v"
proof -
  obtain x u where first: "m w = (x, u)" by fastforce
  with m have i: "issued_only X s w u" for s by (blast dest: movesD)
  from new have "\<not> new_code k ac w u"
    using nothing_issued i by blast
  with new run first that show ?thesis
    by (cases x) (auto simp: new_code_def)
qed

definition fresh_enough :: "services \<Rightarrow> http_config \<Rightarrow> http_request \<Rightarrow> authorize_request \<Rightarrow> int \<Rightarrow> bool" where
  "fresh_enough X H q r t \<longleftrightarrow> (aq_max_age r = 0 \<longrightarrow> answers_this X H q)
     \<and> (aq_max_age r > 0 \<longrightarrow> answers_this X H q
         \<or> hr_auth_time q \<noteq> 0 \<and> epoch_seconds t - hr_auth_time q \<le> aq_max_age r)"

text \<open>What the login and registration gates have seen when they let a request through.\<close>

definition admitted :: "services \<Rightarrow> http_config \<Rightarrow> http_request \<Rightarrow> authorize_request \<Rightarrow> int \<Rightarrow> bool" where
  "admitted X H q r t \<longleftrightarrow>
     (asks ''create'' r \<longrightarrow> hr_user q \<noteq> None \<and> answers_this X H q \<and> \<not> asks ''none'' r)
     \<and> (asks ''login'' r \<longrightarrow> hr_user q \<noteq> None \<and> answers_this X H q)
     \<and> (hc_require_login H \<longrightarrow> hr_user q \<noteq> None)
     \<and> (hr_user q \<noteq> None \<longrightarrow> fresh_enough X H q r t \<and> (asks ''none'' r \<longrightarrow> \<not> unsupported_acr r))"

lemma registration_open:
  "registration_gate X T H q r marker w = (Inr None, v) \<Longrightarrow>
     hr_user q \<noteq> None \<and> answers_this X H q \<and> \<not> asks ''none'' r"
  by (auto simp: registration_gate_def andthen_Inr ok_iff split: if_splits)

lemma reauthentication_done:
  assumes "reauthentication_required X H q r w = (Inr False, v)"
  shows "fresh_enough X H q r (current w) \<and> (asks ''login'' r \<longrightarrow> answers_this X H q)"
  using assms
  by (auto simp: reauthentication_required_def max_age_unmet_def fresh_enough_def run_simps
      current_def split: if_splits)

lemma gate_open:
  assumes "authentication_gate X T H q r marker w = (Inr None, v)"
  shows "admitted X H q r (current w)"
proof (cases "asks ''create'' r")
  case True
  with assms registration_open show ?thesis
    by (fastforce simp: authentication_gate_def admitted_def fresh_enough_def)
next
  case False
  with assms have acr: "\<not> (hr_user q \<noteq> None \<and> asks ''none'' r \<and> unsupported_acr r)"
    by (auto simp: authentication_gate_def andthen_Inr ok_iff)
  from False acr assms obtain u where
    again: "(if hr_user q \<noteq> None then reauthentication_required X H q r else ok False) w = (Inr False, u)"
    and user: "\<not> (hr_user q = None \<and> (hc_require_login H \<or> asks ''login'' r))"
    by (auto simp: authentication_gate_def andthen_Inr ok_iff split: if_splits)
  from again have "hr_user q \<noteq> None \<longrightarrow>
      fresh_enough X H q r (current w) \<and> (asks ''login'' r \<longrightarrow> answers_this X H q)"
    using reauthentication_done by auto
  with False acr user show ?thesis by (auto simp: admitted_def)
qed

definition bound_to :: "http_request \<Rightarrow> authorize_request \<Rightarrow> authorize_request" where
  "bound_to q r = (case hr_user q of Some user \<Rightarrow> with_subject q user r | None \<Rightarrow> r)"

definition approvals :: "world \<Rightarrow> (str \<times> client) list \<times> ((str \<times> str) \<times> consent) list" where
  "approvals w = (w_clients w, w_consents w)"

lemma approvals_lenient: "lenient (same approvals)"
  by (rule lenient_same) (simp_all add: approvals_def)

interpretation readonly_page: entry_relation C "same approvals" for C
  by unfold_locales (auto simp: approvals_lenient same_def approvals_def moves_def store_run)

interpretation page_clock: entry_relation C later_clock for C
  by unfold_locales (auto simp: lenient_later later_clock_def moves_def store_run)

text \<open>The user has approved what the request asks, or the client does not ask for it.\<close>

definition consent_held :: "authorize_request \<Rightarrow> world \<Rightarrow> bool" where
  "consent_held r w \<longleftrightarrow>
     (\<forall>c. clients_find (w_clients w) (aq_client_id r) = Some c \<longrightarrow> cl_require_consent c \<longrightarrow>
        \<not> cl_fapi_enabled c \<and> \<not> cl_fapi2_enabled c \<and> \<not> asks ''consent'' r
        \<and> (\<exists>s. consents_find (w_consents w) (aq_subject r, cl_client_id c) = Some s
             \<and> from_space_separated (aq_scope r) \<subseteq> co_scopes s))"

lemma consent_open:
  assumes "consent_redirect X H r reference w = (Inr None, v)" and "hc_consent H" and "hc_clients H"
  shows "consent_held r w"
  using assms
  by (auto simp: consent_redirect_def consent_held_def find_client_def consent_is_required_def
      covers_def run_simps prog_simps split: if_splits option.splits)

lemma refused_none: "non_redirectable_error X J T H r w = (Inr None, u) \<Longrightarrow> u = w"
  by (auto simp: non_redirectable_error_def andthen_case_sum andthen_case_option ok_iff
      dest: checked_same split: if_splits)

lemma new_code_gate:
  assumes "new_code k ac w v"
    and "andthen m (\<lambda>x. case x of Some p \<Rightarrow> ok p | None \<Rightarrow> n) w = (res, v)"
    and "\<And>s. moves (issued_only X s) m"
  obtains u where "m w = (Inr None, u)" "n u = (res, v)" "new_code k ac u v"
  using assms
proof (rule new_code_step)
  fix x u
  assume "m w = (Inr x, u)" "(case x of Some p \<Rightarrow> ok p | None \<Rightarrow> n) u = (res, v)" "new_code k ac u v"
  with that show ?thesis by (cases x) (auto simp: new_code_def ok_def)
qed

lemma handle_issued:
  assumes run: "handle_request X J T H A q r marker reference w = (res, v)" and new: "new_code k ac w v"
  shows "admitted X H q r (current w) \<and> code_matches X (bound_to q r) ac
    \<and> (hc_consent H \<and> hc_clients H \<longrightarrow> consent_held (bound_to q r) w)"
proof -
  note run = run [unfolded handle_request_def Let_def, folded bound_to_def]
  from new_code_gate [OF new run issuing.refused_moves] obtain u where
    refused: "non_redirectable_error X J T H r w = (Inr None, u)" and new: "new_code k ac u v"
    and run: "andthen (authentication_gate X T H q r marker) (\<lambda>gate. case gate of Some p \<Rightarrow> ok p
         | None \<Rightarrow> andthen (consent_redirect X H (bound_to q r) reference) (\<lambda>consent.
             case consent of Some p \<Rightarrow> ok p
             | None \<Rightarrow> execute_request X T H A (bound_to q r) reference)) u = (res, v)"
    by blast
  from refused have u: "u = w" by (rule refused_none)
  from new_code_gate [OF new run issuing.gate_moves] obtain w1 where
    gate: "authentication_gate X T H q r marker w = (Inr None, w1)" and new: "new_code k ac w1 v"
    and run: "andthen (consent_redirect X H (bound_to q r) reference) (\<lambda>consent.
             case consent of Some p \<Rightarrow> ok p
             | None \<Rightarrow> execute_request X T H A (bound_to q r) reference) w1 = (res, v)"
    unfolding u by blast
  from new_code_gate [OF new run issuing.consent_moves] obtain w2 where
    consent: "consent_redirect X H (bound_to q r) reference w1 = (Inr None, w2)"
    and new: "new_code k ac w2 v"
    and run: "execute_request X T H A (bound_to q r) reference w2 = (res, v)" by blast
  have "approvals w1 = approvals w"
    using movesD [OF readonly_page.gate_moves gate] by (simp add: same_def)
  moreover have "consent_held (bound_to q r) w1" if "hc_consent H" "hc_clients H"
    using consent that by (rule consent_open)
  moreover have "code_matches X (bound_to q r) ac"
    using new movesD [OF execute_issued run] by (rule new_code_matches)
  ultimately show ?thesis
    using gate_open [OF gate] by (simp add: consent_held_def approvals_def)
qed

subsection \<open>The entry\<close>

lemma enforced:
  assumes "enforce_par X T H ps w = (Inr None, v)" and "hc_clients H"
  shows "v = w \<and> (\<forall>c. clients_find (w_clients w) (param ps ''client_id'') = Some c \<longrightarrow> \<not> requires_par H c)"
  using assms by (auto simp: enforce_par_def find_client_def prog_simps run_simps Let_def
      split: option.splits if_splits)

text \<open>
  Where a request comes from: the store of pushed requests, for the client that names the
  reference, or directly, from a client that need not push.
\<close>

definition pushed_origin :: "(str \<times> str) list \<Rightarrow> authorize_request \<Rightarrow> world \<Rightarrow> bool" where
  "pushed_origin ps r w \<longleftrightarrow> is_reference ps
     \<and> (\<exists>e. pushed_find (w_pushed w) (param ps ''request_uri'') = Some e
          \<and> pa_client_id e = param ps ''client_id'' \<and> \<not> pa_is_consumed e
          \<and> current w < pa_expires_at e
          \<and> r = pushed_request (pa_params e) (param_or (pa_params e) ''client_id'' (pa_client_id e)))"

definition direct_origin :: "http_config \<Rightarrow> authorize_request \<Rightarrow> world \<Rightarrow> bool" where
  "direct_origin H r w \<longleftrightarrow> (hc_clients H \<longrightarrow>
     (\<forall>c. clients_find (w_clients w) (aq_client_id r) = Some c \<longrightarrow> \<not> requires_par H c))"

lemma resolved_origin:
  assumes "resolve_reference X T H (param ps ''client_id'') (param ps ''request_uri'') w = (Inr (Inr r), v)"
    and "is_reference ps"
  shows "pushed_origin ps r w"
proof -
  from assms(1) have "resolve_pushed (param ps ''request_uri'') (param ps ''client_id'') w = (Inr r, v)"
    by (auto simp: resolve_reference_def andthen_case_sum andthen_Inr attempt_Inr ok_iff split: option.splits)
  with assms(2) show ?thesis
    by (auto simp: pushed_origin_def resolve_pushed_def refuse_push_def prog_simps run_simps current_def
        split: option.splits if_splits)
qed

lemma answered_page: "andthen m (\<lambda>p. ok (Inl p)) s \<noteq> (Inr (Inr r), t)"
  by (auto simp: andthen_Inr ok_iff)

lemma direct_entry:
  assumes "direct_request X J T H ps scope w = (Inr (Inr r), v)"
  shows "direct_origin H r v"
  using assms
  by (auto simp: direct_request_def direct_origin_def andthen_case_sum andthen_case_option answered_page
      ok_iff Let_def pushed_request_def dest: enforced split: if_splits)

lemma entry_origin:
  "authorize_entry X J T H ps scope w = (Inr (Inr r), v) \<Longrightarrow> pushed_origin ps r w \<or> direct_origin H r v"
  by (auto simp: authorize_entry_def resolved_origin direct_entry split: if_splits)

subsection \<open>Properties\<close>


text \<open>The consent page executes, for the signed-in user, any request that validates and needs no
  consent.  The obligation to push the request is not looked at: the request that \<open>/authorize\<close>
  refuses to take directly from the client, the consent page answers with a code.\<close>

lemma consent_page_executes:
  assumes valid: "validate_authorization_request X None (consent_request True ps) w = (Inr va, w)"
    and approved: "\<not> cl_require_consent (va_client va)" and address: "param ps ''redirect_uri'' \<noteq> []"
    and pushes: "clients_find (w_clients w) (param ps ''client_id'') = Some c" "requires_par H c" "hc_clients H"
  shows "fst (enforce_par X T H ps w) \<noteq> Inr None
    \<and> consent_prompt X T H A (Some user) ps w
      = execute_request X T H A ((consent_request True ps)\<lparr>aq_subject := user\<rparr>)
          (param ps ''pushed_reference'') w"
proof
  show "fst (enforce_par X T H ps w) \<noteq> Inr None"
    using enforced [of X T H ps w] pushes by (cases "enforce_par X T H ps w") auto
  have checked: "checked_request X (consent_request True ps) w = (Inr (Inr va), w)"
    by (simp add: checked_request_def attempt_def valid)
  have stated: "aq_redirect_uri (consent_request True ps) = param ps ''redirect_uri''"
    by (simp add: consent_request_def)
  have none: "map_error crash_text (consent_is_required X (va_client va) user s d f) = ok False" for s d f
    by (simp add: map_error_def consent_is_required_def approved ok_def)
  show "consent_prompt X T H A (Some user) ps w
      = execute_request X T H A ((consent_request True ps)\<lparr>aq_subject := user\<rparr>)
          (param ps ''pushed_reference'') w"
    by (simp add: consent_prompt_def show_consent_def validated_consent_def Let_def stated address
        none
        andthen_run(1) [where m = "checked_request X (consent_request True ps)" and s = w, OF checked])
qed

subsection \<open>Witnesses\<close>

definition sample_http_config :: http_config where
  "sample_http_config = \<lparr>hc_par = None, hc_clients = True, hc_consent = True,
     hc_resolver = sample_jar_config, hc_par_required = False, hc_require_login = True,
     hc_base_url = ''https://op'', hc_jarm = None, hc_issuer = ''https://op'', hc_trust = False\<rparr>"

definition sample_http_services :: http_services where
  "sample_http_services = \<lparr>ht_trust = (\<lambda>_. None), ht_fold = (\<lambda>s. s)\<rparr>"

definition sample_http_request :: http_request where
  "sample_http_request = \<lparr>hr_user = Some ''u'', hr_sid = ''sid'', hr_auth_time = 0, hr_reauth = [],
     hr_path = ''/authorize'', hr_query = []\<rparr>"

lemma sample_visit:
  "map_option ac_subject (codes_find (w_codes (snd (handle_authorize sample_services sample_jar_services
     sample_http_services sample_http_config sample_authorize_config sample_http_request sample_params
     sample_server))) ''r0'') = Some ''u''"
  by code_simp


definition sample_par_http :: http_config where
  "sample_par_http = sample_http_config\<lparr>hc_par_required := True\<rparr>"

lemma consent_page_executes_witness:
  "fst (enforce_par sample_services sample_http_services sample_par_http sample_params sample_server) \<noteq> Inr None
   \<and> map_option ac_subject (codes_find (w_codes (snd (consent_prompt sample_services sample_http_services
       sample_par_http sample_authorize_config (Some ''u'') sample_params sample_server))) ''r0'') = Some ''u''"
proof -
  have request: "consent_request True sample_params = sample_pushed_request"
    by (simp add: consent_request_def sample_params_def param_def param_or_def sample_pushed_request_def)
  obtain va where valid: "validate_authorization_request sample_services None
      (consent_request True sample_params) sample_server = (Inr va, sample_server)"
    using sample_validated unfolding request by blast
  have client: "clients_find (w_clients sample_server) (param sample_params ''client_id'') = Some sample_client"
    by (simp add: clients_find_def sample_server_def param_def sample_params_def)
  from valid have "va_client va = sample_client"
    by (rule validate_ok) (use client in \<open>simp add: consent_request_def\<close>)
  then have approved: "\<not> cl_require_consent (va_client va)"
    by (simp add: sample_client_def new_client_def)
  have issued: "map_option ac_subject (codes_find (w_codes (snd (execute_request sample_services
      sample_http_services sample_par_http sample_authorize_config (sample_pushed_request\<lparr>aq_subject := ''u''\<rparr>)
      [] sample_server))) ''r0'') = Some ''u''"
    by code_simp
  have par: "requires_par sample_par_http sample_client" "hc_clients sample_par_http"
    "param sample_params ''redirect_uri'' \<noteq> []" "param sample_params ''pushed_reference'' = []"
    by (simp_all add: requires_par_def sample_par_http_def sample_http_config_def param_def sample_params_def)
  from consent_page_executes [OF valid approved par(3) client par(1,2), of sample_http_services
      sample_authorize_config "''u''"] show ?thesis
    using issued by (simp add: request par(4))
qed

end
