(* ===== verification/Backchannel.thy ===== *)
theory Backchannel
  imports DeviceEndpoint RequestObject
begin

text \<open>
  \<open>application/backchannel_authorize.py\<close>: the backchannel authentication endpoint (CIBA), where a
  client asks for the authentication of a user it names by a hint, and the decision of that user
  with the notification it sends.
\<close>

subsection \<open>Configuration, parameters, ports\<close>

text \<open>\<open>bk_assertions\<close>, \<open>bk_tokens\<close>, \<open>bk_objects\<close>: the optional verifier of assertions, token manager
  and verifier of request objects.\<close>

record backchannel_config =
  bk_issuer :: str
  bk_ttl_seconds :: int
  bk_min_ttl_seconds :: int
  bk_interval_seconds :: int
  bk_token_endpoint :: str
  bk_endpoint :: str
  bk_request_algorithms :: "str list"
  bk_binding_max :: int
  bk_registry :: "registry option"
  bk_assertions :: bool
  bk_tokens :: bool
  bk_objects :: bool

record backchannel_params =
  bp_client_id :: str
  bp_scope :: str
  bp_login_hint :: str
  bp_login_hint_token :: str
  bp_id_token_hint :: str
  bp_binding_message :: str
  bp_acr_values :: str
  bp_user_code :: str
  bp_resource :: str
  bp_notification_token :: str
  bp_requested_expiry :: str
  bp_client_secret :: str
  bp_assertion_type :: str
  bp_assertion :: str
  bp_request :: str
  bp_request_uri :: str
  bp_certificate :: "client_certificate option"

record authentication_ack =
  ak_auth_req_id :: str
  ak_expires_in :: int
  ak_interval :: int
  ak_user_code :: str

text \<open>
  \<open>LoginHintTokenResult\<close>; the port \<open>decode_login_hint_token\<close> is a function of the token, the
  client and the instant.
\<close>

datatype hint_result =
    HintExpired
  | HintUnreadable
  | HintClaims "(str \<times> json) list"

type_synonym hint_decoder = "str \<Rightarrow> client \<Rightarrow> instant \<Rightarrow> hint_result"

definition hint_identity_claims :: "str list" where
  "hint_identity_claims = [''sub'', ''email'', ''preferred_username'', ''phone_number'']"

text \<open>The status of an error response: 401 for \<open>invalid_client\<close>, 400 otherwise.\<close>

definition backchannel_status_code :: "str \<Rightarrow> int" where
  "backchannel_status_code e = (if e = ''invalid_client'' then 401 else 400)"

subsection \<open>Authentication of the client\<close>

definition ciba_audiences :: "backchannel_config \<Rightarrow> str list" where
  "ciba_audiences C =
     (let issuer = rstrip_slash (bk_issuer C) in
      [issuer,
       rstrip_slash (if bk_token_endpoint C \<noteq> [] then bk_token_endpoint C else issuer @ ''/token''),
       rstrip_slash (if bk_endpoint C \<noteq> [] then bk_endpoint C else issuer @ ''/bc-authorize'')])"

text \<open>\<open>issuer_of\<close> of the verifier of request objects: the unverified claim \<open>iss\<close>.\<close>

definition object_issuer :: "services \<Rightarrow> str \<Rightarrow> str" where
  "object_issuer X token =
     (case sv_unverified_claims X token of
        None \<Rightarrow> []
      | Some claims \<Rightarrow> (case jget_str claims ''iss'' of Some s \<Rightarrow> s | None \<Rightarrow> []))"

definition deduced_client_id :: "services \<Rightarrow> backchannel_config \<Rightarrow> backchannel_params \<Rightarrow> str" where
  "deduced_client_id X C p =
     (let issuer = (if bp_assertion p \<noteq> [] \<and> bk_assertions C then sv_issuer_of X (bp_assertion p) else []) in
      if issuer \<noteq> [] then issuer
      else if bp_request p \<noteq> [] \<and> bk_objects C then object_issuer X (bp_request p)
      else [])"

definition backchannel_credentials :: "backchannel_config \<Rightarrow> backchannel_params \<Rightarrow> credentials" where
  "backchannel_credentials C p = \<lparr>av_available = bk_assertions C, cr_secret = bp_client_secret p,
     cr_assertion_type = bp_assertion_type p, cr_assertion = bp_assertion p,
     cr_audience = ciba_audiences C, cr_certificate = bp_certificate p\<rparr>"

definition backchannel_client :: "services \<Rightarrow> backchannel_config \<Rightarrow> backchannel_params
    \<Rightarrow> (world, failure, client) prog" where
  "backchannel_client X C p =
     andthen (find_client (if bp_client_id p \<noteq> [] then bp_client_id p else deduced_client_id X C p)) (\<lambda>found.
     case found of
       None \<Rightarrow> refuse ''invalid_client'' client_unknown_error
     | Some c \<Rightarrow>
     andthen (ensure (cl_is_active c) (Refused ''invalid_client'' client_unknown_error)) (\<lambda>_.
     andthen (ensure (\<not> (cl_tls_bound_access_tokens c \<and> Option.bind (bp_certificate p) cert_der = None))
       (Refused ''invalid_client'' ''Certificat client mTLS requis (RFC 8705 par. 3.1, tls_client_certificate_bound_access_tokens)'')) (\<lambda>_.
     andthen (authenticate_client X c (backchannel_credentials C p)) (\<lambda>detail.
     case detail of
       Some d \<Rightarrow> refuse ''invalid_client'' d
     | None \<Rightarrow> ok c))))"

subsection \<open>Signed requests\<close>

definition ciba_required_claims :: "str list" where
  "ciba_required_claims = [''iss'', ''aud'', ''exp'', ''iat'', ''nbf'', ''jti'']"

definition issuer_client :: "services \<Rightarrow> backchannel_config \<Rightarrow> str \<Rightarrow> (world, failure, client) prog" where
  "issuer_client X C token =
     (let issuer = (if bk_objects C then object_issuer X token else []) in
      andthen (ensure (issuer \<noteq> [])
        (Refused ''invalid_request'' ''request object illisible (claim iss absent)'')) (\<lambda>_.
      andthen (find_client issuer) (\<lambda>found.
      case found of
        None \<Rightarrow> refuse ''invalid_request'' ''request object signe par un client inconnu''
      | Some c \<Rightarrow>
          andthen (ensure (cl_is_active c)
            (Refused ''invalid_request'' ''request object signe par un client inconnu'')) (\<lambda>_. ok c))))"

definition request_algorithms :: "backchannel_config \<Rightarrow> client \<Rightarrow> str list" where
  "request_algorithms C c =
     (let registered = cl_backchannel_authentication_request_signing_alg c in
      if registered \<noteq> [] then [registered] else bk_request_algorithms C)"

definition claimed_param :: "jar_services \<Rightarrow> (str \<times> json) list \<Rightarrow> str \<Rightarrow> str \<Rightarrow> str" where
  "claimed_param J claims name form =
     (case jget claims name of None \<Rightarrow> form | Some v \<Rightarrow> stringify J v)"

definition merge_request_claims :: "jar_services \<Rightarrow> backchannel_params \<Rightarrow> (str \<times> json) list
    \<Rightarrow> backchannel_params" where
  "merge_request_claims J p claims = p\<lparr>bp_request := [],
     bp_scope := claimed_param J claims ''scope'' (bp_scope p),
     bp_login_hint := claimed_param J claims ''login_hint'' (bp_login_hint p),
     bp_login_hint_token := claimed_param J claims ''login_hint_token'' (bp_login_hint_token p),
     bp_id_token_hint := claimed_param J claims ''id_token_hint'' (bp_id_token_hint p),
     bp_binding_message := claimed_param J claims ''binding_message'' (bp_binding_message p),
     bp_acr_values := claimed_param J claims ''acr_values'' (bp_acr_values p),
     bp_resource := claimed_param J claims ''resource'' (bp_resource p),
     bp_notification_token := claimed_param J claims ''client_notification_token'' (bp_notification_token p),
     bp_requested_expiry := claimed_param J claims ''requested_expiry'' (bp_requested_expiry p)\<rparr>"

definition apply_request_object :: "services \<Rightarrow> jar_services \<Rightarrow> backchannel_config \<Rightarrow> client
    \<Rightarrow> backchannel_params \<Rightarrow> (world, failure, backchannel_params) prog" where
  "apply_request_object X J C c p =
     (if bp_request_uri p \<noteq> []
      then refuse ''invalid_request'' ''request_uri non supporte au backchannel authentication endpoint''
      else if bp_request p = [] then
        (if cl_backchannel_authentication_request_signing_alg c \<noteq> []
         then refuse ''invalid_request'' ''request object signe requis pour ce client (CIBA par. 7.1.1)''
         else ok p)
      else if \<not> bk_objects C
      then refuse ''invalid_request'' ''verification de request object indisponible''
      else
        andthen (issuer_client X C (bp_request p)) (\<lambda>signer.
        andthen (map_error Uncaught (verify_signed_object X J (bp_request p) signer (bk_issuer C)
          (request_algorithms C c) ciba_required_claims True ''ciba:'')) (\<lambda>result.
        case result of
          Inl reason \<Rightarrow> refuse ''invalid_request'' reason
        | Inr claims \<Rightarrow>
            andthen (ensure (cl_client_id signer = cl_client_id c)
              (Refused ''invalid_client'' ''request object emis pour un autre client'')) (\<lambda>_.
            ok (merge_request_claims J p claims)))))"

subsection \<open>The user the hint names\<close>

definition claims_name :: "str \<Rightarrow> (str \<times> json) list \<Rightarrow> bool" where
  "claims_name lowered claims \<longleftrightarrow> list_ex (\<lambda>n. case jget_str claims n of
       Some v \<Rightarrow> py_lower v = lowered | None \<Rightarrow> False) (tl hint_identity_claims)"

definition match_user :: "world \<Rightarrow> str \<Rightarrow> str" where
  "match_user w v =
     (if dict_get (w_users w) v \<noteq> None then v
      else case List.find (\<lambda>(_, claims). claims_name (py_lower v) claims) (w_users w) of
          Some (subject, _) \<Rightarrow> subject
        | None \<Rightarrow> [])"

fun subject_from_claims :: "world \<Rightarrow> (str \<times> json) list \<Rightarrow> str list \<Rightarrow> str" where
  "subject_from_claims w claims [] = []"
| "subject_from_claims w claims (n # ns) =
     (case jget_str claims n of
        Some (c # cs) \<Rightarrow>
          (let subject = match_user w (c # cs) in
           if subject \<noteq> [] then subject else subject_from_claims w claims ns)
      | _ \<Rightarrow> subject_from_claims w claims ns)"

definition audience_holds :: "json option \<Rightarrow> str \<Rightarrow> bool" where
  "audience_holds aud client_id =
     (case aud of
        Some (JStr a) \<Rightarrow> a = client_id
      | Some (JList vs) \<Rightarrow> JStr client_id \<in> set vs
      | _ \<Rightarrow> False)"

definition subject_from_login_hint_token :: "hint_decoder \<Rightarrow> backchannel_config \<Rightarrow> client \<Rightarrow> str
    \<Rightarrow> (world, failure, str) prog" where
  "subject_from_login_hint_token D C c token =
     (if \<not> bk_assertions C then refuse ''unknown_user_id'' ''Decodage de login_hint_token indisponible''
      else
        andthen now_utc (\<lambda>t.
        case D token c t of
          HintExpired \<Rightarrow> refuse ''expired_login_hint_token'' ''login_hint_token expire''
        | HintUnreadable \<Rightarrow> refuse ''unknown_user_id'' ''login_hint_token illisible ou non signe par le client''
        | HintClaims claims \<Rightarrow> peek (\<lambda>w. subject_from_claims w claims hint_identity_claims)))"

definition subject_from_id_token_hint :: "services \<Rightarrow> backchannel_config \<Rightarrow> client \<Rightarrow> str
    \<Rightarrow> (world, failure, str) prog" where
  "subject_from_id_token_hint X C c token =
     (if \<not> bk_tokens C then refuse ''unknown_user_id'' ''Validation d'id_token_hint indisponible''
      else
        andthen now_utc (\<lambda>t.
        case sv_server_token_claims X token (bk_issuer C) True t of
          None \<Rightarrow> refuse ''invalid_request'' ''id_token_hint invalide''
        | Some claims \<Rightarrow>
            andthen (ensure (audience_holds (map_of claims ''aud'') (cl_client_id c))
              (Refused ''invalid_request'' ''id_token_hint emis pour un autre client'')) (\<lambda>_.
            case map_of claims ''sub'' of
              None \<Rightarrow> ok []
            | Some v \<Rightarrow> if json_true v then peek (\<lambda>w. match_user w (json_text X v)) else ok [])))"

definition resolve_subject :: "services \<Rightarrow> hint_decoder \<Rightarrow> backchannel_config \<Rightarrow> client
    \<Rightarrow> backchannel_params \<Rightarrow> (world, failure, str) prog" where
  "resolve_subject X D C c p =
     andthen
       (case (bp_login_hint p, bp_login_hint_token p, bp_id_token_hint p) of
          (h # hs, [], []) \<Rightarrow> peek (\<lambda>w. match_user w (h # hs))
        | ([], h # hs, []) \<Rightarrow> subject_from_login_hint_token D C c (h # hs)
        | ([], [], h # hs) \<Rightarrow> subject_from_id_token_hint X C c (h # hs)
        | _ \<Rightarrow> refuse ''invalid_request''
            ''La demande doit porter un (et un seul) hint : login_hint, login_hint_token ou id_token_hint'')
       (\<lambda>subject.
     if subject = [] then refuse ''unknown_user_id'' ''Le hint ne correspond a aucun utilisateur connu''
     else ok subject)"

subsection \<open>The other parameters\<close>

definition validate_scopes :: "backchannel_config \<Rightarrow> client \<Rightarrow> str \<Rightarrow> (world, failure, str set) prog" where
  "validate_scopes C c scope =
     (let requested = from_space_separated scope in
      if scope = [] then refuse ''invalid_request'' ''Parametre scope manquant''
      else if scope_openid \<notin> requested then refuse ''invalid_scope'' ''Le scope openid est requis (CIBA par. 7.1)''
      else if requested - cl_scopes c \<noteq> {} then refuse ''invalid_scope'' ''Portee jamais enregistree pour le client''
      else case bk_registry C of
          None \<Rightarrow> ok requested
        | Some g \<Rightarrow>
            andthen (peek (\<lambda>w. unknown_scopes g w requested)) (\<lambda>unknown.
            if unknown \<noteq> []
            then refuse ''invalid_scope'' (''Scope(s) non enregistre(s) : '' @ join_with '', '' unknown)
            else ok requested))"

text \<open>\<open>[A-Za-z0-9\-._~+/]+=*\<close>, over the whole text.\<close>

definition token68 :: "str \<Rightarrow> bool" where
  "token68 s \<longleftrightarrow> (let core = rev (dropWhile (\<lambda>c. c = CHR ''='') (rev s)) in
     core \<noteq> [] \<and> list_all (\<lambda>c. is_alnum c \<and> is_ascii c \<or> c \<in> set ''-._~+/'') core)"

definition validate_notification_token :: "str \<Rightarrow> str \<Rightarrow> failure + str" where
  "validate_notification_token mode token =
     (if mode = ''poll'' then Inr []
      else if token = [] then Inl (Refused ''invalid_request'' ''client_notification_token requis (mode ping)'')
      else if length token > 1024 \<or> \<not> token68 token
      then Inl (Refused ''invalid_request'' ''client_notification_token invalide (RFC 6750 par. 2.1, 1024 caracteres max)'')
      else Inr token)"

definition binding_message_limit :: "backchannel_config \<Rightarrow> client \<Rightarrow> int" where
  "binding_message_limit C c =
     (case cl_binding_message_max_length c of Some n \<Rightarrow> n | None \<Rightarrow> bk_binding_max C)"

definition resolve_ttl :: "backchannel_config \<Rightarrow> str \<Rightarrow> failure + int" where
  "resolve_ttl C requested_expiry =
     (if requested_expiry = [] then Inr (bk_ttl_seconds C)
      else case py_int requested_expiry of
          None \<Rightarrow> Inl (Refused ''invalid_request'' ''requested_expiry doit etre un entier positif'')
        | Some requested \<Rightarrow>
            if requested \<le> 0
            then Inl (Refused ''invalid_request'' ''requested_expiry doit etre un entier positif'')
            else Inr (max (min (bk_min_ttl_seconds C) (bk_ttl_seconds C)) (min requested (bk_ttl_seconds C))))"

definition ciba_resource_error :: "services \<Rightarrow> backchannel_config \<Rightarrow> str list
    \<Rightarrow> (world, failure, unit) prog" where
  "ciba_resource_error X C resources =
     (if resources = [] then ok ()
      else if list_ex (\<lambda>u. is_resource_uri X u = None) resources then raise (Uncaught ''ValueError'')
      else
        (let malformed = filter (\<lambda>u. is_resource_uri X u = Some False) resources in
         if malformed \<noteq> []
         then refuse ''invalid_target''
           (''resource doit etre une URI absolue sans fragment (RFC 8707 par. 2.1) : '' @ join_with '', '' malformed)
         else case bk_registry C of
             None \<Rightarrow> ok ()
           | Some g \<Rightarrow>
               andthen (peek (\<lambda>w. unknown_resources g w resources)) (\<lambda>unknown.
               if unknown \<noteq> []
               then refuse ''invalid_target''
                 (''Resource non enregistree (RFC 8707 par. 2.2) : '' @ join_with '', '' unknown)
               else ok ())))"

definition ciba_user_code :: "client \<Rightarrow> str \<Rightarrow> (world, failure, str) prog" where
  "ciba_user_code c typed =
     (if typed \<noteq> [] then
        (let normalized = normalize_user_code typed in
         if length normalized < 4 then refuse ''invalid_request'' ''user_code invalide''
         else ok (format_user_code normalized))
      else if cl_backchannel_user_code_parameter c
      then andthen generate_user_code (\<lambda>code. ok (format_user_code code))
      else ok [])"

subsection \<open>The endpoint\<close>

definition accept_request :: "services \<Rightarrow> hint_decoder \<Rightarrow> backchannel_config \<Rightarrow> client
    \<Rightarrow> backchannel_params \<Rightarrow> (world, failure, authentication_ack) prog" where
  "accept_request X D C c p =
     (let mode = cl_backchannel_token_delivery_mode c; limit = binding_message_limit C c in
      andthen (ensure (mode \<in> {''poll'', ''ping'', ''push''}) (Refused ''unauthorized_client''
        ''Ce client n'est pas enregistre pour CIBA (backchannel_token_delivery_mode poll, ping ou push attendu)'')) (\<lambda>_.
      andthen (validate_scopes C c (bp_scope p)) (\<lambda>scopes.
      andthen (resolve_subject X D C c p) (\<lambda>subject.
      andthen (lift (validate_notification_token mode (bp_notification_token p))) (\<lambda>notification_token.
      andthen (ensure (int (length (bp_binding_message p)) \<le> limit) (Refused ''invalid_binding_message''
        (''binding_message trop long (max '' @ str_of_int limit @ '' caracteres)''))) (\<lambda>_.
      andthen (lift (resolve_ttl C (bp_requested_expiry p))) (\<lambda>ttl.
      let resources = parse_resource_parameter X (bp_resource p) in
      andthen (ciba_resource_error X C resources) (\<lambda>_.
      andthen (ciba_user_code c (bp_user_code p)) (\<lambda>user_code.
      andthen (ensure (\<not> (cl_backchannel_user_code_parameter c \<and> user_code = []))
        (Refused ''invalid_request'' ''user_code requis pour ce client'')) (\<lambda>_.
      andthen fresh_token (\<lambda>auth_req_id.
      andthen now_utc (\<lambda>now.
      andthen (modify (\<lambda>w. w\<lparr>w_ciba := ciba_save
        \<lparr>bc_auth_req_id_hash = token_hash X auth_req_id, bc_client_id = cl_client_id c, bc_scopes = scopes,
         bc_subject = subject, bc_status = Pending, bc_delivery_mode = mode,
         bc_client_notification_token = notification_token,
         bc_client_notification_endpoint = cl_backchannel_client_notification_endpoint c,
         bc_binding_message = bp_binding_message p,
         bc_acr = (case py_split (bp_acr_values p) of a # _ \<Rightarrow> a | [] \<Rightarrow> []), bc_user_code = user_code,
         bc_interval = bk_interval_seconds C, bc_last_polled_at = None,
         bc_expires_at = now + seconds ttl, bc_resource_uris = resources\<rparr> (w_ciba w)\<rparr>)) (\<lambda>_.
      ok \<lparr>ak_auth_req_id = auth_req_id, ak_expires_in = ttl, ak_interval = bk_interval_seconds C,
          ak_user_code = user_code\<rparr>)))))))))))))"

definition backchannel_authorize :: "services \<Rightarrow> jar_services \<Rightarrow> hint_decoder \<Rightarrow> backchannel_config
    \<Rightarrow> backchannel_params \<Rightarrow> (world, failure, authentication_ack) prog" where
  "backchannel_authorize X J D C p =
     andthen (backchannel_client X C p) (\<lambda>c.
     andthen (apply_request_object X J C c p) (\<lambda>effective.
     accept_request X D C c effective))"

subsection \<open>The decision of the user\<close>

text \<open>
  The calls of the notifiers, in order: the address, the bearer, the identifier of the request
  and, for a push, the signed notification.  \<open>ping\<close>, \<open>push\<close>, \<open>tokens\<close>: the optional notifiers
  and the token use case.
\<close>

datatype ciba_call =
    Ping str str str
  | Push str str str "str option"

definition issue_for_push :: "services \<Rightarrow> token_config \<Rightarrow> backchannel_request
    \<Rightarrow> (world, failure, token_response option) prog" where
  "issue_for_push X T st = (\<lambda>w. case issue_ciba_push_tokens X T st w of
       (Inr ts, v) \<Rightarrow> (Inr (Some ts), v)
     | (Inl (Refused _ _), v) \<Rightarrow> (Inr None, v)
     | (Inl (Uncaught e), v) \<Rightarrow> (Inl (Uncaught e), v))"

definition notify_ping :: "bool \<Rightarrow> backchannel_request \<Rightarrow> str \<Rightarrow> ciba_call list" where
  "notify_ping ping st auth_req_id =
     (if \<not> ping \<or> bc_delivery_mode st \<noteq> ''ping'' \<or> bc_client_notification_endpoint st = []
         \<or> bc_client_notification_token st = [] then []
      else [Ping (bc_client_notification_endpoint st) (bc_client_notification_token st) auth_req_id])"

definition notify_push :: "services \<Rightarrow> bool \<Rightarrow> token_config option \<Rightarrow> backchannel_request \<Rightarrow> str \<Rightarrow> bool
    \<Rightarrow> (world, failure, ciba_call list) prog" where
  "notify_push X push tokens st auth_req_id allow =
     (if \<not> push \<or> bc_delivery_mode st \<noteq> ''push'' \<or> bc_client_notification_endpoint st = []
         \<or> bc_client_notification_token st = [] then ok []
      else
        andthen (case (allow, tokens) of
            (True, Some T) \<Rightarrow>
              andthen (issue_for_push X T st) (\<lambda>issued.
              andthen (create_ciba_push_notification X T st auth_req_id issued) (\<lambda>n. ok (Some n)))
          | _ \<Rightarrow> ok None) (\<lambda>notification.
        ok [Push (bc_client_notification_endpoint st) (bc_client_notification_token st)
          auth_req_id notification]))"

definition ciba_decide :: "services \<Rightarrow> bool \<Rightarrow> bool \<Rightarrow> token_config option \<Rightarrow> str \<Rightarrow> bool \<Rightarrow> str
    \<Rightarrow> (world, failure, bool \<times> ciba_call list) prog" where
  "ciba_decide X ping push tokens auth_req_id allow user_code =
     (if auth_req_id = [] then ok (False, [])
      else
        andthen (peek (\<lambda>w. ciba_find (w_ciba w) (token_hash X auth_req_id))) (\<lambda>found.
        case found of
          None \<Rightarrow> ok (False, [])
        | Some st \<Rightarrow>
            if bc_status st \<noteq> Pending then ok (True, [])
            else if bc_user_code st \<noteq> []
              \<and> normalize_user_code user_code \<noteq> normalize_user_code (bc_user_code st)
            then ok (False, [])
            else
              andthen (modify (\<lambda>w. w\<lparr>w_ciba := (if allow then ciba_approve else ciba_deny)
                (token_hash X auth_req_id) (w_ciba w)\<rparr>)) (\<lambda>_.
              andthen (notify_push X push tokens st auth_req_id allow) (\<lambda>pushed.
              ok (True, notify_ping ping st auth_req_id @ pushed)))))"

end
