(* ===== verification/BackchannelRules.thy ===== *)
theory BackchannelRules
  imports Backchannel PolledGrants Par
begin

text \<open>
  Properties of CIBA: what an acknowledged request has been checked for, what a decision of the
  user changes, and the way of a request from the acknowledgement to the tokens.
\<close>

subsection \<open>The hint\<close>

lemma match_user_known: "match_user w v \<noteq> [] \<Longrightarrow> match_user w v \<in> fst ` set (w_users w)"
proof (cases "dict_get (w_users w) v")
  case None
  assume "match_user w v \<noteq> []"
  with None obtain s claims where "List.find (\<lambda>(_, claims). claims_name (py_lower v) claims) (w_users w)
      = Some (s, claims)" "match_user w v = s"
    by (auto simp: match_user_def split: option.splits)
  then show ?thesis by (force simp: find_Some_iff in_set_conv_nth)
qed (force simp: match_user_def dest: map_of_SomeD)

lemma subject_from_claims_known:
  "subject_from_claims w claims ns \<noteq> [] \<Longrightarrow> subject_from_claims w claims ns \<in> fst ` set (w_users w)"
  by (induction w claims ns rule: subject_from_claims.induct)
    (auto simp: Let_def match_user_known split: option.splits list.splits if_splits)

lemma match_user_tick: "match_user (w\<lparr>w_tick := n\<rparr>) v = match_user w v"
  by (simp add: match_user_def)

lemma subject_from_claims_tick:
  "subject_from_claims (w\<lparr>w_tick := n\<rparr>) claims ns = subject_from_claims w claims ns"
  by (induction w claims ns rule: subject_from_claims.induct)
    (auto simp: Let_def match_user_tick split: option.splits list.splits)

lemmas known_user = match_user_known subject_from_claims_known match_user_tick subject_from_claims_tick

definition one_hint :: "backchannel_params \<Rightarrow> bool" where
  "one_hint p \<longleftrightarrow> length (filter (\<lambda>h. h \<noteq> []) [bp_login_hint p, bp_login_hint_token p, bp_id_token_hint p]) = 1"

lemma hint_token_ok:
  "subject_from_login_hint_token D C c token w = (Inr s, v) \<Longrightarrow> s \<noteq> [] \<Longrightarrow> s \<in> fst ` set (w_users w)"
  "subject_from_id_token_hint X C c token w = (Inr s, v) \<Longrightarrow> s \<noteq> [] \<Longrightarrow> s \<in> fst ` set (w_users w)"
  unfolding subject_from_login_hint_token_def subject_from_id_token_hint_def
  by (auto simp: run_simps prog_simps known_user split: if_splits option.splits hint_result.splits)

lemma hint_moves:
  "moves clocked (resolve_subject X D C c p)"
proof -
  have "moves clocked (subject_from_login_hint_token D C c token)"
    "moves clocked (subject_from_id_token_hint X C c token)" for token
    unfolding subject_from_login_hint_token_def subject_from_id_token_hint_def
    by (auto intro!: moves_intros clocked_order clocked_now split: hint_result.split)
  then show ?thesis
    unfolding resolve_subject_def
    by (auto intro!: moves_intros clocked_order split: list.split)
qed

lemma resolve_subject_ok:
  assumes "resolve_subject X D C c p w = (Inr s, v)"
  shows "s \<in> fst ` set (w_users w) \<and> one_hint p"
  using assms
  by (auto simp: resolve_subject_def one_hint_def andthen_Inr prog_simps run_simps
      match_user_known dest: hint_token_ok split: list.splits if_splits)

subsection \<open>What an acknowledgement has checked\<close>

lemma scopes_ok:
  "validate_scopes C c s w = (Inr scopes, v) \<Longrightarrow>
     v = w \<and> scopes = from_space_separated s \<and> scope_openid \<in> scopes \<and> scopes \<subseteq> cl_scopes c"
  by (auto simp: validate_scopes_def Let_def prog_simps split: if_splits option.splits)

lemma notification_token_ok:
  "validate_notification_token mode token = Inr t \<Longrightarrow>
     (if mode = ''poll'' then t = [] else t = token \<and> token68 token \<and> length token \<le> 1024)"
  by (auto simp: validate_notification_token_def split: if_splits)

lemma ttl_ok:
  "resolve_ttl C requested = Inr n \<Longrightarrow>
     min (bk_min_ttl_seconds C) (bk_ttl_seconds C) \<le> n \<and> n \<le> bk_ttl_seconds C"
  by (auto simp: resolve_ttl_def split: if_splits option.splits)

lemma resources_same: "ciba_resource_error X C rs w = (Inr (), v) \<Longrightarrow> v = w"
  by (auto simp: ciba_resource_error_def Let_def prog_simps split: if_splits option.splits)

lemma user_code_ok:
  assumes "ciba_user_code c typed w = (Inr code, v)"
  shows "\<exists>n. v = w\<lparr>w_draw := n\<rparr>"
proof -
  from assms have "v = w \<or> v = w\<lparr>w_draw := w_draw w + 8\<rparr>"
    by (auto simp: ciba_user_code_def Let_def prog_simps dest: generate_user_code_spec split: if_splits)
  moreover have "w = w\<lparr>w_draw := w_draw w\<rparr>" by simp
  ultimately show ?thesis by metis
qed

text \<open>The stored request is the one asked for.\<close>

definition stored_for :: "services \<Rightarrow> backchannel_config \<Rightarrow> client \<Rightarrow> backchannel_params
    \<Rightarrow> authentication_ack \<Rightarrow> world \<Rightarrow> backchannel_request \<Rightarrow> bool" where
  "stored_for X C c p a w st \<longleftrightarrow>
     bc_auth_req_id_hash st = token_hash X (ak_auth_req_id a) \<and> bc_client_id st = cl_client_id c
     \<and> bc_status st = Pending \<and> bc_last_polled_at st = None
     \<and> bc_scopes st = from_space_separated (bp_scope p)
     \<and> scope_openid \<in> bc_scopes st \<and> bc_scopes st \<subseteq> cl_scopes c
     \<and> bc_subject st \<in> fst ` set (w_users w) \<and> bc_user_code st = ak_user_code a
     \<and> bc_delivery_mode st = cl_backchannel_token_delivery_mode c
     \<and> bc_delivery_mode st \<in> {''poll'', ''ping'', ''push''}
     \<and> (bc_delivery_mode st \<noteq> ''poll'' \<longrightarrow> token68 (bc_client_notification_token st))
     \<and> bc_resource_uris st = parse_resource_parameter X (bp_resource p)"

lemma accept_ok:
  assumes "accept_request X D C c p w = (Inr a, v)"
  obtains st where "w_ciba v = ciba_save st (w_ciba w)" "stored_for X C c p a w st" "one_hint p"
    "min (bk_min_ttl_seconds C) (bk_ttl_seconds C) \<le> ak_expires_in a" "ak_expires_in a \<le> bk_ttl_seconds C"
    "later_clock w v" "bc_expires_at st = w_clock v (w_tick v - 1) + seconds (ak_expires_in a)"
    "int (length (bp_binding_message p)) \<le> binding_message_limit C c" "w_clients v = w_clients w"
proof -
  from assms obtain scopes w1 subject w2 nt ttl w3 code w4 where
    mode: "cl_backchannel_token_delivery_mode c \<in> {''poll'', ''ping'', ''push''}"
    and scopes: "validate_scopes C c (bp_scope p) w = (Inr scopes, w1)"
    and subject: "resolve_subject X D C c p w1 = (Inr subject, w2)"
    and nt: "validate_notification_token (cl_backchannel_token_delivery_mode c) (bp_notification_token p) = Inr nt"
    and message: "int (length (bp_binding_message p)) \<le> binding_message_limit C c"
    and ttl: "resolve_ttl C (bp_requested_expiry p) = Inr ttl"
    and resources: "ciba_resource_error X C (parse_resource_parameter X (bp_resource p)) w2 = (Inr (), w3)"
    and code: "ciba_user_code c (bp_user_code p) w3 = (Inr code, w4)"
    and a: "a = \<lparr>ak_auth_req_id = w_rand w4 (w_draw w4), ak_expires_in = ttl,
      ak_interval = bk_interval_seconds C, ak_user_code = code\<rparr>"
    and v: "v = w4\<lparr>w_draw := Suc (w_draw w4), w_tick := Suc (w_tick w4), w_ciba := ciba_save
      \<lparr>bc_auth_req_id_hash = token_hash X (w_rand w4 (w_draw w4)), bc_client_id = cl_client_id c,
         bc_scopes = scopes, bc_subject = subject, bc_status = Pending,
         bc_delivery_mode = cl_backchannel_token_delivery_mode c, bc_client_notification_token = nt,
         bc_client_notification_endpoint = cl_backchannel_client_notification_endpoint c,
         bc_binding_message = bp_binding_message p,
         bc_acr = (case py_split (bp_acr_values p) of a # _ \<Rightarrow> a | [] \<Rightarrow> []), bc_user_code = code,
         bc_interval = bk_interval_seconds C, bc_last_polled_at = None,
         bc_expires_at = current w4 + seconds ttl,
         bc_resource_uris = parse_resource_parameter X (bp_resource p)\<rparr> (w_ciba w4)\<rparr>"
    unfolding accept_request_def Let_def andthen_Inr ensure_iff lift_iff
    by (elim exE conjE) (auto simp: prog_simps current_def split: if_splits)
  from code obtain n where w4: "w4 = w3\<lparr>w_draw := n\<rparr>" by (auto dest: user_code_ok)
  note s = scopes_ok [OF scopes]
  have w1: "w1 = w" using s by simp
  have w2: "clocked w w2" using movesD [OF hint_moves subject] by (simp add: w1)
  have w3: "w3 = w2" using resources by (rule resources_same)
  define st where "st = \<lparr>bc_auth_req_id_hash = token_hash X (w_rand w4 (w_draw w4)), bc_client_id = cl_client_id c,
         bc_scopes = scopes, bc_subject = subject, bc_status = Pending,
         bc_delivery_mode = cl_backchannel_token_delivery_mode c, bc_client_notification_token = nt,
         bc_client_notification_endpoint = cl_backchannel_client_notification_endpoint c,
         bc_binding_message = bp_binding_message p,
         bc_acr = (case py_split (bp_acr_values p) of a # _ \<Rightarrow> a | [] \<Rightarrow> []), bc_user_code = code,
         bc_interval = bk_interval_seconds C, bc_last_polled_at = None,
         bc_expires_at = current w4 + seconds ttl,
         bc_resource_uris = parse_resource_parameter X (bp_resource p)\<rparr>"
  have "stored_for X C c p a w st"
    using s mode notification_token_ok [OF nt] resolve_subject_ok [OF subject]
    by (auto simp: stored_for_def st_def a w1 split: if_splits)
  moreover have "w_ciba v = ciba_save st (w_ciba w)" "later_clock w v" "w_clients v = w_clients w"
    using w2 by (auto simp: v w4 w3 st_def clocked_def later_clock_def current_def)
  moreover have "bc_expires_at st = w_clock v (w_tick v - 1) + seconds (ak_expires_in a)"
    by (simp add: st_def a v current_def)
  ultimately show ?thesis
    using that [of st] ttl_ok [OF ttl] resolve_subject_ok [OF subject] message by (simp add: a)
qed

lemma backchannel_client_ok:
  "backchannel_client X C p w = (Inr c, v) \<Longrightarrow>
     clients_find (w_clients w) (if bp_client_id p \<noteq> [] then bp_client_id p else deduced_client_id X C p) = Some c
     \<and> cl_is_active c \<and> proves_identity (effective_auth_method c) X c (backchannel_credentials C p) (current w)
     \<and> clocked w v"
  using movesD [OF authenticate_client_clocked]
  by (auto simp: backchannel_client_def find_client_def prog_simps intro: authenticate_client_ok
      split: option.splits if_splits)

text \<open>
  The parameters that count: those of the form, or, with a request object, those the client
  signed with one of its algorithms, for this server and within the hour.
\<close>

definition effective_params :: "services \<Rightarrow> jar_services \<Rightarrow> backchannel_config \<Rightarrow> client
    \<Rightarrow> backchannel_params \<Rightarrow> backchannel_params \<Rightarrow> bool" where
  "effective_params X J C c p q \<longleftrightarrow>
     (if bp_request p = [] then q = p \<and> cl_backchannel_authentication_request_signing_alg c = []
      else \<exists>signer alg claims t. cl_client_id signer = cl_client_id c
        \<and> alg \<in> set (request_algorithms C c) \<and> js_has_key J (bp_request p) signer
        \<and> js_decode J (bp_request p) signer alg (bk_issuer C) ciba_required_claims t = Inr claims
        \<and> q = merge_request_claims J p claims)"

lemma apply_request_ok:
  assumes "apply_request_object X J C c p w = (Inr q, v)"
  shows "effective_params X J C c p q"
proof (cases "bp_request p = []")
  case True
  with assms show ?thesis
    by (auto simp: apply_request_object_def effective_params_def refuse_iff ok_iff split: if_splits)
next
  case False
  with assms obtain signer w1 where "andthen (map_error Uncaught (verify_signed_object X J (bp_request p)
        signer (bk_issuer C) (request_algorithms C c) ciba_required_claims True ''ciba:'')) (\<lambda>result.
        case result of
          Inl reason \<Rightarrow> refuse ''invalid_request'' reason
        | Inr claims \<Rightarrow>
            andthen (ensure (cl_client_id signer = cl_client_id c)
              (Refused ''invalid_client'' ''request object emis pour un autre client'')) (\<lambda>_.
            ok (merge_request_claims J p claims))) w1 = (Inr q, v)"
    by (auto simp: apply_request_object_def andthen_Inr [of "issuer_client X C (bp_request p)"] refuse_iff
        ok_iff split: if_splits)
  then obtain claims w2 where
    "map_error Uncaught (verify_signed_object X J (bp_request p) signer (bk_issuer C)
          (request_algorithms C c) ciba_required_claims True ''ciba:'') w1 = (Inr (Inr claims), w2)"
    "cl_client_id signer = cl_client_id c" "q = merge_request_claims J p claims"
    by (auto simp: andthen_case_sum run_simps refuse_iff ok_iff split: if_splits)
  with False show ?thesis
    by (auto simp: map_error_Inr effective_params_def elim!: verify_signed_ok)
qed

text \<open>Authenticating the client and reading its request touch neither users nor requests.\<close>

definition ciba_view :: "world \<Rightarrow> (str \<times> (str \<times> json) list) list \<times> (str \<times> backchannel_request) list
    \<times> (str \<times> client) list" where
  "ciba_view w = (w_users w, w_ciba w, w_clients w)"

lemma ciba_view_lenient: "lenient (same ciba_view)"
  by (rule lenient_same) (simp_all add: ciba_view_def)

interpretation unseen_by_ciba: par_relation C "same ciba_view" for C
  by unfold_locales (auto simp: ciba_view_lenient same_def ciba_view_def moves_def store_run)

lemma apply_request_view: "moves (same ciba_view) (apply_request_object X J C c p)"
  unfolding apply_request_object_def issuer_client_def find_client_def
  by (intro same_order unseen_by_ciba.verify_moves moves_intros ciba_view_lenient)

subsection \<open>The decision\<close>

definition decided :: "services \<Rightarrow> str \<Rightarrow> bool \<Rightarrow> str \<Rightarrow> world \<Rightarrow> bool" where
  "decided X req allow code w \<longleftrightarrow> req \<noteq> []
     \<and> (\<exists>st. ciba_find (w_ciba w) (token_hash X req) = Some st \<and> bc_status st = Pending
          \<and> (bc_user_code st = [] \<or> normalize_user_code code = normalize_user_code (bc_user_code st)))"

text \<open>Sending a push removes at most the request it answers.\<close>

definition only_removes :: "str \<Rightarrow> world \<Rightarrow> world \<Rightarrow> bool" where
  "only_removes h u v \<longleftrightarrow> (\<forall>k. ciba_find (w_ciba v) k = ciba_find (w_ciba u) k
     \<or> k = h \<and> ciba_find (w_ciba v) k = None)"

lemma only_removes_lenient: "lenient (only_removes h)"
  by (auto simp: lenient_def only_removes_def reflp_def transp_def) metis+

lemma approved_removes:
  assumes "bc_auth_req_id_hash st = h"
  shows "moves (only_removes h) (ciba_approved_flow X T c st now b rs tls)"
proof -
  have "moves (only_removes h) (redeem_grant X T c g ctx b)" for g ctx
    by (rule moves_mono [OF ciba_redeem_same]) (simp add: same_def only_removes_def)
  then show ?thesis
    unfolding ciba_approved_flow_def
    by (intro moves_andthen moves_modify lenient_order [OF only_removes_lenient])
      (simp_all add: only_removes_def ciba.find_delete assms)
qed

lemma issue_removes:
  assumes h: "bc_auth_req_id_hash st = h"
  shows "moves (only_removes h) (issue_ciba_push_tokens X T st)"
  unfolding issue_ciba_push_tokens_def find_client_def
  by (intro moves_intros only_removes_lenient approved_removes [OF h])

lemma notification_removes:
  assumes h: "bc_auth_req_id_hash st = h"
  shows "moves (only_removes h) (create_ciba_push_notification X T st req given)"
proof -
  have sign: "moves (only_removes h) (sign_push_notification X T st req ts)" for ts
    unfolding sign_push_notification_def create_userinfo_jwt_def sign_payload_def
    by (intro moves_intros only_removes_lenient)
  have trans: "transp (only_removes h)" by (rule lenient_order [OF only_removes_lenient])
  show ?thesis
  proof (cases given)
    case None
    show ?thesis
      unfolding moves_def
    proof
      fix s
      obtain x u where run: "issue_ciba_push_tokens X T st s = (x, u)" by fastforce
      then have "only_removes h s u" using issue_removes [OF h] by (blast dest: movesD)
      moreover have "only_removes h u (snd (sign_push_notification X T st req ts u))" for ts
        using sign by (simp add: moves_def)
      ultimately show "only_removes h s (snd (create_ciba_push_notification X T st req given s))"
        using trans run None
        by (auto simp: create_ciba_push_notification_def split: sum.split failure.split elim: transpE)
    qed
  next
    case (Some ts)
    then show ?thesis using sign by (simp add: create_ciba_push_notification_def)
  qed
qed

lemma push_removes:
  assumes h: "bc_auth_req_id_hash st = h"
  shows "moves (only_removes h) (notify_push X sends T st req allow)"
proof -
  have "moves (only_removes h) (issue_for_push X U st)" for U
    using issue_removes [OF h, of X U]
    by (auto simp: moves_def issue_for_push_def split: prod.splits sum.splits failure.splits) (metis snd_conv)+
  then show ?thesis
    unfolding notify_push_def
    by (auto intro!: moves_intros only_removes_lenient notification_removes [OF h]
        split: bool.split option.split)
qed

lemma push_silent:
  assumes "\<not> (allow \<and> bc_delivery_mode st = ''push'')"
  shows "\<exists>calls. notify_push X sends T st req allow w = (Inr calls, w) \<and> length calls \<le> 1
    \<and> (calls \<noteq> [] \<longrightarrow> bc_delivery_mode st = ''push'')"
  using assms by (auto simp: notify_push_def ok_def)

lemma push_calls:
  "notify_push X sends T st req allow w = (Inr calls, v) \<Longrightarrow>
     length calls \<le> 1 \<and> (calls \<noteq> [] \<longrightarrow> bc_delivery_mode st = ''push'')"
  by (auto simp: notify_push_def prog_simps split: if_splits)

subsection \<open>From the acknowledgement to the tokens\<close>

text \<open>The server can sign the tokens of a client.\<close>

definition serves :: "services \<Rightarrow> token_config \<Rightarrow> client \<Rightarrow> bool" where
  "serves X T c \<longleftrightarrow> tk_signing_algorithm T \<notin> set symmetric_algorithms
     \<and> cl_id_token_encrypted_response_alg c = []
     \<and> (\<forall>s m. display_subject X c s m (tk_subject_seed T) \<noteq> None)
     \<and> (\<exists>alg secret. resolve_id_token_material X c (tk_signing_algorithm T) (tk_secret_cipher T) = Some (alg, secret)
          \<and> (alg \<in> set symmetric_algorithms \<longrightarrow> secret \<noteq> []))"

lemma issue_tokens_served:
  assumes "serves X T c"
  shows "\<exists>x v. issue_tokens X T c g ctx w = (Inr x, v)"
proof -
  have access: "\<exists>t v. sign_access_token X T c g q w = (Inr t, v)" for q w
    using assms
    by (auto simp: sign_access_token_def resolve_audience_def create_access_token_def sign_payload_def
        serves_def run_simps split: option.split)
  from assms obtain alg secret where
    material: "resolve_id_token_material X c (tk_signing_algorithm T) (tk_secret_cipher T) = Some (alg, secret)"
    and plain: "\<not> (alg \<in> set symmetric_algorithms \<and> secret = [])" "cl_id_token_encrypted_response_alg c = []"
    by (auto simp: serves_def)
  have "\<exists>t. issue_id_token X T c g ctx q w = (Inr t, w)" for q
  proof -
    from assms obtain sub where "display_subject X c (gr_subject g) (gr_material g) (tk_subject_seed T) = Some sub"
      by (auto simp: serves_def)
    with plain show ?thesis
      by (simp add: issue_id_token_def material run_simps create_id_token_def sign_payload_def
          encrypt_id_token_for_client_def)
  qed
  note identity = this
  show ?thesis
  proof (cases "scope_openid \<in> gr_scopes g")
    case True
    define q where "q = (if ix_claims ctx \<noteq> [] then parse_claims_parameter X (ix_claims ctx) else None)"
    obtain i where i: "issue_id_token X T c g ctx q w = (Inr i, w)" using identity by blast
    obtain t v where "sign_access_token X T c g q w = (Inr t, v)" using access by blast
    with i True show ?thesis
      by (auto simp: issue_tokens_def Let_def q_def [symmetric] andthen_Inr ok_iff)
  next
    case False
    obtain t v where "sign_access_token X T c g None w = (Inr t, v)" using access by blast
    with False show ?thesis by (auto simp: issue_tokens_def issue_access_token_def andthen_Inr ok_iff)
  qed
qed

lemma redeem_grant_served:
  assumes "serves X T c"
  shows "\<exists>ts v. redeem_grant X T c g ctx b w = (Inr ts, v) \<and> ts_scope ts = scope_string (gr_scopes g)"
proof -
  obtain rt u where "offline_refresh_token X T c g w = (Inr rt, u)"
    by (cases "scope_offline_access \<in> gr_scopes g") (auto simp: offline_refresh_token_def issue_refresh_token_def run_simps modify_def)
  moreover obtain i t ttl v where "issue_tokens X T c g ctx u = (Inr (i, t, ttl), v)"
    using issue_tokens_served [OF assms] by (metis prod_cases3)
  ultimately show ?thesis
    by (auto simp: redeem_grant_def andthen_Inr ok_iff token_success_def intro!: exI)
qed

lemma load_ciba_run:
  assumes "ciba_find (w_ciba w) (token_hash X (tr_auth_req_id r)) = Some st"
    and "bc_client_id st = tr_client_id r" and "current w \<le> bc_expires_at st"
    and "bc_delivery_mode st \<noteq> ''push''" and "bc_status st \<noteq> Denied"
  shows "load_ciba_session X r w = (Inr st, w\<lparr>w_tick := Suc (w_tick w)\<rparr>)"
  using assms by (simp add: load_ciba_session_def run_simps)

lemma ciba_poll_served:
  assumes c: "clients_find (w_clients w) (tr_client_id r) = Some c" "cl_is_active c"
    and auth: "token_authenticate X T c r w = (Inr (), w1)" and dpop: "evaluate_dpop X T c r [] w1 = (Inr b, w2)"
    and st: "ciba_find (w_ciba w) (token_hash X (tr_auth_req_id r)) = Some st" "bc_status st = Approved"
      "bc_client_id st = tr_client_id r" "bc_delivery_mode st \<noteq> ''push''" "current w2 \<le> bc_expires_at st"
    and r: "tr_auth_req_id r \<noteq> []" "parse_resource_parameter X (tr_resource r) = []"
    and T: "tk_backchannel T" "serves X T c"
  shows "\<exists>ts z. ciba_token X T r w = (Inr ts, z) \<and> ts_scope ts = scope_string (bc_scopes st)"
proof -
  have "moves (same w_ciba) (token_authenticate X T c r)" "moves (same w_ciba) (evaluate_dpop X T c r [])"
    by (intro moves_intros lenient_same; simp)+
  from this [THEN movesD] auth dpop have "w_ciba w2 = w_ciba w" by (auto simp: same_def)
  with st have load: "load_ciba_session X r w2 = (Inr st, w2\<lparr>w_tick := Suc (w_tick w2)\<rparr>)"
    by (intro load_ciba_run) simp_all
  have active: "active_client (tr_client_id r) w = (Inr c, w)"
    using c by (simp add: active_client_def find_client_def run_simps)
  let ?w4 = "w2\<lparr>w_tick := Suc (Suc (w_tick w2))\<rparr>"
  obtain ts z where "ciba_approved_flow X T c st (current (w2\<lparr>w_tick := Suc (w_tick w2)\<rparr>)) b
      (bc_resource_uris st) (tls_certificate_bound_hash X c r) ?w4 = (Inr ts, z)"
    "ts_scope ts = scope_string (bc_scopes st)"
    using redeem_grant_served [OF T(2)] by (fastforce simp: ciba_approved_flow_def run_simps ciba_grant_def)
  then have "ciba_token X T r w = (Inr ts, z)"
    by (simp add: ciba_token_def run_simps T(1) r st(2) effective_resources_def
        andthen_run(1) [where m = "active_client (tr_client_id r)" and s = w, OF active]
        andthen_run(1) [where m = "token_authenticate X T c r" and s = w, OF auth]
        andthen_run(1) [where m = "evaluate_dpop X T c r []" and s = w1, OF dpop]
        andthen_run(1) [where m = "load_ciba_session X r" and s = w2, OF load])
  with \<open>ts_scope ts = scope_string (bc_scopes st)\<close> show ?thesis by blast
qed

lemma ciba_request_checked:
  assumes "backchannel_authorize X J D C p w = (Inr a, v)"
  shows "\<exists>c q st. clients_find (w_clients w)
        (if bp_client_id p \<noteq> [] then bp_client_id p else deduced_client_id X C p) = Some c
    \<and> cl_is_active c \<and> proves_identity (effective_auth_method c) X c (backchannel_credentials C p) (current w)
    \<and> effective_params X J C c p q \<and> one_hint q \<and> stored_for X C c q a w st
    \<and> w_ciba v = ciba_save st (w_ciba w)
    \<and> bc_expires_at st = w_clock v (w_tick v - 1) + seconds (ak_expires_in a)
    \<and> min (bk_min_ttl_seconds C) (bk_ttl_seconds C) \<le> ak_expires_in a
    \<and> ak_expires_in a \<le> bk_ttl_seconds C \<and> w_clients v = w_clients w"
proof -
  from assms obtain c w1 q w2 where run: "backchannel_client X C p w = (Inr c, w1)"
    "apply_request_object X J C c p w1 = (Inr q, w2)" "accept_request X D C c q w2 = (Inr a, v)"
    by (auto simp: backchannel_authorize_def andthen_Inr)
  note c = backchannel_client_ok [OF run(1)]
  then have "ciba_view w1 = ciba_view w" by (auto simp: clocked_def ciba_view_def)
  with movesD [OF apply_request_view run(2)] have view: "w_users w2 = w_users w" "w_ciba w2 = w_ciba w"
    "w_clients w2 = w_clients w"
    by (simp_all add: same_def ciba_view_def)
  from run(3) show ?thesis
  proof (rule accept_ok)
    fix st
    assume "stored_for X C c q a w2 st" "w_ciba v = ciba_save st (w_ciba w2)"
    moreover have "stored_for X C c q a w2 = stored_for X C c q a w"
      by (simp add: fun_eq_iff stored_for_def view)
    ultimately have "stored_for X C c q a w st" "w_ciba v = ciba_save st (w_ciba w)"
      by (simp_all add: view)
    moreover assume "w_clients v = w_clients w2" "one_hint q" "bc_expires_at st = w_clock v (w_tick v - 1) + seconds (ak_expires_in a)"
      "min (bk_min_ttl_seconds C) (bk_ttl_seconds C) \<le> ak_expires_in a" "ak_expires_in a \<le> bk_ttl_seconds C"
    ultimately show ?thesis using c apply_request_ok [OF run(2)] view(3) by auto
  qed
qed

subsection \<open>Properties\<close>


text \<open>C24. A decision of the user is taken once: it needs the identifier of a pending request and,
  when the request has one, its user code; it approves or denies that request and no other, which
  a push then delivers and removes, and notifies the client at most once.  Anything else changes
  nothing and notifies nobody.  (The expiry of the request is not looked at.)\<close>

theorem ciba_decision_effect:
  assumes "ciba_decide X pings pushes T req allow code w = (res, v)" and "ciba.well_keyed (w_ciba w)"
  shows "if decided X req allow code w
    then (\<forall>k. k \<noteq> token_hash X req \<longrightarrow> ciba_find (w_ciba v) k = ciba_find (w_ciba w) k)
      \<and> (ciba_find (w_ciba v) (token_hash X req)
            = map_option (\<lambda>st. st\<lparr>bc_status := if allow then Approved else Denied\<rparr>)
                (ciba_find (w_ciba w) (token_hash X req))
          \<or> allow \<and> ciba_find (w_ciba v) (token_hash X req) = None
            \<and> map_option bc_delivery_mode (ciba_find (w_ciba w) (token_hash X req)) = Some ''push'')
      \<and> (\<forall>x. res = Inr x \<longrightarrow> fst x \<and> length (snd x) \<le> 1)
    else v = w \<and> (\<exists>b. res = Inr (b, []))"
proof (cases "decided X req allow code w")
  case False
  with assms(1) show ?thesis
    by (auto simp: decided_def ciba_decide_def prog_simps split: option.splits if_splits)
next
  case True
  let ?h = "token_hash X req"
  from True obtain st where st: "ciba_find (w_ciba w) ?h = Some st" "req \<noteq> []" "bc_status st = Pending"
    "bc_user_code st = [] \<or> normalize_user_code code = normalize_user_code (bc_user_code st)"
    by (auto simp: decided_def)
  define u where "u = w\<lparr>w_ciba := (if allow then ciba_approve else ciba_deny) ?h (w_ciba w)\<rparr>"
  have run: "andthen (notify_push X pushes T st req allow) (\<lambda>pushed.
      ok (True, notify_ping pings st req @ pushed)) u = (res, v)"
    using assms(1) st by (auto simp: ciba_decide_def run_simps u_def)
  then obtain y where push: "notify_push X pushes T st req allow u = (y, v)"
    and res: "\<And>x. res = Inr x \<Longrightarrow> \<exists>calls. y = Inr calls \<and> x = (True, notify_ping pings st req @ calls)"
    by (cases res) (auto simp: andthen_Inr andthen_Inl ok_iff)
  have "bc_auth_req_id_hash st = ?h" using assms(2) st(1) by (rule ciba.well_keyedD)
  from movesD [OF push_removes [OF this] push] have removes: "only_removes ?h u v" .
  have u: "ciba_find (w_ciba u) k = (if k = ?h then Some (st\<lparr>bc_status := if allow then Approved else Denied\<rparr>)
      else ciba_find (w_ciba w) k)" for k
    using st(1) by (simp add: u_def ciba_approve_find ciba_deny_find)
  have kept: "v = u" if "\<not> (allow \<and> bc_delivery_mode st = ''push'')"
    using push_silent [OF that] push by (metis prod.inject)
  have calls: "length (notify_ping pings st req @ c) \<le> 1" if "y = Inr c" for c
    using push_calls push that by (fastforce simp: notify_ping_def)
  from removes u kept st(1) have "ciba_find (w_ciba v) ?h = Some (st\<lparr>bc_status := if allow then Approved else Denied\<rparr>)
      \<or> allow \<and> bc_delivery_mode st = ''push'' \<and> ciba_find (w_ciba v) ?h = None"
    by (metis only_removes_def)
  moreover have "k \<noteq> ?h \<longrightarrow> ciba_find (w_ciba v) k = ciba_find (w_ciba w) k" for k
    using removes u by (metis only_removes_def)
  moreover have "res = Inr x \<longrightarrow> fst x \<and> length (snd x) \<le> 1" for x
    using res calls by fastforce
  ultimately show ?thesis using True st(1) by auto
qed

lemma approve_run:
  assumes st: "ciba_find (w_ciba w) (token_hash X req) = Some st" "bc_status st = Pending"
    and code: "bc_user_code st = [] \<or> normalize_user_code code = normalize_user_code (bc_user_code st)"
    and mode: "bc_delivery_mode st \<noteq> ''push''" and req: "req \<noteq> []"
  shows "ciba_decide X pings pushes T req True code w
    = (Inr (True, notify_ping pings st req), w\<lparr>w_ciba := ciba_approve (token_hash X req) (w_ciba w)\<rparr>)"
  using assms by (auto simp: ciba_decide_def run_simps notify_push_def)


subsection \<open>Witnesses\<close>

definition sample_ciba_config :: backchannel_config where
  "sample_ciba_config = \<lparr>bk_issuer = ''https://op'', bk_ttl_seconds = 600, bk_min_ttl_seconds = 60,
     bk_interval_seconds = 5, bk_token_endpoint = [], bk_endpoint = [],
     bk_request_algorithms = [''PS256''], bk_binding_max = 32, bk_registry = None,
     bk_assertions = False, bk_tokens = False, bk_objects = False\<rparr>"

definition sample_ciba_params :: backchannel_params where
  "sample_ciba_params = \<lparr>bp_client_id = ''rp'', bp_scope = ''openid'', bp_login_hint = ''U@EXAMPLE'',
     bp_login_hint_token = [], bp_id_token_hint = [], bp_binding_message = ''pay'', bp_acr_values = [],
     bp_user_code = [], bp_resource = [], bp_notification_token = [], bp_requested_expiry = ''30'',
     bp_client_secret = [], bp_assertion_type = [], bp_assertion = [], bp_request = [],
     bp_request_uri = [], bp_certificate = None\<rparr>"

definition sample_ciba_client :: client where
  "sample_ciba_client = sample_client\<lparr>cl_backchannel_token_delivery_mode := ''poll''\<rparr>"

definition sample_ciba_world :: world where
  "sample_ciba_world = sample_server\<lparr>w_clients := [(''rp'', sample_ciba_client)],
     w_users := [(''u'', [(''email'', JStr ''u@example'')])]\<rparr>"

definition sample_decoder :: hint_decoder where
  "sample_decoder = (\<lambda>_ _ _. HintUnreadable)"

lemma sample_acknowledged:
  "map_sum (\<lambda>_. ()) (\<lambda>a. (ak_auth_req_id a, ak_expires_in a, ak_user_code a)) (fst (backchannel_authorize
     sample_services sample_jar_services sample_decoder sample_ciba_config sample_ciba_params sample_ciba_world))
   = Inr (''r0'', 60, [])"
  by code_simp


lemma ciba_decision_effect_witness:
  "\<exists>res v. ciba_decide sample_services True True None ''ar'' True [] sample_server = (res, v)
   \<and> (\<forall>x. res = Inr x \<longrightarrow> fst x \<and> length (snd x) \<le> 1)
   \<and> ciba_find (w_ciba v) ''hex.ar'' = Some (sample_ciba\<lparr>bc_status := Approved\<rparr>)"
proof -
  obtain res v where run: "ciba_decide sample_services True True None ''ar'' True [] sample_server = (res, v)"
    by fastforce
  have keyed: "ciba.well_keyed (w_ciba sample_server)"
    by (simp add: ciba.well_keyed_def ciba_find_def sample_server_def sample_ciba_def)
  have hash: "token_hash sample_services ''ar'' = ''hex.ar''" by code_simp
  then have stored: "ciba_find (w_ciba sample_server) (token_hash sample_services ''ar'') = Some sample_ciba"
    by (simp add: ciba_find_def sample_server_def)
  then have "decided sample_services ''ar'' True [] sample_server"
    by (simp add: decided_def sample_ciba_def)
  with ciba_decision_effect [OF run keyed] stored show ?thesis
    using run by (auto simp: hash sample_ciba_def)
qed

definition sample_poll :: token_request where
  "sample_poll = sample_request\<lparr>tr_auth_req_id := ''r0''\<rparr>"

lemma sample_served: "serves sample_services sample_config sample_ciba_client"
proof -
  have "resolve_id_token_material sample_services sample_ciba_client RS256 False = Some (RS256, [])"
    by code_simp
  then show ?thesis
    by (auto simp: serves_def sample_config_def symmetric_algorithms_def sample_ciba_client_def sample_client_def
        new_client_def display_subject_def)
qed


end
