(* ===== verification/KeyValidation.thy ===== *)
theory KeyValidation
  imports Tokens
begin

text \<open>
  \<open>domain/key_validation.py\<close>: the public keys a client registers.  A JWK is a decoded JSON object;
  the numbers it carries are base64url texts, decoded here byte by byte.
\<close>

subsection \<open>Base64url numbers\<close>

text \<open>The value of a character of the base64url alphabet.\<close>

definition sextet :: "char \<Rightarrow> nat option" where
  "sextet c = (let n = (of_char c :: nat) in
     if 65 \<le> n \<and> n \<le> 90 then Some (n - 65)
     else if 97 \<le> n \<and> n \<le> 122 then Some (n - 71)
     else if 48 \<le> n \<and> n \<le> 57 then Some (n + 4)
     else if n = 45 then Some 62
     else if n = 95 then Some 63
     else None)"

text \<open>
  \<open>_B64URL_PATTERN.match\<close>: the dollar of the pattern also matches before a final line feed, which
  the lenient decoder then skips; the padding the code adds counts that line feed.
\<close>

definition matches_b64url :: "str \<Rightarrow> bool" where
  "matches_b64url s \<longleftrightarrow> list_all (\<lambda>c. sextet c \<noteq> None) (without_final_newline s)"

text \<open>The bytes of a sequence of sextets, \<open>None\<close> when one character is left over.\<close>

fun sextet_bytes :: "nat list \<Rightarrow> nat list option" where
  "sextet_bytes [] = Some []"
| "sextet_bytes [a] = None"
| "sextet_bytes [a, b] = Some [(a * 64 + b) div 16]"
| "sextet_bytes [a, b, c] =
     (let n = ((a * 64 + b) * 64 + c) div 4 in Some [n div 256, n mod 256])"
| "sextet_bytes (a # b # c # d # rest) =
     (let n = ((a * 64 + b) * 64 + c) * 64 + d in
      map_option (\<lambda>bs. n div 65536 # n div 256 mod 256 # n mod 256 # bs) (sextet_bytes rest))"

text \<open>
  \<open>base64.urlsafe_b64decode(value + padding)\<close> on a text that matches: a final line feed leaves the
  padding short unless the other characters form whole groups of four.
\<close>

definition b64url_decode :: "str \<Rightarrow> nat list option" where
  "b64url_decode s =
     (let body = without_final_newline s in
      if body \<noteq> s \<and> length body mod 4 \<noteq> 0 then None
      else sextet_bytes (map (\<lambda>c. the (sextet c)) body))"

definition int_from_bytes :: "nat list \<Rightarrow> nat" where
  "int_from_bytes bs = foldl (\<lambda>n b. 256 * n + b) 0 bs"

definition positive_int :: "json option \<Rightarrow> nat option" where
  "positive_int v =
     (case v of
        Some (JStr s) \<Rightarrow>
          (if \<not> matches_b64url s then None
           else case b64url_decode s of
               None \<Rightarrow> None
             | Some raw \<Rightarrow>
                 (if raw = [] then None
                  else let number = int_from_bytes raw in if number > 0 then Some number else None))
      | _ \<Rightarrow> None)"

fun bit_length :: "nat \<Rightarrow> nat" where
  "bit_length n = (if n = 0 then 0 else Suc (bit_length (n div 2)))"

declare bit_length.simps [simp del]

definition min_rsa_modulus_bits :: nat where "min_rsa_modulus_bits = 2048"

subsection \<open>The members of a key\<close>

definition kty :: "(str \<times> json) list \<Rightarrow> str" where
  "kty key = (case map_of key ''kty'' of Some (JStr s) \<Rightarrow> py_upper s | _ \<Rightarrow> [])"

definition key_use :: "(str \<times> json) list \<Rightarrow> str" where
  "key_use key = (case map_of key ''use'' of Some (JStr s) \<Rightarrow> s | _ \<Rightarrow> [])"

definition member_text :: "services \<Rightarrow> (str \<times> json) list \<Rightarrow> str \<Rightarrow> str" where
  "member_text X key k = (case map_of key k of None \<Rightarrow> ''None'' | Some v \<Rightarrow> json_text X v)"

definition quoted :: "str \<Rightarrow> str" where
  "quoted s = CHR 0x27 # s @ [CHR 0x27]"

definition supported_ktys :: "str list" where "supported_ktys = [''RSA'', ''EC'']"
definition use_values :: "str list" where "use_values = [''sig'', ''enc'']"
definition ec_curves :: "str list" where "ec_curves = [''P-256'', ''P-384'', ''P-521'']"

definition algorithms_by_kty :: "str \<Rightarrow> str list" where
  "algorithms_by_kty t =
     (if t = ''RSA'' then map alg_value [RS256, RS384, RS512, PS256, PS384, PS512]
        @ [''RSA-OAEP'', ''RSA-OAEP-256'']
      else map alg_value [ES256, ES384, ES512])"

subsection \<open>Structure of a key\<close>

definition rsa_problem :: "(str \<times> json) list \<Rightarrow> str" where
  "rsa_problem key =
     (case (positive_int (map_of key ''n''), positive_int (map_of key ''e'')) of
        (Some modulus, Some e) \<Rightarrow>
          (if bit_length modulus < min_rsa_modulus_bits
           then ''module RSA de '' @ str_of_nat (bit_length modulus) @ '' bits : minimum ''
             @ str_of_nat min_rsa_modulus_bits @ '' bits (RFC 7518 4.3)''
           else [])
      | _ \<Rightarrow> ''cle RSA incomplete : membres n et e requis en base64url valide'')"

definition ec_problem :: "services \<Rightarrow> (str \<times> json) list \<Rightarrow> str" where
  "ec_problem X key =
     (if \<not> (\<exists>c \<in> set ec_curves. map_of key ''crv'' = Some (JStr c))
      then ''crv '' @ quoted (member_text X key ''crv'') @ '' non supporte (attendu P-256, P-384 ou P-521)''
      else if positive_int (map_of key ''x'') = None \<or> positive_int (map_of key ''y'') = None
      then ''cle EC incomplete : membres x et y requis en base64url valide''
      else [])"

definition jwk_problem :: "services \<Rightarrow> (str \<times> json) list \<Rightarrow> str" where
  "jwk_problem X key =
     (let t = kty key in
      if t \<notin> set supported_ktys
      then ''kty '' @ quoted (member_text X key ''kty'') @ '' non supporte (clients : RSA, EC)''
      else if jget key ''use'' \<noteq> None \<and> \<not> (\<exists>u \<in> set use_values. jget key ''use'' = Some (JStr u))
      then ''use '' @ quoted (member_text X key ''use'') @ '' non supporte (attendu ''
        @ quoted ''sig'' @ '' ou '' @ quoted ''enc'' @ '')''
      else if jget key ''alg'' \<noteq> None
          \<and> \<not> (\<exists>a \<in> set (algorithms_by_kty t). jget key ''alg'' = Some (JStr a))
      then ''alg '' @ quoted (member_text X key ''alg'') @ '' non supporte pour une cle '' @ t
      else if t = ''RSA'' then rsa_problem key
      else ec_problem X key)"

definition validate_client_jwks :: "services \<Rightarrow> (str \<times> json) list list \<Rightarrow> str list" where
  "validate_client_jwks X keys =
     concat (map (\<lambda>(i, key). let problem = jwk_problem X key in
         if problem = [] then [] else [''jwks['' @ str_of_nat i @ ''] : '' @ problem])
       (enumerate 0 keys))"

subsection \<open>Use of the keys\<close>

definition usable_for_signing :: "(str \<times> json) list list \<Rightarrow> (str \<times> json) list list" where
  "usable_for_signing keys = filter (\<lambda>key. key_use key \<noteq> ''enc'') keys"

definition require_signing_key :: "(str \<times> json) list list \<Rightarrow> str option" where
  "require_signing_key keys =
     (if \<exists>key \<in> set (usable_for_signing keys). kty key \<in> set supported_ktys then None
      else Some (''Aucune cle de signature dans jwks utilisable pour private_key_jwt ''
        @ ''(kty RSA ou EC, use '' @ quoted ''sig'' @ '' ou absent)''))"

definition encryption_rsa_key :: "(str \<times> json) list \<Rightarrow> bool" where
  "encryption_rsa_key key \<longleftrightarrow> kty key = ''RSA'' \<and> key_use key \<noteq> ''sig'' \<and>
     (case positive_int (map_of key ''n'') of
        None \<Rightarrow> False | Some modulus \<Rightarrow> bit_length modulus \<ge> min_rsa_modulus_bits)"

definition require_encryption_rsa_key :: "(str \<times> json) list list \<Rightarrow> str option" where
  "require_encryption_rsa_key keys =
     (if \<exists>key \<in> set keys. encryption_rsa_key key then None
      else Some (''Aucune cle publique RSA dans jwks utilisable pour RSA-OAEP ''
        @ ''(kty RSA, use '' @ quoted ''enc'' @ '' ou absent, module >= 2048 bits)''))"

subsection \<open>What the decoder computes\<close>

text \<open>The number a base64url text writes in base 64, without the unused low bits.\<close>

definition sextet_number :: "nat list \<Rightarrow> nat" where
  "sextet_number xs = foldl (\<lambda>n x. 64 * n + x) 0 xs"

lemma bit_length_bound: "n < 2 ^ k \<longleftrightarrow> bit_length n \<le> k"
proof (induction k arbitrary: n)
  case 0
  show ?case by (simp add: bit_length.simps [of n])
next
  case (Suc k)
  have "n < 2 ^ Suc k \<longleftrightarrow> n div 2 < 2 ^ k" by auto
  also have "\<dots> \<longleftrightarrow> bit_length (n div 2) \<le> k" by (rule Suc)
  also have "\<dots> \<longleftrightarrow> bit_length n \<le> Suc k"
    by (cases "n = 0") (simp_all add: bit_length.simps [of n] bit_length.simps [of 0])
  finally show ?case .
qed

lemma long_modulus: "min_rsa_modulus_bits \<le> bit_length n \<longleftrightarrow> 2 ^ 2047 \<le> n"
  using bit_length_bound [of n 2047] by (simp add: min_rsa_modulus_bits_def) linarith

lemma int_from_bytes_append:
  "foldl (\<lambda>n b. 256 * n + b) m bs = m * 256 ^ length bs + int_from_bytes bs"
proof (induction bs arbitrary: m)
  case (Cons b bs)
  show ?case
    unfolding int_from_bytes_def
    by (simp only: foldl_Cons Cons [of "256 * m + b"] Cons [of "256 * 0 + b"])
      (simp add: algebra_simps)
qed (simp add: int_from_bytes_def)

lemma int_from_bytes_Cons: "int_from_bytes (b # bs) = b * 256 ^ length bs + int_from_bytes bs"
  using int_from_bytes_append [of b bs] by (simp add: int_from_bytes_def)

lemma three_bytes:
  "int_from_bytes (x # y # z # bs) =
     (x * 65536 + y * 256 + z) * 256 ^ length bs + int_from_bytes bs"
  by (simp add: int_from_bytes_Cons algebra_simps)

lemma sextet_number_append:
  "foldl (\<lambda>n x. 64 * n + x) m xs = m * 64 ^ length xs + sextet_number xs"
proof (induction xs arbitrary: m)
  case (Cons x xs)
  show ?case
    unfolding sextet_number_def
    by (simp only: foldl_Cons Cons [of "64 * m + x"] Cons [of "64 * 0 + x"])
      (simp add: algebra_simps)
qed (simp add: sextet_number_def)

lemma sextet_number_Cons: "sextet_number (x # xs) = x * 64 ^ length xs + sextet_number xs"
  using sextet_number_append [of x xs] by (simp add: sextet_number_def)

text \<open>How many low bits of the last character the padding leaves unused.\<close>

definition unused_bits :: "nat \<Rightarrow> nat" where
  "unused_bits len = (if len mod 4 = 2 then 4 else if len mod 4 = 3 then 2 else 0)"

lemma sextet_bound: "sextet c = Some n \<Longrightarrow> n < 64"
  by (auto simp: sextet_def Let_def split: if_splits)

lemma four_sextets:
  fixes a b c d :: nat
  assumes "b < 64" "c < 64" "d < 64"
  defines "n \<equiv> ((a * 64 + b) * 64 + c) * 64 + d"
  shows "n div 65536 * 65536 + n div 256 mod 256 * 256 + n mod 256 = n"
proof -
  have "n div 256 = n div 65536 * 256 + n div 256 mod 256"
    using div_mult_mod_eq [of "n div 256" 256] by (simp flip: div_mult2_eq)
  then show ?thesis using div_mult_mod_eq [of n 256] by linarith
qed

lemma group_widths:
  assumes "len mod 4 \<noteq> 1"
  shows "(64::nat) ^ len = 2 ^ unused_bits len * 256 ^ (len * 3 div 4)"
proof -
  define q where "q = len div 4"
  have groups: "(64::nat) ^ (4 * q) = 256 ^ (3 * q)" by (simp add: power_mult)
  from assms have "len = 4 * q \<or> len = 4 * q + 2 \<or> len = 4 * q + 3"
    unfolding q_def by presburger
  then consider "len = 4 * q" | "len = 4 * q + 2" | "len = 4 * q + 3" by blast
  then show ?thesis
  proof cases
    case 1
    then have "len mod 4 = 0" "len * 3 div 4 = 3 * q" by simp_all
    with 1 groups show ?thesis by (simp add: unused_bits_def)
  next
    case 2
    then have "len mod 4 = 2" "len * 3 div 4 = 3 * q + 1" by presburger+
    with 2 groups show ?thesis by (simp add: unused_bits_def power_add)
  next
    case 3
    then have "len mod 4 = 3" "len * 3 div 4 = 3 * q + 2" by presburger+
    with 3 groups show ?thesis by (simp add: unused_bits_def power_add)
  qed
qed

lemma sextet_bytes_value:
  "list_all (\<lambda>x. x < 64) xs \<Longrightarrow>
     (case sextet_bytes xs of
        None \<Rightarrow> length xs mod 4 = 1
      | Some bs \<Rightarrow> length xs mod 4 \<noteq> 1 \<and> length bs = length xs * 3 div 4
          \<and> int_from_bytes bs = sextet_number xs div 2 ^ unused_bits (length xs))"
proof (induction xs rule: sextet_bytes.induct)
  case (5 a b c d rest)
  let ?n = "((a * 64 + b) * 64 + c) * 64 + d"
  have len: "length (a # b # c # d # rest) mod 4 = length rest mod 4" by simp
  then have same: "unused_bits (length (a # b # c # d # rest)) = unused_bits (length rest)"
    by (simp only: unused_bits_def)
  have width: "length (a # b # c # d # rest) * 3 div 4 = length rest * 3 div 4 + 3" by simp
  show ?case
  proof (cases "sextet_bytes rest")
    case None
    with 5 len show ?thesis by simp
  next
    case (Some bs)
    have IH: "length rest mod 4 \<noteq> 1" "length bs = length rest * 3 div 4"
      "int_from_bytes bs = sextet_number rest div 2 ^ unused_bits (length rest)"
      using 5 Some by simp_all
    have "(64::nat) ^ length rest = 2 ^ unused_bits (length rest) * 256 ^ length bs"
      using group_widths [OF IH(1)] by (simp add: IH(2))
    then have whole: "?n * 64 ^ length rest = 2 ^ unused_bits (length rest) * (?n * 256 ^ length bs)"
      by simp
    have "sextet_number (a # b # c # d # rest) = ?n * 64 ^ length rest + sextet_number rest"
      by (simp add: sextet_number_Cons algebra_simps)
    also have "\<dots> = 2 ^ unused_bits (length rest) * (?n * 256 ^ length bs) + sextet_number rest"
      by (simp only: whole)
    finally have "sextet_number (a # b # c # d # rest) div 2 ^ unused_bits (length rest)
        = ?n * 256 ^ length bs + int_from_bytes bs"
      by (simp only: IH(3)) (rule div_mult_self4, simp)
    moreover have "int_from_bytes (?n div 65536 # ?n div 256 mod 256 # ?n mod 256 # bs)
        = ?n * 256 ^ length bs + int_from_bytes bs"
      using 5(2) by (simp only: three_bytes four_sextets list.pred_inject(2))
    ultimately show ?thesis
      using Some IH(1,2) len width same by (simp add: Let_def del: length_Cons)
  qed
qed (simp_all add: int_from_bytes_def sextet_number_def unused_bits_def Let_def)

lemma matching_sextets:
  "matches_b64url s \<Longrightarrow>
     list_all (\<lambda>x. x < 64) (map (\<lambda>c. the (sextet c)) (without_final_newline s))"
  by (auto simp: matches_b64url_def list_all_iff dest!: bspec intro: sextet_bound)

text \<open>Decoding a member of a key byte by byte computes the number its base64url digits write: the
  digits read in base 64, without the bits the padding leaves unused.  A text is refused exactly when
  it has a character outside the alphabet, one digit too many for whole bytes, or the value zero.
\<close>

lemma key_number_decoded:
  assumes plain: "without_final_newline s = s"
  shows "positive_int (Some (JStr s)) =
    (let digits = map (\<lambda>c. the (sextet c)) s;
         n = sextet_number digits div 2 ^ unused_bits (length s)
     in if (\<forall>c \<in> set s. sextet c \<noteq> None) \<and> length s mod 4 \<noteq> 1 \<and> n > 0 then Some n else None)"
proof (cases "matches_b64url s")
  case True
  define digits where "digits = map (\<lambda>c. the (sextet c)) s"
  have "list_all (\<lambda>x. x < 64) digits"
    using matching_sextets [OF True] by (simp add: digits_def plain)
  from sextet_bytes_value [OF this] show ?thesis
    using True
    by (auto simp: positive_int_def b64url_decode_def matches_b64url_def plain list_all_iff
        int_from_bytes_def Let_def simp flip: digits_def split: option.splits if_splits)
      (simp_all add: digits_def int_from_bytes_def)
next
  case False
  then show ?thesis by (auto simp: positive_int_def matches_b64url_def plain list_all_iff Let_def)
qed

text \<open>The exponent 65537 of the usual RSA keys, written \<open>AQAB\<close>.\<close>

theorem key_number_decoded_witness:
  "positive_int (Some (JStr ''AQAB'')) = Some 65537"
  using key_number_decoded [of "''AQAB''"]
  by (simp add: without_final_newline_def sextet_def sextet_number_def unused_bits_def Let_def)

end
