(* ===== verification/Registration.thy ===== *)
theory Registration
  imports KeyValidation Registry
begin

text \<open>
  \<open>application/registration.py\<close>, first half: the metadata of a client that registers itself
  (RFC 7591), from the decoded JSON body to a checked record.  Each parser reads one member of
  the body; an absent member and \<open>null\<close> are the same.
\<close>

subsection \<open>Errors and results\<close>

text \<open>\<open>RegRefused\<close> is a \<open>RegistrationError\<close> with its HTTP status, \<open>RegCrashed\<close> an escaping exception.\<close>

datatype registration_error = RegRefused str str nat | RegCrashed str

definition invalid_metadata :: "str \<Rightarrow> registration_error" where
  "invalid_metadata d = RegRefused ''invalid_client_metadata'' d 400"

definition invalid_redirect :: "str \<Rightarrow> registration_error" where
  "invalid_redirect d = RegRefused ''invalid_redirect_uri'' d 400"

fun is_crash :: "registration_error \<Rightarrow> bool" where
  "is_crash (RegCrashed _) = True"
| "is_crash (RegRefused _ _ _) = False"

text \<open>\<open>_parse_metadata_extras\<close> and \<open>RegistrationMetadata\<close>; \<open>md_jwks\<close> is the compact JSON text.\<close>

record metadata_extras =
  md_scopes :: "str set"
  md_auth_method :: auth_method
  md_requested_secret :: "str option"
  md_par_required :: bool
  md_require_consent :: bool
  md_jwks_uri :: str
  md_jwks :: str
  md_tls_subject_dn :: str
  md_tls_certificate_hash :: str
  md_id_token_signed_response_alg :: str
  md_id_token_encrypted_response_alg :: str
  md_id_token_encrypted_response_enc :: str
  md_frontchannel_logout_uri :: str
  md_frontchannel_logout_session_required :: bool
  md_backchannel_logout_uri :: str
  md_backchannel_logout_session_required :: bool
  md_dpop_bound_access_tokens :: bool
  md_tls_bound_access_tokens :: bool
  md_token_delivery_mode :: str
  md_notification_endpoint :: str
  md_request_signing_alg :: str

record client_metadata = metadata_extras +
  md_redirect_uris :: "str set"
  md_post_logout_redirect_uris :: "str set"
  md_web_origins :: "str set"
  md_client_type :: client_type
  md_grant_types :: "str set"
  md_userinfo_signed_response_alg :: str
  md_subject_type :: subject_type
  md_sector_identifier_uri :: str
  md_fapi_enabled :: bool
  md_fapi2_enabled :: bool
  md_user_code_parameter :: bool

subsection \<open>What the server admits\<close>

definition allowed_grant_types :: "str list" where
  "allowed_grant_types = [''authorization_code'', ''refresh_token'', ''implicit'',
     ''client_credentials'', device_code_grant_type, jwt_bearer_grant_type, ciba_grant_type]"

definition ciba_delivery_modes :: "str list" where
  "ciba_delivery_modes = [''poll'', ''ping'', ''push'']"

definition allowed_response_types :: "str list" where
  "allowed_response_types = [''code'', ''id_token'', ''token'', ''id_token token'',
     ''code id_token'', ''code token'', ''code id_token token'']"

definition all_auth_methods :: "auth_method list" where
  "all_auth_methods = [AuthNone, ClientSecretBasic, ClientSecretPost, ClientSecretJwt,
     PrivateKeyJwt, TlsClientAuth, SelfSignedTlsClientAuth]"

fun auth_method_value :: "auth_method \<Rightarrow> str" where
  "auth_method_value AuthNone = ''none''"
| "auth_method_value ClientSecretBasic = ''client_secret_basic''"
| "auth_method_value ClientSecretPost = ''client_secret_post''"
| "auth_method_value ClientSecretJwt = ''client_secret_jwt''"
| "auth_method_value PrivateKeyJwt = ''private_key_jwt''"
| "auth_method_value TlsClientAuth = ''tls_client_auth''"
| "auth_method_value SelfSignedTlsClientAuth = ''self_signed_tls_client_auth''"

fun subject_type_value :: "subject_type \<Rightarrow> str" where
  "subject_type_value SubPublic = ''public''"
| "subject_type_value SubPairwise = ''pairwise''"
| "subject_type_value SubEphemeral = ''ephemeral''"

definition min_secret_length :: nat where "min_secret_length = 8"

definition standard_scopes :: "str set" where
  "standard_scopes = ir_name ` set default_identity_resources"

subsection \<open>Reading members\<close>

fun string_list :: "json \<Rightarrow> str list option" where
  "string_list (JList vs) =
     (if list_all (\<lambda>v. json_str v \<noteq> None) vs then Some (map (\<lambda>v. the (json_str v)) vs) else None)"
| "string_list _ = None"

text \<open>A member that is absent, \<open>null\<close> or the empty string.\<close>

definition left_out :: "json option \<Rightarrow> bool" where
  "left_out v \<longleftrightarrow> v = None \<or> v = Some (JStr [])"

text \<open>A member that is left out or one of the listed texts.\<close>

definition one_of :: "str list \<Rightarrow> str \<Rightarrow> (str \<times> json) list \<Rightarrow> str \<Rightarrow> registration_error + str" where
  "one_of admitted text raw key =
     (if left_out (jget raw key) then Inr []
      else case jget raw key of
          Some (JStr s) \<Rightarrow> (if s \<in> set admitted then Inr s else Inl (invalid_metadata text))
        | _ \<Rightarrow> Inl (invalid_metadata text))"

definition parse_bool_flag :: "(str \<times> json) list \<Rightarrow> str \<Rightarrow> bool \<Rightarrow> registration_error + bool" where
  "parse_bool_flag raw key dflt =
     (case jget raw key of
        None \<Rightarrow> Inr dflt
      | Some (JBool b) \<Rightarrow> Inr b
      | _ \<Rightarrow> Inl (invalid_metadata (key @ '' doit etre un booleen'')))"

definition parse_members :: "(str \<times> json) list \<Rightarrow> str \<Rightarrow> str list \<Rightarrow> str
    \<Rightarrow> registration_error + str set" where
  "parse_members raw key allowed dflt =
     (case jget raw key of
        None \<Rightarrow> Inr {dflt}
      | Some v \<Rightarrow> (case string_list v of
            None \<Rightarrow> Inl (invalid_metadata (key @ '' doit etre une liste de chaines''))
          | Some values \<Rightarrow>
              let unknown = set values - set allowed in
              if unknown \<noteq> {}
              then Inl (invalid_metadata (key @ '' non supporte : ''
                @ join_with '', '' (sorted_strs unknown)))
              else Inr (set values)))"

subsection \<open>Addresses\<close>

text \<open>The first member a predicate rejects, or on which it raises.\<close>

fun check_each :: "(str \<Rightarrow> bool option) \<Rightarrow> (str \<Rightarrow> registration_error) \<Rightarrow> str list
    \<Rightarrow> registration_error + unit" where
  "check_each P f [] = Inr ()"
| "check_each P f (x # xs) =
     (case P x of
        None \<Rightarrow> Inl (RegCrashed ''ValueError'')
      | Some True \<Rightarrow> check_each P f xs
      | Some False \<Rightarrow> Inl (f x))"

definition is_redirect_uri :: "services \<Rightarrow> str \<Rightarrow> bool option" where
  "is_redirect_uri X uri =
     map_option (\<lambda>u. u_scheme u \<in> {''http'', ''https''} \<and> u_netloc u \<noteq> [] \<and> u_fragment u = [])
       (urlsplit (sv_ip_literal X) uri)"

definition is_web_origin :: "services \<Rightarrow> str \<Rightarrow> bool option" where
  "is_web_origin X uri =
     map_option (\<lambda>u. u_scheme u \<in> {''http'', ''https''} \<and> u_netloc u \<noteq> []
         \<and> u_path u \<in> {[], ''/''} \<and> u_query u = [] \<and> u_fragment u = [])
       (urlsplit (sv_ip_literal X) uri)"

definition is_jwks_uri :: "services \<Rightarrow> str \<Rightarrow> bool option" where
  "is_jwks_uri X uri =
     map_option (\<lambda>u.
         if u_scheme u \<notin> {''http'', ''https''} \<or> u_netloc u = [] \<or> u_fragment u \<noteq> [] then False
         else if u_scheme u = ''https'' then True
         else (case hostname u of None \<Rightarrow> [] | Some h \<Rightarrow> h) \<in> {''localhost'', ''127.0.0.1'', ''::1''})
       (urlsplit (sv_ip_literal X) uri)"

definition uses_redirect_flows :: "(str \<times> json) list \<Rightarrow> bool" where
  "uses_redirect_flows raw =
     (case jget raw ''grant_types'' of
        None \<Rightarrow> True
      | Some (JList vs) \<Rightarrow> list_ex (\<lambda>v. v \<in> {JStr ''authorization_code'', JStr ''implicit''}) vs
      | Some _ \<Rightarrow> False)"

definition parse_uri_list :: "services \<Rightarrow> (str \<times> json) list \<Rightarrow> str \<Rightarrow> bool
    \<Rightarrow> registration_error + str set" where
  "parse_uri_list X raw key required =
     (case jget raw key of
        None \<Rightarrow> (if required then Inl (invalid_metadata ''redirect_uris manquant'') else Inr {})
      | Some v \<Rightarrow> (case string_list v of
            None \<Rightarrow> Inl (invalid_metadata (key @ '' doit etre une liste de chaines''))
          | Some uris \<Rightarrow>
              checked (check_each (is_redirect_uri X)
                (\<lambda>uri. invalid_redirect (key @ '' contient une URI invalide : '' @ uri)) uris)
              (\<lambda>_. Inr (set uris))))"

definition parse_logout_uri :: "services \<Rightarrow> (str \<times> json) list \<Rightarrow> str \<Rightarrow> registration_error + str" where
  "parse_logout_uri X raw key =
     (if left_out (jget raw key) then Inr []
      else case jget raw key of
          Some (JStr uri) \<Rightarrow> checked (check_each (is_redirect_uri X)
              (\<lambda>u. invalid_redirect (key @ '' contient une URI invalide : '' @ u)) [uri])
            (\<lambda>_. Inr uri)
        | _ \<Rightarrow> Inl (invalid_metadata (key @ '' doit etre une chaine'')))"

definition parse_web_origins :: "services \<Rightarrow> (str \<times> json) list \<Rightarrow> registration_error + str set" where
  "parse_web_origins X raw =
     (case jget raw ''web_origins'' of
        None \<Rightarrow> Inr {}
      | Some v \<Rightarrow> (case string_list v of
            None \<Rightarrow> Inl (invalid_metadata ''web_origins doit etre une liste de chaines'')
          | Some values \<Rightarrow>
              checked (check_each (is_web_origin X) (\<lambda>origin.
                  invalid_redirect (''web_origins contient une origine invalide : '' @ origin)) values)
                (\<lambda>_. if None \<in> origin_of_uri X ` set values then Inl (RegCrashed ''ValueError'')
                  else Inr (set (concat (map (\<lambda>v. case origin_of_uri X v of
                      Some (Some origin) \<Rightarrow> [origin] | _ \<Rightarrow> []) values))))))"

definition parse_subject_type :: "(str \<times> json) list \<Rightarrow> registration_error + subject_type" where
  "parse_subject_type raw =
     (if left_out (jget raw ''subject_type'') then Inr SubPublic
      else case List.find (\<lambda>t. jget raw ''subject_type'' = Some (JStr (subject_type_value t)))
            [SubPublic, SubPairwise, SubEphemeral] of
          Some t \<Rightarrow> Inr t
        | None \<Rightarrow> Inl (invalid_metadata ''subject_type doit etre public, pairwise ou ephemeral''))"

definition parse_sector_identifier_uri :: "services \<Rightarrow> (str \<times> json) list
    \<Rightarrow> registration_error + str" where
  "parse_sector_identifier_uri X raw =
     (if left_out (jget raw ''sector_identifier_uri'') then Inr []
      else case jget raw ''sector_identifier_uri'' of
          Some (JStr uri) \<Rightarrow>
            (case urlsplit (sv_ip_literal X) uri of
               None \<Rightarrow> Inl (RegCrashed ''ValueError'')
             | Some u \<Rightarrow>
                 if u_scheme u \<noteq> ''https'' \<or> u_netloc u = [] \<or> u_fragment u \<noteq> []
                 then Inl (invalid_metadata
                   ''sector_identifier_uri doit etre une URI https absolue sans fragment'')
                 else Inr uri)
        | _ \<Rightarrow> Inl (invalid_metadata ''sector_identifier_uri doit etre une chaine''))"

definition parse_notification_endpoint :: "services \<Rightarrow> (str \<times> json) list
    \<Rightarrow> registration_error + str" where
  "parse_notification_endpoint X raw =
     (let key = ''backchannel_client_notification_endpoint'' in
      if left_out (jget raw key) then Inr []
      else case jget raw key of
          Some (JStr uri) \<Rightarrow> checked (check_each (is_redirect_uri X)
              (\<lambda>_. invalid_metadata (key @ '' doit etre une URI http(s) sans fragment'')) [uri])
            (\<lambda>_. Inr uri)
        | _ \<Rightarrow> Inl (invalid_metadata (key @ '' doit etre une chaine'')))"

definition parse_jwks_uri :: "services \<Rightarrow> (str \<times> json) list \<Rightarrow> registration_error + str" where
  "parse_jwks_uri X raw =
     (let refused = invalid_metadata ''jwks_uri doit etre une URI http(s) sans fragment'' in
      if left_out (jget raw ''jwks_uri'') then Inr []
      else case jget raw ''jwks_uri'' of
          Some (JStr uri) \<Rightarrow> checked (check_each (is_jwks_uri X) (\<lambda>_. refused) [uri]) (\<lambda>_. Inr uri)
        | _ \<Rightarrow> Inl refused)"

subsection \<open>Scopes, methods, algorithms\<close>

definition parse_scopes :: "(str \<times> json) list \<Rightarrow> str set \<Rightarrow> registration_error + str set" where
  "parse_scopes raw known =
     (if left_out (jget raw ''scope'') then Inr standard_scopes
      else case jget raw ''scope'' of
          Some (JStr s) \<Rightarrow>
            let tokens = py_split s; unknown = filter (\<lambda>t. t \<notin> known) tokens in
            if unknown \<noteq> []
            then Inl (invalid_metadata (''scope(s) non enregistre(s) : '' @ join_with '', '' (sort unknown)))
            else Inr (set tokens)
        | _ \<Rightarrow> Inl (invalid_metadata ''scope doit etre une chaine''))"

definition parse_auth_method :: "(str \<times> json) list \<Rightarrow> registration_error + auth_method" where
  "parse_auth_method raw =
     (case jget raw ''token_endpoint_auth_method'' of
        None \<Rightarrow> Inr ClientSecretBasic
      | Some v \<Rightarrow> (case List.find (\<lambda>m. v = JStr (auth_method_value m)) all_auth_methods of
            Some m \<Rightarrow> Inr m
          | None \<Rightarrow> Inl (invalid_metadata (''token_endpoint_auth_method non supporte (attendu : ''
              @ join_with '', '' (sort (map auth_method_value all_auth_methods))))))"

definition parse_id_token_signing_alg :: "(str \<times> json) list \<Rightarrow> registration_error + str" where
  "parse_id_token_signing_alg raw = one_of (map alg_value all_algorithms)
     ''id_token_signed_response_alg non supporte (attendu un algorithme JWS)''
     raw ''id_token_signed_response_alg''"

definition parse_userinfo_signing_alg :: "(str \<times> json) list \<Rightarrow> registration_error + str" where
  "parse_userinfo_signing_alg raw = one_of userinfo_signing_algorithms
     (''userinfo_signed_response_alg non supporte (attendu : ''
       @ join_with '', '' userinfo_signing_algorithms @ '')'')
     raw ''userinfo_signed_response_alg''"

definition parse_id_token_encryption_alg :: "(str \<times> json) list \<Rightarrow> registration_error + str" where
  "parse_id_token_encryption_alg raw = one_of key_management_algorithms
     ''id_token_encrypted_response_alg non supporte (attendu un algorithme JWE)''
     raw ''id_token_encrypted_response_alg''"

definition parse_id_token_encryption_enc :: "(str \<times> json) list \<Rightarrow> registration_error + str" where
  "parse_id_token_encryption_enc raw = one_of encryption_methods
     ''id_token_encrypted_response_enc non supporte (attendu une methode JWE)''
     raw ''id_token_encrypted_response_enc''"

definition parse_delivery_mode :: "(str \<times> json) list \<Rightarrow> registration_error + str" where
  "parse_delivery_mode raw = one_of ciba_delivery_modes
     ''backchannel_token_delivery_mode doit etre poll, ping ou push''
     raw ''backchannel_token_delivery_mode''"

definition parse_request_signing_alg :: "(str \<times> json) list \<Rightarrow> registration_error + str" where
  "parse_request_signing_alg raw = one_of ciba_request_signing_algorithms
     ''backchannel_authentication_request_signing_alg doit etre PS256, ES256 ou RS256''
     raw ''backchannel_authentication_request_signing_alg''"

definition parse_requested_secret :: "(str \<times> json) list \<Rightarrow> registration_error + str option" where
  "parse_requested_secret raw =
     (let refused = invalid_metadata (''client_secret doit comporter au moins ''
        @ str_of_nat min_secret_length @ '' caracteres'') in
      case jget raw ''client_secret'' of
        None \<Rightarrow> Inr None
      | Some (JStr s) \<Rightarrow> (if length s < min_secret_length then Inl refused else Inr (Some s))
      | _ \<Rightarrow> Inl refused)"

subsection \<open>Keys and certificates\<close>

definition jwk_set :: "(str \<times> json) list list \<Rightarrow> json" where
  "jwk_set keys = JObj [(''keys'', JList (map JObj keys))]"

text \<open>The members of a list that are all objects.\<close>

fun object_list :: "json \<Rightarrow> (str \<times> json) list list option" where
  "object_list (JList vs) =
     (if list_all is_JObj vs then Some (map (\<lambda>v. case v of JObj d \<Rightarrow> d | _ \<Rightarrow> []) vs) else None)"
| "object_list _ = None"

definition parse_jwks :: "services \<Rightarrow> (str \<times> json) list \<Rightarrow> registration_error + str" where
  "parse_jwks X raw =
     (case jget raw ''jwks'' of
        None \<Rightarrow> Inr []
      | Some (JObj d) \<Rightarrow>
          (case Option.bind (map_of d ''keys'') object_list of
             None \<Rightarrow> Inl (invalid_metadata ''jwks doit porter une liste keys de JWK'')
           | Some keys \<Rightarrow>
               (case validate_client_jwks X keys of
                  problem # _ \<Rightarrow> Inl (invalid_metadata problem)
                | [] \<Rightarrow> Inr (sv_json_dumps_sorted X (jwk_set keys))))
      | _ \<Rightarrow> Inl (invalid_metadata ''jwks doit etre un objet JSON (JWK Set)''))"

text \<open>
  \<open>_keys_from_jwks_json\<close>, on the texts \<open>parse_jwks\<close> writes; any other text is an exception.
\<close>

definition keys_from_jwks_json :: "services \<Rightarrow> str \<Rightarrow> registration_error + (str \<times> json) list list" where
  "keys_from_jwks_json X s =
     (if s = [] then Inr []
      else case sv_json_loads X s of
          None \<Rightarrow> Inl (RegCrashed ''ValueError'')
        | Some (JObj d) \<Rightarrow>
            (case map_of d ''keys'' of
               None \<Rightarrow> Inr []
             | Some v \<Rightarrow> (case object_list v of
                   None \<Rightarrow> Inl (RegCrashed ''TypeError'') | Some keys \<Rightarrow> Inr keys))
        | Some _ \<Rightarrow> Inl (RegCrashed ''AttributeError''))"

definition jwks_json :: "services \<Rightarrow> (str \<times> json) list list \<Rightarrow> str" where
  "jwks_json X keys = (if keys = [] then [] else sv_json_dumps_sorted X (jwk_set keys))"

definition parse_tls_subject_dn :: "(str \<times> json) list \<Rightarrow> registration_error + str" where
  "parse_tls_subject_dn raw =
     (if left_out (jget raw ''tls_client_auth_subject_dn'') then Inr []
      else case jget raw ''tls_client_auth_subject_dn'' of
          Some (JStr s) \<Rightarrow> Inr s
        | _ \<Rightarrow> Inl (invalid_metadata ''tls_client_auth_subject_dn doit etre une chaine''))"

text \<open>\<open>base64.b64decode(value, validate=True)\<close>: the standard alphabet and exact padding.\<close>

definition std_sextet :: "char \<Rightarrow> nat option" where
  "std_sextet c =
     (if c = CHR ''+'' then Some 62 else if c = CHR ''/'' then Some 63
      else if c \<in> {CHR ''-'', CHR ''_''} then None else sextet c)"

definition b64_decode_strict :: "str \<Rightarrow> nat list option" where
  "b64_decode_strict s =
     (let body = takeWhile (\<lambda>c. c \<noteq> CHR ''='') s; pad = drop (length body) s in
      if list_all (\<lambda>c. std_sextet c \<noteq> None) body \<and> list_all (\<lambda>c. c = CHR ''='') pad
         \<and> length pad \<le> 2 \<and> length s mod 4 = 0
      then sextet_bytes (map (\<lambda>c. the (std_sextet c)) body) else None)"

definition parse_tls_certificate :: "services \<Rightarrow> (str \<times> json) list \<Rightarrow> registration_error + str" where
  "parse_tls_certificate X raw =
     (if left_out (jget raw ''tls_client_certificate'') then Inr []
      else case jget raw ''tls_client_certificate'' of
          Some (JStr s) \<Rightarrow>
            (case b64_decode_strict s of
               None \<Rightarrow> Inl (invalid_metadata
                 (''tls_client_certificate n'' @ [CHR 0x27] @ ''est pas du base64 valide''))
             | Some der \<Rightarrow>
                 if der = []
                 then Inl (invalid_metadata ''tls_client_certificate ne contient aucun octet'')
                 else Inr (der_certificate_hash X (map char_of der)))
        | _ \<Rightarrow> Inl (invalid_metadata ''tls_client_certificate doit etre une chaine base64''))"

subsection \<open>The whole body\<close>

text \<open>
  \<open>_parse_metadata_extras\<close>: the parsers in the order of its table; the first error is the answer.
\<close>

definition parse_metadata_extras :: "services \<Rightarrow> (str \<times> json) list \<Rightarrow> str set
    \<Rightarrow> registration_error + metadata_extras" where
  "parse_metadata_extras X raw known =
     checked (parse_scopes raw known) (\<lambda>scopes.
     checked (parse_auth_method raw) (\<lambda>auth_method.
     checked (parse_members raw ''grant_types'' allowed_grant_types ''authorization_code'') (\<lambda>_.
     checked (parse_members raw ''response_types'' allowed_response_types ''code'') (\<lambda>_.
     checked (parse_requested_secret raw) (\<lambda>requested_secret.
     checked (parse_bool_flag raw ''require_pushed_authorization_requests'' False) (\<lambda>par_required.
     checked (parse_bool_flag raw ''require_consent'' False) (\<lambda>require_consent.
     checked (parse_jwks_uri X raw) (\<lambda>jwks_uri.
     checked (parse_jwks X raw) (\<lambda>jwks.
     checked (parse_tls_subject_dn raw) (\<lambda>tls_subject_dn.
     checked (parse_tls_certificate X raw) (\<lambda>tls_certificate_hash.
     checked (parse_id_token_signing_alg raw) (\<lambda>signing_alg.
     checked (parse_id_token_encryption_alg raw) (\<lambda>encryption_alg.
     checked (parse_id_token_encryption_enc raw) (\<lambda>encryption_enc.
     checked (parse_logout_uri X raw ''frontchannel_logout_uri'') (\<lambda>front_uri.
     checked (parse_bool_flag raw ''frontchannel_logout_session_required'' False) (\<lambda>front_session.
     checked (parse_logout_uri X raw ''backchannel_logout_uri'') (\<lambda>back_uri.
     checked (parse_bool_flag raw ''backchannel_logout_session_required'' False) (\<lambda>back_session.
     checked (parse_bool_flag raw ''dpop_bound_access_tokens'' False) (\<lambda>dpop_bound.
     checked (parse_bool_flag raw ''tls_client_certificate_bound_access_tokens'' False) (\<lambda>tls_bound.
     checked (parse_delivery_mode raw) (\<lambda>delivery_mode.
     checked (parse_notification_endpoint X raw) (\<lambda>notification_endpoint.
     checked (parse_request_signing_alg raw) (\<lambda>request_signing_alg.
     checked (parse_bool_flag raw ''backchannel_user_code_parameter'' False) (\<lambda>_.
     Inr \<lparr>md_scopes = scopes, md_auth_method = auth_method, md_requested_secret = requested_secret,
       md_par_required = par_required, md_require_consent = require_consent,
       md_jwks_uri = jwks_uri, md_jwks = jwks, md_tls_subject_dn = tls_subject_dn,
       md_tls_certificate_hash = tls_certificate_hash,
       md_id_token_signed_response_alg = signing_alg,
       md_id_token_encrypted_response_alg = encryption_alg,
       md_id_token_encrypted_response_enc = encryption_enc,
       md_frontchannel_logout_uri = front_uri,
       md_frontchannel_logout_session_required = front_session,
       md_backchannel_logout_uri = back_uri,
       md_backchannel_logout_session_required = back_session,
       md_dpop_bound_access_tokens = dpop_bound, md_tls_bound_access_tokens = tls_bound,
       md_token_delivery_mode = delivery_mode, md_notification_endpoint = notification_endpoint,
       md_request_signing_alg = request_signing_alg\<rparr>))))))))))))))))))))))))"

definition parse_metadata :: "services \<Rightarrow> json \<Rightarrow> str set \<Rightarrow> registration_error + client_metadata" where
  "parse_metadata X body known =
     (case body of
        JObj raw \<Rightarrow>
          checked (parse_members raw ''grant_types'' allowed_grant_types ''authorization_code'') (\<lambda>grants.
          checked (parse_uri_list X raw ''redirect_uris'' (uses_redirect_flows raw)) (\<lambda>redirect_uris.
          checked (parse_uri_list X raw ''post_logout_redirect_uris'' False) (\<lambda>post_logout_uris.
          checked (parse_web_origins X raw) (\<lambda>web_origins.
          checked (parse_subject_type raw) (\<lambda>subject_type.
          checked (parse_sector_identifier_uri X raw) (\<lambda>sector_uri.
          checked (parse_userinfo_signing_alg raw) (\<lambda>userinfo_alg.
          checked (parse_metadata_extras X raw known) (\<lambda>extras.
          checked (parse_bool_flag raw ''fapi_enabled'' False) (\<lambda>fapi.
          checked (parse_bool_flag raw ''fapi2_enabled'' False) (\<lambda>fapi2.
          checked (if fapi \<and> fapi2
              then Inl (invalid_metadata ''fapi_enabled et fapi2_enabled sont exclusifs'')
              else Inr ()) (\<lambda>_.
          checked (parse_bool_flag raw ''backchannel_user_code_parameter'' False) (\<lambda>user_code.
          Inr (metadata_extras.extend extras \<lparr>md_redirect_uris = redirect_uris,
            md_post_logout_redirect_uris = post_logout_uris, md_web_origins = web_origins,
            md_client_type = (if md_auth_method extras = AuthNone then Public else Confidential),
            md_grant_types = grants, md_userinfo_signed_response_alg = userinfo_alg,
            md_subject_type = subject_type, md_sector_identifier_uri = sector_uri,
            md_fapi_enabled = fapi, md_fapi2_enabled = fapi2,
            md_user_code_parameter = user_code\<rparr>)))))))))))))
      | _ \<Rightarrow> Inl (invalid_metadata ''Metadonnees non conforme (objet JSON attendu)''))"

end
