(* ===== verification/RegistrationUse.thy ===== *)
theory RegistrationUse
  imports Registration ClientAuth
begin

text \<open>
  \<open>application/registration.py\<close>, second half: \<open>RegistrationUseCase\<close> creates, reads, replaces and
  deletes registered clients (RFC 7591, RFC 7592), with the bearer rule of
  \<open>application/claim_authorizer.py\<close> for the initial access token.
\<close>

subsection \<open>Configuration and ports\<close>

text \<open>\<open>application/claim_authorizer.py\<close>.\<close>

record claim_rule =
  cr_claim_name :: str
  cr_allowed_values :: "str set"

definition rule_matches :: "services \<Rightarrow> claim_rule \<Rightarrow> (str \<times> json) list \<Rightarrow> bool" where
  "rule_matches X rule claims =
     (case jget claims (cr_claim_name rule) of
        Some (JStr value) \<Rightarrow>
          (if cr_claim_name rule = ''scope'' then cr_allowed_values rule \<inter> set (py_split value) \<noteq> {}
           else value \<in> cr_allowed_values rule)
      | Some (JList items) \<Rightarrow> list_ex (\<lambda>item. json_text X item \<in> cr_allowed_values rule) items
      | _ \<Rightarrow> False)"

text \<open>
  \<open>rg_encrypt\<close>, \<open>rg_is_current\<close>, \<open>rg_reencrypt\<close>: the \<open>SecretCipher\<close> port; \<open>rg_fetch_sector\<close>: the
  \<open>SectorIdentifierFetcher\<close> port; \<open>rg_verify_bearer\<close>: the \<open>BearerTokenVerifier\<close> port.
\<close>

record registration_ports =
  rg_encrypt :: "str \<Rightarrow> str"
  rg_is_current :: "str \<Rightarrow> bool"
  rg_reencrypt :: "str \<Rightarrow> str"
  rg_fetch_sector :: "str \<Rightarrow> str option"
  rg_verify_bearer :: "str \<Rightarrow> (str \<times> json) list option"

text \<open>
  \<open>RegistrationConfig\<close> and the optional collaborators of the use case: the scope registry, the rule
  of the initial access authoriser, the cipher and the sector fetcher.
\<close>

record registration_config =
  rc_issuer :: str
  rc_base_url :: str
  rc_requires_initial_access_token :: bool
  rc_initial_access_token_hashes :: "str set"
  rc_initial_access_token_mode :: str
  rc_allow_full_grants :: bool
  rc_subject_seed :: str
  rc_registry :: "registry option"
  rc_authorizer :: "claim_rule option"
  rc_cipher :: bool
  rc_sector_fetcher :: bool

record client_registration =
  cg_client_id :: str
  cg_client_id_issued_at :: int
  cg_client_type :: client_type
  cg_token_endpoint_auth_method :: str
  cg_grant_types :: "str list"
  cg_response_types :: "str list"
  cg_scope :: str
  cg_redirect_uris :: "str list"
  cg_post_logout_redirect_uris :: "str list"
  cg_web_origins :: "str list"
  cg_jwks_uri :: str
  cg_jwks :: str
  cg_tls_client_auth_subject_dn :: str
  cg_tls_client_certificate_hash :: str
  cg_client_secret :: str
  cg_client_secret_expires_at :: int
  cg_registration_access_token :: str
  cg_registration_client_uri :: str
  cg_require_pushed_authorization_requests :: bool
  cg_require_consent :: bool
  cg_id_token_signed_response_alg :: str
  cg_userinfo_signed_response_alg :: str
  cg_id_token_encrypted_response_alg :: str
  cg_id_token_encrypted_response_enc :: str
  cg_frontchannel_logout_uri :: str
  cg_frontchannel_logout_session_required :: bool
  cg_backchannel_logout_uri :: str
  cg_backchannel_logout_session_required :: bool
  cg_dpop_bound_access_tokens :: bool
  cg_tls_client_certificate_bound_access_tokens :: bool
  cg_backchannel_token_delivery_mode :: str
  cg_backchannel_client_notification_endpoint :: str
  cg_backchannel_authentication_request_signing_alg :: str
  cg_subject_type :: str
  cg_sector_identifier_uri :: str
  cg_fapi_enabled :: bool
  cg_fapi2_enabled :: bool

definition hash_secret :: "services \<Rightarrow> str \<Rightarrow> str" where
  "hash_secret X value = sv_sha256_hex X value"

definition registration_known_scopes :: "registration_config \<Rightarrow> world \<Rightarrow> str set" where
  "registration_known_scopes C w =
     (case rc_registry C of None \<Rightarrow> standard_scopes | Some g \<Rightarrow> known_scope_names g w)"

subsection \<open>Classes of methods and algorithms\<close>

definition symmetric_signing_values :: "str list" where
  "symmetric_signing_values = map alg_value symmetric_algorithms"

definition symmetric_encryption_values :: "str list" where
  "symmetric_encryption_values = [''A128KW'', ''A256KW'', ''dir'']"

definition tls_key_auth_methods :: "auth_method list" where
  "tls_key_auth_methods = [TlsClientAuth, SelfSignedTlsClientAuth]"

definition keyless_auth_methods :: "auth_method list" where
  "keyless_auth_methods = [AuthNone, PrivateKeyJwt] @ tls_key_auth_methods"

definition full_grant_strong_auth_methods :: "auth_method list" where
  "full_grant_strong_auth_methods = [ClientSecretBasic, ClientSecretJwt, PrivateKeyJwt,
     TlsClientAuth, SelfSignedTlsClientAuth]"

definition full_grant_new_grants :: "str list" where
  "full_grant_new_grants = [''client_credentials'', device_code_grant_type, jwt_bearer_grant_type]"

definition fapi_strong_auth_methods :: "auth_method list" where
  "fapi_strong_auth_methods = [PrivateKeyJwt, TlsClientAuth, SelfSignedTlsClientAuth, ClientSecretJwt]"

subsection \<open>Checks of the metadata\<close>

definition method_material_error :: "registration_config \<Rightarrow> client_metadata \<Rightarrow> registration_error option" where
  "method_material_error C m =
     (if md_auth_method m = ClientSecretJwt \<and> \<not> rc_cipher C
      then Some (invalid_metadata (''client_secret_jwt exige un chiffreur de secrets disponible ''
        @ ''(cle de scellement KeyUse.SECRET)''))
      else if md_auth_method m = PrivateKeyJwt \<and> md_jwks m = [] \<and> md_jwks_uri m = []
      then Some (invalid_metadata ''private_key_jwt exige jwks ou jwks_uri'')
      else if md_auth_method m \<in> set tls_key_auth_methods
          \<and> md_tls_subject_dn m = [] \<and> md_tls_certificate_hash m = []
      then Some (invalid_metadata (auth_method_value (md_auth_method m)
        @ '' exige tls_client_auth_subject_dn ou tls_client_certificate''))
      else None)"

definition require_strong_auth :: "client_metadata \<Rightarrow> auth_method list \<Rightarrow> str \<Rightarrow> registration_error option" where
  "require_strong_auth m allowed message =
     (if md_auth_method m \<in> set allowed then None else Some (invalid_metadata message))"

definition grant_profile_error :: "registration_config \<Rightarrow> client_metadata \<Rightarrow> registration_error option" where
  "grant_profile_error C m =
     (if md_grant_types m \<inter> set full_grant_new_grants = {} then None
      else if \<not> rc_allow_full_grants C
      then Some (invalid_metadata ''Grants etendus desactives (dcr_allow_full_grants=false)'')
      else require_strong_auth m full_grant_strong_auth_methods
        ''Les grants etendus exigent private_key_jwt, tls_client_auth ou client_secret_basic'')"

definition fapi_registration_error :: "client_metadata \<Rightarrow> registration_error option" where
  "fapi_registration_error m =
     (if \<not> (md_fapi_enabled m \<or> md_fapi2_enabled m) then None
      else if md_fapi_enabled m \<and> md_fapi2_enabled m
      then Some (invalid_metadata ''fapi_enabled et fapi2_enabled sont exclusifs'')
      else require_strong_auth m fapi_strong_auth_methods
        ''Les profils FAPI en DCR exigent private_key_jwt ou tls_client_auth'')"

definition signing_material_error :: "registration_config \<Rightarrow> client_metadata \<Rightarrow> registration_error option" where
  "signing_material_error C m =
     (if md_id_token_signed_response_alg m \<notin> set symmetric_signing_values then None
      else if md_auth_method m \<in> set keyless_auth_methods
      then Some (invalid_metadata
        (''Un algorithme symetrique HS* signe l'' @ [CHR 0x27] @ ''id_token avec le secret partage : ''
         @ ''la methode d'' @ [CHR 0x27] @ ''authentification doit produire un secret client''))
      else if \<not> rc_cipher C
      then Some (invalid_metadata (''Un algorithme symetrique HS* exige un chiffreur de secrets ''
        @ ''disponible (cle de scellement KeyUse.SECRET)''))
      else None)"

definition first_text :: "str option \<Rightarrow> registration_error option" where
  "first_text problem = map_option invalid_metadata problem"

definition encryption_material_error :: "services \<Rightarrow> registration_config \<Rightarrow> client_metadata
    \<Rightarrow> registration_error option" where
  "encryption_material_error X C m =
     (let alg = md_id_token_encrypted_response_alg m; enc = md_id_token_encrypted_response_enc m in
      if alg = [] \<and> enc = [] then None
      else if alg = []
      then Some (invalid_metadata
        ''id_token_encrypted_response_enc exige id_token_encrypted_response_alg'')
      else if enc \<noteq> [] \<and> enc \<notin> set encryption_methods
      then Some (invalid_metadata
        ''id_token_encrypted_response_enc non supporte (attendu une methode JWE)'')
      else if alg \<in> set asymmetric_encryption_algorithms
      then (case keys_from_jwks_json X (md_jwks m) of
              Inl e \<Rightarrow> Some e
            | Inr keys \<Rightarrow> first_text (require_encryption_rsa_key keys))
      else if alg \<notin> set key_management_algorithms
      then Some (invalid_metadata
        ''id_token_encrypted_response_alg non supporte (attendu un algorithme JWE)'')
      else if md_auth_method m \<in> set keyless_auth_methods
      then Some (invalid_metadata
        (''Un algorithme symetrique chiffre l'' @ [CHR 0x27] @ ''id_token avec le secret partage : ''
         @ ''la methode d'' @ [CHR 0x27] @ ''authentification doit produire un secret client''))
      else if \<not> rc_cipher C
      then Some (invalid_metadata (''Un algorithme symetrique exige un chiffreur de secrets ''
        @ ''disponible (cle de scellement KeyUse.SECRET)''))
      else None)"

definition jwks_usage_error :: "services \<Rightarrow> client_metadata \<Rightarrow> registration_error option" where
  "jwks_usage_error X m =
     (if md_auth_method m \<noteq> PrivateKeyJwt \<or> md_jwks m = [] \<or> md_jwks_uri m \<noteq> [] then None
      else case keys_from_jwks_json X (md_jwks m) of
          Inl e \<Rightarrow> Some e
        | Inr keys \<Rightarrow> first_text (require_signing_key keys))"

text \<open>
  \<open>_validate_sector\<close>.  \<open>sorted(set(redirect_uris) - set(payload))\<close> is empty when the document
  covers every address.
\<close>

definition sector_error :: "services \<Rightarrow> registration_ports \<Rightarrow> registration_config \<Rightarrow> client_metadata
    \<Rightarrow> registration_error option" where
  "sector_error X P C m =
     (if md_sector_identifier_uri m = [] then None
      else if \<not> rc_sector_fetcher C
      then Some (invalid_metadata
        ''sector_identifier_uri non verifiable : fetcher de secteur non configure'')
      else case rg_fetch_sector P (md_sector_identifier_uri m) of
          None \<Rightarrow> Some (invalid_metadata ''sector_identifier_uri inaccessible ou non conforme'')
        | Some document \<Rightarrow>
            (case Option.bind (sv_json_loads X document) string_list of
               None \<Rightarrow> Some (invalid_metadata
                 ''sector_identifier_uri doit referencer un document JSON liste'')
             | Some covered \<Rightarrow>
                 let missing = md_redirect_uris m - set covered in
                 if missing = {} then None
                 else Some (invalid_metadata
                   (''sector_identifier_uri ne couvre pas toutes les redirect_uris declarees ''
                    @ join_with '', '' (sorted_strs missing)))))"

definition subject_metadata_error :: "services \<Rightarrow> registration_ports \<Rightarrow> registration_config
    \<Rightarrow> client_metadata \<Rightarrow> registration_error option" where
  "subject_metadata_error X P C m =
     (if md_subject_type m \<noteq> SubPublic \<and> rc_subject_seed C = []
      then Some (invalid_metadata (''subject_type='' @ subject_type_value (md_subject_type m)
        @ '' exige le seed serveur subject_pairwise_seed configure sur l'' @ [CHR 0x27] @ ''OP''))
      else if md_subject_type m = SubPairwise
      then (if md_sector_identifier_uri m \<noteq> [] then sector_error X P C m
            else let found = uri_host X ` md_redirect_uris m in
              if None \<in> found then Some (RegCrashed ''ValueError'')
              else if card (the ` found - {[]}) \<noteq> 1
              then Some (invalid_metadata (''subject_type=pairwise exige un sector_identifier_uri ''
                @ ''ou des redirect_uris d'' @ [CHR 0x27] @ ''hote unique''))
              else None)
      else None)"

text \<open>
  \<open>_validate_new_metadata\<close>: the checks without I/O are all evaluated, so that an exception of one
  leaves the function before the error of another is returned.
\<close>

definition metadata_error :: "services \<Rightarrow> registration_ports \<Rightarrow> registration_config
    \<Rightarrow> client_metadata \<Rightarrow> registration_error option" where
  "metadata_error X P C m =
     (let problems = concat (map (\<lambda>p. case p of None \<Rightarrow> [] | Some e \<Rightarrow> [e])
          [method_material_error C m, grant_profile_error C m, fapi_registration_error m,
           jwks_usage_error X m, signing_material_error C m, encryption_material_error X C m])
      in case List.find is_crash problems of
          Some crash \<Rightarrow> Some crash
        | None \<Rightarrow> (case problems of e # _ \<Rightarrow> Some e | [] \<Rightarrow> subject_metadata_error X P C m))"

subsection \<open>Checks of a replacement\<close>

definition rotation_error :: "services \<Rightarrow> str \<Rightarrow> str \<Rightarrow> client \<Rightarrow> client_metadata
    \<Rightarrow> registration_error option" where
  "rotation_error X missing stale c m =
     (if md_auth_method m \<in> {ClientSecretBasic, ClientSecretPost}
      then (if cl_client_secret_ciphertext c = [] \<and> md_requested_secret m = None
            then Some (invalid_metadata missing)
            else case md_requested_secret m of
                Some s \<Rightarrow>
                  (if hash_secret X s = cl_client_secret_hash c \<and> cl_client_secret_ciphertext c = []
                   then Some (invalid_metadata stale) else None)
              | None \<Rightarrow> None)
      else None)"

definition signing_rotation_error :: "services \<Rightarrow> client \<Rightarrow> client_metadata \<Rightarrow> registration_error option" where
  "signing_rotation_error X c m =
     (if md_id_token_signed_response_alg m \<notin> set symmetric_signing_values then None
      else rotation_error X
        (''Passage vers un algorithme HS* : le secret du client n'' @ [CHR 0x27] @ ''etant pas conserve, ''
         @ ''fournir un nouveau client_secret'')
        (''Passage vers un algorithme HS* : fournir un nouveau client_secret ''
         @ ''(le secret actuel n'' @ [CHR 0x27] @ ''est pas recuperable)'') c m)"

definition encryption_rotation_error :: "services \<Rightarrow> client \<Rightarrow> client_metadata \<Rightarrow> registration_error option" where
  "encryption_rotation_error X c m =
     (if md_id_token_encrypted_response_alg m \<notin> set symmetric_encryption_values then None
      else rotation_error X
        (''Passage vers un chiffrement symetrique : le secret du client n'' @ [CHR 0x27]
         @ ''etant pas conserve, fournir un nouveau client_secret'')
        (''Passage vers un chiffrement symetrique : fournir un nouveau client_secret ''
         @ ''(le secret actuel n'' @ [CHR 0x27] @ ''est pas recuperable)'') c m)"

subsection \<open>Secrets\<close>

type_synonym 'a registering = "(world, registration_error, 'a) prog"

text \<open>An optional error of a check becomes the refusal of the request.\<close>

definition reject_if :: "registration_error option \<Rightarrow> unit registering" where
  "reject_if e = (case e of None \<Rightarrow> ok () | Some d \<Rightarrow> raise d)"

definition needs_seal :: "client_metadata \<Rightarrow> bool" where
  "needs_seal m \<longleftrightarrow> md_id_token_signed_response_alg m \<in> set symmetric_signing_values
     \<or> md_id_token_encrypted_response_alg m \<in> set symmetric_encryption_values"

text \<open>
  \<open>_credentials_for\<close>: the hash, the ciphertext and the secret to hand out.  An absent cipher is an
  \<open>AttributeError\<close> at the call of \<open>encrypt\<close>.
\<close>

definition credentials_for :: "services \<Rightarrow> registration_ports \<Rightarrow> registration_config \<Rightarrow> client_metadata
    \<Rightarrow> (str \<times> str \<times> str) registering" where
  "credentials_for X P C m =
     (if md_auth_method m = ClientSecretJwt \<or> needs_seal m
      then andthen fresh_token (\<lambda>secret.
        andthen (ensure (rc_cipher C) (RegCrashed ''AttributeError'')) (\<lambda>_.
        let ciphertext = rg_encrypt P secret in
        ok (if md_auth_method m = ClientSecretJwt then ([], ciphertext, secret)
            else (hash_secret X secret, ciphertext, secret))))
      else if md_auth_method m \<in> {ClientSecretBasic, ClientSecretPost}
      then andthen fresh_token (\<lambda>secret. ok (hash_secret X secret, [], secret))
      else ok ([], [], []))"

definition seal_secret :: "registration_ports \<Rightarrow> registration_config \<Rightarrow> bool \<Rightarrow> str \<Rightarrow> str" where
  "seal_secret P C needed value = (if \<not> needed \<or> \<not> rc_cipher C then [] else rg_encrypt P value)"

text \<open>A ciphertext of the current key is kept, another one is sealed again.\<close>

definition resealed :: "registration_ports \<Rightarrow> str \<Rightarrow> str" where
  "resealed P ciphertext =
     (if rg_is_current P ciphertext then ciphertext else rg_reencrypt P ciphertext)"

definition recover_ciphertext :: "registration_ports \<Rightarrow> registration_config \<Rightarrow> client \<Rightarrow> bool \<Rightarrow> str" where
  "recover_ciphertext P C c needed =
     (if \<not> needed \<or> cl_client_secret_ciphertext c = [] \<or> \<not> rc_cipher C
      then (if \<not> needed then cl_client_secret_ciphertext c else [])
      else resealed P (cl_client_secret_ciphertext c))"

text \<open>\<open>_SecretRotation\<close>: the new hash, the secret to hand out, the new ciphertext.\<close>

record secret_rotation =
  sr_secret_hash :: str
  sr_issued_secret :: str
  sr_secret_ciphertext :: str

definition rotate_jwt_secret :: "registration_ports \<Rightarrow> registration_config \<Rightarrow> client \<Rightarrow> client_metadata
    \<Rightarrow> secret_rotation" where
  "rotate_jwt_secret P C c m =
     (if \<not> rc_cipher C
      then \<lparr>sr_secret_hash = [], sr_issued_secret = [], sr_secret_ciphertext = []\<rparr>
      else case md_requested_secret m of
          Some s \<Rightarrow> \<lparr>sr_secret_hash = [], sr_issued_secret = s, sr_secret_ciphertext = rg_encrypt P s\<rparr>
        | None \<Rightarrow>
            if cl_client_secret_ciphertext c = []
            then \<lparr>sr_secret_hash = [], sr_issued_secret = [], sr_secret_ciphertext = []\<rparr>
            else \<lparr>sr_secret_hash = [], sr_issued_secret = [],
                   sr_secret_ciphertext = resealed P (cl_client_secret_ciphertext c)\<rparr>)"

definition updated_credentials :: "services \<Rightarrow> registration_ports \<Rightarrow> registration_config \<Rightarrow> client
    \<Rightarrow> client_metadata \<Rightarrow> secret_rotation registering" where
  "updated_credentials X P C c m =
     (if md_auth_method m \<in> set keyless_auth_methods
      then ok \<lparr>sr_secret_hash = [], sr_issued_secret = [], sr_secret_ciphertext = []\<rparr>
      else if md_auth_method m = ClientSecretJwt then ok (rotate_jwt_secret P C c m)
      else case md_requested_secret m of
          Some s \<Rightarrow>
            if hash_secret X s = cl_client_secret_hash c \<and> cl_client_secret_ciphertext c \<noteq> []
            then ok \<lparr>sr_secret_hash = cl_client_secret_hash c, sr_issued_secret = [],
                   sr_secret_ciphertext = recover_ciphertext P C c (needs_seal m)\<rparr>
            else ok \<lparr>sr_secret_hash = hash_secret X s, sr_issued_secret = s,
                   sr_secret_ciphertext = seal_secret P C (needs_seal m) s\<rparr>
        | None \<Rightarrow>
            if cl_client_secret_hash c \<noteq> []
            then ok \<lparr>sr_secret_hash = cl_client_secret_hash c, sr_issued_secret = [],
                   sr_secret_ciphertext = recover_ciphertext P C c (needs_seal m)\<rparr>
            else andthen fresh_token (\<lambda>generated.
              ok \<lparr>sr_secret_hash = hash_secret X generated, sr_issued_secret = generated,
                sr_secret_ciphertext = seal_secret P C (needs_seal m) generated\<rparr>))"

subsection \<open>Authorisation\<close>

definition authorise_initial :: "services \<Rightarrow> registration_ports \<Rightarrow> registration_config \<Rightarrow> str \<Rightarrow> bool" where
  "authorise_initial X P C token =
     (if rc_initial_access_token_mode C = ''disabled'' then True
      else if rc_initial_access_token_mode C = ''jwt''
      then (case rc_authorizer C of
              None \<Rightarrow> False
            | Some rule \<Rightarrow> token \<noteq> [] \<and>
                (case rg_verify_bearer P token of
                   None \<Rightarrow> False | Some claims \<Rightarrow> rule_matches X rule claims))
      else if \<not> rc_requires_initial_access_token C then True
      else token \<noteq> [] \<and> hash_secret X token \<in> rc_initial_access_token_hashes C)"

definition authorise_registration :: "services \<Rightarrow> client \<Rightarrow> str \<Rightarrow> bool" where
  "authorise_registration X c token \<longleftrightarrow>
     token \<noteq> [] \<and> cl_registration_access_token_hash c \<noteq> []
     \<and> hash_secret X token = cl_registration_access_token_hash c"

definition resolve_managed :: "services \<Rightarrow> str \<Rightarrow> str \<Rightarrow> client registering" where
  "resolve_managed X client_id token =
     andthen (find_client client_id) (\<lambda>found.
       case found of
         None \<Rightarrow> raise (RegRefused ''invalid_client'' ''Client inconnu'' 404)
       | Some c \<Rightarrow>
           andthen (ensure (authorise_registration X c token) (RegRefused ''invalid_client''
               ''Registration access token manquant ou invalide'' 401)) (\<lambda>_. ok c))"

subsection \<open>The four operations\<close>

definition client_uri :: "registration_config \<Rightarrow> str \<Rightarrow> str" where
  "client_uri C client_id =
     rstrip_slash (if rc_base_url C \<noteq> [] then rc_base_url C else rc_issuer C)
       @ ''/register/'' @ client_id"

definition registration_response :: "services \<Rightarrow> registration_config \<Rightarrow> client \<Rightarrow> str \<Rightarrow> str
    \<Rightarrow> client_registration" where
  "registration_response X C c secret token = \<lparr>
     cg_client_id = cl_client_id c, cg_client_id_issued_at = epoch_seconds (cl_created_at c),
     cg_client_type = cl_client_type c,
     cg_token_endpoint_auth_method = auth_method_value (effective_auth_method c),
     cg_grant_types = [''authorization_code''], cg_response_types = [''code''],
     cg_scope = join_with '' '' (sorted_strs (cl_scopes c)),
     cg_redirect_uris = sorted_strs (cl_redirect_uris c),
     cg_post_logout_redirect_uris = sorted_strs (cl_post_logout_redirect_uris c),
     cg_web_origins = sorted_strs (cl_web_origins c),
     cg_jwks_uri = cl_jwks_uri c, cg_jwks = jwks_json X (cl_jwks c),
     cg_tls_client_auth_subject_dn = cl_tls_client_auth_subject_dn c,
     cg_tls_client_certificate_hash = cl_tls_client_certificate_hash c,
     cg_client_secret = secret, cg_client_secret_expires_at = 0,
     cg_registration_access_token = token,
     cg_registration_client_uri = client_uri C (cl_client_id c),
     cg_require_pushed_authorization_requests = cl_par_required c,
     cg_require_consent = cl_require_consent c,
     cg_id_token_signed_response_alg = cl_id_token_signed_response_alg c,
     cg_userinfo_signed_response_alg = cl_userinfo_signed_response_alg c,
     cg_id_token_encrypted_response_alg = cl_id_token_encrypted_response_alg c,
     cg_id_token_encrypted_response_enc = cl_id_token_encrypted_response_enc c,
     cg_frontchannel_logout_uri = cl_frontchannel_logout_uri c,
     cg_frontchannel_logout_session_required = cl_frontchannel_logout_session_required c,
     cg_backchannel_logout_uri = cl_backchannel_logout_uri c,
     cg_backchannel_logout_session_required = cl_backchannel_logout_session_required c,
     cg_dpop_bound_access_tokens = cl_require_dpop c,
     cg_tls_client_certificate_bound_access_tokens = cl_tls_bound_access_tokens c,
     cg_backchannel_token_delivery_mode = cl_backchannel_token_delivery_mode c,
     cg_backchannel_client_notification_endpoint = cl_backchannel_client_notification_endpoint c,
     cg_backchannel_authentication_request_signing_alg =
       cl_backchannel_authentication_request_signing_alg c,
     cg_subject_type = subject_type_value (cl_subject_type c),
     cg_sector_identifier_uri = cl_sector_identifier_uri c,
     cg_fapi_enabled = cl_fapi_enabled c, cg_fapi2_enabled = cl_fapi2_enabled c\<rparr>"

text \<open>
  The fields of the \<open>Client(...)\<close> calls that come from the metadata, over the defaults of the
  dataclass: neither call passes \<open>federated\<close>, \<open>authorization_signed_response_alg\<close> nor
  \<open>password_policy\<close>.
\<close>

definition described_client :: "str \<Rightarrow> instant \<Rightarrow> client_metadata \<Rightarrow> (str \<times> json) list list \<Rightarrow> client" where
  "described_client client_id created m keys = (new_client client_id created)\<lparr>
     cl_redirect_uris := md_redirect_uris m,
     cl_post_logout_redirect_uris := md_post_logout_redirect_uris m,
     cl_web_origins := md_web_origins m, cl_scopes := md_scopes m,
     cl_client_type := md_client_type m,
     cl_token_endpoint_auth_method := Some (md_auth_method m),
     cl_jwks_uri := md_jwks_uri m, cl_jwks := keys,
     cl_tls_client_auth_subject_dn := md_tls_subject_dn m,
     cl_tls_client_certificate_hash := md_tls_certificate_hash m,
     cl_par_required := md_par_required m, cl_require_consent := md_require_consent m,
     cl_require_dpop := md_dpop_bound_access_tokens m,
     cl_tls_bound_access_tokens := md_tls_bound_access_tokens m,
     cl_fapi_enabled := md_fapi_enabled m, cl_fapi2_enabled := md_fapi2_enabled m,
     cl_backchannel_user_code_parameter := md_user_code_parameter m,
     cl_id_token_signed_response_alg := md_id_token_signed_response_alg m,
     cl_userinfo_signed_response_alg := md_userinfo_signed_response_alg m,
     cl_id_token_encrypted_response_alg := md_id_token_encrypted_response_alg m,
     cl_id_token_encrypted_response_enc := md_id_token_encrypted_response_enc m,
     cl_frontchannel_logout_uri := md_frontchannel_logout_uri m,
     cl_frontchannel_logout_session_required := md_frontchannel_logout_session_required m,
     cl_backchannel_logout_uri := md_backchannel_logout_uri m,
     cl_backchannel_logout_session_required := md_backchannel_logout_session_required m,
     cl_backchannel_token_delivery_mode := md_token_delivery_mode m,
     cl_backchannel_client_notification_endpoint := md_notification_endpoint m,
     cl_backchannel_authentication_request_signing_alg := md_request_signing_alg m,
     cl_subject_type := md_subject_type m,
     cl_sector_identifier_uri := md_sector_identifier_uri m\<rparr>"

definition save_client :: "client \<Rightarrow> unit registering" where
  "save_client c = modify (\<lambda>w. w\<lparr>w_clients := clients_save c (w_clients w)\<rparr>)"

definition checked_metadata :: "services \<Rightarrow> registration_ports \<Rightarrow> registration_config \<Rightarrow> json
    \<Rightarrow> client_metadata registering" where
  "checked_metadata X P C body =
     andthen (peek (registration_known_scopes C)) (\<lambda>known.
     andthen (lift (parse_metadata X body known)) (\<lambda>m.
     andthen (reject_if (metadata_error X P C m)) (\<lambda>_. ok m)))"

definition register_client :: "services \<Rightarrow> registration_ports \<Rightarrow> registration_config \<Rightarrow> json \<Rightarrow> str
    \<Rightarrow> client_registration registering" where
  "register_client X P C body token =
     andthen (ensure (authorise_initial X P C token) (RegRefused ''invalid_client''
         ''Initial access token manquant ou invalide'' 401)) (\<lambda>_.
     andthen (checked_metadata X P C body) (\<lambda>m.
     andthen fresh_token (\<lambda>client_id.
     andthen (credentials_for X P C m) (\<lambda>(secret_hash, ciphertext, secret).
     andthen fresh_token (\<lambda>registration_token.
     andthen (lift (keys_from_jwks_json X (md_jwks m))) (\<lambda>keys.
     andthen now_utc (\<lambda>created.
     let c = (described_client client_id created m keys)\<lparr>
         cl_client_secret_hash := secret_hash, cl_client_secret_ciphertext := ciphertext,
         cl_registration_access_token_hash := hash_secret X registration_token\<rparr> in
     andthen (save_client c) (\<lambda>_.
     ok (registration_response X C c secret registration_token)))))))))"

definition read_client :: "services \<Rightarrow> registration_config \<Rightarrow> str \<Rightarrow> str
    \<Rightarrow> client_registration registering" where
  "read_client X C client_id token =
     andthen (resolve_managed X client_id token) (\<lambda>c. ok (registration_response X C c [] []))"

text \<open>The \<open>Client(...)\<close> call of an update: what the metadata says, and what stays.\<close>

definition replaced_client :: "client \<Rightarrow> client_metadata \<Rightarrow> (str \<times> json) list list \<Rightarrow> secret_rotation
    \<Rightarrow> client" where
  "replaced_client c m keys rotation = (described_client (cl_client_id c) (cl_created_at c) m keys)\<lparr>
       cl_client_secret_hash := sr_secret_hash rotation,
       cl_client_secret_ciphertext := sr_secret_ciphertext rotation,
       cl_registration_access_token_hash := cl_registration_access_token_hash c,
       cl_is_active := cl_is_active c,
       cl_session_lifetime_seconds := cl_session_lifetime_seconds c,
       cl_access_token_lifetime_seconds := cl_access_token_lifetime_seconds c,
       cl_authorization_code_lifetime_seconds := cl_authorization_code_lifetime_seconds c,
       cl_refresh_token_lifetime_seconds := cl_refresh_token_lifetime_seconds c,
       cl_device_code_lifetime_seconds := cl_device_code_lifetime_seconds c,
       cl_device_code_interval_seconds := cl_device_code_interval_seconds c,
       cl_binding_message_max_length := cl_binding_message_max_length c\<rparr>"

definition update_client :: "services \<Rightarrow> registration_ports \<Rightarrow> registration_config \<Rightarrow> str \<Rightarrow> str \<Rightarrow> json
    \<Rightarrow> client_registration registering" where
  "update_client X P C client_id token body =
     andthen (resolve_managed X client_id token) (\<lambda>c.
     andthen (checked_metadata X P C body) (\<lambda>m.
     andthen (reject_if (signing_rotation_error X c m)) (\<lambda>_.
     andthen (reject_if (encryption_rotation_error X c m)) (\<lambda>_.
     andthen (updated_credentials X P C c m) (\<lambda>rotation.
     andthen (lift (keys_from_jwks_json X (md_jwks m))) (\<lambda>keys.
     let updated = replaced_client c m keys rotation in
     andthen (save_client updated) (\<lambda>_.
     ok (registration_response X C updated (sr_issued_secret rotation) []))))))))"

definition delete_client :: "services \<Rightarrow> str \<Rightarrow> str \<Rightarrow> unit registering" where
  "delete_client X client_id token =
     andthen (resolve_managed X client_id token) (\<lambda>c.
       modify (\<lambda>w. w\<lparr>w_clients := clients_delete (cl_client_id c) (w_clients w)\<rparr>))"

end
