(* ===== verification/RegistrationRules.thy ===== *)
theory RegistrationRules
  imports RegistrationUse
begin

text \<open>
  What registration guarantees: the client it stores is usable and safe to use, its management is
  reserved to the holder of its registration token, what was registered is read back.
\<close>

subsection \<open>What the parsers check\<close>

lemma checkedE: "checked r f = Inr y \<Longrightarrow> (\<And>x. r = Inr x \<Longrightarrow> f x = Inr y \<Longrightarrow> thesis) \<Longrightarrow> thesis"
  by (auto simp: checked_Inr)

definition redirectable :: "services \<Rightarrow> str \<Rightarrow> bool" where
  "redirectable X uri \<longleftrightarrow> is_redirect_uri X uri = Some True"

lemma check_each_all: "check_each P f xs = Inr u \<Longrightarrow> x \<in> set xs \<Longrightarrow> P x = Some True"
  by (induction xs) (auto split: option.splits bool.splits)

lemma uri_list_redirectable:
  "parse_uri_list X raw key required = Inr U \<Longrightarrow> u \<in> U \<Longrightarrow> redirectable X u"
  by (auto simp: parse_uri_list_def redirectable_def checked_Inr dest: check_each_all
      split: option.splits if_splits)

lemma logout_uri_redirectable:
  "parse_logout_uri X raw key = Inr u \<Longrightarrow> u = [] \<or> redirectable X u"
  by (auto simp: parse_logout_uri_def redirectable_def checked_Inr
      split: option.splits if_splits json.splits bool.splits)

lemma notification_redirectable:
  "parse_notification_endpoint X raw = Inr u \<Longrightarrow> u = [] \<or> redirectable X u"
  by (auto simp: parse_notification_endpoint_def redirectable_def checked_Inr Let_def
      split: option.splits if_splits json.splits bool.splits)

lemma scopes_known: "parse_scopes raw known = Inr S \<Longrightarrow> S \<subseteq> known \<union> standard_scopes"
  by (auto simp: parse_scopes_def Let_def filter_empty_conv split: option.splits if_splits json.splits)

text \<open>What is left to know of a parsed body.\<close>

definition sane_metadata :: "services \<Rightarrow> str set \<Rightarrow> client_metadata \<Rightarrow> bool" where
  "sane_metadata X known m \<longleftrightarrow>
     (\<forall>u \<in> md_redirect_uris m \<union> md_post_logout_redirect_uris m. redirectable X u)
     \<and> (\<forall>u \<in> {md_frontchannel_logout_uri m, md_backchannel_logout_uri m, md_notification_endpoint m}.
          u = [] \<or> redirectable X u)
     \<and> md_scopes m \<subseteq> known \<union> standard_scopes
     \<and> (md_client_type m = Public \<longleftrightarrow> md_auth_method m = AuthNone)
     \<and> \<not> (md_fapi_enabled m \<and> md_fapi2_enabled m)"

lemma parsed_extras:
  "parse_metadata_extras X raw known = Inr e \<Longrightarrow>
     md_scopes e \<subseteq> known \<union> standard_scopes
     \<and> (\<forall>u \<in> {md_frontchannel_logout_uri e, md_backchannel_logout_uri e, md_notification_endpoint e}.
          u = [] \<or> redirectable X u)"
  unfolding parse_metadata_extras_def
  by (elim checkedE)
    (clarsimp dest!: scopes_known logout_uri_redirectable notification_redirectable)

lemma extended_metadata:
  assumes "metadata_extras.extend e \<lparr>md_redirect_uris = a, md_post_logout_redirect_uris = b,
     md_web_origins = w, md_client_type = t, md_grant_types = g, md_userinfo_signed_response_alg = u,
     md_subject_type = s, md_sector_identifier_uri = i, md_fapi_enabled = f, md_fapi2_enabled = h,
     md_user_code_parameter = k\<rparr> = m"
  shows "md_scopes m = md_scopes e \<and> md_auth_method m = md_auth_method e
    \<and> md_frontchannel_logout_uri m = md_frontchannel_logout_uri e
    \<and> md_backchannel_logout_uri m = md_backchannel_logout_uri e
    \<and> md_notification_endpoint m = md_notification_endpoint e
    \<and> md_redirect_uris m = a \<and> md_post_logout_redirect_uris m = b \<and> md_client_type m = t
    \<and> md_fapi_enabled m = f \<and> md_fapi2_enabled m = h"
  unfolding assms [symmetric] by (simp add: metadata_extras.defs)

lemma parsed_metadata:
  assumes parsed: "parse_metadata X body known = Inr m"
  shows "sane_metadata X known m"
proof -
  from parsed obtain raw e where extras: "parse_metadata_extras X raw known = Inr e"
    and uris: "parse_uri_list X raw ''redirect_uris'' (uses_redirect_flows raw) = Inr (md_redirect_uris m)"
      "parse_uri_list X raw ''post_logout_redirect_uris'' False = Inr (md_post_logout_redirect_uris m)"
    and taken: "md_scopes m = md_scopes e" "md_auth_method m = md_auth_method e"
      "md_frontchannel_logout_uri m = md_frontchannel_logout_uri e"
      "md_backchannel_logout_uri m = md_backchannel_logout_uri e"
      "md_notification_endpoint m = md_notification_endpoint e"
    and fresh: "md_client_type m = (if md_auth_method e = AuthNone then Public else Confidential)"
      "\<not> (md_fapi_enabled m \<and> md_fapi2_enabled m)"
    unfolding parse_metadata_def
    apply (cases body; simp only: json.case sum.simps)
    apply (elim checkedE)
    apply (simp only: sum.inject)
    apply (drule extended_metadata)
    apply (simp split: if_splits)
    done
  show ?thesis
    unfolding sane_metadata_def
    using parsed_extras [OF extras] uris [THEN uri_list_redirectable] by (auto simp: taken fresh)
qed

subsection \<open>What the checks leave\<close>

lemma metadata_accepted:
  assumes "metadata_error X P C m = None"
  shows "method_material_error C m = None" "fapi_registration_error m = None" "jwks_usage_error X m = None"
    "signing_material_error C m = None" "encryption_material_error X C m = None"
    "subject_metadata_error X P C m = None" "grant_profile_error C m = None"
proof -
  define ps where "ps = [method_material_error C m, grant_profile_error C m, fapi_registration_error m,
     jwks_usage_error X m, signing_material_error C m, encryption_material_error X C m]"
  define qs where "qs = concat (map (\<lambda>p. case p of None \<Rightarrow> [] | Some e \<Rightarrow> [e]) ps)"
  from assms have "qs = [] \<and> subject_metadata_error X P C m = None"
    by (auto simp: metadata_error_def qs_def ps_def Let_def split: option.splits list.splits)
  then have "\<forall>p \<in> set ps. p = None" and "subject_metadata_error X P C m = None"
    by (auto simp: qs_def split: option.splits)
  then show "method_material_error C m = None" "fapi_registration_error m = None" "jwks_usage_error X m = None"
    "signing_material_error C m = None" "encryption_material_error X C m = None"
    "subject_metadata_error X P C m = None" "grant_profile_error C m = None"
    by (simp_all add: ps_def)
qed

text \<open>
  The material a client needs for the way it authenticates, for the algorithm that signs its
  id_token and for the one that encrypts it.
\<close>

definition signing_key :: "(str \<times> json) list \<Rightarrow> bool" where
  "signing_key key \<longleftrightarrow> key_use key \<noteq> ''enc'' \<and> kty key \<in> {''RSA'', ''EC''}"

definition long_rsa_key :: "(str \<times> json) list \<Rightarrow> bool" where
  "long_rsa_key key \<longleftrightarrow> kty key = ''RSA'' \<and> key_use key \<noteq> ''sig''
     \<and> (\<exists>n. positive_int (map_of key ''n'') = Some n \<and> 2 ^ 2047 \<le> n)"

fun method_material :: "auth_method \<Rightarrow> client \<Rightarrow> bool" where
  "method_material AuthNone c = True"
| "method_material ClientSecretBasic c = (cl_client_secret_hash c \<noteq> [])"
| "method_material ClientSecretPost c = (cl_client_secret_hash c \<noteq> [])"
| "method_material ClientSecretJwt c = (cl_client_secret_ciphertext c \<noteq> [])"
| "method_material PrivateKeyJwt c =
     (cl_jwks_uri c \<noteq> [] \<or> (\<exists>key \<in> set (cl_jwks c). signing_key key))"
| "method_material TlsClientAuth c =
     (cl_tls_client_auth_subject_dn c \<noteq> [] \<or> cl_tls_client_certificate_hash c \<noteq> [])"
| "method_material SelfSignedTlsClientAuth c =
     (cl_tls_client_auth_subject_dn c \<noteq> [] \<or> cl_tls_client_certificate_hash c \<noteq> [])"

definition shares_secret :: "client \<Rightarrow> bool" where
  "shares_secret c \<longleftrightarrow> cl_id_token_signed_response_alg c \<in> set symmetric_signing_values
     \<or> cl_id_token_encrypted_response_alg c \<in> set symmetric_encryption_values"

definition token_material :: "client \<Rightarrow> bool" where
  "token_material c \<longleftrightarrow>
     (shares_secret c \<longrightarrow> cl_client_secret_ciphertext c \<noteq> []
        \<and> effective_auth_method c \<in> {ClientSecretBasic, ClientSecretPost, ClientSecretJwt})
     \<and> (cl_id_token_encrypted_response_alg c \<in> {''RSA-OAEP'', ''RSA-OAEP-256''} \<longrightarrow>
          (\<exists>key \<in> set (cl_jwks c). long_rsa_key key))"

definition sane_client :: "services \<Rightarrow> str set \<Rightarrow> client \<Rightarrow> bool" where
  "sane_client X known c \<longleftrightarrow>
     (\<forall>u \<in> cl_redirect_uris c \<union> cl_post_logout_redirect_uris c. redirectable X u)
     \<and> (\<forall>u \<in> {cl_frontchannel_logout_uri c, cl_backchannel_logout_uri c,
               cl_backchannel_client_notification_endpoint c}. u = [] \<or> redirectable X u)
     \<and> cl_scopes c \<subseteq> known \<union> standard_scopes
     \<and> (cl_client_type c = Public \<longleftrightarrow> effective_auth_method c = AuthNone)
     \<and> \<not> (cl_fapi_enabled c \<and> cl_fapi2_enabled c)
     \<and> (cl_fapi_enabled c \<or> cl_fapi2_enabled c \<longrightarrow> effective_auth_method c
          \<in> {PrivateKeyJwt, TlsClientAuth, SelfSignedTlsClientAuth, ClientSecretJwt})"

definition well_registered :: "services \<Rightarrow> str set \<Rightarrow> client \<Rightarrow> bool" where
  "well_registered X known c \<longleftrightarrow>
     sane_client X known c \<and> method_material (effective_auth_method c) c \<and> token_material c"

lemma described_fields [simp]:
  fixes cid now m keys
  defines "d \<equiv> described_client cid now m keys"
  shows "cl_client_id d = cid" "effective_auth_method d = md_auth_method m"
    "cl_jwks d = keys" "cl_jwks_uri d = md_jwks_uri m" "cl_redirect_uris d = md_redirect_uris m"
    "cl_tls_client_auth_subject_dn d = md_tls_subject_dn m"
    "cl_tls_client_certificate_hash d = md_tls_certificate_hash m"
    "cl_id_token_signed_response_alg d = md_id_token_signed_response_alg m"
    "cl_id_token_encrypted_response_alg d = md_id_token_encrypted_response_alg m"
    "cl_is_active d"
  by (simp_all add: d_def described_client_def new_client_def effective_auth_method_def)

lemma accepted_sane:
  assumes "sane_metadata X known m" and "metadata_error X P C m = None"
  shows "sane_client X known (described_client cid now m keys)"
proof -
  from metadata_accepted(2) [OF assms(2)]
  have "md_fapi_enabled m \<or> md_fapi2_enabled m \<Longrightarrow> md_auth_method m
      \<in> {PrivateKeyJwt, TlsClientAuth, SelfSignedTlsClientAuth, ClientSecretJwt}"
    by (auto simp: fapi_registration_error_def require_strong_auth_def fapi_strong_auth_methods_def
        split: if_splits)
  with assms(1) show ?thesis
    by (simp add: sane_client_def sane_metadata_def)
      (simp add: described_client_def new_client_def)
qed

lemma accepted_keys:
  assumes fine: "metadata_error X P C m = None" and read: "keys_from_jwks_json X (md_jwks m) = Inr keys"
  shows "md_auth_method m = PrivateKeyJwt \<Longrightarrow>
      md_jwks_uri m \<noteq> [] \<or> (\<exists>key \<in> set keys. signing_key key)"
    and "md_auth_method m \<in> {TlsClientAuth, SelfSignedTlsClientAuth} \<Longrightarrow>
      md_tls_subject_dn m \<noteq> [] \<or> md_tls_certificate_hash m \<noteq> []"
    and "md_id_token_encrypted_response_alg m \<in> {''RSA-OAEP'', ''RSA-OAEP-256''} \<Longrightarrow>
      \<exists>key \<in> set keys. long_rsa_key key"
    and "needs_seal m \<or> md_auth_method m = ClientSecretJwt \<Longrightarrow> rc_cipher C"
    and "needs_seal m \<Longrightarrow>
      md_auth_method m \<in> {ClientSecretBasic, ClientSecretPost, ClientSecretJwt}"
proof -
  note checks = metadata_accepted [OF fine]
  show "md_auth_method m = PrivateKeyJwt \<Longrightarrow>
      md_jwks_uri m \<noteq> [] \<or> (\<exists>key \<in> set keys. signing_key key)"
    using checks(1,3) read
    by (auto simp: method_material_error_def jwks_usage_error_def first_text_def require_signing_key_def
        usable_for_signing_def supported_ktys_def signing_key_def split: if_splits)
  show "md_auth_method m \<in> {TlsClientAuth, SelfSignedTlsClientAuth} \<Longrightarrow>
      md_tls_subject_dn m \<noteq> [] \<or> md_tls_certificate_hash m \<noteq> []"
    using checks(1) by (auto simp: method_material_error_def tls_key_auth_methods_def split: if_splits)
  show "md_id_token_encrypted_response_alg m \<in> {''RSA-OAEP'', ''RSA-OAEP-256''} \<Longrightarrow>
      \<exists>key \<in> set keys. long_rsa_key key"
    using checks(5) read
    by (auto simp: encryption_material_error_def asymmetric_encryption_algorithms_def first_text_def
        require_encryption_rsa_key_def encryption_rsa_key_def long_rsa_key_def long_modulus Let_def
        split: if_splits option.splits)
  have same_method: "md_auth_method m \<notin> set keyless_auth_methods \<and> rc_cipher C" if "needs_seal m"
    using that checks(4,5)
    by (auto simp: needs_seal_def signing_material_error_def encryption_material_error_def Let_def
        asymmetric_encryption_algorithms_def symmetric_encryption_values_def split: if_splits)
  then show "needs_seal m \<or> md_auth_method m = ClientSecretJwt \<Longrightarrow> rc_cipher C"
    using checks(1) by (auto simp: method_material_error_def split: if_splits)
  show "needs_seal m \<Longrightarrow>
      md_auth_method m \<in> {ClientSecretBasic, ClientSecretPost, ClientSecretJwt}"
    using same_method
    by (cases "md_auth_method m") (auto simp: keyless_auth_methods_def tls_key_auth_methods_def)
qed

subsection \<open>Registration\<close>

lemma checked_metadata_ran:
  assumes "checked_metadata X P C body w = (Inr m, v)"
  shows "v = w" "sane_metadata X (registration_known_scopes C w) m" "metadata_error X P C m = None"
  using assms
  by (auto simp: checked_metadata_def reject_if_def prog_simps dest: parsed_metadata
      split: option.splits)

text \<open>The credentials of a metadata record: hash, ciphertext and the secret both come from.\<close>

definition credentials_fit :: "services \<Rightarrow> registration_ports \<Rightarrow> client_metadata \<Rightarrow> str \<Rightarrow> str \<Rightarrow> str \<Rightarrow> bool" where
  "credentials_fit X P m h ciphertext secret \<longleftrightarrow>
     (md_auth_method m \<in> {ClientSecretBasic, ClientSecretPost} \<longrightarrow> h = hash_secret X secret)
     \<and> (needs_seal m \<or> md_auth_method m = ClientSecretJwt \<longrightarrow> ciphertext = rg_encrypt P secret)"

lemma credentials_ran:
  assumes "credentials_for X P C m w = (Inr (h, ciphertext, secret), v)"
  shows "\<exists>n. v = w\<lparr>w_draw := n\<rparr>" "credentials_fit X P m h ciphertext secret"
proof -
  from assms have "v = w\<lparr>w_draw := Suc (w_draw w)\<rparr> \<or> v = w"
    and "credentials_fit X P m h ciphertext secret"
    by (simp_all add: credentials_for_def credentials_fit_def prog_simps Let_def split: if_splits)
  moreover have "w = w\<lparr>w_draw := w_draw w\<rparr>" by simp
  ultimately show "\<exists>n. v = w\<lparr>w_draw := n\<rparr>" "credentials_fit X P m h ciphertext secret" by metis+
qed

lemma registration_ran:
  assumes "register_client X P C body token w = (Inr r, v)"
  obtains m keys c n t secret registration_token where
    "authorise_initial X P C token" "sane_metadata X (registration_known_scopes C w) m"
    "metadata_error X P C m = None" "keys_from_jwks_json X (md_jwks m) = Inr keys"
    "c = (described_client (cg_client_id r) t m keys)\<lparr>
       cl_client_secret_hash := cl_client_secret_hash c,
       cl_client_secret_ciphertext := cl_client_secret_ciphertext c,
       cl_registration_access_token_hash := hash_secret X registration_token\<rparr>"
    "credentials_fit X P m (cl_client_secret_hash c) (cl_client_secret_ciphertext c) secret"
    "r = registration_response X C c secret registration_token"
    "\<exists>k. registration_token = w_rand w k"
    "v = w\<lparr>w_clients := clients_save c (w_clients w), w_draw := n, w_tick := Suc (w_tick w)\<rparr>"
proof -
  from assms obtain m w' u h ciphertext secret keys where
    start: "authorise_initial X P C token" "checked_metadata X P C body w = (Inr m, w')"
    and creds: "credentials_for X P C m (w'\<lparr>w_draw := Suc (w_draw w')\<rparr>) = (Inr (h, ciphertext, secret), u)"
    and keys: "keys_from_jwks_json X (md_jwks m) = Inr keys"
    and result: "(Inr r, v) = (let c = (described_client (w_rand w' (w_draw w')) (current u) m keys)\<lparr>
         cl_client_secret_hash := h, cl_client_secret_ciphertext := ciphertext,
         cl_registration_access_token_hash := hash_secret X (w_rand u (w_draw u))\<rparr>
       in (Inr (registration_response X C c secret (w_rand u (w_draw u))) :: registration_error + _,
         u\<lparr>w_draw := Suc (w_draw u), w_tick := Suc (w_tick u),
           w_clients := clients_save c (w_clients u)\<rparr>))"
    by (force simp: register_client_def save_client_def prog_simps Let_def current_def
        split: prod.splits if_splits)
  have [simp]: "w' = w" using checked_metadata_ran(1) [OF start(2)] .
  from credentials_ran(1) [OF creds] obtain n where u: "u = w\<lparr>w_draw := n\<rparr>" by auto
  note fit = credentials_ran(2) [OF creds]
  note checks = checked_metadata_ran(2,3) [OF start(2)]
  from result show thesis
    by (intro that [OF start(1) checks keys, where secret = secret
          and registration_token = "w_rand w n" and n = "Suc n" and t = "current w"
          and c = "(described_client (w_rand w (w_draw w)) (current u) m keys)\<lparr>
            cl_client_secret_hash := h, cl_client_secret_ciphertext := ciphertext,
            cl_registration_access_token_hash := hash_secret X (w_rand w n)\<rparr>"])
      (auto simp: u fit Let_def current_def registration_response_def)
qed

text \<open>What the ports are expected to keep: no ciphertext and no hash is empty.\<close>

definition sealing :: "services \<Rightarrow> registration_ports \<Rightarrow> bool" where
  "sealing X P \<longleftrightarrow> (\<forall>s. rg_encrypt P s \<noteq> [] \<and> sv_sha256_hex X s \<noteq> []) \<and> (\<forall>t. rg_reencrypt P t \<noteq> [])"

lemma with_secrets:
  fixes d h ct tk
  defines "c \<equiv> d\<lparr>cl_client_secret_hash := h, cl_client_secret_ciphertext := ct,
    cl_registration_access_token_hash := tk\<rparr>"
  shows "sane_client X known c = sane_client X known d" "effective_auth_method c = effective_auth_method d"
    "cl_jwks c = cl_jwks d" "cl_jwks_uri c = cl_jwks_uri d"
    "cl_tls_client_auth_subject_dn c = cl_tls_client_auth_subject_dn d"
    "cl_tls_client_certificate_hash c = cl_tls_client_certificate_hash d"
    "cl_id_token_signed_response_alg c = cl_id_token_signed_response_alg d"
    "cl_id_token_encrypted_response_alg c = cl_id_token_encrypted_response_alg d"
    "cl_client_secret_hash c = h" "cl_client_secret_ciphertext c = ct"
    "cl_registration_access_token_hash c = tk" "cl_client_id c = cl_client_id d"
  by (simp_all add: c_def sane_client_def effective_auth_method_def)

text \<open>
  A client described by accepted metadata is well registered as soon as it has the hash or the
  ciphertext its method and its algorithms ask for.
\<close>

lemma described_well_registered:
  assumes sane: "sane_metadata X known m" and fine: "metadata_error X P C m = None"
    and read: "keys_from_jwks_json X (md_jwks m) = Inr keys"
    and c: "c = (described_client cid now m keys)\<lparr>cl_client_secret_hash := h,
      cl_client_secret_ciphertext := ct, cl_registration_access_token_hash := tk\<rparr>"
  shows "well_registered X known c \<longleftrightarrow>
    (md_auth_method m \<in> {ClientSecretBasic, ClientSecretPost} \<longrightarrow> h \<noteq> [])
    \<and> (needs_seal m \<or> md_auth_method m = ClientSecretJwt \<longrightarrow> ct \<noteq> [])"
proof -
  note keys = accepted_keys [OF fine read]
  have "method_material (md_auth_method m) c \<longleftrightarrow>
      (md_auth_method m \<in> {ClientSecretBasic, ClientSecretPost} \<longrightarrow> h \<noteq> [])
      \<and> (md_auth_method m = ClientSecretJwt \<longrightarrow> ct \<noteq> [])"
    using keys(1,2) by (cases "md_auth_method m") (auto simp: c with_secrets)
  moreover have "token_material c \<longleftrightarrow> (needs_seal m \<longrightarrow> ct \<noteq> [])"
    using keys(3,5)
    by (auto simp: c with_secrets token_material_def shares_secret_def needs_seal_def)
  ultimately show ?thesis
    using accepted_sane [OF sane fine] by (auto simp: well_registered_def c with_secrets)
qed


text \<open>What a successful registration hands out works: the registration token opens the client's
  configuration, which is the one just answered without its secrets, and a client that authenticates
  with a plain secret is accepted with the secret it was given.
\<close>

lemma registered_client_usable:
  assumes run: "register_client X P C body token w = (Inr r, v)" and ports: "sealing X P"
    and drawn: "\<forall>k. w_rand w k \<noteq> []"
  shows "read_client X C (cg_client_id r) (cg_registration_access_token r) v
      = (Inr (r\<lparr>cg_client_secret := [], cg_registration_access_token := []\<rparr>), v)
    \<and> (\<exists>c. clients_find (w_clients v) (cg_client_id r) = Some c \<and> cl_is_active c
        \<and> (effective_auth_method c \<in> {ClientSecretBasic, ClientSecretPost} \<longrightarrow>
             (\<forall>cr u. cr_secret cr = cg_client_secret r \<longrightarrow>
                fst (authenticate_client X c cr u) = Inr None)))"
proof -
  from run obtain m keys c n t secret tk where
    c: "c = (described_client (cg_client_id r) t m keys)\<lparr>
       cl_client_secret_hash := cl_client_secret_hash c,
       cl_client_secret_ciphertext := cl_client_secret_ciphertext c,
       cl_registration_access_token_hash := hash_secret X tk\<rparr>"
    and fit: "credentials_fit X P m (cl_client_secret_hash c) (cl_client_secret_ciphertext c) secret"
    and r: "r = registration_response X C c secret tk" and tk: "\<exists>k. tk = w_rand w k"
    and v: "v = w\<lparr>w_clients := clients_save c (w_clients w), w_draw := n, w_tick := Suc (w_tick w)\<rparr>"
    by (rule registration_ran)
  have fields: "cl_client_id c = cg_client_id r" "effective_auth_method c = md_auth_method m"
    "cl_registration_access_token_hash c = hash_secret X tk" "cl_is_active c"
    by (subst c, simp add: with_secrets described_client_def new_client_def effective_auth_method_def)+
  have found: "clients_find (w_clients v) (cg_client_id r) = Some c"
    by (simp add: v repo_simps fields)
  have "authorise_registration X c tk"
    using ports tk drawn by (auto simp: authorise_registration_def fields sealing_def hash_secret_def)
  moreover have "cg_registration_access_token r = tk" "cg_client_secret r = secret"
    by (simp_all add: r registration_response_def)
  moreover have "registration_response X C c [] []
      = r\<lparr>cg_client_secret := [], cg_registration_access_token := []\<rparr>"
    by (simp add: r registration_response_def)
  ultimately show ?thesis
    using found fit fields(2,4)
    by (auto simp: read_client_def resolve_managed_def find_client_def run_simps prog_defs
        credentials_fit_def hash_secret_def authenticate_client_def verify_client_secret_def
        split: auth_method.splits)
qed

subsection \<open>Replacement and deletion\<close>

lemma managed_run:
  "resolve_managed X client_id token w = (res, v) \<longleftrightarrow> v = w \<and>
     (case res of
        Inr c \<Rightarrow> clients_find (w_clients w) client_id = Some c \<and> authorise_registration X c token
      | Inl e \<Rightarrow> (clients_find (w_clients w) client_id = None
            \<and> e = RegRefused ''invalid_client'' ''Client inconnu'' 404)
          \<or> (\<exists>c. clients_find (w_clients w) client_id = Some c \<and> \<not> authorise_registration X c token
            \<and> e = RegRefused ''invalid_client'' ''Registration access token manquant ou invalide'' 401))"
  by (cases "clients_find (w_clients w) client_id"; cases res)
    (auto simp: resolve_managed_def find_client_def run_simps raise_def ok_def)

text \<open>
  The secrets of a replaced client, as far as its method and algorithms need them; the exception is
  a client that turns to \<open>client_secret_jwt\<close> without a sealed secret and without giving one.
\<close>

definition strands :: "client \<Rightarrow> client_metadata \<Rightarrow> bool" where
  "strands c m \<longleftrightarrow> md_auth_method m = ClientSecretJwt \<and> md_requested_secret m = None
     \<and> cl_client_secret_ciphertext c = []"

lemma updated_credentials_ran:
  assumes run: "updated_credentials X P C c m w = (Inr rot, v)" and ports: "sealing X P"
    and fine: "metadata_error X P C m = None" and read: "keys_from_jwks_json X (md_jwks m) = Inr keys"
    and turns: "signing_rotation_error X c m = None" "encryption_rotation_error X c m = None"
  shows "v = w \<or> v = w\<lparr>w_draw := Suc (w_draw w)\<rparr>"
    and "(md_auth_method m \<in> {ClientSecretBasic, ClientSecretPost} \<longrightarrow> sr_secret_hash rot \<noteq> [])
      \<and> (needs_seal m \<or> md_auth_method m = ClientSecretJwt \<longrightarrow> sr_secret_ciphertext rot \<noteq> [])
      \<longleftrightarrow> \<not> strands c m"
proof -
  show "v = w \<or> v = w\<lparr>w_draw := Suc (w_draw w)\<rparr>"
    using run by (simp add: updated_credentials_def prog_simps split: if_splits option.splits)
  have full: "rg_encrypt P s \<noteq> []" "hash_secret X s \<noteq> []" "rg_reencrypt P t \<noteq> []" for s t
    using ports by (simp_all add: sealing_def hash_secret_def)
  have again: "resealed P t \<noteq> []" if "t \<noteq> []" for t
    using that full by (simp add: resealed_def)
  note cipher = accepted_keys(4,5) [OF fine read]
  have known: "cl_client_secret_ciphertext c \<noteq> []"
    if "md_auth_method m \<in> {ClientSecretBasic, ClientSecretPost}" "needs_seal m"
      "md_requested_secret m = None"
    using that turns by (auto simp: signing_rotation_error_def encryption_rotation_error_def
        rotation_error_def needs_seal_def split: if_splits)
  show "(md_auth_method m \<in> {ClientSecretBasic, ClientSecretPost} \<longrightarrow> sr_secret_hash rot \<noteq> [])
      \<and> (needs_seal m \<or> md_auth_method m = ClientSecretJwt \<longrightarrow> sr_secret_ciphertext rot \<noteq> [])
      \<longleftrightarrow> \<not> strands c m"
  proof (cases "md_auth_method m = ClientSecretJwt")
    case True
    with run cipher full again show ?thesis
      by (auto simp: updated_credentials_def keyless_auth_methods_def tls_key_auth_methods_def
          rotate_jwt_secret_def strands_def prog_simps split: option.splits)
  next
    case False
    with run cipher known full again show ?thesis
      by (auto simp: updated_credentials_def keyless_auth_methods_def tls_key_auth_methods_def
          recover_ciphertext_def seal_secret_def strands_def prog_simps split: option.splits if_splits)
  qed
qed

lemma refused_if_iff [prog_simps]:
  "reject_if e w = (r, v) \<longleftrightarrow> v = w \<and> r = (case e of None \<Rightarrow> Inr () | Some d \<Rightarrow> Inl d)"
  by (auto simp: reject_if_def prog_simps split: option.splits)

lemma checked_metadata_iff:
  "checked_metadata X P C body w = (res, v) \<longleftrightarrow> v = w \<and>
     checked (parse_metadata X body (registration_known_scopes C w)) (\<lambda>m.
       case metadata_error X P C m of None \<Rightarrow> Inr m | Some d \<Rightarrow> Inl d) = res"
  by (cases "parse_metadata X body (registration_known_scopes C w)")
    (auto simp: checked_metadata_def run_simps reject_if_def prog_defs andthen_def split: option.splits)

lemma updated_run:
  assumes "update_client X P C client_id token body w = (Inr r, v)"
  obtains c m keys rot u where
    "clients_find (w_clients w) client_id = Some c" "authorise_registration X c token"
    "parse_metadata X body (registration_known_scopes C w) = Inr m"
    "metadata_error X P C m = None" "keys_from_jwks_json X (md_jwks m) = Inr keys"
    "signing_rotation_error X c m = None" "encryption_rotation_error X c m = None"
    "updated_credentials X P C c m w = (Inr rot, u)"
    "v = u\<lparr>w_clients := clients_save (replaced_client c m keys rot) (w_clients u)\<rparr>"
proof -
  from assms obtain c m keys rot u where
    "resolve_managed X client_id token w = (Inr c, w)"
    "checked_metadata X P C body w = (Inr m, w)"
    "signing_rotation_error X c m = None" "encryption_rotation_error X c m = None"
    "updated_credentials X P C c m w = (Inr rot, u)" "keys_from_jwks_json X (md_jwks m) = Inr keys"
    "v = u\<lparr>w_clients := clients_save (replaced_client c m keys rot) (w_clients u)\<rparr>"
    by (auto simp: update_client_def save_client_def prog_simps managed_run checked_metadata_iff Let_def
        split: option.splits)
  then show thesis
    by (intro that) (auto simp: managed_run checked_metadata_iff checked_Inr split: option.splits)
qed

lemma well_registered_lifetimes:
  fixes d a s t co re di de b
  defines "c \<equiv> d\<lparr>cl_is_active := a, cl_session_lifetime_seconds := s,
    cl_access_token_lifetime_seconds := t, cl_authorization_code_lifetime_seconds := co,
    cl_refresh_token_lifetime_seconds := re, cl_device_code_lifetime_seconds := de,
    cl_device_code_interval_seconds := di, cl_binding_message_max_length := b\<rparr>"
  shows "well_registered X known c = well_registered X known d"
proof -
  have same_method: "effective_auth_method c = effective_auth_method d"
    by (simp add: c_def effective_auth_method_def)
  moreover have "method_material k c = method_material k d" for k
    by (cases k) (simp_all add: c_def)
  moreover have "sane_client X known c = sane_client X known d"
    unfolding sane_client_def same_method by (simp add: c_def)
  moreover have "token_material c = token_material d"
    unfolding token_material_def same_method by (simp add: c_def shares_secret_def)
  ultimately show ?thesis by (simp add: well_registered_def)
qed

text \<open>C27. A replacement keeps the identifier, the registration token, the creation date and the activity
  of the client, and leaves it well registered, except when the client turns to
  \<open>client_secret_jwt\<close> without having a sealed secret and without giving a new secret: the update is
  then accepted and leaves a client with no secret at all.
\<close>

theorem replaced_client_wf:
  assumes run: "update_client X P C client_id token body w = (Inr r, v)" and ports: "sealing X P"
  shows "\<exists>old m new. clients_find (w_clients w) client_id = Some old
    \<and> parse_metadata X body (registration_known_scopes C w) = Inr m
    \<and> clients_find (w_clients v) (cl_client_id old) = Some new
    \<and> cl_client_id new = cl_client_id old \<and> cl_created_at new = cl_created_at old
    \<and> cl_registration_access_token_hash new = cl_registration_access_token_hash old
    \<and> cl_is_active new = cl_is_active old
    \<and> (well_registered X (registration_known_scopes C w) new \<longleftrightarrow> \<not> strands old m)
    \<and> (strands old m \<longrightarrow> cl_client_secret_hash new = [] \<and> cl_client_secret_ciphertext new = [])"
proof -
  from run obtain c m keys rot u where
    found: "clients_find (w_clients w) client_id = Some c"
    and parsed: "parse_metadata X body (registration_known_scopes C w) = Inr m"
    and fine: "metadata_error X P C m = None" and keys: "keys_from_jwks_json X (md_jwks m) = Inr keys"
    and turns: "signing_rotation_error X c m = None" "encryption_rotation_error X c m = None"
    and creds: "updated_credentials X P C c m w = (Inr rot, u)"
    and v: "v = u\<lparr>w_clients := clients_save (replaced_client c m keys rot) (w_clients u)\<rparr>"
    by (rule updated_run)
  define new where "new = replaced_client c m keys rot"
  define d where "d = (described_client (cl_client_id c) (cl_created_at c) m keys)\<lparr>
     cl_client_secret_hash := sr_secret_hash rot, cl_client_secret_ciphertext := sr_secret_ciphertext rot,
     cl_registration_access_token_hash := cl_registration_access_token_hash c\<rparr>"
  have kept: "cl_client_id new = cl_client_id c" "cl_created_at new = cl_created_at c"
    "cl_registration_access_token_hash new = cl_registration_access_token_hash c"
    "cl_is_active new = cl_is_active c" "cl_client_secret_hash new = sr_secret_hash rot"
    "cl_client_secret_ciphertext new = sr_secret_ciphertext rot"
    by (simp_all add: new_def replaced_client_def described_client_def new_client_def)
  have "well_registered X known new = well_registered X known d" for known
    unfolding new_def d_def replaced_client_def by (rule well_registered_lifetimes)
  then have "well_registered X (registration_known_scopes C w) new \<longleftrightarrow> \<not> strands c m"
    using described_well_registered [OF parsed_metadata [OF parsed] fine keys d_def]
      updated_credentials_ran(2) [OF creds ports fine keys turns] by simp
  moreover have "cl_client_secret_hash new = [] \<and> cl_client_secret_ciphertext new = []" if "strands c m"
    using that creds
    by (auto simp: kept strands_def updated_credentials_def rotate_jwt_secret_def keyless_auth_methods_def
        tls_key_auth_methods_def prog_simps)
  ultimately show ?thesis
    using found parsed kept by (auto simp: v repo_simps new_def [symmetric] intro!: exI [of _ c] exI [of _ m])
qed

subsection \<open>Who may touch a client\<close>

text \<open>The requests of callers who hold no bearer token outside \<open>T\<close>, in any order.\<close>

inductive registration_later :: "services \<Rightarrow> registration_ports \<Rightarrow> registration_config \<Rightarrow> str set
    \<Rightarrow> world \<Rightarrow> world \<Rightarrow> bool" for X P C T w where
  no_request: "registration_later X P C T w w"
| registers: "registration_later X P C T w u \<Longrightarrow> register_client X P C body token u = (res, v) \<Longrightarrow>
    registration_later X P C T w v"
| reads: "registration_later X P C T w u \<Longrightarrow> token \<in> T \<Longrightarrow>
    read_client X C client_id token u = (res, v) \<Longrightarrow> registration_later X P C T w v"
| updates: "registration_later X P C T w u \<Longrightarrow> token \<in> T \<Longrightarrow>
    update_client X P C client_id token body u = (res, v) \<Longrightarrow> registration_later X P C T w v"
| deletes: "registration_later X P C T w u \<Longrightarrow> token \<in> T \<Longrightarrow>
    delete_client X client_id token u = (res', v) \<Longrightarrow> registration_later X P C T w v"

text \<open>What a request leaves of one client and of the randomness.\<close>

definition spares :: "str \<Rightarrow> world \<Rightarrow> world \<Rightarrow> bool" where
  "spares k w v \<longleftrightarrow> w_rand v = w_rand w \<and>
     (clients.well_keyed (w_clients w) \<longrightarrow> clients.well_keyed (w_clients v)
        \<and> clients_find (w_clients v) k = clients_find (w_clients w) k)"

lemma spares_order: "transp (spares k)" "reflp (spares k)"
  by (auto simp: spares_def transp_def reflp_def)

lemma spares_registry:
  "spares k w (w\<lparr>w_draw := n\<rparr>)" "spares k w (w\<lparr>w_tick := t\<rparr>)"
  "k \<noteq> cl_client_id c \<Longrightarrow> spares k w (w\<lparr>w_clients := clients_save c (w_clients w)\<rparr>)"
  "k \<noteq> j \<Longrightarrow> spares k w (w\<lparr>w_clients := clients_delete j (w_clients w)\<rparr>)"
  by (auto simp: spares_def repo_simps intro: clients.well_keyed_save clients.well_keyed_delete)

lemma spares_checks [moves_intros]:
  "moves (spares k) fresh_token" "moves (spares k) now_utc" "moves (spares k) (resolve_managed X i token)"
  "moves (spares k) (checked_metadata X P C body)" "moves (spares k) (credentials_for X P C m)"
  "moves (spares k) (updated_credentials X P C c m)" "moves (spares k) (reject_if e)"
  unfolding resolve_managed_def find_client_def checked_metadata_def credentials_for_def
    updated_credentials_def reject_if_def Let_def
  by (intro moves_intros moves_now moves_fresh spares_registry spares_order)+

text \<open>The same for the requests that draw a fresh identifier, when it cannot be this one.\<close>

definition avoids :: "str \<Rightarrow> world \<Rightarrow> world \<Rightarrow> bool" where
  "avoids k w v \<longleftrightarrow> w_rand v = w_rand w \<and> ((\<forall>n. w_rand w n \<noteq> k) \<longrightarrow> spares k w v)"

lemma avoids_order: "transp (avoids k)" "reflp (avoids k)"
  by (auto simp: avoids_def spares_def transp_def reflp_def)

lemma spares_avoids: "moves (spares k) m \<Longrightarrow> moves (avoids k) m"
  by (erule moves_mono) (simp add: avoids_def spares_def)

lemma fresh_avoids:
  assumes "\<And>i k. i \<noteq> k \<Longrightarrow> moves (spares k) (f i)"
  shows "moves (avoids k) (andthen fresh_token f)"
proof (intro moves_found avoids_order spares_avoids spares_checks)
  fix w x u
  assume drawn: "fresh_token w = (Inr x, u)"
  show "avoids k u (snd (f x u))"
  proof (cases "x = k")
    case True
    from assms [of x "x @ ''.''"] have "w_rand (snd (f x u)) = w_rand u"
      by (simp add: moves_def spares_def)
    moreover from drawn True have "\<exists>n. w_rand u n = k" by (auto simp: fresh_token_def)
    ultimately show ?thesis by (auto simp: avoids_def)
  next
    case False
    then show ?thesis using assms [of x k] by (simp add: moves_def avoids_def spares_def)
  qed
qed

lemma register_avoids: "moves (avoids k) (register_client X P C body token)"
  unfolding register_client_def save_client_def Let_def
  by (rule moves_andthen [OF avoids_order(1)] fresh_avoids moves_pure(4) [OF avoids_order(2)]
      spares_avoids [OF spares_checks(4)])+
    (intro moves_intros moves_modify spares_order spares_registry; simp add: with_secrets)

lemma managed_spares:
  assumes found: "clients_find (w_clients w) k = Some c" and keyed: "clients.well_keyed (w_clients w)"
    and stranger: "hash_secret X token \<noteq> cl_registration_access_token_hash c"
    and rest: "\<And>c'. cl_client_id c' \<noteq> k \<Longrightarrow> moves (spares k) (f c')"
    and run: "andthen (resolve_managed X i token) f w = (res, v)"
  shows "spares k w v"
proof -
  obtain r u where first: "resolve_managed X i token w = (r, u)" by fastforce
  show ?thesis
  proof (cases r)
    case (Inl e)
    with first run show ?thesis by (auto simp: managed_run spares_def)
  next
    case (Inr c')
    with first have at: "u = w" "clients_find (w_clients w) i = Some c'" "authorise_registration X c' token"
      by (auto simp: managed_run)
    from clients.well_keyedD [OF keyed at(2)] have "cl_client_id c' \<noteq> k"
      using at(2,3) found stranger by (auto simp: authorise_registration_def)
    from rest [OF this] have "spares k w (snd (f c' w))" by (simp add: moves_def)
    with first run Inr at(1) show ?thesis by simp
  qed
qed

lemma operations_spare:
  assumes found: "clients_find (w_clients w) k = Some c" and keyed: "clients.well_keyed (w_clients w)"
    and stranger: "hash_secret X token \<noteq> cl_registration_access_token_hash c"
  shows "read_client X C i token w = (res, v) \<or> update_client X P C i token body w = (res, v)
      \<or> delete_client X i token w = (res', v) \<Longrightarrow> spares k w v"
proof (elim disjE)
  assume "read_client X C i token w = (res, v)"
  then show "spares k w v"
    unfolding read_client_def by (rule managed_spares [OF found keyed stranger, rotated]) (intro moves_intros spares_order)
next
  assume "update_client X P C i token body w = (res, v)"
  then show "spares k w v"
    unfolding update_client_def save_client_def Let_def
    by (rule managed_spares [OF found keyed stranger, rotated]) (intro moves_intros moves_modify spares_order spares_registry; simp add: replaced_client_def)
next
  assume "delete_client X i token w = (res', v)"
  then show "spares k w v"
    unfolding delete_client_def by (rule managed_spares [OF found keyed stranger, rotated]) (intro moves_modify spares_registry; simp)
qed


subsection \<open>Examples\<close>

definition sample_ports :: registration_ports where
  "sample_ports = \<lparr>rg_encrypt = (\<lambda>s. ''sealed.'' @ s), rg_is_current = (\<lambda>_. True),
     rg_reencrypt = (\<lambda>s. ''again.'' @ s), rg_fetch_sector = (\<lambda>_. None), rg_verify_bearer = (\<lambda>_. None)\<rparr>"

definition sample_registration :: registration_config where
  "sample_registration = \<lparr>rc_issuer = ''https://op'', rc_base_url = [],
     rc_requires_initial_access_token = False, rc_initial_access_token_hashes = {},
     rc_initial_access_token_mode = ''static'', rc_allow_full_grants = False, rc_subject_seed = [],
     rc_registry = None, rc_authorizer = None, rc_cipher = True, rc_sector_fetcher = False\<rparr>"

definition sample_body :: json where
  "sample_body = JObj [(''redirect_uris'', JList [JStr ''https://rp/cb''])]"

definition jwt_body :: json where
  "jwt_body = JObj [(''redirect_uris'', JList [JStr ''https://rp/cb'']),
     (''token_endpoint_auth_method'', JStr ''client_secret_jwt'')]"

definition sample_registered :: world where
  "sample_registered = sample_world\<lparr>w_clients := [(''x'', (new_client ''x'' 0)\<lparr>
     cl_client_type := Confidential, cl_token_endpoint_auth_method := Some ClientSecretBasic,
     cl_client_secret_hash := ''hex.s'', cl_registration_access_token_hash := ''hex.tok''\<rparr>)]\<rparr>"

lemma sample_sealing: "sealing sample_services sample_ports"
  by (simp add: sealing_def sample_services_def sample_ports_def)

lemma sample_register:
  "map_sum (\<lambda>_. ()) cg_client_secret (fst (register_client sample_services sample_ports
     sample_registration sample_body [] sample_world)) = Inr ''r1''"
  by code_simp

lemma sample_update:
  "map_sum (\<lambda>_. ()) cg_client_id (fst (update_client sample_services sample_ports
     sample_registration ''x'' ''tok'' jwt_body sample_registered)) = Inr ''x''"
  by code_simp


text \<open>The same registration.\<close>

lemma registered_client_usable_witness:
  "\<exists>r v. register_client sample_services sample_ports sample_registration sample_body [] sample_world
     = (Inr r, v) \<and> cg_client_secret r = ''r1''
     \<and> (\<exists>q. read_client sample_services sample_registration (cg_client_id r)
         (cg_registration_access_token r) v = (Inr q, v)
           \<and> cg_client_id q = cg_client_id r \<and> cg_client_secret q = [])"
proof -
  obtain r v where ran: "register_client sample_services sample_ports sample_registration sample_body []
      sample_world = (Inr r, v)" "cg_client_secret r = ''r1''"
    using sampled_run [OF sample_register] by blast
  have "\<forall>k. w_rand sample_world k \<noteq> []" by (simp add: sample_world_def)
  from ran registered_client_usable [OF ran(1) sample_sealing this] show ?thesis by auto
qed

text \<open>The exception: a client with a plain secret turns to \<open>client_secret_jwt\<close>.\<close>

lemma replaced_client_wf_witness:
  "\<exists>r v new. update_client sample_services sample_ports sample_registration ''x'' ''tok'' jwt_body
       sample_registered = (Inr r, v)
     \<and> clients_find (w_clients v) ''x'' = Some new
     \<and> cl_client_secret_hash new = [] \<and> cl_client_secret_ciphertext new = []"
proof -
  obtain r v where ran: "update_client sample_services sample_ports sample_registration ''x'' ''tok''
      jwt_body sample_registered = (Inr r, v)"
    using sampled_run [OF sample_update] by blast
  from replaced_client_wf [OF this sample_sealing] obtain old m new where
    facts: "clients_find (w_clients sample_registered) ''x'' = Some old"
      "parse_metadata sample_services jwt_body
         (registration_known_scopes sample_registration sample_registered) = Inr m"
      "clients_find (w_clients v) (cl_client_id old) = Some new"
      "strands old m \<longrightarrow> cl_client_secret_hash new = [] \<and> cl_client_secret_ciphertext new = []"
    by blast
  have "map_sum (\<lambda>_. ()) (\<lambda>m. (md_auth_method m, md_requested_secret m)) (parse_metadata sample_services
      jwt_body (registration_known_scopes sample_registration sample_registered))
      = Inr (ClientSecretJwt, None)"
    by code_simp
  with facts(1,2) have "strands old m" "cl_client_id old = ''x''"
    by (auto simp: strands_def sample_registered_def clients_find_def new_client_def)
  with facts(3,4) ran show ?thesis by auto
qed


end
