(* ===== verification/Federation.thy ===== *)
theory Federation
  imports Dpop
begin

text \<open>
  \<open>domain/federation.py\<close>: entity statements of OpenID Federation, their structural validation and
  serialisation, metadata policies, trust chains and the client derived from a trust chain.
\<close>

subsection \<open>Vocabulary\<close>

type_synonym dict = "(str \<times> json) list"

definition standard_entity_types :: "str list" where
  "standard_entity_types = [''federation_entity'', ''openid_relying_party'', ''openid_provider'',
     ''oauth_authorization_server'', ''oauth_client'', ''oauth_resource'']"

definition standard_policy_operators :: "str list" where
  "standard_policy_operators = [''value'', ''add'', ''default'', ''one_of'', ''subset_of'',
     ''superset_of'', ''essential'']"

definition compared_claims :: "str list" where
  "compared_claims = [''iss'', ''sub'', ''jwks'', ''metadata'', ''authority_hints'',
     ''trust_anchor_hints'', ''constraints'', ''metadata_policy'', ''metadata_policy_crit'',
     ''source_endpoint'']"

text \<open>
  \<open>_ENTITY_IDENTIFIER.match\<close>: https, a host of one character or more, then nothing or a slash or
  question mark followed by characters other than white space, question and number signs.
\<close>

definition entity_identifier :: "str \<Rightarrow> bool" where
  "entity_identifier s =
     (let body = without_final_newline s;
          rest = drop 8 body;
          host = takeWhile (\<lambda>c. \<not> is_space c \<and> c \<notin> {CHR ''/'', CHR ''?'', CHR ''#''}) rest;
          tail = drop (length host) rest
      in starts_with ''https://'' body \<and> host \<noteq> [] \<and>
         (case tail of [] \<Rightarrow> True
          | c # cs \<Rightarrow> c \<in> {CHR ''/'', CHR ''?''}
              \<and> list_all (\<lambda>d. \<not> is_space d \<and> d \<notin> {CHR ''?'', CHR ''#''}) cs))"

text \<open>\<open>FederationError\<close>, and an exception of another class.\<close>

datatype federation_error = FedInvalid str | FedCrashed str

definition list_repr :: "str list \<Rightarrow> str" where
  "list_repr xs = ''['' @ join_with '', '' (map py_repr xs) @ '']''"

subsection \<open>Entity statements\<close>

record entity_statement =
  es_issuer :: str
  es_subject :: str
  es_issued_at :: instant
  es_expires_at :: instant
  es_jwks :: dict
  es_metadata :: "(str \<times> dict) list"
  es_authority_hints :: "str list"
  es_trust_anchor_hints :: "str list"
  es_trust_marks :: "dict list"
  es_constraints :: "dict option"
  es_metadata_policy :: "dict option"
  es_metadata_policy_crit :: "str list"
  es_source_endpoint :: str

definition is_self_signed :: "entity_statement \<Rightarrow> bool" where
  "is_self_signed st \<longleftrightarrow> es_issuer st = es_subject st"

definition entity_types :: "entity_statement \<Rightarrow> str list" where
  "entity_types st = sort (map fst (es_metadata st))"

text \<open>\<open>int(datetime.timestamp())\<close>: truncated towards zero.\<close>

definition timestamp_int :: "instant \<Rightarrow> int" where
  "timestamp_int t = (if t < 0 then - ((- t) div 1000000) else t div 1000000)"

definition present_if :: "bool \<Rightarrow> str \<Rightarrow> json \<Rightarrow> dict" where
  "present_if b k v = (if b then [(k, v)] else [])"

definition to_claims :: "entity_statement \<Rightarrow> dict" where
  "to_claims st =
     [(''iss'', JStr (es_issuer st)), (''sub'', JStr (es_subject st)),
      (''iat'', JInt (timestamp_int (es_issued_at st))),
      (''exp'', JInt (timestamp_int (es_expires_at st))), (''jwks'', JObj (es_jwks st))]
     @ present_if (es_metadata st \<noteq> []) ''metadata'' (JObj (map (\<lambda>(n, d). (n, JObj d)) (es_metadata st)))
     @ present_if (es_authority_hints st \<noteq> []) ''authority_hints'' (JList (map JStr (es_authority_hints st)))
     @ present_if (es_trust_anchor_hints st \<noteq> []) ''trust_anchor_hints''
         (JList (map JStr (es_trust_anchor_hints st)))
     @ present_if (es_trust_marks st \<noteq> []) ''trust_marks'' (JList (map JObj (es_trust_marks st)))
     @ (case es_constraints st of None \<Rightarrow> [] | Some d \<Rightarrow> [(''constraints'', JObj d)])
     @ (case es_metadata_policy st of None \<Rightarrow> [] | Some d \<Rightarrow> [(''metadata_policy'', JObj d)])
     @ present_if (es_metadata_policy_crit st \<noteq> []) ''metadata_policy_crit''
         (JList (map JStr (es_metadata_policy_crit st)))
     @ present_if (es_source_endpoint st \<noteq> []) ''source_endpoint'' (JStr (es_source_endpoint st))"

definition to_claims_for_comparison :: "entity_statement \<Rightarrow> dict" where
  "to_claims_for_comparison st = filter (\<lambda>(n, _). n \<in> set compared_claims) (to_claims st)"

subsection \<open>Structural validation\<close>

definition required_string :: "dict \<Rightarrow> str \<Rightarrow> federation_error + str" where
  "required_string claims name =
     (case map_of claims name of
        Some (JStr s) \<Rightarrow> (if s = [] then Inl (FedInvalid (''claim '' @ py_repr name @ '' requis et non vide''))
                       else Inr s)
      | _ \<Rightarrow> Inl (FedInvalid (''claim '' @ py_repr name @ '' requis et non vide'')))"

text \<open>\<open>datetime.fromtimestamp\<close> raises on an instant outside the years 1 to 9999.\<close>

definition required_timestamp :: "dict \<Rightarrow> str \<Rightarrow> federation_error + instant" where
  "required_timestamp claims name =
     (case Option.bind (map_of claims name) json_number of
        None \<Rightarrow> Inl (FedInvalid (''claim '' @ py_repr name @ '' requis et numerique''))
      | Some q \<Rightarrow> (case from_timestamp q of
            None \<Rightarrow> Inl (FedCrashed ''ValueError'') | Some t \<Rightarrow> Inr t))"

definition string_array :: "dict \<Rightarrow> str \<Rightarrow> federation_error + str list" where
  "string_array claims name =
     (case jget claims name of
        None \<Rightarrow> Inr []
      | Some (JList vs) \<Rightarrow>
          (if list_all (\<lambda>v. json_str v \<noteq> None) vs then Inr (map (\<lambda>v. the (json_str v)) vs)
           else Inl (FedInvalid (''claim '' @ py_repr name @ '' doit etre un tableau de chaines'')))
      | _ \<Rightarrow> Inl (FedInvalid (''claim '' @ py_repr name @ '' doit etre un tableau de chaines'')))"

text \<open>
  \<open>dict(value)\<close>: a copy of an object; an empty text or list, and a list of pairs of a text and a
  value, make a dictionary too; any other value raises \<open>TypeError\<close> or \<open>ValueError\<close>.
\<close>

fun as_pair :: "json \<Rightarrow> (str \<times> json) option" where
  "as_pair (JList [JStr k, v]) = Some (k, v)"
| "as_pair (JStr [a, b]) = Some ([a], JStr [b])"
| "as_pair _ = None"

fun as_dict :: "json \<Rightarrow> dict option" where
  "as_dict (JObj d) = Some d"
| "as_dict (JStr []) = Some []"
| "as_dict (JList vs) =
     (if list_all (\<lambda>v. as_pair v \<noteq> None) vs
      then Some (dict_update (map (\<lambda>v. the (as_pair v)) vs) []) else None)"
| "as_dict _ = None"

definition parse_entity_metadata :: "dict \<Rightarrow> federation_error + (str \<times> dict) list" where
  "parse_entity_metadata claims =
     (case map_of claims ''metadata'' of
        None \<Rightarrow> Inr []
      | Some (JObj metadata) \<Rightarrow>
          (let unknown = set (map fst metadata) - set standard_entity_types in
           if unknown \<noteq> {}
           then Inl (FedInvalid (''types d'' @ [CHR 0x27] @ ''entite non standard : ''
             @ list_repr (sorted_strs unknown)))
           else if list_all (\<lambda>(_, v). as_dict v \<noteq> None) metadata
           then Inr (map (\<lambda>(n, v). (n, the (as_dict v))) metadata)
           else Inl (FedCrashed ''ValueError''))
      | Some _ \<Rightarrow> Inl (FedInvalid (py_repr ''metadata'' @ '' doit etre un objet'')))"

definition parse_hints :: "dict \<Rightarrow> federation_error + (str list \<times> str list)" where
  "parse_hints claims =
     checked (string_array claims ''authority_hints'') (\<lambda>authorities.
     checked (string_array claims ''trust_anchor_hints'') (\<lambda>anchors.
     case List.find (\<lambda>h. \<not> entity_identifier h) (authorities @ anchors) of
       Some h \<Rightarrow> Inl (FedInvalid (''Entity Identifier invalide dans les hints : '' @ h))
     | None \<Rightarrow> Inr (authorities, anchors)))"

text \<open>The first problem of a list of members, each checked by a function.\<close>

fun first_problem :: "('a \<Rightarrow> federation_error + unit) \<Rightarrow> 'a list \<Rightarrow> federation_error + unit" where
  "first_problem f [] = Inr ()"
| "first_problem f (x # xs) = checked (f x) (\<lambda>_. first_problem f xs)"

definition validate_constraint :: "str \<Rightarrow> str \<times> json \<Rightarrow> federation_error + unit" where
  "validate_constraint entity_type member =
     (case snd member of
        JObj operators \<Rightarrow>
          (let unknown = set (map fst operators) - set standard_policy_operators in
           if unknown \<noteq> {}
           then Inl (FedInvalid (''operateurs de metadata policy non supportes : ''
             @ list_repr (sorted_strs unknown)))
           else Inr ())
      | _ \<Rightarrow> Inl (FedInvalid (''operateur de metadata policy invalide pour '' @ [CHR 0x27]
          @ entity_type @ ''.'' @ fst member @ [CHR 0x27])))"

definition validate_metadata_policy :: "dict \<Rightarrow> federation_error + unit" where
  "validate_metadata_policy policy =
     first_problem (\<lambda>(entity_type, v). case v of
         JObj parameters \<Rightarrow> first_problem (validate_constraint entity_type) parameters
       | _ \<Rightarrow> Inl (FedInvalid (''metadata policy invalide pour '' @ [CHR 0x27] @ entity_type @ [CHR 0x27])))
       policy"

definition parse_policy :: "dict \<Rightarrow> federation_error + dict option" where
  "parse_policy claims =
     (case jget claims ''metadata_policy'' of
        None \<Rightarrow> Inr None
      | Some (JObj policy) \<Rightarrow> checked (validate_metadata_policy policy) (\<lambda>_. Inr (Some policy))
      | Some _ \<Rightarrow> Inl (FedInvalid (py_repr ''metadata_policy'' @ '' doit etre un objet'')))"

definition parse_constraints :: "dict \<Rightarrow> federation_error + dict option" where
  "parse_constraints claims =
     (case jget claims ''constraints'' of
        None \<Rightarrow> Inr None
      | Some (JObj d) \<Rightarrow> Inr (Some d)
      | Some _ \<Rightarrow> Inl (FedInvalid (py_repr ''constraints'' @ '' doit etre un objet'')))"

definition parse_source_endpoint :: "services \<Rightarrow> dict \<Rightarrow> federation_error + str" where
  "parse_source_endpoint X claims =
     (case map_of claims ''source_endpoint'' of
        None \<Rightarrow> Inr []
      | Some (JStr s) \<Rightarrow> Inr s
      | Some v \<Rightarrow> (if json_true v
          then Inl (FedInvalid (py_repr ''source_endpoint'' @ '' doit etre une chaine''))
          else Inr (json_text X v)))"

definition parse_entity_statement :: "services \<Rightarrow> dict \<Rightarrow> federation_error + entity_statement" where
  "parse_entity_statement X claims =
     checked (required_string claims ''iss'') (\<lambda>issuer.
     checked (required_string claims ''sub'') (\<lambda>subject.
     if \<not> entity_identifier issuer
     then Inl (FedInvalid (''Entity Identifier invalide pour '' @ py_repr ''iss'' @ '' : '' @ issuer))
     else if \<not> entity_identifier subject
     then Inl (FedInvalid (''Entity Identifier invalide pour '' @ py_repr ''sub'' @ '' : '' @ subject))
     else
     checked (required_timestamp claims ''iat'') (\<lambda>issued_at.
     checked (required_timestamp claims ''exp'') (\<lambda>expires_at.
     if expires_at \<le> issued_at
     then Inl (FedInvalid (py_repr ''exp'' @ '' doit etre posterieur a '' @ py_repr ''iat''))
     else case map_of claims ''jwks'' of
       Some (JObj jwks) \<Rightarrow>
         (case map_of jwks ''keys'' of
            Some (JList _) \<Rightarrow>
              checked (parse_entity_metadata claims) (\<lambda>metadata.
              checked (parse_hints claims) (\<lambda>(authorities, anchors).
              checked (parse_policy claims) (\<lambda>policy.
              checked (parse_constraints claims) (\<lambda>constraints.
              checked (parse_source_endpoint X claims) (\<lambda>source_endpoint.
              checked (string_array claims ''metadata_policy_crit'') (\<lambda>crit.
              Inr \<lparr>es_issuer = issuer, es_subject = subject, es_issued_at = issued_at,
                es_expires_at = expires_at, es_jwks = jwks, es_metadata = metadata,
                es_authority_hints = authorities, es_trust_anchor_hints = anchors,
                es_trust_marks = [], es_constraints = constraints, es_metadata_policy = policy,
                es_metadata_policy_crit = crit, es_source_endpoint = source_endpoint\<rparr>))))))
          | _ \<Rightarrow> Inl (FedInvalid (py_repr ''jwks'' @ '' doit etre un JWK Set'')))
     | _ \<Rightarrow> Inl (FedInvalid (py_repr ''jwks'' @ '' doit etre un JWK Set''))))))"

subsection \<open>Trust chains and metadata policies\<close>

record trust_chain =
  tc_statements :: "entity_statement list"
  tc_tokens :: "str list"

definition chain_subject :: "trust_chain \<Rightarrow> federation_error + entity_statement" where
  "chain_subject c = (case tc_statements c of
     [] \<Rightarrow> Inl (FedInvalid ''Chaine de confiance vide'') | st # _ \<Rightarrow> Inr st)"

definition chain_anchor :: "trust_chain \<Rightarrow> federation_error + entity_statement" where
  "chain_anchor c = (if tc_statements c = [] then Inl (FedInvalid ''Chaine de confiance vide'')
     else Inr (last (tc_statements c)))"

text \<open>\<open>_apply_policy_operator\<close>; \<open>None\<close> leaves the parameter alone.\<close>

definition apply_policy_operator :: "str \<Rightarrow> dict \<Rightarrow> dict \<Rightarrow> json option" where
  "apply_policy_operator parameter operators values =
     (case map_of operators ''value'' of
        Some v \<Rightarrow> (if v = JNull then None else Some v)
      | None \<Rightarrow>
          (case map_of operators ''default'' of
             None \<Rightarrow> None
           | Some dflt \<Rightarrow>
               let v = (case map_of values parameter of Some v \<Rightarrow> v | None \<Rightarrow> dflt)
               in if v = JNull then None else Some v))"

definition apply_parameter :: "dict \<Rightarrow> str \<times> json \<Rightarrow> dict" where
  "apply_parameter values member =
     (case snd member of
        JObj operators \<Rightarrow>
          (case apply_policy_operator (fst member) operators values of
             None \<Rightarrow> values | Some v \<Rightarrow> dict_set (fst member) v values)
      | _ \<Rightarrow> values)"

definition apply_entity_type :: "(str \<times> dict) list \<Rightarrow> str \<times> json \<Rightarrow> (str \<times> dict) list" where
  "apply_entity_type metadata member =
     (case (map_of metadata (fst member), snd member) of
        (Some values, JObj parameters) \<Rightarrow>
          dict_set (fst member) (foldl apply_parameter values parameters) metadata
      | _ \<Rightarrow> metadata)"

definition apply_metadata_policy :: "dict \<Rightarrow> (str \<times> dict) list \<Rightarrow> (str \<times> dict) list" where
  "apply_metadata_policy policy metadata = foldl apply_entity_type metadata policy"

definition resolved_metadata :: "trust_chain \<Rightarrow> federation_error + (str \<times> dict) list" where
  "resolved_metadata c =
     checked (chain_subject c) (\<lambda>st.
       Inr (foldl (\<lambda>metadata s. apply_metadata_policy
           (case es_metadata_policy s of None \<Rightarrow> [] | Some p \<Rightarrow> p) metadata)
         (es_metadata st) (tl (tc_statements c))))"

subsection \<open>The derived client\<close>

definition client_key_of :: "json \<Rightarrow> dict" where
  "client_key_of item = (case item of JObj d \<Rightarrow> d | _ \<Rightarrow> [])"

definition client_keys :: "dict \<Rightarrow> dict list \<times> str" where
  "client_keys metadata =
     (case map_of metadata ''jwks'' of
        Some (JObj jwks) \<Rightarrow>
          (case map_of jwks ''keys'' of
             Some (JList items) \<Rightarrow> (map client_key_of items, [])
           | _ \<Rightarrow> (case map_of metadata ''jwks_uri'' of Some (JStr s) \<Rightarrow> ([], s) | _ \<Rightarrow> ([], [])))
      | _ \<Rightarrow> (case map_of metadata ''jwks_uri'' of Some (JStr s) \<Rightarrow> ([], s) | _ \<Rightarrow> ([], [])))"

text \<open>The instant is that of the construction of the client, its creation date.\<close>

definition derive_client :: "services \<Rightarrow> str \<Rightarrow> (str \<times> dict) list \<Rightarrow> instant \<Rightarrow> client option" where
  "derive_client X entity resolved now =
     (case map_of resolved ''openid_relying_party'' of
        None \<Rightarrow> None
      | Some metadata \<Rightarrow>
          (case map_of metadata ''redirect_uris'' of
             Some (JList uris) \<Rightarrow>
               (let (keys, jwks_uri) = client_keys metadata in
                if uris = [] \<or> (keys = [] \<and> jwks_uri = []) then None
                else Some ((new_client entity now)\<lparr>
                  cl_redirect_uris := set (map (json_text X) uris), cl_scopes := {scope_openid},
                  cl_client_type := Confidential,
                  cl_token_endpoint_auth_method := Some PrivateKeyJwt, cl_jwks := keys,
                  cl_jwks_uri := jwks_uri, cl_is_active := True, cl_federated := True\<rparr>))
           | _ \<Rightarrow> None))"

end
