(* ===== verification/TrustChains.thy ===== *)
theory TrustChains
  imports Federation
begin

text \<open>
  \<open>application/federation.py\<close> and \<open>application/federated_client.py\<close>: the entity statement of the
  server, the resolution of trust chains, explicit and automatic registration, the statements
  about subordinates; the verification of entity statements of \<open>infrastructure/federation.py\<close> and
  the client reader of \<open>infrastructure/federated_client.py\<close>.
\<close>

subsection \<open>Configuration and ports\<close>

record federation_config =
  fc_entity_identifier :: str
  fc_base_url :: str
  fc_trust_anchors :: "str list"
  fc_statement_ttl_seconds :: int
  fc_algorithm :: jwt_algorithm
  fc_subordinates :: bool

text \<open>
  \<open>fd_fetch\<close>: the \<open>FederationEntityFetcher\<close> port at an instant; \<open>fd_header\<close>, \<open>fd_unverified\<close>: the
  unverified decodings of PyJWT; \<open>fd_decode\<close>: \<open>pyjwt.decode\<close> of a token with the key of a JWK, an
  algorithm and the clock, \<open>None\<close> for an unusable key or an exception of PyJWT; \<open>fd_sign\<close>: \<open>pyjwt.encode\<close>
  with the federation key of the server, an algorithm and a type; \<open>fd_jwks\<close>: the public keys of the
  server; \<open>fd_discovery\<close>: the discovery document, \<open>None\<close> without a metadata provider.
\<close>

record federation_ports =
  fd_fetch :: "str \<Rightarrow> instant \<Rightarrow> str option"
  fd_header :: "str \<Rightarrow> dict option"
  fd_unverified :: "str \<Rightarrow> dict option"
  fd_decode :: "str \<Rightarrow> dict \<Rightarrow> str \<Rightarrow> instant \<Rightarrow> dict option"
  fd_sign :: "jwt_algorithm \<Rightarrow> str \<Rightarrow> dict \<Rightarrow> str"
  fd_jwks :: dict
  fd_discovery :: "dict option"

text \<open>\<open>FederationRegistrationError\<close>, and an exception that leaves the use case.\<close>

datatype federation_failure = FedRefused str str | FedEscaped str

type_synonym 'a federating = "(world, federation_failure, 'a) prog"

definition entity_statement_typ :: str where "entity_statement_typ = ''entity-statement+jwt''"
definition registration_response_typ :: str where
  "registration_response_typ = ''explicit-registration-response+jwt''"
definition resolve_response_typ :: str where "resolve_response_typ = ''resolve-response+jwt''"

definition entity_configuration_path :: str where
  "entity_configuration_path = ''/.well-known/openid-federation''"

subsection \<open>Verification of an entity statement\<close>

text \<open>\<open>_statement_header\<close>, reduced to the key identifier.\<close>

definition statement_key_id :: "federation_ports \<Rightarrow> str \<Rightarrow> str option" where
  "statement_key_id P token =
     (case fd_header P token of
        None \<Rightarrow> None
      | Some header \<Rightarrow>
          if map_of header ''typ'' \<noteq> Some (JStr entity_statement_typ) then None
          else case map_of header ''kid'' of
              Some (JStr k) \<Rightarrow> (if k = [] then None else Some k)
            | _ \<Rightarrow> None)"

definition candidate_keys :: "dict \<Rightarrow> str \<Rightarrow> dict list" where
  "candidate_keys jwks key_id =
     (case map_of jwks ''keys'' of
        Some (JList keys) \<Rightarrow>
          filter (\<lambda>k. map_of k ''kid'' = Some (JStr key_id))
            (concat (map (\<lambda>v. case v of JObj d \<Rightarrow> [d] | _ \<Rightarrow> []) keys))
      | _ \<Rightarrow> [])"

definition key_algorithm :: "dict \<Rightarrow> str" where
  "key_algorithm jwk =
     (case map_of jwk ''alg'' of Some (JStr a) \<Rightarrow> if a = [] then ''RS256'' else a | _ \<Rightarrow> ''RS256'')"

definition verify_with :: "federation_ports \<Rightarrow> str \<Rightarrow> str \<Rightarrow> str \<Rightarrow> instant \<Rightarrow> dict \<Rightarrow> dict option" where
  "verify_with P token issuer subject now candidate =
     (case fd_decode P token candidate (key_algorithm candidate) now of
        None \<Rightarrow> None
      | Some claims \<Rightarrow>
          if issuer \<noteq> [] \<and> map_of claims ''iss'' \<noteq> Some (JStr issuer) then None
          else if subject \<noteq> [] \<and> map_of claims ''sub'' \<noteq> Some (JStr subject) then None
          else Some claims)"

fun first_some :: "('a \<Rightarrow> 'b option) \<Rightarrow> 'a list \<Rightarrow> 'b option" where
  "first_some f [] = None"
| "first_some f (x # xs) = (case f x of Some y \<Rightarrow> Some y | None \<Rightarrow> first_some f xs)"

definition verify_entity_statement :: "federation_ports \<Rightarrow> str \<Rightarrow> dict \<Rightarrow> str \<Rightarrow> str \<Rightarrow> instant
    \<Rightarrow> dict option" where
  "verify_entity_statement P token jwks issuer subject now =
     (case statement_key_id P token of
        None \<Rightarrow> None
      | Some k \<Rightarrow> first_some (verify_with P token issuer subject now) (candidate_keys jwks k))"

subsection \<open>Reading statements\<close>

definition configuration_url :: "str \<Rightarrow> str" where
  "configuration_url entity = rstrip_slash entity @ entity_configuration_path"

text \<open>The parsed statement; a \<open>FederationError\<close> is caught, another exception escapes.\<close>

definition parsed_statement :: "services \<Rightarrow> dict \<Rightarrow> str \<Rightarrow> (entity_statement \<times> str) option federating" where
  "parsed_statement X claims token =
     (case parse_entity_statement X claims of
        Inr st \<Rightarrow> ok (Some (st, token))
      | Inl (FedInvalid _) \<Rightarrow> ok None
      | Inl (FedCrashed e) \<Rightarrow> raise (FedEscaped e))"

definition fetch_configuration :: "services \<Rightarrow> federation_ports \<Rightarrow> str
    \<Rightarrow> (entity_statement \<times> str) option federating" where
  "fetch_configuration X P entity =
     andthen now_utc (\<lambda>now.
     case fd_fetch P (configuration_url entity) now of
       None \<Rightarrow> ok None
     | Some token \<Rightarrow>
         (case Option.bind (fd_unverified P token) (\<lambda>claims. map_of claims ''jwks'') of
            Some (JObj jwks) \<Rightarrow>
              (case verify_entity_statement P token jwks entity entity now of
                 None \<Rightarrow> ok None
               | Some claims \<Rightarrow> parsed_statement X claims token)
          | _ \<Rightarrow> ok None))"

definition federation_endpoint :: "entity_statement \<Rightarrow> str \<Rightarrow> str" where
  "federation_endpoint st name =
     (case map_of (es_metadata st) ''federation_entity'' of
        None \<Rightarrow> []
      | Some metadata \<Rightarrow> (case map_of metadata name of Some (JStr s) \<Rightarrow> s | _ \<Rightarrow> []))"

definition subordinate_url :: "str \<Rightarrow> str \<Rightarrow> str" where
  "subordinate_url endpoint subject =
     endpoint @ (if CHR ''?'' \<in> set endpoint then ''&'' else ''?'') @ ''sub='' @ subject"

definition fetch_subordinate_statement :: "services \<Rightarrow> federation_ports \<Rightarrow> entity_statement \<Rightarrow> str
    \<Rightarrow> (entity_statement \<times> str) option federating" where
  "fetch_subordinate_statement X P superior subject =
     (let endpoint = federation_endpoint superior ''federation_fetch_endpoint'' in
      if endpoint = [] then ok None
      else
        andthen now_utc (\<lambda>now.
        case fd_fetch P (subordinate_url endpoint subject) now of
          None \<Rightarrow> ok None
        | Some token \<Rightarrow>
            (case verify_entity_statement P token (es_jwks superior) (es_issuer superior) subject now of
               None \<Rightarrow> ok None
             | Some claims \<Rightarrow> parsed_statement X claims token)))"

subsection \<open>Resolution of a trust chain\<close>

definition is_trust_anchor :: "federation_config \<Rightarrow> entity_statement \<Rightarrow> str \<Rightarrow> bool" where
  "is_trust_anchor C st anchor =
     (if \<not> is_self_signed st then False
      else if anchor \<noteq> [] then es_issuer st = anchor
      else if es_issuer st \<in> set (fc_trust_anchors C) then True
      else es_authority_hints st = [])"

text \<open>The first hint not seen yet whose configuration is valid, with the updated set.\<close>

fun next_superior :: "services \<Rightarrow> federation_ports \<Rightarrow> str list \<Rightarrow> str set
    \<Rightarrow> (entity_statement \<times> str set) option federating" where
  "next_superior X P [] seen = ok None"
| "next_superior X P (hint # hints) seen =
     (if hint \<in> seen then next_superior X P hints seen
      else andthen (fetch_configuration X P hint) (\<lambda>found.
        case found of
          Some (st, _) \<Rightarrow> ok (Some (st, insert hint seen))
        | None \<Rightarrow> next_superior X P hints seen))"

text \<open>
  The loop of \<open>resolve_chain_from\<close>.  Nothing in the code bounds it, so the outer option is \<open>None\<close>
  when it does not end; the inner one is the \<open>None\<close> the code returns.
\<close>

partial_function (option) climb :: "services \<Rightarrow> federation_ports \<Rightarrow> federation_config \<Rightarrow> str \<Rightarrow> str
    \<Rightarrow> entity_statement list \<Rightarrow> str list \<Rightarrow> entity_statement \<Rightarrow> str set \<Rightarrow> world
    \<Rightarrow> ((federation_failure + (entity_statement list \<times> str list \<times> entity_statement) option) \<times> world) option"
  where
  "climb X P C subject anchor chain tokens here seen w =
     (if is_trust_anchor C here anchor then Some (Inr (Some (chain, tokens, here)), w)
      else case next_superior X P (es_authority_hints here) seen w of
          (Inl e, w1) \<Rightarrow> Some (Inl e, w1)
        | (Inr None, w1) \<Rightarrow> Some (Inr None, w1)
        | (Inr (Some (superior, seen')), w1) \<Rightarrow>
            (case fetch_subordinate_statement X P superior subject w1 of
               (Inl e, w2) \<Rightarrow> Some (Inl e, w2)
             | (Inr None, w2) \<Rightarrow> Some (Inr None, w2)
             | (Inr (Some (st, token)), w2) \<Rightarrow>
                 climb X P C subject anchor (chain @ [st]) (tokens @ [token]) superior seen' w2))"

text \<open>A program run after a loop that may not end.\<close>

definition after_loop :: "(('e + 'a) \<times> 's) option \<Rightarrow> ('a \<Rightarrow> ('s, 'e, 'b) prog) \<Rightarrow> (('e + 'b) \<times> 's) option" where
  "after_loop r f = (case r of
     None \<Rightarrow> None | Some (Inl e, s) \<Rightarrow> Some (Inl e, s) | Some (Inr x, s) \<Rightarrow> Some (f x s))"

definition subject_attested_keys :: "federation_ports \<Rightarrow> str \<Rightarrow> entity_statement list \<Rightarrow> bool federating" where
  "subject_attested_keys P token chain =
     andthen now_utc (\<lambda>now. ok (verify_entity_statement P token (es_jwks (chain ! 1))
       (es_issuer (chain ! 0)) (es_subject (chain ! 0)) now \<noteq> None))"

text \<open>What \<open>resolve_chain_from\<close> does with the ladder of statements the loop has built.\<close>

definition crown_chain :: "services \<Rightarrow> federation_ports \<Rightarrow> federation_config \<Rightarrow> str \<Rightarrow> str
    \<Rightarrow> (entity_statement list \<times> str list \<times> entity_statement) option \<Rightarrow> trust_chain option federating" where
  "crown_chain X P C anchor statement_token climbed =
     (case climbed of
        None \<Rightarrow> ok None
      | Some (chain, tokens, here) \<Rightarrow>
          let anchor_identifier = (if anchor \<noteq> [] then anchor else es_issuer here) in
          if fc_trust_anchors C \<noteq> [] \<and> anchor_identifier \<notin> set (fc_trust_anchors C) then ok None
          else
            andthen (fetch_configuration X P anchor_identifier) (\<lambda>fetched.
            case fetched of
              None \<Rightarrow> ok None
            | Some (crown, crown_token) \<Rightarrow>
                andthen (if 2 \<le> length chain then subject_attested_keys P statement_token chain
                  else ok True) (\<lambda>attested.
                ok (if attested
                  then Some \<lparr>tc_statements = chain @ [crown], tc_tokens = tokens @ [crown_token]\<rparr>
                  else None))))"

definition resolve_chain_from :: "services \<Rightarrow> federation_ports \<Rightarrow> federation_config \<Rightarrow> entity_statement
    \<Rightarrow> str \<Rightarrow> str \<Rightarrow> world \<Rightarrow> ((federation_failure + trust_chain option) \<times> world) option" where
  "resolve_chain_from X P C st anchor token w =
     after_loop (climb X P C (es_subject st) anchor [st] [token] st {es_subject st} w)
       (crown_chain X P C anchor token)"

definition resolve_trust_chain :: "services \<Rightarrow> federation_ports \<Rightarrow> federation_config \<Rightarrow> str \<Rightarrow> str
    \<Rightarrow> world \<Rightarrow> ((federation_failure + trust_chain option) \<times> world) option" where
  "resolve_trust_chain X P C subject anchor w =
     (case fetch_configuration X P subject w of
        (Inl e, w1) \<Rightarrow> Some (Inl e, w1)
      | (Inr None, w1) \<Rightarrow> Some (Inr None, w1)
      | (Inr (Some (st, token)), w1) \<Rightarrow> resolve_chain_from X P C st anchor token w1)"

subsection \<open>Statements of the server\<close>

definition now_timestamp :: "int federating" where
  "now_timestamp = andthen now_utc (\<lambda>now. ok (timestamp_int now))"

text \<open>\<open>DiscoveryFederationMetadataProvider\<close>.\<close>

definition federation_metadata :: "federation_ports \<Rightarrow> federation_config \<Rightarrow> dict" where
  "federation_metadata P C =
     (case fd_discovery P of
        None \<Rightarrow> []
      | Some discovery \<Rightarrow>
          let base = rstrip_slash (fc_base_url C) in
          [(''openid_provider'', JObj discovery),
           (''federation_entity'', JObj
             [(''federation_fetch_endpoint'', JStr (base @ ''/federation/fetch'')),
              (''federation_list_endpoint'', JStr (base @ ''/federation/list'')),
              (''federation_resolve_endpoint'', JStr (base @ ''/federation/resolve''))])])"

definition own_entity_statement :: "federation_ports \<Rightarrow> federation_config \<Rightarrow> str federating" where
  "own_entity_statement P C =
     andthen now_timestamp (\<lambda>iat.
     andthen now_utc (\<lambda>now.
     let metadata = federation_metadata P C in
     ok (fd_sign P (fc_algorithm C) entity_statement_typ
       ([(''iss'', JStr (fc_entity_identifier C)), (''sub'', JStr (fc_entity_identifier C)),
         (''iat'', JInt iat),
         (''exp'', JInt (timestamp_int (now + seconds (fc_statement_ttl_seconds C)))),
         (''jwks'', JObj (fd_jwks P))]
        @ present_if (metadata \<noteq> []) ''metadata'' (JObj metadata)
        @ present_if (fc_trust_anchors C \<noteq> []) ''authority_hints''
            (JList (map JStr (fc_trust_anchors C)))))))"

definition federated_identifier :: "str \<Rightarrow> bool" where
  "federated_identifier v \<longleftrightarrow> starts_with ''https://'' v \<and> CHR ''?'' \<notin> set v \<and> CHR ''#'' \<notin> set v"

definition is_federated_subordinate :: "client \<Rightarrow> bool" where
  "is_federated_subordinate c \<longleftrightarrow> federated_identifier (cl_client_id c) \<and> cl_jwks c \<noteq> []"

definition sign_subordinate :: "federation_ports \<Rightarrow> federation_config \<Rightarrow> client \<Rightarrow> str federating" where
  "sign_subordinate P C c =
     andthen now_timestamp (\<lambda>iat.
     let jwks = JObj [(''keys'', JList (map JObj (cl_jwks c)))] in
     ok (fd_sign P (fc_algorithm C) entity_statement_typ
       [(''iss'', JStr (fc_entity_identifier C)), (''sub'', JStr (cl_client_id c)),
        (''iat'', JInt iat), (''exp'', JInt (iat + fc_statement_ttl_seconds C)), (''jwks'', jwks),
        (''metadata'', JObj [(''openid_relying_party'', JObj
          [(''redirect_uris'', JList (map JStr (sorted_strs (cl_redirect_uris c)))),
           (''jwks'', jwks)])])]))"

definition subordinate_statement :: "federation_ports \<Rightarrow> federation_config \<Rightarrow> str \<Rightarrow> str option federating" where
  "subordinate_statement P C entity =
     (if \<not> fc_subordinates C then ok None
      else andthen (peek (\<lambda>w. List.find (\<lambda>c. cl_client_id c = entity \<and> is_federated_subordinate c)
          (dict_values (w_clients w)))) (\<lambda>found.
        case found of
          None \<Rightarrow> ok None
        | Some c \<Rightarrow> andthen (sign_subordinate P C c) (\<lambda>s. ok (Some s))))"

definition subordinate_identifiers :: "federation_config \<Rightarrow> str list federating" where
  "subordinate_identifiers C =
     (if \<not> fc_subordinates C then ok []
      else peek (\<lambda>w. sort (map cl_client_id (filter is_federated_subordinate (dict_values (w_clients w))))))"

subsection \<open>Explicit registration and resolution on demand\<close>

definition is_single_audience :: "json option \<Rightarrow> str \<Rightarrow> bool" where
  "is_single_audience audience expected =
     (case audience of
        Some (JStr s) \<Rightarrow> s = expected
      | Some (JList vs) \<Rightarrow> vs = [JStr expected]
      | _ \<Rightarrow> False)"

definition federation_message :: "federation_error \<Rightarrow> federation_failure" where
  "federation_message e = (case e of FedInvalid m \<Rightarrow> FedRefused ''invalid_client'' m
     | FedCrashed n \<Rightarrow> FedEscaped n)"

definition validated_registration_statement :: "services \<Rightarrow> federation_ports \<Rightarrow> federation_config \<Rightarrow> str
    \<Rightarrow> entity_statement federating" where
  "validated_registration_statement X P C token =
     (case fd_unverified P token of
        None \<Rightarrow> raise (FedRefused ''invalid_client'' ''Entity configuration illisible'')
      | Some unverified \<Rightarrow>
          (case jget_str unverified ''iss'' of
             None \<Rightarrow> raise (FedRefused ''invalid_client''
               (py_repr ''iss'' @ '' et '' @ py_repr ''sub'' @ '' doivent valoir l'' @ [CHR 0x27]
                @ ''Entity Identifier du RP''))
           | Some issuer \<Rightarrow>
               if issuer = [] \<or> map_of unverified ''sub'' \<noteq> Some (JStr issuer)
               then raise (FedRefused ''invalid_client''
                 (py_repr ''iss'' @ '' et '' @ py_repr ''sub'' @ '' doivent valoir l'' @ [CHR 0x27]
                  @ ''Entity Identifier du RP''))
               else case map_of unverified ''jwks'' of
                   Some (JObj jwks) \<Rightarrow>
                     andthen now_utc (\<lambda>now.
                     case verify_entity_statement P token jwks issuer issuer now of
                       None \<Rightarrow> raise (FedRefused ''invalid_client''
                         (''Signature, typ ou expiration de l'' @ [CHR 0x27]
                          @ ''entity configuration invalides''))
                     | Some verified \<Rightarrow>
                         andthen (ensure (is_single_audience (map_of verified ''aud'') (fc_entity_identifier C))
                           (FedRefused ''invalid_client'' (py_repr ''aud'' @ '' doit valoir l'' @ [CHR 0x27]
                             @ ''Entity Identifier de l'' @ [CHR 0x27] @ ''OP (12.2.1)''))) (\<lambda>_.
                         andthen (ensure (case map_of verified ''authority_hints'' of Some (JList hints) \<Rightarrow> hints \<noteq> [] | _ \<Rightarrow> False)
                           (FedRefused ''invalid_trust_chain'' (py_repr ''authority_hints''
                             @ '' requis pour resoudre la chaine (12.2.1)''))) (\<lambda>_.
                         lift (map_sum federation_message id (parse_entity_statement X verified)))))
                 | _ \<Rightarrow> raise (FedRefused ''invalid_client'' (py_repr ''jwks'' @ '' du RP requis (12.2.1)''))))"

definition chain_expiration :: "trust_chain \<Rightarrow> int" where
  "chain_expiration c = Min (set (map (\<lambda>st. timestamp_int (es_expires_at st)) (tc_statements c)))"

definition immediate_superior :: "trust_chain \<Rightarrow> str" where
  "immediate_superior c =
     (if 2 \<le> length (tc_statements c) then es_issuer (tc_statements c ! 1)
      else es_issuer (last (tc_statements c)))"

text \<open>\<open>_registration_claims\<close>; the derived client has \<open>private_key_jwt\<close> as its method.\<close>

definition registration_claims :: "federation_config \<Rightarrow> entity_statement \<Rightarrow> trust_chain
    \<Rightarrow> (str \<times> dict) list \<Rightarrow> client \<Rightarrow> int \<Rightarrow> dict" where
  "registration_claims C st chain resolved c iat =
     (let metadata = (case map_of resolved ''openid_relying_party'' of None \<Rightarrow> [] | Some d \<Rightarrow> d);
          registered = dict_set ''token_endpoint_auth_method'' (JStr ''private_key_jwt'')
            (dict_set ''client_id'' (JStr (cl_client_id c)) metadata)
      in [(''iss'', JStr (fc_entity_identifier C)), (''sub'', JStr (es_subject st)),
          (''iat'', JInt iat), (''exp'', JInt (chain_expiration chain)), (''aud'', JStr (es_subject st)),
          (''trust_anchor'', JStr (es_issuer (last (tc_statements chain)))),
          (''authority_hints'', JList [JStr (immediate_superior chain)]),
          (''metadata'', JObj [(''openid_relying_party'', JObj registered)]),
          (''jwks'', JObj (es_jwks st))])"

definition chain_metadata :: "trust_chain \<Rightarrow> (str \<times> dict) list federating" where
  "chain_metadata chain = lift (map_sum (\<lambda>_. FedEscaped ''FederationError'') id (resolved_metadata chain))"

definition register_chain :: "services \<Rightarrow> federation_ports \<Rightarrow> federation_config \<Rightarrow> entity_statement
    \<Rightarrow> trust_chain option \<Rightarrow> str federating" where
  "register_chain X P C st resolved_chain =
     (case resolved_chain of
        None \<Rightarrow> raise (FedRefused ''invalid_trust_chain'' ''Chaine de confiance du RP non resolue'')
      | Some chain \<Rightarrow>
          andthen (chain_metadata chain) (\<lambda>resolved.
          andthen now_utc (\<lambda>created.
          case derive_client X (es_subject st) resolved created of
            None \<Rightarrow> raise (FedRefused ''invalid_client_metadata''
              (''metadata openid_relying_party incompletes (redirect_uris et cles requises : ''
               @ ''jwks inline ou jwks_uri)''))
          | Some c \<Rightarrow>
              andthen now_timestamp (\<lambda>iat.
              ok (fd_sign P (fc_algorithm C) registration_response_typ
                (registration_claims C st chain resolved c iat))))))"

definition explicit_register :: "services \<Rightarrow> federation_ports \<Rightarrow> federation_config \<Rightarrow> str \<Rightarrow> world
    \<Rightarrow> ((federation_failure + str) \<times> world) option" where
  "explicit_register X P C token w =
     (case validated_registration_statement X P C token w of
        (Inl e, w1) \<Rightarrow> Some (Inl e, w1)
      | (Inr st, w1) \<Rightarrow> after_loop (resolve_chain_from X P C st [] token w1) (register_chain X P C st))"

definition sign_resolution :: "federation_ports \<Rightarrow> federation_config \<Rightarrow> str \<Rightarrow> trust_chain option
    \<Rightarrow> str option federating" where
  "sign_resolution P C subject resolved_chain =
     (case resolved_chain of
        None \<Rightarrow> ok None
      | Some chain \<Rightarrow>
          if tc_tokens chain = [] then ok None
          else
            andthen now_timestamp (\<lambda>iat.
            andthen (chain_metadata chain) (\<lambda>resolved.
            ok (Some (fd_sign P (fc_algorithm C) resolve_response_typ
              [(''iss'', JStr (fc_entity_identifier C)), (''sub'', JStr subject), (''iat'', JInt iat),
               (''exp'', JInt (chain_expiration chain)),
               (''metadata'', JObj (map (\<lambda>(n, d). (n, JObj d)) resolved)),
               (''trust_chain'', JList (map JStr (tc_tokens chain)))])))))"

definition resolve_entity :: "services \<Rightarrow> federation_ports \<Rightarrow> federation_config \<Rightarrow> str \<Rightarrow> str \<Rightarrow> world
    \<Rightarrow> ((federation_failure + str option) \<times> world) option" where
  "resolve_entity X P C subject anchor w =
     after_loop (resolve_trust_chain X P C subject anchor w) (sign_resolution P C subject)"

subsection \<open>Automatic registration\<close>

definition client_of_chain :: "services \<Rightarrow> str \<Rightarrow> trust_chain option \<Rightarrow> client option federating" where
  "client_of_chain X entity resolved_chain =
     (case resolved_chain of
        None \<Rightarrow> ok None
      | Some chain \<Rightarrow>
          andthen (chain_metadata chain) (\<lambda>resolved.
          andthen now_utc (\<lambda>created. ok (derive_client X entity resolved created))))"

definition resolve_federated_client :: "services \<Rightarrow> federation_ports \<Rightarrow> federation_config \<Rightarrow> str \<Rightarrow> world
    \<Rightarrow> ((federation_failure + client option) \<times> world) option" where
  "resolve_federated_client X P C entity w =
     after_loop (resolve_trust_chain X P C entity [] w) (client_of_chain X entity)"

text \<open>\<open>FederatedClientReader.find_by_id\<close>; without a resolver the registry alone answers.\<close>

definition find_federated_client :: "services \<Rightarrow> federation_ports \<Rightarrow> federation_config option \<Rightarrow> str
    \<Rightarrow> world \<Rightarrow> ((federation_failure + client option) \<times> world) option" where
  "find_federated_client X P resolver client_id w =
     (case (clients_find (w_clients w) client_id, resolver) of
        (Some c, _) \<Rightarrow> Some (Inr (Some c), w)
      | (None, None) \<Rightarrow> Some (Inr None, w)
      | (None, Some C) \<Rightarrow> resolve_federated_client X P C client_id w)"

end
