(* ===== verification/TrustChainRules.thy ===== *)
theory TrustChainRules
  imports TrustChains
begin

text \<open>
  What a resolved trust chain has been checked for, and when its resolution ends.
\<close>

subsection \<open>Evidence for a statement\<close>

text \<open>
  \<open>attested\<close>: at some instant the token verified under the keys of the set as a statement of the
  issuer about the subject, and parsed to the statement.  \<open>published\<close>: the entity served the token
  as its configuration, verified under the keys the token itself carries.
\<close>

definition attested :: "services \<Rightarrow> federation_ports \<Rightarrow> dict \<Rightarrow> str \<Rightarrow> str \<Rightarrow> entity_statement \<Rightarrow> str
    \<Rightarrow> bool" where
  "attested X P jwks issuer subject st token \<longleftrightarrow>
     (\<exists>now claims. verify_entity_statement P token jwks issuer subject now = Some claims \<and>
        parse_entity_statement X claims = Inr st)"

definition published :: "services \<Rightarrow> federation_ports \<Rightarrow> str \<Rightarrow> entity_statement \<Rightarrow> str \<Rightarrow> bool" where
  "published X P entity st token \<longleftrightarrow>
     (\<exists>now claims jwks. fd_fetch P (configuration_url entity) now = Some token \<and>
        fd_unverified P token = Some claims \<and> map_of claims ''jwks'' = Some (JObj jwks) \<and>
        attested X P jwks entity entity st token)"

text \<open>The entities that publish a configuration.\<close>

definition publishing :: "services \<Rightarrow> federation_ports \<Rightarrow> str set" where
  "publishing X P = {e. \<exists>st token. published X P e st token}"

lemma first_some_Some: "first_some f xs = Some y \<Longrightarrow> \<exists>x \<in> set xs. f x = Some y"
  by (induction xs) (auto split: option.splits)

lemma verified_parties:
  assumes "verify_entity_statement P token jwks issuer subject now = Some claims"
  shows "issuer \<noteq> [] \<Longrightarrow> map_of claims ''iss'' = Some (JStr issuer)"
    and "subject \<noteq> [] \<Longrightarrow> map_of claims ''sub'' = Some (JStr subject)"
    and "\<exists>key \<in> set (candidate_keys jwks (the (statement_key_id P token))).
           fd_decode P token key (key_algorithm key) now = Some claims"
  using assms
  by (auto simp: verify_entity_statement_def verify_with_def dest!: first_some_Some
      split: option.splits if_splits)

lemma parsed_parties:
  assumes "parse_entity_statement X claims = Inr st"
  shows "map_of claims ''iss'' = Some (JStr (es_issuer st))"
    and "map_of claims ''sub'' = Some (JStr (es_subject st))"
    and "es_issuer st \<noteq> []" and "es_subject st \<noteq> []"
    and "list_all entity_identifier (es_authority_hints st)"
proof -
  have member: "map_of claims n = Some (JStr s) \<and> s \<noteq> []" if "required_string claims n = Inr s" for n s
    using that by (auto simp: required_string_def split: option.splits json.splits if_splits)
  have hints: "list_all entity_identifier a" if "parse_hints claims = Inr (a, b)" for a b
    using that by (auto simp: parse_hints_def checked_Inr find_None_iff list_all_iff split: option.splits)
  obtain i s a b where "required_string claims ''iss'' = Inr i" "required_string claims ''sub'' = Inr s"
    "parse_hints claims = Inr (a, b)" "es_issuer st = i" "es_subject st = s" "es_authority_hints st = a"
    using assms unfolding parse_entity_statement_def
    by (force simp: checked_Inr split: if_splits option.splits json.splits)
  with member hints show "map_of claims ''iss'' = Some (JStr (es_issuer st))"
    "map_of claims ''sub'' = Some (JStr (es_subject st))"
    "es_issuer st \<noteq> []" "es_subject st \<noteq> []" "list_all entity_identifier (es_authority_hints st)"
    by blast+
qed

lemma attested_parties:
  assumes "attested X P jwks issuer subject st token"
  shows "issuer \<noteq> [] \<Longrightarrow> es_issuer st = issuer" and "subject \<noteq> [] \<Longrightarrow> es_subject st = subject"
    and "es_issuer st \<noteq> []" and "es_subject st \<noteq> []"
    and "list_all entity_identifier (es_authority_hints st)"
proof -
  from assms obtain now claims where verified: "verify_entity_statement P token jwks issuer subject now = Some claims"
    and parsed: "parse_entity_statement X claims = Inr st" by (auto simp: attested_def)
  show "issuer \<noteq> [] \<Longrightarrow> es_issuer st = issuer" "subject \<noteq> [] \<Longrightarrow> es_subject st = subject"
    using verified_parties(1,2) [OF verified] parsed_parties(1,2) [OF parsed] by auto
qed (use assms in \<open>auto simp: attested_def dest: parsed_parties\<close>)

lemma published_parties:
  assumes "published X P entity st token"
  shows "entity \<noteq> [] \<Longrightarrow> es_issuer st = entity \<and> es_subject st = entity"
    and "list_all entity_identifier (es_authority_hints st)" and "es_subject st \<noteq> []"
  using assms by (auto simp: published_def dest: attested_parties)

lemma hint_nonempty: "entity_identifier h \<Longrightarrow> h \<noteq> []"
  by (auto simp: entity_identifier_def starts_with_def without_final_newline_def)

subsection \<open>Reading statements\<close>

lemma parsed_statement_Some:
  "parsed_statement X claims token w = (Inr (Some (st, t)), u) \<Longrightarrow>
     parse_entity_statement X claims = Inr st \<and> t = token \<and> u = w"
  by (auto simp: parsed_statement_def prog_simps split: sum.splits federation_error.splits)

lemma fetch_configuration_sound:
  assumes "fetch_configuration X P entity w = (Inr (Some (st, token)), u)"
  shows "published X P entity st token"
  using assms
  by (force simp: fetch_configuration_def andthen_Inr now_utc_iff ok_iff published_def attested_def bind_eq_Some_conv
      split: option.splits json.splits dest!: parsed_statement_Some)

lemma fetch_subordinate_sound:
  assumes "fetch_subordinate_statement X P superior subject w = (Inr (Some (st, token)), u)"
  shows "attested X P (es_jwks superior) (es_issuer superior) subject st token"
  using assms
  by (force simp: fetch_subordinate_statement_def Let_def andthen_Inr now_utc_iff ok_iff attested_def
      split: option.splits if_splits dest!: parsed_statement_Some)

lemma next_superior_sound:
  assumes "next_superior X P hints seen w = (Inr (Some (st, seen')), u)"
  shows "\<exists>hint \<in> set hints. hint \<notin> seen \<and> seen' = insert hint seen \<and> (\<exists>token. published X P hint st token)"
  using assms
proof (induction hints arbitrary: w)
  case (Cons h hs)
  show ?case
  proof (cases "h \<in> seen")
    case True
    with Cons show ?thesis by auto
  next
    case False
    with Cons.prems have "andthen (fetch_configuration X P h) (\<lambda>found. case found of
        None \<Rightarrow> next_superior X P hs seen | Some (st, _) \<Rightarrow> ok (Some (st, insert h seen))) w
        = (Inr (Some (st, seen')), u)" by simp
    then consider (skipped) v where "next_superior X P hs seen v = (Inr (Some (st, seen')), u)"
      | (found) token v where "fetch_configuration X P h w = (Inr (Some (st, token)), v)" "seen' = insert h seen"
      by (auto simp: andthen_case_option ok_iff)
    then show ?thesis
    proof cases
      case skipped
      from Cons.IH [OF skipped] show ?thesis by auto
    next
      case found
      with False show ?thesis by (auto dest: fetch_configuration_sound)
    qed
  qed
qed (simp add: ok_iff)

subsection \<open>The ladder of statements\<close>

text \<open>
  \<open>ladder X P leaf token chain tokens here\<close>: the chain starts with the configuration of the leaf;
  each further statement is about the leaf, verified under the keys of an entity that published its
  own configuration and that the entity below names as a superior; \<open>here\<close> is the last such entity.
\<close>

inductive ladder :: "services \<Rightarrow> federation_ports \<Rightarrow> entity_statement \<Rightarrow> str \<Rightarrow> entity_statement list
    \<Rightarrow> str list \<Rightarrow> entity_statement \<Rightarrow> bool" for X P leaf leaf_token where
  foot: "ladder X P leaf leaf_token [leaf] [leaf_token] leaf"
| rung: "ladder X P leaf leaf_token (chain @ [st]) (tokens @ [token]) superior"
    if "ladder X P leaf leaf_token chain tokens here" "hint \<in> set (es_authority_hints here)"
      "published X P hint superior t" "attested X P (es_jwks superior) hint (es_subject leaf) st token"

inductive_cases ladder_footE: "ladder X P leaf leaf_token [st] tokens here"

lemma ladder_shape:
  assumes "ladder X P leaf leaf_token chain tokens here"
  shows "chain \<noteq> []" "hd chain = leaf" "length tokens = length chain" "hd tokens = leaf_token"
    "tokens \<noteq> []"
  using assms by (induction rule: ladder.induct) auto

lemma ladder_about_leaf:
  assumes "ladder X P leaf leaf_token chain tokens here" and "es_subject leaf \<noteq> []"
  shows "\<forall>st \<in> set chain. es_subject st = es_subject leaf"
  using assms by (induction rule: ladder.induct) (auto dest: attested_parties(2))

lemma rung_climbed:
  assumes "ladder X P leaf leaf_token chain tokens here"
    and "list_all entity_identifier (es_authority_hints here)"
    and "next_superior X P (es_authority_hints here) seen w = (Inr (Some (superior, seen')), w1)"
    and "fetch_subordinate_statement X P superior (es_subject leaf) w1 = (Inr (Some (st, token)), w2)"
  shows "ladder X P leaf leaf_token (chain @ [st]) (tokens @ [token]) superior
    \<and> list_all entity_identifier (es_authority_hints superior)"
proof -
  from next_superior_sound [OF assms(3)] obtain hint t
    where hint: "hint \<in> set (es_authority_hints here)" "published X P hint superior t" by blast
  with assms(2) have "hint \<noteq> []" by (auto simp: list_all_iff dest: hint_nonempty)
  with hint have "es_issuer superior = hint" by (simp add: published_parties(1))
  with fetch_subordinate_sound [OF assms(4)]
  have "attested X P (es_jwks superior) hint (es_subject leaf) st token" by simp
  from ladder.rung [OF assms(1) hint this] hint(2) show ?thesis by (simp add: published_parties(2))
qed

text \<open>
  Induction over the iterations of a climb that ends: the anchor is reached, no answer of a
  superior is left (\<open>r\<close> is then not a chain), or one more rung is climbed.
\<close>

lemma climb_induct [consumes 1, case_names anchor lost rung]:
  assumes ran: "climb X P C subject anchor chain tokens here seen w = Some r"
    and reached: "\<And>chain tokens here seen w. is_trust_anchor C here anchor \<Longrightarrow>
      Q chain tokens here seen w (Inr (Some (chain, tokens, here)), w)"
    and lost: "\<And>chain tokens here seen w res u. \<not> is_trust_anchor C here anchor \<Longrightarrow>
      (\<forall>superior seen' w1 st token w2.
        next_superior X P (es_authority_hints here) seen w = (Inr (Some (superior, seen')), w1) \<longrightarrow>
        fetch_subordinate_statement X P superior subject w1 \<noteq> (Inr (Some (st, token)), w2)) \<Longrightarrow>
      res = Inr None \<or> (\<exists>e. res = Inl e) \<Longrightarrow> Q chain tokens here seen w (res, u)"
    and rung: "\<And>chain tokens here seen w superior seen' w1 st token w2 r.
      \<not> is_trust_anchor C here anchor \<Longrightarrow>
      next_superior X P (es_authority_hints here) seen w = (Inr (Some (superior, seen')), w1) \<Longrightarrow>
      fetch_subordinate_statement X P superior subject w1 = (Inr (Some (st, token)), w2) \<Longrightarrow>
      Q (chain @ [st]) (tokens @ [token]) superior seen' w2 r \<Longrightarrow> Q chain tokens here seen w r"
  shows "Q chain tokens here seen w r"
proof -
  let ?Q = "\<lambda>(((((((((X', P'), C'), subject'), anchor'), chain), tokens), here), seen), w) r.
    X' = X \<and> P' = P \<and> C' = C \<and> subject' = subject \<and> anchor' = anchor \<longrightarrow> Q chain tokens here seen w r"
  have "?Q (((((((((X, P), C), subject), anchor), chain), tokens), here), seen), w) r"
    using ran
    by (rule climb.raw_induct [rotated])
      (auto split: if_splits prod.splits sum.splits option.splits intro: reached lost rung)
  then show ?thesis by simp
qed

lemma climb_sound:
  assumes "climb X P C (es_subject leaf) anchor chain tokens here seen w = Some (Inr (Some (chain', tokens', here')), w')"
    and "ladder X P leaf leaf_token chain tokens here" "list_all entity_identifier (es_authority_hints here)"
  shows "ladder X P leaf leaf_token chain' tokens' here' \<and> is_trust_anchor C here' anchor"
  using assms
proof (induction chain tokens here seen w "(Inr (Some (chain', tokens', here')) ::
    federation_failure + (entity_statement list \<times> str list \<times> entity_statement) option, w')" rule: climb_induct)
  case (rung chain tokens here seen w superior seen' w1 st token w2)
  with rung_climbed [OF rung.prems rung.hyps(2,3)] show ?case by blast
qed auto

subsection \<open>Federations given by tables\<close>

text \<open>
  A federation served from tables: the token at an address, and for each token the identifier of the
  key that signed it and its claims.  A token verifies under exactly the keys of that identifier.
\<close>

definition table_ports :: "(str \<times> str) list \<Rightarrow> (str \<times> str \<times> dict) list \<Rightarrow> federation_ports" where
  "table_ports sites statements = \<lparr>
     fd_fetch = (\<lambda>url now. map_of sites url),
     fd_header = (\<lambda>token. map_option (\<lambda>(k, claims).
       [(''typ'', JStr entity_statement_typ), (''kid'', JStr k)]) (map_of statements token)),
     fd_unverified = (\<lambda>token. map_option snd (map_of statements token)),
     fd_decode = (\<lambda>token key alg now. case map_of statements token of
        None \<Rightarrow> None
      | Some (k, claims) \<Rightarrow> if map_of key ''kid'' = Some (JStr k) then Some claims else None),
     fd_sign = (\<lambda>alg typ claims. typ), fd_jwks = [], fd_discovery = None\<rparr>"

definition key_set :: "str \<Rightarrow> json" where
  "key_set k = JObj [(''keys'', JList [JObj [(''kid'', JStr k)]])]"

definition statement_of :: "str \<Rightarrow> str \<Rightarrow> str \<Rightarrow> dict \<Rightarrow> dict" where
  "statement_of issuer subject k extra =
     [(''iss'', JStr issuer), (''sub'', JStr subject), (''iat'', JInt 0), (''exp'', JInt 100),
      (''jwks'', key_set k)] @ extra"

definition superior_metadata :: "str \<Rightarrow> str \<times> json" where
  "superior_metadata entity = (''metadata'', JObj [(''federation_entity'',
     JObj [(''federation_fetch_endpoint'', JStr (entity @ ''/fetch''))])])"

definition relying_party_metadata :: "str \<Rightarrow> str \<times> json" where
  "relying_party_metadata k = (''metadata'', JObj [(''openid_relying_party'',
     JObj [(''redirect_uris'', JList [JStr ''https://cb'']), (''jwks'', key_set k)])])"

definition hints_at :: "str \<Rightarrow> str \<times> json" where
  "hints_at entity = (''authority_hints'', JList [JStr entity])"

definition sample_federation :: federation_config where
  "sample_federation = \<lparr>fc_entity_identifier = ''https://op'', fc_base_url = ''https://op'',
     fc_trust_anchors = [''https://ta''], fc_statement_ttl_seconds = 3600, fc_algorithm = ES256,
     fc_subordinates = True\<rparr>"

text \<open>A client directly below the trust anchor.\<close>

definition direct_ports :: federation_ports where
  "direct_ports = table_ports
     [(''https://rp/.well-known/openid-federation'', ''rp''),
      (''https://ta/.well-known/openid-federation'', ''ta''),
      (''https://ta/fetch?sub=https://rp'', ''ta-rp'')]
     [(''rp'', ''krp'', statement_of ''https://rp'' ''https://rp'' ''krp''
        [hints_at ''https://ta'', relying_party_metadata ''krp'']),
      (''ta'', ''kta'', statement_of ''https://ta'' ''https://ta'' ''kta'' [superior_metadata ''https://ta'']),
      (''ta-rp'', ''kta'', statement_of ''https://ta'' ''https://rp'' ''krp'' [])]"

declare climb.simps [code]

lemma direct_chain:
  "map_option (\<lambda>r. map_sum (\<lambda>_. ()) (map_option tc_tokens) (fst r))
     (resolve_trust_chain sample_services direct_ports sample_federation ''https://rp'' [] sample_world)
   = Some (Inr (Some [''rp'', ''ta-rp'', ''ta'']))"
  by code_simp

lemma direct_chain_run:
  obtains ch w' where "resolve_trust_chain sample_services direct_ports sample_federation ''https://rp'' []
      sample_world = Some (Inr (Some ch), w')" and "tc_tokens ch = [''rp'', ''ta-rp'', ''ta'']"
proof -
  let ?run = "resolve_trust_chain sample_services direct_ports sample_federation ''https://rp'' [] sample_world"
  from direct_chain obtain r where run: "?run = Some r"
    and "map_sum (\<lambda>_. ()) (map_option tc_tokens) (fst r) = Inr (Some [''rp'', ''ta-rp'', ''ta''])" by auto
  from sampled_run [OF this(2)] obtain x v where "r = (Inr x, v)"
    "map_option tc_tokens x = Some [''rp'', ''ta-rp'', ''ta'']" by blast
  with run show ?thesis by (auto intro: that)
qed

lemma table_publishing:
  "publishing X (table_ports sites statements) \<subseteq>
     insert [] ((\<lambda>(t, k, claims). the (Option.bind (map_of claims ''iss'') json_str)) ` set statements)"
proof
  fix e assume "e \<in> publishing X (table_ports sites statements)"
  then obtain st token now jwks claims where
    "verify_entity_statement (table_ports sites statements) token jwks e e now = Some claims"
    by (auto simp: publishing_def published_def attested_def)
  note verified = verified_parties(1,3) [OF this]
  from verified(2) obtain k where "map_of statements token = Some (k, claims)"
    by (auto simp: table_ports_def split: option.splits if_splits)
  then have "(token, k, claims) \<in> set statements" by (rule map_of_SomeD)
  with verified(1) show "e \<in> insert [] ((\<lambda>(t, k, claims).
      the (Option.bind (map_of claims ''iss'') json_str)) ` set statements)"
    by (cases "e = []") (force simp: image_iff)+
qed

lemma direct_finite: "finite (publishing sample_services direct_ports)"
  unfolding direct_ports_def by (rule finite_subset [OF table_publishing]) simp

subsection \<open>Soundness of a resolved chain\<close>

lemma after_loop_Some:
  "after_loop r f = Some (Inr y, t) \<longleftrightarrow> (\<exists>x s. r = Some (Inr x, s) \<and> f x s = (Inr y, t))"
  by (auto simp: after_loop_def split: option.splits prod.splits sum.splits)

lemma crown_chain_sound:
  assumes "crown_chain X P C anchor leaf_token (Some (chain, tokens, here)) w = (Inr (Some ch), w')"
    and "entity = (if anchor \<noteq> [] then anchor else es_issuer here)"
  shows "fc_trust_anchors C \<noteq> [] \<longrightarrow> entity \<in> set (fc_trust_anchors C)"
    and "\<exists>crown crown_token. published X P entity crown crown_token \<and>
      tc_statements ch = chain @ [crown] \<and> tc_tokens ch = tokens @ [crown_token]"
    and "2 \<le> length chain \<longrightarrow> (\<exists>now. verify_entity_statement P leaf_token (es_jwks (chain ! 1))
      (es_issuer (chain ! 0)) (es_subject (chain ! 0)) now \<noteq> None)"
  using assms unfolding crown_chain_def Let_def
  by (auto simp: andthen_case_option andthen_Inr ok_iff subject_attested_keys_def now_utc_iff
      split: if_splits option.splits prod.splits dest!: fetch_configuration_sound)

lemma anchor_reached:
  assumes "is_trust_anchor C here anchor"
  shows "is_self_signed here" and "anchor \<noteq> [] \<Longrightarrow> es_issuer here = anchor"
  using assms by (auto simp: is_trust_anchor_def split: if_splits)

lemma resolved_from_sound:
  assumes "resolve_chain_from X P C leaf anchor leaf_token w = Some (Inr (Some ch), w')"
    and hints: "list_all entity_identifier (es_authority_hints leaf)" and "es_subject leaf \<noteq> []"
  shows "\<exists>chain tokens here crown crown_token. ladder X P leaf leaf_token chain tokens here \<and>
    is_self_signed here \<and> (anchor \<noteq> [] \<longrightarrow> es_issuer here = anchor) \<and>
    (fc_trust_anchors C \<noteq> [] \<longrightarrow> es_issuer here \<in> set (fc_trust_anchors C)) \<and>
    published X P (es_issuer here) crown crown_token \<and>
    tc_statements ch = chain @ [crown] \<and> tc_tokens ch = tokens @ [crown_token] \<and>
    (\<forall>st \<in> set chain. es_subject st = es_subject leaf) \<and>
    (2 \<le> length chain \<longrightarrow> (\<exists>now. verify_entity_statement P leaf_token (es_jwks (chain ! 1))
       (es_issuer leaf) (es_subject leaf) now \<noteq> None))"
proof -
  from assms(1) obtain climbed u where
    up: "climb X P C (es_subject leaf) anchor [leaf] [leaf_token] leaf {es_subject leaf} w = Some (Inr climbed, u)"
    and crown: "crown_chain X P C anchor leaf_token climbed u = (Inr (Some ch), w')"
    by (auto simp: resolve_chain_from_def after_loop_Some)
  from crown obtain chain tokens here where c: "climbed = Some (chain, tokens, here)"
    by (cases climbed) (auto simp: crown_chain_def ok_iff)
  from climb_sound [OF up [unfolded c] ladder.foot hints]
  have up': "ladder X P leaf leaf_token chain tokens here" and at: "is_trust_anchor C here anchor" by auto
  from anchor_reached(2) [OF at] have "es_issuer here = (if anchor \<noteq> [] then anchor else es_issuer here)" by auto
  note crowned = crown_chain_sound [OF crown [unfolded c] this]
  from ladder_shape(1,2) [OF up'] have "chain ! 0 = leaf" by (simp add: hd_conv_nth)
  with crowned(3) have keys: "2 \<le> length chain \<longrightarrow> (\<exists>now. verify_entity_statement P leaf_token
      (es_jwks (chain ! 1)) (es_issuer leaf) (es_subject leaf) now \<noteq> None)" by simp
  from crowned(2) up' anchor_reached [OF at] crowned(1) keys ladder_about_leaf [OF up' assms(3)]
  show ?thesis by blast
qed

lemma trusted_chain:
  assumes "resolve_trust_chain X P C subject anchor w = Some (Inr (Some ch), w')" and "subject \<noteq> []"
  shows "\<exists>leaf leaf_token chain tokens here crown crown_token.
    published X P subject leaf leaf_token \<and> es_subject leaf = subject \<and>
    ladder X P leaf leaf_token chain tokens here \<and>
    is_self_signed here \<and> (anchor \<noteq> [] \<longrightarrow> es_issuer here = anchor) \<and>
    (fc_trust_anchors C \<noteq> [] \<longrightarrow> es_issuer here \<in> set (fc_trust_anchors C)) \<and>
    published X P (es_issuer here) crown crown_token \<and>
    tc_statements ch = chain @ [crown] \<and> tc_tokens ch = tokens @ [crown_token] \<and>
    (\<forall>st \<in> set chain. es_subject st = subject) \<and>
    (2 \<le> length chain \<longrightarrow> (\<exists>now. verify_entity_statement P leaf_token (es_jwks (chain ! 1))
       (es_issuer leaf) (es_subject leaf) now \<noteq> None))"
proof -
  from assms(1) obtain leaf leaf_token u
    where fetched: "fetch_configuration X P subject w = (Inr (Some (leaf, leaf_token)), u)"
      and chain: "resolve_chain_from X P C leaf anchor leaf_token u = Some (Inr (Some ch), w')"
    by (auto simp: resolve_trust_chain_def split: prod.splits sum.splits option.splits)
  note pub = fetch_configuration_sound [OF fetched]
  from published_parties [OF pub] assms(2)
  have "es_subject leaf = subject" "list_all entity_identifier (es_authority_hints leaf)"
    "es_subject leaf \<noteq> []" by auto
  with resolved_from_sound [OF chain] pub show ?thesis by (metis (no_types, lifting))
qed

text \<open>C30. A resolved trust chain is what the code promises: it starts with the configuration the
  subject publishes, continues with statements about the subject, each verified under the keys of an
  entity that publishes its own configuration and that the entity below names as its superior, and
  ends with the configuration of a self-signed entity that is the anchor asked for and one of the
  configured anchors when there are any; the configuration of the subject verifies under the keys its
  superior attests.\<close>

theorem resolved_chain_sound:
  assumes "resolve_trust_chain X P C subject anchor w = Some (Inr (Some ch), w')" and "subject \<noteq> []"
  shows "\<exists>leaf leaf_token chain tokens here crown crown_token.
    published X P subject leaf leaf_token \<and> es_subject leaf = subject \<and>
    ladder X P leaf leaf_token chain tokens here \<and>
    is_self_signed here \<and> (anchor \<noteq> [] \<longrightarrow> es_issuer here = anchor) \<and>
    (fc_trust_anchors C \<noteq> [] \<longrightarrow> es_issuer here \<in> set (fc_trust_anchors C)) \<and>
    published X P (es_issuer here) crown crown_token \<and>
    tc_statements ch = chain @ [crown] \<and> tc_tokens ch = tokens @ [crown_token] \<and>
    (\<forall>st \<in> set chain. es_subject st = subject) \<and>
    (2 \<le> length chain \<longrightarrow> (\<exists>now. verify_entity_statement P leaf_token (es_jwks (chain ! 1))
       (es_issuer leaf) (es_subject leaf) now \<noteq> None))"
  using assms by (rule trusted_chain)

theorem resolved_chain_sound_witness:
  "\<exists>ch w' chain crown. resolve_trust_chain sample_services direct_ports sample_federation ''https://rp'' []
      sample_world = Some (Inr (Some ch), w') \<and> tc_statements ch = chain @ [crown] \<and>
    tc_tokens ch = [''rp'', ''ta-rp'', ''ta''] \<and> (\<forall>st \<in> set chain. es_subject st = ''https://rp'')"
proof -
  obtain ch w' where run: "resolve_trust_chain sample_services direct_ports sample_federation ''https://rp'' []
      sample_world = Some (Inr (Some ch), w')" and "tc_tokens ch = [''rp'', ''ta-rp'', ''ta'']"
    by (rule direct_chain_run)
  with resolved_chain_sound [OF run] show ?thesis by auto
qed

subsection \<open>Termination of the resolution\<close>

text \<open>
  Every rung adds to the set of seen entities one that published a configuration and was not in it,
  so the resolution ends when finitely many entities publish one.
\<close>

lemma climb_ends:
  assumes "finite (publishing X P)"
  shows "\<exists>r u. climb X P C subject anchor chain tokens here seen w = Some (r, u) \<and>
    (\<forall>chain' tokens' here'. r = Inr (Some (chain', tokens', here')) \<longrightarrow>
       length chain' \<le> length chain + card (publishing X P - seen))"
proof (induction "card (publishing X P - seen)" arbitrary: chain tokens here seen w rule: less_induct)
  case less
  show ?case
  proof (cases "is_trust_anchor C here anchor")
    case True
    then show ?thesis by (subst climb.simps) simp
  next
    case False
    obtain n w1 where next_one: "next_superior X P (es_authority_hints here) seen w = (n, w1)"
      by fastforce
    show ?thesis
    proof (cases "\<exists>superior seen'. n = Inr (Some (superior, seen'))")
      case no_superior: False
      with False next_one show ?thesis
        by (subst climb.simps) (auto split: sum.splits option.splits)
    next
      case True
      then obtain superior seen' where n: "n = Inr (Some (superior, seen'))" by blast
      from next_superior_sound [OF next_one [unfolded n]] obtain hint
        where new: "hint \<notin> seen" "seen' = insert hint seen" "hint \<in> publishing X P"
        by (auto simp: publishing_def)
      then have "publishing X P - seen' = publishing X P - seen - {hint}" by auto
      with new assms have smaller: "card (publishing X P - seen) = Suc (card (publishing X P - seen'))"
        using card.remove [of "publishing X P - seen" hint] by simp
      obtain m w2 where fetched: "fetch_subordinate_statement X P superior subject w1 = (m, w2)"
        by fastforce
      show ?thesis
      proof (cases "\<exists>st token. m = Inr (Some (st, token))")
        case no_statement: False
        with False next_one n fetched show ?thesis
          by (subst climb.simps) (auto split: sum.splits option.splits)
      next
        case True
        then obtain st token where m: "m = Inr (Some (st, token))" by blast
        have "climb X P C subject anchor chain tokens here seen w
            = climb X P C subject anchor (chain @ [st]) (tokens @ [token]) superior seen' w2"
          using False next_one n fetched m by (subst climb.simps) simp
        with less [of seen' "chain @ [st]" "tokens @ [token]" superior w2] smaller
        show ?thesis by fastforce
      qed
    qed
  qed
qed

lemma resolve_from_ends:
  assumes "finite (publishing X P)"
  shows "\<exists>r u. resolve_chain_from X P C leaf anchor token w = Some (r, u) \<and>
    (\<forall>ch. r = Inr (Some ch) \<longrightarrow> length (tc_statements ch) \<le> card (publishing X P) + 2)"
proof -
  from climb_ends [OF assms] obtain r u
    where up: "climb X P C (es_subject leaf) anchor [leaf] [token] leaf {es_subject leaf} w = Some (r, u)"
      and size: "\<And>chain tokens here. r = Inr (Some (chain, tokens, here)) \<Longrightarrow>
        length chain \<le> 1 + card (publishing X P - {es_subject leaf})"
    by fastforce
  have "card (publishing X P - {es_subject leaf}) \<le> card (publishing X P)"
    using assms by (intro card_mono) auto
  with size have small: "length chain \<le> card (publishing X P) + 1"
    if "r = Inr (Some (chain, tokens, here))" for chain tokens here
    using that by fastforce
  show ?thesis
  proof (cases r)
    case (Inl e)
    with up show ?thesis by (simp add: resolve_chain_from_def after_loop_def)
  next
    case (Inr climbed)
    obtain res v where crown: "crown_chain X P C anchor token climbed u = (res, v)" by fastforce
    have "length (tc_statements ch) \<le> card (publishing X P) + 2" if "res = Inr (Some ch)" for ch
    proof (cases climbed)
      case None
      with crown that show ?thesis by (simp add: crown_chain_def ok_iff)
    next
      case (Some c)
      then obtain chain tokens here where c: "climbed = Some (chain, tokens, here)" by (cases c) auto
      from crown_chain_sound(2) [OF crown [unfolded c that] refl] small Inr c show ?thesis by auto
    qed
    with up Inr crown show ?thesis by (simp add: resolve_chain_from_def after_loop_def)
  qed
qed

lemma after_loop_ends: "r \<noteq> None \<Longrightarrow> after_loop r f \<noteq> None"
  by (auto simp: after_loop_def split: sum.splits)

lemma resolutions_end:
  assumes "finite (publishing X P)"
  shows "\<exists>r u. resolve_trust_chain X P C subject anchor w = Some (r, u) \<and>
      (\<forall>ch. r = Inr (Some ch) \<longrightarrow> length (tc_statements ch) \<le> card (publishing X P) + 2)"
    and "resolve_entity X P C subject anchor w \<noteq> None"
    and "explicit_register X P C token w \<noteq> None"
    and "find_federated_client X P resolver client_id w \<noteq> None"
proof -
  note returns = resolve_from_ends [OF assms]
  show trust: "\<exists>r u. resolve_trust_chain X P C subject anchor w = Some (r, u) \<and>
      (\<forall>ch. r = Inr (Some ch) \<longrightarrow> length (tc_statements ch) \<le> card (publishing X P) + 2)"
    for C subject anchor
    using returns [of C _ anchor]
    by (auto simp: resolve_trust_chain_def split: prod.splits sum.splits option.splits)
  then show "resolve_entity X P C subject anchor w \<noteq> None"
    unfolding resolve_entity_def by (intro after_loop_ends) (metis option.distinct(1))
  have "after_loop (resolve_chain_from X P C leaf [] token v) f \<noteq> None" for leaf v and f :: "_ \<Rightarrow> str federating"
    using returns [of C leaf "[]" token v] by (intro after_loop_ends) auto
  then show "explicit_register X P C token w \<noteq> None"
    unfolding explicit_register_def by (simp del: not_None_eq split: prod.splits sum.splits)
  have "after_loop (resolve_trust_chain X P C entity [] w) f \<noteq> None" for C entity and f :: "_ \<Rightarrow> client option federating"
    using trust [of C entity "[]"] by (intro after_loop_ends) auto
  then show "find_federated_client X P resolver client_id w \<noteq> None"
    unfolding find_federated_client_def resolve_federated_client_def
    by (simp del: not_None_eq split: option.splits)
qed

text \<open>C31. When finitely many entities publish a configuration, every operation that resolves a trust
  chain returns, and a resolved chain has at most two statements more than there are such entities.\<close>

theorem resolution_terminates:
  assumes "finite (publishing X P)"
  shows "(\<exists>r u. resolve_trust_chain X P C subject anchor w = Some (r, u) \<and>
      (\<forall>ch. r = Inr (Some ch) \<longrightarrow> length (tc_statements ch) \<le> card (publishing X P) + 2)) \<and>
    resolve_entity X P C subject anchor w \<noteq> None \<and> explicit_register X P C token w \<noteq> None \<and>
    find_federated_client X P resolver client_id w \<noteq> None"
  using resolutions_end [OF assms] by (intro conjI)

theorem resolution_terminates_witness:
  "\<exists>r u. resolve_trust_chain sample_services direct_ports sample_federation ''https://rp'' [] sample_world
     = Some (r, u) \<and> find_federated_client sample_services direct_ports (Some sample_federation)
       ''https://rp'' sample_world \<noteq> None"
  using resolution_terminates [OF direct_finite] by blast

subsection \<open>The client of a trust chain\<close>

lemma derived_client:
  assumes "derive_client X entity resolved now = Some c"
  shows "cl_client_id c = entity" "cl_federated c" "cl_is_active c" "cl_client_type c = Confidential"
    "cl_token_endpoint_auth_method c = Some PrivateKeyJwt" "cl_scopes c = {scope_openid}"
    "cl_redirect_uris c \<noteq> {}" "cl_jwks c \<noteq> [] \<or> cl_jwks_uri c \<noteq> []"
  using assms
  by (auto simp: derive_client_def new_client_def split: option.splits json.splits prod.splits if_splits)

lemma chain_of_client:
  assumes "resolve_federated_client X P C entity w = Some (Inr (Some c), w')"
  obtains ch v resolved now where "resolve_trust_chain X P C entity [] w = Some (Inr (Some ch), v)"
    "resolved_metadata ch = Inr resolved" "derive_client X entity resolved now = Some c"
proof -
  from assms obtain res v where chain: "resolve_trust_chain X P C entity [] w = Some (Inr res, v)"
    and client: "client_of_chain X entity res v = (Inr (Some c), w')"
    by (auto simp: resolve_federated_client_def after_loop_Some)
  from client obtain ch where ch: "res = Some ch" by (cases res) (auto simp: client_of_chain_def ok_iff)
  with client obtain resolved now where "resolved_metadata ch = Inr resolved"
    "derive_client X entity resolved now = Some c"
    by (cases "resolved_metadata ch")
      (auto simp: client_of_chain_def chain_metadata_def andthen_Inr lift_iff now_utc_iff ok_iff)
  with chain ch show ?thesis by (intro that) auto
qed

text \<open>A client the registry does not hold is served to the endpoints only when a trust chain of its
  identifier resolves, to one of the configured anchors when there are any; it is then an active,
  confidential client that authenticates with its own keys, has a redirection address, and is limited
  to the scope openid.\<close>

lemma federated_client_sound:
  assumes "find_federated_client X P (Some C) client_id w = Some (Inr (Some c), w')"
    and "clients_find (w_clients w) client_id = None" and "client_id \<noteq> []"
  shows "cl_client_id c = client_id \<and> cl_federated c \<and> cl_is_active c \<and> cl_client_type c = Confidential \<and>
    cl_token_endpoint_auth_method c = Some PrivateKeyJwt \<and> cl_scopes c = {scope_openid} \<and>
    cl_redirect_uris c \<noteq> {} \<and> (cl_jwks c \<noteq> [] \<or> cl_jwks_uri c \<noteq> []) \<and>
    (\<exists>ch v anchor crown token. resolve_trust_chain X P C client_id [] w = Some (Inr (Some ch), v) \<and>
       published X P anchor crown token \<and> last (tc_statements ch) = crown \<and>
       (fc_trust_anchors C \<noteq> [] \<longrightarrow> anchor \<in> set (fc_trust_anchors C)))"
proof -
  from assms(1,2) have "resolve_federated_client X P C client_id w = Some (Inr (Some c), w')"
    by (simp add: find_federated_client_def)
  then obtain ch v resolved now where
    chain: "resolve_trust_chain X P C client_id [] w = Some (Inr (Some ch), v)"
    and client: "derive_client X client_id resolved now = Some c"
    by (rule chain_of_client)
  from trusted_chain [OF chain assms(3)] obtain statements crown crown_token and here :: entity_statement
    where pub: "published X P (es_issuer here) crown crown_token" and st: "tc_statements ch = statements @ [crown]"
    and inside: "fc_trust_anchors C \<noteq> [] \<longrightarrow> es_issuer here \<in> set (fc_trust_anchors C)"
    by blast
  from st have "last (tc_statements ch) = crown" by simp
  with chain pub inside derived_client [OF client] show ?thesis by blast
qed

lemma direct_client:
  "map_option (\<lambda>r. map_sum (\<lambda>_. ()) (map_option cl_jwks) (fst r))
     (find_federated_client sample_services direct_ports (Some sample_federation) ''https://rp'' sample_world)
   = Some (Inr (Some [[(''kid'', JStr ''krp'')]]))"
  by code_simp

lemma federated_client_sound_witness:
  "\<exists>c w'. find_federated_client sample_services direct_ports (Some sample_federation) ''https://rp''
      sample_world = Some (Inr (Some c), w') \<and> cl_jwks c = [[(''kid'', JStr ''krp'')]] \<and>
    cl_client_id c = ''https://rp'' \<and> cl_federated c"
proof -
  let ?run = "find_federated_client sample_services direct_ports (Some sample_federation) ''https://rp'' sample_world"
  from direct_client obtain r where run: "?run = Some r"
    and "map_sum (\<lambda>_. ()) (map_option cl_jwks) (fst r) = Inr (Some [[(''kid'', JStr ''krp'')]])" by auto
  from sampled_run [OF this(2)] obtain x v where r: "r = (Inr x, v)"
    "map_option cl_jwks x = Some [[(''kid'', JStr ''krp'')]]" by blast
  then obtain c where c: "x = Some c" "cl_jwks c = [[(''kid'', JStr ''krp'')]]" by auto
  from federated_client_sound [of sample_services direct_ports sample_federation "''https://rp''" sample_world c v]
  show ?thesis using run r c by (simp add: clients_find_def sample_world_def)
qed

end
