(* ===== verification/TrustChainLimits.thy ===== *)
theory TrustChainLimits
  imports TrustChainRules
begin

text \<open>
  Two federations that show the limits of the resolution of trust chains: one that vouches for an
  impostor and one whose resolution never ends.
\<close>

subsection \<open>An impostor below a superior the anchor does not know\<close>

text \<open>
  \<open>https://rp\<close> is a client the trust anchor attests with the key \<open>krp\<close>.  \<open>https://evil\<close> publishes a
  configuration that names the anchor as its superior, and a statement that gives \<open>https://rp\<close> the key
  \<open>kevil\<close>; the anchor has no statement about \<open>https://evil\<close>.  The token \<open>fake\<close> is a configuration of
  \<open>https://rp\<close> signed with \<open>kevil\<close> that names \<open>https://evil\<close> as its superior.
\<close>

definition impostor_statements :: "(str \<times> str \<times> dict) list" where
  "impostor_statements =
     [(''rp'', ''krp'', statement_of ''https://rp'' ''https://rp'' ''krp''
        [hints_at ''https://ta'', relying_party_metadata ''krp'']),
      (''ta'', ''kta'', statement_of ''https://ta'' ''https://ta'' ''kta'' [superior_metadata ''https://ta'']),
      (''ta-rp'', ''kta'', statement_of ''https://ta'' ''https://rp'' ''krp'' []),
      (''evil'', ''kevil'', statement_of ''https://evil'' ''https://evil'' ''kevil''
        [hints_at ''https://ta'', superior_metadata ''https://evil'']),
      (''evil-rp'', ''kevil'', statement_of ''https://evil'' ''https://rp'' ''kevil'' []),
      (''fake'', ''kevil'', statement_of ''https://rp'' ''https://rp'' ''kevil''
        [hints_at ''https://evil'', relying_party_metadata ''kevil'', (''aud'', JStr ''https://op'')])]"

definition impostor_ports :: federation_ports where
  "impostor_ports = table_ports
     [(''https://rp/.well-known/openid-federation'', ''rp''),
      (''https://ta/.well-known/openid-federation'', ''ta''),
      (''https://ta/fetch?sub=https://rp'', ''ta-rp''),
      (''https://evil/.well-known/openid-federation'', ''evil''),
      (''https://evil/fetch?sub=https://rp'', ''evil-rp'')]
     impostor_statements"

lemma anchor_ignores_evil:
  "\<not> attested X impostor_ports jwks ''https://ta'' ''https://evil'' st token"
proof
  assume "attested X impostor_ports jwks ''https://ta'' ''https://evil'' st token"
  then obtain now claims where
    "verify_entity_statement impostor_ports token jwks ''https://ta'' ''https://evil'' now = Some claims"
    by (auto simp: attested_def)
  note verified = verified_parties [OF this]
  from verified(3) obtain k where "map_of impostor_statements token = Some (k, claims)"
    unfolding impostor_ports_def table_ports_def by (auto split: option.splits if_splits)
  with verified(1,2) show False
    by (auto simp: impostor_statements_def statement_of_def split: if_splits)
qed


subsection \<open>A federation without end\<close>

text \<open>
  One host serves configurations for \<open>https://e\<close>, \<open>https://ex\<close>, \<open>https://exx\<close> and so on, each naming
  the next as its superior, and statements of each about any subject.  A token is its address; the
  issuer and the subject are read from it.
\<close>

definition token_host :: "str \<Rightarrow> str" where
  "token_host url = ''https://'' @ takeWhile (\<lambda>c. c \<noteq> CHR ''/'') (drop 8 url)"

definition token_about :: "str \<Rightarrow> str" where
  "token_about url = (if CHR ''='' \<in> set url then drop 1 (dropWhile (\<lambda>c. c \<noteq> CHR ''='') url)
     else token_host url)"

definition endless_claims :: "str \<Rightarrow> dict" where
  "endless_claims url = statement_of (token_host url) (token_about url) ''k''
     [hints_at (token_host url @ ''x''), superior_metadata (token_host url)]"

definition endless_ports :: federation_ports where
  "endless_ports = \<lparr>fd_fetch = (\<lambda>url now. Some url),
     fd_header = (\<lambda>token. Some [(''typ'', JStr entity_statement_typ), (''kid'', JStr ''k'')]),
     fd_unverified = (\<lambda>token. Some (endless_claims token)),
     fd_decode = (\<lambda>token key alg now. Some (endless_claims token)),
     fd_sign = (\<lambda>alg typ claims. typ), fd_jwks = [], fd_discovery = None\<rparr>"

definition entity_at :: "nat \<Rightarrow> str" where
  "entity_at n = ''https://e'' @ replicate n CHR ''x''"

definition statement_at :: "nat \<Rightarrow> str \<Rightarrow> entity_statement" where
  "statement_at n subject = \<lparr>es_issuer = entity_at n, es_subject = subject, es_issued_at = 0,
     es_expires_at = 100000000, es_jwks = [(''keys'', JList [JObj [(''kid'', JStr ''k'')]])],
     es_metadata = [(''federation_entity'',
       [(''federation_fetch_endpoint'', JStr (entity_at n @ ''/fetch''))])],
     es_authority_hints = [entity_at (Suc n)], es_trust_anchor_hints = [], es_trust_marks = [],
     es_constraints = None, es_metadata_policy = None, es_metadata_policy_crit = [],
     es_source_endpoint = []\<rparr>"

lemma entity_at_chars: "c \<in> set (entity_at n) \<Longrightarrow> c \<in> set ''https://ex''"
  by (auto simp: entity_at_def split: if_splits)

lemma entity_at_last: "entity_at n \<noteq> []" "last (entity_at n) \<in> {CHR ''e'', CHR ''x''}"
  by (cases n; simp add: entity_at_def)+

lemma entity_at_host:
  "takeWhile P (drop 8 (entity_at n @ z)) = CHR ''e'' # replicate n CHR ''x'' @ takeWhile P z"
  if "P (CHR ''e'')" "P (CHR ''x'')"
  using that by (induction n) (simp_all add: entity_at_def)

lemma entity_at_identifier: "entity_identifier (entity_at n)"
proof -
  have "without_final_newline (entity_at n) = entity_at n"
    using entity_at_last(2) [of n] by (auto simp: without_final_newline_def)
  then show ?thesis
    using entity_at_host [of "\<lambda>c. \<not> is_space c \<and> c \<notin> {CHR ''/'', CHR ''?'', CHR ''#''}" n "[]"]
    by (simp add: entity_identifier_def Let_def starts_with_def is_space_def)
      (simp add: entity_at_def)
qed

lemma entity_at_Suc: "entity_at n @ ''x'' = entity_at (Suc n)"
  by (simp add: entity_at_def replicate_append_same)

lemma endless_addresses:
  "configuration_url (entity_at n) = entity_at n @ entity_configuration_path"
  "token_host (entity_at n @ entity_configuration_path) = entity_at n"
  "token_about (entity_at n @ entity_configuration_path) = entity_at n"
  "token_host (entity_at n @ ''/fetch?sub='' @ s) = entity_at n"
  "token_about (entity_at n @ ''/fetch?sub='' @ s) = s"
proof -
  have no_equals: "CHR ''='' \<notin> set (entity_at n)"
    using entity_at_chars by force
  show "configuration_url (entity_at n) = entity_at n @ entity_configuration_path"
    using entity_at_last [of n]
    by (cases "entity_at n" rule: rev_cases) (auto simp: configuration_url_def rstrip_slash_def)
  show host: "token_host (entity_at n @ entity_configuration_path) = entity_at n"
    "token_host (entity_at n @ ''/fetch?sub='' @ s) = entity_at n"
    using entity_at_host [of "\<lambda>c. c \<noteq> CHR ''/''" n]
    by (simp_all add: token_host_def entity_configuration_path_def) (simp_all add: entity_at_def)
  show "token_about (entity_at n @ entity_configuration_path) = entity_at n"
    using no_equals host by (simp add: token_about_def) (simp add: entity_configuration_path_def)
  show "token_about (entity_at n @ ''/fetch?sub='' @ s) = s"
    using no_equals by (auto simp: token_about_def dropWhile_append)
qed

lemma parse_endless:
  assumes "entity_identifier subject"
  shows "parse_entity_statement X (statement_of (entity_at n) subject ''k''
      [hints_at (entity_at n @ ''x''), superior_metadata (entity_at n)]) = Inr (statement_at n subject)"
    (is "parse_entity_statement X ?claims = _")
proof -
  have "subject \<noteq> []" using assms by (auto dest: hint_nonempty)
  then have parties: "required_string ?claims ''iss'' = Inr (entity_at n)" "required_string ?claims ''sub'' = Inr subject"
    using entity_at_last(1) [of n] by (simp_all add: required_string_def statement_of_def)
  have times: "required_timestamp ?claims ''iat'' = Inr 0" "required_timestamp ?claims ''exp'' = Inr 100000000"
    by (simp_all add: required_timestamp_def statement_of_def from_timestamp_def half_even_def)
  have keys: "map_of ?claims ''jwks'' = Some (key_set ''k'')"
    by (simp add: statement_of_def)
  have metadata: "parse_entity_metadata ?claims = Inr (es_metadata (statement_at n subject))"
    by (simp add: parse_entity_metadata_def statement_of_def hints_at_def superior_metadata_def
        standard_entity_types_def statement_at_def)
  have hints: "parse_hints ?claims = Inr ([entity_at (Suc n)], [])"
    using entity_at_identifier [of "Suc n"]
    by (simp add: parse_hints_def string_array_def jget_def statement_of_def hints_at_def
        superior_metadata_def entity_at_Suc)
  have rest: "parse_policy ?claims = Inr None" "parse_constraints ?claims = Inr None"
    "parse_source_endpoint X ?claims = Inr []" "string_array ?claims ''metadata_policy_crit'' = Inr []"
    by (simp_all add: parse_policy_def parse_constraints_def parse_source_endpoint_def string_array_def
        jget_def statement_of_def hints_at_def superior_metadata_def)
  show ?thesis
    unfolding parse_entity_statement_def parties times keys metadata hints rest
    using assms entity_at_identifier [of n] by (simp add: key_set_def statement_at_def)
qed

lemma endless_verified:
  "verify_entity_statement endless_ports token [(''keys'', JList [JObj [(''kid'', JStr ''k'')]])] issuer subject now
     = (if (issuer = [] \<or> token_host token = issuer) \<and> (subject = [] \<or> token_about token = subject)
        then Some (endless_claims token) else None)"
  by (simp add: verify_entity_statement_def statement_key_id_def candidate_keys_def verify_with_def
      endless_ports_def endless_claims_def statement_of_def)

lemma endless_ports_sites:
  "fd_fetch endless_ports url now = Some url" "fd_unverified endless_ports token = Some (endless_claims token)"
  by (simp_all add: endless_ports_def)

lemma endless_configuration:
  "fetch_configuration X endless_ports (entity_at n) w
     = (Inr (Some (statement_at n (entity_at n), entity_at n @ entity_configuration_path)),
        w\<lparr>w_tick := Suc (w_tick w)\<rparr>)"
proof -
  let ?token = "entity_at n @ entity_configuration_path"
  have claims: "endless_claims ?token = statement_of (entity_at n) (entity_at n) ''k''
      [hints_at (entity_at n @ ''x''), superior_metadata (entity_at n)]"
    by (simp add: endless_claims_def endless_addresses)
  have keys: "map_of (endless_claims ?token) ''jwks'' = Some (JObj [(''keys'', JList [JObj [(''kid'', JStr ''k'')]])])"
    by (simp add: claims statement_of_def key_set_def)
  from parse_endless [OF entity_at_identifier [of n], of X n]
  have "parsed_statement X (endless_claims ?token) ?token v
      = (Inr (Some (statement_at n (entity_at n), ?token)), v)" for v
    by (simp add: parsed_statement_def claims ok_def)
  with keys show ?thesis
    by (simp add: fetch_configuration_def andthen_def now_utc_def endless_ports_sites endless_addresses
        endless_verified)
qed

lemma endless_attestation:
  assumes "entity_identifier subject"
  shows "\<exists>token. fetch_subordinate_statement X endless_ports (statement_at n (entity_at n)) subject w
     = (Inr (Some (statement_at n subject, token)), w\<lparr>w_tick := Suc (w_tick w)\<rparr>)"
proof -
  let ?token = "entity_at n @ ''/fetch?sub='' @ subject"
  have no_query: "CHR ''?'' \<notin> set (entity_at n)" using entity_at_chars by force
  have claims: "endless_claims ?token = statement_of (entity_at n) subject ''k''
      [hints_at (entity_at n @ ''x''), superior_metadata (entity_at n)]"
    using endless_addresses(4,5) [of n subject] by (simp add: endless_claims_def)
  have parsed: "parsed_statement X (endless_claims ?token) ?token v
      = (Inr (Some (statement_at n subject, ?token)), v)" for v
    unfolding parsed_statement_def claims parse_endless [OF assms, of X n] by (simp add: ok_def)
  have endpoint: "federation_endpoint (statement_at n (entity_at n)) ''federation_fetch_endpoint''
      = entity_at n @ ''/fetch''"
    by (simp add: federation_endpoint_def statement_at_def)
  with no_query have url: "subordinate_url (federation_endpoint (statement_at n (entity_at n))
      ''federation_fetch_endpoint'') subject = ?token"
    by (simp add: subordinate_url_def)
  have verified: "verify_entity_statement endless_ports ?token (es_jwks (statement_at n (entity_at n)))
      (es_issuer (statement_at n (entity_at n))) subject now = Some (endless_claims ?token)" for now
    using endless_addresses(4,5) [of n subject] by (simp add: statement_at_def endless_verified)
  have "fetch_subordinate_statement X endless_ports (statement_at n (entity_at n)) subject w
     = (Inr (Some (statement_at n subject, ?token)), w\<lparr>w_tick := Suc (w_tick w)\<rparr>)"
    unfolding fetch_subordinate_statement_def Let_def url
    by (simp add: endpoint andthen_def now_utc_def endless_ports_sites verified parsed del: append_Cons append.simps)
  then show ?thesis by blast
qed

lemma endless_not_anchor: "\<not> is_trust_anchor sample_federation (statement_at n subject) []"
proof -
  have "entity_at n \<noteq> ''https://ta''" by (simp add: entity_at_def)
  then show ?thesis by (simp add: is_trust_anchor_def statement_at_def sample_federation_def)
qed

lemma endless_next:
  assumes "entity_at (Suc n) \<notin> seen"
  shows "next_superior X endless_ports (es_authority_hints (statement_at n subject)) seen w
    = (Inr (Some (statement_at (Suc n) (entity_at (Suc n)), insert (entity_at (Suc n)) seen)),
       w\<lparr>w_tick := Suc (w_tick w)\<rparr>)"
proof -
  have "es_authority_hints (statement_at n subject) = [entity_at (Suc n)]" by (simp add: statement_at_def)
  with assms show ?thesis by (simp add: andthen_def endless_configuration ok_def)
qed

lemma entity_at_fresh: "entity_at (Suc n) \<notin> entity_at ` {..n}"
proof
  assume "entity_at (Suc n) \<in> entity_at ` {..n}"
  then obtain k where k: "k \<le> n" "entity_at (Suc n) = entity_at k" by blast
  then have "length (entity_at (Suc n)) = length (entity_at k)" by simp
  with k(1) show False by (simp add: entity_at_def)
qed

lemma endless_climb:
  assumes "climb X endless_ports sample_federation (entity_at 0) [] chain tokens here seen w = Some r"
    and "here = statement_at n (entity_at n)" "seen = entity_at ` {..n}"
  shows False
  using assms
proof (induction chain tokens here seen w r arbitrary: n rule: climb_induct)
  case (anchor chain tokens here seen w)
  then show ?case by (simp add: endless_not_anchor)
next
  case (lost chain tokens here seen w res u)
  from lost endless_next [of n seen X "entity_at n" w] entity_at_fresh [of n]
    endless_attestation [OF entity_at_identifier [of 0], of X "Suc n"]
  show ?case by simp metis
next
  case (rung chain tokens here seen w superior seen' w1 st token w2 r)
  with endless_next [of n seen X "entity_at n" w] entity_at_fresh [of n]
  have "superior = statement_at (Suc n) (entity_at (Suc n))" "seen' = entity_at ` {..Suc n}"
    by (simp_all add: atMost_Suc)
  then show ?case by (rule rung.IH)
qed

lemma endless_from:
  "resolve_chain_from X endless_ports sample_federation (statement_at 0 (entity_at 0)) [] token w = None"
proof -
  have "climb X endless_ports sample_federation (entity_at 0) [] chain tokens (statement_at 0 (entity_at 0))
      {entity_at 0} w = None" (is "?run = None") for chain tokens
  proof (rule ccontr)
    assume "?run \<noteq> None"
    then obtain r where "?run = Some r" by blast
    from endless_climb [OF this refl] show False by simp
  qed
  moreover have "es_subject (statement_at 0 (entity_at 0)) = entity_at 0" by (simp add: statement_at_def)
  ultimately show ?thesis by (simp add: resolve_chain_from_def after_loop_def)
qed

text \<open>The resolution has no bound: below a host that keeps naming fresh superiors it never
  returns, whatever the clock, and nor does the look-up of the client by the endpoints.\<close>

lemma endless_resolution:
  "resolve_trust_chain X endless_ports sample_federation (entity_at 0) [] w = None \<and>
   find_federated_client X endless_ports (Some sample_federation) (entity_at 0)
     (w\<lparr>w_clients := []\<rparr>) = None"
proof -
  have never: "resolve_trust_chain X endless_ports sample_federation (entity_at 0) [] v = None" for v
    unfolding resolve_trust_chain_def endless_configuration by (simp only: prod.case sum.case option.case endless_from)
  moreover have "clients_find (w_clients (w\<lparr>w_clients := []\<rparr>)) (entity_at 0) = None"
    by (simp add: clients_find_def)
  ultimately show ?thesis
    by (simp add: find_federated_client_def resolve_federated_client_def after_loop_def)
qed

end
