(* ===== verification/StatementFormat.thy ===== *)
theory StatementFormat
  imports TrustChainRules
begin

text \<open>Serialisation of entity statements: a well formed statement survives it.\<close>

definition whole_second :: "instant \<Rightarrow> bool" where
  "whole_second t \<longleftrightarrow> t mod 1000000 = 0 \<and> -62135596800000000 \<le> t \<and> t < 253402300800000000"

definition wf_statement :: "entity_statement \<Rightarrow> bool" where
  "wf_statement st \<longleftrightarrow>
     entity_identifier (es_issuer st) \<and> entity_identifier (es_subject st) \<and>
     whole_second (es_issued_at st) \<and> whole_second (es_expires_at st) \<and>
     es_issued_at st < es_expires_at st \<and>
     (case map_of (es_jwks st) ''keys'' of Some (JList _) \<Rightarrow> True | _ \<Rightarrow> False) \<and>
     fst ` set (es_metadata st) \<subseteq> set standard_entity_types \<and>
     list_all entity_identifier (es_authority_hints st @ es_trust_anchor_hints st) \<and>
     (case es_metadata_policy st of None \<Rightarrow> True | Some p \<Rightarrow> validate_metadata_policy p = Inr ()) \<and>
     es_trust_marks st = []"

lemma map_of_present_if [simp]: "map_of (present_if b k v) n = (if b \<and> n = k then Some v else None)"
  by (simp add: present_if_def)

lemma map_of_optional [simp]:
  "map_of (case r of None \<Rightarrow> [] | Some x \<Rightarrow> [(k, f x)]) n
     = (if n = k then map_option f r else None)"
  by (cases r) simp_all

lemma timestamp_roundtrip:
  assumes "whole_second t" and "map_of claims name = Some (JInt (timestamp_int t))"
  shows "required_timestamp claims name = Inr t"
proof -
  from assms(1) have whole: "timestamp_int t * 1000000 = t"
    by (auto simp: whole_second_def timestamp_int_def)
  then have "(of_int (timestamp_int t) * 1000000 :: rat) = of_int t"
    by (metis of_int_mult of_int_numeral)
  then have "from_timestamp (of_int (timestamp_int t)) = Some t"
    using assms(1) by (simp add: from_timestamp_def half_even_def whole_second_def)
  with assms(2) show ?thesis by (simp add: required_timestamp_def)
qed

lemma string_array_roundtrip:
  assumes "map_of claims name = (if xs = [] then None else Some (JList (map JStr xs)))"
  shows "string_array claims name = Inr xs"
  using assms by (simp add: string_array_def jget_def list_all_iff comp_def split: if_splits)

lemma to_claims_members:
  "map_of (to_claims st) ''iss'' = Some (JStr (es_issuer st))"
  "map_of (to_claims st) ''sub'' = Some (JStr (es_subject st))"
  "map_of (to_claims st) ''iat'' = Some (JInt (timestamp_int (es_issued_at st)))"
  "map_of (to_claims st) ''exp'' = Some (JInt (timestamp_int (es_expires_at st)))"
  "map_of (to_claims st) ''jwks'' = Some (JObj (es_jwks st))"
  "map_of (to_claims st) ''metadata'' = (if es_metadata st = [] then None
     else Some (JObj (map (\<lambda>(n, d). (n, JObj d)) (es_metadata st))))"
  "map_of (to_claims st) ''authority_hints'' = (if es_authority_hints st = [] then None
     else Some (JList (map JStr (es_authority_hints st))))"
  "map_of (to_claims st) ''trust_anchor_hints'' = (if es_trust_anchor_hints st = [] then None
     else Some (JList (map JStr (es_trust_anchor_hints st))))"
  "map_of (to_claims st) ''constraints'' = map_option JObj (es_constraints st)"
  "map_of (to_claims st) ''metadata_policy'' = map_option JObj (es_metadata_policy st)"
  "map_of (to_claims st) ''metadata_policy_crit'' = (if es_metadata_policy_crit st = [] then None
     else Some (JList (map JStr (es_metadata_policy_crit st))))"
  "map_of (to_claims st) ''source_endpoint'' = (if es_source_endpoint st = [] then None
     else Some (JStr (es_source_endpoint st)))"
  by (simp_all add: to_claims_def map_add_def split: option.splits)

lemma metadata_roundtrip:
  assumes "fst ` set (es_metadata st) \<subseteq> set standard_entity_types"
  shows "parse_entity_metadata (to_claims st) = Inr (es_metadata st)"
proof -
  have "list_all (\<lambda>(_, v). as_dict v \<noteq> None) (map (\<lambda>(n, d). (n, JObj d)) (es_metadata st))"
    "map (\<lambda>(n, v). (n, the (as_dict v))) (map (\<lambda>(n, d). (n, JObj d)) (es_metadata st)) = es_metadata st"
    by (auto simp: list_all_iff intro!: map_idI)
  moreover have "set (map fst (map (\<lambda>(n, d). (n, JObj d)) (es_metadata st))) - set standard_entity_types = {}"
    using assms by auto
  ultimately show ?thesis unfolding parse_entity_metadata_def to_claims_members Let_def by auto
qed

lemma hints_roundtrip:
  assumes "list_all entity_identifier (es_authority_hints st @ es_trust_anchor_hints st)"
  shows "parse_hints (to_claims st) = Inr (es_authority_hints st, es_trust_anchor_hints st)"
proof -
  have "string_array (to_claims st) ''authority_hints'' = Inr (es_authority_hints st)"
    "string_array (to_claims st) ''trust_anchor_hints'' = Inr (es_trust_anchor_hints st)"
    by (simp_all add: string_array_roundtrip to_claims_members)
  moreover have "List.find (\<lambda>h. \<not> entity_identifier h) (es_authority_hints st @ es_trust_anchor_hints st) = None"
    using assms by (auto simp: find_None_iff list_all_iff)
  ultimately show ?thesis by (simp add: parse_hints_def)
qed

text \<open>C32. An entity statement whose parts are well formed, with instants on whole seconds and without
  trust marks, is read back from its serialised claims unchanged.\<close>

theorem entity_statement_roundtrip:
  assumes "wf_statement st"
  shows "parse_entity_statement X (to_claims st) = Inr st"
proof -
  note wf = assms [unfolded wf_statement_def]
  have parties: "required_string (to_claims st) ''iss'' = Inr (es_issuer st)"
    "required_string (to_claims st) ''sub'' = Inr (es_subject st)"
    using wf by (auto simp: required_string_def to_claims_members dest: hint_nonempty)
  have times: "required_timestamp (to_claims st) ''iat'' = Inr (es_issued_at st)"
    "required_timestamp (to_claims st) ''exp'' = Inr (es_expires_at st)"
    using wf by (auto intro: timestamp_roundtrip simp: to_claims_members)
  have metadata: "parse_entity_metadata (to_claims st) = Inr (es_metadata st)"
    and hints: "parse_hints (to_claims st) = Inr (es_authority_hints st, es_trust_anchor_hints st)"
    using wf by (simp_all add: metadata_roundtrip hints_roundtrip)
  have policy: "parse_policy (to_claims st) = Inr (es_metadata_policy st)"
    using wf by (auto simp: parse_policy_def jget_def to_claims_members split: option.splits)
  have rest: "parse_constraints (to_claims st) = Inr (es_constraints st)"
    "parse_source_endpoint X (to_claims st) = Inr (es_source_endpoint st)"
    "string_array (to_claims st) ''metadata_policy_crit'' = Inr (es_metadata_policy_crit st)"
    by (auto simp: parse_constraints_def jget_def parse_source_endpoint_def to_claims_members
        string_array_roundtrip split: option.splits)
  show ?thesis
    unfolding parse_entity_statement_def parties times metadata hints policy rest to_claims_members
    using wf by (auto split: option.splits json.splits)
qed

definition sample_statement :: entity_statement where
  "sample_statement = \<lparr>es_issuer = ''https://ta'', es_subject = ''https://rp'', es_issued_at = 0,
     es_expires_at = 100000000, es_jwks = [(''keys'', JList [])],
     es_metadata = [(''openid_relying_party'', [(''redirect_uris'', JList [JStr ''https://cb''])])],
     es_authority_hints = [''https://ta''], es_trust_anchor_hints = [], es_trust_marks = [],
     es_constraints = Some [], es_metadata_policy = Some [(''openid_relying_party'',
       JObj [(''scope'', JObj [(''value'', JStr ''openid'')])])],
     es_metadata_policy_crit = [], es_source_endpoint = ''https://ta/fetch''\<rparr>"

theorem entity_statement_roundtrip_witness:
  "parse_entity_statement sample_services (to_claims sample_statement) = Inr sample_statement"
  by (rule entity_statement_roundtrip) code_simp

end
