(* ===== verification/KeyStore.thy ===== *)
theory KeyStore
  imports Stores
begin

text \<open>
  The key pairs of the server: \<open>domain/jwks.py\<close>, \<open>infrastructure/persistence/memory/keys.py\<close>,
  \<open>infrastructure/jwks.py\<close> (\<open>DefaultKeyManager\<close> and \<open>first_active_key\<close>), \<open>application/jwks.py\<close>
  (\<open>JWKSetUseCase\<close>), and the choice of keys of \<open>identity/rotating_signer.py\<close> and
  \<open>infrastructure/tokens.py\<close>.  The generation of the PEM texts is a stream of the state, as the clock
  and the identifiers are.
\<close>

subsection \<open>Key pairs\<close>

datatype key_family = UseSig | UseSession | UseReset | UseVerify | UseEnc | UseSecret | UseFederation

record key_pair =
  kp_algorithm :: jwt_algorithm
  kp_use :: key_family
  kp_kid :: str
  kp_private_pem :: str
  kp_public_pem :: str
  kp_created_at :: instant
  kp_is_active :: bool

datatype key_type = KtyRsa | KtyEc | KtyOct

text \<open>\<open>JWTAlgorithm.key_type\<close>; \<open>None\<close> is the \<open>ValueError\<close> of the algorithm none.\<close>

fun key_type_of :: "jwt_algorithm \<Rightarrow> key_type option" where
  "key_type_of AlgNone = None"
| "key_type_of a =
     (if a \<in> {RS256, RS384, RS512, PS256, PS384, PS512} then Some KtyRsa
      else if a \<in> {HS256, HS384, HS512} then Some KtyOct else Some KtyEc)"

fun curve_of :: "jwt_algorithm \<Rightarrow> str" where
  "curve_of ES256 = ''P-256''"
| "curve_of ES384 = ''P-384''"
| "curve_of ES512 = ''P-521''"
| "curve_of _ = []"

text \<open>The pairs \<open>(created_at, kid)\<close> by which keys are sorted, in the order of Python's tuples.\<close>

datatype key_age = KeyAge (age_created: instant) (age_kid: str)

instantiation key_age :: linorder
begin

definition less_eq_key_age :: "key_age \<Rightarrow> key_age \<Rightarrow> bool" where
  "a \<le> b \<longleftrightarrow> age_created a < age_created b \<or> (age_created a = age_created b \<and> age_kid a \<le> age_kid b)"

definition less_key_age :: "key_age \<Rightarrow> key_age \<Rightarrow> bool" where
  "(a :: key_age) < b \<longleftrightarrow> a \<le> b \<and> \<not> b \<le> a"

instance
  by standard (auto simp: less_eq_key_age_def less_key_age_def key_age.expand)

end

definition age_of :: "key_pair \<Rightarrow> key_age" where
  "age_of k = KeyAge (kp_created_at k) (kp_kid k)"

definition newest_first :: "key_pair list \<Rightarrow> key_pair list" where
  "newest_first ks = rev (sort_key age_of ks)"

lemma newest_first_set [simp]: "set (newest_first ks) = set ks"
  by (simp add: newest_first_def)

subsection \<open>The repository\<close>

type_synonym key_store = "(str \<times> key_pair) list"

definition keys_save :: "key_pair \<Rightarrow> key_store \<Rightarrow> key_store" where
  "keys_save k d = dict_set (kp_kid k) k d"

definition keys_find :: "key_store \<Rightarrow> str \<Rightarrow> key_pair option" where
  "keys_find d kid = dict_get d kid"

definition keys_delete :: "str \<Rightarrow> key_store \<Rightarrow> key_store" where
  "keys_delete kid d = dict_pop kid d"

interpretation keys: keyed_repo "\<lambda>k. kp_kid k" dict_ok keys_find keys_save keys_delete
  by unfold_locales (simp_all add: keys_save_def keys_find_def keys_delete_def)

subsection \<open>The state and its programs\<close>

record key_world =
  kw_keys :: key_store
  kw_clock :: "nat \<Rightarrow> instant"
  kw_tick :: nat
  kw_kid :: "nat \<Rightarrow> str"
  kw_pem :: "nat \<Rightarrow> str \<times> str"
  kw_draw :: nat

text \<open>An exception that leaves a key operation, by its class.\<close>

datatype key_failure = KeyCrashed str

type_synonym 'a keying = "(key_world, key_failure, 'a) prog"

definition key_now :: "instant keying" where
  "key_now = (\<lambda>w. (Inr (kw_clock w (kw_tick w)), w\<lparr>kw_tick := Suc (kw_tick w)\<rparr>))"

definition fresh_key :: "(str \<times> str \<times> str) keying" where
  "fresh_key = (\<lambda>w. (Inr (kw_kid w (kw_draw w), kw_pem w (kw_draw w)), w\<lparr>kw_draw := Suc (kw_draw w)\<rparr>))"

definition days :: "int \<Rightarrow> int" where
  "days n = seconds (n * 86400)"

text \<open>\<open>_generate_key_pair\<close>: no pair exists for a symmetric algorithm nor for none.\<close>

definition generate_pair :: "jwt_algorithm \<Rightarrow> key_pair keying" where
  "generate_pair alg =
     (if alg \<in> set symmetric_algorithms then raise (KeyCrashed ''ValueError'')
      else if alg = AlgNone then raise (KeyCrashed ''KeyError'')
      else andthen fresh_key (\<lambda>(kid, private_pem, public_pem).
        andthen key_now (\<lambda>now.
        ok \<lparr>kp_algorithm = alg, kp_use = UseSig, kp_kid = kid, kp_private_pem = private_pem,
          kp_public_pem = public_pem, kp_created_at = now, kp_is_active = True\<rparr>)))"

subsection \<open>DefaultKeyManager\<close>

definition store_key :: "key_pair \<Rightarrow> unit keying" where
  "store_key k = modify (\<lambda>w. w\<lparr>kw_keys := keys_save k (kw_keys w)\<rparr>)"

definition drop_key :: "str \<Rightarrow> unit keying" where
  "drop_key kid = modify (\<lambda>w. w\<lparr>kw_keys := keys_delete kid (kw_keys w)\<rparr>)"

definition family_keys :: "key_family \<Rightarrow> key_store \<Rightarrow> key_pair list" where
  "family_keys u d = filter (\<lambda>k. kp_use k = u) (dict_values d)"

definition active_keys :: "key_family \<Rightarrow> key_store \<Rightarrow> key_pair list" where
  "active_keys u d = filter (\<lambda>k. kp_is_active k) (family_keys u d)"

definition retired_keys :: "key_family \<Rightarrow> key_store \<Rightarrow> key_pair list" where
  "retired_keys u d = newest_first (filter (\<lambda>k. \<not> kp_is_active k) (family_keys u d))"

definition active_for :: "key_family \<Rightarrow> jwt_algorithm \<Rightarrow> key_store \<Rightarrow> key_pair list" where
  "active_for u alg d = filter (\<lambda>k. kp_algorithm k = alg) (active_keys u d)"

definition key_by_kid :: "key_family \<Rightarrow> key_store \<Rightarrow> str \<Rightarrow> key_pair option" where
  "key_by_kid u d kid = List.find (\<lambda>k. kp_kid k = kid) (family_keys u d)"

definition generate_key :: "key_family \<Rightarrow> jwt_algorithm \<Rightarrow> key_pair keying" where
  "generate_key u alg =
     andthen (generate_pair alg) (\<lambda>pair.
     let k = pair\<lparr>kp_use := u\<rparr> in
     andthen (store_key k) (\<lambda>_. ok k))"

definition ensure_active_key :: "key_family \<Rightarrow> jwt_algorithm \<Rightarrow> unit keying" where
  "ensure_active_key u alg =
     andthen (peek (\<lambda>w. active_for u alg (kw_keys w))) (\<lambda>active.
     if active = [] then andthen (generate_key u alg) (\<lambda>_. ok ()) else ok ())"

text \<open>The loop of \<open>mark_expired_keys\<close> over the keys read before it.\<close>

fun expire_each :: "instant \<Rightarrow> instant \<Rightarrow> key_pair list \<Rightarrow> nat keying" where
  "expire_each rotation grace [] = ok 0"
| "expire_each rotation grace (k # ks) =
     (if kp_created_at k \<le> grace then
        andthen (drop_key (kp_kid k)) (\<lambda>_. andthen (expire_each rotation grace ks) (\<lambda>n. ok (Suc n)))
      else if kp_created_at k \<le> rotation \<and> kp_is_active k then
        andthen (store_key (k\<lparr>kp_is_active := False\<rparr>)) (\<lambda>_. expire_each rotation grace ks)
      else expire_each rotation grace ks)"

definition mark_expired_keys :: "key_family \<Rightarrow> int \<Rightarrow> int \<Rightarrow> nat keying" where
  "mark_expired_keys u rotation_days grace_days =
     andthen key_now (\<lambda>now.
     andthen (peek (\<lambda>w. family_keys u (kw_keys w))) (\<lambda>ks.
     expire_each (now - days rotation_days) (now - days (rotation_days + grace_days)) ks))"

fun retire_each :: "key_pair list \<Rightarrow> unit keying" where
  "retire_each [] = ok ()"
| "retire_each (k # ks) = andthen (store_key (k\<lparr>kp_is_active := False\<rparr>)) (\<lambda>_. retire_each ks)"

definition rotate_key :: "key_family \<Rightarrow> jwt_algorithm \<Rightarrow> key_pair keying" where
  "rotate_key u alg =
     andthen (peek (\<lambda>w. active_for u alg (kw_keys w))) (\<lambda>previous.
     andthen (generate_key u alg) (\<lambda>k.
     andthen (retire_each previous) (\<lambda>_. ok k)))"

definition retained_keys :: "key_family \<Rightarrow> int \<Rightarrow> key_store \<Rightarrow> key_pair list" where
  "retained_keys u limit d = (if limit \<le> 0 then [] else take (nat limit) (retired_keys u d))"

fun drop_each :: "key_pair list \<Rightarrow> nat keying" where
  "drop_each [] = ok 0"
| "drop_each (k # ks) = andthen (drop_key (kp_kid k)) (\<lambda>_. andthen (drop_each ks) (\<lambda>n. ok (Suc n)))"

definition prune_inactive_keys :: "key_family \<Rightarrow> int \<Rightarrow> nat keying" where
  "prune_inactive_keys u keep =
     andthen (peek (\<lambda>w. retired_keys u (kw_keys w))) (\<lambda>retired. drop_each (drop (nat (max keep 0)) retired))"

definition first_active_key :: "key_family \<Rightarrow> jwt_algorithm \<Rightarrow> key_pair keying" where
  "first_active_key u alg =
     andthen (peek (\<lambda>w. active_for u alg (kw_keys w))) (\<lambda>active.
     case active of
       k # _ \<Rightarrow> ok k
     | [] \<Rightarrow>
         andthen (ensure_active_key u alg) (\<lambda>_.
         andthen (peek (\<lambda>w. active_for u alg (kw_keys w))) (\<lambda>again.
         case again of k # _ \<Rightarrow> ok k | [] \<Rightarrow> raise (KeyCrashed ''RuntimeError''))))"

text \<open>\<open>max(keys, key=created_at)\<close>: the first of the greatest.\<close>

fun newest_of :: "key_pair \<Rightarrow> key_pair list \<Rightarrow> key_pair" where
  "newest_of best [] = best"
| "newest_of best (k # ks) = newest_of (if kp_created_at best < kp_created_at k then k else best) ks"

text \<open>\<open>RotatingTokenSigner._active_signing_key\<close>.\<close>

definition rotating_signing_key :: "key_family \<Rightarrow> int \<Rightarrow> int \<Rightarrow> key_pair keying" where
  "rotating_signing_key u rotation_days grace_days =
     andthen (mark_expired_keys u rotation_days grace_days) (\<lambda>_.
     andthen (peek (\<lambda>w. active_for u RS256 (kw_keys w))) (\<lambda>active.
     andthen (if active = [] then andthen (ensure_active_key u RS256) (\<lambda>_.
         peek (\<lambda>w. active_for u RS256 (kw_keys w))) else ok active) (\<lambda>candidates.
     case candidates of
       [] \<Rightarrow> raise (KeyCrashed ''RuntimeError'')
     | k # ks \<Rightarrow> ok (newest_of k ks))))"

text \<open>\<open>PyJWTTokenManager._key_for\<close>: the key of the header of a token, its \<open>kid\<close> first.\<close>

definition validation_key :: "key_store \<Rightarrow> json option \<Rightarrow> jwt_algorithm \<Rightarrow> key_pair option" where
  "validation_key d kid alg =
     (case kid of
        Some (JStr (c # cs)) \<Rightarrow>
          (case key_by_kid UseSig d (c # cs) of
             Some k \<Rightarrow> if kp_algorithm k = alg then Some k else None
           | None \<Rightarrow> None)
      | _ \<Rightarrow> (case active_for UseSig alg d of [] \<Rightarrow> None | k # _ \<Rightarrow> Some k))"

subsection \<open>JWKSetUseCase\<close>

record jwks_config =
  jc_algorithms :: "jwt_algorithm list"
  jc_rotation_days :: int
  jc_grace_days :: int
  jc_rotation_seconds :: rat
  jc_rotation_algorithms :: "jwt_algorithm list"
  jc_encryption :: bool

definition managed_algorithms :: "jwt_algorithm list \<Rightarrow> jwt_algorithm list" where
  "managed_algorithms algs = filter (\<lambda>a. a \<notin> set symmetric_algorithms) algs"

fun ensure_each :: "key_family \<Rightarrow> jwt_algorithm list \<Rightarrow> unit keying" where
  "ensure_each u [] = ok ()"
| "ensure_each u (a # algs) = andthen (ensure_active_key u a) (\<lambda>_. ensure_each u algs)"

definition initialise_keys :: "jwks_config \<Rightarrow> unit keying" where
  "initialise_keys C =
     andthen (ensure_each UseSig (managed_algorithms (jc_algorithms C))) (\<lambda>_.
     if jc_encryption C then ensure_active_key UseEnc RS256 else ok ())"

definition expire_signing_keys :: "jwks_config \<Rightarrow> unit keying" where
  "expire_signing_keys C =
     andthen (mark_expired_keys UseSig (jc_rotation_days C) (jc_grace_days C)) (\<lambda>removed.
     if 0 < removed then ensure_each UseSig (managed_algorithms (jc_algorithms C)) else ok ())"

definition get_active_keys :: "jwks_config \<Rightarrow> key_pair list keying" where
  "get_active_keys C =
     andthen (expire_signing_keys C) (\<lambda>_. peek (\<lambda>w. active_keys UseSig (kw_keys w)))"

definition rotation_algorithms :: "jwks_config \<Rightarrow> jwt_algorithm list" where
  "rotation_algorithms C =
     (if jc_rotation_algorithms C \<noteq> [] then jc_rotation_algorithms C
      else managed_algorithms (jc_algorithms C))"

fun rotate_stale :: "jwks_config \<Rightarrow> instant \<Rightarrow> jwt_algorithm list \<Rightarrow> unit keying" where
  "rotate_stale C now [] = ok ()"
| "rotate_stale C now (a # algs) =
     andthen (peek (\<lambda>w. active_for UseSig a (kw_keys w))) (\<lambda>active.
     andthen (case active of
         [] \<Rightarrow> ensure_active_key UseSig a
       | k # ks \<Rightarrow>
           if of_int (now - kp_created_at (newest_of k ks)) / 1000000 < jc_rotation_seconds C then ok ()
           else andthen (rotate_key UseSig a) (\<lambda>_. ok ())) (\<lambda>_.
     rotate_stale C now algs))"

definition rotate_stale_keys :: "jwks_config \<Rightarrow> unit keying" where
  "rotate_stale_keys C =
     (if jc_rotation_seconds C \<le> 0 then ok ()
      else andthen key_now (\<lambda>now. rotate_stale C now (rotation_algorithms C)))"

definition encryption_keys_to_publish :: "jwks_config \<Rightarrow> key_pair list keying" where
  "encryption_keys_to_publish C =
     (if \<not> jc_encryption C then ok []
      else andthen (peek (\<lambda>w. active_keys UseEnc (kw_keys w))) (\<lambda>active.
        if active = [] then
          andthen (ensure_active_key UseEnc RS256) (\<lambda>_. peek (\<lambda>w. active_keys UseEnc (kw_keys w)))
        else ok active))"

definition get_published_keys :: "jwks_config \<Rightarrow> key_pair list keying" where
  "get_published_keys C =
     andthen (expire_signing_keys C) (\<lambda>_.
     andthen (rotate_stale_keys C) (\<lambda>_.
     andthen (peek (\<lambda>w. active_keys UseSig (kw_keys w) @ retired_keys UseSig (kw_keys w))) (\<lambda>signing.
     andthen (encryption_keys_to_publish C) (\<lambda>encryption.
     ok (signing @ encryption)))))"

fun rotate_each :: "jwt_algorithm list \<Rightarrow> key_pair list keying" where
  "rotate_each [] = ok []"
| "rotate_each (a # algs) =
     andthen (rotate_key UseSig a) (\<lambda>k. andthen (rotate_each algs) (\<lambda>ks. ok (k # ks)))"

definition rotate_signing_keys :: "jwks_config \<Rightarrow> key_pair list keying" where
  "rotate_signing_keys C = rotate_each (managed_algorithms (jc_algorithms C))"

end
