(* ===== verification/KeyRules.thy ===== *)
theory KeyRules
  imports KeyStore
begin

text \<open>
  What the operations on the keys of the server keep: a key is never lost nor revived, and stays
  published and found for validation until its age passes the rotation and grace periods.
\<close>

subsection \<open>A sound store and what a step keeps of it\<close>

definition steady :: "key_world \<Rightarrow> bool" where
  "steady w \<longleftrightarrow> dict_ok (kw_keys w) \<and> keys.well_keyed (kw_keys w) \<and> mono (kw_clock w) \<and> inj (kw_kid w) \<and>
     (\<forall>n \<ge> kw_draw w. keys_find (kw_keys w) (kw_kid w n) = None)"

text \<open>The key is in the store, at most deactivated, and only so in the family of signing keys.\<close>

definition survives :: "key_store \<Rightarrow> str \<Rightarrow> key_pair \<Rightarrow> bool" where
  "survives d kid k \<longleftrightarrow> (\<exists>b. keys_find d kid = Some (k\<lparr>kp_is_active := b\<rparr>) \<and> (b \<longrightarrow> kp_is_active k) \<and>
     (kp_use k \<noteq> UseSig \<longrightarrow> b = kp_is_active k))"

text \<open>
  \<open>keeps G w w'\<close>: every key of \<open>w\<close> survives in \<open>w'\<close>, unless it is a signing key of age \<open>G\<close> or more.
\<close>

definition aged :: "int \<Rightarrow> key_world \<Rightarrow> key_pair \<Rightarrow> bool" where
  "aged G w k \<longleftrightarrow> kp_use k = UseSig \<and> kp_created_at k + G \<le> kw_clock w (kw_tick w)"

definition keeps :: "int \<Rightarrow> key_world \<Rightarrow> key_world \<Rightarrow> bool" where
  "keeps G w w' \<longleftrightarrow> (steady w \<longrightarrow> steady w' \<and> kw_clock w' = kw_clock w \<and> kw_tick w \<le> kw_tick w' \<and>
     (\<forall>kid k. keys_find (kw_keys w) kid = Some k \<longrightarrow> survives (kw_keys w') kid k \<or> aged G w' k))"

lemma survives_same: "keys_find d kid = Some k \<Longrightarrow> survives d kid k"
  by (auto simp: survives_def intro: exI [of _ "kp_is_active k"])

lemma survives_twice:
  assumes "keys_find d kid = Some (k\<lparr>kp_is_active := b\<rparr>)" "b \<longrightarrow> kp_is_active k"
    "kp_use k \<noteq> UseSig \<longrightarrow> b = kp_is_active k" "survives d' kid (k\<lparr>kp_is_active := b\<rparr>)"
  shows "survives d' kid k"
  using assms by (auto simp: survives_def)

lemma keeps_refl: "reflp (keeps G)"
  by (auto simp: reflp_def keeps_def survives_same)

lemma keeps_trans: "transp (keeps G)"
proof (rule transpI)
  fix a b c assume ab: "keeps G a b" and bc: "keeps G b c"
  have "survives (kw_keys c) kid k \<or> aged G c k"
    if a: "steady a" and found: "keys_find (kw_keys a) kid = Some k" for kid k
  proof (cases "aged G b k")
    case True
    from ab bc a have "kw_clock b (kw_tick b) \<le> kw_clock c (kw_tick c)"
      by (auto simp: keeps_def steady_def dest: monoD)
    with True show ?thesis by (auto simp: aged_def)
  next
    case False
    with ab a found have "survives (kw_keys b) kid k" "steady b" by (auto simp: keeps_def)
    then obtain x where x: "keys_find (kw_keys b) kid = Some (k\<lparr>kp_is_active := x\<rparr>)"
      "x \<longrightarrow> kp_is_active k" "kp_use k \<noteq> UseSig \<longrightarrow> x = kp_is_active k"
      by (auto simp: survives_def)
    with bc \<open>steady b\<close> have "survives (kw_keys c) kid (k\<lparr>kp_is_active := x\<rparr>) \<or> aged G c (k\<lparr>kp_is_active := x\<rparr>)"
      by (auto simp: keeps_def)
    with survives_twice [OF x] show ?thesis by (auto simp: aged_def)
  qed
  with ab bc show "keeps G a c" by (auto simp: keeps_def)
qed

lemmas keeps_moves = moves_andthen [OF keeps_trans] moves_pure [OF keeps_refl]

lemma keys_found [simp]:
  "keys_find (keys_save k d) kid = (if kid = kp_kid k then Some k else keys_find d kid)"
  "keys_find (keys_delete j d) kid = (if kid = j then None else keys_find d kid)"
  by (simp_all add: keys.find_save keys.find_delete)

lemma keys_values: "dict_ok d \<Longrightarrow> k \<in> set (dict_values d) \<longleftrightarrow> (\<exists>kid. keys_find d kid = Some k)"
  by (simp add: dict_values_ran ran_def keys_find_def)

lemma steady_values:
  assumes "steady w"
  shows "k \<in> set (dict_values (kw_keys w)) \<longleftrightarrow> keys_find (kw_keys w) (kp_kid k) = Some k"
  using assms by (auto simp: steady_def keys_values keys.well_keyed_def)

subsection \<open>The elementary steps\<close>

lemma keeps_key_now: "moves (keeps G) key_now"
  by (auto simp: moves_def key_now_def keeps_def steady_def survives_same)

lemma key_now_iff [prog_simps]:
  "key_now w = (r, u) \<longleftrightarrow> r = Inr (kw_clock w (kw_tick w)) \<and> u = w\<lparr>kw_tick := Suc (kw_tick w)\<rparr>"
  by (auto simp: key_now_def)

lemma fresh_key_iff [prog_simps]:
  "fresh_key w = (r, u) \<longleftrightarrow>
     r = Inr (kw_kid w (kw_draw w), kw_pem w (kw_draw w)) \<and> u = w\<lparr>kw_draw := Suc (kw_draw w)\<rparr>"
  by (auto simp: fresh_key_def)

text \<open>A generated key is active, new and the only change of the store.\<close>

lemma generated:
  assumes "generate_key u alg w = (Inr k, w')"
  shows "kp_algorithm k = alg" "kp_use k = u" "kp_is_active k" "kp_kid k = kw_kid w (kw_draw w)"
    "kp_created_at k = kw_clock w (kw_tick w)" "kw_keys w' = keys_save k (kw_keys w)"
    "kw_clock w' = kw_clock w" "kw_tick w' = Suc (kw_tick w)" "kw_kid w' = kw_kid w"
    "kw_draw w' = Suc (kw_draw w)" "alg \<notin> set symmetric_algorithms" "alg \<noteq> AlgNone"
  using assms
  by (auto simp: generate_key_def generate_pair_def Let_def store_key_def prog_simps split: if_splits prod.splits)

lemma generate_failed: "generate_key u alg w = (Inl e, w') \<Longrightarrow> w' = w"
  by (auto simp: generate_key_def generate_pair_def Let_def store_key_def prog_simps split: if_splits prod.splits)

lemma keeps_generate: "moves (keeps G) (generate_key u alg)"
proof (unfold moves_def, rule allI)
  fix w
  obtain r w' where ran: "generate_key u alg w = (r, w')" by fastforce
  show "keeps G w (snd (generate_key u alg w))"
  proof (cases r)
    case (Inl e)
    with ran generate_failed keeps_refl show ?thesis by (fastforce simp: reflp_def)
  next
    case (Inr k)
    note new = generated [OF ran [unfolded Inr]]
    have "keeps G w w'"
      unfolding keeps_def
    proof (intro impI)
      assume w: "steady w"
      then have none: "keys_find (kw_keys w) (kp_kid k) = None" by (simp add: steady_def new)
      have "keys_find (kw_keys w') (kw_kid w n) = None" if "Suc (kw_draw w) \<le> n" for n
        using w that new by (auto simp: steady_def dest: injD)
      with w new have "steady w'"
        by (simp add: steady_def keys.invar_save keys.well_keyed_save)
      with new none show "steady w' \<and> kw_clock w' = kw_clock w \<and> kw_tick w \<le> kw_tick w' \<and>
        (\<forall>kid k. keys_find (kw_keys w) kid = Some k \<longrightarrow> survives (kw_keys w') kid k \<or> aged G w' k)"
        by (auto intro!: survives_same)
    qed
    with ran show ?thesis by simp
  qed
qed

subsection \<open>The loops over keys read before them\<close>

definition loaded :: "key_pair list \<Rightarrow> key_world \<Rightarrow> bool" where
  "loaded ks w \<longleftrightarrow> distinct (map kp_kid ks) \<and> (\<forall>k \<in> set ks. keys_find (kw_keys w) (kp_kid k) = Some k)"

lemma loaded_filter:
  assumes "steady w"
  shows "loaded (filter P (dict_values (kw_keys w))) w"
proof -
  have ok: "dict_ok (kw_keys w)" "keys.well_keyed (kw_keys w)" using assms by (auto simp: steady_def)
  have "map kp_kid (dict_values (kw_keys w)) = map fst (kw_keys w)"
    using ok by (auto simp: dict_values_def dict_ok_def keys.well_keyed_def keys_find_def)
  with ok have "distinct (map kp_kid (dict_values (kw_keys w)))" by (simp add: dict_ok_def)
  then have "distinct (map kp_kid (filter P (dict_values (kw_keys w))))" by (rule distinct_map_filter)
  with steady_values [OF assms] show ?thesis by (auto simp: loaded_def)
qed

lemma loaded_family:
  assumes "steady w"
  shows "loaded (family_keys u (kw_keys w)) w" "loaded (active_for u alg (kw_keys w)) w"
    "\<forall>k \<in> set (family_keys u (kw_keys w)). kp_use k = u"
    "\<forall>k \<in> set (active_for u alg (kw_keys w)). kp_use k = u"
  using assms by (auto simp: family_keys_def active_for_def active_keys_def loaded_filter)

lemma loaded_tail:
  assumes "loaded (k # ks) w"
  shows "keys_find (kw_keys w) (kp_kid k) = Some k" "loaded ks w"
    "loaded ks (w\<lparr>kw_keys := keys_delete (kp_kid k) (kw_keys w)\<rparr>)"
    "loaded ks (w\<lparr>kw_keys := keys_save (k\<lparr>kp_is_active := b\<rparr>) (kw_keys w)\<rparr>)"
proof -
  from assms have new: "kp_kid j \<noteq> kp_kid k" if "j \<in> set ks" for j
    using that by (force simp: loaded_def)
  with assms show "keys_find (kw_keys w) (kp_kid k) = Some k" "loaded ks w"
    "loaded ks (w\<lparr>kw_keys := keys_delete (kp_kid k) (kw_keys w)\<rparr>)"
    "loaded ks (w\<lparr>kw_keys := keys_save (k\<lparr>kp_is_active := b\<rparr>) (kw_keys w)\<rparr>)"
    by (simp_all add: loaded_def)
qed

lemma steady_drop: "steady w \<Longrightarrow> steady (w\<lparr>kw_keys := keys_delete kid (kw_keys w)\<rparr>)"
  by (simp add: steady_def keys.invar_delete keys.well_keyed_delete)

lemma steady_resave:
  assumes "steady w" and "keys_find (kw_keys w) (kp_kid k) \<noteq> None"
  shows "steady (w\<lparr>kw_keys := keys_save k (kw_keys w)\<rparr>)"
  using assms by (auto simp: steady_def keys.invar_save keys.well_keyed_save)

lemma keeps_drop:
  assumes "keys_find (kw_keys w) (kp_kid k) = Some k" and "aged G w k"
  shows "keeps G w (w\<lparr>kw_keys := keys_delete (kp_kid k) (kw_keys w)\<rparr>)"
proof -
  have "survives (keys_delete (kp_kid k) (kw_keys w)) kid j \<or> aged G w j"
    if "keys_find (kw_keys w) kid = Some j" for kid j
    using assms that by (cases "kid = kp_kid k") (auto intro: survives_same)
  then show ?thesis by (auto simp: keeps_def steady_drop aged_def)
qed

lemma keeps_retire:
  assumes "keys_find (kw_keys w) (kp_kid k) = Some k" and "kp_use k = UseSig"
  shows "keeps G w (w\<lparr>kw_keys := keys_save (k\<lparr>kp_is_active := False\<rparr>) (kw_keys w)\<rparr>)"
proof -
  have "survives (keys_save (k\<lparr>kp_is_active := False\<rparr>) (kw_keys w)) kid j"
    if "keys_find (kw_keys w) kid = Some j" for kid j
  proof (cases "kid = kp_kid k")
    case True
    with assms that show ?thesis by (auto simp: survives_def intro: exI [of _ False])
  qed (use that in \<open>auto intro: survives_same\<close>)
  with assms(1) show ?thesis by (auto simp: keeps_def steady_resave)
qed

lemma keeps_expire_each:
  assumes "loaded ks w" "\<forall>k \<in> set ks. kp_use k = UseSig" "grace + G \<le> kw_clock w (kw_tick w)"
    and "expire_each rotation grace ks w = (r, w')"
  shows "keeps G w w'"
  using assms
proof (induction ks arbitrary: w r)
  case Nil
  with keeps_refl show ?case by (auto simp: ok_iff reflp_def)
next
  case (Cons k ks)
  note tail = loaded_tail [OF Cons.prems(1)]
  have use: "kp_use k = UseSig" using Cons.prems(2) by simp
  consider (gone) "kp_created_at k \<le> grace" | (retired) "\<not> kp_created_at k \<le> grace"
      "kp_created_at k \<le> rotation" "kp_is_active k"
    | (left) "\<not> kp_created_at k \<le> grace" "\<not> (kp_created_at k \<le> rotation \<and> kp_is_active k)" by blast
  then show ?case
  proof cases
    case gone
    let ?u = "w\<lparr>kw_keys := keys_delete (kp_kid k) (kw_keys w)\<rparr>"
    from gone Cons.prems(4) obtain q where "expire_each rotation grace ks ?u = (q, w')"
      by (auto simp: drop_key_def andthen_def prog_defs split: prod.splits sum.splits)
    with Cons.IH tail(3) Cons.prems(2,3) have "keeps G ?u w'" by simp
    moreover have "keeps G w ?u" using gone Cons.prems(3) use tail(1) by (intro keeps_drop) (auto simp: aged_def)
    ultimately show ?thesis using keeps_trans by (blast dest: transpD)
  next
    case retired
    let ?u = "w\<lparr>kw_keys := keys_save (k\<lparr>kp_is_active := False\<rparr>) (kw_keys w)\<rparr>"
    from retired Cons.prems(4) have "expire_each rotation grace ks ?u = (r, w')"
      by (simp add: store_key_def andthen_def modify_def)
    with Cons.IH tail(4) Cons.prems(2,3) have "keeps G ?u w'" by simp
    with keeps_retire [OF tail(1) use] keeps_trans show ?thesis by (blast dest: transpD)
  next
    case left
    with Cons tail(2) show ?thesis by simp
  qed
qed

lemma keeps_mark_expired:
  assumes "G \<le> days (rotation + grace)"
  shows "moves (keeps G) (mark_expired_keys UseSig rotation grace)"
proof (unfold moves_def, rule allI)
  fix w :: key_world
  let ?u = "w\<lparr>kw_tick := Suc (kw_tick w)\<rparr>"
  let ?now = "kw_clock w (kw_tick w)"
  obtain r w' where ran: "expire_each (?now - days rotation) (?now - days (rotation + grace))
      (family_keys UseSig (kw_keys w)) ?u = (r, w')" by fastforce
  have "keeps G w w'" if "steady w"
  proof -
    from movesD [OF keeps_key_now, of w _ ?u G] have "keeps G w ?u" by (simp add: key_now_def)
    moreover have "keeps G ?u w'"
    proof (rule keeps_expire_each [OF _ _ _ ran])
      show "loaded (family_keys UseSig (kw_keys w)) ?u" "\<forall>k \<in> set (family_keys UseSig (kw_keys w)). kp_use k = UseSig"
        using loaded_family [OF that] by (auto simp: loaded_def)
      from that have "?now \<le> kw_clock w (Suc (kw_tick w))" by (auto simp: steady_def incseq_SucD)
      with assms show "?now - days (rotation + grace) + G \<le> kw_clock ?u (kw_tick ?u)" by simp
    qed
    ultimately show ?thesis using keeps_trans by (blast dest: transpD)
  qed
  then have "keeps G w w'" by (auto simp: keeps_def)
  with ran show "keeps G w (snd (mark_expired_keys UseSig rotation grace w))"
    by (simp add: mark_expired_keys_def andthen_def key_now_def peek_def)
qed

lemma keeps_retire_each:
  assumes "loaded ks w" "\<forall>k \<in> set ks. kp_use k = UseSig"
  shows "keeps G w (snd (retire_each ks w))"
  using assms
proof (induction ks arbitrary: w)
  case Nil
  with keeps_refl show ?case by (auto simp: ok_def reflp_def)
next
  case (Cons k ks)
  note tail = loaded_tail [OF Cons.prems(1)]
  let ?u = "w\<lparr>kw_keys := keys_save (k\<lparr>kp_is_active := False\<rparr>) (kw_keys w)\<rparr>"
  have "keeps G w ?u" using Cons.prems(2) tail(1) by (intro keeps_retire) auto
  moreover have "keeps G ?u (snd (retire_each ks ?u))" using Cons tail(4) by simp
  ultimately have "keeps G w (snd (retire_each ks ?u))" using keeps_trans by (blast dest: transpD)
  then show ?case by (simp add: store_key_def andthen_def modify_def)
qed

lemma keeps_rotate: "moves (keeps G) (rotate_key UseSig alg)"
proof (unfold moves_def, rule allI)
  fix w
  obtain r u where ran: "generate_key UseSig alg w = (r, u)" by fastforce
  from keeps_generate ran have first: "keeps G w u" by (rule movesD)
  show "keeps G w (snd (rotate_key UseSig alg w))"
  proof (cases r)
    case (Inl e)
    with ran first show ?thesis by (simp add: rotate_key_def andthen_def peek_def)
  next
    case (Inr k)
    note new = generated [OF ran [unfolded Inr]]
    have "keeps G w (snd (retire_each (active_for UseSig alg (kw_keys w)) u))" if w: "steady w"
    proof -
      note old = loaded_family(2,4) [OF w, of UseSig alg]
      have "keys_find (kw_keys w) (kp_kid k) = None" using w new(4) by (simp add: steady_def)
      with old(1) have "loaded (active_for UseSig alg (kw_keys w)) u" by (auto simp: loaded_def new(6))
      from keeps_retire_each [OF this old(2)] first keeps_trans show ?thesis by (blast dest: transpD)
    qed
    then have "keeps G w (snd (retire_each (active_for UseSig alg (kw_keys w)) u))" by (auto simp: keeps_def)
    with ran Inr show ?thesis
      by (auto simp: rotate_key_def andthen_def peek_def ok_def split: prod.splits sum.splits)
  qed
qed

subsection \<open>The operations of the key set\<close>

lemma keeps_ensure: "moves (keeps G) (ensure_active_key u alg)"
  unfolding ensure_active_key_def by (intro keeps_moves keeps_generate moves_if)

lemma keeps_ensure_each: "moves (keeps G) (ensure_each u algs)"
  by (induction algs) (auto intro!: keeps_moves keeps_ensure)

lemma keeps_rotate_each: "moves (keeps G) (rotate_each algs)"
  by (induction algs) (auto intro!: keeps_moves keeps_rotate)

lemma keeps_rotate_stale: "moves (keeps G) (rotate_stale C now algs)"
  by (induction algs) (auto intro!: keeps_moves keeps_ensure keeps_rotate split: list.splits)

lemma keeps_first_active: "moves (keeps G) (first_active_key u alg)"
  unfolding first_active_key_def
  by (intro keeps_moves keeps_ensure) (auto intro!: keeps_moves keeps_ensure split: list.splits)

definition retention :: "jwks_config \<Rightarrow> int" where
  "retention C = days (jc_rotation_days C + jc_grace_days C)"

lemma keeps_expire_signing: "moves (keeps (retention C)) (expire_signing_keys C)"
  unfolding expire_signing_keys_def retention_def
  by (intro keeps_moves keeps_mark_expired moves_if keeps_ensure_each) simp

lemma keeps_published: "moves (keeps (retention C)) (get_published_keys C)"
proof -
  have stale: "moves (keeps (retention C)) (rotate_stale_keys C)"
    unfolding rotate_stale_keys_def
    by (intro keeps_moves moves_if keeps_key_now keeps_rotate_stale)
  have enc: "moves (keeps (retention C)) (encryption_keys_to_publish C)"
    unfolding encryption_keys_to_publish_def by (intro keeps_moves moves_if keeps_ensure)
  show ?thesis
    unfolding get_published_keys_def
    by (intro keeps_moves keeps_expire_signing stale enc)
qed

text \<open>The operations the endpoints run on the key set, in any order; a failure ends one only.\<close>

datatype key_op = Initialise | Publish | ReadActive | Rotate | Sign jwt_algorithm

definition run_key_op :: "jwks_config \<Rightarrow> key_world \<Rightarrow> key_op \<Rightarrow> key_world" where
  "run_key_op C w op = (case op of
     Initialise \<Rightarrow> snd (initialise_keys C w)
   | Publish \<Rightarrow> snd (get_published_keys C w)
   | ReadActive \<Rightarrow> snd (get_active_keys C w)
   | Rotate \<Rightarrow> snd (rotate_signing_keys C w)
   | Sign alg \<Rightarrow> snd (first_active_key UseSig alg w))"

definition run_key_ops :: "jwks_config \<Rightarrow> key_op list \<Rightarrow> key_world \<Rightarrow> key_world" where
  "run_key_ops C ops w = foldl (run_key_op C) w ops"

lemma keeps_op: "keeps (retention C) w (run_key_op C w op)"
proof -
  have "moves (keeps (retention C)) (initialise_keys C)"
    unfolding initialise_keys_def by (intro keeps_moves keeps_ensure_each moves_if keeps_ensure)
  moreover have "moves (keeps (retention C)) (get_active_keys C)"
    unfolding get_active_keys_def by (intro keeps_moves keeps_expire_signing)
  ultimately show ?thesis
    using keeps_published [of C] keeps_rotate_each keeps_first_active
    by (auto simp: run_key_op_def moves_def rotate_signing_keys_def split: key_op.splits)
qed

lemma keeps_ops: "keeps (retention C) w (run_key_ops C ops w)"
proof (induction ops arbitrary: w)
  case Nil
  then show ?case using keeps_refl by (auto simp: run_key_ops_def reflp_def)
next
  case (Cons op ops)
  have "keeps (retention C) (run_key_op C w op) (run_key_ops C (op # ops) w)"
    using Cons [of "run_key_op C w op"] by (simp add: run_key_ops_def)
  with keeps_op keeps_trans show ?case by (blast dest: transpD)
qed

subsection \<open>Publication\<close>

lemma found_active: "k \<in> set (active_keys u d) \<longleftrightarrow> k \<in> set (dict_values d) \<and> kp_use k = u \<and> kp_is_active k"
  by (auto simp: active_keys_def family_keys_def)

lemma found_retired: "k \<in> set (retired_keys u d) \<longleftrightarrow> k \<in> set (dict_values d) \<and> kp_use k = u \<and> \<not> kp_is_active k"
  by (auto simp: retired_keys_def family_keys_def)

lemma encryption_publishes:
  assumes "encryption_keys_to_publish C w = (Inr ks, w')" and "steady w"
  shows "set ks = (if jc_encryption C then set (active_keys UseEnc (kw_keys w')) else {})"
    and "\<forall>k. kp_use k \<noteq> UseEnc \<longrightarrow> (k \<in> set (dict_values (kw_keys w')) \<longleftrightarrow> k \<in> set (dict_values (kw_keys w)))"
proof -
  show "set ks = (if jc_encryption C then set (active_keys UseEnc (kw_keys w')) else {})"
    using assms(1) by (auto simp: encryption_keys_to_publish_def prog_simps split: if_splits)
  have same: "kw_keys w' = kw_keys w \<or> (\<exists>k u. generate_key UseEnc RS256 w = (Inr k, u) \<and> kw_keys w' = kw_keys u)"
    using assms(1)
    by (auto simp: encryption_keys_to_publish_def ensure_active_key_def prog_simps split: if_splits)
  have "steady w'"
    using assms movesD [of "keeps 0" "encryption_keys_to_publish C" w "Inr ks" w']
    by (auto simp: encryption_keys_to_publish_def keeps_def intro!: keeps_moves moves_if keeps_ensure)
  from same show "\<forall>k. kp_use k \<noteq> UseEnc \<longrightarrow>
      (k \<in> set (dict_values (kw_keys w')) \<longleftrightarrow> k \<in> set (dict_values (kw_keys w)))"
  proof (elim disjE exE conjE)
    fix j u assume made: "generate_key UseEnc RS256 w = (Inr j, u)" "kw_keys w' = kw_keys u"
    note new = generated [OF made(1)]
    have none: "keys_find (kw_keys w) (kp_kid j) = None" using assms(2) new(4) by (simp add: steady_def)
    show ?thesis
      unfolding steady_values [OF \<open>steady w'\<close>] steady_values [OF assms(2)]
      using made(2) new none by auto
  qed simp
qed

lemma publishes_exactly:
  assumes "get_published_keys C w = (Inr ks, w')" and "steady w"
  shows "set ks = {k \<in> set (dict_values (kw_keys w')). kp_use k = UseSig \<or>
    (jc_encryption C \<and> kp_use k = UseEnc \<and> kp_is_active k)}"
proof -
  from assms(1) obtain u v enc where
    expired: "expire_signing_keys C w = (Inr (), u)" "rotate_stale_keys C u = (Inr (), v)"
    and enc: "encryption_keys_to_publish C v = (Inr enc, w')"
    and ks: "ks = active_keys UseSig (kw_keys v) @ retired_keys UseSig (kw_keys v) @ enc"
    by (auto simp: get_published_keys_def prog_simps)
  have "moves (keeps (retention C)) (rotate_stale_keys C)"
    unfolding rotate_stale_keys_def by (intro keeps_moves moves_if keeps_key_now keeps_rotate_stale)
  from movesD [OF this expired(2)] movesD [OF keeps_expire_signing expired(1)] assms(2)
  have "steady v" by (auto simp: keeps_def)
  from encryption_publishes [OF enc this] ks show ?thesis
    by (auto simp: found_active found_retired)
qed

text \<open>The published key set is exactly the signing keys the store holds after the publication,
  active or retired, and the active encryption keys: no key of another family is ever published.\<close>

lemma published_exactly:
  assumes "get_published_keys C w = (Inr ks, w')" and "steady w"
  shows "set ks = {k \<in> set (dict_values (kw_keys w')). kp_use k = UseSig \<or>
    (jc_encryption C \<and> kp_use k = UseEnc \<and> kp_is_active k)}"
  using assms by (rule publishes_exactly)

subsection \<open>Signing keys\<close>

lemma found_for: "k \<in> set (active_for u alg d) \<longleftrightarrow>
    k \<in> set (dict_values d) \<and> kp_use k = u \<and> kp_is_active k \<and> kp_algorithm k = alg"
  by (auto simp: active_for_def found_active)

lemma signing_key:
  assumes "first_active_key u alg w = (Inr k, w')"
  shows "k \<in> set (active_for u alg (kw_keys w'))"
proof (cases "active_for u alg (kw_keys w)")
  case Nil
  with assms obtain v where "(case active_for u alg (kw_keys v) of k # _ \<Rightarrow> ok k
      | [] \<Rightarrow> raise (KeyCrashed ''RuntimeError'')) v = (Inr k, w')"
    by (auto simp: first_active_key_def andthen_Inr peek_iff)
  then show ?thesis by (cases "active_for u alg (kw_keys v)") (auto simp: prog_simps)
next
  case (Cons j js)
  with assms show ?thesis by (auto simp: first_active_key_def prog_simps)
qed

lemma key_by_kid_found:
  assumes "steady w" and "keys_find (kw_keys w) kid = Some k" and "kp_use k = u"
  shows "key_by_kid u (kw_keys w) kid = Some k"
proof -
  have kid: "kp_kid k = kid" using assms(1) keys.well_keyedD [OF _ assms(2)] by (auto simp: steady_def)
  with assms have "k \<in> set (family_keys u (kw_keys w))" by (simp add: family_keys_def steady_values)
  with kid obtain j where j: "key_by_kid u (kw_keys w) kid = Some j"
    by (cases "key_by_kid u (kw_keys w) kid") (auto simp: key_by_kid_def find_None_iff)
  then have "j \<in> set (family_keys u (kw_keys w))" "kp_kid j = kid"
    by (auto simp: key_by_kid_def find_Some_iff)
  with assms(1,2) have "j = k" by (auto simp: family_keys_def steady_values)
  with j show ?thesis by simp
qed

text \<open>Signing with an algorithm that has key pairs always finds an active key of the family and
  the algorithm, generating one when there is none.\<close>

lemma signing_key_available:
  assumes "alg \<notin> set symmetric_algorithms" and "alg \<noteq> AlgNone"
  shows "\<exists>k w'. first_active_key u alg w = (Inr k, w') \<and> kp_is_active k \<and> kp_algorithm k = alg \<and>
    kp_use k = u \<and> (active_for u alg (kw_keys w) \<noteq> [] \<longrightarrow> w' = w)"
proof (cases "active_for u alg (kw_keys w)")
  case (Cons k ks)
  with found_for [of k u alg "kw_keys w"] have "kp_is_active k" "kp_algorithm k = alg" "kp_use k = u" by auto
  with Cons show ?thesis by (auto simp: first_active_key_def andthen_def peek_def ok_def)
next
  case Nil
  have "\<exists>k w'. generate_key u alg w = (Inr k, w')"
    using assms by (cases "kw_pem w (kw_draw w)") (simp add: generate_key_def generate_pair_def andthen_def
        fresh_key_def key_now_def store_key_def modify_def ok_def Let_def)
  then obtain k w' where made: "generate_key u alg w = (Inr k, w')" by blast
  note new = generated [OF made]
  have "kw_keys w' = dict_set (kp_kid k) k (kw_keys w)" by (simp add: new keys_save_def)
  then have "map_of (kw_keys w') (kp_kid k) = Some k" by simp
  then have "(kp_kid k, k) \<in> set (kw_keys w')" by (rule map_of_SomeD)
  then have "k \<in> set (dict_values (kw_keys w'))" by (force simp: dict_values_def)
  with new have "k \<in> set (active_for u alg (kw_keys w'))" by (simp add: found_for)
  then obtain j js where active: "active_for u alg (kw_keys w') = j # js"
    by (cases "active_for u alg (kw_keys w')") auto
  with found_for [of j u alg "kw_keys w'"] have "kp_is_active j" "kp_algorithm j = alg" "kp_use j = u" by auto
  with Nil made active show ?thesis
    by (auto simp: first_active_key_def ensure_active_key_def andthen_def peek_def ok_def)
qed

lemma retire_each_found:
  assumes "loaded ks w"
  shows "fst (retire_each ks w) = Inr () \<and> keys_find (kw_keys (snd (retire_each ks w))) kid =
    (if kid \<in> kp_kid ` set ks then map_option (\<lambda>k. k\<lparr>kp_is_active := False\<rparr>) (keys_find (kw_keys w) kid)
     else keys_find (kw_keys w) kid)"
  using assms
proof (induction ks arbitrary: w)
  case (Cons k ks)
  note tail = loaded_tail [OF Cons.prems]
  from Cons.IH [OF tail(4) [of False]] tail(1) Cons.prems show ?case
    by (auto simp: store_key_def andthen_def modify_def loaded_def)
qed (simp add: ok_def)

text \<open>A rotation leaves its new key as the only active key of the family and the algorithm, keeps
  every key it replaces as a retired one, and changes no other key.\<close>

lemma rotation_replaces:
  assumes "rotate_key UseSig alg w = (Inr k, w')" and "steady w"
  shows "set (active_for UseSig alg (kw_keys w')) = {k} \<and>
    (\<forall>j \<in> set (active_for UseSig alg (kw_keys w)). j\<lparr>kp_is_active := False\<rparr> \<in> set (dict_values (kw_keys w'))) \<and>
    (\<forall>j. j \<notin> set (active_for UseSig alg (kw_keys w)) \<and> j \<in> set (dict_values (kw_keys w)) \<longrightarrow>
       j \<in> set (dict_values (kw_keys w')))"
proof -
  let ?old = "active_for UseSig alg (kw_keys w)"
  from assms(1) obtain u where made: "generate_key UseSig alg w = (Inr k, u)"
    and retired: "retire_each ?old u = (Inr (), w')"
    by (auto simp: rotate_key_def prog_simps)
  note new = generated [OF made]
  note old = loaded_family(2,4) [OF assms(2), of UseSig alg]
  have none: "keys_find (kw_keys w) (kp_kid k) = None" using assms(2) new(4) by (simp add: steady_def)
  with old(1) have "loaded ?old u" by (auto simp: loaded_def new(6))
  from retire_each_found [OF this] retired have found: "keys_find (kw_keys w') kid =
      (if kid \<in> kp_kid ` set ?old then map_option (\<lambda>k. k\<lparr>kp_is_active := False\<rparr>) (keys_find (kw_keys u) kid)
       else keys_find (kw_keys u) kid)" for kid
    by simp
  have "steady w'"
    using movesD [OF keeps_rotate assms(1), of 0] assms(2) by (simp add: keeps_def)
  note members = steady_values [OF this] steady_values [OF assms(2)]
  have k_new: "kp_kid k \<notin> kp_kid ` set ?old" using old(1) none by (auto simp: loaded_def)
  have old_iff: "j \<in> set ?old \<longleftrightarrow> keys_find (kw_keys w) (kp_kid j) = Some j \<and> kp_use j = UseSig \<and>
      kp_is_active j \<and> kp_algorithm j = alg" for j
    by (auto simp: found_for members)
  have only: "j = k" if j: "j \<in> set (active_for UseSig alg (kw_keys w'))" for j
  proof (rule ccontr)
    assume other: "j \<noteq> k"
    from j have f: "keys_find (kw_keys w') (kp_kid j) = Some j" "kp_is_active j" "kp_use j = UseSig"
      "kp_algorithm j = alg" by (simp_all add: found_for members)
    with found [of "kp_kid j"] have not_old: "kp_kid j \<notin> kp_kid ` set ?old"
      by (cases "keys_find (kw_keys u) (kp_kid j)") (auto split: if_splits)
    with found [of "kp_kid j"] f(1) other have "keys_find (kw_keys w) (kp_kid j) = Some j"
      by (auto simp: new(6) split: if_splits)
    with f old_iff [of j] not_old show False by blast
  qed
  have "k \<in> set (active_for UseSig alg (kw_keys w'))"
    using found [of "kp_kid k"] k_new new(1-3) by (simp add: found_for members new(6))
  with only have "set (active_for UseSig alg (kw_keys w')) = {k}" by blast
  moreover have "j\<lparr>kp_is_active := False\<rparr> \<in> set (dict_values (kw_keys w'))" if "j \<in> set ?old" for j
    using found [of "kp_kid j"] that old(1) none by (auto simp: members new(6) loaded_def)
  moreover have "j \<in> set (dict_values (kw_keys w'))"
    if "j \<notin> set ?old" "j \<in> set (dict_values (kw_keys w))" for j
  proof -
    from that(2) have j: "keys_find (kw_keys w) (kp_kid j) = Some j" by (simp add: members)
    have "kp_kid j \<notin> kp_kid ` set ?old" using that(1) j old(1) by (auto simp: loaded_def)
    with found [of "kp_kid j"] j none show ?thesis by (auto simp: members new(6))
  qed
  ultimately show ?thesis by blast
qed


lemma sampled_keys:
  "map_sum (\<lambda>_. ()) f (fst r) = Inr y \<Longrightarrow> \<exists>x v. r = (Inr x, v) \<and> f x = y"
  by (cases r; cases "fst r") auto

subsection \<open>A sample store\<close>

definition day_world :: "key_store \<Rightarrow> int \<Rightarrow> key_world" where
  "day_world d day = \<lparr>kw_keys = d, kw_clock = (\<lambda>n. days day + int n), kw_tick = 0,
     kw_kid = (\<lambda>n. ''k'' @ replicate n CHR ''k''), kw_pem = (\<lambda>n. (''private'', ''public'')), kw_draw = 0\<rparr>"

definition sample_jwks :: jwks_config where
  "sample_jwks = \<lparr>jc_algorithms = [RS256, HS256], jc_rotation_days = 90, jc_grace_days = 7,
     jc_rotation_seconds = 0, jc_rotation_algorithms = [], jc_encryption = True\<rparr>"

definition sample_key :: "str \<Rightarrow> key_family \<Rightarrow> key_pair" where
  "sample_key kid u = \<lparr>kp_algorithm = RS256, kp_use = u, kp_kid = kid, kp_private_pem = ''private'',
     kp_public_pem = ''public'', kp_created_at = 0, kp_is_active = True\<rparr>"

definition sample_keys :: key_store where
  "sample_keys = [(''s'', sample_key ''s'' UseSig), (''e'', sample_key ''e'' UseEnc),
     (''c'', sample_key ''c'' UseSession)]"

lemma sample_steady: "steady (day_world sample_keys day)"
  by (auto simp: steady_def day_world_def dict_ok_def keys.well_keyed_def keys_find_def sample_keys_def
      sample_key_def inj_def mono_def split: if_splits)

lemma sample_published:
  "map_sum (\<lambda>_. ()) (map kp_kid) (fst (get_published_keys sample_jwks (day_world sample_keys 30)))
     = Inr [''s'', ''e'']"
  by code_simp

lemma published_exactly_witness:
  "\<exists>ks w'. get_published_keys sample_jwks (day_world sample_keys 30) = (Inr ks, w') \<and>
     map kp_kid ks = [''s'', ''e''] \<and> (\<forall>k \<in> set ks. kp_use k \<noteq> UseSession)"
proof -
  from sampled_keys [OF sample_published] obtain ks w'
    where run: "get_published_keys sample_jwks (day_world sample_keys 30) = (Inr ks, w')"
      and "map kp_kid ks = [''s'', ''e'']" by auto
  with published_exactly [OF run sample_steady] show ?thesis by auto
qed

theorem signing_key_available_witness:
  "\<exists>k w'. first_active_key UseSig ES256 (day_world sample_keys 30) = (Inr k, w') \<and> kp_algorithm k = ES256"
  using signing_key_available [of ES256 UseSig "day_world sample_keys 30"]
  by (auto simp: symmetric_algorithms_def)

lemma sample_rotation:
  "map_sum (\<lambda>_. ()) kp_kid (fst (rotate_key UseSig RS256 (day_world sample_keys 30))) = Inr ''k''"
  by code_simp

theorem rotation_replaces_witness:
  "\<exists>k w'. rotate_key UseSig RS256 (day_world sample_keys 30) = (Inr k, w') \<and> kp_kid k = ''k'' \<and>
     set (active_for UseSig RS256 (kw_keys w')) = {k}"
proof -
  from sampled_keys [OF sample_rotation] obtain k w'
    where run: "rotate_key UseSig RS256 (day_world sample_keys 30) = (Inr k, w')" and "kp_kid k = ''k''" by auto
  with rotation_replaces [OF run sample_steady] show ?thesis by blast
qed

lemma sample_signed:
  "first_active_key UseSig RS256 (day_world sample_keys 30) = (Inr (sample_key ''s'' UseSig), day_world sample_keys 30)"
  by (simp add: first_active_key_def andthen_def peek_def ok_def active_for_def active_keys_def family_keys_def
      dict_values_def day_world_def sample_keys_def sample_key_def)

lemma sample_rotated:
  "(let r = get_published_keys sample_jwks (run_key_ops sample_jwks [Rotate, Publish] (day_world sample_keys 30))
    in (map_sum (\<lambda>_. ()) (map kp_kid) (fst r), kw_clock (snd r) (kw_tick (snd r)) < retention sample_jwks))
   = (Inr [''k'', ''s'', ''e''], True)"
  by code_simp


text \<open>A publication can leave an algorithm without an active key: a key past the rotation period is
  deactivated, and a new one is generated only when a key was also deleted.\<close>

lemma published_without_active:
  "map_sum (\<lambda>_. ()) (map (\<lambda>k. (kp_kid k, kp_is_active k)))
     (fst (get_published_keys sample_jwks (day_world sample_keys 91))) = Inr [(''s'', False), (''e'', True)]"
  by code_simp

text \<open>The grace period is counted from the creation of a key: a key that signed until its deletion
  takes with it the tokens it has just signed.\<close>

lemma purged_without_grace:
  "map_sum (\<lambda>_. ()) kp_kid (fst (first_active_key UseSig RS256 (day_world sample_keys 97))) = Inr ''s'' \<and>
   map_sum (\<lambda>_. ()) (map kp_kid)
     (fst (get_published_keys sample_jwks (day_world sample_keys 97))) = Inr [''k'', ''e'']"
  by code_simp

end
