(* ===== verification/KeyPublication.thy ===== *)
theory KeyPublication
  imports KeyRules KeyValidation
begin

text \<open>
  \<open>interfaces/schemas/jwks.py\<close>: a published key as a JWK, its numbers written in base64url.  The
  numbers of a public key are read from its PEM text by the cryptography package: the parameter of
  \<open>jwk_of\<close>.
\<close>

subsection \<open>Numbers in base64url\<close>

definition b64url_alphabet :: str where
  "b64url_alphabet = ''ABCDEFGHIJKLMNOPQRSTUVWXYZabcdefghijklmnopqrstuvwxyz0123456789-_''"

text \<open>The sextets of a sequence of bytes: \<open>urlsafe_b64encode\<close> without its padding.\<close>

fun byte_sextets :: "nat list \<Rightarrow> nat list" where
  "byte_sextets [] = []"
| "byte_sextets [a] = [a div 4, a mod 4 * 16]"
| "byte_sextets [a, b] = [a div 4, a mod 4 * 16 + b div 16, b mod 16 * 4]"
| "byte_sextets (a # b # c # rest) =
     a div 4 # (a mod 4 * 16 + b div 16) # (b mod 16 * 4 + c div 64) # (c mod 64) # byte_sextets rest"

definition to_base64url :: "nat list \<Rightarrow> str" where
  "to_base64url bs = map (\<lambda>x. b64url_alphabet ! x) (byte_sextets bs)"

text \<open>\<open>value.to_bytes(length, "big")\<close> of a value that fits.\<close>

fun to_bytes :: "nat \<Rightarrow> nat \<Rightarrow> nat list" where
  "to_bytes 0 n = []"
| "to_bytes (Suc len) n = to_bytes len (n div 256) @ [n mod 256]"

definition int_to_base64url :: "nat \<Rightarrow> str" where
  "int_to_base64url n = to_base64url (to_bytes (max 1 ((bit_length n + 7) div 8)) n)"

definition ec_coord_to_base64url :: "nat \<Rightarrow> nat \<Rightarrow> str" where
  "ec_coord_to_base64url key_size n = to_base64url (to_bytes ((key_size + 7) div 8) n)"

subsection \<open>The published key\<close>

datatype public_numbers = RsaNumbers nat nat | EcNumbers nat nat nat

definition jwk_of :: "(str \<Rightarrow> public_numbers) \<Rightarrow> key_pair \<Rightarrow> (str \<times> json) list option" where
  "jwk_of load k =
     (case key_type_of (kp_algorithm k) of
        None \<Rightarrow> None
      | Some t \<Rightarrow>
          let encrypted = (kp_use k = UseEnc) in
          Some ([(''kty'', JStr (case t of KtyRsa \<Rightarrow> ''RSA'' | KtyEc \<Rightarrow> ''EC'' | KtyOct \<Rightarrow> ''oct'')),
             (''kid'', JStr (kp_kid k))]
           @ (if encrypted then [] else [(''use'', JStr ''sig'')])
           @ [(''alg'', JStr (if encrypted then ''RSA-OAEP'' else alg_value (kp_algorithm k)))]
           @ (case load (kp_public_pem k) of
                RsaNumbers n e \<Rightarrow> [(''n'', JStr (int_to_base64url n)), (''e'', JStr (int_to_base64url e))]
              | EcNumbers width x y \<Rightarrow>
                  [(''crv'', JStr (curve_of (kp_algorithm k))), (''x'', JStr (ec_coord_to_base64url width x)),
                   (''y'', JStr (ec_coord_to_base64url width y))])))"

subsection \<open>The numbers read back\<close>

lemma regrouped:
  fixes a b c :: nat
  assumes "a1 * 4 + a2 = a" "b1 * 16 + b2 = b" "c1 * 64 + c2 = c"
  shows "((a1 * 64 + (a2 * 16 + b1)) * 64 + (b2 * 4 + c1)) * 64 + c2 = c + (b + a * 256) * 256"
  using assms by simp

lemma regrouped_pair:
  fixes a b :: nat
  assumes "a1 * 4 + a2 = a" "b1 * 16 + b2 = b"
  shows "(a1 * 64 + (a2 * 16 + b1)) * 64 + b2 * 4 = (a * 256 + b) * 4"
  using assms by simp

lemma three_sextets:
  fixes a b c :: nat
  assumes "a < 256" "b < 256" "c < 256"
  defines "n \<equiv> ((a div 4 * 64 + (a mod 4 * 16 + b div 16)) * 64 + (b mod 16 * 4 + c div 64)) * 64 + c mod 64"
  shows "n div 65536 = a" "n div 256 mod 256 = b" "n mod 256 = c"
proof -
  have n: "n = c + (b + a * 256) * 256"
    unfolding n_def by (rule regrouped) simp_all
  show "n mod 256 = c" using assms(3) by (simp only: n mod_mult_self1 mod_less)
  have "n div 256 = b + a * 256" using assms(3) by (simp add: n)
  moreover have "n div 65536 = n div 256 div 256" by (simp flip: div_mult2_eq)
  ultimately show "n div 65536 = a" "n div 256 mod 256 = b"
    using assms(2) by simp_all
qed

lemma byte_sextets_inverse:
  "list_all (\<lambda>b. b < 256) bs \<Longrightarrow> sextet_bytes (byte_sextets bs) = Some bs"
proof (induction bs rule: byte_sextets.induct)
  case (2 a)
  have "(a div 4 * 64 + a mod 4 * 16) div 16 = a" by presburger
  then show ?case by simp
next
  case (3 a b)
  have "(a div 4 * 64 + (a mod 4 * 16 + b div 16)) * 64 + b mod 16 * 4 = (a * 256 + b) * 4"
    by (rule regrouped_pair) simp_all
  with 3 show ?case by (simp add: Let_def)
next
  case (4 a b c rest)
  with three_sextets [of a b c] show ?case by (simp add: Let_def)
qed simp

lemma byte_sextets_small: "list_all (\<lambda>b. b < 256) bs \<Longrightarrow> list_all (\<lambda>x. x < 64) (byte_sextets bs)"
  by (induction bs rule: byte_sextets.induct) auto

lemma alphabet_sextet:
  assumes "x < 64"
  shows "sextet (b64url_alphabet ! x) = Some x"
proof -
  have all: "map sextet b64url_alphabet = map Some [0..<64]"
    by (simp add: b64url_alphabet_def sextet_def upt_rec)
  have "length b64url_alphabet = 64" by (simp add: b64url_alphabet_def)
  with arg_cong [OF all, of "\<lambda>xs. xs ! x"] assms show ?thesis by simp
qed

lemma to_bytes_small: "list_all (\<lambda>b. b < 256) (to_bytes len n)"
  by (induction len n rule: to_bytes.induct) auto

lemma to_bytes_value: "n < 256 ^ len \<Longrightarrow> int_from_bytes (to_bytes len n) = n"
proof (induction len n rule: to_bytes.induct)
  case (2 len n)
  then have "n div 256 < 256 ^ len" by (simp add: less_mult_imp_div_less mult.commute)
  with 2 show ?case by (simp add: int_from_bytes_def)
qed (simp add: int_from_bytes_def)

lemma to_bytes_length [simp]: "length (to_bytes len n) = len"
  by (induction len n rule: to_bytes.induct) auto

lemma base64url_read:
  assumes "list_all (\<lambda>b. b < 256) bs"
  shows "matches_b64url (to_base64url bs)" "b64url_decode (to_base64url bs) = Some bs"
proof -
  have digits: "map sextet (to_base64url bs) = map Some (byte_sextets bs)"
    using byte_sextets_small [OF assms] by (auto simp: to_base64url_def list_all_iff alphabet_sextet)
  have "sextet c \<noteq> None" if "c \<in> set (to_base64url bs)" for c
    using that digits by (metis (no_types, lifting) ex_map_conv list.set_map option.distinct(1) image_eqI imageE)
  then have all: "list_all (\<lambda>c. sextet c \<noteq> None) (to_base64url bs)" by (simp add: list_all_iff)
  have plain: "without_final_newline (to_base64url bs) = to_base64url bs"
  proof (cases "to_base64url bs = []")
    case False
    with all have "sextet (last (to_base64url bs)) \<noteq> None" by (simp add: list_all_iff)
    then have "(of_char (last (to_base64url bs)) :: nat) \<noteq> 10" by (auto simp: sextet_def Let_def)
    then show ?thesis by (simp add: without_final_newline_def)
  qed (simp add: without_final_newline_def)
  show "matches_b64url (to_base64url bs)" using all by (simp add: matches_b64url_def plain)
  have "map (\<lambda>c. the (sextet c)) (to_base64url bs) = byte_sextets bs"
    using arg_cong [OF digits, of "map the"] by (simp add: comp_def)
  with byte_sextets_inverse [OF assms] show "b64url_decode (to_base64url bs) = Some bs"
    by (simp add: b64url_decode_def plain)
qed

lemma number_read:
  assumes "n < 256 ^ len" and "0 < n"
  shows "positive_int (Some (JStr (to_base64url (to_bytes len n)))) = Some n"
proof -
  have "to_bytes len n \<noteq> []" using assms by (cases len) auto
  with assms base64url_read [OF to_bytes_small, of len n] show ?thesis
    by (simp add: positive_int_def to_bytes_value Let_def)
qed

lemma int_read: "0 < n \<Longrightarrow> positive_int (Some (JStr (int_to_base64url n))) = Some n"
proof -
  have "n < 2 ^ bit_length n" by (simp add: bit_length_bound)
  also have "(2::nat) ^ bit_length n \<le> 2 ^ (8 * max 1 ((bit_length n + 7) div 8))"
    by (rule power_increasing) auto
  finally have "n < 256 ^ max 1 ((bit_length n + 7) div 8)" by (simp add: power_mult)
  then show "0 < n \<Longrightarrow> positive_int (Some (JStr (int_to_base64url n))) = Some n"
    unfolding int_to_base64url_def by (rule number_read)
qed

text \<open>
  What the cryptography package gives for a key of the server: an RSA key of at least 2048 bits for
  an RSA algorithm, a point of the curve with positive coordinates for an EC algorithm.
\<close>

definition numbers_fit :: "public_numbers \<Rightarrow> key_pair \<Rightarrow> bool" where
  "numbers_fit p k \<longleftrightarrow>
     (case p of
        RsaNumbers n e \<Rightarrow> key_type_of (kp_algorithm k) = Some KtyRsa \<and> 2 ^ 2047 \<le> n \<and> 0 < e
      | EcNumbers width x y \<Rightarrow> key_type_of (kp_algorithm k) = Some KtyEc \<and> kp_use k \<noteq> UseEnc \<and>
          0 < x \<and> x < 256 ^ ((width + 7) div 8) \<and> 0 < y \<and> y < 256 ^ ((width + 7) div 8))"

lemma rsa_algorithm: "key_type_of a = Some KtyRsa \<longleftrightarrow> a \<in> {RS256, RS384, RS512, PS256, PS384, PS512}"
  by (cases a) simp_all

lemma ec_algorithm: "key_type_of a = Some KtyEc \<longleftrightarrow> a \<in> {ES256, ES384, ES512}"
  by (cases a) simp_all

lemma jwk_members:
  assumes "key_type_of (kp_algorithm k) = Some t"
  obtains jwk where "jwk_of load k = Some jwk" "map_of jwk ''kid'' = Some (JStr (kp_kid k))"
    "map_of jwk ''kty'' = Some (JStr (case t of KtyRsa \<Rightarrow> ''RSA'' | KtyEc \<Rightarrow> ''EC'' | KtyOct \<Rightarrow> ''oct''))"
    "map_of jwk ''use'' = (if kp_use k = UseEnc then None else Some (JStr ''sig''))"
    "map_of jwk ''alg'' = Some (JStr (if kp_use k = UseEnc then ''RSA-OAEP'' else alg_value (kp_algorithm k)))"
    "load (kp_public_pem k) = RsaNumbers n e \<Longrightarrow> map_of jwk ''n'' = Some (JStr (int_to_base64url n)) \<and>
       map_of jwk ''e'' = Some (JStr (int_to_base64url e))"
    "load (kp_public_pem k) = EcNumbers width x y \<Longrightarrow>
       map_of jwk ''crv'' = Some (JStr (curve_of (kp_algorithm k))) \<and>
       map_of jwk ''x'' = Some (JStr (ec_coord_to_base64url width x)) \<and>
       map_of jwk ''y'' = Some (JStr (ec_coord_to_base64url width y))"
proof -
  obtain jwk where jwk: "jwk_of load k = Some jwk" using assms by (simp add: jwk_of_def Let_def)
  show ?thesis
    by (rule that [OF jwk])
      (use jwk assms in \<open>auto simp: jwk_of_def Let_def split: if_splits public_numbers.splits\<close>)
qed

lemma upper_kty: "py_upper ''RSA'' = ''RSA''" "py_upper ''EC'' = ''EC''"
  by (simp_all add: py_upper_def upper_char_def)

text \<open>Every published key passes the checks the server itself makes of a key set, and its numbers
  read back from base64url are those of the key.\<close>

lemma published_key_readable:
  assumes "numbers_fit (load (kp_public_pem k)) k"
  shows "\<exists>jwk. jwk_of load k = Some jwk \<and> jwk_problem X jwk = [] \<and>
    map_of jwk ''kid'' = Some (JStr (kp_kid k)) \<and>
    (case load (kp_public_pem k) of
       RsaNumbers n e \<Rightarrow> positive_int (map_of jwk ''n'') = Some n \<and> positive_int (map_of jwk ''e'') = Some e
     | EcNumbers width x y \<Rightarrow>
         positive_int (map_of jwk ''x'') = Some x \<and> positive_int (map_of jwk ''y'') = Some y)"
proof (cases "load (kp_public_pem k)")
  case (RsaNumbers n e)
  with assms have type: "key_type_of (kp_algorithm k) = Some KtyRsa" and fit: "2 ^ 2047 \<le> n" "0 < e"
    by (auto simp: numbers_fit_def)
  obtain jwk where jwk: "jwk_of load k = Some jwk" "map_of jwk ''kid'' = Some (JStr (kp_kid k))"
    "map_of jwk ''kty'' = Some (JStr ''RSA'')"
    "map_of jwk ''use'' = (if kp_use k = UseEnc then None else Some (JStr ''sig''))"
    "map_of jwk ''alg'' = Some (JStr (if kp_use k = UseEnc then ''RSA-OAEP'' else alg_value (kp_algorithm k)))"
    "map_of jwk ''n'' = Some (JStr (int_to_base64url n))" "map_of jwk ''e'' = Some (JStr (int_to_base64url e))"
    by (rule jwk_members [OF type, of load]) (use RsaNumbers in auto)
  from fit(1) have "0 < n" by (meson less_le_trans zero_less_numeral zero_less_power)
  note numbers = int_read [OF this] int_read [OF fit(2)]
  from fit(1) have "\<not> bit_length n < min_rsa_modulus_bits" by (simp add: long_modulus flip: not_le)
  with numbers jwk have "rsa_problem jwk = []" by (simp add: rsa_problem_def)
  moreover have "alg_value (kp_algorithm k) \<in> set (algorithms_by_kty ''RSA'')"
    "''RSA-OAEP'' \<in> set (algorithms_by_kty ''RSA'')"
    using type by (auto simp: rsa_algorithm algorithms_by_kty_def)
  ultimately have "jwk_problem X jwk = []"
    using jwk by (simp add: jwk_problem_def kty_def jget_def supported_ktys_def use_values_def upper_kty Let_def)
  with jwk numbers RsaNumbers show ?thesis by simp
next
  case (EcNumbers width x y)
  with assms have type: "key_type_of (kp_algorithm k) = Some KtyEc" and use: "kp_use k \<noteq> UseEnc"
    and numbers: "positive_int (Some (JStr (ec_coord_to_base64url width x))) = Some x"
      "positive_int (Some (JStr (ec_coord_to_base64url width y))) = Some y"
    by (auto simp: numbers_fit_def ec_coord_to_base64url_def intro: number_read)
  obtain jwk where jwk: "jwk_of load k = Some jwk" "map_of jwk ''kid'' = Some (JStr (kp_kid k))"
    "map_of jwk ''kty'' = Some (JStr ''EC'')" "map_of jwk ''use'' = Some (JStr ''sig'')"
    "map_of jwk ''alg'' = Some (JStr (alg_value (kp_algorithm k)))"
    "map_of jwk ''crv'' = Some (JStr (curve_of (kp_algorithm k)))"
    "map_of jwk ''x'' = Some (JStr (ec_coord_to_base64url width x))"
    "map_of jwk ''y'' = Some (JStr (ec_coord_to_base64url width y))"
    by (rule jwk_members [OF type, of load]) (use EcNumbers use in auto)
  have "curve_of (kp_algorithm k) \<in> set ec_curves" "alg_value (kp_algorithm k) \<in> set (algorithms_by_kty ''EC'')"
    using type by (auto simp: ec_algorithm ec_curves_def algorithms_by_kty_def)
  with numbers jwk have "jwk_problem X jwk = []"
    by (simp add: jwk_problem_def kty_def jget_def supported_ktys_def use_values_def upper_kty ec_problem_def Let_def)
  with jwk numbers EcNumbers show ?thesis by simp
qed

lemma published_key_readable_witness:
  "\<exists>jwk. jwk_of (\<lambda>_. RsaNumbers (2 ^ 2047 + 1) 65537) (sample_key ''s'' UseSig) = Some jwk \<and>
     jwk_problem sample_services jwk = [] \<and> positive_int (map_of jwk ''e'') = Some 65537"
  using published_key_readable [of "\<lambda>_. RsaNumbers (2 ^ 2047 + 1) 65537" "sample_key ''s'' UseSig" sample_services]
  by (auto simp: numbers_fit_def sample_key_def)

end
