(* ===== verification/CredentialOffers.thy ===== *)
theory CredentialOffers
  imports ResourceAccess DeviceEndpoint TokenGrants
begin

text \<open>
  \<open>domain/credential_offer.py\<close> and \<open>CredentialOfferUseCase\<close> of \<open>application/oid4vci.py\<close>: offers of
  verifiable credentials (OpenID4VCI).  An offer carries a pre-authorized code, stored among the
  authorization codes and redeemed at the token endpoint; it is read by reference, without
  authentication, until its code is used or expires.
\<close>

subsection \<open>Errors and texts\<close>

text \<open>\<open>CredentialError\<close> has the status of its HTTP answer; \<open>CredentialCrash\<close> is an escaping exception.\<close>

datatype credential_failure = CredentialError str str int | CredentialCrash str

definition scope_oid4vci :: str where "scope_oid4vci = ''openid4vci''"

definition default_configuration :: str where
  "default_configuration = ''puridentityserver-sdjwt-vc''"

definition tx_code_description :: str where
  "tx_code_description = ''Code transmis par l'emetteur sur un canal separe''"

text \<open>\<open>str(claims.get(name) or "")\<close>.\<close>

definition claim_text :: "services \<Rightarrow> (str \<times> json) list \<Rightarrow> str \<Rightarrow> str" where
  "claim_text X claims name =
     (case map_of claims name of None \<Rightarrow> [] | Some v \<Rightarrow> if json_true v then py_text X v else [])"

definition credential_offer_payload :: "credential_offer \<Rightarrow> str \<Rightarrow> (str \<times> json) list" where
  "credential_offer_payload o' issuer =
     (let normalized = rstrip_slash issuer;
          grant = [(''pre-authorized_code'', JStr (of_pre_authorized_code o')),
                   (''authorization_server'', JStr normalized)]
            @ member_if (of_tx_code_required o') ''tx_code''
                (JObj [(''input_mode'', JStr ''numeric''), (''length'', JInt 6),
                       (''description'', JStr tx_code_description)])
      in [(''credential_issuer'', JStr normalized),
          (''credential_configuration_ids'', JList (map JStr (of_configuration_ids o'))),
          (''grants'', JObj [(pre_authorized_code_grant_type, JObj grant)])])"

subsection \<open>CredentialOfferUseCase\<close>

record offer_config =
  oc_issuer :: str
  oc_ttl :: int

record offer_caller =
  ca_subject :: str
  ca_client_id :: str
  ca_machine :: bool

record offer_request =
  oq_access_token :: str
  oq_configuration_ids :: "str list"
  oq_subject :: str
  oq_tx_code :: bool

definition offer_issuer :: "offer_config \<Rightarrow> str" where
  "offer_issuer C = rstrip_slash (oc_issuer C)"

definition offer_caller_of :: "services \<Rightarrow> offer_config \<Rightarrow> str
    \<Rightarrow> (world, credential_failure, offer_caller) prog" where
  "offer_caller_of X C token =
     andthen (validate_access_token X token (offer_issuer C)) (\<lambda>found.
     case found of
       None \<Rightarrow> raise (CredentialError ''invalid_token'' ''access token invalide ou expire'' 401)
     | Some claims \<Rightarrow>
         if scope_oid4vci \<notin> set (py_split (claim_text X claims ''scope''))
         then raise (CredentialError ''insufficient_scope''
           ''scope openid4vci requis pour creer une offre'' 403)
         else
           let subject = claim_text X claims ''sub''; client_id = claim_text X claims ''client_id''
           in if subject = [] then raise (CredentialError ''invalid_token'' ''access token sans sujet'' 401)
              else ok \<lparr>ca_subject = subject, ca_client_id = client_id,
                ca_machine = (client_id \<noteq> [] \<and> client_id = subject)\<rparr>)"

definition offer_configurations :: "str list \<Rightarrow> credential_failure + str list" where
  "offer_configurations requested =
     (let configurations = (if dedup requested = [] then [default_configuration] else dedup requested)
      in if list_ex (\<lambda>i. i \<notin> set supported_credential_configurations) configurations
         then Inl (CredentialError ''unknown_credential_configuration''
           ''credential_configuration_id inconnu'' 400)
         else Inr configurations)"

definition offer_subject :: "offer_caller \<Rightarrow> str \<Rightarrow> credential_failure + str" where
  "offer_subject caller requested =
     (if requested \<noteq> [] then
        (if \<not> ca_machine caller \<and> requested \<noteq> ca_subject caller
         then Inl (CredentialError ''invalid_request''
           ''le sujet demande differe du porteur du jeton'' 403)
         else Inr requested)
      else if ca_machine caller
      then Inl (CredentialError ''invalid_request''
        ''subject requis pour une offre creee par un client'' 400)
      else Inr (ca_subject caller))"

definition transaction_code :: "(world, credential_failure, str) prog" where
  "transaction_code = draw_chars 6 ''0123456789''"

definition pre_authorized_entry :: "services \<Rightarrow> str \<Rightarrow> str \<Rightarrow> str \<Rightarrow> instant \<Rightarrow> authorization_code" where
  "pre_authorized_entry X code subject tx_code expires =
     \<lparr>ac_code = code, ac_client_id = [], ac_redirect_uri = [], ac_subject = subject,
      ac_session_id = [], ac_subject_material = [], ac_scopes = {scope_oid4vci},
      ac_code_challenge = [], ac_code_challenge_method = ''S256'', ac_nonce = [],
      ac_auth_time = 0, ac_acr = [], ac_claims = [], ac_openid2_realm = [],
      ac_expires_at = expires, ac_is_consumed = False, ac_access_token_hash = [],
      ac_access_token_expires_at = None, ac_refresh_token_hash = [], ac_dpop_jkt = [],
      ac_resource_uris = [], ac_pre_authorized = True,
      ac_tx_code_hash = (if tx_code \<noteq> [] then sv_sha256_hex X tx_code else []),
      ac_authorization_details = []\<rparr>"

definition create_offer :: "services \<Rightarrow> offer_config \<Rightarrow> offer_request
    \<Rightarrow> (world, credential_failure, (str \<times> json) list) prog" where
  "create_offer X C q =
     andthen (offer_caller_of X C (oq_access_token q)) (\<lambda>caller.
     andthen (lift (offer_configurations (oq_configuration_ids q))) (\<lambda>configurations.
     andthen (lift (offer_subject caller (oq_subject q))) (\<lambda>subject.
     andthen now_utc (\<lambda>now.
     andthen (if oq_tx_code q then transaction_code else ok []) (\<lambda>tx_code.
     andthen fresh_token (\<lambda>code.
     andthen fresh_token (\<lambda>offer_id.
     let entry = pre_authorized_entry X code subject tx_code (now + seconds (oc_ttl C));
         o' = \<lparr>of_offer_id = offer_id, of_configuration_ids = configurations, of_subject = subject,
           of_pre_authorized_code = code, of_client_id = ca_client_id caller,
           of_tx_code_required = (tx_code \<noteq> []), of_created_at = now,
           of_expires_at = ac_expires_at entry\<rparr> in
     andthen (modify (\<lambda>w. w\<lparr>w_codes := codes_save entry (w_codes w)\<rparr>)) (\<lambda>_.
     andthen (modify (\<lambda>w. w\<lparr>w_offers := offers_save o' (w_offers w)\<rparr>)) (\<lambda>_.
     ok ([(''credential_offer'', JObj (credential_offer_payload o' (offer_issuer C))),
          (''credential_offer_uri'', JStr (offer_issuer C @ ''/credential-offer/'' @ offer_id))]
         @ member_if (tx_code \<noteq> []) ''tx_code'' (JStr tx_code)))))))))))"

definition unknown_offer :: credential_failure where
  "unknown_offer = CredentialError ''not_found'' ''offre de credential inconnue ou expiree'' 404"

definition resolve_offer :: "offer_config \<Rightarrow> str
    \<Rightarrow> (world, credential_failure, (str \<times> json) list) prog" where
  "resolve_offer C offer_id =
     andthen (peek (\<lambda>w. offers_find (w_offers w) offer_id)) (\<lambda>found.
     andthen now_utc (\<lambda>now.
     case found of
       None \<Rightarrow> raise unknown_offer
     | Some o' \<Rightarrow>
         if offer_is_expired o' now then raise unknown_offer
         else andthen (peek (\<lambda>w. codes_find (w_codes w) (of_pre_authorized_code o'))) (\<lambda>code.
           case code of
             None \<Rightarrow> raise unknown_offer
           | Some ac \<Rightarrow>
               if ac_is_consumed ac \<or> ac_expires_at ac < now then raise unknown_offer
               else ok (credential_offer_payload o' (offer_issuer C)))))"

end
