(* ===== verification/CredentialIssue.thy ===== *)
theory CredentialIssue
  imports CredentialOffers KeyStore KeyValidation
begin

text \<open>
  \<open>OID4VCIIssuerUseCase\<close> of \<open>application/oid4vci.py\<close>: nonces, proofs of possession, key attestations
  and the credentials issued on them; \<open>PyJWTTokenManager._validate\<close> of \<open>infrastructure/tokens.py\<close>,
  the validation of a token over the keys of the server; the device key of
  \<open>infrastructure/mdoc.py\<close>.
\<close>

subsection \<open>State and parameters\<close>

record mdoc_pki =
  mp_issuer_key :: str
  mp_issuer_certificate :: str
  mp_signer_key :: str
  mp_signer_certificate :: str

text \<open>
  The server and its keys, the notification identifiers the use case remembers, its mdoc
  certificates (in memory and in their repository), and the nonces of the presentation use case.
  Server and keys have one clock, that of the server.
\<close>

record credential_world =
  cw_server :: world
  cw_keys :: key_world
  cw_notifications :: "str set"
  cw_pki :: "mdoc_pki option"
  cw_pki_saved :: "mdoc_pki option"
  cw_nonces :: "str set"

type_synonym 'a issuing = "(credential_world, credential_failure, 'a) prog"

definition on_server :: "(world, credential_failure, 'a) prog \<Rightarrow> 'a issuing" where
  "on_server m = (\<lambda>s. case m (cw_server s) of (r, w) \<Rightarrow> (r, s\<lparr>cw_server := w\<rparr>))"

definition on_keys :: "'a keying \<Rightarrow> 'a issuing" where
  "on_keys m = (\<lambda>s. let w = cw_server s in
     case m ((cw_keys s)\<lparr>kw_clock := w_clock w, kw_tick := w_tick w\<rparr>) of (r, k) \<Rightarrow>
       (map_sum (\<lambda>e. case e of KeyCrashed c \<Rightarrow> CredentialCrash c) id r,
        s\<lparr>cw_keys := k, cw_server := w\<lparr>w_tick := kw_tick k\<rparr>\<rparr>))"

text \<open>
  PyJWT and the cryptography package.  Public keys are opaque texts; \<open>None\<close> is an exception the
  code catches.
  \<^item> \<open>ip_jwk_key rsa jwk\<close>: \<open>RSAAlgorithm.from_jwk\<close> or \<open>ECAlgorithm.from_jwk\<close>;
    \<open>ip_x5c_key\<close>: the public key of a base64 certificate; \<open>ip_pem_key\<close>: \<open>load_pem_public_key\<close>.
  \<^item> \<open>ip_encode header payload private_pem alg\<close>: \<open>pyjwt.encode\<close>.
  \<^item> \<open>ip_decode token key alg options now\<close>: \<open>pyjwt.decode\<close>, which checks the signature, the dates
    at the instant of the call, and the issuer and audience the options ask for.
  \<^item> \<open>ip_generate_pki\<close>: \<open>generate_mdoc_pki\<close> for an issuer, an instant and its entropy;
    \<open>ip_not_before\<close>: the start of validity of a certificate.
  \<^item> \<open>ip_encode_item\<close>: the CBOR bytes of an \<open>IssuerSignedItem\<close> under its tag;
    \<open>ip_issuer_signed\<close>: those of the \<open>IssuerSigned\<close> with its COSE signature.
\<close>

record jwt_options =
  jo_issuer :: "str option"
  jo_audience :: "str option"
  jo_verify_aud :: bool

text \<open>The values of the elements of a mobile document, and its \<open>MobileSecurityObject\<close>.\<close>

datatype mdoc_value =
    MText str
  | MDate nat nat nat
  | MBytes "nat list"
  | MItems "mdoc_value list"
  | MMap "(str \<times> mdoc_value) list"

record cose_key =
  ck_x :: "nat list"
  ck_y :: "nat list"

record signed_item =
  sm_digest_id :: nat
  sm_random :: str
  sm_identifier :: str
  sm_value :: mdoc_value

record security_object =
  mo_doc_type :: str
  mo_digests :: "(nat \<times> str) list"
  mo_signed :: instant
  mo_valid_until :: instant
  mo_device_key :: cose_key

record issuing_ports =
  ip_jwk_key :: "bool \<Rightarrow> (str \<times> json) list \<Rightarrow> str option"
  ip_x5c_key :: "str \<Rightarrow> str option"
  ip_pem_key :: "str \<Rightarrow> str option"
  ip_encode :: "(str \<times> json) list \<Rightarrow> (str \<times> json) list \<Rightarrow> str \<Rightarrow> jwt_algorithm \<Rightarrow> str"
  ip_decode :: "str \<Rightarrow> str \<Rightarrow> str \<Rightarrow> jwt_options \<Rightarrow> instant \<Rightarrow> (str \<times> json) list option"
  ip_generate_pki :: "str \<Rightarrow> instant \<Rightarrow> str \<Rightarrow> mdoc_pki"
  ip_not_before :: "str \<Rightarrow> instant"
  ip_encode_item :: "signed_item \<Rightarrow> str"
  ip_issuer_signed :: "mdoc_pki \<Rightarrow> security_object \<Rightarrow> str list \<Rightarrow> str"

record issuer_config =
  ig_issuer :: str
  ig_algorithm :: jwt_algorithm
  ig_dpop :: bool
  ig_pki_repository :: bool

definition credential_issuer :: "issuer_config \<Rightarrow> str" where
  "credential_issuer C = rstrip_slash (ig_issuer C)"

definition signature_only :: jwt_options where
  "signature_only = \<lparr>jo_issuer = None, jo_audience = None, jo_verify_aud = False\<rparr>"

text \<open>Equality of decoded JSON in Python: numbers by value, objects without order.\<close>

fun py_number :: "json \<Rightarrow> rat option" where
  "py_number (JBool b) = Some (if b then 1 else 0)"
| "py_number (JInt i) = Some (of_int i)"
| "py_number (JFloat q) = Some q"
| "py_number _ = None"

fun py_equal :: "json \<Rightarrow> json \<Rightarrow> bool"
  and py_equal_list :: "json list \<Rightarrow> json list \<Rightarrow> bool"
  and py_equal_members :: "(str \<times> json) list \<Rightarrow> (str \<times> json) list \<Rightarrow> bool" where
  "py_equal (JStr s) v = (v = JStr s)"
| "py_equal JNull v = (v = JNull)"
| "py_equal (JList us) v = (case v of JList vs \<Rightarrow> py_equal_list us vs | _ \<Rightarrow> False)"
| "py_equal (JObj d) v = (case v of JObj e \<Rightarrow> length d = length e \<and> py_equal_members d e | _ \<Rightarrow> False)"
| "py_equal u v = (py_number v = py_number u)"
| "py_equal_list [] vs = (vs = [])"
| "py_equal_list (u # us) vs = (case vs of [] \<Rightarrow> False | v # vs' \<Rightarrow> py_equal u v \<and> py_equal_list us vs')"
| "py_equal_members [] e = True"
| "py_equal_members ((k, u) # d) e =
     ((case map_of e k of None \<Rightarrow> False | Some v \<Rightarrow> py_equal u v) \<and> py_equal_members d e)"

subsection \<open>Tokens of the server\<close>

definition decode_now :: "issuing_ports \<Rightarrow> str \<Rightarrow> str \<Rightarrow> str \<Rightarrow> jwt_options
    \<Rightarrow> (str \<times> json) list option issuing" where
  "decode_now P token key alg options =
     andthen (on_server now_utc) (\<lambda>now. ok (ip_decode P token key alg options now))"

text \<open>
  \<open>_validate\<close> for an access token.  Neither the kind of the token nor the denylist is looked at.
\<close>

definition validate_token :: "services \<Rightarrow> issuing_ports \<Rightarrow> issuer_config \<Rightarrow> str
    \<Rightarrow> (str \<times> json) list option issuing" where
  "validate_token X P C token =
     (case sv_unverified_header X token of
        None \<Rightarrow> ok None
      | Some header \<Rightarrow>
          (case Option.bind (jget_str header ''alg'') algorithm_of of
             None \<Rightarrow> ok None
           | Some alg \<Rightarrow>
               andthen (peek (\<lambda>s. validation_key (kw_keys (cw_keys s)) (map_of header ''kid'') alg)) (\<lambda>found.
               case found of
                 None \<Rightarrow> ok None
               | Some k \<Rightarrow>
                   (case ip_pem_key P (kp_public_pem k) of
                      None \<Rightarrow> raise (CredentialCrash ''ValueError'')
                    | Some key \<Rightarrow> decode_now P token key (alg_value alg)
                        \<lparr>jo_issuer = Some (credential_issuer C), jo_audience = None,
                         jo_verify_aud = False\<rparr>))))"

subsection \<open>Nonces\<close>

definition nonce_typ :: str where "nonce_typ = ''c_nonce+jwt''"

definition sign_nonce :: "issuing_ports \<Rightarrow> issuer_config \<Rightarrow> str issuing" where
  "sign_nonce P C =
     andthen (on_keys (first_active_key UseSig (ig_algorithm C))) (\<lambda>k.
     andthen (on_server now_utc) (\<lambda>t.
     andthen (on_server fresh_token) (\<lambda>jti.
     let now = epoch_seconds t in
     ok (ip_encode P [(''typ'', JStr nonce_typ), (''kid'', JStr (kp_kid k))]
       [(''iss'', JStr (credential_issuer C)), (''iat'', JInt now), (''exp'', JInt (now + 300)),
        (''jti'', JStr jti)] (kp_private_pem k) (ig_algorithm C)))))"

definition issue_nonce :: "issuing_ports \<Rightarrow> issuer_config \<Rightarrow> (str \<times> json) list issuing" where
  "issue_nonce P C = andthen (sign_nonce P C) (\<lambda>n. ok [(''c_nonce'', JStr n)])"

definition nonce_valid :: "services \<Rightarrow> issuing_ports \<Rightarrow> issuer_config \<Rightarrow> str \<Rightarrow> bool issuing" where
  "nonce_valid X P C nonce =
     (case sv_unverified_header X nonce of
        None \<Rightarrow> ok False
      | Some header \<Rightarrow>
          if map_of header ''typ'' \<noteq> Some (JStr nonce_typ) then ok False
          else (case jget_str header ''kid'' of
              None \<Rightarrow> ok False
            | Some kid \<Rightarrow>
                andthen (peek (\<lambda>s. key_by_kid UseSig (kw_keys (cw_keys s)) kid)) (\<lambda>found.
                case found of
                  None \<Rightarrow> ok False
                | Some k \<Rightarrow>
                    if kp_algorithm k \<noteq> ig_algorithm C then ok False
                    else (case ip_pem_key P (kp_public_pem k) of
                        None \<Rightarrow> ok False
                      | Some key \<Rightarrow>
                          andthen (decode_now P nonce key (alg_value (ig_algorithm C))
                            \<lparr>jo_issuer = Some (credential_issuer C), jo_audience = None,
                             jo_verify_aud = True\<rparr>) (\<lambda>claims. ok (claims \<noteq> None))))))"

subsection \<open>Proofs of possession\<close>

definition proof_types :: "str list" where "proof_types = [''openid4vci-proof+jwt'', ''jwt'']"
definition proof_algorithms :: "str list" where "proof_algorithms = [''ES256'', ''RS256'']"

text \<open>A \<open>typ\<close> that is a list or an object is not hashable: its look-up in a set raises.\<close>

definition unhashable :: "json option \<Rightarrow> bool" where
  "unhashable v = (case v of Some (JList _) \<Rightarrow> True | Some (JObj _) \<Rightarrow> True | _ \<Rightarrow> False)"

definition decode_proof :: "services \<Rightarrow> issuing_ports \<Rightarrow> str
    \<Rightarrow> ((str \<times> json) list \<times> (str \<times> json) list) option issuing" where
  "decode_proof X P proof =
     (case sv_unverified_header X proof of
        None \<Rightarrow> ok None
      | Some header \<Rightarrow>
          if unhashable (map_of header ''typ'') then raise (CredentialCrash ''TypeError'')
          else if map_of header ''typ'' \<notin> set (map (\<lambda>t. Some (JStr t)) proof_types) then ok None
          else (case (map_of header ''alg'', map_of header ''jwk'') of
              (Some (JStr alg), Some (JObj jwk)) \<Rightarrow>
                if alg \<notin> set proof_algorithms then ok None
                else (case ip_jwk_key P (alg = ''RS256'') jwk of
                    None \<Rightarrow> ok None
                  | Some key \<Rightarrow>
                      andthen (decode_now P proof key alg signature_only) (\<lambda>claims.
                      ok (map_option (\<lambda>c. (c, jwk)) claims)))
            | _ \<Rightarrow> ok None))"

definition audience_matches :: "issuer_config \<Rightarrow> json option \<Rightarrow> bool" where
  "audience_matches C audience =
     (case audience of
        Some (JStr a) \<Rightarrow> a = credential_issuer C
      | Some (JList vs) \<Rightarrow> JStr (credential_issuer C) \<in> set vs
      | _ \<Rightarrow> False)"

subsection \<open>Key attestations\<close>

definition attestation_key :: "issuing_ports \<Rightarrow> (str \<times> json) list \<Rightarrow> str option" where
  "attestation_key P header =
     (case map_of header ''x5c'' of
        Some (JList (JStr certificate # _)) \<Rightarrow> ip_x5c_key P certificate
      | _ \<Rightarrow>
         (case map_of header ''jwk'' of
            Some (JObj jwk) \<Rightarrow> ip_jwk_key P (map_of jwk ''kty'' = Some (JStr ''RSA'')) jwk
          | _ \<Rightarrow> None))"

definition attestation_covers :: "(str \<times> json) list \<Rightarrow> (str \<times> json) list \<Rightarrow> bool" where
  "attestation_covers jwk claims =
     (case map_of claims ''attested_keys'' of
        Some (JObj attested) \<Rightarrow>
         (case map_of attested ''keys'' of
            Some (JList (key # keys)) \<Rightarrow>
              list_ex (py_equal (JObj jwk)) (key # keys)
              \<or> list_ex (\<lambda>item. case item of
                    JObj d \<Rightarrow> (case (jget d ''kid'', jget jwk ''kid'') of
                        (None, None) \<Rightarrow> True
                      | (Some a, Some b) \<Rightarrow> py_equal a b
                      | _ \<Rightarrow> False)
                  | _ \<Rightarrow> False) (key # keys)
          | _ \<Rightarrow> True)
      | _ \<Rightarrow> True)"

definition attestation_valid :: "services \<Rightarrow> issuing_ports \<Rightarrow> str \<Rightarrow> (str \<times> json) list
    \<Rightarrow> bool issuing" where
  "attestation_valid X P attestation jwk =
     (case sv_unverified_header X attestation of
        None \<Rightarrow> ok False
      | Some header \<Rightarrow>
         (case jget_str header ''alg'' of
            None \<Rightarrow> ok False
          | Some alg \<Rightarrow>
             (case attestation_key P header of
                None \<Rightarrow> ok False
              | Some key \<Rightarrow>
                  andthen (decode_now P attestation key alg signature_only) (\<lambda>found.
                  ok (case found of None \<Rightarrow> False | Some claims \<Rightarrow> attestation_covers jwk claims)))))"

subsection \<open>The keys a request proves\<close>

definition invalid_proof :: "str \<Rightarrow> credential_failure" where
  "invalid_proof description = CredentialError ''invalid_proof'' description 400"

definition proof_attested :: "services \<Rightarrow> issuing_ports \<Rightarrow> str \<Rightarrow> (str \<times> json) list \<Rightarrow> bool issuing" where
  "proof_attested X P proof jwk =
     (case Option.bind (sv_unverified_header X proof) (\<lambda>h. jget_str h ''key_attestation'') of
        None \<Rightarrow> ok True
      | Some attestation \<Rightarrow> attestation_valid X P attestation jwk)"

definition binding_key :: "services \<Rightarrow> issuing_ports \<Rightarrow> issuer_config \<Rightarrow> str
    \<Rightarrow> (str \<times> json) list issuing" where
  "binding_key X P C proof =
     andthen (decode_proof X P proof) (\<lambda>found.
     case found of
       None \<Rightarrow> raise (invalid_proof ''preuve JWT invalide'')
     | Some (claims, jwk) \<Rightarrow>
         andthen (ensure (audience_matches C (map_of claims ''aud''))
           (invalid_proof ''audience de la preuve differente de l'emetteur'')) (\<lambda>_.
         case jget_str claims ''nonce'' of
           None \<Rightarrow> raise (invalid_proof ''nonce absent de la preuve'')
         | Some nonce \<Rightarrow>
             andthen (ensure (nonce \<noteq> []) (invalid_proof ''nonce absent de la preuve'')) (\<lambda>_.
             andthen (nonce_valid X P C nonce) (\<lambda>fresh.
             andthen (ensure fresh
               (CredentialError ''invalid_nonce'' ''c_nonce inconnu, invalide ou expire'' 400)) (\<lambda>_.
             andthen (proof_attested X P proof jwk) (\<lambda>vouched.
             andthen (ensure vouched (invalid_proof ''attestation de cle invalide'')) (\<lambda>_.
             ok jwk)))))))"

fun binding_keys_of :: "services \<Rightarrow> issuing_ports \<Rightarrow> issuer_config \<Rightarrow> str list
    \<Rightarrow> (str \<times> json) list list issuing" where
  "binding_keys_of X P C [] = ok []"
| "binding_keys_of X P C (proof # proofs) =
     andthen (binding_key X P C proof) (\<lambda>jwk.
     andthen (binding_keys_of X P C proofs) (\<lambda>jwks. ok (jwk # jwks)))"

definition binding_keys :: "services \<Rightarrow> issuing_ports \<Rightarrow> issuer_config \<Rightarrow> str list
    \<Rightarrow> (str \<times> json) list list issuing" where
  "binding_keys X P C proofs =
     (let candidates = filter (\<lambda>p. p \<noteq> []) proofs in
      if candidates = [] then raise (invalid_proof ''preuve cryptographique (proofs.jwt) requise'')
      else binding_keys_of X P C candidates)"

subsection \<open>The configuration a token allows\<close>

definition credential_formats :: "str list" where
  "credential_formats = [''dc+sd-jwt'', ''vc+sd-jwt'', ''mso_mdoc'']"

definition format_error :: credential_failure where
  "format_error = CredentialError ''invalid_credential_request'' ''format de credential non supporte'' 400"

definition unknown_identifier :: credential_failure where
  "unknown_identifier = CredentialError ''unknown_credential_identifier'' ''credential_identifier inconnu'' 400"

definition authorized_configuration :: "json option \<Rightarrow> str option \<Rightarrow> str option
    \<Rightarrow> credential_failure + str" where
  "authorized_configuration details configuration_id identifier =
     (if configuration_id \<noteq> None then Inl (CredentialError ''invalid_credential_request''
        ''credential_configuration_id interdit quand authorization_details est present'' 400)
      else case identifier of
          None \<Rightarrow> Inl (CredentialError ''invalid_credential_request''
            ''credential_identifier requis quand authorization_details est present'' 400)
        | Some i \<Rightarrow>
           (case credential_configuration_for_identifier details i of
              None \<Rightarrow> Inl unknown_identifier
            | Some configuration \<Rightarrow> Inr configuration))"

definition scoped_configuration :: "str option \<Rightarrow> str option \<Rightarrow> str option
    \<Rightarrow> credential_failure + str" where
  "scoped_configuration configuration_id identifier format =
     (if identifier \<noteq> None then Inl unknown_identifier
      else case configuration_id of
          None \<Rightarrow> Inl (CredentialError ''invalid_credential_request''
            ''credential_configuration_id ou credential_identifier requis'' 400)
        | Some configuration \<Rightarrow>
            if configuration \<notin> set supported_credential_configurations
            then Inl (CredentialError ''unknown_credential_configuration''
              ''credential_configuration_id inconnu'' 400)
            else if format \<noteq> None \<and> format \<notin> set (map Some credential_formats) then Inl format_error
            else Inr configuration)"

definition requested_configuration :: "services \<Rightarrow> (str \<times> json) list \<Rightarrow> str option \<Rightarrow> str option
    \<Rightarrow> str option \<Rightarrow> credential_failure + str" where
  "requested_configuration X claims configuration_id identifier format =
     (let details = map_of claims ''authorization_details'' in
      if has_authorization_details details then
        checked (authorized_configuration details configuration_id identifier) (\<lambda>configuration.
        if format \<noteq> None \<and> format \<notin> set (map Some credential_formats) then Inl format_error
        else Inr configuration)
      else if scope_oid4vci \<notin> set (py_split (claim_text X claims ''scope''))
      then Inl (CredentialError ''insufficient_scope''
        ''scope openid4vci requis pour emettre un credential'' 403)
      else scoped_configuration configuration_id identifier format)"

subsection \<open>Mobile documents (mdoc)\<close>

text \<open>
  \<open>base64.urlsafe_b64decode\<close> without validation: characters outside the alphabet are skipped, a
  complete padding ends the text, a quartet left open is an error.
\<close>

definition lenient_sextet :: "char \<Rightarrow> nat option" where
  "lenient_sextet c = (if c = CHR ''+'' then Some 62 else if c = CHR ''/'' then Some 63 else sextet c)"

fun a2b_base64 :: "nat list \<Rightarrow> nat \<Rightarrow> str \<Rightarrow> nat list option" where
  "a2b_base64 quad pads [] = (if quad = [] then Some [] else None)"
| "a2b_base64 quad pads (c # cs) =
     (if c = CHR ''='' then
        (if 2 \<le> length quad \<and> 4 \<le> length quad + Suc pads then sextet_bytes quad
         else a2b_base64 quad (if 2 \<le> length quad then Suc pads else pads) cs)
      else case lenient_sextet c of
          None \<Rightarrow> a2b_base64 quad pads cs
        | Some n \<Rightarrow>
            if length quad = 3
            then Option.bind (sextet_bytes (quad @ [n])) (\<lambda>bs. map_option (append bs) (a2b_base64 [] 0 cs))
            else a2b_base64 (quad @ [n]) 0 cs)"

definition base64_padding :: "str \<Rightarrow> str" where
  "base64_padding s = replicate ((4 - length s mod 4) mod 4) (CHR ''='')"

definition coordinate :: "str \<Rightarrow> nat list issuing" where
  "coordinate s =
     (if \<not> list_all is_ascii s then raise (CredentialCrash ''ValueError'')
      else case a2b_base64 [] 0 (s @ base64_padding s) of
          None \<Rightarrow> raise (CredentialCrash ''Error'')
        | Some bs \<Rightarrow> ok bs)"

definition device_key :: "(str \<times> json) list \<Rightarrow> cose_key issuing" where
  "device_key jwk =
     (if unhashable (map_of jwk ''kty'') then raise (CredentialCrash ''TypeError'')
      else if map_of jwk ''kty'' \<noteq> Some (JStr ''EC'')
      then raise (invalid_proof ''cle de liaison non EC, incompatible avec un device key mdoc'')
      else if map_of jwk ''crv'' \<noteq> Some (JStr ''P-256'')
      then raise (invalid_proof ''seule la courbe P-256 est supportee pour un device key mdoc'')
      else case (map_of jwk ''x'', map_of jwk ''y'') of
          (Some (JStr x), Some (JStr y)) \<Rightarrow>
            andthen (coordinate x) (\<lambda>xs. andthen (coordinate y) (\<lambda>ys. ok \<lparr>ck_x = xs, ck_y = ys\<rparr>))
        | _ \<Rightarrow> raise (invalid_proof ''coordonnees x/y absentes de la cle de liaison''))"

definition mdl_elements :: "(str \<times> mdoc_value) list" where
  "mdl_elements =
     [(''family_name'', MText ''Martin''), (''given_name'', MText ''Alice''),
      (''birth_date'', MDate 1985 6 15), (''issue_date'', MDate 2025 6 1),
      (''expiry_date'', MDate 2030 6 1), (''issuing_country'', MText ''FR''),
      (''issuing_authority'', MText ''Ministere de l'Interieur''),
      (''document_number'', MText ''12AB34567''),
      (''portrait'', MBytes (the (a2b_base64 [] 0
        ''iVBORw0KGgoAAAANSUhEUgAAAAEAAAABCAYAAAAfFcSJAAAADUlEQVR42mP8z8BQDwAEhQGAhKmMIQAAAABJRU5ErkJggg==''))),
      (''driving_privileges'', MItems [MMap [(''vehicle_category_code'', MText ''B''),
        (''issue_date'', MDate 2025 6 1), (''expiry_date'', MDate 2030 6 1),
        (''codes'', MItems [MMap [(''code'', MText ''01'')]])]]),
      (''un_distinguishing_sign'', MText ''SIGN-DEMO-0001'')]"

fun signed_items :: "nat \<Rightarrow> (str \<times> mdoc_value) list \<Rightarrow> signed_item list issuing" where
  "signed_items n [] = ok []"
| "signed_items n ((identifier, v) # es) =
     andthen (on_server fresh_token) (\<lambda>salt.
     andthen (signed_items (Suc n) es) (\<lambda>rest.
     ok (\<lparr>sm_digest_id = n, sm_random = salt, sm_identifier = identifier, sm_value = v\<rparr> # rest)))"

definition issue_document :: "services \<Rightarrow> issuing_ports \<Rightarrow> mdoc_pki \<Rightarrow> (str \<times> json) list
    \<Rightarrow> instant \<Rightarrow> str issuing" where
  "issue_document X P pki jwk now =
     (let whole = (\<lambda>t. seconds (epoch_seconds t));
          signed_at = max (whole now) (whole (ip_not_before P (mp_signer_certificate pki))) in
      andthen (signed_items 0 mdl_elements) (\<lambda>items.
      andthen (device_key jwk) (\<lambda>key.
      ok (ip_issuer_signed P pki
        \<lparr>mo_doc_type = ''org.iso.18013.5.1.mDL'',
         mo_digests = map (\<lambda>i. (sm_digest_id i, sv_sha2 X 256 (ip_encode_item P i))) items,
         mo_signed = signed_at, mo_valid_until = signed_at + days 365, mo_device_key = key\<rparr>
        (map (ip_encode_item P) items)))))"

definition generate_mdoc_pki :: "issuing_ports \<Rightarrow> issuer_config \<Rightarrow> mdoc_pki issuing" where
  "generate_mdoc_pki P C =
     andthen (on_server now_utc) (\<lambda>now.
     andthen (on_server fresh_token) (\<lambda>entropy.
     ok (ip_generate_pki P (credential_issuer C) now entropy)))"

definition ensure_mdoc_pki :: "issuing_ports \<Rightarrow> issuer_config \<Rightarrow> mdoc_pki issuing" where
  "ensure_mdoc_pki P C =
     andthen (peek cw_pki) (\<lambda>present.
     case present of
       Some pki \<Rightarrow> ok pki
     | None \<Rightarrow>
         if \<not> ig_pki_repository C then
           andthen (generate_mdoc_pki P C) (\<lambda>pki.
           andthen (modify (\<lambda>s. s\<lparr>cw_pki := Some pki\<rparr>)) (\<lambda>_. ok pki))
         else
           andthen (peek cw_pki_saved) (\<lambda>loaded.
           case loaded of
             Some pki \<Rightarrow> andthen (modify (\<lambda>s. s\<lparr>cw_pki := Some pki\<rparr>)) (\<lambda>_. ok pki)
           | None \<Rightarrow>
               andthen (generate_mdoc_pki P C) (\<lambda>pki.
               andthen (modify (\<lambda>s. s\<lparr>cw_pki_saved := Some pki\<rparr>)) (\<lambda>_.
               andthen (modify (\<lambda>s. s\<lparr>cw_pki := Some pki\<rparr>)) (\<lambda>_. ok pki)))))"

fun issue_documents :: "services \<Rightarrow> issuing_ports \<Rightarrow> mdoc_pki \<Rightarrow> instant
    \<Rightarrow> (str \<times> json) list list \<Rightarrow> str list issuing" where
  "issue_documents X P pki now [] = ok []"
| "issue_documents X P pki now (jwk # jwks) =
     andthen (issue_document X P pki jwk now) (\<lambda>issued.
     andthen (issue_documents X P pki now jwks) (\<lambda>rest. ok (sv_b64 X issued # rest)))"

definition rounded_hour :: "instant \<Rightarrow> int" where
  "rounded_hour t = epoch_seconds t div 3600 * 3600"

definition issue_mdoc :: "services \<Rightarrow> issuing_ports \<Rightarrow> issuer_config \<Rightarrow> (str \<times> json) list list
    \<Rightarrow> str list issuing" where
  "issue_mdoc X P C jwks =
     andthen (ensure_mdoc_pki P C) (\<lambda>pki.
     andthen (on_server now_utc) (\<lambda>now.
     issue_documents X P pki (seconds (rounded_hour now)) jwks))"

subsection \<open>SD-JWT credentials\<close>

definition selective_claims :: "(str \<times> str) list" where
  "selective_claims = [(''given_name'', ''Alice''), (''family_name'', ''Martin'')]"

definition credential_vct :: "str \<Rightarrow> str" where
  "credential_vct issuer = rstrip_slash issuer @ ''/credentials/example''"

definition disclosure_text :: "services \<Rightarrow> str \<Rightarrow> str \<times> str \<Rightarrow> str" where
  "disclosure_text X salt claim =
     sv_json_dumps X (JList [JStr salt, JStr (fst claim), JStr (snd claim)])"

fun draw_disclosures :: "services \<Rightarrow> (str \<times> str) list \<Rightarrow> str list issuing" where
  "draw_disclosures X [] = ok []"
| "draw_disclosures X (claim # claims) =
     andthen (on_server fresh_token) (\<lambda>salt.
     andthen (draw_disclosures X claims) (\<lambda>rest. ok (disclosure_text X salt claim # rest)))"

fun draw_decoys :: "services \<Rightarrow> nat \<Rightarrow> str list issuing" where
  "draw_decoys X 0 = ok []"
| "draw_decoys X (Suc n) =
     andthen (on_server fresh_token) (\<lambda>salt.
     andthen (draw_decoys X n) (\<lambda>rest. ok (sv_json_dumps X (JList [JStr salt]) # rest)))"

definition sd_jwt_payload :: "services \<Rightarrow> issuer_config \<Rightarrow> str \<Rightarrow> int \<Rightarrow> str list \<Rightarrow> (str \<times> json) list
    \<Rightarrow> (str \<times> json) list" where
  "sd_jwt_payload X C sub iat texts jwk =
     [(''iss'', JStr (credential_issuer C)), (''sub'', JStr sub), (''iat'', JInt iat),
      (''exp'', JInt (iat + 3600)), (''vct'', JStr (credential_vct (credential_issuer C))),
      (''_sd'', JList (map (\<lambda>t. JStr (sv_sha256_b64 X t)) texts)), (''_sd_alg'', JStr ''sha-256''),
      (''cnf'', JObj [(''jwk'', JObj jwk)])]"

definition sd_jwt_header :: "issuer_config \<Rightarrow> key_pair \<Rightarrow> (str \<times> json) list" where
  "sd_jwt_header C k = [(''typ'', JStr ''dc+sd-jwt''), (''kid'', JStr (kp_kid k)),
     (''alg'', JStr (alg_value (ig_algorithm C)))]"

definition sign_credential :: "services \<Rightarrow> issuing_ports \<Rightarrow> issuer_config \<Rightarrow> key_pair \<Rightarrow> str \<Rightarrow> int
    \<Rightarrow> (str \<times> json) list \<Rightarrow> str issuing" where
  "sign_credential X P C k sub iat jwk =
     andthen (draw_disclosures X selective_claims) (\<lambda>disclosures.
     andthen (draw_decoys X 2) (\<lambda>decoys.
     ok (ip_encode P (sd_jwt_header C k) (sd_jwt_payload X C sub iat (disclosures @ decoys) jwk)
           (kp_private_pem k) (ig_algorithm C)
         @ ''~'' @ join_with ''~'' (map (sv_b64 X) disclosures) @ ''~'')))"

fun sign_credentials :: "services \<Rightarrow> issuing_ports \<Rightarrow> issuer_config \<Rightarrow> key_pair \<Rightarrow> str \<Rightarrow> int
    \<Rightarrow> (str \<times> json) list list \<Rightarrow> str list issuing" where
  "sign_credentials X P C k sub iat [] = ok []"
| "sign_credentials X P C k sub iat (jwk # jwks) =
     andthen (sign_credential X P C k sub iat jwk) (\<lambda>c.
     andthen (sign_credentials X P C k sub iat jwks) (\<lambda>rest. ok (c # rest)))"

definition issue_sd_jwt :: "services \<Rightarrow> issuing_ports \<Rightarrow> issuer_config \<Rightarrow> str
    \<Rightarrow> (str \<times> json) list list \<Rightarrow> str list issuing" where
  "issue_sd_jwt X P C sub jwks =
     andthen (on_keys (first_active_key UseSig (ig_algorithm C))) (\<lambda>k.
     andthen (on_server now_utc) (\<lambda>now.
     sign_credentials X P C k sub (rounded_hour now) jwks))"

definition issue_configured :: "services \<Rightarrow> issuing_ports \<Rightarrow> issuer_config \<Rightarrow> str
    \<Rightarrow> (str \<times> json) list list \<Rightarrow> str \<Rightarrow> str list issuing" where
  "issue_configured X P C sub jwks configuration =
     (if configuration = ''puridentityserver-mso-mdoc'' then issue_mdoc X P C jwks
      else issue_sd_jwt X P C sub jwks)"

subsection \<open>The endpoints\<close>

record credential_request =
  cr_token :: str
  cr_configuration_id :: "str option"
  cr_identifier :: "str option"
  cr_format :: "str option"
  cr_proofs :: "str list"
  cr_auth_scheme :: str
  cr_dpop_proof :: str
  cr_htu :: str
  cr_method :: str

definition bound_thumbprint :: "services \<Rightarrow> (str \<times> json) list \<Rightarrow> str" where
  "bound_thumbprint X claims =
     (case map_of claims ''cnf'' of Some (JObj cnf) \<Rightarrow> py_text_of X cnf ''jkt'' | _ \<Rightarrow> [])"

definition dpop_authorized :: "services \<Rightarrow> issuer_config \<Rightarrow> credential_request \<Rightarrow> (str \<times> json) list
    \<Rightarrow> bool issuing" where
  "dpop_authorized X C q claims =
     (let bound = bound_thumbprint X claims in
      if bound = [] then ok True
      else if cr_auth_scheme q \<noteq> ''dpop'' \<or> \<not> ig_dpop C \<or> cr_dpop_proof q = [] then ok False
      else on_server (\<lambda>w. case validate_proof X (cr_dpop_proof q) (cr_htu q) (cr_method q)
                            (access_token_hash X (cr_token q)) w of
            (Inl (Refused _ _), v) \<Rightarrow> (Inr False, v)
          | (Inl (Uncaught e), v) \<Rightarrow> (Inl (CredentialCrash e), v)
          | (Inr p, v) \<Rightarrow> (Inr (pf_jkt p = bound), v)))"

definition invalid_token :: "str \<Rightarrow> credential_failure" where
  "invalid_token description = CredentialError ''invalid_token'' description 401"

definition invalid_access_token :: str where
  "invalid_access_token = ''access token invalide, expire ou non autorise''"

definition credential_subject :: "services \<Rightarrow> (str \<times> json) list \<Rightarrow> str" where
  "credential_subject X claims =
     (let sub = claim_text X claims ''sub'' in if sub \<noteq> [] then sub else claim_text X claims ''client_id'')"

text \<open>The answer: the credentials of the batch and the notification identifier.\<close>

record credential_answer =
  cn_credentials :: "str list"
  cn_notification_id :: str

definition issue_credential :: "services \<Rightarrow> issuing_ports \<Rightarrow> issuer_config \<Rightarrow> credential_request
    \<Rightarrow> credential_answer issuing" where
  "issue_credential X P C q =
     andthen (validate_token X P C (cr_token q)) (\<lambda>found.
     case found of
       None \<Rightarrow> raise (invalid_token invalid_access_token)
     | Some claims \<Rightarrow>
         andthen (dpop_authorized X C q claims) (\<lambda>bound.
         andthen (ensure bound (invalid_token ''preuve DPoP absente ou non conforme au jeton'')) (\<lambda>_.
         andthen (ensure (credential_subject X claims \<noteq> []) (invalid_token ''access token sans sujet'')) (\<lambda>_.
         andthen (lift (requested_configuration X claims (cr_configuration_id q) (cr_identifier q)
           (cr_format q))) (\<lambda>configuration.
         andthen (binding_keys X P C (cr_proofs q)) (\<lambda>jwks.
         andthen (issue_configured X P C (credential_subject X claims) jwks configuration) (\<lambda>credentials.
         andthen (on_server fresh_token) (\<lambda>notification_id.
         andthen (modify (\<lambda>s. s\<lparr>cw_notifications := insert notification_id (cw_notifications s)\<rparr>)) (\<lambda>_.
         ok \<lparr>cn_credentials = credentials, cn_notification_id = notification_id\<rparr>)))))))))"

text \<open>No issuance is ever deferred: the endpoint answers no transaction.\<close>

definition deferred_credential :: "services \<Rightarrow> issuing_ports \<Rightarrow> issuer_config \<Rightarrow> str \<Rightarrow> str
    \<Rightarrow> unit issuing" where
  "deferred_credential X P C token transaction_id =
     andthen (validate_token X P C token) (\<lambda>found.
     if found = None then raise (invalid_token invalid_access_token)
     else raise (CredentialError ''invalid_transaction_id''
       ''transaction_id inconnu ou deja consomme'' 400))"

definition notification_events :: "str list" where
  "notification_events = [''credential_accepted'', ''credential_failure'', ''credential_deleted'']"

definition notify_issuer :: "services \<Rightarrow> issuing_ports \<Rightarrow> issuer_config \<Rightarrow> str \<Rightarrow> str \<Rightarrow> str
    \<Rightarrow> unit issuing" where
  "notify_issuer X P C token notification_id event =
     andthen (validate_token X P C token) (\<lambda>found.
     andthen (ensure (found \<noteq> None) (invalid_token invalid_access_token)) (\<lambda>_.
     andthen (peek cw_notifications) (\<lambda>known.
     andthen (ensure (notification_id \<in> known)
       (CredentialError ''invalid_notification_id'' ''notification_id inconnu'' 400)) (\<lambda>_.
     andthen (ensure (event \<in> set notification_events)
       (CredentialError ''invalid_notification_request'' ''event non supporte'' 400)) (\<lambda>_.
     modify (\<lambda>s. s\<lparr>cw_notifications := insert notification_id (cw_notifications s - {notification_id})\<rparr>))))))"

end
