(* ===== verification/Presentations.thy ===== *)
theory Presentations
  imports CredentialIssue
begin

text \<open>
  \<open>application/oid4vp.py\<close>: the server as verifier of presentations (OpenID4VP).  A request object
  carries a nonce the use case remembers; a response is a set of signed tokens, each carrying its
  key in its header, whose nonces are consumed.
\<close>

subsection \<open>The request\<close>

record presentation_query =
  pq_definition :: "(str \<times> json) list option"
  pq_dcql :: "(str \<times> json) list option"
  pq_response_mode :: str

definition optional_member :: "str \<Rightarrow> (str \<times> json) list option \<Rightarrow> (str \<times> json) list" where
  "optional_member name v = (case v of None \<Rightarrow> [] | Some d \<Rightarrow> [(name, JObj d)])"

definition presentation_payload :: "issuer_config \<Rightarrow> presentation_query \<Rightarrow> int \<Rightarrow> str
    \<Rightarrow> (str \<times> json) list" where
  "presentation_payload C q now nonce =
     [(''iss'', JStr (credential_issuer C)), (''aud'', JStr ''wallet''), (''iat'', JInt now),
      (''exp'', JInt (now + 300)), (''nonce'', JStr nonce), (''response_type'', JStr ''vp_token''),
      (''response_mode'', JStr (pq_response_mode q)), (''client_id'', JStr (credential_issuer C))]
     @ optional_member ''presentation_definition'' (pq_definition q)
     @ optional_member ''dcql_query'' (pq_dcql q)"

text \<open>The answer is the signed request, its nonce and the members of the query it repeats.\<close>

definition create_presentation_request :: "issuing_ports \<Rightarrow> issuer_config \<Rightarrow> presentation_query
    \<Rightarrow> (str \<times> json) list issuing" where
  "create_presentation_request P C q =
     andthen (on_keys (first_active_key UseSig (ig_algorithm C))) (\<lambda>k.
     andthen (on_server fresh_token) (\<lambda>nonce.
     andthen (modify (\<lambda>s. s\<lparr>cw_nonces := insert nonce (cw_nonces s)\<rparr>)) (\<lambda>_.
     andthen (on_server now_utc) (\<lambda>t.
     ok ([(''request'', JStr (ip_encode P
            [(''typ'', JStr ''oauth-authz-req+jwt''), (''kid'', JStr (kp_kid k)),
             (''alg'', JStr (alg_value (ig_algorithm C)))]
            (presentation_payload C q (epoch_seconds t) nonce) (kp_private_pem k) (ig_algorithm C))),
          (''nonce'', JStr nonce), (''response_mode'', JStr (pq_response_mode q))]
         @ optional_member ''dcql_query'' (pq_dcql q))))))"

subsection \<open>The response\<close>

definition nonempty_texts :: "json list \<Rightarrow> str list" where
  "nonempty_texts vs = filter (\<lambda>s. s \<noteq> []) (List.map_filter json_str vs)"

definition all_tokens :: "json option \<Rightarrow> str list" where
  "all_tokens vp_token =
     (case vp_token of
        Some (JObj d) \<Rightarrow> nonempty_texts (map snd d)
      | Some (JList vs) \<Rightarrow> nonempty_texts vs
      | Some (JStr s) \<Rightarrow> nonempty_texts [JStr s]
      | _ \<Rightarrow> [])"

definition vp_algorithms :: "str list" where "vp_algorithms = [''RS256'', ''ES256'']"

definition verify_vp_token :: "services \<Rightarrow> issuing_ports \<Rightarrow> issuer_config \<Rightarrow> str
    \<Rightarrow> (str \<times> json) list option issuing" where
  "verify_vp_token X P C token =
     (case sv_unverified_header X token of
        None \<Rightarrow> ok None
      | Some header \<Rightarrow>
         (case (map_of header ''alg'', map_of header ''jwk'') of
            (Some (JStr alg), Some (JObj jwk)) \<Rightarrow>
              if alg \<notin> set vp_algorithms then ok None
              else (case ip_jwk_key P (alg = ''RS256'') jwk of
                  None \<Rightarrow> ok None
                | Some key \<Rightarrow> decode_now P token key alg
                    \<lparr>jo_issuer = None, jo_audience = Some (credential_issuer C), jo_verify_aud = True\<rparr>)
          | _ \<Rightarrow> ok None))"

definition invalid_presentation :: credential_failure where
  "invalid_presentation = CredentialError ''invalid_presentation'' [] 400"

text \<open>The loop over the tokens, which collects their nonces; none is consumed if one is refused.\<close>

fun presented_nonces :: "services \<Rightarrow> issuing_ports \<Rightarrow> issuer_config \<Rightarrow> str list
    \<Rightarrow> str list issuing" where
  "presented_nonces X P C [] = ok []"
| "presented_nonces X P C (token # tokens) =
     andthen (verify_vp_token X P C token) (\<lambda>found.
     case Option.bind found (\<lambda>claims. jget_str claims ''nonce'') of
       None \<Rightarrow> raise invalid_presentation
     | Some nonce \<Rightarrow>
         andthen (peek cw_nonces) (\<lambda>known.
         andthen (ensure (nonce \<in> known) invalid_presentation) (\<lambda>_.
         andthen (presented_nonces X P C tokens) (\<lambda>rest. ok (nonce # rest)))))"

definition validate_presentation :: "services \<Rightarrow> issuing_ports \<Rightarrow> issuer_config \<Rightarrow> json option
    \<Rightarrow> unit issuing" where
  "validate_presentation X P C vp_token =
     (let tokens = all_tokens vp_token in
      if tokens = [] then raise (CredentialError ''invalid_request'' [] 400)
      else andthen (presented_nonces X P C tokens) (\<lambda>nonces.
        modify (\<lambda>s. s\<lparr>cw_nonces := cw_nonces s - set nonces\<rparr>)))"

end
