(* ===== verification/CredentialRules.thy ===== *)
theory CredentialRules
  imports AuthorizeFlow EndpointGuard CredentialOffers
begin

text \<open>
  What an offer of credentials gives away: who may make one, for whom, what its pre-authorized code
  is redeemed for, and how long its reference answers.
\<close>

subsection \<open>Runs of the offer endpoint\<close>

lemma offer_caller_ok:
  assumes "offer_caller_of X C token w = (Inr caller, v)"
  obtains claims where
    "sv_server_token_claims X token (offer_issuer C) False (current w) = Some claims"
    "scope_oid4vci \<in> set (py_split (claim_text X claims ''scope''))"
    "ca_subject caller = claim_text X claims ''sub''" "ca_subject caller \<noteq> []"
    "ca_machine caller \<longleftrightarrow> claim_text X claims ''client_id'' \<noteq> []
       \<and> claim_text X claims ''client_id'' = claim_text X claims ''sub''"
    "v = w\<lparr>w_tick := Suc (w_tick w)\<rparr>"
  using assms
  by (auto simp: offer_caller_of_def validate_access_token_def andthen_assoc prog_simps Let_def
      split: option.splits if_splits)

lemma offer_subject_ok:
  "offer_subject caller requested = Inr subject \<Longrightarrow> ca_subject caller \<noteq> [] \<Longrightarrow>
     subject \<noteq> [] \<and> (if ca_machine caller then subject = requested else subject = ca_subject caller)"
  by (auto simp: offer_subject_def split: if_splits)

lemma offer_configurations_ok:
  "offer_configurations requested = Inr configurations \<Longrightarrow>
     configurations \<noteq> [] \<and> set configurations \<subseteq> set supported_credential_configurations \<and> distinct configurations"
  by (auto simp: offer_configurations_def Let_def list_ex_iff split: if_splits)

lemma member_if_get: "map_of (member_if b k v) j = (if b \<and> j = k then Some v else None)"
  by (simp add: member_if_def)

lemma andthen_step: "m s = (Inr x, u) \<Longrightarrow> f x u = r \<Longrightarrow> andthen m f s = r"
  by simp

lemma transaction_code_drawn:
  assumes "(if asked then transaction_code else ok []) w = (Inr digits, v)"
  obtains n where "v = w\<lparr>w_draw := n\<rparr>" "asked \<longleftrightarrow> digits \<noteq> []"
proof (cases asked)
  case True
  with assms have "v = w\<lparr>w_draw := w_draw w + 6\<rparr>" "length digits = 6"
    by (auto simp: transaction_code_def draw_chars_run)
  with True show ?thesis by (intro that [of "w_draw w + 6"]) auto
next
  case False
  with assms show ?thesis by (intro that [of "w_draw w"]) (auto simp: ok_def)
qed

text \<open>The two entries an offer leaves: its reference and its code.\<close>

definition offer_code :: "services \<Rightarrow> credential_offer \<Rightarrow> str \<Rightarrow> authorization_code" where
  "offer_code X o' tx_code =
     pre_authorized_entry X (of_pre_authorized_code o') (of_subject o') tx_code (of_expires_at o')"

definition offer_stored :: "services \<Rightarrow> offer_config \<Rightarrow> credential_offer \<Rightarrow> str \<Rightarrow> world \<Rightarrow> bool" where
  "offer_stored X C o' tx_code v \<longleftrightarrow>
     offers_find (w_offers v) (of_offer_id o') = Some o' \<and>
     codes_find (w_codes v) (of_pre_authorized_code o') = Some (offer_code X o' tx_code)"

definition offer_answer :: "offer_config \<Rightarrow> credential_offer \<Rightarrow> str \<Rightarrow> (str \<times> json) list" where
  "offer_answer C o' tx_code =
     [(''credential_offer'', JObj (credential_offer_payload o' (offer_issuer C))),
      (''credential_offer_uri'', JStr (offer_issuer C @ ''/credential-offer/'' @ of_offer_id o'))]
     @ member_if (tx_code \<noteq> []) ''tx_code'' (JStr tx_code)"

lemma create_offer_ok:
  assumes "create_offer X C q w = (Inr answer, v)"
  obtains caller o' tx_code u where
    "offer_caller_of X C (oq_access_token q) w = (Inr caller, u)"
    "offer_configurations (oq_configuration_ids q) = Inr (of_configuration_ids o')"
    "offer_subject caller (oq_subject q) = Inr (of_subject o')"
    "of_expires_at o' = current u + seconds (oc_ttl C)" "of_tx_code_required o' \<longleftrightarrow> tx_code \<noteq> []"
    "oq_tx_code q \<longleftrightarrow> tx_code \<noteq> []" "answer = offer_answer C o' tx_code" "offer_stored X C o' tx_code v"
    "v = u\<lparr>w_tick := w_tick v, w_draw := w_draw v, w_codes := w_codes v, w_offers := w_offers v\<rparr>"
    "w_tick v = Suc (w_tick u)"
proof -
  from assms obtain caller u configurations subject tx_code u2 where
    first: "offer_caller_of X C (oq_access_token q) w = (Inr caller, u)"
      "offer_configurations (oq_configuration_ids q) = Inr configurations"
      "offer_subject caller (oq_subject q) = Inr subject"
    and drawn: "(if oq_tx_code q then transaction_code else ok []) (u\<lparr>w_tick := Suc (w_tick u)\<rparr>) = (Inr tx_code, u2)"
    unfolding create_offer_def andthen_Inr by (auto simp: prog_simps)
  define code where "code = w_rand u2 (w_draw u2)"
  define o' where "o' = \<lparr>of_offer_id = w_rand u2 (Suc (w_draw u2)), of_configuration_ids = configurations,
    of_subject = subject, of_pre_authorized_code = code, of_client_id = ca_client_id caller,
    of_tx_code_required = (tx_code \<noteq> []), of_created_at = current u,
    of_expires_at = current u + seconds (oc_ttl C)\<rparr>"
  from drawn obtain n where u2: "u2 = u\<lparr>w_tick := Suc (w_tick u), w_draw := n\<rparr>" and tx: "oq_tx_code q \<longleftrightarrow> tx_code \<noteq> []"
    by (rule transaction_code_drawn) (rule that, assumption+)
  let ?v = "u2\<lparr>w_draw := Suc (Suc (w_draw u2)),
      w_codes := codes_save (pre_authorized_entry X code subject tx_code (of_expires_at o')) (w_codes u2),
      w_offers := offers_save o' (w_offers u2)\<rparr>"
  have "create_offer X C q w = (Inr (offer_answer C o' tx_code), ?v)"
    unfolding create_offer_def
    by (rule andthen_step, rule first(1), simp only: andthen_elementary first(2,3) sum.case andthen_world,
      rule andthen_step, rule drawn)
      (simp add: andthen_elementary andthen_world Let_def o'_def code_def offer_answer_def
        pre_authorized_entry_def run_simps)
  with assms have v: "answer = offer_answer C o' tx_code" "v = ?v" by simp_all
  show ?thesis
  proof (rule that [of caller u o' tx_code])
    show "offer_stored X C o' tx_code v"
      by (simp add: v(2) offer_stored_def offers.find_save codes.find_save)
        (simp add: o'_def offer_code_def pre_authorized_entry_def)
    show "v = u\<lparr>w_tick := w_tick v, w_draw := w_draw v, w_codes := w_codes v, w_offers := w_offers v\<rparr>"
      by (simp add: v(2) u2)
    show "w_tick v = Suc (w_tick u)" by (simp add: v(2) u2)
  qed (use first tx v(1) in \<open>simp_all add: o'_def offer_answer_def\<close>)
qed

subsection \<open>The offer and its code at the token endpoint\<close>

interpretation offers_untouched: endpoint_relation X C "same w_offers" for X C
proof -
  have l: "lenient (same w_offers)" by (rule lenient_same) simp_all
  show "endpoint_relation X C (same w_offers)"
    by unfold_locales (simp_all add: l issue_refresh_same same_def)
qed

lemma offer_stored_later:
  assumes "offer_stored X C o' tx_code v" "token_later X T v u"
  shows "offers_find (w_offers u) (of_offer_id o') = Some o'"
    "\<exists>e. codes_find (w_codes u) (of_pre_authorized_code o') = Some e \<and> (e = offer_code X o' tx_code \<or> ac_is_consumed e)"
proof -
  show "offers_find (w_offers u) (of_offer_id o') = Some o'"
    using assms offers_untouched.token_later_moves [OF assms(2)] by (simp add: offer_stored_def same_def)
  show "\<exists>e. codes_find (w_codes u) (of_pre_authorized_code o') = Some e \<and> (e = offer_code X o' tx_code \<or> ac_is_consumed e)"
    using assms(1) code_stored.token_later_moves [OF assms(2), of "of_pre_authorized_code o'" "offer_code X o' tx_code"]
    by (simp add: kept_def code_or_spent_def offer_stored_def)
qed

text \<open>The reference answers exactly as long as the code can be redeemed.\<close>

lemma offer_reference:
  assumes "offer_stored X C o' tx_code v" "token_later X T v u"
  shows "fst (resolve_offer C (of_offer_id o') u) =
    (if current u \<le> of_expires_at o' \<and> \<not> codes.spent (w_codes u) (of_pre_authorized_code o')
     then Inr (credential_offer_payload o' (offer_issuer C)) else Inl unknown_offer)"
proof -
  from offer_stored_later [OF assms] obtain e where
    "offers_find (w_offers u) (of_offer_id o') = Some o'"
    "codes_find (w_codes u) (of_pre_authorized_code o') = Some e" "e = offer_code X o' tx_code \<or> ac_is_consumed e"
    by blast
  then show ?thesis
    by (auto simp: resolve_offer_def run_simps offer_is_expired_def codes.spent_def offer_code_def
        pre_authorized_entry_def)
qed

lemma consumed_spent: "codes_find (w_codes w) k = Some ac \<Longrightarrow> codes.spent (codes_consume k (w_codes w)) k"
  by (simp add: codes.spent_consume)

lemma deduced_fields:
  "tr_pre_authorized_code (deduce_client_id X T r) = tr_pre_authorized_code r"
  "tr_tx_code (deduce_client_id X T r) = tr_tx_code r" "tr_grant_type (deduce_client_id X T r) = tr_grant_type r"
  by (simp_all add: deduce_client_id_def Let_def)

lemma pre_authorized_request:
  "tr_grant_type r = pre_authorized_code_grant_type \<Longrightarrow>
     execute_token X T r = pre_authorized_code X T (deduce_client_id X T r)"
  by (simp add: execute_token_def Let_def deduced_fields pre_authorized_code_grant_type_def
      jwt_bearer_grant_type_def device_code_grant_type_def ciba_grant_type_def)

lemma token_later_trans:
  assumes "token_later X T w v" and later: "token_later X T v u"
  shows "token_later X T w u"
  using later assms(1) by (induction rule: token_later.induct) (auto intro: token_later.request)

lemma codes_lenient: "lenient (same w_codes)"
  by (rule lenient_same) simp_all

lemma pre_authorized_issues:
  assumes run: "pre_authorized_code X C r w = (Inr ts, v)"
    and found: "codes_find (w_codes w) (tr_pre_authorized_code r) = Some ac"
    and key: "ac_code ac = tr_pre_authorized_code r"
  obtains payload where
    "ts_access_token ts = sv_jwt_encode X (tk_signing_algorithm C) [] payload"
    "map_of payload ''sub'' = Some (JStr (ac_subject ac))"
    "map_of payload ''scope'' = Some (JStr (scope_string (ac_scopes ac)))"
    "ts_refresh_token ts = []" "ts_id_token ts = []" "codes.spent (w_codes v) (tr_pre_authorized_code r)"
proof -
  note l = codes_lenient
  from run obtain ac' c b w2 w3 resources w4 t ttl where
    "codes_find (w_codes w) (tr_pre_authorized_code r) = Some ac'"
    and steps: "token_authenticate X C c r (w\<lparr>w_tick := Suc (w_tick w)\<rparr>) = (Inr (), w2)"
      "evaluate_dpop X C c r (ac_dpop_jkt ac') w2 = (Inr b, w3)"
      "effective_resources X C r (ac_resource_uris ac') w3 = (Inr resources, w4)"
    and issue: "issue_access_token X C c ((code_grant X c r ac' (current w) b resources)\<lparr>gr_details := []\<rparr>)
      (w4\<lparr>w_codes := codes_consume (ac_code ac') (w_codes w4)\<rparr>) = (Inr (t, ttl), v)"
    and ts: "ts = token_success [] t ttl (ac_scopes ac') [] b []"
    by (rule pre_authorized_ok)
  with found have [simp]: "ac' = ac" by simp
  have "w_codes w4 = w_codes w"
    using movesD [OF lenient_authenticate [OF l] steps(1)] movesD [OF lenient_dpop [OF l] steps(2)]
      movesD [OF lenient_resources [OF l] steps(3)] by (simp add: same_def)
  moreover have "w_codes v = codes_consume (ac_code ac) (w_codes w4)"
    using movesD [OF lenient_issue_access [OF l] issue] by (simp add: same_def)
  ultimately have spent: "codes.spent (w_codes v) (tr_pre_authorized_code r)"
    using found key by (simp add: codes.spent_consume)
  from issue obtain payload where
    "access_token_of X C ((code_grant X c r ac (current w) b resources)\<lparr>gr_details := []\<rparr>) t payload"
    unfolding issue_access_token_def andthen_Inr by (auto simp: ok_iff dest: sign_access_token_ok)
  with ts spent show ?thesis
    by (intro that [of payload]) (simp_all add: access_token_of_def code_grant_def token_success_def)
qed

subsection \<open>Properties\<close>

text \<open>C33. An offer is made only with a token of this server that carries the scope \<open>openid4vci\<close>; a
  user can make it only for itself, a client must name the user; it lists known configurations; its
  pre-authorized code is stored unspent, for that subject and the scope \<open>openid4vci\<close> only, with the
  digest of a transaction code exactly when one was asked for, until the lifetime of the offer
  ends.\<close>

theorem offer_sound:
  assumes "create_offer X C q w = (Inr answer, v)"
  shows "\<exists>claims o' tx_code.
      sv_server_token_claims X (oq_access_token q) (offer_issuer C) False (current w) = Some claims
    \<and> scope_oid4vci \<in> set (py_split (claim_text X claims ''scope''))
    \<and> of_subject o' \<noteq> []
    \<and> of_subject o' = (if claim_text X claims ''client_id'' \<noteq> []
          \<and> claim_text X claims ''client_id'' = claim_text X claims ''sub''
        then oq_subject q else claim_text X claims ''sub'')
    \<and> of_configuration_ids o' \<noteq> []
    \<and> set (of_configuration_ids o') \<subseteq> set supported_credential_configurations
    \<and> (tx_code \<noteq> [] \<longleftrightarrow> oq_tx_code q) \<and> (of_tx_code_required o' \<longleftrightarrow> oq_tx_code q)
    \<and> of_expires_at o' = w_clock w (Suc (w_tick w)) + seconds (oc_ttl C)
    \<and> answer = offer_answer C o' tx_code \<and> offer_stored X C o' tx_code v"
proof -
  obtain caller o' tx_code u where
    caller: "offer_caller_of X C (oq_access_token q) w = (Inr caller, u)"
    and configurations: "offer_configurations (oq_configuration_ids q) = Inr (of_configuration_ids o')"
    and subject: "offer_subject caller (oq_subject q) = Inr (of_subject o')"
    and stored: "of_expires_at o' = current u + seconds (oc_ttl C)" "of_tx_code_required o' \<longleftrightarrow> tx_code \<noteq> []"
      "oq_tx_code q \<longleftrightarrow> tx_code \<noteq> []" "answer = offer_answer C o' tx_code" "offer_stored X C o' tx_code v"
    using assms by (rule create_offer_ok)
  from caller obtain claims where claims:
    "sv_server_token_claims X (oq_access_token q) (offer_issuer C) False (current w) = Some claims"
    "scope_oid4vci \<in> set (py_split (claim_text X claims ''scope''))"
    "ca_subject caller = claim_text X claims ''sub''" "ca_subject caller \<noteq> []"
    "ca_machine caller \<longleftrightarrow> claim_text X claims ''client_id'' \<noteq> []
       \<and> claim_text X claims ''client_id'' = claim_text X claims ''sub''"
    "u = w\<lparr>w_tick := Suc (w_tick w)\<rparr>"
    by (rule offer_caller_ok)
  from offer_subject_ok [OF subject claims(4)] offer_configurations_ok [OF configurations]
  show ?thesis
    using claims stored by (intro exI [of _ claims] exI [of _ o'] exI [of _ tx_code]) (simp add: current_def)
qed

definition issuing_services :: services where
  "issuing_services = sample_services\<lparr>sv_server_token_claims := (\<lambda>token issuer expired now.
     if token = ''machine'' then Some [(''sub'', JStr ''rp''), (''client_id'', JStr ''rp''),
       (''scope'', JStr ''openid4vci'')] else None)\<rparr>"

definition offer_conf :: offer_config where
  "offer_conf = \<lparr>oc_issuer = ''https://op/'', oc_ttl = 300\<rparr>"

definition machine_offer :: offer_request where
  "machine_offer = \<lparr>oq_access_token = ''machine'', oq_configuration_ids = [], oq_subject = ''alice'',
     oq_tx_code = True\<rparr>"

lemma machine_offer_ok:
  "\<exists>answer v. create_offer issuing_services offer_conf machine_offer sample_server = (Inr answer, v)"
proof -
  have "py_split ''openid4vci'' = [''openid4vci'']" by code_simp
  then show ?thesis
    by (simp add: create_offer_def offer_caller_of_def validate_access_token_def run_simps andthen_assoc
        machine_offer_def issuing_services_def claim_text_def py_text_def scope_oid4vci_def Let_def
        offer_configurations_def dedup_def supported_credential_configurations_def default_configuration_def
        offer_subject_def transaction_code_def andthen_run(1) [OF draw_chars_run])
qed

lemma offer_sound_witness:
  "\<exists>o' tx_code v. offer_stored issuing_services offer_conf o' tx_code v \<and> of_subject o' = ''alice''
     \<and> tx_code \<noteq> []"
proof -
  obtain answer v where run: "create_offer issuing_services offer_conf machine_offer sample_server = (Inr answer, v)"
    using machine_offer_ok by blast
  from offer_sound [OF this] show ?thesis
    by (auto simp: issuing_services_def machine_offer_def claim_text_def py_text_def split: if_splits)
qed

text \<open>C34. Redeeming an offer.  After any requests at the token endpoint, the pre-authorized code is
  exchanged only before the offer expires and, if the offer has one, with its transaction code; the
  access token is for the subject of the offer and the scope \<open>openid4vci\<close>, and comes alone.  From
  then on, whatever else is asked of the token endpoint, the code is refused and the reference of
  the offer answers no more.\<close>

theorem offer_redeemed_once:
  assumes "offer_stored X C o' tx_code v" and "token_later X T v u"
    and "tr_grant_type r = pre_authorized_code_grant_type"
    and "tr_pre_authorized_code r = of_pre_authorized_code o'"
    and "execute_token X T r u = (Inr ts, z)" and "token_later X T z z'"
    and "tr_grant_type r' = pre_authorized_code_grant_type"
    and "tr_pre_authorized_code r' = of_pre_authorized_code o'"
  shows "(\<exists>payload. ts_access_token ts = sv_jwt_encode X (tk_signing_algorithm T) [] payload
       \<and> map_of payload ''sub'' = Some (JStr (of_subject o'))
       \<and> map_of payload ''scope'' = Some (JStr (scope_string {scope_oid4vci})))
    \<and> ts_refresh_token ts = [] \<and> ts_id_token ts = [] \<and> current u \<le> of_expires_at o'
    \<and> (tx_code \<noteq> [] \<and> sv_sha256_hex X tx_code \<noteq> [] \<longrightarrow>
        tr_tx_code r \<noteq> [] \<and> sv_sha256_hex X (tr_tx_code r) = sv_sha256_hex X tx_code)
    \<and> fst (execute_token X T r' z') \<notin> range Inr
    \<and> fst (resolve_offer C (of_offer_id o') z') = Inl unknown_offer"
proof -
  have redeem: "pre_authorized_code X T (deduce_client_id X T r) u = (Inr ts, z)"
    using assms(5) pre_authorized_request [OF assms(3)] by simp
  obtain ac where ac: "codes_find (w_codes u) (of_pre_authorized_code o') = Some ac" "\<not> ac_is_consumed ac"
    "current u \<le> ac_expires_at ac"
    "ac_tx_code_hash ac \<noteq> [] \<longrightarrow> tr_tx_code r \<noteq> [] \<and> sv_sha256_hex X (tr_tx_code r) = ac_tx_code_hash ac"
    using pre_authorized_sound [OF redeem] assms(4) by (auto simp: deduced_fields)
  with offer_stored_later [OF assms(1,2)] have entry: "ac = offer_code X o' tx_code" by auto
  have found: "codes_find (w_codes u) (tr_pre_authorized_code (deduce_client_id X T r)) = Some ac"
    "ac_code ac = tr_pre_authorized_code (deduce_client_id X T r)"
    using ac(1) assms(4) by (simp_all add: deduced_fields entry offer_code_def pre_authorized_entry_def)
  obtain payload where token: "ts_access_token ts = sv_jwt_encode X (tk_signing_algorithm T) [] payload"
    "map_of payload ''sub'' = Some (JStr (ac_subject ac))"
    "map_of payload ''scope'' = Some (JStr (scope_string (ac_scopes ac)))"
    "ts_refresh_token ts = []" "ts_id_token ts = []"
    and spent: "codes.spent (w_codes z) (tr_pre_authorized_code (deduce_client_id X T r))"
    by (rule pre_authorized_issues [OF redeem found])
  have dead: "codes.spent (w_codes z') (of_pre_authorized_code o')"
    using spent_code.token_later_moves [OF assms(6)] spent assms(4) by (simp add: kept_def deduced_fields)
  have "token_later X T v z'"
    using token_later.request [OF assms(2,5)] assms(6) by (rule token_later_trans)
  from offer_reference [OF assms(1) this] dead
  have gone: "fst (resolve_offer C (of_offer_id o') z') = Inl unknown_offer" by simp
  have "fst (execute_token X T r' z') \<notin> range Inr"
  proof
    assume "fst (execute_token X T r' z') \<in> range Inr"
    then obtain ts' where "execute_token X T r' z' = (Inr ts', snd (execute_token X T r' z'))"
      by (metis imageE prod.collapse)
    then have "pre_authorized_code X T (deduce_client_id X T r') z' = (Inr ts', snd (execute_token X T r' z'))"
      using pre_authorized_request [OF assms(7)] by simp
    from pre_authorized_sound [OF this] dead assms(8) show False
      by (auto simp: codes.spent_def deduced_fields)
  qed
  with token ac gone show ?thesis
    by (auto simp: entry offer_code_def pre_authorized_entry_def)
qed

definition offered_world :: world where
  "offered_world = snd (create_offer issuing_services offer_conf machine_offer sample_server)"

definition alice_offer :: credential_offer where
  "alice_offer = \<lparr>of_offer_id = ''r7'', of_configuration_ids = [default_configuration],
     of_subject = ''alice'', of_pre_authorized_code = ''r6'', of_client_id = ''rp'',
     of_tx_code_required = True, of_created_at = 1, of_expires_at = 300000001\<rparr>"

definition alice_request :: token_request where
  "alice_request = sample_request\<lparr>tr_grant_type := pre_authorized_code_grant_type,
     tr_pre_authorized_code := ''r6'', tr_tx_code := ''012345''\<rparr>"

lemma alice_offer_stored: "offer_stored issuing_services offer_conf alice_offer ''012345'' offered_world"
  by code_simp

lemma alice_redeems:
  "map_sum (\<lambda>_. ()) ts_token_type (fst (execute_token issuing_services sample_config alice_request offered_world))
   = Inr ''Bearer''"
  by code_simp

lemma offer_redeemed_once_witness:
  "\<exists>ts z. execute_token issuing_services sample_config alice_request offered_world = (Inr ts, z)
     \<and> ts_refresh_token ts = []
     \<and> fst (execute_token issuing_services sample_config alice_request z) \<notin> range Inr
     \<and> fst (resolve_offer offer_conf (of_offer_id alice_offer) z) = Inl unknown_offer"
proof -
  obtain ts z where run: "execute_token issuing_services sample_config alice_request offered_world = (Inr ts, z)"
    using sampled_run [OF alice_redeems] by blast
  have request: "tr_grant_type alice_request = pre_authorized_code_grant_type"
    "tr_pre_authorized_code alice_request = of_pre_authorized_code alice_offer"
    by (simp_all add: alice_request_def alice_offer_def)
  from offer_redeemed_once [OF alice_offer_stored token_later.here request run token_later.here request]
  show ?thesis using run by blast
qed

end
