(* ===== verification/CredentialGuards.thy ===== *)
theory CredentialGuards
  imports Presentations TokenFrame KeyRules CredentialRules
begin

text \<open>
  What stands between a token and a credential: the keys the wallet proved, the nonce of the
  server, the configuration the token allows; and what is missing there.  The nonces of
  presentations are used once.
\<close>

subsection \<open>What a request may change before it issues\<close>

definition reads :: "credential_world \<Rightarrow> credential_world \<Rightarrow> bool" where
  "reads s t \<longleftrightarrow> cw_keys t = cw_keys s \<and> cw_notifications t = cw_notifications s \<and> cw_nonces t = cw_nonces s
     \<and> later_clock (cw_server s) (cw_server t)"

lemma reads_order: "transp reads" "reflp reads"
  by (auto simp: reads_def later_clock_def transp_def reflp_def)

lemma reads_server: "moves later_clock m \<Longrightarrow> moves reads (on_server m)"
  by (auto simp: moves_def reads_def on_server_def split: prod.splits) (metis snd_conv)

lemmas reads_moves = moves_andthen [OF reads_order(1)] moves_pure [OF reads_order(2)]
  reads_server moves_case_option moves_case_sum moves_case_prod moves_if lenient_now [OF lenient_later]
  lenient_fresh [OF lenient_later] moves_case_json

lemma reads_decode: "moves reads (decode_now P token key alg options)"
  unfolding decode_now_def by (intro reads_moves)

lemma reads_validate: "moves reads (validate_token X P C token)"
  unfolding validate_token_def by (intro reads_moves reads_decode)

lemma reads_nonce: "moves reads (nonce_valid X P C nonce)"
  unfolding nonce_valid_def by (intro reads_moves reads_decode)

lemma reads_dpop: "moves reads (dpop_authorized X C q claims)"
proof -
  have "moves later_clock (\<lambda>w. case validate_proof X (cr_dpop_proof q) (cr_htu q) (cr_method q)
      (access_token_hash X (cr_token q)) w of
        (Inl (Refused _ _), v) \<Rightarrow> (Inr False, v)
      | (Inl (Uncaught e), v) \<Rightarrow> (Inl (CredentialCrash e), v)
      | (Inr p, v) \<Rightarrow> (Inr (pf_jkt p = bound_thumbprint X claims), v))"
    using lenient_validate [OF lenient_later, of X "cr_dpop_proof q" "cr_htu q" "cr_method q"
        "access_token_hash X (cr_token q)"]
    by (auto simp: moves_def split: prod.splits sum.splits failure.splits) (metis snd_conv)+
  then show ?thesis
    unfolding dpop_authorized_def Let_def by (intro reads_moves)
qed

lemma reads_proof: "moves reads (decode_proof X P proof)"
  unfolding decode_proof_def by (intro reads_moves reads_decode)

lemma reads_attested: "moves reads (proof_attested X P proof jwk)"
  unfolding proof_attested_def attestation_valid_def by (intro reads_moves reads_decode)

lemma reads_binding: "moves reads (binding_key X P C proof)"
  unfolding binding_key_def by (intro reads_moves reads_proof reads_nonce reads_attested)

subsection \<open>What a successful check has seen\<close>

definition clock_shows :: "credential_world \<Rightarrow> instant \<Rightarrow> bool" where
  "clock_shows s now \<longleftrightarrow> (\<exists>n \<ge> w_tick (cw_server s). now = w_clock (cw_server s) n)"

lemma clock_shows_later: "reads s t \<Longrightarrow> clock_shows t now \<Longrightarrow> clock_shows s now"
  by (auto simp: reads_def later_clock_def clock_shows_def intro: order_trans)

lemma clock_shows_current: "clock_shows s (current (cw_server s))"
  by (auto simp: clock_shows_def current_def)

lemma decode_now_iff [prog_simps]:
  "decode_now P token key alg options s = (r, t) \<longleftrightarrow>
     r = Inr (ip_decode P token key alg options (current (cw_server s))) \<and>
     t = s\<lparr>cw_server := (cw_server s)\<lparr>w_tick := Suc (w_tick (cw_server s))\<rparr>\<rparr>"
  by (auto simp: decode_now_def on_server_def now_utc_def andthen_def ok_def)

lemma andthen_decode [run_simps]:
  "andthen (decode_now P token key alg options) f s =
     f (ip_decode P token key alg options (current (cw_server s)))
       (s\<lparr>cw_server := (cw_server s)\<lparr>w_tick := Suc (w_tick (cw_server s))\<rparr>\<rparr>)"
  by (simp add: andthen_def decode_now_def on_server_def now_utc_def ok_def)

text \<open>A token signed by a key of the server, valid at an instant the clock showed.\<close>

definition token_accepted :: "services \<Rightarrow> issuing_ports \<Rightarrow> issuer_config \<Rightarrow> credential_world \<Rightarrow> str
    \<Rightarrow> (str \<times> json) list \<Rightarrow> bool" where
  "token_accepted X P C s token claims \<longleftrightarrow> (\<exists>header alg k key now. sv_unverified_header X token = Some header
     \<and> validation_key (kw_keys (cw_keys s)) (map_of header ''kid'') alg = Some k
     \<and> ip_pem_key P (kp_public_pem k) = Some key \<and> clock_shows s now
     \<and> ip_decode P token key (alg_value alg) \<lparr>jo_issuer = Some (credential_issuer C), jo_audience = None,
         jo_verify_aud = False\<rparr> now = Some claims)"

lemma validate_token_ok:
  assumes "validate_token X P C token s = (Inr (Some claims), t)"
  shows "token_accepted X P C s token claims"
  using assms clock_shows_current [of s] unfolding validate_token_def token_accepted_def
  by (fastforce simp: prog_simps andthen_case_option split: option.splits)

definition nonce_of_server :: "services \<Rightarrow> issuing_ports \<Rightarrow> issuer_config \<Rightarrow> credential_world \<Rightarrow> str
    \<Rightarrow> bool" where
  "nonce_of_server X P C s nonce \<longleftrightarrow> (\<exists>header kid k key now claims. sv_unverified_header X nonce = Some header
     \<and> map_of header ''typ'' = Some (JStr nonce_typ) \<and> map_of header ''kid'' = Some (JStr kid)
     \<and> key_by_kid UseSig (kw_keys (cw_keys s)) kid = Some k \<and> kp_algorithm k = ig_algorithm C
     \<and> ip_pem_key P (kp_public_pem k) = Some key \<and> clock_shows s now
     \<and> ip_decode P nonce key (alg_value (ig_algorithm C)) \<lparr>jo_issuer = Some (credential_issuer C),
         jo_audience = None, jo_verify_aud = True\<rparr> now = Some claims)"

lemma nonce_valid_ok:
  assumes "nonce_valid X P C nonce s = (Inr True, t)"
  shows "nonce_of_server X P C s nonce"
  using assms clock_shows_current [of s] unfolding nonce_valid_def nonce_of_server_def
  by (fastforce simp: prog_simps andthen_case_option jget_str_iff split: option.splits if_splits)

text \<open>A proof of possession: signed by the key in its header, for this issuer, over a nonce of the
  server; and vouched for when it carries an attestation.\<close>

definition proves_key :: "services \<Rightarrow> issuing_ports \<Rightarrow> issuer_config \<Rightarrow> credential_world \<Rightarrow> str
    \<Rightarrow> (str \<times> json) list \<Rightarrow> bool" where
  "proves_key X P C s proof jwk \<longleftrightarrow> (\<exists>header alg key now claims nonce. sv_unverified_header X proof = Some header
     \<and> map_of header ''typ'' \<in> {Some (JStr ''openid4vci-proof+jwt''), Some (JStr ''jwt'')}
     \<and> map_of header ''jwk'' = Some (JObj jwk) \<and> alg \<in> {''ES256'', ''RS256''}
     \<and> ip_jwk_key P (alg = ''RS256'') jwk = Some key \<and> clock_shows s now
     \<and> ip_decode P proof key alg signature_only now = Some claims
     \<and> audience_matches C (map_of claims ''aud'') \<and> map_of claims ''nonce'' = Some (JStr nonce)
     \<and> nonce_of_server X P C s nonce)"

lemma reads_trans: "reads s t \<Longrightarrow> reads t u \<Longrightarrow> reads s u"
  using reads_order(1) by (rule transpD)

lemma nonce_of_server_earlier:
  assumes later: "reads s t" and "nonce_of_server X P C t nonce"
  shows "nonce_of_server X P C s nonce"
proof -
  from later have keys: "cw_keys t = cw_keys s" by (simp add: reads_def)
  have shown: "(\<exists>now. clock_shows t now \<and> Q now) \<Longrightarrow> (\<exists>now. clock_shows s now \<and> Q now)" for Q
    using clock_shows_later [OF later] by blast
  from assms(2) obtain header kid k key where
    found: "sv_unverified_header X nonce = Some header" "map_of header ''typ'' = Some (JStr nonce_typ)"
      "map_of header ''kid'' = Some (JStr kid)" "key_by_kid UseSig (kw_keys (cw_keys s)) kid = Some k"
      "kp_algorithm k = ig_algorithm C" "ip_pem_key P (kp_public_pem k) = Some key"
    and valid: "\<exists>now. clock_shows t now \<and> (\<exists>claims. ip_decode P nonce key (alg_value (ig_algorithm C))
      \<lparr>jo_issuer = Some (credential_issuer C), jo_audience = None, jo_verify_aud = True\<rparr> now = Some claims)"
    unfolding nonce_of_server_def keys by blast
  from found shown [OF valid] show ?thesis
    unfolding nonce_of_server_def by blast
qed

lemma proves_key_earlier:
  assumes "reads s t" "proves_key X P C t proof jwk"
  shows "proves_key X P C s proof jwk"
proof -
  from assms(2) obtain header alg key now claims nonce where
    proved: "sv_unverified_header X proof = Some header"
      "map_of header ''typ'' \<in> {Some (JStr ''openid4vci-proof+jwt''), Some (JStr ''jwt'')}"
      "map_of header ''jwk'' = Some (JObj jwk)" "alg \<in> {''ES256'', ''RS256''}"
      "ip_jwk_key P (alg = ''RS256'') jwk = Some key"
      "ip_decode P proof key alg signature_only now = Some claims"
      "audience_matches C (map_of claims ''aud'')" "map_of claims ''nonce'' = Some (JStr nonce)"
    and seen: "clock_shows t now" "nonce_of_server X P C t nonce"
    unfolding proves_key_def by (elim exE conjE)
  show ?thesis
    unfolding proves_key_def
    by (intro exI conjI, (rule proved clock_shows_later [OF assms(1) seen(1)]
      nonce_of_server_earlier [OF assms(1) seen(2)])+)
qed

lemma decode_proof_ok:
  assumes "decode_proof X P proof s = (Inr (Some (claims, jwk)), t)"
  shows "\<exists>header alg key now. sv_unverified_header X proof = Some header
     \<and> map_of header ''typ'' \<in> {Some (JStr ''openid4vci-proof+jwt''), Some (JStr ''jwt'')}
     \<and> map_of header ''jwk'' = Some (JObj jwk) \<and> alg \<in> {''ES256'', ''RS256''}
     \<and> ip_jwk_key P (alg = ''RS256'') jwk = Some key \<and> clock_shows s now
     \<and> ip_decode P proof key alg signature_only now = Some claims" and "reads s t"
proof -
  show "reads s t"
    using reads_proof assms by (rule movesD)
  from assms obtain header alg key where
    header: "sv_unverified_header X proof = Some header" "map_of header ''alg'' = Some (JStr alg)"
      "map_of header ''jwk'' = Some (JObj jwk)" "alg \<in> set proof_algorithms"
      "map_of header ''typ'' \<in> set (map (\<lambda>t. Some (JStr t)) proof_types)"
    and key: "ip_jwk_key P (alg = ''RS256'') jwk = Some key"
    and decoded: "ip_decode P proof key alg signature_only (current (cw_server s)) = Some claims"
    unfolding decode_proof_def
    by (auto simp: prog_simps eq_commute [of "Some _" "map_option _ _"] map_option_eq_Some split: option.splits json.splits if_splits)
  with clock_shows_current [of s] show "\<exists>header alg key now. sv_unverified_header X proof = Some header
     \<and> map_of header ''typ'' \<in> {Some (JStr ''openid4vci-proof+jwt''), Some (JStr ''jwt'')}
     \<and> map_of header ''jwk'' = Some (JObj jwk) \<and> alg \<in> {''ES256'', ''RS256''}
     \<and> ip_jwk_key P (alg = ''RS256'') jwk = Some key \<and> clock_shows s now
     \<and> ip_decode P proof key alg signature_only now = Some claims"
    by (auto simp: proof_types_def proof_algorithms_def)
qed

lemma binding_key_ok:
  assumes "binding_key X P C proof s = (Inr jwk, t)"
  shows "proves_key X P C s proof jwk"
proof -
  from assms obtain found u where first: "decode_proof X P proof s = (Inr found, u)"
    unfolding binding_key_def andthen_Inr by blast
  with assms obtain claims key where found: "found = Some (claims, key)"
    by (cases found) (auto simp: binding_key_def prog_simps)
  with assms first have audience: "audience_matches C (map_of claims ''aud'')"
    by (auto simp: binding_key_def prog_simps split: if_splits)
  with assms first found obtain nonce v where
    nonce: "map_of claims ''nonce'' = Some (JStr nonce)" "nonce_valid X P C nonce u = (Inr True, v)"
      and key: "key = jwk"
    by (auto simp: binding_key_def run_simps prog_simps jget_str_iff split: option.splits if_splits)
  note decoded = first [unfolded found key]
  have "nonce_of_server X P C s nonce"
    using decode_proof_ok(2) [OF decoded] nonce_valid_ok [OF nonce(2)] by (rule nonce_of_server_earlier)
  with decode_proof_ok(1) [OF decoded] audience nonce(1) show ?thesis
    unfolding proves_key_def by blast
qed

lemma binding_keys_of_ok:
  assumes "binding_keys_of X P C proofs s = (Inr jwks, t)"
  shows "list_all2 (proves_key X P C s) proofs jwks"
  using assms
proof (induction proofs arbitrary: s jwks)
  case (Cons p ps)
  from Cons.prems obtain jwk u rest where first: "binding_key X P C p s = (Inr jwk, u)"
    and rest: "binding_keys_of X P C ps u = (Inr rest, t)" and jwks: "jwks = jwk # rest"
    by (auto simp: prog_simps)
  have "list_all2 (proves_key X P C s) ps rest"
    using Cons.IH [OF rest] proves_key_earlier [OF movesD [OF reads_binding first]]
    by (auto elim: list_all2_mono)
  with binding_key_ok [OF first] jwks show ?case by simp
next
  case Nil
  then show ?case by (simp add: ok_iff)
qed

subsection \<open>What is issued\<close>

text \<open>An SD-JWT for a subject, confirmed by a key.\<close>

definition sd_jwt_for :: "issuing_ports \<Rightarrow> issuer_config \<Rightarrow> str \<Rightarrow> (str \<times> json) list \<Rightarrow> str \<Rightarrow> bool" where
  "sd_jwt_for P C sub jwk c \<longleftrightarrow> (\<exists>header payload pem tail.
     c = ip_encode P header payload pem (ig_algorithm C) @ ''~'' @ tail
     \<and> map_of payload ''iss'' = Some (JStr (credential_issuer C)) \<and> map_of payload ''sub'' = Some (JStr sub)
     \<and> map_of payload ''cnf'' = Some (JObj [(''jwk'', JObj jwk)]))"

text \<open>A mobile document whose device key is the P-256 key of the wallet.\<close>

definition mdoc_for :: "services \<Rightarrow> issuing_ports \<Rightarrow> (str \<times> json) list \<Rightarrow> str \<Rightarrow> bool" where
  "mdoc_for X P jwk c \<longleftrightarrow> (\<exists>pki object items x y.
     c = sv_b64 X (ip_issuer_signed P pki object items)
     \<and> map_of jwk ''kty'' = Some (JStr ''EC'') \<and> map_of jwk ''crv'' = Some (JStr ''P-256'')
     \<and> map_of jwk ''x'' = Some (JStr x) \<and> map_of jwk ''y'' = Some (JStr y)
     \<and> a2b_base64 [] 0 (x @ base64_padding x) = Some (ck_x (mo_device_key object))
     \<and> a2b_base64 [] 0 (y @ base64_padding y) = Some (ck_y (mo_device_key object)))"

lemma sd_jwt_payload_members:
  "map_of (sd_jwt_payload X C sub iat texts jwk) ''iss'' = Some (JStr (credential_issuer C))"
  "map_of (sd_jwt_payload X C sub iat texts jwk) ''sub'' = Some (JStr sub)"
  "map_of (sd_jwt_payload X C sub iat texts jwk) ''cnf'' = Some (JObj [(''jwk'', JObj jwk)])"
  by (simp_all add: sd_jwt_payload_def)

lemma sign_credential_ok:
  assumes "sign_credential X P C k sub iat jwk s = (Inr c, t)"
  shows "sd_jwt_for P C sub jwk c"
proof -
  from assms obtain texts tail where
    "c = ip_encode P (sd_jwt_header C k) (sd_jwt_payload X C sub iat texts jwk) (kp_private_pem k)
      (ig_algorithm C) @ ''~'' @ tail"
    unfolding sign_credential_def by (auto simp: prog_simps)
  with sd_jwt_payload_members [of X C sub iat texts jwk] show ?thesis
    unfolding sd_jwt_for_def by blast
qed

lemma sign_credentials_ok:
  "sign_credentials X P C k sub iat jwks s = (Inr cs, t) \<Longrightarrow> list_all2 (sd_jwt_for P C sub) jwks cs"
  by (induction jwks arbitrary: s cs) (auto simp: prog_simps dest: sign_credential_ok)

lemma issue_sd_jwt_ok: "issue_sd_jwt X P C sub jwks s = (Inr cs, t) \<Longrightarrow> list_all2 (sd_jwt_for P C sub) jwks cs"
  unfolding issue_sd_jwt_def andthen_Inr by (auto dest: sign_credentials_ok)

lemma coordinate_iff [prog_simps]:
  "coordinate x s = (Inr bs, t) \<longleftrightarrow> list_all is_ascii x \<and> a2b_base64 [] 0 (x @ base64_padding x) = Some bs \<and> t = s"
  by (auto simp: coordinate_def raise_def ok_def split: option.splits)

lemma device_key_ok:
  assumes "device_key jwk s = (Inr key, t)"
  shows "\<exists>x y. map_of jwk ''kty'' = Some (JStr ''EC'') \<and> map_of jwk ''crv'' = Some (JStr ''P-256'')
     \<and> map_of jwk ''x'' = Some (JStr x) \<and> map_of jwk ''y'' = Some (JStr y)
     \<and> a2b_base64 [] 0 (x @ base64_padding x) = Some (ck_x key)
     \<and> a2b_base64 [] 0 (y @ base64_padding y) = Some (ck_y key)"
  using assms unfolding device_key_def
  by (auto simp: prog_simps split: option.splits json.splits if_splits)

lemma issue_document_ok:
  assumes "issue_document X P pki jwk now s = (Inr c, t)"
  shows "mdoc_for X P jwk (sv_b64 X c)"
proof -
  from assms obtain object items key u where issued: "c = ip_issuer_signed P pki object items"
    "mo_device_key object = key" and key: "device_key jwk u = (Inr key, t)"
    unfolding issue_document_def Let_def by (auto simp: prog_simps)
  from device_key_ok [OF key] issued show ?thesis unfolding mdoc_for_def by blast
qed

lemma issue_documents_ok:
  "issue_documents X P pki now jwks s = (Inr cs, t) \<Longrightarrow> list_all2 (mdoc_for X P) jwks cs"
  by (induction jwks arbitrary: s cs) (auto simp: prog_simps dest: issue_document_ok)

lemma issue_mdoc_ok: "issue_mdoc X P C jwks s = (Inr cs, t) \<Longrightarrow> list_all2 (mdoc_for X P) jwks cs"
  unfolding issue_mdoc_def andthen_Inr by (auto dest: issue_documents_ok)

text \<open>A configuration the token allows: one its authorization details grant under the identifier of
  the request or, without details, a supported one under the scope \<open>openid4vci\<close>.\<close>

lemma requested_configuration_ok:
  assumes "requested_configuration X claims configuration_id identifier format = Inr configuration"
  shows "(\<exists>i. has_authorization_details (map_of claims ''authorization_details'') \<and> identifier = Some i
       \<and> credential_configuration_for_identifier (map_of claims ''authorization_details'') i = Some configuration)
     \<or> (\<not> has_authorization_details (map_of claims ''authorization_details'')
       \<and> scope_oid4vci \<in> set (py_split (claim_text X claims ''scope''))
       \<and> configuration_id = Some configuration \<and> configuration \<in> set supported_credential_configurations)"
  using assms
  by (auto simp: requested_configuration_def authorized_configuration_def scoped_configuration_def
      prog_simps Let_def split: option.splits if_splits)

lemma dpop_authorized_ok:
  assumes "dpop_authorized X C q claims s = (Inr True, t)" and "bound_thumbprint X claims \<noteq> []"
  shows "cr_auth_scheme q = ''dpop'' \<and> cr_dpop_proof q \<noteq> [] \<and> (\<exists>proof v. validate_proof X (cr_dpop_proof q)
    (cr_htu q) (cr_method q) (access_token_hash X (cr_token q)) (cw_server s) = (Inr proof, v)
    \<and> pf_jkt proof = bound_thumbprint X claims)"
  using assms unfolding dpop_authorized_def Let_def
  by (auto simp: on_server_def ok_def split: if_splits prod.splits sum.splits failure.splits)

subsection \<open>Issuance never looks at the denylist\<close>

text \<open>A program commutes with a change of the state it neither reads nor writes.\<close>

definition commutes :: "('s \<Rightarrow> 's) \<Rightarrow> ('s, 'e, 'a) prog \<Rightarrow> bool" where
  "commutes f m \<longleftrightarrow> (\<forall>s. m (f s) = apsnd f (m s))"

lemma commutes_andthen:
  assumes "commutes f m" "\<And>x. commutes f (g x)"
  shows "commutes f (andthen m g)"
  unfolding commutes_def
proof
  fix s
  show "andthen m g (f s) = apsnd f (andthen m g s)"
    using assms by (cases "m s"; cases "fst (m s)") (auto simp: commutes_def andthen_def)
qed

lemma commutes_pure:
  "commutes f (ok x)" "commutes f (raise e)" "commutes f (ensure b e)" "commutes f (lift r)"
  by (simp_all add: commutes_def prog_defs)

lemma commutes_peek: "(\<And>s. h (f s) = h s) \<Longrightarrow> commutes f (peek h)"
  by (simp add: commutes_def peek_def)

lemma commutes_modify: "(\<And>s. g (f s) = f (g s)) \<Longrightarrow> commutes f (modify g)"
  by (simp add: commutes_def modify_def)

lemma commutes_cases:
  "commutes f m \<Longrightarrow> (\<And>x. commutes f (g x)) \<Longrightarrow> commutes f (case v of None \<Rightarrow> m | Some x \<Rightarrow> g x)"
  "(\<And>x y. commutes f (h x y)) \<Longrightarrow> commutes f (case p of (x, y) \<Rightarrow> h x y)"
  "commutes f m \<Longrightarrow> commutes f n \<Longrightarrow> commutes f (if b then m else n)"
  by (auto split: option.splits prod.splits)

lemma commutes_case_json:
  "commutes R a \<Longrightarrow> (\<And>x. commutes R (b x)) \<Longrightarrow> (\<And>x. commutes R (c x)) \<Longrightarrow> (\<And>x. commutes R (d x)) \<Longrightarrow>
   (\<And>x. commutes R (e x)) \<Longrightarrow> (\<And>x. commutes R (f x)) \<Longrightarrow> (\<And>x. commutes R (g x)) \<Longrightarrow>
   commutes R (case v of JNull \<Rightarrow> a | JBool x \<Rightarrow> b x | JInt x \<Rightarrow> c x | JFloat x \<Rightarrow> d x
     | JStr x \<Rightarrow> e x | JList x \<Rightarrow> f x | JObj x \<Rightarrow> g x)"
  by (cases v) auto

abbreviation deny :: "(str \<times> revoked_token) list \<Rightarrow> world \<Rightarrow> world" where
  "deny d w \<equiv> w\<lparr>w_revoked := d\<rparr>"

abbreviation redeny :: "(str \<times> revoked_token) list \<Rightarrow> credential_world \<Rightarrow> credential_world" where
  "redeny d s \<equiv> s\<lparr>cw_server := deny d (cw_server s)\<rparr>"

lemma commutes_world: "commutes (deny d) now_utc" "commutes (deny d) fresh_token"
  by (simp_all add: commutes_def now_utc_def fresh_token_def current_def)

lemma commutes_server: "commutes (deny d) m \<Longrightarrow> commutes (redeny d) (on_server m)"
  by (auto simp: commutes_def on_server_def split: prod.splits)

lemma commutes_keys: "commutes (redeny d) (on_keys m)"
  by (auto simp: commutes_def on_keys_def Let_def split: prod.splits)

lemmas commutes_intros = commutes_andthen commutes_pure commutes_cases commutes_case_json
  commutes_server commutes_keys commutes_world commutes_peek commutes_modify

lemma commutes_proof: "commutes (deny d) (validate_proof X proof htu m ath)"
  unfolding validate_proof_def examine_def check_payload_def remember_jti_def
  by (intro commutes_intros) simp_all

lemma commutes_dpop: "commutes (redeny d) (dpop_authorized X C q claims)"
proof -
  have "commutes (deny d) (\<lambda>w. case validate_proof X (cr_dpop_proof q) (cr_htu q) (cr_method q)
      (access_token_hash X (cr_token q)) w of
        (Inl (Refused _ _), v) \<Rightarrow> (Inr False, v)
      | (Inl (Uncaught e), v) \<Rightarrow> (Inl (CredentialCrash e), v)
      | (Inr p, v) \<Rightarrow> (Inr (pf_jkt p = bound_thumbprint X claims), v))"
    using commutes_proof [of d X "cr_dpop_proof q" "cr_htu q" "cr_method q" "access_token_hash X (cr_token q)"]
    by (auto simp: commutes_def split: prod.splits sum.splits failure.splits)
  then show ?thesis
    unfolding dpop_authorized_def Let_def by (intro commutes_intros)
qed

lemma commutes_binding: "commutes (redeny d) (binding_key X P C proof)"
  unfolding binding_key_def decode_proof_def nonce_valid_def proof_attested_def attestation_valid_def
    decode_now_def
  by (intro commutes_intros) simp_all

lemma commutes_bindings: "commutes (redeny d) (binding_keys_of X P C proofs)"
  by (induction proofs) (auto intro!: commutes_intros commutes_binding)

lemma commutes_validate: "commutes (redeny d) (validate_token X P C token)"
  unfolding validate_token_def decode_now_def by (intro commutes_intros) simp_all

lemma commutes_items: "commutes (redeny d) (signed_items n es)"
  by (induction n es rule: signed_items.induct) (auto intro!: commutes_intros)

lemma commutes_documents: "commutes (redeny d) (issue_documents X P pki now jwks)"
proof (induction jwks)
  case (Cons jwk jwks)
  have "commutes (redeny d) (device_key jwk)"
    unfolding device_key_def coordinate_def by (intro commutes_intros)
  then have "commutes (redeny d) (issue_document X P pki jwk now)"
    unfolding issue_document_def Let_def by (intro commutes_intros commutes_items)
  with Cons show ?case by (auto intro!: commutes_intros)
qed (simp add: commutes_pure)

lemma commutes_credentials: "commutes (redeny d) (sign_credentials X P C k sub iat jwks)"
proof (induction jwks)
  case (Cons jwk jwks)
  have "commutes (redeny d) (draw_disclosures X claims)" for claims
    by (induction claims) (auto intro!: commutes_intros)
  moreover have "commutes (redeny d) (draw_decoys X n)" for n
    by (induction n) (auto intro!: commutes_intros)
  ultimately have "commutes (redeny d) (sign_credential X P C k sub iat jwk)"
    unfolding sign_credential_def by (intro commutes_intros)
  with Cons show ?case by (auto intro!: commutes_intros)
qed (simp add: commutes_pure)

lemma commutes_configured: "commutes (redeny d) (issue_configured X P C sub jwks configuration)"
  unfolding issue_configured_def issue_mdoc_def ensure_mdoc_pki_def generate_mdoc_pki_def issue_sd_jwt_def
  by (intro commutes_intros commutes_documents commutes_credentials) simp_all

lemma commutes_issue: "commutes (redeny d) (issue_credential X P C q)"
  unfolding issue_credential_def binding_keys_def Let_def
  by (intro commutes_intros commutes_validate commutes_dpop commutes_bindings commutes_configured) simp_all

subsection \<open>Properties\<close>


text \<open>A wallet with a token, a proof and a nonce.  The signature of a nonce writes its expiry in
  unary after the identifier of the key.\<close>

definition wallet_services :: services where
  "wallet_services = sample_services\<lparr>sv_unverified_header := (\<lambda>t.
     if t = ''at'' then Some [(''alg'', JStr ''RS256''), (''kid'', JStr ''s'')]
     else if t = ''proof'' then Some [(''typ'', JStr ''jwt''), (''alg'', JStr ''RS256''),
       (''jwk'', JObj [(''kty'', JStr ''RSA'')])]
     else Some [(''typ'', JStr nonce_typ), (''alg'', JStr ''RS256''), (''kid'', JStr ''s'')])\<rparr>"

definition wallet_ports :: issuing_ports where
  "wallet_ports = \<lparr>ip_jwk_key = (\<lambda>_ _. Some ''key''), ip_x5c_key = (\<lambda>_. None), ip_pem_key = Some,
     ip_encode = (\<lambda>header payload pem alg.
       case (map_of header ''typ'', map_of payload ''exp'') of
         (Some (JStr typ), Some (JInt e)) \<Rightarrow> if typ = nonce_typ then CHR ''s'' # replicate (nat e) CHR ''.'' else ''sd''
       | _ \<Rightarrow> ''sd''),
     ip_decode = (\<lambda>token key alg options now.
       if token = ''at'' then Some [(''sub'', JStr ''alice''), (''scope'', JStr ''openid4vci'')]
       else if token = ''proof'' then Some [(''aud'', JStr ''op''), (''nonce'', JStr (CHR ''s'' # replicate 300 CHR ''.''))]
       else let e = int (length token) - 1 in
         if seconds (e - 300) \<le> now \<and> now < seconds e then Some [] else None),
     ip_generate_pki = (\<lambda>_ _ _. \<lparr>mp_issuer_key = [], mp_issuer_certificate = [], mp_signer_key = [],
       mp_signer_certificate = []\<rparr>), ip_not_before = (\<lambda>_. 0), ip_encode_item = (\<lambda>_. []),
     ip_issuer_signed = (\<lambda>_ _ _. [])\<rparr>"

definition wallet_issuer :: issuer_config where
  "wallet_issuer = \<lparr>ig_issuer = ''op/'', ig_algorithm = RS256, ig_dpop = False, ig_pki_repository = False\<rparr>"

definition wallet_world :: credential_world where
  "wallet_world = \<lparr>cw_server = sample_world, cw_keys = day_world sample_keys 0, cw_notifications = {},
     cw_pki = None, cw_pki_saved = None, cw_nonces = {}\<rparr>"

definition wallet_request :: credential_request where
  "wallet_request = \<lparr>cr_token = ''at'', cr_configuration_id = Some default_configuration,
     cr_identifier = None, cr_format = None, cr_proofs = [''proof''], cr_auth_scheme = ''bearer'',
     cr_dpop_proof = [], cr_htu = [], cr_method = ''POST''\<rparr>"

lemma wallet_served:
  "map_sum (\<lambda>_. ()) (\<lambda>a. length (cn_credentials a))
     (fst (issue_credential wallet_services wallet_ports wallet_issuer wallet_request wallet_world)) = Inr 1"
  by code_simp


text \<open>C38. Issuance does not look at the denylist: whatever has been revoked, the answer to a request
  for a credential is the same, so a revoked access token still obtains credentials until it
  expires.\<close>

theorem issuance_ignores_revocation:
  "fst (issue_credential X P C q (s\<lparr>cw_server := (cw_server s)\<lparr>w_revoked := d\<rparr>\<rparr>))
   = fst (issue_credential X P C q s)"
  using commutes_issue [of d X P C q] by (simp add: commutes_def)

subsection \<open>Nonces\<close>

text \<open>The keys as the key operations see them.\<close>

definition key_view :: "credential_world \<Rightarrow> key_world" where
  "key_view s = (cw_keys s)\<lparr>kw_clock := w_clock (cw_server s), kw_tick := w_tick (cw_server s)\<rparr>"

text \<open>PyJWT on the nonces a key signs: the header is read back, and the token verifies under the
  published half of the key from its \<open>iat\<close> until its \<open>exp\<close>, if the issuer asked for is its own.\<close>

definition nonce_header :: "key_pair \<Rightarrow> (str \<times> json) list" where
  "nonce_header k = [(''typ'', JStr nonce_typ), (''kid'', JStr (kp_kid k))]"

definition nonce_payload :: "issuer_config \<Rightarrow> int \<Rightarrow> str \<Rightarrow> (str \<times> json) list" where
  "nonce_payload C iat jti = [(''iss'', JStr (credential_issuer C)), (''iat'', JInt iat),
     (''exp'', JInt (iat + 300)), (''jti'', JStr jti)]"

definition reads_back :: "services \<Rightarrow> issuing_ports \<Rightarrow> issuer_config \<Rightarrow> key_pair \<Rightarrow> bool" where
  "reads_back X P C k \<longleftrightarrow> (\<exists>key. ip_pem_key P (kp_public_pem k) = Some key \<and> (\<forall>iat jti. 0 \<le> iat \<longrightarrow>
     (let n = ip_encode P (nonce_header k) (nonce_payload C iat jti) (kp_private_pem k) (ig_algorithm C) in
      (\<exists>header. sv_unverified_header X n = Some header \<and> map_of header ''typ'' = Some (JStr nonce_typ)
        \<and> map_of header ''alg'' = Some (JStr (alg_value (ig_algorithm C)))
        \<and> map_of header ''kid'' = Some (JStr (kp_kid k)))
      \<and> (\<forall>options now. jo_issuer options = Some (credential_issuer C) \<and> jo_audience options = None \<longrightarrow>
           (ip_decode P n key (alg_value (ig_algorithm C)) options now \<noteq> None \<longleftrightarrow>
             seconds iat \<le> now \<and> now < seconds (iat + 300))))))"

lemma on_keys_ok:
  "on_keys m s = (Inr x, t) \<longleftrightarrow> (\<exists>w. m (key_view s) = (Inr x, w) \<and>
     t = s\<lparr>cw_keys := w, cw_server := (cw_server s)\<lparr>w_tick := kw_tick w\<rparr>\<rparr>)"
  by (cases "m (key_view s)"; cases "fst (m (key_view s))") (auto simp: on_keys_def Let_def key_view_def)

lemma issue_nonce_ok:
  assumes "on_keys (first_active_key UseSig (ig_algorithm C)) s = (Inr k, s1)"
    and "issue_nonce P C s = (Inr answer, t)"
  shows "\<exists>jti. answer = [(''c_nonce'', JStr (ip_encode P (nonce_header k)
      (nonce_payload C (epoch_seconds (current (cw_server s1))) jti) (kp_private_pem k) (ig_algorithm C)))]"
    and "cw_keys t = cw_keys s1"
proof -
  from assms have run: "issue_nonce P C s = andthen (on_server now_utc) (\<lambda>now. andthen (on_server fresh_token) (\<lambda>jti.
      ok [(''c_nonce'', JStr (ip_encode P (nonce_header k) (nonce_payload C (epoch_seconds now) jti)
        (kp_private_pem k) (ig_algorithm C)))])) s1"
    by (simp add: issue_nonce_def sign_nonce_def andthen_assoc Let_def nonce_header_def nonce_payload_def)
  with assms(2) show "\<exists>jti. answer = [(''c_nonce'', JStr (ip_encode P (nonce_header k)
      (nonce_payload C (epoch_seconds (current (cw_server s1))) jti) (kp_private_pem k) (ig_algorithm C)))]"
    "cw_keys t = cw_keys s1"
    by (auto simp: andthen_def on_server_def now_utc_def fresh_token_def ok_def)
qed

text \<open>The key that signed a nonce is found again after any operations on the keys within its
  retention.\<close>

lemma signing_key_kept:
  assumes "on_keys (first_active_key UseSig alg) s = (Inr k, s1)" and "steady (key_view s)"
    and "kw_keys d = kw_keys (run_key_ops J ops (cw_keys s1))"
    and "kw_clock (run_key_ops J ops (cw_keys s1)) (kw_tick (run_key_ops J ops (cw_keys s1)))
      < kp_created_at k + retention J"
  shows "\<exists>b. key_by_kid UseSig (kw_keys d) (kp_kid k) = Some (k\<lparr>kp_is_active := b\<rparr>)" "kp_algorithm k = alg"
proof -
  let ?w = "run_key_ops J ops (cw_keys s1)"
  from assms(1) have first: "first_active_key UseSig alg (key_view s) = (Inr k, cw_keys s1)"
    by (auto simp: on_keys_ok)
  have w1: "steady (cw_keys s1)"
    using movesD [OF keeps_first_active first, of 0] assms(2) by (simp add: keeps_def)
  from signing_key [OF first] have k: "keys_find (kw_keys (cw_keys s1)) (kp_kid k) = Some k"
    "kp_use k = UseSig" "kp_algorithm k = alg"
    by (auto simp: found_for steady_values [OF w1])
  from keeps_ops [of J "cw_keys s1" ops] w1 have w: "steady ?w"
    and "survives (kw_keys ?w) (kp_kid k) k \<or> aged (retention J) ?w k"
    using k(1) unfolding keeps_def by blast+
  with assms(4) have "survives (kw_keys ?w) (kp_kid k) k" by (simp add: aged_def)
  then obtain b where "keys_find (kw_keys ?w) (kp_kid k) = Some (k\<lparr>kp_is_active := b\<rparr>)"
    by (auto simp: survives_def)
  from key_by_kid_found [OF w this, of UseSig] k(2)
  show "\<exists>b. key_by_kid UseSig (kw_keys d) (kp_kid k) = Some (k\<lparr>kp_is_active := b\<rparr>)"
    unfolding assms(3) by auto
  show "kp_algorithm k = alg" by (rule k(3))
qed

lemma nonce_found:
  assumes "on_keys (first_active_key UseSig (ig_algorithm C)) s = (Inr k, s1)" and "steady (key_view s)"
    and "reads_back X P C k" and "0 \<le> current (cw_server s1)"
    and "issue_nonce P C s = (Inr [(''c_nonce'', JStr n)], t)"
    and "cw_keys u = run_key_ops J ops (cw_keys t)"
    and "kw_clock (cw_keys u) (kw_tick (cw_keys u)) < kp_created_at k + retention J"
  obtains b key header where
    "key_by_kid UseSig (kw_keys (cw_keys u)) (kp_kid k) = Some (k\<lparr>kp_is_active := b\<rparr>)"
    "kp_algorithm k = ig_algorithm C" "ip_pem_key P (kp_public_pem k) = Some key"
    "sv_unverified_header X n = Some header" "map_of header ''typ'' = Some (JStr nonce_typ)"
    "map_of header ''alg'' = Some (JStr (alg_value (ig_algorithm C)))"
    "map_of header ''kid'' = Some (JStr (kp_kid k))"
    "\<forall>v now. (\<exists>claims. ip_decode P n key (alg_value (ig_algorithm C)) \<lparr>jo_issuer = Some (credential_issuer C),
        jo_audience = None, jo_verify_aud = v\<rparr> now = Some claims) \<longleftrightarrow>
      seconds (epoch_seconds (current (cw_server s1))) \<le> now
      \<and> now < seconds (epoch_seconds (current (cw_server s1)) + 300)"
proof -
  let ?iat = "epoch_seconds (current (cw_server s1))"
  from issue_nonce_ok [OF assms(1,5)] obtain jti where
    n: "n = ip_encode P (nonce_header k) (nonce_payload C ?iat jti) (kp_private_pem k) (ig_algorithm C)"
    and keys: "cw_keys t = cw_keys s1" by auto
  from signing_key_kept [OF assms(1,2), of "cw_keys u" J ops] assms(6,7) obtain b where
    k: "key_by_kid UseSig (kw_keys (cw_keys u)) (kp_kid k) = Some (k\<lparr>kp_is_active := b\<rparr>)"
      "kp_algorithm k = ig_algorithm C"
    by (auto simp: keys)
  have "0 \<le> ?iat" using assms(4) by (simp add: epoch_seconds_def)
  with assms(3) obtain key where key: "ip_pem_key P (kp_public_pem k) = Some key"
    and law: "(\<exists>header. sv_unverified_header X n = Some header \<and> map_of header ''typ'' = Some (JStr nonce_typ)
        \<and> map_of header ''alg'' = Some (JStr (alg_value (ig_algorithm C)))
        \<and> map_of header ''kid'' = Some (JStr (kp_kid k)))
      \<and> (\<forall>options now. jo_issuer options = Some (credential_issuer C) \<and> jo_audience options = None \<longrightarrow>
           (ip_decode P n key (alg_value (ig_algorithm C)) options now \<noteq> None \<longleftrightarrow>
             seconds ?iat \<le> now \<and> now < seconds (?iat + 300)))"
    unfolding reads_back_def n Let_def by auto
  from law obtain header where "sv_unverified_header X n = Some header"
    "map_of header ''typ'' = Some (JStr nonce_typ)" "map_of header ''alg'' = Some (JStr (alg_value (ig_algorithm C)))"
    "map_of header ''kid'' = Some (JStr (kp_kid k))"
    by auto
  with k key law show ?thesis by (intro that [of b key header]) (simp_all flip: not_None_eq)
qed


lemma algorithm_of_value: "algorithm_of (alg_value a) = Some a"
  by (cases a) (simp_all add: algorithm_of_def all_algorithms_def)

text \<open>C39. A nonce passes for an access token.  The nonce endpoint asks for no authentication, and what
  it signs is accepted for its whole life where an access token is: the credential endpoints answer
  the bearer of a nonce as an authenticated one.\<close>

theorem nonce_passes_for_token:
  assumes "on_keys (first_active_key UseSig (ig_algorithm C)) s = (Inr k, s1)" and "steady (key_view s)"
    and "reads_back X P C k" and "0 \<le> current (cw_server s1)"
    and "issue_nonce P C s = (Inr [(''c_nonce'', JStr n)], t)"
    and "cw_keys u = run_key_ops J ops (cw_keys t)"
    and "kw_clock (cw_keys u) (kw_tick (cw_keys u)) < kp_created_at k + retention J" and "kp_kid k \<noteq> []"
    and "seconds (epoch_seconds (current (cw_server s1))) \<le> current (cw_server u)"
    and "current (cw_server u) < seconds (epoch_seconds (current (cw_server s1)) + 300)"
  shows "(\<exists>claims v. validate_token X P C n u = (Inr (Some claims), v))
    \<and> fst (deferred_credential X P C n transaction u)
      = Inl (CredentialError ''invalid_transaction_id'' ''transaction_id inconnu ou deja consomme'' 400)"
proof -
  obtain b key header where
    k: "key_by_kid UseSig (kw_keys (cw_keys u)) (kp_kid k) = Some (k\<lparr>kp_is_active := b\<rparr>)"
      "kp_algorithm k = ig_algorithm C" and key: "ip_pem_key P (kp_public_pem k) = Some key"
    and header: "sv_unverified_header X n = Some header" "map_of header ''typ'' = Some (JStr nonce_typ)"
      "map_of header ''alg'' = Some (JStr (alg_value (ig_algorithm C)))"
      "map_of header ''kid'' = Some (JStr (kp_kid k))"
    and valid: "\<forall>v now. (\<exists>claims. ip_decode P n key (alg_value (ig_algorithm C)) \<lparr>jo_issuer = Some (credential_issuer C),
        jo_audience = None, jo_verify_aud = v\<rparr> now = Some claims) \<longleftrightarrow>
      seconds (epoch_seconds (current (cw_server s1))) \<le> now
      \<and> now < seconds (epoch_seconds (current (cw_server s1)) + 300)"
    using assms(1-7) by (rule nonce_found)
  have known: "validation_key (kw_keys (cw_keys u)) (Some (JStr (kp_kid k))) (ig_algorithm C)
      = Some (k\<lparr>kp_is_active := b\<rparr>)"
    using assms(8) k by (cases "kp_kid k") (simp_all add: validation_key_def)
  from valid [rule_format, of False "current (cw_server u)"] assms(9,10) obtain claims where
    "ip_decode P n key (alg_value (ig_algorithm C)) \<lparr>jo_issuer = Some (credential_issuer C),
      jo_audience = None, jo_verify_aud = False\<rparr> (current (cw_server u)) = Some claims"
    by blast
  then have passed: "validate_token X P C n u
      = (Inr (Some claims), u\<lparr>cw_server := (cw_server u)\<lparr>w_tick := Suc (w_tick (cw_server u))\<rparr>\<rparr>)"
    by (simp add: validate_token_def header jget_str_def algorithm_of_value run_simps known key decode_now_iff)
  then have "fst (deferred_credential X P C n transaction u) = Inl (CredentialError ''invalid_transaction_id''
      ''transaction_id inconnu ou deja consomme'' 400)"
    by (simp add: deferred_credential_def andthen_def raise_def)
  with passed show ?thesis by simp
qed

lemma wallet_signs:
  "on_keys (first_active_key UseSig (ig_algorithm wallet_issuer)) wallet_world = (Inr (sample_key ''s'' UseSig), wallet_world)"
  by (simp add: on_keys_def wallet_issuer_def wallet_world_def sample_world_def first_active_key_def run_simps
      active_for_def active_keys_def family_keys_def dict_values_def day_world_def sample_keys_def sample_key_def
      days_def seconds_def)

lemma wallet_steady: "steady (key_view wallet_world)"
  using sample_steady [of 0] by (simp add: key_view_def wallet_world_def sample_world_def day_world_def days_def seconds_def)

lemma wallet_reads_back: "reads_back wallet_services wallet_ports wallet_issuer (sample_key ''s'' UseSig)"
  by (auto simp: reads_back_def wallet_ports_def wallet_services_def wallet_issuer_def nonce_header_def
      nonce_payload_def sample_key_def Let_def nonce_typ_def seconds_def)

definition wallet_nonce :: str where
  "wallet_nonce = CHR ''s'' # replicate 300 CHR ''.''"

lemma wallet_nonce_issued:
  "issue_nonce wallet_ports wallet_issuer wallet_world = (Inr [(''c_nonce'', JStr wallet_nonce)],
     wallet_world\<lparr>cw_server := sample_world\<lparr>w_tick := 1, w_draw := 1\<rparr>\<rparr>)"
  unfolding issue_nonce_def sign_nonce_def andthen_assoc
  by (rule andthen_step, rule wallet_signs)
    (simp add: andthen_def on_server_def now_utc_def fresh_token_def ok_def Let_def wallet_ports_def wallet_world_def
      sample_world_def current_def epoch_seconds_def wallet_nonce_def)

definition wallet_later :: credential_world where
  "wallet_later = wallet_world\<lparr>cw_server := sample_world\<lparr>w_tick := 1, w_draw := 1\<rparr>\<rparr>"

lemma wallet_retained:
  "cw_keys wallet_later = run_key_ops sample_jwks [] (cw_keys wallet_later)"
  "kw_clock (cw_keys wallet_later) (kw_tick (cw_keys wallet_later))
     < kp_created_at (sample_key ''s'' UseSig) + retention sample_jwks"
  "0 \<le> current (cw_server wallet_world)"
  by (simp_all add: wallet_later_def wallet_world_def run_key_ops_def retention_def day_world_def sample_key_def
      sample_jwks_def days_def seconds_def sample_world_def current_def)


lemma nonce_passes_for_token_witness:
  "fst (deferred_credential wallet_services wallet_ports wallet_issuer wallet_nonce ''t'' wallet_later)
     = Inl (CredentialError ''invalid_transaction_id'' ''transaction_id inconnu ou deja consomme'' 400)"
proof -
  have "kp_kid (sample_key ''s'' UseSig) \<noteq> []" by (simp add: sample_key_def)
  from nonce_passes_for_token [OF wallet_signs wallet_steady wallet_reads_back wallet_retained(3)
      wallet_nonce_issued [folded wallet_later_def] wallet_retained(1,2) this, where transaction = "''t''"]
  show ?thesis
    by (simp add: wallet_later_def wallet_world_def sample_world_def current_def epoch_seconds_def seconds_def)
qed

end
