(* ===== verification/PresentationRules.thy ===== *)
theory PresentationRules
  imports CredentialGuards
begin

text \<open>
  Presentations: what an accepted response has been checked for, and that its tokens are accepted
  once, whatever is asked of the issuer and of the verifier in between.
\<close>

subsection \<open>The nonces of the verifier over time\<close>

definition draws_on :: "world \<Rightarrow> world \<Rightarrow> bool" where
  "draws_on w v \<longleftrightarrow> w_rand v = w_rand w \<and> w_draw w \<le> w_draw v"

lemma lenient_draws: "lenient draws_on"
  by (auto simp: lenient_def draws_on_def reflp_def transp_def)

text \<open>A step that leaves the nonces alone.\<close>

definition aside :: "credential_world \<Rightarrow> credential_world \<Rightarrow> bool" where
  "aside s t \<longleftrightarrow> cw_nonces t = cw_nonces s \<and> draws_on (cw_server s) (cw_server t)"

lemma aside_order: "transp aside" "reflp aside"
  by (auto simp: aside_def draws_on_def transp_def reflp_def)

lemma aside_server: "moves draws_on m \<Longrightarrow> moves aside (on_server m)"
  by (auto simp: moves_def aside_def on_server_def split: prod.splits) (metis snd_conv)

lemma aside_keys: "moves aside (on_keys m)"
  by (auto simp: moves_def aside_def draws_on_def on_keys_def Let_def split: prod.splits)

lemmas aside_moves = moves_andthen [OF aside_order(1)] moves_pure [OF aside_order(2)]
  aside_server aside_keys moves_case_option moves_case_prod moves_if lenient_now [OF lenient_draws]
  lenient_fresh [OF lenient_draws] moves_case_json

lemma aside_modify: "(\<And>s. cw_nonces (f s) = cw_nonces s \<and> cw_server (f s) = cw_server s) \<Longrightarrow> moves aside (modify f)"
  by (rule moves_modify) (simp add: aside_def draws_on_def)

lemma aside_dpop: "moves aside (dpop_authorized X C q claims)"
proof -
  have "moves draws_on (\<lambda>w. case validate_proof X (cr_dpop_proof q) (cr_htu q) (cr_method q)
      (access_token_hash X (cr_token q)) w of
        (Inl (Refused _ _), v) \<Rightarrow> (Inr False, v)
      | (Inl (Uncaught e), v) \<Rightarrow> (Inl (CredentialCrash e), v)
      | (Inr p, v) \<Rightarrow> (Inr (pf_jkt p = bound_thumbprint X claims), v))"
    using lenient_validate [OF lenient_draws, of X "cr_dpop_proof q" "cr_htu q" "cr_method q"
        "access_token_hash X (cr_token q)"]
    by (auto simp: moves_def split: prod.splits sum.splits failure.splits) (metis snd_conv)+
  then show ?thesis
    unfolding dpop_authorized_def Let_def by (intro aside_moves)
qed

lemma aside_bindings: "moves aside (binding_keys_of X P C proofs)"
proof (induction proofs)
  case (Cons p ps)
  have "moves aside (binding_key X P C p)"
    unfolding binding_key_def decode_proof_def nonce_valid_def proof_attested_def attestation_valid_def
      decode_now_def by (intro aside_moves)
  with Cons show ?case by (auto intro!: aside_moves)
qed (simp add: moves_pure aside_order)

lemma aside_documents: "moves aside (issue_documents X P pki now jwks)"
proof (induction jwks)
  case (Cons jwk jwks)
  have "moves aside (signed_items n es)" for n es
    by (induction n es rule: signed_items.induct) (auto intro!: aside_moves)
  moreover have "moves aside (device_key jwk)"
    unfolding device_key_def coordinate_def by (intro aside_moves)
  ultimately have "moves aside (issue_document X P pki jwk now)"
    unfolding issue_document_def Let_def by (intro aside_moves)
  with Cons show ?case by (auto intro!: aside_moves)
qed (simp add: moves_pure aside_order)

lemma aside_credentials: "moves aside (sign_credentials X P C k sub iat jwks)"
proof (induction jwks)
  case (Cons jwk jwks)
  have "moves aside (draw_disclosures X claims)" "moves aside (draw_decoys X n)" for claims n
    by (induction claims, auto intro!: aside_moves) (induction n, auto intro!: aside_moves)
  then have "moves aside (sign_credential X P C k sub iat jwk)"
    unfolding sign_credential_def by (intro aside_moves)
  with Cons show ?case by (auto intro!: aside_moves)
qed (simp add: moves_pure aside_order)

lemma aside_issue: "moves aside (issue_credential X P C q)" "moves aside (issue_nonce P C)"
  unfolding issue_credential_def issue_configured_def issue_mdoc_def issue_sd_jwt_def ensure_mdoc_pki_def
    generate_mdoc_pki_def binding_keys_def validate_token_def decode_now_def issue_nonce_def sign_nonce_def Let_def
  by (intro aside_moves aside_dpop aside_bindings aside_documents aside_credentials aside_modify; simp)+

text \<open>What may be asked of the issuer and of the verifier.\<close>

inductive wallet_step :: "services \<Rightarrow> issuing_ports \<Rightarrow> issuer_config \<Rightarrow> credential_world
    \<Rightarrow> credential_world \<Rightarrow> bool" for X P C where
  request: "create_presentation_request P C q s = (r, t) \<Longrightarrow> wallet_step X P C s t"
| response: "validate_presentation X P C v s = (r, t) \<Longrightarrow> wallet_step X P C s t"
| issue: "issue_credential X P C c s = (r, t) \<Longrightarrow> wallet_step X P C s t"
| nonce: "issue_nonce P C s = (r, t) \<Longrightarrow> wallet_step X P C s t"

inductive wallet_after :: "services \<Rightarrow> issuing_ports \<Rightarrow> issuer_config \<Rightarrow> credential_world
    \<Rightarrow> credential_world \<Rightarrow> bool" for X P C where
  start: "wallet_after X P C s s"
| further: "wallet_after X P C s t \<Longrightarrow> wallet_step X P C t u \<Longrightarrow> wallet_after X P C s u"

text \<open>A nonce is fresh while a request may still draw it; no nonce of the verifier is.\<close>

definition undrawn_nonce :: "str \<Rightarrow> credential_world \<Rightarrow> bool" where
  "undrawn_nonce n s \<longleftrightarrow> (\<exists>i \<ge> w_draw (cw_server s). w_rand (cw_server s) i = n)"

definition nonces_drawn :: "credential_world \<Rightarrow> bool" where
  "nonces_drawn s \<longleftrightarrow> inj (w_rand (cw_server s)) \<and> (\<forall>n \<in> cw_nonces s. \<not> undrawn_nonce n s)"

definition nonce_dead :: "str \<Rightarrow> credential_world \<Rightarrow> bool" where
  "nonce_dead n s \<longleftrightarrow> n \<notin> cw_nonces s \<and> \<not> undrawn_nonce n s"

lemma aside_keeps: "aside s t \<Longrightarrow> nonces_drawn s \<Longrightarrow> nonces_drawn t" "aside s t \<Longrightarrow> nonce_dead n s \<Longrightarrow> nonce_dead n t"
  by (auto simp: aside_def draws_on_def nonces_drawn_def nonce_dead_def undrawn_nonce_def)

lemma create_request_effect:
  assumes "create_presentation_request P C q s = (r, t)"
  obtains "aside s t" | u v n where "aside s u" "n = w_rand (cw_server u) (w_draw (cw_server u))"
    "v = u\<lparr>cw_server := (cw_server u)\<lparr>w_draw := Suc (w_draw (cw_server u))\<rparr>, cw_nonces := insert n (cw_nonces u)\<rparr>"
    "aside v t"
proof (cases "on_keys (first_active_key UseSig (ig_algorithm C)) s")
  case (Pair k u)
  have u: "aside s u" using aside_keys Pair by (rule movesD)
  show ?thesis
  proof (cases k)
    case (Inl e)
    with assms Pair u show ?thesis by (auto simp: create_presentation_request_def andthen_def intro: that)
  next
    case (Inr pair)
    let ?n = "w_rand (cw_server u) (w_draw (cw_server u))"
    let ?v = "u\<lparr>cw_server := (cw_server u)\<lparr>w_draw := Suc (w_draw (cw_server u))\<rparr>, cw_nonces := insert ?n (cw_nonces u)\<rparr>"
    from assms Pair Inr have "aside ?v t"
      by (auto simp: create_presentation_request_def andthen_def on_server_def fresh_token_def modify_def now_utc_def
          ok_def aside_def draws_on_def)
    with u show ?thesis by (intro that(2) [OF u refl refl])
  qed
qed

lemma create_keeps:
  assumes "create_presentation_request P C q s = (r, t)"
  shows "nonces_drawn s \<Longrightarrow> nonces_drawn t" "nonce_dead n s \<Longrightarrow> nonce_dead n t"
proof -
  have fresh: "nonces_drawn v" if "nonces_drawn u"
    "v = u\<lparr>cw_server := (cw_server u)\<lparr>w_draw := Suc (w_draw (cw_server u))\<rparr>,
       cw_nonces := insert (w_rand (cw_server u) (w_draw (cw_server u))) (cw_nonces u)\<rparr>" for u v
    using that by (auto simp: nonces_drawn_def undrawn_nonce_def dest: injD)
  have dead: "nonce_dead n v" if "nonce_dead n u"
    "v = u\<lparr>cw_server := (cw_server u)\<lparr>w_draw := Suc (w_draw (cw_server u))\<rparr>,
       cw_nonces := insert (w_rand (cw_server u) (w_draw (cw_server u))) (cw_nonces u)\<rparr>" for u v
    using that by (auto simp: nonce_dead_def undrawn_nonce_def)
  from assms show "nonces_drawn s \<Longrightarrow> nonces_drawn t"
    by (rule create_request_effect) (use fresh in \<open>blast intro: aside_keeps\<close>)+
  from assms show "nonce_dead n s \<Longrightarrow> nonce_dead n t"
    by (rule create_request_effect) (use dead in \<open>blast intro: aside_keeps\<close>)+
qed

lemma aside_presented: "moves aside (presented_nonces X P C tokens)"
proof (induction tokens)
  case (Cons token tokens)
  have "moves aside (verify_vp_token X P C token)"
    unfolding verify_vp_token_def decode_now_def by (intro aside_moves)
  with Cons show ?case by (auto intro!: aside_moves)
qed (simp add: moves_pure aside_order)

lemma validate_effect:
  assumes "validate_presentation X P C v s = (r, t)"
  obtains "aside s t" | u nonces where "presented_nonces X P C (all_tokens v) s = (Inr nonces, u)" "aside s u"
    "t = u\<lparr>cw_nonces := cw_nonces u - set nonces\<rparr>" "all_tokens v \<noteq> []" "r = Inr ()"
proof (cases "presented_nonces X P C (all_tokens v) s")
  case (Pair res u)
  have "aside s u" using aside_presented Pair by (rule movesD)
  with assms Pair show ?thesis
    using aside_order(2) by (cases res)
      (auto simp: validate_presentation_def Let_def andthen_def raise_def modify_def reflp_def
        split: if_splits intro: that)
qed

lemma remove_keeps:
  "nonces_drawn u \<Longrightarrow> nonces_drawn (u\<lparr>cw_nonces := cw_nonces u - N\<rparr>)"
  "nonce_dead n u \<Longrightarrow> nonce_dead n (u\<lparr>cw_nonces := cw_nonces u - N\<rparr>)"
  by (auto simp: nonces_drawn_def nonce_dead_def undrawn_nonce_def)

lemma step_keeps:
  assumes "wallet_step X P C s t"
  shows "nonces_drawn s \<Longrightarrow> nonces_drawn t" "nonce_dead n s \<Longrightarrow> nonce_dead n t"
proof -
  have "(nonces_drawn s \<longrightarrow> nonces_drawn t) \<and> (nonce_dead n s \<longrightarrow> nonce_dead n t)"
    using assms
  proof (cases rule: wallet_step.cases)
    case (request q r)
    with create_keeps show ?thesis by blast
  next
    case (response v r)
    then show ?thesis by (rule validate_effect) (use aside_keeps remove_keeps in blast)+
  next
    case (issue c r)
    with movesD [OF aside_issue(1)] aside_keeps show ?thesis by blast
  next
    case (nonce r)
    with movesD [OF aside_issue(2)] aside_keeps show ?thesis by blast
  qed
  then show "nonces_drawn s \<Longrightarrow> nonces_drawn t" "nonce_dead n s \<Longrightarrow> nonce_dead n t" by blast+
qed

lemma later_keeps:
  assumes "wallet_after X P C s t"
  shows "nonces_drawn s \<Longrightarrow> nonces_drawn t" "nonce_dead n s \<Longrightarrow> nonce_dead n t"
  using assms by (induction rule: wallet_after.induct) (auto dest: step_keeps)

subsection \<open>What an accepted response has been checked for\<close>

text \<open>
  A token is verified at an instant when its header names one of the accepted algorithms and a
  public key, and the token verifies under that key with the verifier as its audience.
\<close>

definition vp_verified :: "services \<Rightarrow> issuing_ports \<Rightarrow> issuer_config \<Rightarrow> instant \<Rightarrow> str
    \<Rightarrow> (str \<times> json) list \<Rightarrow> bool" where
  "vp_verified X P C now token claims \<longleftrightarrow> (\<exists>header alg jwk key.
     sv_unverified_header X token = Some header \<and> map_of header ''alg'' = Some (JStr alg)
     \<and> alg \<in> set vp_algorithms \<and> map_of header ''jwk'' = Some (JObj jwk)
     \<and> ip_jwk_key P (alg = ''RS256'') jwk = Some key
     \<and> ip_decode P token key alg \<lparr>jo_issuer = None, jo_audience = Some (credential_issuer C),
          jo_verify_aud = True\<rparr> now = Some claims)"

lemma verify_run:
  assumes "verify_vp_token X P C token s = (r, t)"
  obtains found where "r = Inr found" "cw_nonces t = cw_nonces s"
    "\<And>claims. found = Some claims \<Longrightarrow> \<exists>now. vp_verified X P C now token claims"
proof -
  have "\<exists>found. r = Inr found \<and> cw_nonces t = cw_nonces s
      \<and> (\<forall>claims. found = Some claims \<longrightarrow> (\<exists>now. vp_verified X P C now token claims))"
    using assms unfolding verify_vp_token_def
    by (auto simp: decode_now_def andthen_def on_server_def now_utc_def ok_def vp_verified_def
        split: option.splits json.splits if_splits; metis)
  then show ?thesis using that by blast
qed

lemma presented_refused:
  "presented_nonces X P C tokens s = (Inl e, t) \<Longrightarrow> e = invalid_presentation"
proof (induction tokens arbitrary: s t)
  case (Cons token tokens)
  then show ?case
    by (auto simp: andthen_Inl ensure_def peek_def ok_def raise_def split: option.splits if_splits
        elim: verify_run)
qed (simp add: ok_def)

lemma presented_checked:
  assumes "presented_nonces X P C tokens s = (Inr nonces, t)" "token \<in> set tokens"
  shows "\<exists>now claims nonce. vp_verified X P C now token claims
    \<and> jget_str claims ''nonce'' = Some nonce \<and> nonce \<in> cw_nonces s \<and> nonce \<in> set nonces"
  using assms
proof (induction tokens arbitrary: s nonces)
  case (Cons first tokens)
  from Cons.prems(1) obtain found u claims nonce rest where
    run: "verify_vp_token X P C first s = (Inr found, u)" "found = Some claims"
      "jget_str claims ''nonce'' = Some nonce" "nonce \<in> cw_nonces u"
      "presented_nonces X P C tokens u = (Inr rest, t)" "nonces = nonce # rest"
    by (auto simp: andthen_Inr ensure_def peek_def ok_def raise_def split: option.splits if_splits bind_splits)
  from verify_run [OF run(1)] run(2) obtain now where
    verified: "vp_verified X P C now first claims" "cw_nonces u = cw_nonces s"
    by (metis sum.inject(2))
  show ?case
  proof (cases "token = first")
    case True
    with run verified show ?thesis by auto
  next
    case False
    with Cons.prems(2) Cons.IH [OF run(5)] run(6) verified(2) show ?thesis by auto
  qed
qed simp

text \<open>The nonce a token carries.  PyJWT's verified decoding returns the payload its unverified one does.\<close>

definition carried_nonce :: "services \<Rightarrow> str \<Rightarrow> str option" where
  "carried_nonce X token = Option.bind (sv_unverified_claims X token) (\<lambda>claims. jget_str claims ''nonce'')"

definition decodes_payload :: "services \<Rightarrow> issuing_ports \<Rightarrow> bool" where
  "decodes_payload X P \<longleftrightarrow> (\<forall>token key alg options now claims.
     ip_decode P token key alg options now = Some claims \<longrightarrow> sv_unverified_claims X token = Some claims)"

lemma carried_by_verified:
  "decodes_payload X P \<Longrightarrow> vp_verified X P C now token claims \<Longrightarrow>
     carried_nonce X token = jget_str claims ''nonce''"
  by (auto simp: decodes_payload_def vp_verified_def carried_nonce_def)

lemma dead_refused:
  assumes "validate_presentation X P C response s = (r, t)" "decodes_payload X P"
    and "token \<in> set (all_tokens response)" "carried_nonce X token = Some n" "n \<notin> cw_nonces s"
  shows "r = Inl invalid_presentation"
proof (cases "presented_nonces X P C (all_tokens response) s")
  case (Pair res u)
  have "all_tokens response \<noteq> []" using assms(3) by auto
  then have r: "r = map_sum id (\<lambda>_. ()) res"
    using assms(1) Pair by (auto simp: validate_presentation_def andthen_def modify_def split: sum.splits)
  show ?thesis
  proof (cases res)
    case (Inl e)
    with r presented_refused Pair show ?thesis by simp
  next
    case (Inr nonces)
    with presented_checked [OF _ assms(3)] Pair obtain now claims nonce where
      "vp_verified X P C now token claims" "jget_str claims ''nonce'' = Some nonce" "nonce \<in> cw_nonces s" by blast
    with carried_by_verified [OF assms(2)] assms(4,5) show ?thesis by auto
  qed
qed

text \<open>C36. An accepted response consumes its nonces.  Start the verifier with no nonce remembered, serve
  any sequence of requests and responses, presentation requests, credential requests and nonces,
  and let a response be accepted: each of its tokens was verified, under the key of its own header
  and for this verifier, with a nonce the verifier remembered.  Whatever is asked afterwards, a
  response with any of those tokens, or with another token that carries one of their nonces, is
  refused as an invalid presentation.\<close>

theorem presentation_accepted_once:
  assumes "inj (w_rand (cw_server s0))" "cw_nonces s0 = {}" "wallet_after X P C s0 s"
    and "validate_presentation X P C response s = (Inr (), t)" "wallet_after X P C t u"
    and "decodes_payload X P" "token \<in> set (all_tokens response)"
    and "token' \<in> set (all_tokens response')" "carried_nonce X token' = carried_nonce X token"
  shows "(\<exists>now claims nonce. vp_verified X P C now token claims \<and> jget_str claims ''nonce'' = Some nonce
      \<and> nonce \<in> cw_nonces s)
    \<and> fst (validate_presentation X P C response' u) = Inl invalid_presentation"
proof -
  have "nonces_drawn s0" using assms(1,2) by (simp add: nonces_drawn_def)
  with later_keeps(1) assms(3) have drawn: "nonces_drawn s" by blast
  from assms(4,7) obtain v nonces where run: "presented_nonces X P C (all_tokens response) s = (Inr nonces, v)"
    "t = v\<lparr>cw_nonces := cw_nonces v - set nonces\<rparr>"
    by (auto simp: validate_presentation_def Let_def andthen_Inr modify_def raise_def split: if_splits)
  have "nonces_drawn v" using aside_presented [THEN movesD, OF run(1)] drawn aside_keeps(1) by blast
  from presented_checked [OF run(1) assms(7)] obtain now claims nonce where
    checked: "vp_verified X P C now token claims" "jget_str claims ''nonce'' = Some nonce"
      "nonce \<in> cw_nonces s" "nonce \<in> set nonces" by blast
  have "cw_nonces v = cw_nonces s" using aside_presented [THEN movesD, OF run(1)] by (simp add: aside_def)
  with checked(3,4) run(2) \<open>nonces_drawn v\<close> have "nonce_dead nonce t"
    by (auto simp: nonce_dead_def nonces_drawn_def undrawn_nonce_def)
  with later_keeps(2) [OF assms(5)] have "nonce \<notin> cw_nonces u" by (auto simp: nonce_dead_def)
  moreover have "carried_nonce X token' = Some nonce"
    using carried_by_verified [OF assms(6) checked(1)] assms(9) checked(2) by simp
  ultimately have "fst (validate_presentation X P C response' u) = Inl invalid_presentation"
    using dead_refused [OF _ assms(6,8)] by (metis prod.collapse)
  with checked show ?thesis by blast
qed

text \<open>A wallet whose tokens are their nonces, and a verifier that has asked for one.\<close>

definition presenting_services :: services where
  "presenting_services = sample_services\<lparr>
     sv_unverified_header := (\<lambda>_. Some [(''alg'', JStr ''RS256''), (''jwk'', JObj [(''kty'', JStr ''RSA'')])]),
     sv_unverified_claims := (\<lambda>t. Some [(''nonce'', JStr t)])\<rparr>"

definition presenting_ports :: issuing_ports where
  "presenting_ports = wallet_ports\<lparr>ip_decode := (\<lambda>token key alg options now.
     if key = ''key'' \<and> jo_audience options = Some ''op'' then Some [(''nonce'', JStr token)] else None)\<rparr>"

definition presenting_world :: credential_world where
  "presenting_world = wallet_world\<lparr>cw_server := sample_world\<lparr>w_rand := (\<lambda>n. replicate (Suc n) CHR ''n'')\<rparr>\<rparr>"

lemma presenting_signs:
  "on_keys (first_active_key UseSig (ig_algorithm wallet_issuer)) presenting_world
     = (Inr (sample_key ''s'' UseSig), presenting_world)"
  by (simp add: on_keys_def wallet_issuer_def presenting_world_def wallet_world_def sample_world_def
      first_active_key_def run_simps active_for_def active_keys_def family_keys_def dict_values_def
      day_world_def sample_keys_def sample_key_def
      days_def seconds_def)

definition asked_query :: presentation_query where
  "asked_query = \<lparr>pq_definition = None, pq_dcql = None, pq_response_mode = ''direct_post''\<rparr>"

definition asked_world :: credential_world where
  "asked_world = snd (create_presentation_request presenting_ports wallet_issuer asked_query presenting_world)"

definition answered_world :: credential_world where
  "answered_world = snd (validate_presentation presenting_services presenting_ports wallet_issuer
     (Some (JStr ''n'')) asked_world)"

lemma asked_nonce: "cw_nonces asked_world = {''n''}"
  using presenting_signs
  by (simp add: asked_world_def create_presentation_request_def andthen_def on_server_def fresh_token_def
      now_utc_def modify_def ok_def presenting_world_def wallet_world_def sample_world_def)

lemma wallet_audience: "credential_issuer wallet_issuer = ''op''"
  by code_simp

lemma answered_run:
  "validate_presentation presenting_services presenting_ports wallet_issuer (Some (JStr ''n'')) asked_world
     = (Inr (), answered_world)"
  using asked_nonce wallet_audience
  by (simp add: answered_world_def validate_presentation_def Let_def all_tokens_def nonempty_texts_def List.map_filter_simps
      verify_vp_token_def decode_now_def andthen_def on_server_def now_utc_def modify_def ok_def peek_def ensure_def
      presenting_services_def presenting_ports_def wallet_ports_def vp_algorithms_def
      jget_str_def)

lemma presenting_inj: "inj (w_rand (cw_server presenting_world))"
  by (auto simp: inj_def presenting_world_def dest: arg_cong [where f = length])

theorem presentation_accepted_once_witness:
  "fst (validate_presentation presenting_services presenting_ports wallet_issuer (Some (JList [JStr ''n'']))
     answered_world) = Inl invalid_presentation"
proof -
  have asked: "wallet_after presenting_services presenting_ports wallet_issuer presenting_world asked_world"
    by (rule wallet_after.further [OF wallet_after.start wallet_step.request]) (simp add: asked_world_def, rule surjective_pairing)
  have "cw_nonces presenting_world = {}" by (simp add: presenting_world_def wallet_world_def)
  moreover have "decodes_payload presenting_services presenting_ports"
    by (simp add: decodes_payload_def presenting_services_def presenting_ports_def)
  moreover have "''n'' \<in> set (all_tokens (Some (JStr ''n'')))" "''n'' \<in> set (all_tokens (Some (JList [JStr ''n''])))"
    by (simp_all add: all_tokens_def nonempty_texts_def List.map_filter_simps)
  ultimately show ?thesis
    using presentation_accepted_once [OF presenting_inj _ asked answered_run wallet_after.start] by blast
qed

end
